(* ===== verification/Prelude.thy ===== *)
theory Prelude
  imports Main
begin

text \<open>
  Shared foundations of the development: the exceptions the services raise, the
  transaction monad that models a \<open>DomainTransaction\<close> block of
  \<open>infinitemarkets/db.py\<close>, the process monad for code that runs between transactions,
  the SQL statements the services issue on a table held as a list of rows, and the
  rules by which a proof walks through a transaction.
\<close>

section \<open>Strings, identifiers and exceptions\<close>

type_synonym id = string
type_synonym bytes = string

text \<open>
  A Python \<open>str\<close> is held as the list of its UTF-8 bytes, so \<open>str.encode\<close> and
  \<open>bytes.decode\<close> are the identity. The exceptions keep the class and, for a
  \<open>ProblemError\<close>, the HTTP status and the bounded problem code; titles and detail
  sentences are presentation text and are left out.
\<close>

datatype error =
    ProblemError nat string
  | IllegalTransition
  | TransitionConflict
  | IntegrityError
  | LeaseLostError
  | RuntimeError
  | CryptoError
  | FxRejection string
  | CompatibilityError
  | InvalidOperation
  | OverflowError
  | ForeignError string
  | KeyError
  | TypeError
  | ValueError
  | AttributeError
  | KeystoreError
  | WrapRejection string

text \<open>\<open>type(exc).__name__\<close>.\<close>

definition error_name :: "error \<Rightarrow> string" where
  "error_name e = (case e of
     ProblemError _ _ \<Rightarrow> ''ProblemError'' | IllegalTransition \<Rightarrow> ''IllegalTransition''
   | TransitionConflict \<Rightarrow> ''TransitionConflict'' | IntegrityError \<Rightarrow> ''IntegrityError''
   | LeaseLostError \<Rightarrow> ''LeaseLostError'' | RuntimeError \<Rightarrow> ''RuntimeError''
   | CryptoError \<Rightarrow> ''CryptoError'' | FxRejection _ \<Rightarrow> ''FxRejection''
   | CompatibilityError \<Rightarrow> ''CompatibilityError'' | InvalidOperation \<Rightarrow> ''InvalidOperation''
   | OverflowError \<Rightarrow> ''OverflowError'' | ForeignError name \<Rightarrow> name | KeyError \<Rightarrow> ''KeyError''
   | TypeError \<Rightarrow> ''TypeError'' | ValueError \<Rightarrow> ''ValueError''
   | AttributeError \<Rightarrow> ''AttributeError'' | KeystoreError \<Rightarrow> ''KeystoreError''
   | WrapRejection _ \<Rightarrow> ''WrapRejection'')"

text \<open>Python's truth value of an optional string, and \<open>str\<close> of an integer.\<close>

definition truthy :: "string option \<Rightarrow> bool" where
  "truthy v \<longleftrightarrow> (case v of None \<Rightarrow> False | Some x \<Rightarrow> x \<noteq> [])"

fun str_nat :: "nat \<Rightarrow> string" where
  "str_nat n = (if n < 10 then [] else str_nat (n div 10)) @ [char_of (48 + n mod 10)]"

declare str_nat.simps [simp del]

definition str_int :: "int \<Rightarrow> string" where
  "str_int i = (if i < 0 then ''-'' @ str_nat (nat (- i)) else str_nat (nat i))"

text \<open>
  Where the code counts or cuts characters, the bytes \<open>10xxxxxx\<close> that continue a character of
  the UTF-8 form are not counted.
\<close>

definition continuation :: "char \<Rightarrow> bool" where
  "continuation c \<longleftrightarrow> 128 \<le> (of_char c :: nat) \<and> (of_char c :: nat) < 192"

definition chars :: "string \<Rightarrow> nat" where
  "chars s = length (filter (\<lambda>c. \<not> continuation c) s)"

fun take_chars :: "nat \<Rightarrow> string \<Rightarrow> string" where
  "take_chars n [] = []"
| "take_chars n (c # cs) = (if continuation c then c # take_chars n cs
     else case n of 0 \<Rightarrow> [] | Suc m \<Rightarrow> c # take_chars m cs)"

lemma chars_take_chars: "chars (take_chars n s) \<le> n"
  by (induction n s rule: take_chars.induct) (auto simp: chars_def split: nat.split)

named_theorems evals "definitions to unfold when a run on a concrete database is evaluated"

section \<open>Fallible reads\<close>

text \<open>Code that reads and raises but writes nothing is a function into \<open>error + 'a\<close>.\<close>

definition try_bind :: "'e + 'a \<Rightarrow> ('a \<Rightarrow> 'e + 'b) \<Rightarrow> 'e + 'b" where
  "try_bind r f = (case r of Inl e \<Rightarrow> Inl e | Inr a \<Rightarrow> f a)"

definition try_require :: "bool \<Rightarrow> 'e \<Rightarrow> 'e + unit" where
  "try_require b e = (if b then Inr () else Inl e)"

fun try_fold :: "('b \<Rightarrow> 'x \<Rightarrow> 'e + 'b) \<Rightarrow> 'b \<Rightarrow> 'x list \<Rightarrow> 'e + 'b" where
  "try_fold f acc [] = Inr acc"
| "try_fold f acc (x # xs) = try_bind (f acc x) (\<lambda>acc'. try_fold f acc' xs)"

definition try_map_error :: "('e \<Rightarrow> 'e) \<Rightarrow> 'e + 'a \<Rightarrow> 'e + 'a" where
  "try_map_error h r = (case r of Inl e \<Rightarrow> Inl (h e) | Inr a \<Rightarrow> Inr a)"

lemma try_bind_Inr [simp]: "try_bind r f = Inr b \<longleftrightarrow> (\<exists>a. r = Inr a \<and> f a = Inr b)"
  by (auto simp: try_bind_def split: sum.splits)

lemma try_require_Inr [simp]: "try_require b e = Inr u \<longleftrightarrow> b"
  by (simp add: try_require_def)

lemma try_map_error_Inr [simp]: "try_map_error h r = Inr a \<longleftrightarrow> r = Inr a"
  by (auto simp: try_map_error_def split: sum.splits)

lemma try_fold_inv:
  assumes "try_fold f acc xs = Inr b" "P acc" "\<And>a x a'. P a \<Longrightarrow> x \<in> set xs \<Longrightarrow> f a x = Inr a' \<Longrightarrow> P a'"
  shows "P b"
  using assms
proof (induction xs arbitrary: acc)
  case Nil
  then show ?case by simp
next
  case (Cons x xs)
  from Cons.prems(1) obtain a where a: "f acc x = Inr a" "try_fold f a xs = Inr b" by auto
  have "P a" using Cons.prems(2,3) a(1) by (meson list.set_intros(1))
  then show ?case using Cons.IH [OF a(2)] Cons.prems(3) by (meson list.set_intros(2))
qed

section \<open>The transaction monad\<close>

text \<open>
  The body of an \<open>async with DomainTransaction() as tx\<close> block: it reads and writes the
  database and either raises or returns. A raised exception carries no state, because the
  transaction rolls back.
\<close>

type_synonym ('s, 'a) tx = "'s \<Rightarrow> error + 'a \<times> 's"

definition tx_return :: "'a \<Rightarrow> ('s, 'a) tx" where
  "tx_return a = (\<lambda>s. Inr (a, s))"

definition tx_raise :: "error \<Rightarrow> ('s, 'a) tx" where
  "tx_raise e = (\<lambda>s. Inl e)"

definition tx_bind :: "('s, 'a) tx \<Rightarrow> ('a \<Rightarrow> ('s, 'b) tx) \<Rightarrow> ('s, 'b) tx" where
  "tx_bind m f = (\<lambda>s. case m s of Inl e \<Rightarrow> Inl e | Inr (a, s') \<Rightarrow> f a s')"

definition tx_get :: "('s \<Rightarrow> 'a) \<Rightarrow> ('s, 'a) tx" where
  "tx_get f = (\<lambda>s. Inr (f s, s))"

definition tx_modify :: "('s \<Rightarrow> 's) \<Rightarrow> ('s, unit) tx" where
  "tx_modify f = (\<lambda>s. Inr ((), f s))"

definition tx_seq :: "('s, 'a) tx \<Rightarrow> ('s, 'b) tx \<Rightarrow> ('s, 'b) tx" where
  "tx_seq m k = tx_bind m (\<lambda>_. k)"

definition tx_when :: "bool \<Rightarrow> ('s, unit) tx \<Rightarrow> ('s, unit) tx" where
  "tx_when b m = (if b then m else tx_return ())"

definition tx_assert :: "bool \<Rightarrow> error \<Rightarrow> ('s, unit) tx" where
  "tx_assert b e = (if b then tx_return () else tx_raise e)"

definition tx_lift :: "error + 'a \<Rightarrow> ('s, 'a) tx" where
  "tx_lift r = (case r of Inl e \<Rightarrow> tx_raise e | Inr a \<Rightarrow> tx_return a)"

text \<open>A statement whose row count is not looked at, and \<open>except ... raise ... from\<close>.\<close>

definition tx_ignore :: "('s, 'a) tx \<Rightarrow> ('s, unit) tx" where
  "tx_ignore m = tx_bind m (\<lambda>_. tx_return ())"

definition tx_map_error :: "(error \<Rightarrow> error) \<Rightarrow> ('s, 'a) tx \<Rightarrow> ('s, 'a) tx" where
  "tx_map_error h m = (\<lambda>s. case m s of Inl e \<Rightarrow> Inl (h e) | Inr r \<Rightarrow> Inr r)"

text \<open>A \<open>for\<close> loop, and one that carries an accumulator.\<close>

fun tx_fold :: "('b \<Rightarrow> 'x \<Rightarrow> ('s, 'b) tx) \<Rightarrow> 'b \<Rightarrow> 'x list \<Rightarrow> ('s, 'b) tx" where
  "tx_fold f acc [] = tx_return acc"
| "tx_fold f acc (x # xs) = tx_bind (f acc x) (\<lambda>acc'. tx_fold f acc' xs)"

fun tx_for :: "'x list \<Rightarrow> ('x \<Rightarrow> ('s, unit) tx) \<Rightarrow> ('s, unit) tx" where
  "tx_for [] f = tx_return ()"
| "tx_for (x # xs) f = tx_seq (f x) (tx_for xs f)"

named_theorems tx_defs "definitions of the transaction combinators"

lemmas [tx_defs] = tx_return_def tx_raise_def tx_bind_def tx_get_def tx_modify_def
  tx_seq_def tx_when_def tx_assert_def tx_lift_def tx_ignore_def tx_map_error_def

lemma tx_bind_Inr:
  "tx_bind m f s = Inr (b, t) \<longleftrightarrow> (\<exists>a u. m s = Inr (a, u) \<and> f a u = Inr (b, t))"
  by (auto simp: tx_bind_def split: sum.splits)

lemma tx_seq_Inr:
  "tx_seq m k s = Inr (b, t) \<longleftrightarrow> (\<exists>a u. m s = Inr (a, u) \<and> k u = Inr (b, t))"
  by (simp add: tx_seq_def tx_bind_Inr)

lemma tx_return_Inr [simp]: "tx_return a s = Inr (b, t) \<longleftrightarrow> b = a \<and> t = s"
  by (auto simp: tx_return_def)

lemma tx_raise_Inr [simp]: "tx_raise e s \<noteq> Inr x"
  by (simp add: tx_raise_def)

lemma tx_get_Inr [simp]: "tx_get f s = Inr (b, t) \<longleftrightarrow> b = f s \<and> t = s"
  by (auto simp: tx_get_def)

lemma tx_modify_Inr [simp]: "tx_modify f s = Inr (b, t) \<longleftrightarrow> t = f s"
  by (auto simp: tx_modify_def)

lemma tx_assert_Inr [simp]: "tx_assert b e s = Inr (x, t) \<longleftrightarrow> b \<and> t = s"
  by (auto simp: tx_assert_def)

lemma tx_when_Inr:
  "tx_when b m s = Inr (x, t) \<longleftrightarrow> (if b then m s = Inr (x, t) else t = s)"
  by (auto simp: tx_when_def)

lemma tx_lift_Inr [simp]: "tx_lift r s = Inr (x, t) \<longleftrightarrow> r = Inr x \<and> t = s"
  by (auto simp: tx_lift_def split: sum.splits)

lemma tx_ignore_Inr: "tx_ignore m s = Inr (u, t) \<longleftrightarrow> (\<exists>a. m s = Inr (a, t))"
  by (auto simp: tx_ignore_def tx_bind_Inr)

lemma tx_map_error_Inr [simp]: "tx_map_error h m s = Inr x \<longleftrightarrow> m s = Inr x"
  by (auto simp: tx_map_error_def split: sum.splits)

lemmas tx_Inr = tx_bind_Inr tx_seq_Inr tx_when_Inr tx_ignore_Inr

text \<open>From an evaluated run to its result and final state.\<close>

lemma run_ex: "(case r of Inl _ \<Rightarrow> False | Inr (a, t) \<Rightarrow> P a t) \<Longrightarrow> \<exists>a t. r = Inr (a, t) \<and> P a t"
  by (auto split: sum.splits)

section \<open>Proof rules for transactions\<close>

text \<open>
  \<open>tx_hoare P m Q\<close>: started in a state with \<open>P\<close>, a run of \<open>m\<close> that commits
  ends with \<open>Q\<close> of its result and state. \<open>tx_inv I m\<close>: a committed run keeps
  \<open>I\<close>. \<open>tx_keeps f m\<close>: a committed run leaves the view \<open>f\<close> of the state
  unchanged (a frame).
\<close>

definition tx_hoare :: "('s \<Rightarrow> bool) \<Rightarrow> ('s, 'a) tx \<Rightarrow> ('a \<Rightarrow> 's \<Rightarrow> bool) \<Rightarrow> bool" where
  "tx_hoare P m Q \<longleftrightarrow> (\<forall>s a t. P s \<longrightarrow> m s = Inr (a, t) \<longrightarrow> Q a t)"

definition tx_inv :: "('s \<Rightarrow> bool) \<Rightarrow> ('s, 'a) tx \<Rightarrow> bool" where
  "tx_inv I m \<longleftrightarrow> tx_hoare I m (\<lambda>_. I)"

definition tx_keeps :: "('s \<Rightarrow> 'v) \<Rightarrow> ('s, 'a) tx \<Rightarrow> bool" where
  "tx_keeps f m \<longleftrightarrow> (\<forall>s a t. m s = Inr (a, t) \<longrightarrow> f t = f s)"

named_theorems keeps "frame rules: what a transaction leaves unchanged"

lemma tx_hoareI: "(\<And>s a t. P s \<Longrightarrow> m s = Inr (a, t) \<Longrightarrow> Q a t) \<Longrightarrow> tx_hoare P m Q"
  by (auto simp: tx_hoare_def)

lemma tx_hoareD: "tx_hoare P m Q \<Longrightarrow> P s \<Longrightarrow> m s = Inr (a, t) \<Longrightarrow> Q a t"
  by (auto simp: tx_hoare_def)

lemma tx_invI: "(\<And>s a t. I s \<Longrightarrow> m s = Inr (a, t) \<Longrightarrow> I t) \<Longrightarrow> tx_inv I m"
  by (auto simp: tx_inv_def tx_hoare_def)

lemma tx_invD: "tx_inv I m \<Longrightarrow> I s \<Longrightarrow> m s = Inr (a, t) \<Longrightarrow> I t"
  by (auto simp: tx_inv_def tx_hoare_def)

lemma tx_keepsI: "(\<And>s a t. m s = Inr (a, t) \<Longrightarrow> f t = f s) \<Longrightarrow> tx_keeps f m"
  by (auto simp: tx_keeps_def)

lemma tx_keepsD: "tx_keeps f m \<Longrightarrow> m s = Inr (a, t) \<Longrightarrow> f t = f s"
  by (auto simp: tx_keeps_def)

lemma tx_keeps_inv: "tx_keeps f m \<Longrightarrow> tx_inv (\<lambda>s. I (f s)) m"
  by (auto simp: tx_keeps_def tx_inv_def tx_hoare_def)

lemma tx_keeps_return [keeps, intro!]: "tx_keeps f (tx_return a)"
  by (rule tx_keepsI) simp

lemma tx_keeps_raise [keeps, intro!]: "tx_keeps f (tx_raise e)"
  by (rule tx_keepsI) simp

lemma tx_keeps_get [keeps, intro!]: "tx_keeps f (tx_get g)"
  by (rule tx_keepsI) simp

lemma tx_keeps_assert [keeps, intro!]: "tx_keeps f (tx_assert b e)"
  by (rule tx_keepsI) simp

lemma tx_keeps_lift [keeps, intro!]: "tx_keeps f (tx_lift r)"
  by (rule tx_keepsI) simp

lemma tx_keeps_bind [keeps]:
  "tx_keeps f m \<Longrightarrow> (\<And>a. tx_keeps f (k a)) \<Longrightarrow> tx_keeps f (tx_bind m k)"
  by (force simp: tx_keeps_def tx_bind_Inr)

lemma tx_keeps_seq [keeps]:
  "tx_keeps f m \<Longrightarrow> tx_keeps f k \<Longrightarrow> tx_keeps f (tx_seq m k)"
  by (force simp: tx_keeps_def tx_seq_Inr)

lemma tx_keeps_ignore [keeps]: "tx_keeps f m \<Longrightarrow> tx_keeps f (tx_ignore m)"
  by (force simp: tx_keeps_def tx_ignore_Inr)

lemma tx_keeps_map_error [keeps]: "tx_keeps f m \<Longrightarrow> tx_keeps f (tx_map_error h m)"
  by (auto simp: tx_keeps_def)

lemma tx_keeps_when [keeps]: "tx_keeps f m \<Longrightarrow> tx_keeps f (tx_when b m)"
  by (auto simp: tx_when_def)

lemma tx_keeps_if [keeps]:
  "tx_keeps f m \<Longrightarrow> tx_keeps f k \<Longrightarrow> tx_keeps f (if b then m else k)"
  by auto

lemma tx_keeps_option [keeps]:
  "tx_keeps f m \<Longrightarrow> (\<And>x. tx_keeps f (k x)) \<Longrightarrow> tx_keeps f (case v of None \<Rightarrow> m | Some x \<Rightarrow> k x)"
  by (cases v) auto

lemma tx_keeps_prod [keeps]:
  "(\<And>a b. tx_keeps f (k a b)) \<Longrightarrow> tx_keeps f (case v of (a, b) \<Rightarrow> k a b)"
  by (cases v) auto

lemma tx_keeps_fold [keeps]:
  "(\<And>b x. tx_keeps f (g b x)) \<Longrightarrow> tx_keeps f (tx_fold g acc xs)"
  by (induction xs arbitrary: acc) (auto intro!: tx_keeps_bind)

lemma tx_keeps_for [keeps]:
  "(\<And>x. tx_keeps f (g x)) \<Longrightarrow> tx_keeps f (tx_for xs g)"
  by (induction xs) (auto intro!: tx_keeps_seq)

lemma tx_inv_return: "tx_inv I (tx_return a)"
  by (rule tx_invI) simp

lemma tx_inv_bind:
  "tx_inv I m \<Longrightarrow> (\<And>a. tx_inv I (k a)) \<Longrightarrow> tx_inv I (tx_bind m k)"
  by (rule tx_invI) (auto simp: tx_bind_Inr dest: tx_invD)

lemma tx_inv_seq: "tx_inv I m \<Longrightarrow> tx_inv I k \<Longrightarrow> tx_inv I (tx_seq m k)"
  by (rule tx_invI) (auto simp: tx_seq_Inr dest: tx_invD)

lemma tx_inv_ignore: "tx_inv I m \<Longrightarrow> tx_inv I (tx_ignore m)"
  by (rule tx_invI) (auto simp: tx_ignore_Inr dest: tx_invD)

lemma tx_inv_when: "tx_inv I m \<Longrightarrow> tx_inv I (tx_when b m)"
  by (auto simp: tx_when_def intro: tx_inv_return)

lemma tx_inv_map_error: "tx_inv I m \<Longrightarrow> tx_inv I (tx_map_error h m)"
  by (rule tx_invI) (auto dest: tx_invD)

lemma tx_inv_read: "(\<And>s. m s = Inl e \<or> (\<exists>a. m s = Inr (a, s))) \<Longrightarrow> tx_inv I m"
  by (rule tx_invI) (metis Inl_Inr_False Inr_inject prod.inject)

lemma tx_inv_if: "tx_inv I m \<Longrightarrow> tx_inv I k \<Longrightarrow> tx_inv I (if b then m else k)"
  by simp

lemma tx_inv_option:
  "tx_inv I m \<Longrightarrow> (\<And>x. tx_inv I (k x)) \<Longrightarrow> tx_inv I (case v of None \<Rightarrow> m | Some x \<Rightarrow> k x)"
  by (cases v) auto

lemma tx_inv_for:
  "(\<And>x. x \<in> set xs \<Longrightarrow> tx_inv I (g x)) \<Longrightarrow> tx_inv I (tx_for xs g)"
  by (induction xs) (auto intro!: tx_inv_seq tx_inv_return)

lemma tx_inv_fold: "(\<And>b x. tx_inv I (g b x)) \<Longrightarrow> tx_inv I (tx_fold g acc xs)"
  by (induction xs arbitrary: acc) (auto intro!: tx_inv_bind tx_inv_return)

text \<open>A loop that carries an invariant indexed by the part of the list still to run.\<close>

lemma tx_for_hoare:
  assumes step: "\<And>x ys s a t. P (x # ys) s \<Longrightarrow> g x s = Inr (a, t) \<Longrightarrow> P ys t"
    and run: "tx_for xs g s = Inr (a, t)" and init: "P xs s"
  shows "P [] t"
  using run init
proof (induction xs arbitrary: s)
  case Nil
  then show ?case by simp
next
  case (Cons x xs)
  then show ?case by (auto simp: tx_seq_Inr dest: step)
qed

lemma tx_fold_hoare:
  assumes step: "\<And>b x ys s c t. P b (x # ys) s \<Longrightarrow> g b x s = Inr (c, t) \<Longrightarrow> P c ys t"
    and run: "tx_fold g b xs s = Inr (c, t)" and init: "P b xs s"
  shows "P c [] t"
  using run init
proof (induction xs arbitrary: b s)
  case Nil
  then show ?case by simp
next
  case (Cons x xs)
  then show ?case by (auto simp: tx_bind_Inr dest: step)
qed

section \<open>Transactions and processes\<close>

text \<open>
  Code outside a transaction is a process: an exception it raises leaves behind what its
  earlier transactions committed. \<open>commit\<close> runs a transaction body as one step of a
  process: all of it, or nothing.
\<close>

type_synonym ('s, 'a) proc = "'s \<Rightarrow> (error + 'a) \<times> 's"

definition commit :: "('s, 'a) tx \<Rightarrow> ('s, 'a) proc" where
  "commit m = (\<lambda>s. case m s of Inl e \<Rightarrow> (Inl e, s) | Inr (a, t) \<Rightarrow> (Inr a, t))"

definition pr_return :: "'a \<Rightarrow> ('s, 'a) proc" where
  "pr_return a = (\<lambda>s. (Inr a, s))"

definition pr_raise :: "error \<Rightarrow> ('s, 'a) proc" where
  "pr_raise e = (\<lambda>s. (Inl e, s))"

definition pr_get :: "('s \<Rightarrow> 'a) \<Rightarrow> ('s, 'a) proc" where
  "pr_get f = (\<lambda>s. (Inr (f s), s))"

definition pr_bind :: "('s, 'a) proc \<Rightarrow> ('a \<Rightarrow> ('s, 'b) proc) \<Rightarrow> ('s, 'b) proc" where
  "pr_bind m f = (\<lambda>s. case m s of (Inl e, t) \<Rightarrow> (Inl e, t) | (Inr a, t) \<Rightarrow> f a t)"

definition pr_catch :: "('s, 'a) proc \<Rightarrow> (error \<Rightarrow> ('s, 'a) proc) \<Rightarrow> ('s, 'a) proc" where
  "pr_catch m h = (\<lambda>s. case m s of (Inl e, t) \<Rightarrow> h e t | (Inr a, t) \<Rightarrow> (Inr a, t))"

definition pr_lift :: "error + 'a \<Rightarrow> ('s, 'a) proc" where
  "pr_lift r = (case r of Inl e \<Rightarrow> pr_raise e | Inr a \<Rightarrow> pr_return a)"

fun pr_fold :: "('b \<Rightarrow> 'x \<Rightarrow> ('s, 'b) proc) \<Rightarrow> 'b \<Rightarrow> 'x list \<Rightarrow> ('s, 'b) proc" where
  "pr_fold f acc [] = pr_return acc"
| "pr_fold f acc (x # xs) = pr_bind (f acc x) (\<lambda>acc'. pr_fold f acc' xs)"

named_theorems pr_defs "definitions of the process combinators"

lemmas [pr_defs] = commit_def pr_return_def pr_raise_def pr_get_def pr_bind_def pr_catch_def

text \<open>The runs of a process that return.\<close>

lemma pr_bind_Inr:
  "pr_bind m f s = (Inr b, t) \<longleftrightarrow> (\<exists>a u. m s = (Inr a, u) \<and> f a u = (Inr b, t))"
  by (auto simp: pr_bind_def split: prod.splits sum.splits)

lemma commit_Inr: "commit m s = (Inr a, t) \<longleftrightarrow> m s = Inr (a, t)"
  by (auto simp: commit_def split: sum.splits)

lemma pr_return_Inr: "pr_return a s = (Inr b, t) \<longleftrightarrow> b = a \<and> t = s"
  by (auto simp: pr_return_def)

lemma pr_raise_Inr: "pr_raise e s \<noteq> (Inr b, t)"
  by (simp add: pr_raise_def)

lemma pr_get_Inr: "pr_get f s = (Inr b, t) \<longleftrightarrow> b = f s \<and> t = s"
  by (auto simp: pr_get_def)

lemma pr_catch_Inr: "pr_catch m h s = (Inr b, t) \<longleftrightarrow>
    m s = (Inr b, t) \<or> (\<exists>e u. m s = (Inl e, u) \<and> h e u = (Inr b, t))"
  by (auto simp: pr_catch_def split: prod.splits sum.splits)

lemmas pr_Inr = pr_bind_Inr commit_Inr pr_return_Inr pr_raise_Inr pr_get_Inr pr_catch_Inr

definition pr_inv :: "('s \<Rightarrow> bool) \<Rightarrow> ('s, 'a) proc \<Rightarrow> bool" where
  "pr_inv I m \<longleftrightarrow> (\<forall>s. I s \<longrightarrow> I (snd (m s)))"

text \<open>
  \<open>tx_yields P m\<close>, \<open>pr_yields P m\<close>: whatever a run that returns gives back satisfies \<open>P\<close>.
\<close>

definition tx_yields :: "('a \<Rightarrow> bool) \<Rightarrow> ('s, 'a) tx \<Rightarrow> bool" where
  "tx_yields P m \<longleftrightarrow> (\<forall>s a t. m s = Inr (a, t) \<longrightarrow> P a)"

definition pr_yields :: "('a \<Rightarrow> bool) \<Rightarrow> ('s, 'a) proc \<Rightarrow> bool" where
  "pr_yields P m \<longleftrightarrow> (\<forall>s a t. m s = (Inr a, t) \<longrightarrow> P a)"

named_theorems yields "rules: what a transaction or process returns"

lemma tx_yieldsD: "tx_yields P m \<Longrightarrow> m s = Inr (a, t) \<Longrightarrow> P a"
  by (auto simp: tx_yields_def)

lemma pr_yieldsD: "pr_yields P m \<Longrightarrow> m s = (Inr a, t) \<Longrightarrow> P a"
  by (auto simp: pr_yields_def)

lemma tx_yields_rules [yields]:
  "P a \<Longrightarrow> tx_yields P (tx_return a)"
  "tx_yields P (tx_raise e)"
  "(\<And>a. tx_yields P (k a)) \<Longrightarrow> tx_yields P (tx_bind m k)"
  "tx_yields P k' \<Longrightarrow> tx_yields P (tx_seq m k')"
  "tx_yields P m1 \<Longrightarrow> tx_yields P m2 \<Longrightarrow> tx_yields P (if b then m1 else m2)"
  "tx_yields P m1 \<Longrightarrow> (\<And>x. tx_yields P (k x)) \<Longrightarrow> tx_yields P (case v of None \<Rightarrow> m1 | Some x \<Rightarrow> k x)"
  "(\<And>x y. tx_yields P (h x y)) \<Longrightarrow> tx_yields P (case q of (x, y) \<Rightarrow> h x y)"
  by (auto simp: tx_yields_def tx_bind_Inr tx_seq_Inr split: option.splits prod.splits)

lemma pr_yields_rules [yields]:
  "P a \<Longrightarrow> pr_yields P (pr_return a)"
  "pr_yields P (pr_raise e)"
  "(\<And>a. pr_yields P (k a)) \<Longrightarrow> pr_yields P (pr_bind m k)"
  "tx_yields P n \<Longrightarrow> pr_yields P (commit n)"
  "pr_yields P m1 \<Longrightarrow> pr_yields P m2 \<Longrightarrow> pr_yields P (if b then m1 else m2)"
  "pr_yields P m1 \<Longrightarrow> (\<And>x. pr_yields P (k x)) \<Longrightarrow> pr_yields P (case v of None \<Rightarrow> m1 | Some x \<Rightarrow> k x)"
  "(\<And>x y. pr_yields P (h x y)) \<Longrightarrow> pr_yields P (case q of (x, y) \<Rightarrow> h x y)"
  "pr_yields P m1 \<Longrightarrow> (\<And>e. pr_yields P (c e)) \<Longrightarrow> pr_yields P (pr_catch m1 c)"
  by (fastforce simp: tx_yields_def pr_yields_def pr_Inr split: option.splits prod.splits)+

named_theorems pr_invs "invariant rules for processes"

lemma pr_invI: "(\<And>s. I s \<Longrightarrow> I (snd (m s))) \<Longrightarrow> pr_inv I m"
  by (simp add: pr_inv_def)

lemma pr_invD: "pr_inv I m \<Longrightarrow> I s \<Longrightarrow> I (snd (m s))"
  by (simp add: pr_inv_def)

lemma pr_inv_commit [pr_invs]: "tx_inv I m \<Longrightarrow> pr_inv I (commit m)"
  by (rule pr_invI) (auto simp: commit_def dest: tx_invD split: sum.splits)

lemma pr_inv_return [pr_invs, intro!]: "pr_inv I (pr_return a)"
  by (simp add: pr_inv_def pr_return_def)

lemma pr_inv_raise [pr_invs, intro!]: "pr_inv I (pr_raise e)"
  by (simp add: pr_inv_def pr_raise_def)

lemma pr_inv_get [pr_invs, intro!]: "pr_inv I (pr_get f)"
  by (simp add: pr_inv_def pr_get_def)

lemma pr_inv_bind [pr_invs]:
  assumes "pr_inv I m" and "\<And>a. pr_inv I (k a)"
  shows "pr_inv I (pr_bind m k)"
proof (rule pr_invI)
  fix s assume "I s"
  then have "I (snd (m s))" using assms(1) by (rule pr_invD[rotated])
  then show "I (snd (pr_bind m k s))"
    using assms(2) by (auto simp: pr_bind_def pr_inv_def split: prod.splits sum.splits)
qed

lemma pr_inv_catch [pr_invs]:
  assumes "pr_inv I m" and "\<And>e. pr_inv I (h e)"
  shows "pr_inv I (pr_catch m h)"
proof (rule pr_invI)
  fix s assume "I s"
  then have "I (snd (m s))" using assms(1) by (rule pr_invD[rotated])
  then show "I (snd (pr_catch m h s))"
    using assms(2) by (auto simp: pr_catch_def pr_inv_def split: prod.splits sum.splits)
qed

lemma pr_inv_if [pr_invs]:
  "pr_inv I m \<Longrightarrow> pr_inv I k \<Longrightarrow> pr_inv I (if b then m else k)"
  by simp

lemma pr_inv_option [pr_invs]:
  "pr_inv I m \<Longrightarrow> (\<And>x. pr_inv I (k x)) \<Longrightarrow> pr_inv I (case v of None \<Rightarrow> m | Some x \<Rightarrow> k x)"
  by (cases v) auto

lemma pr_inv_fold [pr_invs]:
  "(\<And>b x. pr_inv I (f b x)) \<Longrightarrow> pr_inv I (pr_fold f acc xs)"
  by (induction xs arbitrary: acc) (auto intro!: pr_inv_bind)

section \<open>SQL statements on a table\<close>

text \<open>
  A table is a list of rows in insertion order, reached through the record's selector
  \<open>get\<close> and its update function \<open>upd\<close>. \<open>UPDATE\<close> and \<open>DELETE\<close> return the row
  count; a statement whose result breaks the table's constraints (\<open>ok\<close>, evaluated on
  the whole new state so that foreign keys can be checked) raises \<open>IntegrityError\<close>.
  A comparison with NULL is not true, so a \<open>WHERE\<close> clause spells out the
  \<open>None\<close> case of a nullable column.
\<close>

definition sql_all :: "('s \<Rightarrow> 'r list) \<Rightarrow> ('r \<Rightarrow> bool) \<Rightarrow> ('s, 'r list) tx" where
  "sql_all get P = tx_get (\<lambda>s. filter P (get s))"

definition sql_one :: "('s \<Rightarrow> 'r list) \<Rightarrow> ('r \<Rightarrow> bool) \<Rightarrow> ('s, 'r option) tx" where
  "sql_one get P = tx_get (\<lambda>s. List.find P (get s))"

definition sql_count :: "('s \<Rightarrow> 'r list) \<Rightarrow> ('r \<Rightarrow> bool) \<Rightarrow> ('s, nat) tx" where
  "sql_count get P = tx_get (\<lambda>s. length (filter P (get s)))"

definition upd_rows :: "('r \<Rightarrow> bool) \<Rightarrow> ('r \<Rightarrow> 'r) \<Rightarrow> 'r list \<Rightarrow> 'r list" where
  "upd_rows P f rows = map (\<lambda>r. if P r then f r else r) rows"

definition sql_update :: "('s \<Rightarrow> 'r list) \<Rightarrow> (('r list \<Rightarrow> 'r list) \<Rightarrow> 's \<Rightarrow> 's) \<Rightarrow>
    ('s \<Rightarrow> bool) \<Rightarrow> ('r \<Rightarrow> bool) \<Rightarrow> ('r \<Rightarrow> 'r) \<Rightarrow> ('s, nat) tx" where
  "sql_update get upd ok P f = (\<lambda>s.
     (let t = upd (upd_rows P f) s
      in if ok t then Inr (length (filter P (get s)), t) else Inl IntegrityError))"

definition sql_insert :: "(('r list \<Rightarrow> 'r list) \<Rightarrow> 's \<Rightarrow> 's) \<Rightarrow> ('s \<Rightarrow> bool) \<Rightarrow> 'r \<Rightarrow> ('s, unit) tx" where
  "sql_insert upd ok row = (\<lambda>s.
     (let t = upd (\<lambda>rows. rows @ [row]) s in if ok t then Inr ((), t) else Inl IntegrityError))"

text \<open>\<open>INSERT ... ON CONFLICT DO NOTHING\<close>: no row is added when the constraint would break.\<close>

definition sql_insert_ignore :: "(('r list \<Rightarrow> 'r list) \<Rightarrow> 's \<Rightarrow> 's) \<Rightarrow> ('s \<Rightarrow> bool) \<Rightarrow> 'r \<Rightarrow> ('s, nat) tx" where
  "sql_insert_ignore upd ok row = (\<lambda>s.
     (let t = upd (\<lambda>rows. rows @ [row]) s in if ok t then Inr (1, t) else Inr (0, s)))"

definition sql_delete :: "('s \<Rightarrow> 'r list) \<Rightarrow> (('r list \<Rightarrow> 'r list) \<Rightarrow> 's \<Rightarrow> 's) \<Rightarrow> ('r \<Rightarrow> bool) \<Rightarrow> ('s, nat) tx" where
  "sql_delete get upd P = (\<lambda>s. Inr (length (filter P (get s)), upd (filter (\<lambda>r. \<not> P r)) s))"

lemma sql_all_Inr [simp]: "sql_all get P s = Inr (rs, t) \<longleftrightarrow> rs = filter P (get s) \<and> t = s"
  by (simp add: sql_all_def)

lemma sql_one_Inr [simp]: "sql_one get P s = Inr (r, t) \<longleftrightarrow> r = List.find P (get s) \<and> t = s"
  by (simp add: sql_one_def)

lemma sql_count_Inr [simp]:
  "sql_count get P s = Inr (n, t) \<longleftrightarrow> n = length (filter P (get s)) \<and> t = s"
  by (simp add: sql_count_def)

lemma sql_update_Inr:
  "sql_update get upd ok P f s = Inr (n, t) \<longleftrightarrow>
     n = length (filter P (get s)) \<and> t = upd (upd_rows P f) s \<and> ok t"
  by (auto simp: sql_update_def Let_def)

lemma sql_insert_Inr:
  "sql_insert upd ok row s = Inr (u, t) \<longleftrightarrow> t = upd (\<lambda>rows. rows @ [row]) s \<and> ok t"
  by (auto simp: sql_insert_def Let_def)

lemma sql_insert_ignore_Inr:
  "sql_insert_ignore upd ok row s = Inr (n, t) \<longleftrightarrow>
     (if ok (upd (\<lambda>rows. rows @ [row]) s) then n = 1 \<and> t = upd (\<lambda>rows. rows @ [row]) s
      else n = 0 \<and> t = s)"
  by (auto simp: sql_insert_ignore_def Let_def)

lemma sql_delete_Inr:
  "sql_delete get upd P s = Inr (n, t) \<longleftrightarrow>
     n = length (filter P (get s)) \<and> t = upd (filter (\<lambda>r. \<not> P r)) s"
  by (auto simp: sql_delete_def)

lemmas sql_Inr = sql_update_Inr sql_insert_Inr sql_insert_ignore_Inr sql_delete_Inr

lemma keeps_sql_all [keeps, intro!]: "tx_keeps f (sql_all get P)"
  and keeps_sql_one [keeps, intro!]: "tx_keeps f (sql_one get P)"
  and keeps_sql_count [keeps, intro!]: "tx_keeps f (sql_count get P)"
  by (auto intro: tx_keepsI)

lemma keeps_sql_update:
  "(\<And>g s. f (upd g s) = f s) \<Longrightarrow> tx_keeps f (sql_update get upd ok P h)"
  by (rule tx_keepsI) (auto simp: sql_Inr)

lemma keeps_sql_insert:
  "(\<And>g s. f (upd g s) = f s) \<Longrightarrow> tx_keeps f (sql_insert upd ok row)"
  by (rule tx_keepsI) (auto simp: sql_Inr)

lemma keeps_sql_insert_ignore:
  "(\<And>g s. f (upd g s) = f s) \<Longrightarrow> tx_keeps f (sql_insert_ignore upd ok row)"
  by (rule tx_keepsI) (auto simp: sql_Inr split: if_splits)

lemma keeps_sql_delete:
  "(\<And>g s. f (upd g s) = f s) \<Longrightarrow> tx_keeps f (sql_delete get upd P)"
  by (rule tx_keepsI) (auto simp: sql_Inr)

lemmas keeps_sql = keeps_sql_update keeps_sql_insert keeps_sql_insert_ignore keeps_sql_delete

section \<open>Lists of rows\<close>

lemma length_upd_rows [simp]: "length (upd_rows P f rows) = length rows"
  by (simp add: upd_rows_def)

lemma upd_rows_Nil [simp]: "upd_rows P f [] = []"
  and upd_rows_Cons: "upd_rows P f (r # rows) = (if P r then f r else r) # upd_rows P f rows"
  by (simp_all add: upd_rows_def)

lemma map_upd_rows:
  "(\<And>r. P r \<Longrightarrow> g (f r) = g r) \<Longrightarrow> map g (upd_rows P f rows) = map g rows"
  by (auto simp: upd_rows_def)

lemma set_upd_rows: "set (upd_rows P f rows) = (\<lambda>r. if P r then f r else r) ` set rows"
  by (simp add: upd_rows_def)

lemma upd_rows_None: "(\<And>r. r \<in> set rows \<Longrightarrow> \<not> P r) \<Longrightarrow> upd_rows P f rows = rows"
  by (induction rows) (auto simp: upd_rows_Cons)

lemma upd_rows_cong:
  "(\<And>r. r \<in> set rows \<Longrightarrow> P r \<longleftrightarrow> Q r) \<Longrightarrow> upd_rows P f rows = upd_rows Q f rows"
  by (simp add: upd_rows_def)

lemma upd_rows_filter: "upd_rows (\<lambda>r. r \<in> set (filter P rows)) f rows = upd_rows P f rows"
  by (rule upd_rows_cong) simp

lemma find_SomeD: "List.find P xs = Some x \<Longrightarrow> x \<in> set xs \<and> P x"
  by (auto simp: find_Some_iff)

lemma find_NoneD: "List.find P xs = None \<Longrightarrow> x \<in> set xs \<Longrightarrow> \<not> P x"
  by (auto simp: find_None_iff)

lemma find_ex: "x \<in> set xs \<Longrightarrow> P x \<Longrightarrow> \<exists>y. List.find P xs = Some y"
  by (cases "List.find P xs") (auto simp: find_None_iff)

lemma filter_nonempty_ex: "length (filter P xs) = Suc n \<Longrightarrow> \<exists>x \<in> set xs. P x"
  by (induction xs) (auto split: if_splits)

lemma filter_length_1_key:
  "distinct (map k xs) \<Longrightarrow> length (filter (\<lambda>x. k x = i) xs) \<le> 1"
  by (induction xs) (auto simp: filter_empty_conv image_iff)

lemma distinct_key_eq:
  "distinct (map k xs) \<Longrightarrow> x \<in> set xs \<Longrightarrow> y \<in> set xs \<Longrightarrow> k x = k y \<Longrightarrow> x = y"
  by (induction xs) (auto simp: image_iff)

lemma find_key:
  "distinct (map k xs) \<Longrightarrow> x \<in> set xs \<Longrightarrow> List.find (\<lambda>y. k y = k x) xs = Some x"
  by (induction xs) (auto simp: image_iff)

lemma find_upd_rows:
  assumes "\<And>x. key (f x) = key x"
  shows "List.find (\<lambda>x. key x = k) (upd_rows P f xs)
    = map_option (\<lambda>x. if P x then f x else x) (List.find (\<lambda>x. key x = k) xs)"
  using assms by (induction xs) (auto simp: upd_rows_def)

lemma find_append_one:
  "List.find P (xs @ [x]) = (case List.find P xs of None \<Rightarrow> if P x then Some x else None | Some y \<Rightarrow> Some y)"
  by (induction xs) auto

lemmas [evals] = tx_defs sql_all_def sql_one_def sql_count_def sql_update_def sql_insert_def
  sql_insert_ignore_def sql_delete_def upd_rows_def Let_def truthy_def

end
