(* ===== verification/Schema.thy ===== *)
theory Schema
  imports Prelude
begin

text \<open>
  The database of the extension (\<open>infinitemarkets/migrations.py\<close>): one record per
  table row with the columns of its DDL, the enumerations its TEXT columns hold, the record
  \<open>db\<close> of all modelled tables, and each table's constraints. Columns that hold JSON
  text (\<open>notify_emails\<close>, \<open>notify_events\<close>, \<open>detail_json\<close>, \<open>countries\<close>,
  \<open>regions\<close>) hold the decoded value here; encrypted columns hold the envelope bytes.
\<close>

section \<open>Enumerations held by TEXT columns\<close>

datatype order_state =
    Received | InvoicePending | AwaitingPayment | Confirmed | Processing | Completed
  | Rejected | Expired | Cancelled

datatype shipping_state =
    ShNotRequired | ShPending | ShProcessing | ShShipped | ShDelivered | ShException

datatype reservation_state = ReHeld | ReConsumed | ReReleased | ReExpired

datatype payment_status =
    PyCreating | PyCreationUnknown | PyPending | PySettled | PyFailed | PyExpired

datatype outbox_state =
    ObPending | ObClaimed | ObPartiallyPublished | ObPublished | ObSuperseded | ObFailed

datatype email_state = EmPending | EmClaimed | EmSent | EmSuppressed | EmFailed

datatype idem_state = IdInProgress | IdCompleted | IdFailed

datatype inbox_row_state =
    InReceived | InValidated | InProcessed | InRejected | InDuplicate | InQuarantined

datatype merchant_state =
    MsDraft | MsPublicationPending | MsActive | MsDeactivating | MsInactive

datatype inbox_state = IsOff | IsPending | IsActive | IsError | IsDeactivating

datatype email_event =
    EvOrderReceived | EvConfirmed | EvProcessing | EvShipped | EvDelivered | EvCancelled
  | EvExpired | EvOnHold | EvRefundRequested

datatype channel = ChMerchant | ChCustomer

datatype delivery_copy = CopyPublic | CopyRecipient | CopySender

datatype send_result = SrAccepted | SrRejected | SrTimeout

text \<open>A decimal number \<open>coefficient * 10 ^ exponent\<close>: Python's finite \<open>Decimal\<close>.\<close>

datatype dec = Dec (dec_coeff: int) (dec_exp: int)

datatype json =
    JNull | JBool bool | JInt int | JReal dec | JStr string | JArr "json list" | JObj "(string \<times> json) list"

section \<open>Rows: merchants, catalog\<close>

record merchant =
  m_id :: id
  m_user_id :: id
  m_pubkey :: string
  m_key_ref :: string
  m_display_name :: "string option"
  m_profile_json :: "string option"
  m_recommended_app_d :: "string option"
  m_wallet_id_enc :: bytes
  m_wallet_id_hash :: string
  m_notify_emails :: "string list"
  m_notify_events :: "(string \<times> bool) list"
  m_theme :: "string option"
  m_state :: merchant_state
  m_inbox_state :: inbox_state
  m_created_at :: int
  m_updated_at :: int

record setting =
  st_merchant_id :: id
  st_key :: string
  st_value :: "string option"

record catalog =
  cat_id :: id
  cat_merchant_id :: id
  cat_name :: "string option"
  cat_description :: "string option"
  cat_default_currency :: "string option"
  cat_default_location :: "string option"
  cat_nip15_stall_d :: "string option"
  cat_publish_gamma :: bool
  cat_publish_nip15 :: bool
  cat_deleted_at :: "int option"
  cat_created_at :: int
  cat_updated_at :: int

record product =
  p_id :: id
  p_merchant_id :: id
  p_catalog_id :: id
  p_d_tag :: string
  p_parent_product_id :: "id option"
  p_product_type :: string
  p_format :: string
  p_title :: "string option"
  p_summary :: "string option"
  p_description_md :: "string option"
  p_amount_minor :: "int option"
  p_currency :: "string option"
  p_currency_decimals :: "int option"
  p_recurring_frequency :: "string option"
  p_visibility :: string
  p_nip99_status :: string
  p_draft :: bool
  p_stock_on_hand :: "int option"
  p_stock_reserved :: int
  p_location :: "string option"
  p_geohash :: "string option"
  p_weight_value :: "dec option"
  p_weight_unit :: "string option"
  p_dim_l :: "dec option"
  p_dim_w :: "dec option"
  p_dim_h :: "dec option"
  p_dim_unit :: "string option"
  p_nip15_product_id :: "string option"
  p_published_at :: "int option"
  p_revision :: int
  p_deleted_at :: "int option"
  p_created_at :: int
  p_updated_at :: int
  p_delivery_enc :: "bytes option"

record product_image =
  pi_id :: id
  pi_product_id :: id
  pi_url :: string
  pi_dimensions :: "string option"
  pi_sort_order :: int

record product_spec =
  ps_id :: id
  ps_product_id :: id
  ps_key :: string
  ps_value :: string

record product_category =
  pg_id :: id
  pg_product_id :: id
  pg_category :: string

record product_collection =
  pc_id :: id
  pc_product_id :: id
  pc_collection_id :: id

record product_shipping_ref =
  psr_id :: id
  psr_product_id :: id
  psr_ref_id :: id
  psr_extra_cost_minor :: "int option"

record collection =
  c_id :: id
  c_merchant_id :: id
  c_d_tag :: string
  c_title :: "string option"
  c_description :: "string option"
  c_image :: "string option"
  c_location :: "string option"
  c_geohash :: "string option"
  c_revision :: int
  c_deleted_at :: "int option"
  c_created_at :: int
  c_updated_at :: int

record collection_ship =
  cs_id :: id
  cs_collection_id :: id
  cs_shipping_option_id :: id

record shipping_option =
  so_id :: id
  so_merchant_id :: id
  so_d_tag :: string
  so_title :: "string option"
  so_description :: "string option"
  so_base_price_minor :: "int option"
  so_currency :: "string option"
  so_currency_decimals :: int
  so_service :: string
  so_carrier :: "string option"
  so_countries :: "string list"
  so_regions :: "string list"
  so_duration_min :: "int option"
  so_duration_max :: "int option"
  so_duration_unit :: "string option"
  so_weight_min :: "dec option"
  so_weight_max :: "dec option"
  so_weight_unit :: "string option"
  so_dim_min :: "dec option \<times> dec option \<times> dec option"
  so_dim_max :: "dec option \<times> dec option \<times> dec option"
  so_dim_unit :: "string option"
  so_price_weight_minor :: "int option"
  so_price_weight_unit :: "string option"
  so_price_volume_minor :: "int option"
  so_price_volume_unit :: "string option"
  so_location :: "string option"
  so_geohash :: "string option"
  so_active :: bool
  so_revision :: int
  so_deleted_at :: "int option"
  so_created_at :: int
  so_updated_at :: int

section \<open>Rows: publication outbox, leases, rate limits\<close>

record outbox_event =
  x_id :: id
  x_merchant_id :: id
  x_aggregate_type :: string
  x_aggregate_id :: string
  x_aggregate_revision :: int
  x_event_kind :: int
  x_event_address :: "string option"
  x_payload_enc :: "bytes option"
  x_state :: outbox_state
  x_attempts :: int
  x_next_attempt_at :: int
  x_claimed_by :: "string option"
  x_claimed_at :: "int option"
  x_claimed_until :: "int option"
  x_claim_token :: int
  x_last_error :: "string option"
  x_last_signed_at :: int
  x_created_at :: int
  x_updated_at :: int

record outbox_dependency =
  od_outbox_event_id :: id
  od_depends_on_outbox_event_id :: id

record relay_publication =
  rp_id :: id
  rp_outbox_event_id :: id
  rp_delivery_copy :: delivery_copy
  rp_relay_url :: string
  rp_event_id :: string
  rp_attempt_no :: int
  rp_result :: send_result
  rp_message :: string
  rp_attempted_at :: int

record protocol_address =
  pa_id :: id
  pa_domain_type :: string
  pa_domain_id :: string
  pa_protocol :: string
  pa_event_kind :: int
  pa_author_pubkey :: string
  pa_d_tag :: string
  pa_latest_event_id :: "string option"
  pa_latest_created_at :: "int option"

record relay_config =
  rc_id :: id
  rc_merchant_id :: "id option"
  rc_relay_url :: string
  rc_direction :: string
  rc_enabled :: bool
  rc_created_at :: int
  rc_updated_at :: int
  rc_auth_state :: "string option"
  rc_auth_note :: "string option"
  rc_paid_invoice :: "string option"
  rc_auth_updated_at :: "int option"

record task_lease =
  tl_name :: string
  tl_holder_id :: "string option"
  tl_fencing_token :: int
  tl_leased_until :: int
  tl_updated_at :: int

record rate_bucket =
  rb_scope_hash :: string
  rb_bucket :: string
  rb_window_start :: int
  rb_count :: int
  rb_expires_at :: int

section \<open>Rows: orders, payments, reservations\<close>

record order_row =
  o_id :: id
  o_merchant_id :: id
  o_buyer_pubkey_enc :: "bytes option"
  o_buyer_pubkey_hash :: "string option"
  o_protocol :: string
  o_external_id_enc :: "bytes option"
  o_external_id_hash :: "string option"
  o_request_hash :: "string option"
  o_source_event_id :: "string option"
  o_currency :: string
  o_subtotal_sat :: int
  o_shipping_sat :: int
  o_total_sat :: int
  o_buyer_amount_sat :: "int option"
  o_state :: order_state
  o_shipping_state :: shipping_state
  o_contact_enc :: "bytes option"
  o_address_enc :: "bytes option"
  o_shipping_option_id :: "id option"
  o_payment_hash :: "string option"
  o_invoice_expiry :: "int option"
  o_public_token_hash :: "bytes option"
  o_public_token_enc :: "bytes option"
  o_public_token_expires_at :: "int option"
  o_checkout_scope_hash :: "string option"
  o_payment_exception :: bool
  o_payment_exception_reason :: "string option"
  o_payment_exception_resolution :: "string option"
  o_oversold :: bool
  o_receipt_verified :: bool
  o_email_opt_in :: bool
  o_created_at :: int
  o_updated_at :: int
  o_archived_at :: "int option"

record order_item =
  oi_id :: id
  oi_order_id :: id
  oi_product_id :: id
  oi_product_d :: string
  oi_title :: "string option"
  oi_quantity :: int
  oi_unit_price_minor :: int
  oi_currency :: string
  oi_currency_decimals :: int
  oi_line_total_sat :: int
  oi_backordered_qty :: int

record order_event =
  oe_id :: id
  oe_order_id :: id
  oe_from_state :: "order_state option"
  oe_to_state :: order_state
  oe_actor :: string
  oe_detail_json :: "json option"
  oe_created_at :: int

record order_fx_quote =
  fq_id :: id
  fq_order_id :: id
  fq_currency :: string
  fq_rate_decimal :: dec
  fq_source :: string
  fq_providers :: "string list"
  fq_quoted_at :: int
  fq_expires_at :: int

record order_fulfillment =
  of_order_id :: id
  of_tracking_enc :: "bytes option"
  of_carrier :: "string option"
  of_eta :: "string option"
  of_updated_at :: int

record order_message =
  om_id :: id
  om_order_id :: "id option"
  om_direction :: string
  om_protocol :: string
  om_semantic_kind :: "string option"
  om_sender_hash :: "string option"
  om_recipient_hash :: "string option"
  om_participant_keys_enc :: "bytes option"
  om_rumor_id :: "string option"
  om_event_id :: "string option"
  om_content_enc :: "bytes option"
  om_conversation_id :: "string option"
  om_read_at :: "int option"
  om_created_at :: int

record payment =
  pay_id :: id
  pay_order_id :: id
  pay_core_external_id :: string
  pay_payment_hash :: "string option"
  pay_checking_id_enc :: "bytes option"
  pay_bolt11_enc :: "bytes option"
  pay_wallet_refs_enc :: "bytes option"
  pay_wallet_id_hash :: "string option"
  pay_source_wallet_id_hash :: "string option"
  pay_amount_sat :: "int option"
  pay_status :: payment_status
  pay_settled_at :: "int option"
  pay_created_at :: int

record reservation =
  r_id :: id
  r_product_id :: id
  r_order_id :: id
  r_quantity :: int
  r_state :: reservation_state
  r_expires_at :: "int option"
  r_created_at :: int
  r_updated_at :: int

record idempotency_record =
  ir_scope_hash :: string
  ir_request_hash :: string
  ir_state :: idem_state
  ir_order_id :: "id option"
  ir_lease_until :: "int option"
  ir_status_code :: "int option"
  ir_response_enc :: "bytes option"
  ir_created_at :: int
  ir_expires_at :: int
  ir_claim_token :: int

record email_row =
  em_id :: id
  em_merchant_id :: id
  em_order_id :: "id option"
  em_channel :: channel
  em_event_type :: email_event
  em_recipient_enc :: bytes
  em_recipient_hash :: string
  em_state :: email_state
  em_attempts :: int
  em_next_attempt_at :: int
  em_claimed_by :: "string option"
  em_claimed_at :: "int option"
  em_claimed_until :: "int option"
  em_claim_token :: int
  em_last_error :: "string option"
  em_created_at :: int
  em_sent_at :: "int option"

record inbox_event =
  in_id :: id
  in_outer_event_id :: string
  in_rumor_id :: "string option"
  in_merchant_id :: id
  in_source_relay_url :: string
  in_received_at :: int
  in_kind :: "int option"
  in_author_hash :: "string option"
  in_author_enc :: "bytes option"
  in_processed_state :: inbox_row_state
  in_reject_reason :: "string option"
  in_raw_json :: "string option"
  in_processed_at :: "int option"

record blocklist_row =
  bl_id :: id
  bl_merchant_id :: id
  bl_author_hash :: string
  bl_reason :: "string option"
  bl_created_at :: "int option"

record peer_relay =
  pr_id :: id
  pr_merchant_id :: id
  pr_pubkey_hash :: string
  pr_pubkey_enc :: "bytes option"
  pr_relay_url :: string
  pr_fetched_at :: "int option"
  pr_expires_at :: "int option"

record relay_cursor =
  ru_id :: id
  ru_merchant_id :: id
  ru_relay_url :: string
  ru_protocol :: string
  ru_last_completed_session_start :: "int option"
  ru_eose_session_id :: "string option"
  ru_eose_at :: "int option"
  ru_updated_at :: "int option"

record merchant_key =
  mk_merchant_id :: id
  mk_key_origin :: string
  mk_key_version :: string
  mk_nonce :: bytes
  mk_ciphertext :: bytes
  mk_created_at :: int
  mk_rotated_at :: "int option"

record nostr_challenge =
  nc_id :: id
  nc_merchant_id :: id
  nc_challenge_hash :: string
  nc_scope_hash :: string
  nc_expires_at :: int
  nc_used_at :: "int option"
  nc_created_at :: int

record buyer_session =
  bs_id :: id
  bs_merchant_id :: id
  bs_token_hash :: string
  bs_buyer_pubkey_enc :: "bytes option"
  bs_buyer_pubkey_hash :: string
  bs_expires_at :: int
  bs_revoked_at :: "int option"
  bs_created_at :: int

section \<open>The database\<close>

text \<open>
  Besides the tables the state has the clock (the process and the database read the same
  epoch seconds: \<open>time.time\<close> and \<open>tx.now\<close>) and the number of random draws made so far,
  which indexes the stream of \<open>uuid4\<close> and nonce values of the environment.
\<close>

record db =
  db_merchants :: "merchant list"
  db_settings :: "setting list"
  db_catalogs :: "catalog list"
  db_products :: "product list"
  db_images :: "product_image list"
  db_specs :: "product_spec list"
  db_categories :: "product_category list"
  db_product_collections :: "product_collection list"
  db_product_shipping_options :: "product_shipping_ref list"
  db_product_shipping_collections :: "product_shipping_ref list"
  db_collections :: "collection list"
  db_collection_shipping :: "collection_ship list"
  db_shipping_options :: "shipping_option list"
  db_outbox :: "outbox_event list"
  db_outbox_deps :: "outbox_dependency list"
  db_publications :: "relay_publication list"
  db_addresses :: "protocol_address list"
  db_relay_configs :: "relay_config list"
  db_leases :: "task_lease list"
  db_buckets :: "rate_bucket list"
  db_orders :: "order_row list"
  db_items :: "order_item list"
  db_events :: "order_event list"
  db_fx_quotes :: "order_fx_quote list"
  db_fulfillment :: "order_fulfillment list"
  db_messages :: "order_message list"
  db_payments :: "payment list"
  db_reservations :: "reservation list"
  db_idempotency :: "idempotency_record list"
  db_emails :: "email_row list"
  db_inbox :: "inbox_event list"
  db_blocklist :: "blocklist_row list"
  db_peer_relays :: "peer_relay list"
  db_cursors :: "relay_cursor list"
  db_merchant_keys :: "merchant_key list"
  db_challenges :: "nostr_challenge list"
  db_sessions :: "buyer_session list"
  db_clock :: int
  db_draws :: nat

section \<open>Table constraints\<close>

definition product_check :: "product \<Rightarrow> bool" where
  "product_check p \<longleftrightarrow>
     (case p_amount_minor p of None \<Rightarrow> True | Some a \<Rightarrow> 0 \<le> a)
     \<and> (case p_currency p of None \<Rightarrow> True | Some c \<Rightarrow> 3 \<le> length c \<and> length c \<le> 8)
     \<and> (case p_currency_decimals p of None \<Rightarrow> True | Some d \<Rightarrow> 0 \<le> d \<and> d \<le> 18)
     \<and> (case p_stock_on_hand p of None \<Rightarrow> True | Some h \<Rightarrow> 0 \<le> h \<and> p_stock_reserved p \<le> h)
     \<and> 0 \<le> p_stock_reserved p
     \<and> (p_product_type p = ''variation'' \<longleftrightarrow> p_parent_product_id p \<noteq> None)"

definition products_ok :: "db \<Rightarrow> bool" where
  "products_ok s \<longleftrightarrow>
     distinct (map p_id (db_products s))
     \<and> distinct (map (\<lambda>p. (p_merchant_id p, p_d_tag p)) (db_products s))
     \<and> distinct (map (\<lambda>p. (p_merchant_id p, the (p_nip15_product_id p)))
          (filter (\<lambda>p. p_nip15_product_id p \<noteq> None) (db_products s)))
     \<and> list_all product_check (db_products s)"

definition orders_ok :: "db \<Rightarrow> bool" where
  "orders_ok s \<longleftrightarrow>
     distinct (map o_id (db_orders s))
     \<and> distinct (map (\<lambda>r. the (o_payment_hash r))
          (filter (\<lambda>r. o_payment_hash r \<noteq> None) (db_orders s)))
     \<and> distinct (map (\<lambda>r. (o_merchant_id r, the (o_external_id_hash r)))
          (filter (\<lambda>r. o_protocol r = ''web'' \<and> o_external_id_hash r \<noteq> None) (db_orders s)))
     \<and> distinct (map (\<lambda>r. (o_merchant_id r, o_buyer_pubkey_hash r, the (o_external_id_hash r)))
          (filter (\<lambda>r. o_buyer_pubkey_hash r \<noteq> None \<and> o_external_id_hash r \<noteq> None)
             (db_orders s)))"

definition payments_ok :: "db \<Rightarrow> bool" where
  "payments_ok s \<longleftrightarrow>
     distinct (map pay_id (db_payments s))
     \<and> distinct (map pay_order_id (db_payments s))
     \<and> distinct (map pay_core_external_id (db_payments s))
     \<and> distinct (map (\<lambda>r. the (pay_payment_hash r))
          (filter (\<lambda>r. pay_payment_hash r \<noteq> None) (db_payments s)))
     \<and> list_all (\<lambda>r. \<exists>k\<in>set (db_orders s). o_id k = pay_order_id r) (db_payments s)"

definition reservations_ok :: "db \<Rightarrow> bool" where
  "reservations_ok s \<longleftrightarrow>
     distinct (map r_id (db_reservations s))
     \<and> distinct (map (\<lambda>r. (r_order_id r, r_product_id r)) (db_reservations s))
     \<and> list_all (\<lambda>r. 0 < r_quantity r) (db_reservations s)
     \<and> list_all (\<lambda>r. \<exists>p\<in>set (db_products s). p_id p = r_product_id r) (db_reservations s)
     \<and> list_all (\<lambda>r. \<exists>k\<in>set (db_orders s). o_id k = r_order_id r) (db_reservations s)"

definition items_ok :: "db \<Rightarrow> bool" where
  "items_ok s \<longleftrightarrow> distinct (map oi_id (db_items s))
     \<and> list_all (\<lambda>r. \<exists>k\<in>set (db_orders s). o_id k = oi_order_id r) (db_items s)"

definition events_ok :: "db \<Rightarrow> bool" where
  "events_ok s \<longleftrightarrow> distinct (map oe_id (db_events s))
     \<and> list_all (\<lambda>r. \<exists>k\<in>set (db_orders s). o_id k = oe_order_id r) (db_events s)"

definition fx_quotes_ok :: "db \<Rightarrow> bool" where
  "fx_quotes_ok s \<longleftrightarrow> distinct (map fq_id (db_fx_quotes s))
     \<and> distinct (map (\<lambda>r. (fq_order_id r, fq_currency r)) (db_fx_quotes s))"

definition idempotency_ok :: "db \<Rightarrow> bool" where
  "idempotency_ok s \<longleftrightarrow> distinct (map ir_scope_hash (db_idempotency s))"

text \<open>
  \<open>UNIQUE (order_id, channel, event_type, recipient_hash)\<close>: a NULL \<open>order_id\<close>
  never collides.
\<close>

definition emails_ok :: "db \<Rightarrow> bool" where
  "emails_ok s \<longleftrightarrow> distinct (map em_id (db_emails s))
     \<and> distinct (map (\<lambda>r. (em_order_id r, em_channel r, em_event_type r, em_recipient_hash r))
          (filter (\<lambda>r. em_order_id r \<noteq> None) (db_emails s)))"

definition outbox_ok :: "db \<Rightarrow> bool" where
  "outbox_ok s \<longleftrightarrow> distinct (map x_id (db_outbox s))"

definition outbox_deps_ok :: "db \<Rightarrow> bool" where
  "outbox_deps_ok s \<longleftrightarrow>
     distinct (map (\<lambda>r. (od_outbox_event_id r, od_depends_on_outbox_event_id r)) (db_outbox_deps s))
     \<and> list_all (\<lambda>r. (\<exists>k\<in>set (db_outbox s). x_id k = od_outbox_event_id r)
          \<and> (\<exists>k\<in>set (db_outbox s). x_id k = od_depends_on_outbox_event_id r)) (db_outbox_deps s)"

definition publications_ok :: "db \<Rightarrow> bool" where
  "publications_ok s \<longleftrightarrow> distinct (map rp_id (db_publications s))
     \<and> distinct (map (\<lambda>r. (rp_outbox_event_id r, rp_delivery_copy r, rp_relay_url r,
          rp_event_id r, rp_attempt_no r)) (db_publications s))"

definition messages_ok :: "db \<Rightarrow> bool" where
  "messages_ok s \<longleftrightarrow> distinct (map om_id (db_messages s))"

definition leases_ok :: "db \<Rightarrow> bool" where
  "leases_ok s \<longleftrightarrow> distinct (map tl_name (db_leases s))"

definition product_collections_ok :: "db \<Rightarrow> bool" where
  "product_collections_ok s \<longleftrightarrow> distinct (map pc_id (db_product_collections s))
     \<and> distinct (map (\<lambda>r. (pc_product_id r, pc_collection_id r)) (db_product_collections s))
     \<and> list_all (\<lambda>r. (\<exists>k\<in>set (db_products s). p_id k = pc_product_id r)
          \<and> (\<exists>k\<in>set (db_collections s). c_id k = pc_collection_id r)) (db_product_collections s)"

definition product_shipping_options_ok :: "db \<Rightarrow> bool" where
  "product_shipping_options_ok s \<longleftrightarrow> distinct (map psr_id (db_product_shipping_options s))
     \<and> distinct (map (\<lambda>r. (psr_product_id r, psr_ref_id r)) (db_product_shipping_options s))
     \<and> list_all (\<lambda>r. (\<exists>k\<in>set (db_products s). p_id k = psr_product_id r)
          \<and> (\<exists>k\<in>set (db_shipping_options s). so_id k = psr_ref_id r)) (db_product_shipping_options s)"

definition product_shipping_collections_ok :: "db \<Rightarrow> bool" where
  "product_shipping_collections_ok s \<longleftrightarrow> distinct (map psr_id (db_product_shipping_collections s))
     \<and> distinct (map (\<lambda>r. (psr_product_id r, psr_ref_id r)) (db_product_shipping_collections s))
     \<and> list_all (\<lambda>r. (\<exists>k\<in>set (db_products s). p_id k = psr_product_id r)
          \<and> (\<exists>k\<in>set (db_collections s). c_id k = psr_ref_id r)) (db_product_shipping_collections s)"

definition collection_shipping_ok :: "db \<Rightarrow> bool" where
  "collection_shipping_ok s \<longleftrightarrow> distinct (map cs_id (db_collection_shipping s))
     \<and> distinct (map (\<lambda>r. (cs_collection_id r, cs_shipping_option_id r)) (db_collection_shipping s))
     \<and> list_all (\<lambda>r. \<exists>k\<in>set (db_collections s). c_id k = cs_collection_id r) (db_collection_shipping s)"

definition catalogs_ok :: "db \<Rightarrow> bool" where
  "catalogs_ok s \<longleftrightarrow> distinct (map cat_id (db_catalogs s))"

definition collections_ok :: "db \<Rightarrow> bool" where
  "collections_ok s \<longleftrightarrow> distinct (map c_id (db_collections s))
     \<and> distinct (map (\<lambda>c. (c_merchant_id c, c_d_tag c)) (db_collections s))"

definition shipping_options_ok :: "db \<Rightarrow> bool" where
  "shipping_options_ok s \<longleftrightarrow> distinct (map so_id (db_shipping_options s))
     \<and> distinct (map (\<lambda>c. (so_merchant_id c, so_d_tag c)) (db_shipping_options s))
     \<and> list_all (\<lambda>c. 0 \<le> so_currency_decimals c \<and> so_currency_decimals c \<le> 18) (db_shipping_options s)"

definition merchants_ok :: "db \<Rightarrow> bool" where
  "merchants_ok s \<longleftrightarrow> distinct (map m_id (db_merchants s))
     \<and> distinct (map m_user_id (db_merchants s)) \<and> distinct (map m_pubkey (db_merchants s))"

definition addresses_ok :: "db \<Rightarrow> bool" where
  "addresses_ok s \<longleftrightarrow> distinct (map pa_id (db_addresses s))
     \<and> distinct (map (\<lambda>r. (pa_protocol r, pa_event_kind r, pa_author_pubkey r, pa_d_tag r)) (db_addresses s))"

definition peer_relays_ok :: "db \<Rightarrow> bool" where
  "peer_relays_ok s \<longleftrightarrow> distinct (map pr_id (db_peer_relays s))
     \<and> distinct (map (\<lambda>r. (pr_merchant_id r, pr_pubkey_hash r, pr_relay_url r)) (db_peer_relays s))"

definition buckets_ok :: "db \<Rightarrow> bool" where
  "buckets_ok s \<longleftrightarrow> distinct (map (\<lambda>r. (rb_scope_hash r, rb_bucket r, rb_window_start r)) (db_buckets s))"

definition inbox_ok :: "db \<Rightarrow> bool" where
  "inbox_ok s \<longleftrightarrow> distinct (map in_id (db_inbox s))
     \<and> distinct (map in_outer_event_id (db_inbox s))
     \<and> distinct (map (\<lambda>r. the (in_rumor_id r)) (filter (\<lambda>r. in_rumor_id r \<noteq> None) (db_inbox s)))"

definition merchant_keys_ok :: "db \<Rightarrow> bool" where
  "merchant_keys_ok s \<longleftrightarrow> distinct (map mk_merchant_id (db_merchant_keys s))
     \<and> list_all (\<lambda>r. \<exists>k\<in>set (db_merchants s). m_id k = mk_merchant_id r) (db_merchant_keys s)"

definition blocklist_ok :: "db \<Rightarrow> bool" where
  "blocklist_ok s \<longleftrightarrow> distinct (map bl_id (db_blocklist s))
     \<and> distinct (map (\<lambda>r. (bl_merchant_id r, bl_author_hash r)) (db_blocklist s))"

definition cursors_ok :: "db \<Rightarrow> bool" where
  "cursors_ok s \<longleftrightarrow> distinct (map ru_id (db_cursors s))
     \<and> distinct (map (\<lambda>r. (ru_merchant_id r, ru_relay_url r, ru_protocol r)) (db_cursors s))"

definition challenges_ok :: "db \<Rightarrow> bool" where
  "challenges_ok s \<longleftrightarrow> distinct (map nc_id (db_challenges s))
     \<and> distinct (map nc_challenge_hash (db_challenges s))
     \<and> list_all (\<lambda>r. \<exists>k\<in>set (db_merchants s). m_id k = nc_merchant_id r) (db_challenges s)"

definition sessions_ok :: "db \<Rightarrow> bool" where
  "sessions_ok s \<longleftrightarrow> distinct (map bs_id (db_sessions s))
     \<and> distinct (map bs_token_hash (db_sessions s))
     \<and> list_all (\<lambda>r. \<exists>k\<in>set (db_merchants s). m_id k = bs_merchant_id r) (db_sessions s)"

lemmas table_constraints = products_ok_def orders_ok_def payments_ok_def reservations_ok_def
  items_ok_def events_ok_def fx_quotes_ok_def idempotency_ok_def emails_ok_def outbox_ok_def
  outbox_deps_ok_def publications_ok_def messages_ok_def leases_ok_def inbox_ok_def
  product_collections_ok_def product_shipping_options_ok_def product_shipping_collections_ok_def
  collection_shipping_ok_def catalogs_ok_def collections_ok_def shipping_options_ok_def
  merchants_ok_def addresses_ok_def peer_relays_ok_def buckets_ok_def
  merchant_keys_ok_def blocklist_ok_def cursors_ok_def challenges_ok_def sessions_ok_def

text \<open>No constraint on the table.\<close>

definition unconstrained :: "db \<Rightarrow> bool" where
  "unconstrained s = True"

section \<open>Clock\<close>

abbreviation tx_now :: "(db, int) tx" where
  "tx_now \<equiv> tx_get db_clock"

text \<open>The clock while something outside the process is awaited.\<close>

definition pr_wait :: "int \<Rightarrow> (db, unit) proc" where
  "pr_wait d = (\<lambda>s. (Inr (), db_clock_update (\<lambda>t. t + d) s))"

lemmas [evals] = table_constraints unconstrained_def product_check_def

end
