(* ===== verification/Crypto.thy ===== *)
theory Crypto
  imports Schema
begin

text \<open>
  Settings and field-level cryptography (\<open>infinitemarkets/settings.py\<close>,
  \<open>infinitemarkets/crypto.py\<close>): the environment record, the length-prefixed encodings,
  the AES-GCM envelope, the purpose-separated equality index, and the helpers by which the
  services seal a column and open it again.
\<close>

section \<open>The environment\<close>

text \<open>
  \<open>ExtSettings\<close> and what the code takes from outside \<open>src/\<close>. AES-GCM of
  \<open>pycryptodomex\<close>, \<open>hmac\<close>/\<open>hashlib\<close>, the Unicode tables (normalisation, case,
  \<open>str.isalpha\<close>), the \<open>json\<close> text
  format (its separators are not distinguished), the IDNA codec, the recognition of IP
  literals and of the network locations that \<open>urlsplit\<close> refuses, the event ids, the key parsing and the bech32 form of a key of \<open>nostr_sdk\<close>, the time zone check of \<open>services/readiness.py\<close>, and the random sources are fields, so every
  definition is parametric in them. The \<open>n\<close>-th random draw of a run is
  \<open>uuid4 E n\<close>, \<open>random_bytes E n len\<close> or \<open>randint E n bound\<close> (a value in
  \<open>0..bound\<close>).
\<close>

record env =
  master_keys :: "string \<Rightarrow> bytes option"
  active_key_version :: string
  privacy_key :: bytes
  public_base_url :: string
  reservation_ttl :: int
  peer_relay_ttl :: int
  spec_revision :: string
  checkout_rate_limit :: int
  checkout_rate_limit_hourly :: int
  outbox_max_attempts :: int
  outbox_batch :: nat
  inbox_max_event_bytes :: nat
  inbox_author_cap :: int
  email_enabled :: bool
  email_max_attempts :: int
  gcm_encrypt :: "bytes \<Rightarrow> bytes \<Rightarrow> bytes \<Rightarrow> bytes \<Rightarrow> bytes"
  gcm_decrypt :: "bytes \<Rightarrow> bytes \<Rightarrow> bytes \<Rightarrow> bytes \<Rightarrow> bytes option"
  hmac_sha256 :: "bytes \<Rightarrow> bytes \<Rightarrow> string"
  sha256_hex :: "bytes \<Rightarrow> string"
  nfc_strip_lower :: "string \<Rightarrow> string"
  str_upper :: "string \<Rightarrow> string"
  str_lower :: "string \<Rightarrow> string"
  str_isalpha :: "string \<Rightarrow> bool"
  str_strip :: "string \<Rightarrow> string"
  nfc :: "string \<Rightarrow> string"
  idna_host :: "string \<Rightarrow> string option"
  ip_literal :: "string \<Rightarrow> bool"
  netloc_ok :: "string \<Rightarrow> bool"
  parse_pubkey :: "string \<Rightarrow> string option"
  npub :: "string \<Rightarrow> string option"
  database_compatible :: bool
  json_dumps :: "json \<Rightarrow> bytes"
  json_loads :: "bytes \<Rightarrow> json option"
  canonical_id :: "int \<Rightarrow> string \<Rightarrow> int \<Rightarrow> string list list \<Rightarrow> string \<Rightarrow> string"
  uuid4 :: "nat \<Rightarrow> string"
  random_bytes :: "nat \<Rightarrow> nat \<Rightarrow> bytes"
  randint :: "nat \<Rightarrow> int \<Rightarrow> int"

definition draw :: "(db, nat) tx" where
  "draw = tx_bind (tx_get db_draws) (\<lambda>n. tx_seq (tx_modify (db_draws_update Suc)) (tx_return n))"

definition new_uuid :: "env \<Rightarrow> (db, id) tx" where
  "new_uuid E = tx_bind draw (\<lambda>n. tx_return (uuid4 E n))"

lemma draw_Inr [simp]: "draw s = Inr (n, t) \<longleftrightarrow> n = db_draws s \<and> t = db_draws_update Suc s"
  by (auto simp: draw_def tx_Inr)

lemma new_uuid_Inr [simp]:
  "new_uuid E s = Inr (i, t) \<longleftrightarrow> i = uuid4 E (db_draws s) \<and> t = db_draws_update Suc s"
  by (auto simp: new_uuid_def tx_Inr)

lemma keeps_draw [keeps]: "(\<And>g s. f (db_draws_update g s) = f s) \<Longrightarrow> tx_keeps f draw"
  by (rule tx_keepsI) auto

lemma keeps_new_uuid [keeps]: "(\<And>g s. f (db_draws_update g s) = f s) \<Longrightarrow> tx_keeps f (new_uuid E)"
  by (rule tx_keepsI) auto

section \<open>Length-prefixed fields\<close>

definition be32 :: "nat \<Rightarrow> bytes" where
  "be32 n = map (\<lambda>k. char_of (n div 256 ^ k mod 256)) [3, 2, 1, 0]"

definition len_prefixed :: "bytes list \<Rightarrow> bytes" where
  "len_prefixed fs = concat (map (\<lambda>f. be32 (length f) @ f) fs)"

definition aad_for :: "string \<Rightarrow> string \<Rightarrow> string \<Rightarrow> string \<Rightarrow> bytes" where
  "aad_for record_id table column key_version =
     len_prefixed [''infinitemarkets'', record_id, table, column, key_version]"

lemma length_be32 [simp]: "length (be32 n) = 4"
  by (simp add: be32_def)

lemma be32_value:
  fixes n :: nat
  assumes "n < 2 ^ 32"
  shows "n = ((n div 16777216 mod 256 * 256 + n div 65536 mod 256) * 256 + n div 256 mod 256) * 256
    + n mod 256"
proof -
  have d: "n div 65536 = n div 256 div 256" "n div 16777216 = n div 256 div 256 div 256"
    by (simp_all add: div_mult2_eq [symmetric])
  have "n div 256 div 256 div 256 mod 256 = n div 256 div 256 div 256"
    using assms by (simp add: div_mult2_eq [symmetric] div_less_iff_less_mult)
  then show ?thesis unfolding d by (metis div_mod_decomp)
qed

lemma be32_inj:
  assumes "be32 m = be32 n" and "m < 2 ^ 32" and "n < 2 ^ 32"
  shows "m = n"
proof -
  have byte: "x mod 256 = y mod 256" if "(char_of (x mod 256) :: char) = char_of (y mod 256)"
    for x y :: nat
    using arg_cong [OF that, of "of_char :: char \<Rightarrow> nat"] by simp
  from assms(1) have eqs:
    "m div 16777216 mod 256 = n div 16777216 mod 256" "m div 65536 mod 256 = n div 65536 mod 256"
    "m div 256 mod 256 = n div 256 mod 256" "m mod 256 = n mod 256"
    by (auto simp: be32_def dest!: byte)
  have "m = ((m div 16777216 mod 256 * 256 + m div 65536 mod 256) * 256 + m div 256 mod 256) * 256
      + m mod 256"
    by (rule be32_value [OF assms(2)])
  also have "\<dots> = n"
    unfolding eqs by (rule be32_value [OF assms(3), symmetric])
  finally show ?thesis .
qed

definition short :: "bytes \<Rightarrow> bool" where
  "short f \<longleftrightarrow> length f < 2 ^ 32"

lemma len_prefixed_inj:
  "len_prefixed fs = len_prefixed gs \<Longrightarrow> list_all short fs \<Longrightarrow> list_all short gs \<Longrightarrow> fs = gs"
proof (induction fs arbitrary: gs)
  case Nil
  then show ?case by (cases gs) (auto simp: len_prefixed_def dest: arg_cong [of _ _ length])
next
  case (Cons f fs)
  then obtain g gs' where gs: "gs = g # gs'"
    by (cases gs) (auto simp: len_prefixed_def dest: arg_cong [of _ _ length])
  with Cons.prems(1) have eq: "be32 (length f) = be32 (length g)"
    "f @ len_prefixed fs = g @ len_prefixed gs'"
    by (auto simp: len_prefixed_def)
  then have "length f = length g"
    using Cons.prems(2,3) by (auto simp: gs short_def dest: be32_inj)
  with eq(2) have "f = g" "len_prefixed fs = len_prefixed gs'" by auto
  with Cons gs show ?case by auto
qed

lemma aad_for_inj:
  assumes "aad_for r t c v = aad_for r' t' c' v'"
    and "list_all short [r, t, c, v, r', t', c', v']"
  shows "r = r' \<and> t = t' \<and> c = c' \<and> v = v'"
proof -
  have "short ''infinitemarkets''" by (simp add: short_def)
  with assms(2) have "list_all short [''infinitemarkets'', r, t, c, v]"
    "list_all short [''infinitemarkets'', r', t', c', v']" by auto
  with assms(1) have "[''infinitemarkets'', r, t, c, v] = [''infinitemarkets'', r', t', c', v']"
    unfolding aad_for_def by (blast dest: len_prefixed_inj)
  then show ?thesis by simp
qed

section \<open>The envelope\<close>

definition VERSION_LEN :: nat where "VERSION_LEN = 4"
definition NONCE_LEN :: nat where "NONCE_LEN = 12"
definition TAG_LEN :: nat where "TAG_LEN = 16"

definition nul :: char where "nul = char_of (0 :: nat)"

definition ljust :: "nat \<Rightarrow> bytes \<Rightarrow> bytes" where
  "ljust n b = b @ replicate (n - length b) nul"

definition rstrip_nul :: "bytes \<Rightarrow> bytes" where
  "rstrip_nul b = rev (dropWhile (\<lambda>c. c = nul) (rev b))"

definition encrypt :: "env \<Rightarrow> bytes \<Rightarrow> bytes \<Rightarrow> bytes \<Rightarrow> string \<Rightarrow> string \<Rightarrow> string \<Rightarrow> string \<Rightarrow> error + bytes" where
  "encrypt E nonce plaintext key record_id table column key_version =
     (if VERSION_LEN < length key_version then Inl CryptoError
      else Inr (ljust VERSION_LEN key_version @ nonce
        @ gcm_encrypt E key nonce (aad_for record_id table column key_version) plaintext))"

definition decrypt :: "env \<Rightarrow> bytes \<Rightarrow> bytes \<Rightarrow> string \<Rightarrow> string \<Rightarrow> string \<Rightarrow> string \<Rightarrow> error + bytes" where
  "decrypt E envelope key record_id table column key_version =
     (if length envelope < VERSION_LEN + NONCE_LEN + TAG_LEN then Inl CryptoError
      else if take VERSION_LEN envelope \<noteq> ljust VERSION_LEN key_version then Inl CryptoError
      else
        (let nonce = take NONCE_LEN (drop VERSION_LEN envelope);
             body = drop (VERSION_LEN + NONCE_LEN) envelope
         in case gcm_decrypt E key nonce (aad_for record_id table column key_version) body of
              None \<Rightarrow> Inl CryptoError
            | Some plaintext \<Rightarrow> Inr plaintext))"

definition envelope_version :: "bytes \<Rightarrow> string" where
  "envelope_version envelope = rstrip_nul (take VERSION_LEN envelope)"

definition hmac_index :: "env \<Rightarrow> string \<Rightarrow> string \<Rightarrow> string \<Rightarrow> string" where
  "hmac_index E purpose merchant_id normalized_value =
     hmac_sha256 E (privacy_key E) (len_prefixed [purpose, merchant_id, normalized_value])"

text \<open>
  What the code relies on of AES-GCM: the ciphertext carries a 16-byte tag, decryption under
  the same key, nonce and associated data returns the plaintext, and associated data that
  differs fails authentication.
\<close>

definition gcm_sound :: "env \<Rightarrow> bool" where
  "gcm_sound E \<longleftrightarrow>
     (\<forall>k n a p. TAG_LEN \<le> length (gcm_encrypt E k n a p))
     \<and> (\<forall>k n a p. gcm_decrypt E k n a (gcm_encrypt E k n a p) = Some p)
     \<and> (\<forall>k n a b p. a \<noteq> b \<longrightarrow> gcm_decrypt E k n b (gcm_encrypt E k n a p) = None)"

lemma ljust_length: "length b \<le> n \<Longrightarrow> length (ljust n b) = n"
  by (simp add: ljust_def)

lemma rstrip_ljust:
  "b = [] \<or> last b \<noteq> nul \<Longrightarrow> rstrip_nul (ljust n b) = b"
proof -
  assume "b = [] \<or> last b \<noteq> nul"
  then have "dropWhile (\<lambda>c. c = nul) (rev b) = rev b"
    by (cases b rule: rev_cases) auto
  moreover have "dropWhile (\<lambda>c. c = nul) (replicate m nul @ rev b) = dropWhile (\<lambda>c. c = nul) (rev b)"
    for m by (induction m) auto
  ultimately show ?thesis by (simp add: rstrip_nul_def ljust_def)
qed

lemma ljust_inj:
  assumes "ljust n a = ljust n b" "length a \<le> n" "length b \<le> n"
    "a = [] \<or> last a \<noteq> nul" "b = [] \<or> last b \<noteq> nul"
  shows "a = b"
  using assms by (metis rstrip_ljust)

lemma encrypt_parts:
  assumes "encrypt E nonce p key r t c v = Inr envelope" "length nonce = NONCE_LEN"
  shows "length v \<le> VERSION_LEN" "take VERSION_LEN envelope = ljust VERSION_LEN v"
    "take NONCE_LEN (drop VERSION_LEN envelope) = nonce"
    "drop (VERSION_LEN + NONCE_LEN) envelope = gcm_encrypt E key nonce (aad_for r t c v) p"
    "length envelope = VERSION_LEN + NONCE_LEN + length (gcm_encrypt E key nonce (aad_for r t c v) p)"
  using assms by (auto simp: encrypt_def ljust_length split: if_splits)

text \<open>
  C37 (round trip and record binding). A ciphertext opens to its plaintext under the record
  id, table, column and key version it was sealed for, and under any other record id,
  table or column it fails with CryptoError: an envelope moved to another record or field
  never decrypts.
\<close>

theorem envelope_bound_to_its_field:
  assumes gcm: "gcm_sound E"
    and nonce: "length nonce = NONCE_LEN"
    and enc: "encrypt E nonce p key r t c v = Inr envelope"
    and short: "list_all short [r, t, c, v, r', t', c']"
  shows "decrypt E envelope key r' t' c' v =
    (if r' = r \<and> t' = t \<and> c' = c then Inr p else Inl CryptoError)"
proof -
  note parts = encrypt_parts [OF enc nonce]
  have long: "\<not> length envelope < VERSION_LEN + NONCE_LEN + TAG_LEN"
    using gcm parts(5) by (simp add: gcm_sound_def not_less)
  show ?thesis
  proof (cases "r' = r \<and> t' = t \<and> c' = c")
    case True
    then show ?thesis using gcm long parts by (simp add: decrypt_def gcm_sound_def)
  next
    case False
    then have "aad_for r t c v \<noteq> aad_for r' t' c' v"
      using short by (auto dest!: aad_for_inj)
    then show ?thesis using False gcm long parts by (auto simp: decrypt_def gcm_sound_def)
  qed
qed

section \<open>Sealing and opening a column\<close>

text \<open>
  The idiom of every service: seal under the active key, open under the key the envelope
  names. A missing key version is the \<open>KeyError\<close> of the dictionary lookup.
\<close>

definition seal_column :: "env \<Rightarrow> string \<Rightarrow> string \<Rightarrow> string \<Rightarrow> bytes \<Rightarrow> (db, bytes) tx" where
  "seal_column E record_id table column plaintext =
     (case master_keys E (active_key_version E) of
        None \<Rightarrow> tx_raise KeyError
      | Some key \<Rightarrow> tx_bind draw (\<lambda>n. tx_lift
          (encrypt E (random_bytes E n NONCE_LEN) plaintext key record_id table column
             (active_key_version E))))"

definition open_column :: "env \<Rightarrow> string \<Rightarrow> string \<Rightarrow> string \<Rightarrow> bytes \<Rightarrow> error + bytes" where
  "open_column E record_id table column envelope =
     (let ver = envelope_version envelope in
      case master_keys E ver of
        None \<Rightarrow> Inl KeyError
      | Some key \<Rightarrow> decrypt E envelope key record_id table column ver)"

text \<open>
  What the code relies on of \<open>os.urandom\<close> and of its own configuration: nonces of the length
  asked for, and a key version name that does not end in a NUL byte.
\<close>

definition crypto_sound :: "env \<Rightarrow> bool" where
  "crypto_sound E \<longleftrightarrow> gcm_sound E \<and> (\<forall>n l. length (random_bytes E n l) = l)
     \<and> (active_key_version E = [] \<or> last (active_key_version E) \<noteq> nul)"

lemma open_sealed:
  assumes E: "crypto_sound E" and run: "seal_column E r t c p s = Inr (e, s')"
  shows "open_column E r t c e = Inr p"
proof -
  let ?v = "active_key_version E"
  obtain key where key: "master_keys E ?v = Some key"
    and enc: "encrypt E (random_bytes E (db_draws s) NONCE_LEN) p key r t c ?v = Inr e"
    using run by (auto simp: seal_column_def tx_Inr split: option.splits)
  have n: "length (random_bytes E (db_draws s) NONCE_LEN) = NONCE_LEN"
    using E by (simp add: crypto_sound_def)
  note parts = encrypt_parts [OF enc n]
  have "envelope_version e = ?v"
    unfolding envelope_version_def parts(2) using E by (intro rstrip_ljust) (simp add: crypto_sound_def)
  then show ?thesis
    using E key parts
    by (simp add: open_column_def decrypt_def crypto_sound_def gcm_sound_def Let_def not_less)
qed

lemma seal_draws: "seal_column E r t c p s = Inr (e, s') \<Longrightarrow> s' = db_draws_update Suc s"
  by (auto simp: seal_column_def tx_Inr split: option.splits)

lemma keeps_seal_column [keeps]:
  "(\<And>g s. f (db_draws_update g s) = f s) \<Longrightarrow> tx_keeps f (seal_column E r t c p)"
  unfolding seal_column_def by (intro keeps) auto

lemmas [evals] = draw_def new_uuid_def

end
