(* ===== verification/Outbox.thy ===== *)
theory Outbox
  imports Crypto
begin

text \<open>
  The publication queue of \<open>services/outbox.py\<close>: transactional enqueue with
  supersession and dependency edges, the claim, the fenced write, the recovery of stale
  claims, and the durable per-relay evidence. Rows move between states only through these
  operations; the publisher pipeline that drives them is in theory Publisher.
\<close>

section \<open>Enqueue\<close>

definition ob_live :: "outbox_state \<Rightarrow> bool" where
  "ob_live st \<longleftrightarrow> st \<in> {ObPending, ObClaimed, ObPartiallyPublished}"

definition same_aggregate :: "string \<Rightarrow> string \<Rightarrow> outbox_event \<Rightarrow> bool" where
  "same_aggregate at ai x \<longleftrightarrow> x_aggregate_type x = at \<and> x_aggregate_id x = ai"

text \<open>\<open>ORDER BY aggregate_revision DESC, created_at DESC LIMIT 1\<close>.\<close>

fun newest :: "outbox_event list \<Rightarrow> outbox_event option" where
  "newest [] = None"
| "newest (x # xs) = (case newest xs of
     None \<Rightarrow> Some x
   | Some y \<Rightarrow>
       if x_aggregate_revision x < x_aggregate_revision y
          \<or> x_aggregate_revision x = x_aggregate_revision y \<and> x_created_at x < x_created_at y
       then Some y else Some x)"

definition supersede_older :: "string \<Rightarrow> string \<Rightarrow> int \<Rightarrow> int \<Rightarrow> (db, nat) tx" where
  "supersede_older at ai rv t = sql_update db_outbox db_outbox_update outbox_ok
     (\<lambda>x. same_aggregate at ai x \<and> x_aggregate_revision x < rv \<and> ob_live (x_state x))
     (\<lambda>x. x\<lparr>x_state := ObSuperseded, x_updated_at := t\<rparr>)"

definition new_intent :: "id \<Rightarrow> id \<Rightarrow> string \<Rightarrow> string \<Rightarrow> int \<Rightarrow> int \<Rightarrow> string option \<Rightarrow> int \<Rightarrow> outbox_event" where
  "new_intent i merchant at ai kind rv addr t = \<lparr>
     x_id = i, x_merchant_id = merchant, x_aggregate_type = at, x_aggregate_id = ai,
     x_aggregate_revision = rv, x_event_kind = kind, x_event_address = addr,
     x_payload_enc = None, x_state = ObPending, x_attempts = 0, x_next_attempt_at = t,
     x_claimed_by = None, x_claimed_at = None, x_claimed_until = None, x_claim_token = 0,
     x_last_error = None, x_last_signed_at = 0, x_created_at = t, x_updated_at = t\<rparr>"

definition add_dependency :: "id \<Rightarrow> string \<times> string \<Rightarrow> (db, unit) tx" where
  "add_dependency i dep =
     tx_bind (sql_all db_outbox (\<lambda>x. same_aggregate (fst dep) (snd dep) x \<and> ob_live (x_state x)))
       (\<lambda>live. case newest live of
          None \<Rightarrow> tx_return ()
        | Some d \<Rightarrow>
            if x_id d = i then tx_return ()
            else tx_bind (sql_one db_outbox_deps
                   (\<lambda>e. od_outbox_event_id e = i \<and> od_depends_on_outbox_event_id e = x_id d))
                 (\<lambda>edge. tx_when (edge = None)
                    (sql_insert db_outbox_deps_update outbox_deps_ok
                       \<lparr>od_outbox_event_id = i, od_depends_on_outbox_event_id = x_id d\<rparr>)))"

definition enqueue_intent :: "env \<Rightarrow> id \<Rightarrow> string \<Rightarrow> string \<Rightarrow> int \<Rightarrow> int \<Rightarrow> string option \<Rightarrow>
    (string \<times> string) list \<Rightarrow> (db, id) tx" where
  "enqueue_intent E merchant at ai kind rv addr deps =
     tx_bind tx_now (\<lambda>t.
     tx_seq (supersede_older at ai rv t)
    (tx_bind (sql_one db_outbox (\<lambda>x. same_aggregate at ai x \<and> x_aggregate_revision x = rv
                \<and> x_event_kind x = kind \<and> ob_live (x_state x))) (\<lambda>existing.
       case existing of
         Some x \<Rightarrow> tx_return (x_id x)
       | None \<Rightarrow>
           tx_bind (new_uuid E) (\<lambda>i.
           tx_seq (sql_insert db_outbox_update outbox_ok (new_intent i merchant at ai kind rv addr t))
          (tx_seq (tx_for deps (add_dependency i))
             (tx_return i))))))"

lemma keeps_supersede_older [keeps]:
  "(\<And>g s. f (db_outbox_update g s) = f s) \<Longrightarrow> tx_keeps f (supersede_older at ai rv t)"
  unfolding supersede_older_def by (rule keeps_sql)

lemma keeps_add_dependency [keeps]:
  "(\<And>g s. f (db_outbox_deps_update g s) = f s) \<Longrightarrow> tx_keeps f (add_dependency i dep)"
  unfolding add_dependency_def by (intro keeps keeps_sql) auto

lemma keeps_enqueue_intent [keeps]:
  assumes "\<And>g s. f (db_outbox_update g s) = f s" "\<And>g s. f (db_outbox_deps_update g s) = f s"
    "\<And>g s. f (db_draws_update g s) = f s"
  shows "tx_keeps f (enqueue_intent E m at ai kind rv addr deps)"
  unfolding enqueue_intent_def by (intro keeps keeps_sql assms)

section \<open>Claim, fenced write and recovery\<close>

definition CLAIM_LEASE_S :: int where "CLAIM_LEASE_S = 120"
definition BACKOFF_BASE_S :: int where "BACKOFF_BASE_S = 5"
definition BACKOFF_CAP_S :: int where "BACKOFF_CAP_S = 30 * 60"

text \<open>\<open>_backoff\<close>: the exponential delay plus \<open>random.randint(0, 5)\<close>.\<close>

definition backoff_base :: "int \<Rightarrow> int" where
  "backoff_base attempts = min (2 ^ nat attempts * BACKOFF_BASE_S) BACKOFF_CAP_S"

definition backoff :: "env \<Rightarrow> int \<Rightarrow> (db, int) tx" where
  "backoff E attempts =
     tx_bind draw (\<lambda>n. tx_return (backoff_base attempts + randint E n 5))"

definition claimable :: "env \<Rightarrow> int \<Rightarrow> outbox_event \<Rightarrow> bool" where
  "claimable E now x \<longleftrightarrow> x_state x \<in> {ObPending, ObPartiallyPublished}
     \<and> x_next_attempt_at x \<le> now \<and> x_attempts x < outbox_max_attempts E"

definition claim_row :: "int \<Rightarrow> string \<Rightarrow> outbox_event \<Rightarrow> outbox_event" where
  "claim_row now worker x = x\<lparr>x_state := ObClaimed, x_claimed_by := Some worker,
     x_claimed_at := Some now, x_claimed_until := Some (now + CLAIM_LEASE_S),
     x_claim_token := x_claim_token x + 1, x_updated_at := now\<rparr>"

definition claim_one :: "int \<Rightarrow> string \<Rightarrow> outbox_event list \<Rightarrow> outbox_event \<Rightarrow> (db, outbox_event list) tx" where
  "claim_one now worker claimed r =
     tx_bind (sql_update db_outbox db_outbox_update outbox_ok
        (\<lambda>x. x_id x = x_id r \<and> x_state x \<in> {ObPending, ObPartiallyPublished})
        (claim_row now worker)) (\<lambda>n.
     if n = 0 then tx_return claimed
     else tx_bind (sql_one db_outbox (\<lambda>x. x_id x = x_id r)) (\<lambda>row.
       case row of None \<Rightarrow> tx_raise TypeError | Some x \<Rightarrow> tx_return (claimed @ [x])))"

definition claim_batch :: "env \<Rightarrow> int \<Rightarrow> string \<Rightarrow> nat \<Rightarrow> (db, outbox_event list) tx" where
  "claim_batch E now worker limit =
     tx_bind (sql_all db_outbox (claimable E now)) (\<lambda>due.
       tx_fold (claim_one now worker) [] (take limit (sort_key x_created_at due)))"

definition deps_published :: "id \<Rightarrow> (db, bool) tx" where
  "deps_published i = tx_get (\<lambda>s. \<forall>d\<in>set (db_outbox_deps s). od_outbox_event_id d = i \<longrightarrow>
     (\<forall>x\<in>set (db_outbox s). x_id x = od_depends_on_outbox_event_id d \<longrightarrow> x_state x = ObPublished))"

definition newer_live_exists :: "outbox_event \<Rightarrow> (db, bool) tx" where
  "newer_live_exists row =
     tx_bind (sql_one db_outbox (\<lambda>x. same_aggregate (x_aggregate_type row) (x_aggregate_id row) x
        \<and> x_event_kind x = x_event_kind row \<and> x_aggregate_revision row < x_aggregate_revision x
        \<and> ob_live (x_state x)))
       (\<lambda>newer. tx_return (newer \<noteq> None))"

definition accepted_targets :: "id \<Rightarrow> delivery_copy option \<Rightarrow> (db, string list) tx" where
  "accepted_targets i copy =
     tx_bind (sql_all db_publications (\<lambda>r. rp_outbox_event_id r = i \<and> rp_result r = SrAccepted
        \<and> (case copy of None \<Rightarrow> True | Some c \<Rightarrow> rp_delivery_copy r = c)))
       (\<lambda>rows. tx_return (remdups (map rp_relay_url rows)))"

text \<open>
  \<open>_cas_state\<close>: every leased write compares the claim token, the holder and the lease.
\<close>

definition holds_claim :: "outbox_event \<Rightarrow> int \<Rightarrow> outbox_event \<Rightarrow> bool" where
  "holds_claim row db_now x \<longleftrightarrow> x_id x = x_id row \<and> x_claim_token x = x_claim_token row
     \<and> x_state x = ObClaimed \<and> x_claimed_by x = x_claimed_by row \<and> x_claimed_by row \<noteq> None
     \<and> (case x_claimed_until x of None \<Rightarrow> False | Some u \<Rightarrow> db_now < u)"

definition cas_state :: "outbox_event \<Rightarrow> outbox_state \<Rightarrow> int \<Rightarrow> int option \<Rightarrow> string option \<Rightarrow> (db, bool) tx" where
  "cas_state row st now next_at err =
     tx_bind tx_now (\<lambda>db_now.
     tx_bind (sql_update db_outbox db_outbox_update outbox_ok (holds_claim row db_now)
        (\<lambda>x. x\<lparr>x_state := st, x_attempts := x_attempts row + 1,
           x_next_attempt_at := (case next_at of None \<Rightarrow> 0 | Some t \<Rightarrow> t),
           x_last_error := err, x_updated_at := now\<rparr>))
       (\<lambda>n. tx_return (n \<noteq> 0)))"

definition record_publications :: "env \<Rightarrow> id \<Rightarrow> delivery_copy \<Rightarrow> string \<Rightarrow> int \<Rightarrow>
    (string \<times> send_result \<times> string) list \<Rightarrow> int \<Rightarrow> (db, unit) tx" where
  "record_publications E i copy event_id attempt_no results now =
     tx_for results (\<lambda>(url, result, message).
       tx_bind (new_uuid E) (\<lambda>u.
         sql_insert db_publications_update publications_ok
           \<lparr>rp_id = u, rp_outbox_event_id = i, rp_delivery_copy = copy, rp_relay_url = url,
            rp_event_id = event_id, rp_attempt_no = attempt_no, rp_result = result,
            rp_message = take_chars 512 message, rp_attempted_at = now\<rparr>))"

definition stale_claim :: "int \<Rightarrow> outbox_event \<Rightarrow> bool" where
  "stale_claim now x \<longleftrightarrow> x_state x = ObClaimed
     \<and> (case x_claimed_until x of None \<Rightarrow> False | Some u \<Rightarrow> u \<le> now)"

definition recover_one :: "env \<Rightarrow> int \<Rightarrow> nat \<Rightarrow> outbox_event \<Rightarrow> (db, nat) tx" where
  "recover_one E now recovered row =
     tx_bind (accepted_targets (x_id row) None) (\<lambda>accepted.
     tx_bind (backoff E (x_attempts row)) (\<lambda>b.
     tx_bind (sql_update db_outbox db_outbox_update outbox_ok
        (\<lambda>x. x_id x = x_id row \<and> stale_claim now x \<and> x_claim_token x = x_claim_token row)
        (\<lambda>x. x\<lparr>x_state := (if accepted \<noteq> [] then ObPartiallyPublished else ObPending),
           x_claimed_by := None, x_claimed_until := None, x_claim_token := x_claim_token x + 1,
           x_next_attempt_at := now + b, x_updated_at := now\<rparr>))
       (\<lambda>n. tx_return (recovered + n))))"

definition recover_stale_claims :: "env \<Rightarrow> int \<Rightarrow> (db, nat) tx" where
  "recover_stale_claims E now =
     tx_bind (sql_all db_outbox (stale_claim now)) (tx_fold (recover_one E now) 0)"

text \<open>\<open>relay.retry_intent\<close>: the merchant requeues a failed or partial intent.\<close>

definition retry_intent :: "id \<Rightarrow> id \<Rightarrow> (db, unit) tx" where
  "retry_intent merchant i =
     tx_bind (sql_one db_outbox (\<lambda>x. x_id x = i \<and> x_merchant_id x = merchant)) (\<lambda>row.
     case row of
       None \<Rightarrow> tx_raise (ProblemError 404 ''unauthorized'')
     | Some r \<Rightarrow>
         tx_seq (tx_assert (x_state r \<in> {ObFailed, ObPartiallyPublished})
                   (ProblemError 409 ''invalid-transition''))
        (tx_bind tx_now (\<lambda>t.
         tx_bind (sql_update db_outbox db_outbox_update outbox_ok (\<lambda>x. x_id x = i)
            (\<lambda>x. x\<lparr>x_state := ObPending, x_attempts := 0, x_next_attempt_at := t,
               x_last_error := None, x_updated_at := t\<rparr>)) (\<lambda>_. tx_return ()))))"

lemma keeps_backoff [keeps]:
  "(\<And>g s. f (db_draws_update g s) = f s) \<Longrightarrow> tx_keeps f (backoff E a)"
  unfolding backoff_def by (intro keeps)

lemma keeps_claim_batch [keeps]:
  "(\<And>g s. f (db_outbox_update g s) = f s) \<Longrightarrow> tx_keeps f (claim_batch E now w limit)"
  unfolding claim_batch_def claim_one_def by (intro keeps keeps_sql)

lemma keeps_deps_published [keeps]: "tx_keeps f (deps_published i)"
  and keeps_newer_live_exists [keeps]: "tx_keeps f (newer_live_exists row)"
  and keeps_accepted_targets [keeps]: "tx_keeps f (accepted_targets i copy)"
  unfolding deps_published_def newer_live_exists_def accepted_targets_def by (intro keeps)+

lemma keeps_cas_state [keeps]:
  "(\<And>g s. f (db_outbox_update g s) = f s) \<Longrightarrow> tx_keeps f (cas_state row st now na e)"
  unfolding cas_state_def by (intro keeps keeps_sql)

lemma keeps_record_publications [keeps]:
  "(\<And>g s. f (db_publications_update g s) = f s) \<Longrightarrow> (\<And>g s. f (db_draws_update g s) = f s)
     \<Longrightarrow> tx_keeps f (record_publications E i copy ev a rs now)"
  unfolding record_publications_def by (intro keeps keeps_sql)

lemma keeps_recover_stale_claims [keeps]:
  "(\<And>g s. f (db_outbox_update g s) = f s) \<Longrightarrow> (\<And>g s. f (db_draws_update g s) = f s)
     \<Longrightarrow> tx_keeps f (recover_stale_claims E now)"
  unfolding recover_stale_claims_def recover_one_def by (intro keeps keeps_sql)

lemma keeps_retry_intent [keeps]:
  "(\<And>g s. f (db_outbox_update g s) = f s) \<Longrightarrow> tx_keeps f (retry_intent m i)"
  unfolding retry_intent_def by (intro keeps keeps_sql)

lemmas [evals] = supersede_older_def new_intent_def add_dependency_def enqueue_intent_def
  same_aggregate_def ob_live_def

end
