(* ===== verification/OrderMessages.thy ===== *)
theory OrderMessages
  imports Outbox
begin

text \<open>
  Outbound order messages (\<open>services/order_messages.py\<close>): the canonical rumor descriptor,
  its stored JSON form, and the transactional enqueue of payment requests, statuses and
  shipping updates as \<open>order_msg\<close> intents at revision 0.
\<close>

section \<open>Rumor descriptors\<close>

record msg_payload =
  mp_kind :: int
  mp_type :: "string option"
  mp_subject :: "string option"
  mp_order_external_id :: "string option"
  mp_status :: "string option"
  mp_amount :: "int option"
  mp_payment :: "string option"
  mp_preimage :: "string option"
  mp_expiration :: "int option"
  mp_tracking :: "string option"
  mp_carrier :: "string option"
  mp_eta :: "string option"
  mp_recipient :: string
  mp_author :: "string option"
  mp_content :: string
  mp_semantic :: "string option"
  mp_created_at :: "int option"

record descriptor =
  rd_created_at :: int
  rd_rumor_id :: string
  rd_kind :: int
  rd_type :: "string option"
  rd_subject :: "string option"
  rd_external_id :: "string option"
  rd_recipient :: string
  rd_author :: string
  rd_tags :: "string list list"
  rd_content :: string

definition KIND_DM :: int where "KIND_DM = 14"
definition KIND_ORDER_MESSAGE :: int where "KIND_ORDER_MESSAGE = 16"
definition KIND_RECEIPT :: int where "KIND_RECEIPT = 17"

definition opt_tag :: "string \<Rightarrow> string option \<Rightarrow> string list list" where
  "opt_tag name v = (case v of None \<Rightarrow> [] | Some x \<Rightarrow> [[name, x]])"

definition payment_tag :: "msg_payload \<Rightarrow> string list list" where
  "payment_tag p = (case mp_payment p of None \<Rightarrow> []
     | Some bolt11 \<Rightarrow> [[''payment'', ''lightning'', bolt11]
         @ (case mp_preimage p of None \<Rightarrow> [] | Some pre \<Rightarrow> [pre])])"

definition rumor_tags :: "msg_payload \<Rightarrow> string list list" where
  "rumor_tags p = [''p'', mp_recipient p]
     # opt_tag ''subject'' (mp_subject p)
     @ opt_tag ''type'' (mp_type p)
     @ opt_tag ''order'' (mp_order_external_id p)
     @ opt_tag ''status'' (mp_status p)
     @ opt_tag ''amount'' (map_option str_int (mp_amount p))
     @ payment_tag p
     @ opt_tag ''expiration'' (map_option str_int (mp_expiration p))
     @ opt_tag ''tracking'' (mp_tracking p)
     @ opt_tag ''carrier'' (mp_carrier p)
     @ opt_tag ''eta'' (mp_eta p)"

definition rumor_descriptor :: "env \<Rightarrow> msg_payload \<Rightarrow> string \<Rightarrow> int \<Rightarrow> descriptor" where
  "rumor_descriptor E p author created_at =
     (let tags = rumor_tags p in \<lparr>
       rd_created_at = created_at,
       rd_rumor_id = canonical_id E (mp_kind p) (mp_content p) created_at tags author,
       rd_kind = mp_kind p, rd_type = mp_type p, rd_subject = mp_subject p,
       rd_external_id = mp_order_external_id p, rd_recipient = mp_recipient p,
       rd_author = author, rd_tags = tags, rd_content = mp_content p\<rparr>)"

text \<open>
  \<open>rebuild_rumor\<close>: the unsigned event from the stored parts, refused when its canonical id
  is not the stored one. The result is the event's kind, content, time, tags and author.
\<close>

type_synonym rumor_parts = "int \<times> string \<times> int \<times> string list list \<times> string"

definition rebuild_rumor :: "env \<Rightarrow> descriptor \<Rightarrow> error + rumor_parts" where
  "rebuild_rumor E d =
     (if canonical_id E (rd_kind d) (rd_content d) (rd_created_at d) (rd_tags d) (rd_author d)
         \<noteq> rd_rumor_id d
      then Inl ValueError
      else Inr (rd_kind d, rd_content d, rd_created_at d, rd_tags d, rd_author d))"

text \<open>The JSON object under \<open>payload_enc\<close>, with its keys sorted.\<close>

definition json_opt :: "string option \<Rightarrow> json" where
  "json_opt v = (case v of None \<Rightarrow> JNull | Some x \<Rightarrow> JStr x)"

definition descriptor_json :: "descriptor \<Rightarrow> json" where
  "descriptor_json d = JObj
     [(''author_pubkey'', JStr (rd_author d)), (''content'', JStr (rd_content d)),
      (''order_external_id'', json_opt (rd_external_id d)),
      (''recipient_pubkey'', JStr (rd_recipient d)),
      (''rumor_created_at'', JInt (rd_created_at d)), (''rumor_id'', JStr (rd_rumor_id d)),
      (''rumor_kind'', JInt (rd_kind d)), (''subject'', json_opt (rd_subject d)),
      (''tags'', JArr (map (\<lambda>t. JArr (map JStr t)) (rd_tags d))),
      (''type'', json_opt (rd_type d))]"

fun json_str :: "json \<Rightarrow> string option" where
  "json_str (JStr x) = Some x"
| "json_str _ = None"

fun json_arr :: "json \<Rightarrow> json list option" where
  "json_arr (JArr xs) = Some xs"
| "json_arr _ = None"

fun json_int :: "json \<Rightarrow> int option" where
  "json_int (JInt i) = Some i"
| "json_int _ = None"

fun json_field :: "string \<Rightarrow> json \<Rightarrow> json option" where
  "json_field k (JObj kvs) = map_of kvs k"
| "json_field k _ = None"

text \<open>\<open>dict.get\<close>, and Python's truth value of a decoded JSON value.\<close>

definition json_member :: "string \<Rightarrow> json \<Rightarrow> json" where
  "json_member k j = (case json_field k j of None \<Rightarrow> JNull | Some v \<Rightarrow> v)"

fun json_truthy :: "json \<Rightarrow> bool" where
  "json_truthy JNull = False"
| "json_truthy (JBool b) = b"
| "json_truthy (JInt i) = (i \<noteq> 0)"
| "json_truthy (JReal d) = (dec_coeff d \<noteq> 0)"
| "json_truthy (JStr x) = (x \<noteq> [])"
| "json_truthy (JArr xs) = (xs \<noteq> [])"
| "json_truthy (JObj kvs) = (kvs \<noteq> [])"

fun is_object :: "json \<Rightarrow> bool" where
  "is_object (JObj _) = True"
| "is_object _ = False"

text \<open>
  The publisher's reading of the stored object: the keys \<open>rebuild_rumor\<close> and the sender
  use. A missing key is a \<open>KeyError\<close>, a value of another type a \<open>TypeError\<close>.
\<close>

definition need :: "json \<Rightarrow> string \<Rightarrow> (json \<Rightarrow> 'a option) \<Rightarrow> error + 'a" where
  "need j k conv = (case json_field k j of None \<Rightarrow> Inl KeyError
     | Some v \<Rightarrow> (case conv v of None \<Rightarrow> Inl TypeError | Some x \<Rightarrow> Inr x))"

definition json_tags :: "json \<Rightarrow> string list list option" where
  "json_tags v = Option.bind (json_arr v) (\<lambda>ts.
     those (map (\<lambda>t. Option.bind (json_arr t) (\<lambda>xs. those (map json_str xs))) ts))"

definition rumor_of_json :: "env \<Rightarrow> json \<Rightarrow> error + rumor_parts" where
  "rumor_of_json E j =
     (case need j ''rumor_kind'' json_int of Inl e \<Rightarrow> Inl e | Inr kind \<Rightarrow>
      case need j ''content'' json_str of Inl e \<Rightarrow> Inl e | Inr content \<Rightarrow>
      case need j ''rumor_created_at'' json_int of Inl e \<Rightarrow> Inl e | Inr created \<Rightarrow>
      case need j ''tags'' json_tags of Inl e \<Rightarrow> Inl e | Inr tags \<Rightarrow>
      case need j ''author_pubkey'' json_str of Inl e \<Rightarrow> Inl e | Inr author \<Rightarrow>
      case need j ''rumor_id'' json_str of Inl e \<Rightarrow> Inl e | Inr rid \<Rightarrow>
        if canonical_id E kind content created tags author \<noteq> rid then Inl ValueError
        else Inr (kind, content, created, tags, author))"

lemma those_map_Some: "those (map Some xs) = Some xs"
  by (induction xs) auto

lemma json_tags_round_trip: "json_tags (JArr (map (\<lambda>t. JArr (map JStr t)) ts)) = Some ts"
  by (simp add: json_tags_def o_def those_map_Some)

lemma rumor_of_descriptor_json: "rumor_of_json E (descriptor_json d) = rebuild_rumor E d"
  by (simp add: rumor_of_json_def need_def descriptor_json_def json_tags_round_trip rebuild_rumor_def)

lemma rebuild_descriptor:
  "rebuild_rumor E (rumor_descriptor E p author c)
   = Inr (mp_kind p, mp_content p, c, rumor_tags p, author)"
  by (simp add: rebuild_rumor_def rumor_descriptor_def Let_def)

section \<open>Enqueue\<close>

definition buyer_hash :: "env \<Rightarrow> id \<Rightarrow> string \<Rightarrow> string" where
  "buyer_hash E merchant pubkey = hmac_index E ''buyer-pubkey'' merchant (nfc_strip_lower E pubkey)"

text \<open>\<open>_order_message_context\<close>: the buyer key and the buyer's order id. A NULL column
  fails like the \<open>bytes\<close> operation on \<open>None\<close> does.\<close>

definition open_required :: "env \<Rightarrow> string \<Rightarrow> string \<Rightarrow> string \<Rightarrow> bytes option \<Rightarrow> error + bytes" where
  "open_required E rid tbl col v =
     (case v of None \<Rightarrow> Inl TypeError | Some envelope \<Rightarrow> open_column E rid tbl col envelope)"

definition order_message_context :: "env \<Rightarrow> order_row \<Rightarrow> error + string \<times> string" where
  "order_message_context E k =
     (case open_required E (o_id k) ''orders'' ''buyer_pubkey_enc'' (o_buyer_pubkey_enc k) of
        Inl e \<Rightarrow> Inl e
      | Inr buyer \<Rightarrow>
          (case open_required E (o_id k) ''orders'' ''external_id_enc'' (o_external_id_enc k) of
             Inl e \<Rightarrow> Inl e
           | Inr external_id \<Rightarrow> Inr (buyer, external_id)))"

definition next_msg_seq :: "id \<Rightarrow> (db, nat) tx" where
  "next_msg_seq i = tx_bind (sql_count db_messages (\<lambda>m. om_order_id m = Some i))
     (\<lambda>n. tx_return (n + 1))"

definition author_of :: "id \<Rightarrow> msg_payload \<Rightarrow> (db, string) tx" where
  "author_of merchant p =
     (case mp_author p of
        Some a \<Rightarrow> tx_return a
      | None \<Rightarrow> tx_bind (sql_one db_merchants (\<lambda>m. m_id m = merchant)) (\<lambda>row.
          case row of None \<Rightarrow> tx_raise TypeError | Some m \<Rightarrow> tx_return (m_pubkey m)))"

definition store_message :: "env \<Rightarrow> id \<Rightarrow> id option \<Rightarrow> msg_payload \<Rightarrow> descriptor \<Rightarrow> string option \<Rightarrow>
    (db, unit) tx" where
  "store_message E merchant order p d conversation =
     tx_bind (new_uuid E) (\<lambda>u.
     tx_bind (seal_column E u ''order_messages'' ''content_enc'' (rd_content d)) (\<lambda>content.
     tx_bind (seal_column E u ''order_messages'' ''participant_keys_enc'' (rd_recipient d)) (\<lambda>keys.
     tx_bind tx_now (\<lambda>now.
       sql_insert db_messages_update messages_ok
         \<lparr>om_id = u, om_order_id = order, om_direction = ''out'', om_protocol = ''nip17'',
          om_semantic_kind = mp_semantic p, om_sender_hash = None,
          om_recipient_hash = Some (buyer_hash E merchant (rd_recipient d)),
          om_participant_keys_enc = Some keys, om_rumor_id = Some (rd_rumor_id d),
          om_event_id = None, om_content_enc = Some content,
          om_conversation_id = (case conversation of
             Some c \<Rightarrow> Some c
           | None \<Rightarrow> map_option (\<lambda>i. ''order:'' @ i) order),
          om_read_at = None, om_created_at = now\<rparr>))))"

definition enqueue_order_msg :: "env \<Rightarrow> id \<Rightarrow> id option \<Rightarrow> msg_payload \<Rightarrow> nat \<Rightarrow> string option \<Rightarrow>
    string option \<Rightarrow> (db, id) tx" where
  "enqueue_order_msg E merchant order p msg_seq aggregate conversation =
     tx_bind tx_now (\<lambda>now.
     tx_bind (author_of merchant p) (\<lambda>author.
     (let d = rumor_descriptor E p author (case mp_created_at p of None \<Rightarrow> now | Some c \<Rightarrow> c) in
     tx_bind (case aggregate of
         Some a \<Rightarrow> tx_return a
       | None \<Rightarrow> (case order of
             None \<Rightarrow> tx_raise TypeError
           | Some i \<Rightarrow> tx_return (i @ '':'' @ str_nat msg_seq))) (\<lambda>aid.
     tx_bind (enqueue_intent E merchant ''order_msg'' aid (mp_kind p) 0 None []) (\<lambda>intent.
     tx_bind (sql_one db_outbox (\<lambda>x. x_id x = intent)) (\<lambda>existing.
       if (case existing of None \<Rightarrow> False | Some x \<Rightarrow> x_payload_enc x \<noteq> None)
       then tx_return intent
       else
         tx_bind (seal_column E intent ''outbox_events'' ''payload_enc''
                    (json_dumps E (descriptor_json d))) (\<lambda>enc.
         tx_bind (sql_update db_outbox db_outbox_update outbox_ok (\<lambda>x. x_id x = intent)
                    (\<lambda>x. x\<lparr>x_payload_enc := Some enc\<rparr>)) (\<lambda>_.
         tx_seq (store_message E merchant order p d conversation)
           (tx_return intent)))))))))"

text \<open>The four messages a merchant's order sends.\<close>

definition order_payload :: "string \<Rightarrow> string \<Rightarrow> string \<Rightarrow> string \<Rightarrow> string \<Rightarrow> string \<Rightarrow> msg_payload" where
  "order_payload ty subject external_id buyer content semantic = \<lparr>
     mp_kind = KIND_ORDER_MESSAGE, mp_type = Some ty, mp_subject = Some subject,
     mp_order_external_id = Some external_id, mp_status = None, mp_amount = None,
     mp_payment = None, mp_preimage = None, mp_expiration = None, mp_tracking = None,
     mp_carrier = None, mp_eta = None, mp_recipient = buyer, mp_author = None,
     mp_content = content, mp_semantic = Some semantic, mp_created_at = None\<rparr>"

definition send_for_order :: "env \<Rightarrow> order_row \<Rightarrow> (string \<Rightarrow> string \<Rightarrow> msg_payload) \<Rightarrow> (db, id option) tx" where
  "send_for_order E k mk =
     tx_bind (tx_lift (order_message_context E k)) (\<lambda>(buyer, external_id).
     tx_bind (next_msg_seq (o_id k)) (\<lambda>seq.
     tx_bind (enqueue_order_msg E (o_merchant_id k) (Some (o_id k)) (mk buyer external_id) seq None
                (Some (''order:'' @ o_id k))) (\<lambda>i.
       tx_return (Some i))))"

definition payment_request_content :: "order_row \<Rightarrow> string" where
  "payment_request_content k =
     ''Payment request: '' @ str_int (o_total_sat k) @ '' sats''
     @ (case o_buyer_amount_sat k of
          None \<Rightarrow> ''''
        | Some b \<Rightarrow>
            if b = o_total_sat k then ''''
            else '' (amount differs from buyer-declared '' @ str_int b
                 @ '' sats '' @ map char_of [226, 128, 148 :: nat] @ '' pay this total)'')"

definition enqueue_payment_request :: "env \<Rightarrow> order_row \<Rightarrow> string \<Rightarrow> int option \<Rightarrow> (db, id option) tx" where
  "enqueue_payment_request E k bolt11 expiration =
     (if \<not> truthy (o_buyer_pubkey_hash k) then tx_return None
      else send_for_order E k (\<lambda>buyer ext.
        (order_payload ''2'' ''order-payment'' ext buyer (payment_request_content k) ''payment-request'')
          \<lparr>mp_amount := Some (o_total_sat k), mp_payment := Some bolt11, mp_expiration := expiration\<rparr>))"

fun gamma_status_projection :: "order_state \<Rightarrow> string" where
  "gamma_status_projection Received = ''pending''"
| "gamma_status_projection InvoicePending = ''pending''"
| "gamma_status_projection AwaitingPayment = ''pending''"
| "gamma_status_projection Confirmed = ''confirmed''"
| "gamma_status_projection Processing = ''processing''"
| "gamma_status_projection Completed = ''completed''"
| "gamma_status_projection Rejected = ''cancelled''"
| "gamma_status_projection Expired = ''cancelled''"
| "gamma_status_projection Cancelled = ''cancelled''"

definition enqueue_status :: "env \<Rightarrow> order_row \<Rightarrow> order_state \<Rightarrow> string option \<Rightarrow> (db, id option) tx" where
  "enqueue_status E k to_state reason =
     (if \<not> truthy (o_buyer_pubkey_hash k) then tx_return None
      else
        (let mapped = gamma_status_projection to_state in
         if mapped = ''pending'' then tx_return None
         else send_for_order E k (\<lambda>buyer ext.
           (order_payload ''3'' ''order-info'' ext buyer
              (case reason of None \<Rightarrow> '''' | Some r \<Rightarrow> r) ''status'')\<lparr>mp_status := Some mapped\<rparr>)))"

fun shipping_name :: "shipping_state \<Rightarrow> string" where
  "shipping_name ShNotRequired = ''not_required''"
| "shipping_name ShPending = ''pending''"
| "shipping_name ShProcessing = ''processing''"
| "shipping_name ShShipped = ''shipped''"
| "shipping_name ShDelivered = ''delivered''"
| "shipping_name ShException = ''exception''"

definition enqueue_shipping :: "env \<Rightarrow> order_row \<Rightarrow> shipping_state \<Rightarrow> string option \<Rightarrow> string option \<Rightarrow>
    string option \<Rightarrow> (db, id option) tx" where
  "enqueue_shipping E k st tracking carrier eta =
     (if \<not> truthy (o_buyer_pubkey_hash k) then tx_return None
      else if st \<notin> {ShProcessing, ShShipped, ShDelivered, ShException} then tx_return None
      else send_for_order E k (\<lambda>buyer ext.
        (order_payload ''4'' ''shipping-info'' ext buyer '''' ''shipping'')
          \<lparr>mp_status := Some (shipping_name st), mp_tracking := tracking, mp_carrier := carrier,
           mp_eta := eta\<rparr>))"

definition enqueue_rejected_reply :: "env \<Rightarrow> merchant \<Rightarrow> string option \<Rightarrow> string option \<Rightarrow> id \<Rightarrow>
    (db, id option) tx" where
  "enqueue_rejected_reply E m recipient external_id inbox_row =
     (case (recipient, external_id) of
        (Some r, Some ext) \<Rightarrow>
          if r = '''' \<or> ext = '''' then tx_return None
          else tx_bind (enqueue_order_msg E (m_id m) None
              ((order_payload ''3'' ''order-info'' ext r ''rejected'' ''rejected'')
                 \<lparr>mp_status := Some ''rejected'', mp_author := Some (m_pubkey m)\<rparr>)
              0 (Some (''rejected:'' @ inbox_row))
              (Some (''unknown:'' @ buyer_hash E (m_id m) r))) (\<lambda>i. tx_return (Some i))
      | _ \<Rightarrow> tx_return None)"

text \<open>Frame: a message touches the outbox, its dependency edges, the messages and the draws.\<close>

lemma keeps_enqueue_order_msg [keeps]:
  assumes "\<And>g s. f (db_outbox_update g s) = f s" "\<And>g s. f (db_outbox_deps_update g s) = f s"
    "\<And>g s. f (db_draws_update g s) = f s" "\<And>g s. f (db_messages_update g s) = f s"
  shows "tx_keeps f (enqueue_order_msg E m k p seq a c)"
  unfolding enqueue_order_msg_def author_of_def store_message_def Let_def
  by (intro keeps keeps_sql assms)

lemma keeps_send_for_order [keeps]:
  assumes "\<And>g s. f (db_outbox_update g s) = f s" "\<And>g s. f (db_outbox_deps_update g s) = f s"
    "\<And>g s. f (db_draws_update g s) = f s" "\<And>g s. f (db_messages_update g s) = f s"
  shows "tx_keeps f (send_for_order E k mk)"
    "tx_keeps f (enqueue_payment_request E k b x)"
    "tx_keeps f (enqueue_status E k st r)"
    "tx_keeps f (enqueue_shipping E k sh tr ca et)"
    "tx_keeps f (enqueue_rejected_reply E m rcp ext row)"
  unfolding enqueue_payment_request_def enqueue_status_def enqueue_shipping_def
    enqueue_rejected_reply_def send_for_order_def next_msg_seq_def Let_def
  by (intro keeps assms)+

end
