(* ===== verification/CatalogOutbox.thy ===== *)
theory CatalogOutbox
  imports Outbox "HOL-Library.List_Lexorder" "HOL-Library.Char_ord"
begin

text \<open>
  The publication intents of catalog aggregates (\<open>services/catalog.py\<close>, outbox helpers):
  which product, collection, shipping option or stall an intent is queued for, under which
  address, and on which other intents it waits. Stock changes of the order services reach the
  catalog through \<open>enqueue_stock_projection\<close>.
\<close>

definition coord :: "string \<Rightarrow> string \<Rightarrow> string \<Rightarrow> string option" where
  "coord kind pubkey d = Some (kind @ '':'' @ pubkey @ '':'' @ d)"

text \<open>Python's \<open>sorted\<close> of strings, which compares code points.\<close>

definition sorted_strings :: "string list \<Rightarrow> string list" where
  "sorted_strings xs = sort xs"

definition collection_member_d_tags :: "id \<Rightarrow> (db, string list) tx" where
  "collection_member_d_tags c = tx_get (\<lambda>s.
     sorted_strings (concat (map (\<lambda>pc. map p_d_tag (filter (\<lambda>p. p_id p = pc_product_id pc
           \<and> p_deleted_at p = None \<and> \<not> p_draft p) (db_products s)))
        (filter (\<lambda>pc. pc_collection_id pc = c) (db_product_collections s)))))"

definition collections_of_product :: "id \<Rightarrow> (db, id list) tx" where
  "collections_of_product i =
     tx_bind (sql_all db_product_collections (\<lambda>pc. pc_product_id pc = i))
       (\<lambda>rows. tx_return (map pc_collection_id rows))"

definition product_shipping_refs :: "id \<Rightarrow> (db, (string \<times> id) list) tx" where
  "product_shipping_refs i =
     tx_bind (sql_all db_product_shipping_options (\<lambda>r. psr_product_id r = i)) (\<lambda>options.
     tx_bind (sql_all db_product_shipping_collections (\<lambda>r. psr_product_id r = i)) (\<lambda>colls.
       tx_return (map (\<lambda>r. (''shipping_options'', psr_ref_id r)) options
          @ map (\<lambda>r. (''collections'', psr_ref_id r)) colls)))"

definition enqueue_product :: "env \<Rightarrow> id \<Rightarrow> id \<Rightarrow> int \<Rightarrow> string \<Rightarrow> (db, id option) tx" where
  "enqueue_product E merchant i rv pubkey =
     tx_bind (sql_one db_products (\<lambda>p. p_id p = i)) (\<lambda>row.
     case row of
       None \<Rightarrow> tx_return None
     | Some p \<Rightarrow>
         if p_draft p \<or> p_deleted_at p \<noteq> None then tx_return None
         else
           tx_bind tx_now (\<lambda>t.
           tx_seq (tx_when (p_published_at p = None)
              (tx_bind (sql_update db_products db_products_update products_ok (\<lambda>q. p_id q = i)
                  (\<lambda>q. q\<lparr>p_published_at := Some t\<rparr>)) (\<lambda>_. tx_return ())))
          (tx_bind (collections_of_product i) (\<lambda>cids.
           tx_bind (product_shipping_refs i) (\<lambda>refs.
           tx_bind (enqueue_intent E merchant ''products'' i 30402 rv
                (coord ''30402'' pubkey (p_d_tag p))
                (map (\<lambda>c. (''collections'', c)) cids @ refs)) (\<lambda>x.
             tx_return (Some x)))))))"

definition enqueue_stock_projection :: "env \<Rightarrow> id \<Rightarrow> (db, unit) tx" where
  "enqueue_stock_projection E i =
     tx_bind (sql_one db_products (\<lambda>p. p_id p = i)) (\<lambda>row.
     case row of
       None \<Rightarrow> tx_return ()
     | Some p \<Rightarrow>
         tx_bind (sql_one db_merchants (\<lambda>m. m_id m = p_merchant_id p)) (\<lambda>mrow.
         case mrow of
           None \<Rightarrow> tx_return ()
         | Some m \<Rightarrow> tx_bind (enqueue_product E (p_merchant_id p) i (p_revision p) (m_pubkey m))
             (\<lambda>_. tx_return ())))"

definition enqueue_collection :: "env \<Rightarrow> id \<Rightarrow> id \<Rightarrow> int \<Rightarrow> string \<Rightarrow> (db, id option) tx" where
  "enqueue_collection E merchant c rv pubkey =
     tx_bind (sql_one db_collections (\<lambda>r. c_id r = c)) (\<lambda>row.
     case row of
       None \<Rightarrow> tx_return None
     | Some r \<Rightarrow>
         if c_deleted_at r \<noteq> None then tx_return None
         else tx_bind (collection_member_d_tags c) (\<lambda>members.
           if members = [] then tx_return None
           else tx_bind (sql_all db_collection_shipping (\<lambda>x. cs_collection_id x = c)) (\<lambda>ships.
             tx_bind (enqueue_intent E merchant ''collections'' c 30405 rv
                  (coord ''30405'' pubkey (c_d_tag r))
                  (map (\<lambda>x. (''shipping_options'', cs_shipping_option_id x)) ships)) (\<lambda>x.
               tx_return (Some x)))))"

definition enqueue_shipping_option :: "env \<Rightarrow> id \<Rightarrow> id \<Rightarrow> int \<Rightarrow> string \<Rightarrow> (db, id option) tx" where
  "enqueue_shipping_option E merchant i rv pubkey =
     tx_bind (sql_one db_shipping_options (\<lambda>r. so_id r = i)) (\<lambda>row.
     case row of
       None \<Rightarrow> tx_return None
     | Some r \<Rightarrow>
         if so_deleted_at r \<noteq> None \<or> \<not> so_active r then tx_return None
         else tx_bind (enqueue_intent E merchant ''shipping_options'' i 30406 rv
                (coord ''30406'' pubkey (so_d_tag r)) []) (\<lambda>x. tx_return (Some x)))"

definition enqueue_stall_if_enabled :: "env \<Rightarrow> id \<Rightarrow> id \<Rightarrow> string \<Rightarrow> (db, unit) tx" where
  "enqueue_stall_if_enabled E merchant i pubkey =
     tx_bind (sql_one db_catalogs (\<lambda>r. cat_id r = i)) (\<lambda>row.
     case row of
       None \<Rightarrow> tx_return ()
     | Some r \<Rightarrow>
         if \<not> cat_publish_nip15 r then tx_return ()
         else tx_bind (enqueue_intent E merchant ''catalogs'' i 30017 0
                (coord ''30017'' pubkey (case cat_nip15_stall_d r of None \<Rightarrow> '''' | Some d \<Rightarrow> d)) [])
              (\<lambda>_. tx_return ()))"

text \<open>A collection moves to its next revision; the order services never do this.\<close>

definition bump_collection :: "id \<Rightarrow> int \<Rightarrow> int \<Rightarrow> (db, unit) tx" where
  "bump_collection c rv now =
     tx_bind (sql_update db_collections db_collections_update unconstrained (\<lambda>r. c_id r = c)
        (\<lambda>r. r\<lparr>c_revision := rv, c_updated_at := now\<rparr>)) (\<lambda>_. tx_return ())"

definition republish_one :: "env \<Rightarrow> id \<Rightarrow> string \<Rightarrow> int \<Rightarrow> (string \<times> string) list \<Rightarrow> id \<Rightarrow>
    (db, (string \<times> string) list) tx" where
  "republish_one E merchant pubkey now deps c =
     tx_bind (sql_one db_collections (\<lambda>r. c_id r = c \<and> c_merchant_id r = merchant)) (\<lambda>row.
     case row of
       None \<Rightarrow> tx_return deps
     | Some r \<Rightarrow>
         if c_deleted_at r \<noteq> None then tx_return deps
         else
           tx_seq (bump_collection c (c_revision r + 1) now)
          (tx_bind (enqueue_collection E merchant c (c_revision r + 1) pubkey) (\<lambda>intent.
             case intent of
               None \<Rightarrow> tx_bind (enqueue_intent E merchant ''collections'' c 5 (c_revision r + 1)
                    (coord ''30405'' pubkey (c_d_tag r)) []) (\<lambda>_. tx_return deps)
             | Some _ \<Rightarrow> tx_return (deps @ [(''collections'', c)]))))"

definition republish_bulk_collections :: "env \<Rightarrow> id \<Rightarrow> id list \<Rightarrow> string \<Rightarrow> int \<Rightarrow>
    (db, (string \<times> string) list) tx" where
  "republish_bulk_collections E merchant cids pubkey now =
     tx_fold (republish_one E merchant pubkey now) [] (sorted_strings (remdups cids))"

section \<open>Frames\<close>

text \<open>
  The stock view: what of a product and of the reservations the stock invariants read. A
  publication intent changes neither.
\<close>

definition product_stock :: "product \<Rightarrow> id \<times> int option \<times> int" where
  "product_stock p = (p_id p, p_stock_on_hand p, p_stock_reserved p)"

definition stock_view :: "db \<Rightarrow> (id \<times> int option \<times> int) list \<times> reservation list" where
  "stock_view s = (map product_stock (db_products s), db_reservations s)"

lemma stock_view_other [simp]:
  "stock_view (db_outbox_update g1 s) = stock_view s"
  "stock_view (db_outbox_deps_update g2 s) = stock_view s"
  "stock_view (db_draws_update g3 s) = stock_view s"
  "stock_view (db_messages_update g4 s) = stock_view s"
  "stock_view (db_orders_update g5 s) = stock_view s"
  "stock_view (db_events_update g6 s) = stock_view s"
  "stock_view (db_emails_update g7 s) = stock_view s"
  "stock_view (db_payments_update g8 s) = stock_view s"
  "stock_view (db_idempotency_update g9 s) = stock_view s"
  "stock_view (db_items_update g10 s) = stock_view s"
  "stock_view (db_fx_quotes_update g11 s) = stock_view s"
  "stock_view (db_fulfillment_update g12 s) = stock_view s"
  "stock_view (db_collections_update g13 s) = stock_view s"
  "stock_view (db_buckets_update g14 s) = stock_view s"
  "stock_view (db_inbox_update g15 s) = stock_view s"
  "stock_view (db_publications_update g16 s) = stock_view s"
  "stock_view (db_leases_update g17 s) = stock_view s"
  "stock_view (db_addresses_update g18 s) = stock_view s"
  "stock_view (db_merchants_update g19 s) = stock_view s"
  "stock_view (db_settings_update g20 s) = stock_view s"
  "stock_view (db_product_collections_update g21 s) = stock_view s"
  "stock_view (db_product_shipping_options_update g22 s) = stock_view s"
  "stock_view (db_product_shipping_collections_update g23 s) = stock_view s"
  "stock_view (db_clock_update g24 s) = stock_view s"
  "stock_view (db_images_update h0 s) = stock_view s"
  "stock_view (db_specs_update h1 s) = stock_view s"
  "stock_view (db_categories_update h2 s) = stock_view s"
  "stock_view (db_cursors_update h3 s) = stock_view s"
  "stock_view (db_merchant_keys_update h4 s) = stock_view s"
  "stock_view (db_challenges_update h5 s) = stock_view s"
  "stock_view (db_sessions_update h6 s) = stock_view s"
  "stock_view (db_catalogs_update h7 s) = stock_view s"
  "stock_view (db_shipping_options_update h8 s) = stock_view s"
  "stock_view (db_collection_shipping_update h9 s) = stock_view s"
  "stock_view (db_relay_configs_update h10 s) = stock_view s"
  "stock_view (db_blocklist_update h11 s) = stock_view s"
  "stock_view (db_peer_relays_update h12 s) = stock_view s"
  by (simp_all add: stock_view_def)

lemma keeps_stock_products:
  assumes "\<And>p. product_stock (h p) = product_stock p"
  shows "tx_keeps stock_view (sql_update db_products db_products_update ok P h)"
  by (rule tx_keepsI) (auto simp: sql_Inr stock_view_def assms map_upd_rows)

lemma keeps_enqueue_product:
  assumes "\<And>g s. f (db_outbox_update g s) = f s" "\<And>g s. f (db_outbox_deps_update g s) = f s"
    "\<And>g s. f (db_draws_update g s) = f s"
    "\<And>i t. tx_keeps f (sql_update db_products db_products_update products_ok (\<lambda>q. p_id q = i)
        (\<lambda>q. q\<lparr>p_published_at := Some t\<rparr>))"
  shows "tx_keeps f (enqueue_product E m i rv pk)"
  unfolding enqueue_product_def collections_of_product_def product_shipping_refs_def
  by (intro keeps keeps_sql assms)

lemma keeps_enqueue_stock_projection:
  assumes "\<And>g s. f (db_outbox_update g s) = f s" "\<And>g s. f (db_outbox_deps_update g s) = f s"
    "\<And>g s. f (db_draws_update g s) = f s"
    "\<And>i t. tx_keeps f (sql_update db_products db_products_update products_ok (\<lambda>q. p_id q = i)
        (\<lambda>q. q\<lparr>p_published_at := Some t\<rparr>))"
  shows "tx_keeps f (enqueue_stock_projection E i)"
  unfolding enqueue_stock_projection_def
  by (intro keeps keeps_sql keeps_enqueue_product assms)

lemma stock_enqueue_product [keeps]: "tx_keeps stock_view (enqueue_product E m i rv pk)"
  by (rule keeps_enqueue_product) (auto intro!: keeps_stock_products simp: product_stock_def)

lemma stock_enqueue_stock_projection [keeps]:
  "tx_keeps stock_view (enqueue_stock_projection E i)"
  by (rule keeps_enqueue_stock_projection)
    (auto intro!: keeps_stock_products simp: product_stock_def)

lemma keeps_enqueue_collection [keeps]:
  assumes "\<And>g s. f (db_outbox_update g s) = f s" "\<And>g s. f (db_outbox_deps_update g s) = f s"
    "\<And>g s. f (db_draws_update g s) = f s"
  shows "tx_keeps f (enqueue_collection E m c rv pk)"
    "tx_keeps f (enqueue_shipping_option E m c rv pk)"
    "tx_keeps f (enqueue_stall_if_enabled E m c pk)"
  unfolding enqueue_collection_def collection_member_d_tags_def enqueue_shipping_option_def
    enqueue_stall_if_enabled_def
  by (intro keeps keeps_sql assms)+

lemma keeps_republish_bulk_collections [keeps]:
  assumes "\<And>g s. f (db_outbox_update g s) = f s" "\<And>g s. f (db_outbox_deps_update g s) = f s"
    "\<And>g s. f (db_draws_update g s) = f s" "\<And>g s. f (db_collections_update g s) = f s"
  shows "tx_keeps f (republish_bulk_collections E m cs pk now)"
  unfolding republish_bulk_collections_def republish_one_def bump_collection_def
  by (intro keeps keeps_sql assms)

lemmas [evals] = enqueue_product_def enqueue_stock_projection_def collections_of_product_def
  product_shipping_refs_def coord_def

end
