(* ===== verification/Orders.thy ===== *)
theory Orders
  imports OrderMessages CatalogOutbox
begin

text \<open>
  The order domain of \<open>services/orders.py\<close>: the transition tables, the single entry path
  \<open>transition_order\<close> with its compare-and-swap and audit row, the release of reservations,
  the e-mail intents, the cancellation saga and the merchant's actions.
\<close>

section \<open>State machines\<close>

fun order_transitions :: "order_state \<Rightarrow> order_state list" where
  "order_transitions Received = [Rejected, InvoicePending, Cancelled]"
| "order_transitions InvoicePending = [AwaitingPayment, Rejected, Cancelled]"
| "order_transitions AwaitingPayment = [Confirmed, Expired, Cancelled]"
| "order_transitions Confirmed = [Processing, Cancelled]"
| "order_transitions Processing = [Completed, Cancelled]"
| "order_transitions Expired = [Confirmed]"
| "order_transitions Cancelled = [Confirmed]"
| "order_transitions Completed = []"
| "order_transitions Rejected = []"

definition reason_required :: "order_state \<Rightarrow> order_state \<Rightarrow> bool" where
  "reason_required f t \<longleftrightarrow>
     (f, t) \<in> {(Confirmed, Cancelled), (Expired, Confirmed), (Cancelled, Confirmed)}"

definition order_archivable :: "order_state \<Rightarrow> bool" where
  "order_archivable st \<longleftrightarrow> st \<in> {Completed, Rejected, Expired, Cancelled}"

definition buyer_cancellable :: "order_state \<Rightarrow> bool" where
  "buyer_cancellable st \<longleftrightarrow> st \<in> {Received, InvoicePending, AwaitingPayment}"

fun shipping_transitions :: "shipping_state \<Rightarrow> shipping_state list" where
  "shipping_transitions ShNotRequired = [ShPending]"
| "shipping_transitions ShPending = [ShProcessing]"
| "shipping_transitions ShProcessing = [ShShipped, ShException]"
| "shipping_transitions ShShipped = [ShDelivered, ShException]"
| "shipping_transitions ShException = [ShProcessing, ShShipped]"
| "shipping_transitions ShDelivered = []"

fun reservation_transitions :: "reservation_state \<Rightarrow> reservation_state list" where
  "reservation_transitions ReHeld = [ReConsumed, ReReleased, ReExpired]"
| "reservation_transitions ReConsumed = []"
| "reservation_transitions ReReleased = []"
| "reservation_transitions ReExpired = []"

fun state_email_event :: "order_state \<Rightarrow> email_event option" where
  "state_email_event Confirmed = Some EvConfirmed"
| "state_email_event Processing = Some EvProcessing"
| "state_email_event Cancelled = Some EvCancelled"
| "state_email_event Expired = Some EvExpired"
| "state_email_event _ = None"

fun shipping_email_event :: "shipping_state \<Rightarrow> email_event option" where
  "shipping_email_event ShProcessing = Some EvProcessing"
| "shipping_email_event ShShipped = Some EvShipped"
| "shipping_email_event ShDelivered = Some EvDelivered"
| "shipping_email_event _ = None"

fun order_state_name :: "order_state \<Rightarrow> string" where
  "order_state_name Received = ''received''"
| "order_state_name InvoicePending = ''invoice_pending''"
| "order_state_name AwaitingPayment = ''awaiting_payment''"
| "order_state_name Confirmed = ''confirmed''"
| "order_state_name Processing = ''processing''"
| "order_state_name Completed = ''completed''"
| "order_state_name Rejected = ''rejected''"
| "order_state_name Expired = ''expired''"
| "order_state_name Cancelled = ''cancelled''"

definition order_states :: "order_state list" where
  "order_states = [Received, InvoicePending, AwaitingPayment, Confirmed, Processing, Completed,
     Rejected, Expired, Cancelled]"

definition parse_order_state :: "string \<Rightarrow> order_state option" where
  "parse_order_state v = List.find (\<lambda>st. order_state_name st = v) order_states"

definition shipping_states :: "shipping_state list" where
  "shipping_states = [ShNotRequired, ShPending, ShProcessing, ShShipped, ShDelivered, ShException]"

definition parse_shipping_state :: "string \<Rightarrow> shipping_state option" where
  "parse_shipping_state v = List.find (\<lambda>st. shipping_name st = v) shipping_states"

lemma parse_order_state_name [simp]: "parse_order_state (order_state_name st) = Some st"
  by (cases st) (simp_all add: parse_order_state_def order_states_def)

lemma parse_shipping_state_name [simp]: "parse_shipping_state (shipping_name st) = Some st"
  by (cases st) (simp_all add: parse_shipping_state_def shipping_states_def)

section \<open>Digital delivery\<close>

definition delivery_unlocked :: "order_row \<Rightarrow> bool" where
  "delivery_unlocked k \<longleftrightarrow> o_state k \<in> {Confirmed, Processing, Completed}
     \<and> \<not> o_payment_exception k \<and> \<not> o_oversold k"

section \<open>Transitions\<close>

definition event_row :: "id \<Rightarrow> id \<Rightarrow> order_state option \<Rightarrow> order_state \<Rightarrow> string \<Rightarrow>
    (string \<times> json) list \<Rightarrow> int \<Rightarrow> order_event" where
  "event_row i order f t actor detail now = \<lparr>
     oe_id = i, oe_order_id = order, oe_from_state = f, oe_to_state = t, oe_actor = actor,
     oe_detail_json = (if detail = [] then None else Some (JObj detail)), oe_created_at = now\<rparr>"

definition insert_event :: "env \<Rightarrow> id \<Rightarrow> order_state option \<Rightarrow> order_state \<Rightarrow> string \<Rightarrow>
    (string \<times> json) list \<Rightarrow> int \<Rightarrow> (db, unit) tx" where
  "insert_event E order f t actor detail now =
     tx_bind (new_uuid E) (\<lambda>i.
       sql_insert db_events_update events_ok (event_row i order f t actor detail now))"

definition update_order :: "id \<Rightarrow> (order_row \<Rightarrow> order_row) \<Rightarrow> (db, unit) tx" where
  "update_order i f =
     tx_ignore (sql_update db_orders db_orders_update orders_ok (\<lambda>k. o_id k = i) f)"

definition cas_order_state :: "id \<Rightarrow> order_state \<Rightarrow> order_state \<Rightarrow> (db, nat) tx" where
  "cas_order_state i f t = sql_update db_orders db_orders_update orders_ok
     (\<lambda>k. o_id k = i \<and> o_state k = f) (\<lambda>k. k\<lparr>o_state := t\<rparr>)"

definition find_order :: "id \<Rightarrow> (db, order_row option) tx" where
  "find_order i = sql_one db_orders (\<lambda>k. o_id k = i)"

text \<open>
  \<open>payload = {}\<close>, the reason when there is one, then \<open>update(detail)\<close>: no caller passes
  a detail with the key \<open>reason\<close>.
\<close>

definition event_payload :: "string option \<Rightarrow> (string \<times> json) list \<Rightarrow> (string \<times> json) list" where
  "event_payload reason detail =
     (case reason of None \<Rightarrow> [] | Some r \<Rightarrow> [(''reason'', JStr r)]) @ detail"

definition transition_from :: "env \<Rightarrow> id \<Rightarrow> order_state \<Rightarrow> order_state \<Rightarrow> string \<Rightarrow> string option \<Rightarrow>
    (string \<times> json) list \<Rightarrow> int \<Rightarrow> (db, order_state) tx" where
  "transition_from E i f to_state actor reason detail now =
     tx_seq (tx_assert (to_state \<in> set (order_transitions f)) IllegalTransition)
    (tx_seq (tx_assert (reason_required f to_state \<longrightarrow> truthy reason) IllegalTransition)
    (tx_bind (cas_order_state i f to_state) (\<lambda>rc.
     tx_seq (tx_assert (rc = 1) TransitionConflict)
    (tx_seq (update_order i (\<lambda>k. k\<lparr>o_updated_at := now, o_archived_at := None\<rparr>))
    (tx_seq (insert_event E i (Some f) to_state actor (event_payload reason detail) now)
    (tx_bind (find_order i) (\<lambda>row.
     tx_seq (case row of
         None \<Rightarrow> tx_return ()
       | Some k \<Rightarrow> tx_when (truthy (o_buyer_pubkey_hash k))
           (tx_ignore (enqueue_status E k to_state reason)))
       (tx_return f))))))))"

definition transition_order :: "env \<Rightarrow> id \<Rightarrow> order_state \<Rightarrow> order_state option \<Rightarrow> string \<Rightarrow>
    string option \<Rightarrow> (string \<times> json) list \<Rightarrow> int \<Rightarrow> (db, order_state) tx" where
  "transition_order E i to_state from_state actor reason detail now =
     (case from_state of
        Some f \<Rightarrow> transition_from E i f to_state actor reason detail now
      | None \<Rightarrow> tx_bind (find_order i) (\<lambda>row.
          case row of
            None \<Rightarrow> tx_raise TransitionConflict
          | Some k \<Rightarrow> transition_from E i (o_state k) to_state actor reason detail now))"

section \<open>Reservations\<close>

definition held_of_order :: "id \<Rightarrow> (db, reservation list) tx" where
  "held_of_order i = sql_all db_reservations (\<lambda>r. r_order_id r = i \<and> r_state r = ReHeld)"

definition flip_reservation :: "id \<Rightarrow> reservation_state \<Rightarrow> int \<Rightarrow> (db, nat) tx" where
  "flip_reservation rid to_state now =
     sql_update db_reservations db_reservations_update reservations_ok
       (\<lambda>r. r_id r = rid \<and> r_state r = ReHeld) (\<lambda>r. r\<lparr>r_state := to_state, r_updated_at := now\<rparr>)"

definition update_product :: "id \<Rightarrow> (product \<Rightarrow> product) \<Rightarrow> (db, nat) tx" where
  "update_product i f = sql_update db_products db_products_update products_ok (\<lambda>p. p_id p = i) f"

definition release_one :: "env \<Rightarrow> reservation_state \<Rightarrow> int \<Rightarrow> int \<Rightarrow> reservation \<Rightarrow> (db, int) tx" where
  "release_one E to_state now released row =
     tx_bind (flip_reservation (r_id row) to_state now) (\<lambda>rc.
     tx_seq (tx_assert (rc = 1) TransitionConflict)
    (tx_seq (tx_ignore (update_product (r_product_id row)
        (\<lambda>p. p\<lparr>p_stock_reserved := p_stock_reserved p - r_quantity row, p_updated_at := now,
              p_revision := p_revision p + 1\<rparr>)))
    (tx_seq (enqueue_stock_projection E (r_product_id row))
       (tx_return (released + r_quantity row)))))"

definition release_reservations :: "env \<Rightarrow> id \<Rightarrow> reservation_state \<Rightarrow> int \<Rightarrow> (db, int) tx" where
  "release_reservations E i to_state now =
     tx_bind (held_of_order i) (tx_fold (release_one E to_state now) 0)"

section \<open>E-mail intents\<close>

record notify_ctx =
  nc_emails :: "string list"
  nc_events :: "(string \<times> bool) list"
  nc_customer :: "string option"

fun email_event_name :: "email_event \<Rightarrow> string" where
  "email_event_name EvOrderReceived = ''order_received''"
| "email_event_name EvConfirmed = ''confirmed''"
| "email_event_name EvProcessing = ''processing''"
| "email_event_name EvShipped = ''shipped''"
| "email_event_name EvDelivered = ''delivered''"
| "email_event_name EvCancelled = ''cancelled''"
| "email_event_name EvExpired = ''expired''"
| "email_event_name EvOnHold = ''on_hold''"
| "email_event_name EvRefundRequested = ''refund_requested''"

definition email_recipient_hash :: "env \<Rightarrow> id \<Rightarrow> string \<Rightarrow> string" where
  "email_recipient_hash E merchant recipient =
     hmac_index E ''email-recipient'' merchant (nfc_strip_lower E recipient)"

definition insert_email :: "env \<Rightarrow> id \<Rightarrow> id \<Rightarrow> email_event \<Rightarrow> int \<Rightarrow> string \<Rightarrow> channel \<Rightarrow> (db, nat) tx" where
  "insert_email E order merchant ev now recipient ch =
     tx_bind (seal_column E order ''email_queue'' ''recipient_enc'' recipient) (\<lambda>enc.
     tx_bind (new_uuid E) (\<lambda>i.
       sql_insert_ignore db_emails_update emails_ok
         \<lparr>em_id = i, em_merchant_id = merchant, em_order_id = Some order, em_channel = ch,
          em_event_type = ev, em_recipient_enc = enc,
          em_recipient_hash = email_recipient_hash E merchant recipient,
          em_state = EmPending, em_attempts = 0, em_next_attempt_at = now, em_claimed_by = None,
          em_claimed_at = None, em_claimed_until = None, em_claim_token = 0,
          em_last_error = None, em_created_at = now, em_sent_at = None\<rparr>))"

definition enqueue_email_intents :: "env \<Rightarrow> id \<Rightarrow> id \<Rightarrow> bool \<Rightarrow> email_event \<Rightarrow> notify_ctx \<Rightarrow> int \<Rightarrow>
    (db, nat) tx" where
  "enqueue_email_intents E order merchant opt_in ev ctx now =
     tx_seq (tx_assert (master_keys E (active_key_version E) \<noteq> None) KeyError)
    (tx_bind
      (if (case map_of (nc_events ctx) (email_event_name ev) of None \<Rightarrow> True | Some b \<Rightarrow> b)
       then tx_fold (\<lambda>n addr. tx_bind (insert_email E order merchant ev now addr ChMerchant)
              (\<lambda>rc. tx_return (n + rc))) 0 (nc_emails ctx)
       else tx_return 0) (\<lambda>inserted.
       if ev \<noteq> EvOrderReceived \<and> opt_in \<and> truthy (nc_customer ctx)
       then tx_bind (insert_email E order merchant ev now (the (nc_customer ctx)) ChCustomer)
              (\<lambda>rc. tx_return (inserted + rc))
       else tx_return inserted))"

text \<open>
  The merchant's notification settings and the customer address sealed in the order; an
  address that cannot be opened counts as absent.
\<close>

definition customer_email :: "env \<Rightarrow> order_row \<Rightarrow> string option" where
  "customer_email E k =
     (if \<not> truthy (o_contact_enc k) then None
      else case open_column E (o_id k) ''orders'' ''contact_enc'' (the (o_contact_enc k)) of
        Inl _ \<Rightarrow> None
      | Inr raw \<Rightarrow> (case json_loads E raw of
            None \<Rightarrow> None
          | Some j \<Rightarrow> Option.bind (json_field ''email'' j) json_str))"

definition notify_context :: "env \<Rightarrow> order_row \<Rightarrow> (db, notify_ctx) tx" where
  "notify_context E k =
     tx_bind (sql_one db_merchants (\<lambda>m. m_id m = o_merchant_id k)) (\<lambda>row.
       tx_return (case row of
         None \<Rightarrow> \<lparr>nc_emails = [], nc_events = [], nc_customer = customer_email E k\<rparr>
       | Some m \<Rightarrow> \<lparr>nc_emails = m_notify_emails m, nc_events = m_notify_events m,
           nc_customer = customer_email E k\<rparr>))"

definition email_for_order :: "env \<Rightarrow> order_row \<Rightarrow> email_event \<Rightarrow> notify_ctx \<Rightarrow> int \<Rightarrow> (db, unit) tx" where
  "email_for_order E k ev ctx now = tx_ignore
     (enqueue_email_intents E (o_id k) (o_merchant_id k) (o_email_opt_in k) ev ctx now)"

section \<open>Cancellation\<close>

datatype cancel_result = CancelNoop | CancelDone int

definition order_row_tx :: "id \<Rightarrow> (db, order_row) tx" where
  "order_row_tx i = tx_bind (find_order i) (\<lambda>row.
     case row of None \<Rightarrow> tx_raise (ProblemError 404 ''unauthorized'') | Some k \<Rightarrow> tx_return k)"

definition cancel_order :: "env \<Rightarrow> id \<Rightarrow> string \<Rightarrow> string option \<Rightarrow> notify_ctx option \<Rightarrow>
    (db, cancel_result) tx" where
  "cancel_order E i actor reason ctx =
     tx_bind tx_now (\<lambda>now.
     tx_bind (order_row_tx i) (\<lambda>k.
       if o_state k = Cancelled then tx_return CancelNoop
       else
         tx_bind (transition_order E i Cancelled (Some (o_state k)) actor reason [] now) (\<lambda>_.
         tx_bind (release_reservations E i ReReleased now) (\<lambda>released.
         tx_seq (case ctx of
             None \<Rightarrow> tx_return ()
           | Some c \<Rightarrow> email_for_order E k EvCancelled c now)
           (tx_return (CancelDone released))))))"

lemmas [evals] = reason_required_def event_row_def insert_event_def update_order_def
  cas_order_state_def find_order_def event_payload_def transition_from_def transition_order_def
  held_of_order_def flip_reservation_def update_product_def release_one_def
  release_reservations_def enqueue_email_intents_def customer_email_def notify_context_def
  email_for_order_def order_row_tx_def cancel_order_def

end
