(* ===== verification/Inventory.thy ===== *)
theory Inventory
  imports Orders
begin

text \<open>
  The stock ledger the inventory columns keep: every product's \<open>stock_reserved\<close> is the sum of
  its held reservations and never exceeds a finite \<open>stock_on_hand\<close>. The ledger may be off
  by a known amount inside a transaction (a reservation flipped whose product row is not yet
  decremented); the moves below say how each statement shifts it, and the operations of the
  order services end with the ledger balanced.
\<close>

section \<open>The ledger\<close>

type_synonym ledger = "(id \<times> int option \<times> int) list \<times> reservation list"

definition held_qty :: "reservation list \<Rightarrow> id \<Rightarrow> int" where
  "held_qty rs i = sum_list (map r_quantity
     (filter (\<lambda>r. r_product_id r = i \<and> r_state r = ReHeld) rs))"

definition fits :: "int option \<Rightarrow> int \<Rightarrow> bool" where
  "fits h v \<longleftrightarrow> (case h of None \<Rightarrow> True | Some n \<Rightarrow> v \<le> n)"

definition off_by :: "(id \<Rightarrow> int) \<Rightarrow> ledger \<Rightarrow> bool" where
  "off_by d L \<longleftrightarrow> distinct (map fst (fst L)) \<and> distinct (map r_id (snd L))
     \<and> (\<forall>(i, h, v) \<in> set (fst L). v = held_qty (snd L) i + d i \<and> fits h v)
     \<and> (\<forall>r \<in> set (snd L). 0 < r_quantity r \<and> r_product_id r \<in> fst ` set (fst L))"

definition balanced :: "ledger \<Rightarrow> bool" where
  "balanced L \<longleftrightarrow> off_by (\<lambda>_. 0) L"

definition stock_ok :: "db \<Rightarrow> bool" where
  "stock_ok s \<longleftrightarrow> balanced (stock_view s)"

definition flip :: "id \<Rightarrow> reservation_state \<Rightarrow> int \<Rightarrow> reservation list \<Rightarrow> reservation list" where
  "flip rid st now = upd_rows (\<lambda>r. r_id r = rid \<and> r_state r = ReHeld)
     (\<lambda>r. r\<lparr>r_state := st, r_updated_at := now\<rparr>)"

lemma held_qty_Nil [simp]: "held_qty [] i = 0"
  by (simp add: held_qty_def)

lemma held_qty_Cons: "held_qty (r # rs) i
   = (if r_product_id r = i \<and> r_state r = ReHeld then r_quantity r else 0) + held_qty rs i"
  by (simp add: held_qty_def)

lemma held_qty_append [simp]: "held_qty (rs @ qs) i = held_qty rs i + held_qty qs i"
  by (simp add: held_qty_def)

lemma held_qty_nonneg: "\<forall>r \<in> set rs. 0 < r_quantity r \<Longrightarrow> 0 \<le> held_qty rs i"
  by (induction rs) (auto simp: held_qty_Cons)

lemma flip_other: "rid \<notin> r_id ` set rs \<Longrightarrow> flip rid st now rs = rs"
  by (auto simp: flip_def intro!: upd_rows_None)

lemma held_qty_flip:
  assumes "distinct (map r_id rs)" "r \<in> set rs" "r_state r = ReHeld" "st \<noteq> ReHeld"
  shows "held_qty (flip (r_id r) st now rs) i
    = held_qty rs i - (if r_product_id r = i then r_quantity r else 0)"
  using assms
proof (induction rs)
  case (Cons q rs)
  show ?case
  proof (cases "q = r")
    case True
    then have "flip (r_id r) st now rs = rs" using Cons.prems by (auto intro: flip_other)
    then show ?thesis using True Cons.prems
      by (simp add: held_qty_Cons flip_def upd_rows_Cons)
  next
    case False
    then have "r_id q \<noteq> r_id r" "r \<in> set rs" using Cons.prems by auto
    then show ?thesis using Cons by (simp add: held_qty_Cons flip_def upd_rows_Cons)
  qed
qed simp

lemma balanced_nonneg: "off_by (\<lambda>_. 0) L \<Longrightarrow> (i, h, v) \<in> set (fst L) \<Longrightarrow> 0 \<le> v"
  by (force simp: off_by_def intro: held_qty_nonneg)

section \<open>The moves of the ledger\<close>

definition shift :: "(id \<Rightarrow> int) \<Rightarrow> id \<Rightarrow> int \<Rightarrow> id \<Rightarrow> int" where
  "shift d i n = d(i := d i + n)"

lemma shift_cancel: "shift (shift d i n) i (- n) = d" "shift (shift d i (- n)) i n = d"
  by (auto simp: shift_def)

lemma map_flip [simp]: "map r_id (flip rid st now rs) = map r_id rs"
  by (simp add: flip_def map_upd_rows)

text \<open>The ledger read off the tables.\<close>

lemma off_by_tables: "off_by d (stock_view s) \<longleftrightarrow>
     distinct (map p_id (db_products s)) \<and> distinct (map r_id (db_reservations s))
     \<and> (\<forall>p \<in> set (db_products s).
          p_stock_reserved p = held_qty (db_reservations s) (p_id p) + d (p_id p)
          \<and> fits (p_stock_on_hand p) (p_stock_reserved p))
     \<and> (\<forall>r \<in> set (db_reservations s). 0 < r_quantity r \<and> r_product_id r \<in> p_id ` set (db_products s))"
  by (simp add: off_by_def stock_view_def product_stock_def comp_def image_image)

lemma off_by_flip:
  assumes "off_by d (ps, rs)" "r \<in> set rs" "r_state r = ReHeld" "st \<noteq> ReHeld"
  shows "off_by (shift d (r_product_id r) (r_quantity r)) (ps, flip (r_id r) st now rs)"
proof -
  have "0 < r_quantity q \<and> r_product_id q \<in> fst ` set ps"
    if "q \<in> set (flip (r_id r) st now rs)" for q
    using that assms(1) by (auto simp: off_by_def flip_def upd_rows_def)
  then show ?thesis
    using assms by (auto simp: off_by_def held_qty_flip shift_def)
qed

lemma stock_view_products:
  "stock_view (db_products_update g s) = (map product_stock (g (db_products s)), db_reservations s)"
  by (simp add: stock_view_def)

lemma stock_view_reservations:
  "stock_view (db_reservations_update g s) = (map product_stock (db_products s), g (db_reservations s))"
  by (simp add: stock_view_def)

lemma off_by_flip_reservation:
  assumes run: "flip_reservation (r_id r) st now s = Inr (n, t)"
    and bal: "off_by d (stock_view s)"
    and r: "r \<in> set (db_reservations s)" "r_state r = ReHeld" and st: "st \<noteq> ReHeld"
  shows "off_by (shift d (r_product_id r) (r_quantity r)) (stock_view t)"
proof -
  have "t = db_reservations_update (flip (r_id r) st now) s"
    using run by (simp add: flip_reservation_def sql_Inr flip_def)
  then show ?thesis
    using off_by_flip [OF _ r st, of d "map product_stock (db_products s)"] bal
    by (simp add: stock_view_reservations) (simp add: stock_view_def)
qed

lemma off_by_update_product:
  assumes run: "update_product i f s = Inr (n, t)"
    and bal: "off_by d (stock_view s)"
    and f: "\<And>p. p_id (f p) = p_id p" "\<And>p. p_stock_reserved (f p) = p_stock_reserved p + q"
  shows "off_by (shift d i q) (stock_view t)"
proof -
  have t: "db_products t = upd_rows (\<lambda>p. p_id p = i) f (db_products s)"
    "db_reservations t = db_reservations s" and ok: "products_ok t"
    using run by (auto simp: update_product_def sql_Inr)
  have ids: "map p_id (db_products t) = map p_id (db_products s)"
    using f(1) by (auto simp: t intro: map_upd_rows)
  have row: "p_stock_reserved p = held_qty (db_reservations s) (p_id p) + shift d i q (p_id p)
      \<and> fits (p_stock_on_hand p) (p_stock_reserved p)" if p: "p \<in> set (db_products t)" for p
  proof
    from p obtain p0 where p0: "p0 \<in> set (db_products s)" "p = (if p_id p0 = i then f p0 else p0)"
      by (auto simp: t set_upd_rows)
    then have "p_stock_reserved p0 = held_qty (db_reservations s) (p_id p0) + d (p_id p0)"
      using bal by (simp add: off_by_tables)
    then show "p_stock_reserved p = held_qty (db_reservations s) (p_id p) + shift d i q (p_id p)"
      using p0(2) f by (simp add: shift_def)
    have "product_check p" using ok p by (simp add: products_ok_def list_all_iff)
    then show "fits (p_stock_on_hand p) (p_stock_reserved p)"
      by (auto simp: fits_def product_check_def split: option.splits)
  qed
  have "p_id ` set (db_products t) = p_id ` set (db_products s)"
    using arg_cong [OF ids, of set] by simp
  moreover have "distinct (map p_id (db_products s))" "distinct (map r_id (db_reservations s))"
    "\<forall>r \<in> set (db_reservations s). 0 < r_quantity r \<and> r_product_id r \<in> p_id ` set (db_products s)"
    using bal unfolding off_by_tables by blast+
  ultimately show ?thesis
    unfolding off_by_tables t(2) ids using row by metis
qed

lemma off_by_insert_reservation:
  assumes run: "sql_insert db_reservations_update reservations_ok r s = Inr (u, t)"
    and bal: "off_by d (stock_view s)" and held: "r_state r = ReHeld"
  shows "off_by (shift d (r_product_id r) (- r_quantity r)) (stock_view t)"
proof -
  have t: "t = db_reservations_update (\<lambda>rs. rs @ [r]) s" and ok: "reservations_ok t"
    using run by (auto simp: sql_Inr)
  then have "0 < r_quantity r" "r_id r \<notin> r_id ` set (db_reservations s)"
    "r_product_id r \<in> p_id ` set (db_products s)"
    by (auto simp: reservations_ok_def image_iff) (metis)
  then show ?thesis
    using bal held by (auto simp: t off_by_tables held_qty_Cons shift_def)
qed

text \<open>Columns of a reservation the ledger does not read.\<close>

definition hold_key :: "reservation \<Rightarrow> id \<times> id \<times> int \<times> reservation_state" where
  "hold_key r = (r_id r, r_product_id r, r_quantity r, r_state r)"

lemma held_qty_keys: "held_qty rs i
   = sum_list (map (\<lambda>(_, p, q, st). if p = i \<and> st = ReHeld then q else 0) (map hold_key rs))"
  by (induction rs) (auto simp: held_qty_Cons hold_key_def)

lemma off_by_hold_keys:
  assumes "map hold_key rs = map hold_key qs"
  shows "off_by d (ps, rs) \<longleftrightarrow> off_by d (ps, qs)"
proof -
  have ids: "map r_id rs = map fst (map hold_key rs)" for rs by (simp add: hold_key_def)
  have "map r_id rs = map r_id qs" unfolding ids assms ..
  moreover have "held_qty rs = held_qty qs" unfolding held_qty_keys assms ..
  moreover have "(\<forall>r \<in> set rs. 0 < r_quantity r \<and> r_product_id r \<in> fst ` set ps)
    \<longleftrightarrow> (\<forall>r \<in> set qs. 0 < r_quantity r \<and> r_product_id r \<in> fst ` set ps)"
  proof -
    have "(\<forall>r \<in> set rs. 0 < r_quantity r \<and> r_product_id r \<in> fst ` set ps)
      \<longleftrightarrow> list_all (\<lambda>(_, p, q, _). 0 < q \<and> p \<in> fst ` set ps) (map hold_key rs)" for rs
      by (simp add: hold_key_def list_all_iff)
    then show ?thesis by (simp only: assms)
  qed
  ultimately show ?thesis unfolding off_by_def fst_conv snd_conv by (simp only:)
qed

lemma stock_update_reservations:
  assumes "\<And>r. hold_key (f r) = hold_key r"
  shows "tx_inv stock_ok (sql_update db_reservations db_reservations_update okc P f)"
proof (rule tx_invI)
  fix s n t
  assume ok: "stock_ok s" and run: "sql_update db_reservations db_reservations_update okc P f s = Inr (n, t)"
  have keys: "map hold_key (upd_rows P f (db_reservations s)) = map hold_key (db_reservations s)"
    by (rule map_upd_rows) (rule assms)
  have "stock_view t = (map product_stock (db_products s), upd_rows P f (db_reservations s))"
    using run by (simp add: sql_Inr stock_view_def)
  then show "stock_ok t"
    using ok off_by_hold_keys [OF keys] by (simp add: stock_ok_def balanced_def stock_view_def)
qed

section \<open>Draining an order's reservations\<close>

text \<open>
  Release and settlement both walk the held reservations of an order: flip the row by a
  compare-and-swap, then move its quantity out of the product row. The interface fixes the
  step, the state it leaves the reservation in, and whether the quantity also leaves the
  stock on hand (\<open>c\<close> is 0 or 1).
\<close>

locale reservation_drain =
  fixes step :: "int \<Rightarrow> 'b \<Rightarrow> reservation \<Rightarrow> (db, 'b) tx"
    and target :: reservation_state and c :: int and add :: "'b \<Rightarrow> int \<Rightarrow> 'b"
  assumes target: "target \<noteq> ReHeld"
    and step_run: "step now b r s = Inr (b', t) \<Longrightarrow> \<exists>s1 s2 f m.
        flip_reservation (r_id r) target now s = Inr (1, s1)
        \<and> update_product (r_product_id r) f s1 = Inr (m, s2)
        \<and> (\<forall>p. product_stock (f p) = (p_id p, map_option (\<lambda>h. h - c * r_quantity r) (p_stock_on_hand p),
              p_stock_reserved p - r_quantity r))
        \<and> stock_view t = stock_view s2 \<and> b' = add b (r_quantity r)"
begin

definition settle_row :: "int \<Rightarrow> reservation \<Rightarrow> reservation" where
  "settle_row now r = r\<lparr>r_state := target, r_updated_at := now\<rparr>"

definition drained :: "reservation list \<Rightarrow> product \<Rightarrow> id \<times> int option \<times> int" where
  "drained zs p = (p_id p, map_option (\<lambda>h. h - c * held_qty zs (p_id p)) (p_stock_on_hand p),
     p_stock_reserved p - held_qty zs (p_id p))"

lemma drained_Nil: "drained [] p = product_stock p"
  by (simp add: drained_def product_stock_def option.map_ident)

lemma step_balanced:
  assumes run: "step now b r s = Inr (b', t)" and ok: "stock_ok s"
    and r: "r \<in> set (db_reservations s)" "r_state r = ReHeld"
  shows "stock_ok t \<and> db_reservations t = flip (r_id r) target now (db_reservations s)"
proof -
  obtain s1 s2 f m where s1: "flip_reservation (r_id r) target now s = Inr (1, s1)"
    and s2: "update_product (r_product_id r) f s1 = Inr (m, s2)"
    and f: "\<forall>p. product_stock (f p) = (p_id p, map_option (\<lambda>h. h - c * r_quantity r) (p_stock_on_hand p),
              p_stock_reserved p - r_quantity r)"
    and t: "stock_view t = stock_view s2"
    using step_run [OF run] by blast
  have "off_by (shift (\<lambda>_. 0) (r_product_id r) (r_quantity r)) (stock_view s1)"
    using s1 ok r target by (auto simp: stock_ok_def balanced_def intro: off_by_flip_reservation)
  then have "off_by (shift (shift (\<lambda>_. 0) (r_product_id r) (r_quantity r)) (r_product_id r)
      (- r_quantity r)) (stock_view s2)"
    using f by (intro off_by_update_product [OF s2]) (auto simp: product_stock_def)
  then have "stock_ok t" by (simp add: shift_cancel stock_ok_def balanced_def t)
  moreover have "db_reservations t = db_reservations s2" using t by (simp add: stock_view_def)
  then have "db_reservations t = flip (r_id r) target now (db_reservations s)"
    using s1 s2 by (auto simp: update_product_def flip_reservation_def flip_def sql_Inr)
  ultimately show ?thesis by blast
qed

lemma step_stock:
  assumes run: "step now b r s = Inr (b', t)"
  shows "db_reservations t = flip (r_id r) target now (db_reservations s)
    \<and> map product_stock (db_products t)
      = map (\<lambda>p. if p_id p = r_product_id r
               then (p_id p, map_option (\<lambda>h. h - c * r_quantity r) (p_stock_on_hand p),
                     p_stock_reserved p - r_quantity r)
               else product_stock p) (db_products s)"
proof -
  obtain s1 s2 f m where s1: "flip_reservation (r_id r) target now s = Inr (1, s1)"
    and s2: "update_product (r_product_id r) f s1 = Inr (m, s2)"
    and f: "\<forall>p. product_stock (f p) = (p_id p, map_option (\<lambda>h. h - c * r_quantity r) (p_stock_on_hand p),
              p_stock_reserved p - r_quantity r)"
    and t: "stock_view t = stock_view s2"
    using step_run [OF run] by blast
  have "db_products s1 = db_products s" "db_reservations s2 = flip (r_id r) target now (db_reservations s)"
    "db_products s2 = upd_rows (\<lambda>p. p_id p = r_product_id r) f (db_products s1)"
    using s1 s2 by (auto simp: update_product_def flip_reservation_def flip_def sql_Inr)
  then show ?thesis using t f by (auto simp: stock_view_def upd_rows_def)
qed

text \<open>The loop, with the part \<open>zs\<close> of the held rows already drained.\<close>

lemma drain_loop:
  assumes run: "tx_fold (step now) b ys s = Inr (b', t)"
    and ids: "distinct (map r_id rs)" "set (zs @ ys) \<subseteq> set rs" "distinct (zs @ ys)"
    and held: "\<forall>r \<in> set (zs @ ys). r_state r = ReHeld"
    and rs: "db_reservations s = upd_rows (\<lambda>r. r \<in> set zs) (settle_row now) rs"
    and ps: "map product_stock (db_products s) = map (drained zs) ps"
  shows "db_reservations t = upd_rows (\<lambda>r. r \<in> set (zs @ ys)) (settle_row now) rs
    \<and> map product_stock (db_products t) = map (drained (zs @ ys)) ps
    \<and> b' = foldl (\<lambda>a r. add a (r_quantity r)) b ys"
  using run ids(2,3) held rs ps
proof (induction ys arbitrary: b s zs)
  case Nil
  then show ?case by simp
next
  case (Cons y ys)
  obtain b1 s1 where s1: "step now b y s = Inr (b1, s1)"
    and rest: "tx_fold (step now) b1 ys s1 = Inr (b', t)"
    using Cons.prems(1) by (auto simp: tx_bind_Inr)
  note st = step_stock [OF s1]
  have same: "r = y" if "r \<in> set rs" "r_id r = r_id y" for r
    using that Cons.prems(2) by (auto intro: distinct_key_eq [OF ids(1)])
  have "db_reservations s1 = upd_rows (\<lambda>r. r \<in> set (zs @ [y])) (settle_row now) rs"
    using st Cons.prems same target
    by (auto simp: flip_def upd_rows_def settle_row_def)
  moreover have "map product_stock (db_products s1) = map (drained (zs @ [y])) ps"
  proof -
    have "map product_stock (db_products s1)
      = map (\<lambda>(i, h, v). if i = r_product_id y
               then (i, map_option (\<lambda>h. h - c * r_quantity y) h, v - r_quantity y) else (i, h, v))
          (map product_stock (db_products s))"
      using st by (simp add: product_stock_def comp_def)
    also have "\<dots> = map (drained (zs @ [y])) ps"
      using Cons.prems(6) Cons.prems(4)
      by (auto simp: drained_def held_qty_Cons option.map_comp comp_def algebra_simps)
    finally show ?thesis .
  qed
  moreover have "b1 = add b (r_quantity y)" using step_run [OF s1] by blast
  ultimately show ?case
    using Cons.IH [OF rest, of "zs @ [y]"] Cons.prems(2-4) by auto
qed

lemma drain:
  assumes run: "tx_bind (held_of_order i) (tx_fold (step now) b) s = Inr (b', t)"
    and ids: "distinct (map r_id (db_reservations s))"
  shows "db_reservations t
      = upd_rows (\<lambda>r. r_order_id r = i \<and> r_state r = ReHeld) (settle_row now) (db_reservations s)
    \<and> map product_stock (db_products t)
      = map (drained (filter (\<lambda>r. r_order_id r = i \<and> r_state r = ReHeld) (db_reservations s)))
          (db_products s)
    \<and> b' = foldl (\<lambda>a r. add a (r_quantity r)) b
          (filter (\<lambda>r. r_order_id r = i \<and> r_state r = ReHeld) (db_reservations s))"
proof -
  let ?H = "filter (\<lambda>r. r_order_id r = i \<and> r_state r = ReHeld) (db_reservations s)"
  have L: "tx_fold (step now) b ?H s = Inr (b', t)"
    using run by (auto simp: tx_bind_Inr held_of_order_def)
  have D: "distinct ([] @ ?H)" using ids by (simp add: distinct_map)
  have S: "set ([] @ ?H) \<subseteq> set (db_reservations s)" "\<forall>r \<in> set ([] @ ?H). r_state r = ReHeld"
    by auto
  have R: "db_reservations s = upd_rows (\<lambda>r. r \<in> set []) (settle_row now) (db_reservations s)"
    by (simp add: upd_rows_def)
  have M: "map product_stock (db_products s) = map (drained []) (db_products s)"
    by (simp add: drained_Nil)
  from drain_loop [OF L ids S(1) D S(2) R M]
  have "db_reservations t = upd_rows (\<lambda>r. r \<in> set ?H) (settle_row now) (db_reservations s)
    \<and> map product_stock (db_products t) = map (drained ?H) (db_products s)
    \<and> b' = foldl (\<lambda>a r. add a (r_quantity r)) b ?H"
    by (simp only: append_Nil)
  then show ?thesis unfolding upd_rows_filter .
qed

lemma drain_balanced:
  "tx_inv stock_ok (tx_bind (held_of_order i) (tx_fold (step now) b))"
proof (rule tx_invI)
  fix s b' t
  assume ok: "stock_ok s" and run: "tx_bind (held_of_order i) (tx_fold (step now) b) s = Inr (b', t)"
  let ?H = "filter (\<lambda>r. r_order_id r = i \<and> r_state r = ReHeld) (db_reservations s)"
  define P where "P = (\<lambda>_::'b. \<lambda>ys s. stock_ok s \<and> distinct (map r_id ys)
      \<and> (\<forall>y \<in> set ys. y \<in> set (db_reservations s) \<and> r_state y = ReHeld))"
  have loop: "tx_fold (step now) b ?H s = Inr (b', t)"
    using run by (auto simp: tx_bind_Inr held_of_order_def)
  have "P b' [] t"
  proof (rule tx_fold_hoare [OF _ loop])
    show "P b ?H s"
      using ok by (auto simp: P_def stock_ok_def balanced_def off_by_tables distinct_map_filter)
  next
    fix b x ys s1 b2 t1
    assume P: "P b (x # ys) s1" and run1: "step now b x s1 = Inr (b2, t1)"
    from P have "stock_ok t1 \<and> db_reservations t1 = flip (r_id x) target now (db_reservations s1)"
      by (intro step_balanced [OF run1]) (auto simp: P_def)
    with P show "P b2 ys t1"
      by (auto simp: P_def flip_def upd_rows_def image_iff)
  qed
  then show "stock_ok t" by (simp add: P_def)
qed

end

text \<open>Release, to any final state.\<close>

lemma release_drains:
  assumes "st \<noteq> ReHeld"
  shows "reservation_drain (release_one E st) st 0 (+)"
proof
  show "st \<noteq> ReHeld" by (rule assms)
next
  fix now b r s b' t
  assume run: "release_one E st now b r s = Inr (b', t)"
  let ?f = "\<lambda>p. p\<lparr>p_stock_reserved := p_stock_reserved p - r_quantity r, p_updated_at := now,
              p_revision := p_revision p + 1\<rparr>"
  obtain s1 s2 m where s1: "flip_reservation (r_id r) st now s = Inr (1, s1)"
    and s2: "update_product (r_product_id r) ?f s1 = Inr (m, s2)"
    and t: "enqueue_stock_projection E (r_product_id r) s2 = Inr ((), t)" "b' = b + r_quantity r"
    using run by (auto simp: release_one_def tx_Inr)
  have "stock_view t = stock_view s2"
    by (rule tx_keepsD [OF stock_enqueue_stock_projection t(1)])
  then show "\<exists>s1 s2 f m. flip_reservation (r_id r) st now s = Inr (1, s1)
        \<and> update_product (r_product_id r) f s1 = Inr (m, s2)
        \<and> (\<forall>p. product_stock (f p) = (p_id p, map_option (\<lambda>h. h - 0 * r_quantity r) (p_stock_on_hand p),
              p_stock_reserved p - r_quantity r))
        \<and> stock_view t = stock_view s2 \<and> b' = b + r_quantity r"
    using s1 s2 t(2) by (intro exI [of _ s1] exI [of _ s2] exI [of _ ?f] exI [of _ m])
      (simp add: product_stock_def option.map_ident)
qed

interpretation released: reservation_drain "release_one E ReReleased" ReReleased 0 "(+)" for E
  by (rule release_drains) simp

interpretation expired: reservation_drain "release_one E ReExpired" ReExpired 0 "(+)" for E
  by (rule release_drains) simp

lemma stock_release_reservations:
  "st \<noteq> ReHeld \<Longrightarrow> tx_inv stock_ok (release_reservations E i st now)"
  unfolding release_reservations_def
  by (rule reservation_drain.drain_balanced [OF release_drains])

lemma stock_keeps: "tx_keeps stock_view m \<Longrightarrow> tx_inv stock_ok m"
  unfolding stock_ok_def by (rule tx_keeps_inv)

end
