(* ===== verification/AuditTrail.thy ===== *)
theory AuditTrail
  imports Inventory
begin

text \<open>
  The audit trail of an order: its \<open>order_events\<close> rows, in the order they were written,
  replay through the transition table to the state the order row holds. The view below is all
  an operation can change about it, and \<open>transition_from\<close> makes exactly one legal move.
\<close>

section \<open>Replay\<close>

type_synonym audit = "(id \<times> order_state) list \<times> (id \<times> order_state option \<times> order_state) list"

definition audit_view :: "db \<Rightarrow> audit" where
  "audit_view s = (map (\<lambda>k. (o_id k, o_state k)) (db_orders s),
     map (\<lambda>e. (oe_order_id e, oe_from_state e, oe_to_state e)) (db_events s))"

text \<open>
  The first event of an order is its intake; later ones follow the table or, for the events
  that only annotate, repeat the state.
\<close>

definition legal :: "order_state option \<Rightarrow> order_state \<Rightarrow> bool" where
  "legal f t \<longleftrightarrow> (case f of None \<Rightarrow> t = Received | Some a \<Rightarrow> a = t \<or> t \<in> set (order_transitions a))"

fun replay :: "order_state option \<Rightarrow> (order_state option \<times> order_state) list \<Rightarrow>
    order_state option option" where
  "replay cur [] = Some cur"
| "replay cur ((f, t) # es) = (if f = cur \<and> legal cur t then replay (Some t) es else None)"

definition trail_of :: "id \<Rightarrow> (id \<times> order_state option \<times> order_state) list \<Rightarrow>
    (order_state option \<times> order_state) list" where
  "trail_of i es = map snd (filter (\<lambda>e. fst e = i) es)"

definition replays :: "audit \<Rightarrow> bool" where
  "replays A \<longleftrightarrow> distinct (map fst (fst A))
     \<and> (\<forall>a \<in> set (fst A). replay None (trail_of (fst a) (snd A)) = Some (Some (snd a)))
     \<and> (\<forall>e \<in> set (snd A). fst e \<in> fst ` set (fst A))"

definition audit_ok :: "db \<Rightarrow> bool" where
  "audit_ok s \<longleftrightarrow> replays (audit_view s)"

lemma replaysD: "replays A \<Longrightarrow> (i, st) \<in> set (fst A) \<Longrightarrow> replay None (trail_of i (snd A)) = Some (Some st)"
  by (auto simp: replays_def dest: bspec)

lemma replay_append: "replay cur (es @ fs)
   = (case replay cur es of None \<Rightarrow> None | Some c \<Rightarrow> replay c fs)"
  by (induction cur es rule: replay.induct) auto

lemma trail_of_append: "trail_of i (es @ [(j, f, t)]) = trail_of i es @ (if j = i then [(f, t)] else [])"
  by (simp add: trail_of_def)

text \<open>A move: the state of one order changes and one event is appended.\<close>

definition move :: "id \<Rightarrow> order_state \<Rightarrow> order_state \<Rightarrow> audit \<Rightarrow> audit" where
  "move i f t A = (map (\<lambda>(j, st). if j = i \<and> st = f then (j, t) else (j, st)) (fst A),
     snd A @ [(i, Some f, t)])"

lemma replays_move:
  assumes A: "replays A" and f: "(i, f) \<in> set (fst A)" and legal: "legal (Some f) t"
  shows "replays (move i f t A)"
proof -
  have key: "st = f" if "(i, st) \<in> set (fst A)" for st
    using A f that by (auto simp: replays_def dest: eq_key_imp_eq_value)
  have ids: "map fst (fst (move i f t A)) = map fst (fst A)"
    by (auto simp: move_def)
  have rows: "replay None (trail_of j (snd (move i f t A))) = Some (Some st')"
    if m: "(j, st') \<in> set (fst (move i f t A))" for j st'
  proof -
    have "\<exists>st. (j, st) \<in> set (fst A) \<and> st' = (if j = i \<and> st = f then t else st)"
    proof -
      obtain x where "x \<in> set (fst A)"
        "(j, st') = (case x of (k, u) \<Rightarrow> if k = i \<and> u = f then (k, t) else (k, u))"
        using m unfolding move_def fst_conv set_map by blast
      then show ?thesis by (intro exI [of _ "snd x"]) (auto split: prod.splits if_splits)
    qed
    then obtain st where st: "(j, st) \<in> set (fst A)" "st' = (if j = i then t else st)"
      using key by metis
    then have "replay None (trail_of j (snd A)) = Some (Some st)"
      using A by (intro replaysD) auto
    then show ?thesis
      using st key [of st] legal by (auto simp: move_def trail_of_append replay_append)
  qed
  have "fst ` set (fst (move i f t A)) = fst ` set (fst A)"
    using arg_cong [OF ids, of set] by simp
  moreover have "fst e \<in> fst ` set (fst A)" if "e \<in> set (snd (move i f t A))" for e
    using that A f by (force simp: move_def replays_def)
  ultimately show ?thesis
    using rows A unfolding replays_def ids by (metis prod.collapse)
qed

text \<open>An intake: a new order in state \<open>received\<close> with its first event.\<close>

lemma replays_intake:
  assumes A: "replays (os, es)" and new: "i \<notin> fst ` set os"
  shows "replays (os @ [(i, Received)], es @ [(i, None, Received)])"
proof -
  have "trail_of i es = []"
    using A new by (auto simp: trail_of_def replays_def filter_empty_conv)
  moreover have "replay None (trail_of j (es @ [(i, None, Received)])) = Some (Some st)"
    if "(j, st) \<in> set os" for j st
  proof -
    have "j \<noteq> i" using that new by force
    then show ?thesis using that A by (auto simp: trail_of_append dest: replaysD)
  qed
  ultimately show ?thesis
    using A new by (auto simp: replays_def trail_of_append legal_def image_iff)
qed

section \<open>The effect of a transition\<close>

lemma audit_view_other [simp]:
  "audit_view (db_outbox_update g1 s) = audit_view s"
  "audit_view (db_outbox_deps_update g2 s) = audit_view s"
  "audit_view (db_draws_update g3 s) = audit_view s"
  "audit_view (db_messages_update g4 s) = audit_view s"
  "audit_view (db_products_update g5 s) = audit_view s"
  "audit_view (db_reservations_update g6 s) = audit_view s"
  "audit_view (db_emails_update g7 s) = audit_view s"
  "audit_view (db_payments_update g8 s) = audit_view s"
  "audit_view (db_idempotency_update g9 s) = audit_view s"
  "audit_view (db_items_update g10 s) = audit_view s"
  "audit_view (db_fx_quotes_update g11 s) = audit_view s"
  "audit_view (db_fulfillment_update g12 s) = audit_view s"
  "audit_view (db_collections_update g13 s) = audit_view s"
  "audit_view (db_buckets_update g14 s) = audit_view s"
  "audit_view (db_inbox_update g15 s) = audit_view s"
  "audit_view (db_publications_update g16 s) = audit_view s"
  "audit_view (db_leases_update g17 s) = audit_view s"
  "audit_view (db_addresses_update g18 s) = audit_view s"
  "audit_view (db_merchants_update g19 s) = audit_view s"
  "audit_view (db_settings_update g20 s) = audit_view s"
  "audit_view (db_clock_update g21 s) = audit_view s"
  "audit_view (db_peer_relays_update g22 s) = audit_view s"
  "audit_view (db_images_update h0 s) = audit_view s"
  "audit_view (db_specs_update h1 s) = audit_view s"
  "audit_view (db_categories_update h2 s) = audit_view s"
  "audit_view (db_cursors_update h3 s) = audit_view s"
  "audit_view (db_merchant_keys_update h4 s) = audit_view s"
  "audit_view (db_challenges_update h5 s) = audit_view s"
  "audit_view (db_sessions_update h6 s) = audit_view s"
  "audit_view (db_catalogs_update h7 s) = audit_view s"
  "audit_view (db_shipping_options_update h8 s) = audit_view s"
  "audit_view (db_collection_shipping_update h9 s) = audit_view s"
  "audit_view (db_relay_configs_update h10 s) = audit_view s"
  "audit_view (db_blocklist_update h11 s) = audit_view s"
  "audit_view (db_product_collections_update h12 s) = audit_view s"
  "audit_view (db_product_shipping_options_update h13 s) = audit_view s"
  "audit_view (db_product_shipping_collections_update h14 s) = audit_view s"
  by (simp_all add: audit_view_def)

text \<open>An update that leaves every state alone is invisible to the trail.\<close>

lemma audit_keeps_orders:
  assumes "\<And>k. o_id (f k) = o_id k" "\<And>k. o_state (f k) = o_state k"
  shows "tx_keeps audit_view (sql_update db_orders db_orders_update ok P f)"
  by (rule tx_keepsI) (auto simp: sql_Inr audit_view_def assms map_upd_rows)

lemma audit_keeps_update_order [keeps]:
  assumes "\<And>k. o_id (f k) = o_id k" "\<And>k. o_state (f k) = o_state k"
  shows "tx_keeps audit_view (update_order i f)"
  unfolding update_order_def by (intro keeps audit_keeps_orders assms)

lemma audit_enqueue_stock_projection [keeps]:
  "tx_keeps audit_view (enqueue_stock_projection E i)"
  "tx_keeps audit_view (enqueue_product E m i rv pk)"
  by (rule keeps_enqueue_stock_projection keeps_enqueue_product; simp add: keeps_sql)+

lemma audit_release [keeps]: "tx_keeps audit_view (release_reservations E i st now)"
  unfolding release_reservations_def release_one_def held_of_order_def flip_reservation_def
    update_product_def
  by (intro keeps keeps_sql audit_view_other)

text \<open>The successful runs of a transition.\<close>

lemma transition_from_run:
  assumes run: "transition_from E i f t actor reason detail now s = Inr (r, s')"
  shows "r = f" and "t \<in> set (order_transitions f)"
    and "reason_required f t \<longrightarrow> truthy reason"
    and "\<exists>k \<in> set (db_orders s). o_id k = i \<and> o_state k = f"
    and "audit_view s' = move i f t (audit_view s)"
proof -
  obtain s1 s2 s3 where
    guards: "t \<in> set (order_transitions f)" "reason_required f t \<longrightarrow> truthy reason" and
    s1: "cas_order_state i f t s = Inr (1, s1)" and
    s2: "update_order i (\<lambda>k. k\<lparr>o_updated_at := now, o_archived_at := None\<rparr>) s1 = Inr ((), s2)" and
    s3: "insert_event E i (Some f) t actor (event_payload reason detail) now s2 = Inr ((), s3)" and
    s4: "(case List.find (\<lambda>k. o_id k = i) (db_orders s3) of
         None \<Rightarrow> tx_return ()
       | Some k \<Rightarrow> tx_when (truthy (o_buyer_pubkey_hash k))
           (tx_ignore (enqueue_status E k t reason))) s3 = Inr ((), s')" and
    r: "r = f"
    using run by (auto simp: transition_from_def tx_Inr find_order_def)
  show "r = f" "t \<in> set (order_transitions f)" "reason_required f t \<longrightarrow> truthy reason"
    by (fact r guards)+
  have n1: "length (filter (\<lambda>k. o_id k = i \<and> o_state k = f) (db_orders s)) = 1"
    and s1': "s1 = db_orders_update (upd_rows (\<lambda>k. o_id k = i \<and> o_state k = f) (\<lambda>k. k\<lparr>o_state := t\<rparr>)) s"
    using s1 by (auto simp: cas_order_state_def sql_Inr)
  then show "\<exists>k \<in> set (db_orders s). o_id k = i \<and> o_state k = f"
    by (metis (mono_tags, lifting) filter_False length_0_conv zero_neq_one)
  have "audit_view s1 = (fst (move i f t (audit_view s)), snd (audit_view s))"
    by (auto simp: s1' audit_view_def move_def upd_rows_def)
  moreover have "audit_view s2 = audit_view s1"
    using s2 by (rule tx_keepsD [rotated]) (intro keeps; simp)
  moreover have "audit_view s3 = (fst (audit_view s2), snd (audit_view s2) @ [(i, Some f, t)])"
    using s3 by (auto simp: insert_event_def event_row_def tx_Inr sql_Inr audit_view_def)
  moreover have "audit_view s' = audit_view s3"
    using s4 by (rule tx_keepsD [rotated]) (intro keeps audit_view_other)
  ultimately show "audit_view s' = move i f t (audit_view s)"
    by (simp add: move_def)
qed

lemma transition_from_audit: "tx_inv audit_ok (transition_from E i f t actor reason detail now)"
proof (rule tx_invI)
  fix s a s'
  assume "audit_ok s" and run: "transition_from E i f t actor reason detail now s = Inr (a, s')"
  note T = transition_from_run [OF run]
  have "(i, f) \<in> set (fst (audit_view s))" using T(4) by (auto simp: audit_view_def)
  then show "audit_ok s'"
    using \<open>audit_ok s\<close> T(2,5) by (simp add: audit_ok_def replays_move legal_def)
qed

lemma transition_order_audit: "tx_inv audit_ok (transition_order E i t f actor reason detail now)"
  unfolding transition_order_def find_order_def
  by (intro tx_inv_option tx_inv_bind transition_from_audit) (auto intro: tx_invI)

lemma audit_keeps: "tx_keeps audit_view m \<Longrightarrow> tx_inv audit_ok m"
  unfolding audit_ok_def by (rule tx_keeps_inv)

text \<open>What a transition never touches: the stock ledger.\<close>

lemma keeps_transition_order:
  assumes "\<And>g s. f (db_outbox_update g s) = f s" "\<And>g s. f (db_outbox_deps_update g s) = f s"
    "\<And>g s. f (db_draws_update g s) = f s" "\<And>g s. f (db_messages_update g s) = f s"
    "\<And>g s. f (db_orders_update g s) = f s" "\<And>g s. f (db_events_update g s) = f s"
  shows "tx_keeps f (transition_order E i t fr actor reason detail now)"
  unfolding transition_order_def transition_from_def cas_order_state_def update_order_def
    insert_event_def find_order_def
  by (intro keeps keeps_sql assms)

lemma stock_transition_order [keeps]:
  "tx_keeps stock_view (transition_order E i t fr actor reason detail now)"
  by (rule keeps_transition_order) simp_all

lemma keeps_insert_email [keeps]:
  assumes "\<And>g s. f (db_emails_update g s) = f s" "\<And>g s. f (db_draws_update g s) = f s"
  shows "tx_keeps f (insert_email E k m ev now r ch)"
    "tx_keeps f (enqueue_email_intents E k m oi ev ctx now)"
    "tx_keeps f (email_for_order E ord ev ctx now)"
  unfolding email_for_order_def enqueue_email_intents_def insert_email_def
  by (intro keeps keeps_sql assms)+

lemma keeps_notify_context [keeps]: "tx_keeps f (notify_context E k)"
  and keeps_find_order [keeps]: "tx_keeps f (find_order i)"
  and keeps_order_row_tx [keeps]: "tx_keeps f (order_row_tx i)"
  unfolding notify_context_def find_order_def order_row_tx_def by (intro keeps)+

lemma cancel_order_audit: "tx_inv audit_ok (cancel_order E i actor reason ctx)"
  unfolding cancel_order_def order_row_tx_def find_order_def
  by (intro tx_inv_bind tx_inv_seq tx_inv_option tx_inv_if transition_order_audit tx_inv_return
      audit_keeps keeps audit_view_other)

lemma cancel_order_stock: "tx_inv stock_ok (cancel_order E i actor reason ctx)"
  unfolding cancel_order_def order_row_tx_def find_order_def
  by (intro tx_inv_bind tx_inv_seq tx_inv_option tx_inv_if stock_release_reservations tx_inv_return
      stock_keeps keeps stock_view_other) simp

end
