(* ===== verification/Saga.thy ===== *)
theory Saga
  imports AuditTrail "HOL-Library.Multiset"
begin

text \<open>
  The invoice saga of \<open>services/checkout.py\<close> (8.2): the claim transaction with its
  conditional stock updates, the external \<open>create_invoice\<close> call outside any transaction, the
  attach transaction, and the two ways it ends without an invoice. The verification of a core
  payment against the projection (\<open>services/settlement.py\<close>) is here because attach uses it.
\<close>

section \<open>LNbits\<close>

text \<open>
  What the services read of LNbits: a core payment, a decoded BOLT11 invoice, the owner of a
  wallet, and the outcome of \<open>create_invoice\<close>. The answers may differ from call to call,
  so every operation takes them as an argument.
\<close>

record core_payment =
  cp_extension :: "string option"
  cp_external_id :: "string option"
  cp_wallet_id :: string
  cp_payment_hash :: string
  cp_checking_id :: string
  cp_bolt11 :: string
  cp_expiry :: "int option"
  cp_amount :: int
  cp_sat :: int
  cp_is_in :: bool
  cp_success :: bool
  cp_pending :: bool
  cp_is_expired :: bool

record bolt11_invoice =
  bi_payment_hash :: string
  bi_amount_msat :: "int option"
  bi_expiry :: "int option"

datatype invoice_outcome = InvoiceCreated core_payment | InvoiceFailed | InvoiceUnknown

record lnbits =
  ln_decode :: "string \<Rightarrow> bolt11_invoice option"
  ln_wallet_user :: "string \<Rightarrow> string option"
  ln_create_invoice :: "string \<Rightarrow> string \<Rightarrow> int \<Rightarrow> invoice_outcome"
  ln_payments :: "string \<Rightarrow> core_payment list"
  ln_paid :: "core_payment \<Rightarrow> bool option"

section \<open>Readiness\<close>

text \<open>
  \<open>services/readiness.py\<close>: PostgreSQL needs UTC in the database and in the process; whether
  it has it is a fact of the deployment.
\<close>

definition assert_database_compatible :: "env \<Rightarrow> (db, unit) proc" where
  "assert_database_compatible E =
     (if database_compatible E then pr_return ()
      else pr_raise (ProblemError 503 ''checkout-unavailable''))"

lemma pr_inv_compatible [pr_invs]: "pr_inv I (assert_database_compatible E)"
  by (auto simp: assert_database_compatible_def)

lemmas [evals] = assert_database_compatible_def pr_defs

section \<open>Verification of a core payment\<close>

definition wallet_hash :: "env \<Rightarrow> id \<Rightarrow> string \<Rightarrow> string" where
  "wallet_hash E merchant wallet = hmac_index E ''wallet-id'' merchant (nfc_strip_lower E wallet)"

definition wallet_id_from_snapshot :: "env \<Rightarrow> payment \<Rightarrow> order_row \<Rightarrow> string option" where
  "wallet_id_from_snapshot E pay k =
     (case pay_wallet_refs_enc pay of
        None \<Rightarrow> None
      | Some envelope \<Rightarrow>
          (case open_column E (o_id k) ''payments'' ''wallet_refs_enc'' envelope of
             Inl _ \<Rightarrow> None
           | Inr raw \<Rightarrow> Some (takeWhile (\<lambda>c. c \<noteq> CHR ''|'') raw)))"

definition ownership_lost :: "env \<Rightarrow> lnbits \<Rightarrow> db \<Rightarrow> order_row \<Rightarrow> payment \<Rightarrow> bool" where
  "ownership_lost E L s k pay =
     (case wallet_id_from_snapshot E pay k of
        None \<Rightarrow> False
      | Some wallet \<Rightarrow>
          (case (ln_wallet_user L wallet, List.find (\<lambda>m. m_id m = o_merchant_id k) (db_merchants s)) of
             (Some user, Some m) \<Rightarrow> user \<noteq> m_user_id m
           | _ \<Rightarrow> True))"

definition bolt11_mismatch :: "env \<Rightarrow> lnbits \<Rightarrow> order_row \<Rightarrow> payment \<Rightarrow> core_payment \<Rightarrow> string option" where
  "bolt11_mismatch E L k pay core =
     (case pay_bolt11_enc pay of
        None \<Rightarrow> None
      | Some envelope \<Rightarrow>
          (case open_column E (o_id k) ''payments'' ''bolt11_enc'' envelope of
             Inl _ \<Rightarrow> Some ''settlement-bolt11-undecodable''
           | Inr bolt11 \<Rightarrow>
               (case ln_decode L bolt11 of
                  None \<Rightarrow> Some ''settlement-bolt11-undecodable''
                | Some iv \<Rightarrow>
                    if bi_payment_hash iv \<noteq> cp_payment_hash core
                    then Some ''settlement-hash-mismatch''
                    else if cp_expiry core \<noteq> None \<and> bi_expiry iv \<noteq> None
                         \<and> bi_expiry iv \<noteq> cp_expiry core
                    then Some ''settlement-expiry-mismatch''
                    else None)))"

definition verify_settlement :: "env \<Rightarrow> lnbits \<Rightarrow> db \<Rightarrow> order_row \<Rightarrow> payment \<Rightarrow> core_payment \<Rightarrow>
    string option" where
  "verify_settlement E L s k pay core =
     (if \<not> cp_is_in core then Some ''settlement-not-incoming''
      else if cp_amount core mod 1000 \<noteq> 0 then Some ''settlement-msat-not-exact''
      else if pay_amount_sat pay \<noteq> None \<and> pay_amount_sat pay \<noteq> Some (cp_sat core)
      then Some ''settlement-amount-mismatch''
      else if truthy (pay_wallet_id_hash pay)
           \<and> Some (wallet_hash E (o_merchant_id k) (cp_wallet_id core)) \<noteq> pay_wallet_id_hash pay
      then Some ''settlement-wallet-mismatch''
      else if ownership_lost E L s k pay then Some ''settlement-wallet-ownership-lost''
      else bolt11_mismatch E L k pay core)"

definition invoice_delivery_mismatch :: "env \<Rightarrow> lnbits \<Rightarrow> id \<Rightarrow> core_payment \<Rightarrow> db \<Rightarrow> bool" where
  "invoice_delivery_mismatch E L i core s =
     (case (List.find (\<lambda>k. o_id k = i) (db_orders s),
            List.find (\<lambda>p. pay_order_id p = i) (db_payments s)) of
        (Some k, Some pay) \<Rightarrow>
          if pay_status pay \<notin> {PyCreating, PyCreationUnknown} then False
          else if verify_settlement E L s k pay core \<noteq> None then True
          else
            (case ln_decode L (cp_bolt11 core) of
               None \<Rightarrow> True
             | Some iv \<Rightarrow>
                 bi_payment_hash iv \<noteq> cp_payment_hash core
                 \<or> bi_amount_msat iv \<noteq> Some (o_total_sat k * 1000)
                 \<or> (cp_expiry core \<noteq> None \<and> bi_expiry iv \<noteq> None \<and> cp_expiry core \<noteq> bi_expiry iv))
      | _ \<Rightarrow> True)"

section \<open>Ends without an invoice\<close>

definition update_payment :: "id \<Rightarrow> payment_status set \<Rightarrow> (payment \<Rightarrow> payment) \<Rightarrow> (db, nat) tx" where
  "update_payment i sts f = sql_update db_payments db_payments_update payments_ok
     (\<lambda>p. pay_order_id p = i \<and> pay_status p \<in> sts) f"

definition mark_rejection :: "env \<Rightarrow> id \<Rightarrow> order_state \<Rightarrow> int \<Rightarrow> (db, unit) tx" where
  "mark_rejection E i expected now =
     tx_bind (find_order i) (\<lambda>row.
     if (case row of None \<Rightarrow> True | Some k \<Rightarrow> o_state k \<noteq> expected) then tx_return ()
     else
       tx_bind (update_payment i {PyCreating, PyCreationUnknown} (\<lambda>p. p\<lparr>pay_status := PyFailed\<rparr>)) (\<lambda>_.
       tx_bind (transition_order E i Rejected (Some expected) ''system''
          (Some (if expected = Received then ''intake-rejected''
                 else ''invoice-creation-rejected'')) [] now) (\<lambda>_.
       tx_ignore (release_reservations E i ReReleased now))))"

definition mark_unknown :: "id \<Rightarrow> int \<Rightarrow> string \<Rightarrow> (db, unit) tx" where
  "mark_unknown i now reason =
     tx_bind (update_payment i {PyCreating, PyCreationUnknown}
        (\<lambda>p. p\<lparr>pay_status := PyCreationUnknown\<rparr>)) (\<lambda>changed.
     if changed \<noteq> 1 then tx_return ()
     else update_order i (\<lambda>k. k\<lparr>o_payment_exception := True,
        o_payment_exception_reason := Some reason, o_updated_at := now\<rparr>))"

section \<open>Attach\<close>

record saga_result =
  sr_state :: order_state
  sr_bolt11 :: "string option"
  sr_expires_at :: "int option"

definition core_external_id :: "id \<Rightarrow> string" where
  "core_external_id i = ''infinitemarkets:'' @ i"

definition attach_projection :: "env \<Rightarrow> id \<Rightarrow> core_payment \<Rightarrow> (db, nat) tx" where
  "attach_projection E i core =
     tx_bind (seal_column E i ''payments'' ''checking_id_enc'' (cp_checking_id core)) (\<lambda>ci.
     tx_bind (seal_column E i ''payments'' ''bolt11_enc'' (cp_bolt11 core)) (\<lambda>b11.
     tx_bind (seal_column E i ''payments'' ''wallet_refs_enc''
                (cp_wallet_id core @ ''|'' @ cp_wallet_id core)) (\<lambda>wr.
       sql_update db_payments db_payments_update payments_ok
         (\<lambda>p. pay_order_id p = i \<and> pay_core_external_id p = core_external_id i
            \<and> pay_status p \<in> {PyCreating, PyCreationUnknown})
         (\<lambda>p. p\<lparr>pay_payment_hash := Some (cp_payment_hash core), pay_checking_id_enc := Some ci,
            pay_bolt11_enc := Some b11, pay_wallet_refs_enc := Some wr, pay_status := PyPending\<rparr>))))"

definition extend_held :: "id \<Rightarrow> int \<Rightarrow> int \<Rightarrow> (db, nat) tx" where
  "extend_held i expiry now =
     sql_update db_reservations db_reservations_update reservations_ok
       (\<lambda>r. r_order_id r = i \<and> r_state r = ReHeld)
       (\<lambda>r. r\<lparr>r_expires_at := Some expiry, r_updated_at := now\<rparr>)"

definition attach_tx :: "env \<Rightarrow> id \<Rightarrow> core_payment \<Rightarrow> int option \<Rightarrow> int \<Rightarrow> (db, saga_result) tx" where
  "attach_tx E i core expiry now =
     tx_bind (find_order i) (\<lambda>row.
     case row of
       None \<Rightarrow> tx_raise TransitionConflict
     | Some k \<Rightarrow>
         tx_bind (attach_projection E i core) (\<lambda>rc.
         if rc \<noteq> 1 then
           tx_bind (sql_one db_payments (\<lambda>p. pay_order_id p = i)) (\<lambda>prow.
             if (case prow of None \<Rightarrow> False
                 | Some p \<Rightarrow> pay_payment_hash p = Some (cp_payment_hash core))
             then tx_return \<lparr>sr_state = o_state k, sr_bolt11 = None, sr_expires_at = o_invoice_expiry k\<rparr>
             else tx_raise TransitionConflict)
         else
           tx_seq (update_order i (\<lambda>q. q\<lparr>o_payment_hash := Some (cp_payment_hash core),
                o_invoice_expiry := expiry, o_updated_at := now\<rparr>))
          (if o_state k = InvoicePending then
             tx_seq (case expiry of
                 None \<Rightarrow> tx_return ()
               | Some e \<Rightarrow> tx_when (e \<noteq> 0) (tx_ignore (extend_held i e now)))
            (tx_bind (transition_order E i AwaitingPayment (Some InvoicePending) ''system'' None
                [(''payment_hash'', JStr (cp_payment_hash core))] now) (\<lambda>_.
             tx_return \<lparr>sr_state = AwaitingPayment, sr_bolt11 = Some (cp_bolt11 core),
                sr_expires_at = expiry\<rparr>))
           else tx_return \<lparr>sr_state = o_state k, sr_bolt11 = None, sr_expires_at = expiry\<rparr>)))"

definition attach_payment :: "env \<Rightarrow> lnbits \<Rightarrow> id \<Rightarrow> core_payment \<Rightarrow> int \<Rightarrow> (db, saga_result) proc" where
  "attach_payment E L i core now =
     pr_bind (pr_get (invoice_delivery_mismatch E L i core)) (\<lambda>mismatch.
     if mismatch then
       pr_bind (commit (mark_unknown i now ''invoice-correlation-failed'')) (\<lambda>_.
         pr_return \<lparr>sr_state = InvoicePending, sr_bolt11 = None, sr_expires_at = None\<rparr>)
     else
       (case master_keys E (active_key_version E) of
          None \<Rightarrow> pr_raise KeyError
        | Some _ \<Rightarrow>
            (case ln_decode L (cp_bolt11 core) of
               None \<Rightarrow> pr_raise ValueError
             | Some iv \<Rightarrow> commit (attach_tx E i core
                 (if cp_expiry core \<noteq> None then cp_expiry core else bi_expiry iv) now))))"

section \<open>Claim and saga\<close>

definition MAX_HELD_PER_PRODUCT :: nat where "MAX_HELD_PER_PRODUCT = 100"

definition insufficient_stock :: error where
  "insufficient_stock = ProblemError 422 ''insufficient-stock''"

definition reserve_one :: "order_item \<Rightarrow> (db, unit) tx" where
  "reserve_one item =
     tx_bind (sql_update db_products db_products_update products_ok
        (\<lambda>p. p_id p = oi_product_id item \<and> p_deleted_at p = None
           \<and> (case p_stock_on_hand p of None \<Rightarrow> True
              | Some h \<Rightarrow> oi_quantity item \<le> h - p_stock_reserved p))
        (\<lambda>p. p\<lparr>p_stock_reserved := p_stock_reserved p + oi_quantity item\<rparr>)) (\<lambda>rc.
     tx_seq (tx_assert (rc = 1) insufficient_stock)
    (tx_bind (sql_count db_reservations
        (\<lambda>r. r_product_id r = oi_product_id item \<and> r_state r = ReHeld)) (\<lambda>held.
       tx_assert (held < MAX_HELD_PER_PRODUCT) insufficient_stock)))"

definition hold_one :: "env \<Rightarrow> id \<Rightarrow> int \<Rightarrow> int \<Rightarrow> order_item \<Rightarrow> (db, unit) tx" where
  "hold_one E i expires now item =
     tx_bind (new_uuid E) (\<lambda>u.
       sql_insert db_reservations_update reservations_ok
         \<lparr>r_id = u, r_product_id = oi_product_id item, r_order_id = i,
          r_quantity = oi_quantity item, r_state = ReHeld, r_expires_at = Some expires,
          r_created_at = now, r_updated_at = now\<rparr>)"

definition insert_projection :: "env \<Rightarrow> id \<Rightarrow> merchant \<Rightarrow> string \<Rightarrow> int \<Rightarrow> int \<Rightarrow> (db, unit) tx" where
  "insert_projection E i m wallet amount now =
     tx_bind (new_uuid E) (\<lambda>u.
     tx_bind (seal_column E i ''payments'' ''wallet_refs_enc'' (wallet @ ''|'' @ wallet)) (\<lambda>wre.
       sql_insert db_payments_update payments_ok
         \<lparr>pay_id = u, pay_order_id = i, pay_core_external_id = core_external_id i,
          pay_payment_hash = None, pay_checking_id_enc = None, pay_bolt11_enc = None,
          pay_wallet_refs_enc = Some wre, pay_wallet_id_hash = Some (wallet_hash E (m_id m) wallet),
          pay_source_wallet_id_hash = Some (hmac_index E ''source-wallet-id'' (m_id m)
             (nfc_strip_lower E wallet)),
          pay_amount_sat = Some amount, pay_status = PyCreating, pay_settled_at = None,
          pay_created_at = now\<rparr>))"

definition claim_tx :: "env \<Rightarrow> id \<Rightarrow> order_item list \<Rightarrow> merchant \<Rightarrow> string \<Rightarrow> int \<Rightarrow> int \<Rightarrow> (db, unit) tx" where
  "claim_tx E i items m wallet amount now =
     tx_bind (transition_order E i InvoicePending (Some Received) ''system'' None [] now) (\<lambda>_.
     tx_seq (tx_for (sort_key oi_product_id items) reserve_one)
    (tx_seq (tx_for items (hold_one E i (now + reservation_ttl E) now))
       (insert_projection E i m wallet amount now)))"

definition decrypt_merchant_wallet :: "env \<Rightarrow> merchant \<Rightarrow> error + string" where
  "decrypt_merchant_wallet E m = open_column E (m_id m) ''merchants'' ''wallet_id_enc'' (m_wallet_id_enc m)"

text \<open>The reads that precede the claim; a missing row fails as the subscript of \<open>None\<close> does.\<close>

definition saga_inputs :: "env \<Rightarrow> id \<Rightarrow> db \<Rightarrow> error + order_row \<times> order_item list \<times> merchant \<times> string" where
  "saga_inputs E i s =
     (case List.find (\<lambda>k. o_id k = i) (db_orders s) of
        None \<Rightarrow> Inl TypeError
      | Some k \<Rightarrow>
          (case List.find (\<lambda>m. m_id m = o_merchant_id k) (db_merchants s) of
             None \<Rightarrow> Inl TypeError
           | Some m \<Rightarrow>
               (case decrypt_merchant_wallet E m of
                  Inl e \<Rightarrow> Inl e
                | Inr wallet \<Rightarrow>
                    Inr (k, filter (\<lambda>it. oi_order_id it = i) (db_items s), m, wallet))))"

definition is_problem :: "error \<Rightarrow> bool" where
  "is_problem e = (case e of ProblemError _ _ \<Rightarrow> True | _ \<Rightarrow> False)"

definition begin_saga :: "env \<Rightarrow> lnbits \<Rightarrow> id \<Rightarrow> int \<Rightarrow> (db, saga_result) proc" where
  "begin_saga E L i now =
     pr_bind (pr_get (saga_inputs E i)) (\<lambda>inp.
     pr_bind (pr_lift inp) (\<lambda>(k, items, m, wallet).
     pr_bind (pr_catch (commit (claim_tx E i items m wallet (o_total_sat k) now))
        (\<lambda>e. if is_problem e
             then pr_bind (commit (mark_rejection E i Received now)) (\<lambda>_. pr_raise e)
             else pr_raise e)) (\<lambda>_.
     pr_bind (pr_get db_clock) (\<lambda>later.
     case ln_create_invoice L (core_external_id i) wallet (o_total_sat k) of
       InvoiceFailed \<Rightarrow>
         pr_bind (commit (mark_rejection E i InvoicePending later)) (\<lambda>_.
           pr_return \<lparr>sr_state = Rejected, sr_bolt11 = None, sr_expires_at = None\<rparr>)
     | InvoiceUnknown \<Rightarrow>
         pr_bind (commit (mark_unknown i later ''invoice-creation-unknown'')) (\<lambda>_.
           pr_return \<lparr>sr_state = InvoicePending, sr_bolt11 = None, sr_expires_at = None\<rparr>)
     | InvoiceCreated core \<Rightarrow> attach_payment E L i core later))))"

lemmas [evals] = update_payment_def mark_rejection_def mark_unknown_def attach_projection_def
  extend_held_def attach_tx_def attach_payment_def reserve_one_def hold_one_def
  insert_projection_def claim_tx_def decrypt_merchant_wallet_def saga_inputs_def is_problem_def
  pr_lift_def begin_saga_def

section \<open>The claim and the stock ledger\<close>

definition wanted :: "order_item list \<Rightarrow> id \<Rightarrow> int" where
  "wanted its i = sum_list (map oi_quantity (filter (\<lambda>it. oi_product_id it = i) its))"

lemma wanted_Nil: "wanted [] = (\<lambda>_. 0)"
  by (rule ext) (simp add: wanted_def)

lemma wanted_simps [simp]:
  "wanted [] i = 0"
  "wanted (it # its) i = (if oi_product_id it = i then oi_quantity it else 0) + wanted its i"
  by (simp_all add: wanted_def)

lemma wanted_sort: "wanted (sort_key f its) = wanted its"
proof (rule ext)
  fix i
  have "sum_mset (image_mset oi_quantity (filter_mset (\<lambda>it. oi_product_id it = i) (mset (sort_key f its))))
    = sum_mset (image_mset oi_quantity (filter_mset (\<lambda>it. oi_product_id it = i) (mset its)))"
    by simp
  then show "wanted (sort_key f its) i = wanted its i"
    by (simp only: wanted_def flip: mset_filter mset_map sum_mset_sum_list)
qed

text \<open>The conditional stock update of one item is an update of its product row.\<close>

lemma reserve_one_run:
  assumes run: "reserve_one it s = Inr (u, t)" and ids: "distinct (map p_id (db_products s))"
  shows "\<exists>m. update_product (oi_product_id it)
      (\<lambda>p. p\<lparr>p_stock_reserved := p_stock_reserved p + oi_quantity it\<rparr>) s = Inr (m, t)"
    and "\<exists>p \<in> set (db_products s). p_id p = oi_product_id it \<and> p_deleted_at p = None
      \<and> (case p_stock_on_hand p of None \<Rightarrow> True
         | Some h \<Rightarrow> oi_quantity it \<le> h - p_stock_reserved p)"
proof -
  let ?P = "\<lambda>p. p_id p = oi_product_id it \<and> p_deleted_at p = None
     \<and> (case p_stock_on_hand p of None \<Rightarrow> True | Some h \<Rightarrow> oi_quantity it \<le> h - p_stock_reserved p)"
  let ?f = "\<lambda>p. p\<lparr>p_stock_reserved := p_stock_reserved p + oi_quantity it\<rparr>"
  have n: "length (filter ?P (db_products s)) = 1"
    and t: "t = db_products_update (upd_rows ?P ?f) s" and ok: "products_ok t"
    using run by (auto simp: reserve_one_def tx_Inr sql_Inr)
  have "\<exists>p \<in> set (db_products s). ?P p"
    by (rule filter_nonempty_ex [of _ _ 0]) (simp only: n One_nat_def)
  then obtain p0 where p0: "p0 \<in> set (db_products s)" "?P p0" by blast
  then show "\<exists>p \<in> set (db_products s). ?P p" by blast
  have "upd_rows ?P ?f (db_products s) = upd_rows (\<lambda>p. p_id p = oi_product_id it) ?f (db_products s)"
  proof (rule upd_rows_cong)
    fix p assume p: "p \<in> set (db_products s)"
    show "?P p \<longleftrightarrow> p_id p = oi_product_id it"
    proof
      assume "p_id p = oi_product_id it"
      then have "p_id p = p_id p0" using p0(2) by (simp only:)
      then have "p = p0" by (rule distinct_key_eq [OF ids p p0(1)])
      then show "?P p" using p0(2) by (simp only:)
    qed (rule conjunct1)
  qed
  then have "t = db_products_update (upd_rows (\<lambda>p. p_id p = oi_product_id it) ?f) s"
    by (simp add: t)
  then show "\<exists>m. update_product (oi_product_id it) ?f s = Inr (m, t)"
    using ok by (auto simp: update_product_def sql_Inr)
qed

lemma claim_reserves:
  assumes run: "tx_for its reserve_one s = Inr (u, t)" and ok: "stock_ok s"
  shows "off_by (wanted its) (stock_view t)"
proof -
  define P where "P = (\<lambda>ys s. off_by (\<lambda>i. wanted its i - wanted ys i) (stock_view s))"
  have "P [] t"
  proof (rule tx_for_hoare [OF _ run])
    show "P its s" using ok by (simp add: P_def stock_ok_def balanced_def)
  next
    fix it ys s1 u t1
    assume P: "P (it # ys) s1" and run1: "reserve_one it s1 = Inr (u, t1)"
    have "distinct (map p_id (db_products s1))" using P by (simp add: P_def off_by_tables)
    then obtain m where "update_product (oi_product_id it)
        (\<lambda>p. p\<lparr>p_stock_reserved := p_stock_reserved p + oi_quantity it\<rparr>) s1 = Inr (m, t1)"
      using reserve_one_run(1) [OF run1] by blast
    from off_by_update_product [OF this] P
    have "off_by (shift (\<lambda>i. wanted its i - wanted (it # ys) i) (oi_product_id it) (oi_quantity it))
        (stock_view t1)"
      by (simp add: P_def)
    moreover have "shift (\<lambda>i. wanted its i - wanted (it # ys) i) (oi_product_id it) (oi_quantity it)
        = (\<lambda>i. wanted its i - wanted ys i)"
      by (auto simp: shift_def)
    ultimately show "P ys t1" by (simp add: P_def)
  qed
  then show ?thesis by (simp add: P_def wanted_Nil)
qed

lemma claim_holds:
  assumes run: "tx_for its (hold_one E i ex now) s = Inr (u, t)"
    and bal: "off_by (wanted its) (stock_view s)"
  shows "stock_ok t"
proof -
  define P where "P = (\<lambda>ys s. off_by (wanted ys) (stock_view s))"
  have "P [] t"
  proof (rule tx_for_hoare [OF _ run])
    show "P its s" using bal by (simp add: P_def)
  next
    fix it ys s1 u t1
    assume P: "P (it # ys) s1" and run1: "hold_one E i ex now it s1 = Inr (u, t1)"
    obtain r where r: "sql_insert db_reservations_update reservations_ok r
        (db_draws_update Suc s1) = Inr ((), t1)"
      and rs: "r_product_id r = oi_product_id it" "r_quantity r = oi_quantity it" "r_state r = ReHeld"
      using run1 by (auto simp: hold_one_def tx_Inr)
    have "off_by (shift (wanted (it # ys)) (oi_product_id it) (- oi_quantity it)) (stock_view t1)"
      using off_by_insert_reservation [OF r, of "wanted (it # ys)"] P rs by (simp add: P_def)
    moreover have "shift (wanted (it # ys)) (oi_product_id it) (- oi_quantity it) = wanted ys"
      by (auto simp: shift_def)
    ultimately show "P ys t1" by (simp add: P_def)
  qed
  then show ?thesis by (simp add: P_def stock_ok_def balanced_def wanted_Nil)
qed

lemma stock_claim_tx: "tx_inv stock_ok (claim_tx E i its m w amt now)"
proof (rule tx_invI)
  fix s u t
  assume ok: "stock_ok s" and run: "claim_tx E i its m w amt now s = Inr (u, t)"
  obtain st s1 s2 s3 where
    s1: "transition_order E i InvoicePending (Some Received) ''system'' None [] now s = Inr (st, s1)" and
    s2: "tx_for (sort_key oi_product_id its) reserve_one s1 = Inr ((), s2)" and
    s3: "tx_for its (hold_one E i (now + reservation_ttl E) now) s2 = Inr ((), s3)" and
    t: "insert_projection E i m w amt now s3 = Inr ((), t)"
    using run by (auto simp: claim_tx_def tx_Inr)
  have "stock_ok s1"
    using stock_keeps [OF stock_transition_order] ok s1 by (rule tx_invD)
  from claim_reserves [OF s2 this] have "off_by (wanted its) (stock_view s2)"
    by (simp add: wanted_sort)
  from claim_holds [OF s3 this] have "stock_ok s3" .
  moreover have "tx_keeps stock_view (insert_projection E i m w amt now)"
    unfolding insert_projection_def by (intro keeps keeps_sql stock_view_other)
  ultimately show "stock_ok t" using t by (metis stock_keeps tx_invD)
qed

section \<open>The saga keeps both invariants\<close>

lemma keeps_update_payment [keeps]:
  "(\<And>g s. f (db_payments_update g s) = f s) \<Longrightarrow> tx_keeps f (update_payment i sts h)"
  unfolding update_payment_def by (rule keeps_sql)

lemma keeps_attach_projection [keeps]:
  "(\<And>g s. f (db_payments_update g s) = f s) \<Longrightarrow> (\<And>g s. f (db_draws_update g s) = f s)
     \<Longrightarrow> tx_keeps f (attach_projection E i core)"
  unfolding attach_projection_def by (intro keeps keeps_sql)

lemma keeps_update_order_other:
  "(\<And>g s. f (db_orders_update g s) = f s) \<Longrightarrow> tx_keeps f (update_order i h)"
  unfolding update_order_def by (intro keeps keeps_sql)

lemma stock_mark_rejection: "tx_inv stock_ok (mark_rejection E i st now)"
  unfolding mark_rejection_def find_order_def
  by (intro tx_inv_bind tx_inv_if tx_inv_return tx_inv_ignore stock_release_reservations
      stock_keeps keeps stock_view_other) simp

lemma audit_mark_rejection: "tx_inv audit_ok (mark_rejection E i st now)"
  unfolding mark_rejection_def find_order_def
  by (intro tx_inv_bind tx_inv_if tx_inv_return tx_inv_ignore transition_order_audit
      audit_keeps keeps audit_view_other)

lemma stock_mark_unknown: "tx_inv stock_ok (mark_unknown i now r)"
  unfolding mark_unknown_def
  by (intro stock_keeps keeps keeps_update_order_other stock_view_other)

lemma audit_mark_unknown: "tx_inv audit_ok (mark_unknown i now r)"
  unfolding mark_unknown_def
  by (intro audit_keeps keeps audit_view_other) simp_all

lemma stock_attach_tx: "tx_inv stock_ok (attach_tx E i core ex now)"
  unfolding attach_tx_def find_order_def extend_held_def
  by (intro tx_inv_bind tx_inv_seq tx_inv_if tx_inv_option tx_inv_return tx_inv_when tx_inv_ignore
      stock_update_reservations stock_keeps keeps keeps_update_order_other stock_view_other)
    (simp add: hold_key_def)

lemma audit_attach_tx: "tx_inv audit_ok (attach_tx E i core ex now)"
  unfolding attach_tx_def find_order_def extend_held_def
  by (intro tx_inv_bind tx_inv_seq tx_inv_if tx_inv_option tx_inv_return tx_inv_when tx_inv_ignore
      transition_order_audit audit_keeps keeps keeps_sql audit_view_other) simp_all

lemma audit_claim_tx: "tx_inv audit_ok (claim_tx E i its m w amt now)"
  unfolding claim_tx_def reserve_one_def hold_one_def insert_projection_def
  by (intro tx_inv_bind tx_inv_seq transition_order_audit audit_keeps keeps keeps_sql audit_view_other)

lemma stock_attach_payment: "pr_inv stock_ok (attach_payment E L i core now)"
  unfolding attach_payment_def
  by (intro pr_invs stock_mark_unknown stock_attach_tx)

lemma pr_inv_lift [pr_invs, intro!]: "pr_inv I (pr_lift r)"
  by (auto simp: pr_lift_def split: sum.split)

lemma pr_inv_prod [pr_invs]:
  "(\<And>a b. pr_inv I (k a b)) \<Longrightarrow> pr_inv I (case v of (a, b) \<Rightarrow> k a b)"
  by (cases v) simp

lemma pr_inv_outcome [pr_invs]:
  "(\<And>c. pr_inv I (f c)) \<Longrightarrow> pr_inv I g \<Longrightarrow> pr_inv I h
     \<Longrightarrow> pr_inv I (case v of InvoiceCreated c \<Rightarrow> f c | InvoiceFailed \<Rightarrow> g | InvoiceUnknown \<Rightarrow> h)"
  by (cases v) auto

lemma stock_begin_saga: "pr_inv stock_ok (begin_saga E L i now)"
  unfolding begin_saga_def
  by (intro pr_invs stock_attach_payment stock_mark_unknown stock_mark_rejection stock_claim_tx)

lemma audit_attach_payment: "pr_inv audit_ok (attach_payment E L i core now)"
  unfolding attach_payment_def
  by (intro pr_invs audit_mark_unknown audit_attach_tx)

lemma audit_begin_saga: "pr_inv audit_ok (begin_saga E L i now)"
  unfolding begin_saga_def
  by (intro pr_invs audit_attach_payment audit_mark_unknown audit_mark_rejection audit_claim_tx)

end
