(* ===== verification/Settlement.thy ===== *)
theory Settlement
  imports Saga
begin

text \<open>
  \<open>services/settlement.py\<close>: settlement confirmation, expiry, the reservation expiry pass,
  the handling of one core payment, the merchant's resolution of a payment exception, and the
  retention pruner.
\<close>

section \<open>Exceptions\<close>

text \<open>An event that repeats the order's state: \<open>INSERT ... SELECT\<close> from the order row.\<close>

definition annotate :: "env \<Rightarrow> id \<Rightarrow> string \<Rightarrow> (string \<times> json) list \<Rightarrow> int \<Rightarrow> (db, unit) tx" where
  "annotate E i actor detail now =
     tx_bind (new_uuid E) (\<lambda>u.
     tx_bind (find_order i) (\<lambda>row.
       case row of
         None \<Rightarrow> tx_return ()
       | Some k \<Rightarrow> sql_insert db_events_update events_ok
           (event_row u i (Some (o_state k)) (o_state k) actor detail now)))"

definition set_exception :: "string \<Rightarrow> int \<Rightarrow> order_row \<Rightarrow> order_row" where
  "set_exception reason now k = k\<lparr>o_payment_exception := True,
     o_payment_exception_reason := Some reason, o_updated_at := now\<rparr>"

definition notify :: "env \<Rightarrow> order_row \<Rightarrow> email_event \<Rightarrow> int \<Rightarrow> (db, unit) tx" where
  "notify E k ev now = tx_bind (notify_context E k) (\<lambda>ctx. email_for_order E k ev ctx now)"

definition flag_exception :: "env \<Rightarrow> id \<Rightarrow> string \<Rightarrow> string \<Rightarrow> int \<Rightarrow> (db, unit) tx" where
  "flag_exception E i reason source now =
     tx_seq (update_order i (set_exception reason now))
    (tx_seq (annotate E i ''system'' [(''severity'', JStr ''high''), (''exception'', JStr reason),
        (''source'', JStr source)] now)
    (tx_bind (find_order i) (\<lambda>row.
       case row of None \<Rightarrow> tx_return () | Some k \<Rightarrow> notify E k EvOnHold now)))"

section \<open>Confirmation\<close>

datatype settle_result = SettleNoop | SettleException order_state | SettleConfirmed nat

definition consume_one :: "int \<Rightarrow> unit \<Rightarrow> reservation \<Rightarrow> (db, unit) tx" where
  "consume_one now _ row =
     tx_bind (flip_reservation (r_id row) ReConsumed now) (\<lambda>rc.
     tx_seq (tx_assert (rc = 1) TransitionConflict)
       (tx_ignore (update_product (r_product_id row)
          (\<lambda>p. p\<lparr>p_stock_on_hand := map_option (\<lambda>h. h - r_quantity row) (p_stock_on_hand p),
                p_stock_reserved := p_stock_reserved p - r_quantity row,
                p_revision := p_revision p + 1, p_updated_at := now\<rparr>))))"

definition consume_held :: "id \<Rightarrow> int \<Rightarrow> (db, unit) tx" where
  "consume_held i now = tx_bind (held_of_order i) (tx_fold (consume_one now) ())"

definition confirm_settlement :: "env \<Rightarrow> id \<Rightarrow> string \<Rightarrow> int \<Rightarrow> (db, settle_result) tx" where
  "confirm_settlement E i source now =
     tx_bind (find_order i) (\<lambda>row.
     case row of
       None \<Rightarrow> tx_raise TransitionConflict
     | Some k \<Rightarrow>
         tx_bind (update_payment i {PyPending, PyCreating, PyCreationUnknown, PyExpired}
            (\<lambda>p. p\<lparr>pay_status := PySettled, pay_settled_at := Some now\<rparr>)) (\<lambda>rc.
         if rc \<noteq> 1 then
           tx_bind (sql_one db_payments (\<lambda>p. pay_order_id p = i)) (\<lambda>prow.
             if (case prow of None \<Rightarrow> False | Some p \<Rightarrow> pay_status p = PySettled)
             then tx_return SettleNoop else tx_raise TransitionConflict)
         else if o_state k \<noteq> AwaitingPayment then
           tx_seq (update_order i (set_exception ''settled-after-terminal-state'' now))
          (tx_seq (notify E k EvOnHold now)
             (tx_return (SettleException (o_state k))))
         else
           tx_bind (held_of_order i) (\<lambda>held.
           tx_seq (consume_held i now)
          (tx_bind (transition_order E i Confirmed (Some AwaitingPayment) ''system'' None
              [(''source'', JStr source)] now) (\<lambda>_.
           tx_seq (notify E k EvConfirmed now)
          (tx_seq (tx_for held (\<lambda>r. enqueue_stock_projection E (r_product_id r)))
             (tx_return (SettleConfirmed (length held)))))))))"

section \<open>Expiry\<close>

definition expire_order :: "env \<Rightarrow> id \<Rightarrow> int \<Rightarrow> (db, int) tx" where
  "expire_order E i now =
     tx_bind (find_order i) (\<lambda>row.
     case row of
       None \<Rightarrow> tx_raise IllegalTransition
     | Some k \<Rightarrow>
         if o_state k \<noteq> AwaitingPayment then tx_raise IllegalTransition
         else
           tx_bind (transition_order E i Expired (Some AwaitingPayment) ''system''
              (Some ''invoice-expired-unpaid'') [] now) (\<lambda>_.
           tx_bind (release_reservations E i ReExpired now) (\<lambda>released.
           tx_bind (update_payment i {PyPending} (\<lambda>p. p\<lparr>pay_status := PyExpired\<rparr>)) (\<lambda>_.
           tx_seq (notify E k EvExpired now)
             (tx_return released)))))"

definition is_illegal :: "error \<Rightarrow> bool" where
  "is_illegal e = (case e of IllegalTransition \<Rightarrow> True | _ \<Rightarrow> False)"

text \<open>One order of the pass; the accumulator counts released units and expired orders.\<close>

definition expire_due_order :: "env \<Rightarrow> int \<Rightarrow> int \<times> nat \<Rightarrow> id \<Rightarrow> (db, int \<times> nat) proc" where
  "expire_due_order E now acc i =
     pr_bind (pr_get (\<lambda>s. List.find (\<lambda>k. o_id k = i) (db_orders s))) (\<lambda>row.
     case row of
       None \<Rightarrow> pr_return acc
     | Some k \<Rightarrow>
         if o_state k = AwaitingPayment then
           pr_catch (pr_bind (commit (expire_order E i now)) (\<lambda>_. pr_return (fst acc, snd acc + 1)))
             (\<lambda>e. if is_illegal e then pr_return acc else pr_raise e)
         else
           pr_bind (commit (release_reservations E i ReExpired now)) (\<lambda>n.
             pr_return (fst acc + n, snd acc)))"

definition reservation_expiry_pass :: "env \<Rightarrow> int \<Rightarrow> (db, int \<times> nat) proc" where
  "reservation_expiry_pass E now =
     pr_bind (assert_database_compatible E) (\<lambda>_.
     pr_bind (pr_get (\<lambda>s. remdups (map r_order_id (filter (\<lambda>r. r_state r = ReHeld
          \<and> (case r_expires_at r of None \<Rightarrow> False | Some x \<Rightarrow> x \<le> now)) (db_reservations s)))))
       (pr_fold (expire_due_order E now) (0, 0)))"

section \<open>One core payment\<close>

definition find_payment :: "id \<Rightarrow> db \<Rightarrow> payment option" where
  "find_payment i s = List.find (\<lambda>p. pay_order_id p = i) (db_payments s)"

definition settle_core :: "env \<Rightarrow> lnbits \<Rightarrow> id \<Rightarrow> core_payment \<Rightarrow> string \<Rightarrow> order_row \<Rightarrow> payment \<Rightarrow>
    (db, settle_result option) proc" where
  "settle_core E L i core source k pay =
     (if \<not> cp_success core then pr_return None
      else
        pr_bind (pr_get (\<lambda>s. verify_settlement E L s k pay core)) (\<lambda>mismatch.
        pr_bind (pr_get db_clock) (\<lambda>now.
        case mismatch of
          Some reason \<Rightarrow> pr_bind (commit (flag_exception E i reason source now)) (\<lambda>_. pr_return None)
        | None \<Rightarrow> pr_bind (commit (confirm_settlement E i source now)) (\<lambda>r. pr_return (Some r)))))"

definition handle_core_payment :: "env \<Rightarrow> lnbits \<Rightarrow> id \<Rightarrow> core_payment \<Rightarrow> string \<Rightarrow>
    (db, settle_result option) proc" where
  "handle_core_payment E L i core source =
     pr_bind (pr_get (\<lambda>s. List.find (\<lambda>k. o_id k = i) (db_orders s))) (\<lambda>row.
     case row of
       None \<Rightarrow> pr_return None
     | Some k \<Rightarrow>
         pr_bind (pr_get (find_payment i)) (\<lambda>prow.
         case prow of
           None \<Rightarrow>
             pr_bind (pr_get db_clock) (\<lambda>now.
             pr_bind (commit (flag_exception E i ''settlement-without-projection'' source now))
               (\<lambda>_. pr_return None))
         | Some pay \<Rightarrow>
             if pay_status pay \<in> {PyCreating, PyCreationUnknown} \<and> cp_bolt11 core \<noteq> '''' then
               pr_bind (pr_get db_clock) (\<lambda>now.
               pr_bind (attach_payment E L i core now) (\<lambda>_.
               pr_bind (pr_get (find_payment i)) (\<lambda>prow2.
               pr_bind (pr_get (\<lambda>s. List.find (\<lambda>q. o_id q = i) (db_orders s))) (\<lambda>row2.
               case prow2 of
                 None \<Rightarrow> pr_raise TypeError
               | Some pay2 \<Rightarrow>
                   (case row2 of
                      None \<Rightarrow> pr_raise TypeError
                    | Some k2 \<Rightarrow> settle_core E L i core source k2 pay2)))))
             else settle_core E L i core source k pay))"

definition EXTERNAL_ID_PREFIX :: string where "EXTERNAL_ID_PREFIX = ''infinitemarkets:''"

text \<open>\<open>invoice_listener\<close>: filters by extension and id prefix, and swallows every exception.\<close>

definition invoice_listener :: "env \<Rightarrow> lnbits \<Rightarrow> core_payment \<Rightarrow> (db, unit) proc" where
  "invoice_listener E L core =
     (let ext = (case cp_external_id core of None \<Rightarrow> '''' | Some x \<Rightarrow> x) in
      if cp_extension core \<noteq> Some ''infinitemarkets'' then pr_return ()
      else if take (length EXTERNAL_ID_PREFIX) ext \<noteq> EXTERNAL_ID_PREFIX then pr_return ()
      else pr_catch
        (pr_bind (handle_core_payment E L (drop (length EXTERNAL_ID_PREFIX) ext) core ''listener'')
           (\<lambda>_. pr_return ()))
        (\<lambda>_. pr_return ()))"

section \<open>Resolution by the merchant\<close>

definition invalid_transition :: error where
  "invalid_transition = ProblemError 422 ''invalid-transition''"

definition accept_item :: "int \<Rightarrow> bool \<Rightarrow> order_item \<Rightarrow> (db, bool) tx" where
  "accept_item now oversold item =
     tx_bind (sql_one db_products (\<lambda>p. p_id p = oi_product_id item)) (\<lambda>prow.
     (let take_qty = (case prow of
           None \<Rightarrow> None
         | Some p \<Rightarrow> map_option (\<lambda>h. min (oi_quantity item) (max 0 (h - p_stock_reserved p)))
             (p_stock_on_hand p));
          backordered = (case take_qty of None \<Rightarrow> 0 | Some n \<Rightarrow> oi_quantity item - n)
      in
      tx_seq (case take_qty of
          None \<Rightarrow> tx_return ()
        | Some n \<Rightarrow> tx_when (n \<noteq> 0) (tx_ignore (update_product (oi_product_id item)
            (\<lambda>p. p\<lparr>p_stock_on_hand := map_option (\<lambda>h. h - n) (p_stock_on_hand p),
                  p_revision := p_revision p + 1, p_updated_at := now\<rparr>))))
     (tx_seq (tx_ignore (sql_update db_items db_items_update items_ok (\<lambda>it. oi_id it = oi_id item)
          (\<lambda>it. it\<lparr>oi_backordered_qty := backordered\<rparr>)))
       (tx_return (oversold \<or> backordered \<noteq> 0)))))"

definition resolve_accept :: "env \<Rightarrow> id \<Rightarrow> string option \<Rightarrow> string \<Rightarrow> int \<Rightarrow> (db, bool) tx" where
  "resolve_accept E i reason actor now =
     tx_bind (order_row_tx i) (\<lambda>k.
     tx_seq (tx_assert (o_state k \<in> {Expired, Cancelled}) invalid_transition)
    (tx_bind (sql_one db_payments (\<lambda>p. pay_order_id p = i)) (\<lambda>prow.
     tx_seq (tx_assert (case prow of None \<Rightarrow> False | Some p \<Rightarrow> pay_status p = PySettled)
        invalid_transition)
    (tx_bind (sql_all db_items (\<lambda>it. oi_order_id it = i)) (\<lambda>items.
     tx_bind (tx_fold (accept_item now) False (sort_key oi_product_id items)) (\<lambda>oversold.
     tx_bind (transition_order E i Confirmed (Some (o_state k)) actor
        (Some (if truthy reason then the reason else ''exception-accept'')) [] now) (\<lambda>_.
     tx_seq (update_order i (\<lambda>q. q\<lparr>o_payment_exception := False,
          o_payment_exception_resolution := Some ''accepted'', o_oversold := oversold,
          o_shipping_state := (if o_shipping_state q \<noteq> ShNotRequired then ShProcessing
             else o_shipping_state q),
          o_updated_at := now\<rparr>))
    (tx_seq (notify E k EvConfirmed now)
    (tx_seq (tx_when oversold (notify E k EvOnHold now))
       (tx_return oversold))))))))))"

definition refund_detail :: "string \<Rightarrow> string option \<Rightarrow> (string \<times> json) list" where
  "refund_detail ev ref = (''event'', JStr ev)
     # (if truthy ref then [(''refund_reference'', JStr (the ref))] else [])"

definition resolve_refund :: "env \<Rightarrow> id \<Rightarrow> string \<Rightarrow> string option \<Rightarrow> int \<Rightarrow> (db, unit) tx" where
  "resolve_refund E i actor ref now =
     tx_bind (order_row_tx i) (\<lambda>k.
     tx_seq (tx_assert (o_payment_exception k) invalid_transition)
    (tx_seq (insert_event E i (Some (o_state k)) (o_state k) actor
        (refund_detail ''refund_requested'' ref) now)
    (tx_seq (update_order i (\<lambda>q. q\<lparr>o_payment_exception_resolution := Some ''refund_requested'',
        o_updated_at := now\<rparr>))
       (notify E k EvRefundRequested now))))"

definition resolve_confirm_refund :: "env \<Rightarrow> id \<Rightarrow> string \<Rightarrow> string option \<Rightarrow> int \<Rightarrow> (db, unit) tx" where
  "resolve_confirm_refund E i actor ref now =
     tx_bind (order_row_tx i) (\<lambda>k.
     tx_seq (tx_assert (o_payment_exception_resolution k = Some ''refund_requested'')
        invalid_transition)
    (tx_seq (insert_event E i (Some (o_state k)) (o_state k) actor
        (refund_detail ''refund_confirmed'' ref) now)
       (update_order i (\<lambda>q. q\<lparr>o_payment_exception := False,
          o_payment_exception_resolution := Some ''refund_confirmed'', o_updated_at := now\<rparr>))))"

definition resolve_exception :: "env \<Rightarrow> id \<Rightarrow> string \<Rightarrow> string option \<Rightarrow> string option \<Rightarrow> string \<Rightarrow>
    (db, bool option) proc" where
  "resolve_exception E i action reason ref actor =
     pr_bind (pr_get db_clock) (\<lambda>now.
     if action = ''accept'' then
       pr_bind (commit (resolve_accept E i reason actor now)) (\<lambda>oversold. pr_return (Some oversold))
     else if action = ''refund'' then
       pr_bind (commit (resolve_refund E i actor ref now)) (\<lambda>_. pr_return None)
     else if action = ''confirm-refund'' then
       pr_bind (commit (resolve_confirm_refund E i actor ref now)) (\<lambda>_. pr_return None)
     else pr_raise invalid_transition)"

lemmas [evals] = annotate_def set_exception_def notify_def flag_exception_def consume_one_def
  consume_held_def confirm_settlement_def expire_order_def is_illegal_def expire_due_order_def
  reservation_expiry_pass_def find_payment_def settle_core_def handle_core_payment_def
  invoice_listener_def accept_item_def resolve_accept_def refund_detail_def resolve_refund_def
  resolve_confirm_refund_def resolve_exception_def invalid_transition_def

section \<open>Settlement and the stock ledger\<close>

lemma consume_drains: "reservation_drain consume_one ReConsumed 1 (\<lambda>_ _. ())"
proof
  show "ReConsumed \<noteq> ReHeld" by simp
next
  fix now b r s b' t
  assume run: "consume_one now b r s = Inr (b', t)"
  let ?f = "\<lambda>p. p\<lparr>p_stock_on_hand := map_option (\<lambda>h. h - r_quantity r) (p_stock_on_hand p),
                p_stock_reserved := p_stock_reserved p - r_quantity r,
                p_revision := p_revision p + 1, p_updated_at := now\<rparr>"
  obtain s1 m where s1: "flip_reservation (r_id r) ReConsumed now s = Inr (1, s1)"
    and s2: "update_product (r_product_id r) ?f s1 = Inr (m, t)"
    using run by (auto simp: consume_one_def tx_Inr)
  then show "\<exists>s1 s2 f m. flip_reservation (r_id r) ReConsumed now s = Inr (1, s1)
        \<and> update_product (r_product_id r) f s1 = Inr (m, s2)
        \<and> (\<forall>p. product_stock (f p) = (p_id p, map_option (\<lambda>h. h - 1 * r_quantity r) (p_stock_on_hand p),
              p_stock_reserved p - r_quantity r))
        \<and> stock_view t = stock_view s2 \<and> b' = ()"
    by (intro exI [of _ s1] exI [of _ t] exI [of _ ?f] exI [of _ m]) (simp add: product_stock_def)
qed

interpretation consumed: reservation_drain consume_one ReConsumed 1 "\<lambda>_ _. ()"
  by (rule consume_drains)

lemma stock_consume_held: "tx_inv stock_ok (consume_held i now)"
  unfolding consume_held_def by (rule consumed.drain_balanced)

lemma audit_consume_held [keeps]: "tx_keeps audit_view (consume_held i now)"
  unfolding consume_held_def consume_one_def held_of_order_def flip_reservation_def
    update_product_def
  by (intro keeps keeps_sql audit_view_other)

lemma keeps_held_of_order [keeps]: "tx_keeps f (held_of_order i)"
  unfolding held_of_order_def by (intro keeps)

lemma keeps_notify [keeps]:
  assumes "\<And>g s. f (db_emails_update g s) = f s" "\<And>g s. f (db_draws_update g s) = f s"
  shows "tx_keeps f (notify E k ev now)"
  unfolding notify_def by (intro keeps assms)

lemma keeps_insert_event:
  assumes "\<And>g s. f (db_events_update g s) = f s" "\<And>g s. f (db_draws_update g s) = f s"
  shows "tx_keeps f (insert_event E i fr t a d now)" "tx_keeps f (annotate E i a d now)"
  unfolding insert_event_def annotate_def by (intro keeps keeps_sql assms)+

lemma stock_confirm_settlement: "tx_inv stock_ok (confirm_settlement E i source now)"
  unfolding confirm_settlement_def
  by (intro tx_inv_bind tx_inv_seq tx_inv_if tx_inv_option tx_inv_return stock_consume_held
      stock_keeps keeps keeps_update_order_other stock_view_other)

lemma stock_expire_order: "tx_inv stock_ok (expire_order E i now)"
  unfolding expire_order_def
  by (intro tx_inv_bind tx_inv_seq tx_inv_if tx_inv_option tx_inv_return stock_release_reservations
      stock_keeps keeps stock_view_other) simp

lemma stock_flag_exception: "tx_inv stock_ok (flag_exception E i reason source now)"
  unfolding flag_exception_def
  by (intro stock_keeps keeps keeps_update_order_other keeps_insert_event stock_view_other)

lemma stock_update_on_hand:
  assumes "\<And>p. p_id (f p) = p_id p" "\<And>p. p_stock_reserved (f p) = p_stock_reserved p"
  shows "tx_inv stock_ok (update_product i f)"
proof (rule tx_invI)
  fix s n t
  assume ok: "stock_ok s" and run: "update_product i f s = Inr (n, t)"
  have "off_by (shift (\<lambda>_. 0) i 0) (stock_view t)"
    using ok assms by (intro off_by_update_product [OF run]) (simp_all add: stock_ok_def balanced_def)
  moreover have "shift (\<lambda>_. 0) i 0 = (\<lambda>_. 0)" by (auto simp: shift_def)
  ultimately show "stock_ok t" by (simp add: stock_ok_def balanced_def)
qed

lemma stock_accept_item: "tx_inv stock_ok (accept_item now ov it)"
  unfolding accept_item_def Let_def
  by (intro tx_inv_bind tx_inv_seq tx_inv_option tx_inv_when tx_inv_ignore tx_inv_return
      stock_update_on_hand stock_keeps keeps keeps_sql stock_view_other) simp_all

lemma stock_resolve_accept: "tx_inv stock_ok (resolve_accept E i reason actor now)"
  unfolding resolve_accept_def
  by (intro tx_inv_bind tx_inv_seq tx_inv_fold stock_accept_item tx_inv_return tx_inv_when
      stock_keeps keeps keeps_update_order_other stock_view_other)

lemma stock_resolve_refund: "tx_inv stock_ok (resolve_refund E i actor ref now)"
  and stock_resolve_confirm_refund: "tx_inv stock_ok (resolve_confirm_refund E i actor ref now)"
  unfolding resolve_refund_def resolve_confirm_refund_def
  by (intro stock_keeps keeps keeps_update_order_other keeps_insert_event stock_view_other)+

lemma stock_reservation_expiry_pass: "pr_inv stock_ok (reservation_expiry_pass E now)"
  unfolding reservation_expiry_pass_def expire_due_order_def
  by (intro pr_invs stock_expire_order stock_release_reservations) simp

lemma stock_handle_core_payment: "pr_inv stock_ok (handle_core_payment E L i core source)"
  unfolding handle_core_payment_def settle_core_def
  by (intro pr_invs stock_attach_payment stock_confirm_settlement stock_flag_exception)

lemma stock_invoice_listener: "pr_inv stock_ok (invoice_listener E L core)"
  unfolding invoice_listener_def Let_def
  by (intro pr_invs stock_handle_core_payment)

lemma stock_resolve_exception: "pr_inv stock_ok (resolve_exception E i action reason ref actor)"
  unfolding resolve_exception_def
  by (intro pr_invs stock_resolve_accept stock_resolve_refund stock_resolve_confirm_refund)

section \<open>Settlement and the audit trail\<close>

lemma audit_annotation:
  assumes ok: "audit_ok s" and st: "(i, st) \<in> set (fst (audit_view s))"
    and view: "audit_view t = (fst (audit_view s), snd (audit_view s) @ [(i, Some st, st)])"
  shows "audit_ok t"
proof -
  have "replays (move i st st (audit_view s))"
    using ok st by (intro replays_move) (auto simp: audit_ok_def legal_def)
  moreover have "move i st st A = (fst A, snd A @ [(i, Some st, st)])" for A
    by (auto simp: move_def intro!: map_idI)
  ultimately show ?thesis by (simp add: audit_ok_def view)
qed

lemma audit_annotate: "tx_inv audit_ok (annotate E i actor detail now)"
proof (rule tx_invI)
  fix s u t
  assume ok: "audit_ok s" and run: "annotate E i actor detail now s = Inr (u, t)"
  show "audit_ok t"
  proof (cases "List.find (\<lambda>k. o_id k = i) (db_orders s)")
    case None
    then show ?thesis using run ok
      by (auto simp: annotate_def find_order_def tx_Inr audit_ok_def)
  next
    case (Some k)
    then have "k \<in> set (db_orders s) \<and> o_id k = i" by (rule find_SomeD)
    then show ?thesis using run ok Some
      by (intro audit_annotation [OF ok, of i "o_state k"])
        (auto simp: annotate_def find_order_def tx_Inr sql_Inr audit_view_def event_row_def)
  qed
qed

text \<open>An event of an order read in the same transaction.\<close>

lemma audit_insert_event:
  assumes ok: "audit_ok s" and k: "k \<in> set (db_orders s)"
    and run: "insert_event E (o_id k) (Some (o_state k)) (o_state k) actor detail now s = Inr (u, t)"
  shows "audit_ok t"
  using run k
  by (intro audit_annotation [OF ok, of "o_id k" "o_state k"])
    (auto simp: insert_event_def tx_Inr sql_Inr audit_view_def event_row_def)

lemma audit_flag_exception: "tx_inv audit_ok (flag_exception E i reason source now)"
  unfolding flag_exception_def
  by (intro tx_inv_bind tx_inv_seq audit_annotate audit_keeps keeps audit_view_other)
    (simp_all add: set_exception_def)

lemma audit_confirm_settlement: "tx_inv audit_ok (confirm_settlement E i source now)"
  unfolding confirm_settlement_def
  by (intro tx_inv_bind tx_inv_seq tx_inv_if tx_inv_option tx_inv_return transition_order_audit
      audit_keeps keeps audit_view_other) (simp_all add: set_exception_def)

lemma audit_expire_order: "tx_inv audit_ok (expire_order E i now)"
  unfolding expire_order_def
  by (intro tx_inv_bind tx_inv_seq tx_inv_if tx_inv_option tx_inv_return transition_order_audit
      audit_keeps keeps audit_view_other)

lemma audit_accept_item: "tx_inv audit_ok (accept_item now ov it)"
  unfolding accept_item_def Let_def update_product_def
  by (intro audit_keeps keeps keeps_sql audit_view_other)

lemma audit_resolve_accept: "tx_inv audit_ok (resolve_accept E i reason actor now)"
  unfolding resolve_accept_def
  by (intro tx_inv_bind tx_inv_seq tx_inv_fold audit_accept_item tx_inv_return tx_inv_when
      transition_order_audit audit_keeps keeps audit_view_other) simp_all

lemma audit_resolve_refund: "tx_inv audit_ok (resolve_refund E i actor ref now)"
  and audit_resolve_confirm_refund: "tx_inv audit_ok (resolve_confirm_refund E i actor ref now)"
proof -
  have upd: "tx_inv audit_ok (update_order i f)"
    if "\<And>k. o_id (f k) = o_id k" "\<And>k. o_state (f k) = o_state k" for f
    using that by (intro audit_keeps keeps)
  have mail: "tx_inv audit_ok (notify E k ev now)" for k ev
    by (intro audit_keeps keeps audit_view_other)
  show "tx_inv audit_ok (resolve_refund E i actor ref now)"
  proof (rule tx_invI)
    fix s u t
    assume ok: "audit_ok s" and run: "resolve_refund E i actor ref now s = Inr (u, t)"
    obtain k s1 s2 f where k: "k \<in> set (db_orders s)" "o_id k = i"
      and s1: "insert_event E (o_id k) (Some (o_state k)) (o_state k) actor
        (refund_detail ''refund_requested'' ref) now s = Inr ((), s1)"
      and s2: "update_order i f s1 = Inr ((), s2)"
      and f: "\<And>k. o_id (f k) = o_id k" "\<And>k. o_state (f k) = o_state k"
      and t: "notify E k EvRefundRequested now s2 = Inr ((), t)"
      using run by (fastforce simp: resolve_refund_def order_row_tx_def find_order_def tx_Inr
          split: option.splits dest!: find_SomeD)
    have "audit_ok s1" by (rule audit_insert_event [OF ok k(1) s1])
    then have "audit_ok s2" by (rule tx_invD [OF upd [OF f] _ s2])
    then show "audit_ok t" by (rule tx_invD [OF mail _ t])
  qed
  show "tx_inv audit_ok (resolve_confirm_refund E i actor ref now)"
  proof (rule tx_invI)
    fix s u t
    assume ok: "audit_ok s" and run: "resolve_confirm_refund E i actor ref now s = Inr (u, t)"
    obtain k s1 f where k: "k \<in> set (db_orders s)" "o_id k = i"
      and s1: "insert_event E (o_id k) (Some (o_state k)) (o_state k) actor
        (refund_detail ''refund_confirmed'' ref) now s = Inr ((), s1)"
      and t: "update_order i f s1 = Inr ((), t)"
      and f: "\<And>k. o_id (f k) = o_id k" "\<And>k. o_state (f k) = o_state k"
      using run by (fastforce simp: resolve_confirm_refund_def order_row_tx_def find_order_def
          tx_Inr split: option.splits dest!: find_SomeD)
    have "audit_ok s1" by (rule audit_insert_event [OF ok k(1) s1])
    then show "audit_ok t" by (rule tx_invD [OF upd [OF f] _ t])
  qed
qed

lemma audit_reservation_expiry_pass: "pr_inv audit_ok (reservation_expiry_pass E now)"
  unfolding reservation_expiry_pass_def expire_due_order_def
  by (intro pr_invs audit_expire_order audit_keeps keeps)

lemma audit_handle_core_payment: "pr_inv audit_ok (handle_core_payment E L i core source)"
  unfolding handle_core_payment_def settle_core_def
  by (intro pr_invs audit_attach_payment audit_confirm_settlement audit_flag_exception)

lemma audit_invoice_listener: "pr_inv audit_ok (invoice_listener E L core)"
  unfolding invoice_listener_def Let_def
  by (intro pr_invs audit_handle_core_payment)

lemma audit_resolve_exception: "pr_inv audit_ok (resolve_exception E i action reason ref actor)"
  unfolding resolve_exception_def
  by (intro pr_invs audit_resolve_accept audit_resolve_refund audit_resolve_confirm_refund)

end
