(* ===== verification/Tokens.thy ===== *)
theory Tokens
  imports Crypto
begin

text \<open>
  Public order tokens (\<open>infinitemarkets/crypto.py\<close>, 11.4): base64url without padding of 32
  random bytes, looked up by the SHA-256 of the decoded bytes after a strict canonical check.
\<close>

section \<open>base64url\<close>

fun char_bits :: "char \<Rightarrow> bool list" where
  "char_bits (Char b0 b1 b2 b3 b4 b5 b6 b7) = [b7, b6, b5, b4, b3, b2, b1, b0]"

fun bits_chars :: "bool list \<Rightarrow> bytes" where
  "bits_chars (b7 # b6 # b5 # b4 # b3 # b2 # b1 # b0 # bs) =
     Char b0 b1 b2 b3 b4 b5 b6 b7 # bits_chars bs"
| "bits_chars _ = []"

definition b64_alphabet :: string where
  "b64_alphabet = ''ABCDEFGHIJKLMNOPQRSTUVWXYZabcdefghijklmnopqrstuvwxyz0123456789-_''"

definition sextets :: "bool list list" where
  "sextets = [[a, b, c, d, e, f]. a \<leftarrow> [False, True], b \<leftarrow> [False, True], c \<leftarrow> [False, True],
     d \<leftarrow> [False, True], e \<leftarrow> [False, True], f \<leftarrow> [False, True]]"

definition sextet_char :: "bool list \<Rightarrow> char option" where
  "sextet_char bs = map_of (zip sextets b64_alphabet) bs"

definition char_sextet :: "char \<Rightarrow> bool list option" where
  "char_sextet c = map_of (zip b64_alphabet sextets) c"

text \<open>The last group is filled with zero bits.\<close>

fun sextet_groups :: "bool list \<Rightarrow> bool list list" where
  "sextet_groups (a # b # c # d # e # f # bs) = [a, b, c, d, e, f] # sextet_groups bs"
| "sextet_groups [] = []"
| "sextet_groups bs = [bs @ replicate (6 - length bs) False]"

definition b64url_encode :: "bytes \<Rightarrow> string" where
  "b64url_encode b = map (\<lambda>g. the (sextet_char g)) (sextet_groups (concat (map char_bits b)))"

text \<open>
  \<open>urlsafe_b64decode\<close> of a padded text: characters outside the alphabet are discarded, and
  the bits left over after the last whole byte are dropped.
\<close>

definition b64url_decode :: "string \<Rightarrow> bytes" where
  "b64url_decode t = bits_chars (concat (map the (filter (\<lambda>g. g \<noteq> None) (map char_sextet t))))"

section \<open>Tokens\<close>

definition TOKEN_BYTES :: nat where "TOKEN_BYTES = 32"

definition generate_public_token :: "env \<Rightarrow> nat \<Rightarrow> string" where
  "generate_public_token E n = b64url_encode (random_bytes E n TOKEN_BYTES)"

text \<open>\<open>^[A-Za-z0-9_-]{43}$\<close> under \<open>re.match\<close>: \<open>$\<close> also matches before a final newline.\<close>

definition token_re :: "string \<Rightarrow> bool" where
  "token_re t \<longleftrightarrow> length t = 43 \<and> list_all (\<lambda>c. c \<in> set b64_alphabet) t
     \<or> length t = 44 \<and> list_all (\<lambda>c. c \<in> set b64_alphabet) (butlast t) \<and> last t = CHR 0x0A"

definition token_lookup_hash :: "env \<Rightarrow> string \<Rightarrow> error + string" where
  "token_lookup_hash E token =
     (if \<not> token_re token then Inl CryptoError
      else
        (let raw = b64url_decode token in
         if length raw \<noteq> TOKEN_BYTES then Inl CryptoError
         else if b64url_encode raw \<noteq> token then Inl CryptoError
         else Inr (sha256_hex E raw)))"

lemma sextets_mem: "length g = 6 \<Longrightarrow> g \<in> set sextets"
proof -
  assume "length g = 6"
  then obtain a b c d e f where "g = [a, b, c, d, e, f]"
    by (auto simp: numeral_eq_Suc length_Suc_conv)
  then show ?thesis
    by (cases a; cases b; cases c; cases d; cases e; cases f) (simp_all add: sextets_def)
qed

lemma sextet_round_trip: "g \<in> set sextets \<Longrightarrow> char_sextet (the (sextet_char g)) = Some g"
proof -
  have "list_all (\<lambda>g. char_sextet (the (sextet_char g)) = Some g) sextets" by code_simp
  then show "g \<in> set sextets \<Longrightarrow> ?thesis" by (simp add: list_all_iff)
qed

lemma sextet_char_alphabet: "g \<in> set sextets \<Longrightarrow> the (sextet_char g) \<in> set b64_alphabet"
proof -
  have "list_all (\<lambda>g. the (sextet_char g) \<in> set b64_alphabet) sextets" by code_simp
  then show "g \<in> set sextets \<Longrightarrow> ?thesis" by (simp add: list_all_iff)
qed

lemma sextet_groups_length: "g \<in> set (sextet_groups bs) \<Longrightarrow> length g = 6"
  by (induction bs rule: sextet_groups.induct) auto

lemma sextet_groups_concat: "\<exists>pad. concat (sextet_groups bs) = bs @ pad \<and> length pad < 6"
proof (induction bs rule: sextet_groups.induct)
  case (1 a b c d e f bs)
  then show ?case by auto
qed auto

lemma length_sextet_groups: "length (sextet_groups bs) = (length bs + 5) div 6"
  by (induction bs rule: sextet_groups.induct) auto

lemma char_bits_length: "length (concat (map char_bits b)) = 8 * length b"
proof (induction b)
  case (Cons c b)
  then show ?case by (cases c) simp
qed simp

lemma bits_chars_short: "length bs < 8 \<Longrightarrow> bits_chars bs = []"
  by (induction bs rule: bits_chars.induct) auto

lemma bits_chars_round_trip:
  "length pad < 8 \<Longrightarrow> bits_chars (concat (map char_bits b) @ pad) = b"
proof (induction b)
  case Nil
  then show ?case by (simp add: bits_chars_short)
next
  case (Cons c b)
  then show ?case by (cases c) simp
qed

lemma decode_encode: "b64url_decode (b64url_encode b) = b"
proof -
  let ?gs = "sextet_groups (concat (map char_bits b))"
  have rt: "char_sextet (the (sextet_char g)) = Some g" if "g \<in> set ?gs" for g
    using that by (intro sextet_round_trip sextets_mem sextet_groups_length)
  have "map char_sextet (b64url_encode b) = map Some ?gs"
    using rt by (simp add: b64url_encode_def)
  then have "b64url_decode (b64url_encode b) = bits_chars (concat ?gs)"
    by (simp add: b64url_decode_def comp_def)
  moreover obtain pad where "concat ?gs = concat (map char_bits b) @ pad" "length pad < 6"
    using sextet_groups_concat by blast
  ultimately show ?thesis by (simp add: bits_chars_round_trip)
qed

lemma encode_token_re: "length b = TOKEN_BYTES \<Longrightarrow> token_re (b64url_encode b)"
  by (auto simp: token_re_def b64url_encode_def length_sextet_groups char_bits_length TOKEN_BYTES_def
      list_all_iff intro!: sextet_char_alphabet sextets_mem dest: sextet_groups_length)

text \<open>
  (canonical tokens). The lookup accepts a text exactly when it is the base64url encoding of
  32 bytes, and then the lookup key is the SHA-256 of those bytes: a generated token is always
  found again, and padding, a trailing newline or stray low bits in the last character are
  refused with CryptoError.
\<close>

theorem token_lookup_canonical:
  "token_lookup_hash E t = Inr h \<longleftrightarrow> (\<exists>raw. length raw = TOKEN_BYTES \<and> t = b64url_encode raw
     \<and> h = sha256_hex E raw)"
proof
  assume "token_lookup_hash E t = Inr h"
  then show "\<exists>raw. length raw = TOKEN_BYTES \<and> t = b64url_encode raw \<and> h = sha256_hex E raw"
    by (intro exI [of _ "b64url_decode t"]) (auto simp: token_lookup_hash_def Let_def split: if_splits)
next
  assume "\<exists>raw. length raw = TOKEN_BYTES \<and> t = b64url_encode raw \<and> h = sha256_hex E raw"
  then show "token_lookup_hash E t = Inr h"
    by (auto simp: token_lookup_hash_def decode_encode encode_token_re)
qed

end
