(* ===== verification/OrderAdmin.thy ===== *)
theory OrderAdmin
  imports Settlement Tokens
begin

text \<open>
  The merchant's order actions of \<open>services/orders.py\<close> (5.3): archive and restore, status and
  shipping changes, cancellation, exception resolution, token reissue, the order list and its
  audit view, and the digital delivery a buyer may read.
\<close>

section \<open>Scoped reads\<close>

abbreviation "unauthorized \<equiv> ProblemError 404 ''unauthorized''"

definition get_merchant_row :: "id \<Rightarrow> id \<Rightarrow> (db, merchant) proc" where
  "get_merchant_row merchant user =
     pr_bind (pr_get (\<lambda>s. List.find (\<lambda>m. m_id m = merchant \<and> m_user_id m = user) (db_merchants s)))
       (\<lambda>row. case row of None \<Rightarrow> pr_raise unauthorized | Some m \<Rightarrow> pr_return m)"

definition get_order :: "id \<Rightarrow> id option \<Rightarrow> (db, order_row) proc" where
  "get_order i merchant =
     pr_bind (pr_get (\<lambda>s. List.find (\<lambda>k. o_id k = i
          \<and> (case merchant of None \<Rightarrow> True | Some m \<Rightarrow> o_merchant_id k = m)) (db_orders s)))
       (\<lambda>row. case row of None \<Rightarrow> pr_raise unauthorized | Some k \<Rightarrow> pr_return k)"

text \<open>\<open>except IllegalTransition\<close>: the API answers 422.\<close>

definition as_unprocessable :: "error \<Rightarrow> error" where
  "as_unprocessable e = (if e = IllegalTransition then invalid_transition else e)"

section \<open>Archive\<close>

definition hex32 :: "string \<Rightarrow> bool" where
  "hex32 i \<longleftrightarrow> length i = 32 \<and> list_all (\<lambda>c. c \<in> set ''0123456789abcdef'') i"

text \<open>\<open>list(dict.fromkeys(xs))\<close>: the first occurrences, in order.\<close>

definition dedup :: "'a list \<Rightarrow> 'a list" where
  "dedup xs = rev (remdups (rev xs))"

abbreviation "invalid_selection \<equiv> ProblemError 422 ''invalid-content''"

definition closed_clean :: "order_row \<Rightarrow> bool" where
  "closed_clean k \<longleftrightarrow> order_archivable (o_state k) \<and> \<not> o_payment_exception k \<and> \<not> o_oversold k"

definition unsettled :: "payment_status \<Rightarrow> bool" where
  "unsettled st \<longleftrightarrow> st \<in> {PyCreating, PyCreationUnknown, PyPending}"

definition bulk_archive_tx :: "id \<Rightarrow> id list \<Rightarrow> (db, nat) tx" where
  "bulk_archive_tx merchant ids =
     tx_bind (sql_all db_orders (\<lambda>k. o_merchant_id k = merchant \<and> o_id k \<in> set ids)) (\<lambda>rows.
     tx_seq (tx_assert (length rows = length ids) unauthorized)
    (tx_seq (tx_assert (list_all closed_clean rows) invalid_transition)
    (tx_bind (sql_count db_reservations (\<lambda>r. r_state r = ReHeld \<and> r_order_id r \<in> set ids)) (\<lambda>held.
     tx_bind (sql_count db_payments (\<lambda>p. unsettled (pay_status p) \<and> pay_order_id p \<in> set ids)) (\<lambda>pend.
     tx_seq (tx_assert (held = 0 \<and> pend = 0) invalid_transition)
    (tx_bind tx_now (\<lambda>now.
       sql_update db_orders db_orders_update orders_ok
         (\<lambda>k. o_archived_at k = None \<and> o_id k \<in> set ids) (\<lambda>k. k\<lparr>o_archived_at := Some now\<rparr>))))))))"

definition bulk_restore_tx :: "id \<Rightarrow> id list \<Rightarrow> (db, nat) tx" where
  "bulk_restore_tx merchant ids =
     tx_bind (sql_all db_orders (\<lambda>k. o_merchant_id k = merchant \<and> o_id k \<in> set ids)) (\<lambda>rows.
     tx_seq (tx_assert (length rows = length ids) unauthorized)
       (sql_update db_orders db_orders_update orders_ok
         (\<lambda>k. o_archived_at k \<noteq> None \<and> o_id k \<in> set ids) (\<lambda>k. k\<lparr>o_archived_at := None\<rparr>)))"

definition admin_bulk_archive :: "id \<Rightarrow> id \<Rightarrow> id list \<Rightarrow> string \<Rightarrow> (db, nat \<times> id list) proc" where
  "admin_bulk_archive merchant user order_ids action =
     pr_bind (get_merchant_row merchant user) (\<lambda>_.
     (let ids = dedup order_ids in
      if ids = [] \<or> 100 < length ids \<or> \<not> list_all hex32 ids then pr_raise invalid_selection
      else if action \<notin> {''archive'', ''restore''} then pr_raise invalid_selection
      else pr_bind (commit (if action = ''archive'' then bulk_archive_tx merchant ids
             else bulk_restore_tx merchant ids)) (\<lambda>n. pr_return (n, ids))))"

section \<open>Status and shipping\<close>

definition set_status_tx :: "env \<Rightarrow> id \<Rightarrow> id \<Rightarrow> string \<Rightarrow> int \<Rightarrow> (db, order_state) tx" where
  "set_status_tx E merchant i v now =
     tx_bind (order_row_tx i) (\<lambda>k.
     tx_seq (tx_assert (o_merchant_id k = merchant) unauthorized)
    (case parse_order_state v of
       None \<Rightarrow> tx_raise invalid_transition
     | Some st \<Rightarrow>
         tx_bind (tx_map_error as_unprocessable
            (transition_order E i st (Some (o_state k)) ''merchant'' None [] now)) (\<lambda>_.
         tx_seq (case state_email_event st of
             None \<Rightarrow> tx_return () | Some ev \<Rightarrow> notify E k ev now)
           (tx_return st))))"

definition admin_set_status :: "env \<Rightarrow> id \<Rightarrow> id \<Rightarrow> id \<Rightarrow> string \<Rightarrow> (db, order_state) proc" where
  "admin_set_status E merchant user i v =
     pr_bind (get_merchant_row merchant user) (\<lambda>_.
     pr_bind (pr_get db_clock) (\<lambda>now.
       commit (set_status_tx E merchant i v now)))"

definition fulfillment_ok :: "db \<Rightarrow> bool" where
  "fulfillment_ok s \<longleftrightarrow> distinct (map of_order_id (db_fulfillment s))
     \<and> list_all (\<lambda>r. \<exists>k\<in>set (db_orders s). o_id k = of_order_id r) (db_fulfillment s)"

definition coalesce :: "'a option \<Rightarrow> 'a option \<Rightarrow> 'a option" where
  "coalesce a b = (case a of Some x \<Rightarrow> Some x | None \<Rightarrow> b)"

definition upsert_fulfillment :: "id \<Rightarrow> bytes option \<Rightarrow> string option \<Rightarrow> string option \<Rightarrow> int \<Rightarrow>
    (db, unit) tx" where
  "upsert_fulfillment i tracking carrier eta now =
     tx_bind (sql_one db_fulfillment (\<lambda>r. of_order_id r = i)) (\<lambda>row.
     case row of
       None \<Rightarrow> sql_insert db_fulfillment_update fulfillment_ok
         \<lparr>of_order_id = i, of_tracking_enc = tracking, of_carrier = carrier, of_eta = eta,
          of_updated_at = now\<rparr>
     | Some _ \<Rightarrow> tx_ignore (sql_update db_fulfillment db_fulfillment_update fulfillment_ok
         (\<lambda>r. of_order_id r = i)
         (\<lambda>r. r\<lparr>of_tracking_enc := coalesce tracking (of_tracking_enc r),
            of_carrier := coalesce carrier (of_carrier r), of_eta := coalesce eta (of_eta r),
            of_updated_at := now\<rparr>)))"

definition set_shipping_tx :: "env \<Rightarrow> id \<Rightarrow> id \<Rightarrow> shipping_state \<Rightarrow> string option \<Rightarrow>
    string option \<Rightarrow> string option \<Rightarrow> int \<Rightarrow> (db, unit) tx" where
  "set_shipping_tx E merchant i st tracking carrier eta now =
     tx_bind (order_row_tx i) (\<lambda>k.
     tx_seq (tx_assert (o_merchant_id k = merchant) unauthorized)
    (tx_seq (tx_assert (st \<in> set (shipping_transitions (o_shipping_state k))) invalid_transition)
    (tx_bind (sql_update db_orders db_orders_update orders_ok
        (\<lambda>q. o_id q = i \<and> o_shipping_state q = o_shipping_state k)
        (\<lambda>q. q\<lparr>o_shipping_state := st, o_updated_at := now\<rparr>)) (\<lambda>rc.
     tx_seq (tx_assert (rc = 1) invalid_transition)
    (tx_bind (case tracking of
         None \<Rightarrow> tx_return None
       | Some t \<Rightarrow> tx_bind (seal_column E i ''order_fulfillment'' ''tracking_enc'' t)
           (\<lambda>e. tx_return (Some e))) (\<lambda>enc.
     tx_seq (upsert_fulfillment i enc carrier eta now)
    (tx_seq (case shipping_email_event st of
         None \<Rightarrow> tx_return () | Some ev \<Rightarrow> notify E k ev now)
    (tx_when (truthy (o_buyer_pubkey_hash k))
       (tx_ignore (enqueue_shipping E k st tracking carrier eta))))))))))"

definition admin_set_shipping :: "env \<Rightarrow> id \<Rightarrow> id \<Rightarrow> id \<Rightarrow> string \<Rightarrow> string option \<Rightarrow>
    string option \<Rightarrow> string option \<Rightarrow> (db, shipping_state) proc" where
  "admin_set_shipping E merchant user i v tracking carrier eta =
     pr_bind (get_merchant_row merchant user) (\<lambda>_.
     case parse_shipping_state v of
       None \<Rightarrow> pr_raise invalid_transition
     | Some st \<Rightarrow>
         pr_bind (pr_get db_clock) (\<lambda>now.
         pr_bind (commit (set_shipping_tx E merchant i st tracking carrier eta now))
           (\<lambda>_. pr_return st)))"

section \<open>Cancellation, exceptions, tokens\<close>

definition admin_cancel :: "env \<Rightarrow> id \<Rightarrow> id \<Rightarrow> id \<Rightarrow> string option \<Rightarrow> (db, cancel_result) proc" where
  "admin_cancel E merchant user i reason =
     pr_bind (get_merchant_row merchant user) (\<lambda>_.
     pr_bind (get_order i (Some merchant)) (\<lambda>k.
     pr_bind (commit (notify_context E k)) (\<lambda>ctx.
       commit (tx_map_error as_unprocessable (cancel_order E i ''merchant'' reason (Some ctx))))))"

definition admin_resolve_exception :: "env \<Rightarrow> id \<Rightarrow> id \<Rightarrow> id \<Rightarrow> string \<Rightarrow> string option \<Rightarrow>
    (db, bool option) proc" where
  "admin_resolve_exception E merchant user i action ref =
     pr_bind (get_merchant_row merchant user) (\<lambda>_.
     pr_bind (get_order i (Some merchant)) (\<lambda>_.
       resolve_exception E i action None ref ''merchant''))"

definition reissue_tx :: "env \<Rightarrow> id \<Rightarrow> string \<Rightarrow> bytes \<Rightarrow> int \<Rightarrow> (db, unit) tx" where
  "reissue_tx E i token enc now =
     tx_bind (tx_lift (token_lookup_hash E token)) (\<lambda>h.
       update_order i (\<lambda>k. k\<lparr>o_public_token_hash := Some h, o_public_token_enc := Some enc,
         o_public_token_expires_at := Some (now + 30 * 86400), o_updated_at := now\<rparr>))"

definition admin_reissue_token :: "env \<Rightarrow> id \<Rightarrow> id \<Rightarrow> id \<Rightarrow> (db, string \<times> int) proc" where
  "admin_reissue_token E merchant user i =
     pr_bind (get_merchant_row merchant user) (\<lambda>_.
     pr_bind (get_order i (Some merchant)) (\<lambda>k.
     if o_protocol k \<noteq> ''web'' then pr_raise invalid_transition
     else
       pr_bind (pr_get db_clock) (\<lambda>now.
       pr_bind (commit draw) (\<lambda>n.
       (let token = generate_public_token E n in
        pr_bind (commit (seal_column E i ''orders'' ''public_token_enc'' token)) (\<lambda>enc.
        pr_bind (commit (reissue_tx E i token enc now)) (\<lambda>_.
          pr_return (token, now + 30 * 86400))))))))"

section \<open>Reads\<close>

text \<open>\<open>ORDER BY oi.title\<close>; a NULL title sorts with the empty one.\<close>

definition digital_delivery :: "env \<Rightarrow> order_row \<Rightarrow> db \<Rightarrow> error + (string option \<times> bytes) list" where
  "digital_delivery E k s =
     (if \<not> delivery_unlocked k then Inr []
      else
        (let rows = concat (map (\<lambda>it. map (\<lambda>p. (oi_title it, p_id p, p_delivery_enc p))
               (filter (\<lambda>p. p_id p = oi_product_id it \<and> p_format p = ''digital''
                  \<and> p_delivery_enc p \<noteq> None) (db_products s)))
             (sort_key (\<lambda>it. case oi_title it of None \<Rightarrow> '''' | Some t \<Rightarrow> t)
               (filter (\<lambda>it. oi_order_id it = o_id k) (db_items s))))
         in try_fold (\<lambda>acc (title, pid, enc).
              try_bind (open_column E pid ''products'' ''delivery_enc'' (the enc)) (\<lambda>content.
                Inr (acc @ [(title, content)]))) [] rows))"

definition archive_eligible :: "db \<Rightarrow> order_row \<Rightarrow> bool" where
  "archive_eligible s k \<longleftrightarrow> closed_clean k
     \<and> \<not> list_ex (\<lambda>r. r_order_id r = o_id k \<and> r_state r = ReHeld) (db_reservations s)
     \<and> \<not> list_ex (\<lambda>p. pay_order_id p = o_id k \<and> unsettled (pay_status p)) (db_payments s)"

text \<open>\<open>contact.get("email") or contact.get("npub")\<close>, or \<open>None\<close> when it cannot be opened.\<close>

definition buyer_handle :: "env \<Rightarrow> order_row \<Rightarrow> string option" where
  "buyer_handle E k =
     (case o_contact_enc k of
        None \<Rightarrow> None
      | Some e \<Rightarrow>
          (case open_column E (o_id k) ''orders'' ''contact_enc'' e of
             Inl _ \<Rightarrow> None
           | Inr raw \<Rightarrow>
               (case json_loads E raw of
                  None \<Rightarrow> None
                | Some j \<Rightarrow>
                    (let email = Option.bind (json_field ''email'' j) json_str in
                     if truthy email then email else Option.bind (json_field ''npub'' j) json_str))))"

definition listed :: "string option \<Rightarrow> order_row \<Rightarrow> bool" where
  "listed state k \<longleftrightarrow> (case state of
       None \<Rightarrow> True
     | Some v \<Rightarrow> v = '''' \<or> (if v = ''needs_attention'' then o_payment_exception k \<or> o_oversold k
         else parse_order_state v = Some (o_state k)))"

definition shelf :: "bool \<Rightarrow> order_row \<Rightarrow> bool" where
  "shelf archived k \<longleftrightarrow> (if archived then o_archived_at k \<noteq> None
     else o_archived_at k = None \<or> o_payment_exception k \<or> o_oversold k)"

definition contains :: "string \<Rightarrow> string \<Rightarrow> bool" where
  "contains text needle \<longleftrightarrow>
     list_ex (\<lambda>n. take (length needle) (drop n text) = needle) [0..<Suc (length text)]"

definition matches_query :: "env \<Rightarrow> string option \<Rightarrow> order_row \<Rightarrow> bool" where
  "matches_query E q k \<longleftrightarrow> (if \<not> truthy q then True
     else
       (let needle = str_lower E (str_strip E (the q)) in
        take (length needle) (str_lower E (o_id k)) = needle
        \<or> contains (str_lower E (case buyer_handle E k of None \<Rightarrow> '''' | Some b \<Rightarrow> b)) needle))"

record order_listing =
  ol_order :: order_row
  ol_item_count :: nat
  ol_first_item :: "string option"
  ol_first_qty :: "int option"
  ol_eligible :: bool
  ol_buyer :: "string option"

definition listing_row :: "env \<Rightarrow> db \<Rightarrow> order_row \<Rightarrow> order_listing" where
  "listing_row E s k =
     (let items = sort_key oi_id (filter (\<lambda>it. oi_order_id it = o_id k) (db_items s)) in
      \<lparr>ol_order = k, ol_item_count = length items,
       ol_first_item = (case items of [] \<Rightarrow> None | it # _ \<Rightarrow> oi_title it),
       ol_first_qty = (case items of [] \<Rightarrow> None | it # _ \<Rightarrow> Some (oi_quantity it)),
       ol_eligible = archive_eligible s k, ol_buyer = buyer_handle E k\<rparr>)"

definition list_orders :: "env \<Rightarrow> id \<Rightarrow> id \<Rightarrow> string option \<Rightarrow> string option \<Rightarrow> string option \<Rightarrow>
    bool \<Rightarrow> (db, order_listing list) proc" where
  "list_orders E merchant user state protocol q archived =
     pr_bind (get_merchant_row merchant user) (\<lambda>_.
     if truthy state \<and> the state \<noteq> ''needs_attention'' \<and> parse_order_state (the state) = None
     then pr_raise invalid_transition
     else if truthy protocol \<and> the protocol \<notin> {''web'', ''gamma'', ''nip15''}
     then pr_raise invalid_transition
     else pr_get (\<lambda>s. map (listing_row E s) (filter (matches_query E q)
        (take 200 (sort_key (\<lambda>k. - o_created_at k)
          (filter (\<lambda>k. o_merchant_id k = merchant \<and> shelf archived k \<and> listed state k
             \<and> (truthy protocol \<longrightarrow> o_protocol k = the protocol)) (db_orders s)))))))"

definition order_events :: "id \<Rightarrow> id \<Rightarrow> id \<Rightarrow> (db, order_event list) proc" where
  "order_events merchant user i =
     pr_bind (get_merchant_row merchant user) (\<lambda>_.
     pr_bind (get_order i (Some merchant)) (\<lambda>_.
       pr_get (\<lambda>s. sort_key oe_created_at (sort_key oe_id
         (filter (\<lambda>e. oe_order_id e = i) (db_events s))))))"

section \<open>The invariants\<close>

lemma pr_inv_get_merchant_row [pr_invs]: "pr_inv I (get_merchant_row m u)"
  and pr_inv_get_order [pr_invs]: "pr_inv I (get_order i mo)"
  unfolding get_merchant_row_def get_order_def by (intro pr_invs)+

lemma pr_inv_let [pr_invs]: "pr_inv I (f x) \<Longrightarrow> pr_inv I (let y = x in f y)"
  by simp

lemma stock_bulk: "tx_inv stock_ok (bulk_archive_tx m ids)" "tx_inv stock_ok (bulk_restore_tx m ids)"
  unfolding bulk_archive_tx_def bulk_restore_tx_def
  by (intro stock_keeps keeps keeps_sql stock_view_other)+

lemma audit_bulk: "tx_inv audit_ok (bulk_archive_tx m ids)" "tx_inv audit_ok (bulk_restore_tx m ids)"
  unfolding bulk_archive_tx_def bulk_restore_tx_def
  by (intro audit_keeps keeps audit_keeps_orders; simp)+

lemma stock_set_status: "tx_inv stock_ok (set_status_tx E m i v now)"
  unfolding set_status_tx_def
  by (intro stock_keeps keeps stock_view_other)

lemma audit_set_status: "tx_inv audit_ok (set_status_tx E m i v now)"
  unfolding set_status_tx_def
  by (intro tx_inv_bind tx_inv_seq tx_inv_option tx_inv_map_error tx_inv_return
      transition_order_audit audit_keeps keeps audit_view_other)

lemma keeps_upsert_fulfillment [keeps]:
  "(\<And>g s. f (db_fulfillment_update g s) = f s) \<Longrightarrow> tx_keeps f (upsert_fulfillment i t c e now)"
  unfolding upsert_fulfillment_def by (intro keeps keeps_sql)

lemma stock_set_shipping: "tx_inv stock_ok (set_shipping_tx E m i st t c e now)"
  unfolding set_shipping_tx_def
  by (intro stock_keeps keeps keeps_sql stock_view_other)

lemma audit_set_shipping: "tx_inv audit_ok (set_shipping_tx E m i st t c e now)"
  unfolding set_shipping_tx_def
  by (intro audit_keeps keeps audit_keeps_orders audit_view_other) simp_all

lemma stock_reissue: "tx_inv stock_ok (reissue_tx E i token enc now)"
  unfolding reissue_tx_def by (intro stock_keeps keeps keeps_update_order_other stock_view_other)

lemma audit_reissue: "tx_inv audit_ok (reissue_tx E i token enc now)"
  unfolding reissue_tx_def by (intro audit_keeps keeps) simp_all

text \<open>Statements outside a transaction of interest: a read, a random draw, a sealed column.\<close>

lemma stock_aside: "tx_inv stock_ok (notify_context E k)" "tx_inv stock_ok draw"
    "tx_inv stock_ok (seal_column E r t c p)" "tx_inv stock_ok (new_uuid E)"
  by (intro stock_keeps keeps stock_view_other)+

lemma audit_aside: "tx_inv audit_ok (notify_context E k)" "tx_inv audit_ok draw"
    "tx_inv audit_ok (seal_column E r t c p)" "tx_inv audit_ok (new_uuid E)"
  by (intro audit_keeps keeps audit_view_other)+

lemma stock_order_admin:
  "pr_inv stock_ok (admin_bulk_archive m u ids a)"
  "pr_inv stock_ok (admin_set_status E m u i v)"
  "pr_inv stock_ok (admin_set_shipping E m u i sh t c e)"
  "pr_inv stock_ok (admin_cancel E m u i reason)"
  "pr_inv stock_ok (admin_resolve_exception E m u i act ref)"
  "pr_inv stock_ok (admin_reissue_token E m u i)"
  unfolding admin_bulk_archive_def admin_set_status_def admin_set_shipping_def admin_cancel_def
    admin_resolve_exception_def admin_reissue_token_def
  by (intro pr_invs tx_inv_if tx_inv_map_error stock_bulk stock_set_status stock_set_shipping
      stock_aside stock_reissue cancel_order_stock stock_resolve_exception)+

lemma audit_order_admin:
  "pr_inv audit_ok (admin_bulk_archive m u ids a)"
  "pr_inv audit_ok (admin_set_status E m u i v)"
  "pr_inv audit_ok (admin_set_shipping E m u i sh t c e)"
  "pr_inv audit_ok (admin_cancel E m u i reason)"
  "pr_inv audit_ok (admin_resolve_exception E m u i act ref)"
  "pr_inv audit_ok (admin_reissue_token E m u i)"
  unfolding admin_bulk_archive_def admin_set_status_def admin_set_shipping_def admin_cancel_def
    admin_resolve_exception_def admin_reissue_token_def
  by (intro pr_invs tx_inv_if tx_inv_map_error audit_bulk audit_set_status audit_set_shipping
      audit_aside audit_reissue cancel_order_audit audit_resolve_exception)+

end
