(* ===== verification/Recovery.thy ===== *)
theory Recovery
  imports OrderAdmin
begin

text \<open>
  The passes that repair and erase: the order part of the reconciliation
  (\<open>services/settlement.py\<close>, 8.7), the re-enqueue of payment requests
  (\<open>services/order_messages.py\<close>) and the retention pruner (11.3).
\<close>

section \<open>Reconciliation of orders and payments\<close>

definition UNCERTAINTY_WINDOW_S :: int where "UNCERTAINTY_WINDOW_S = 300"

record report =
  rep_resumed :: "(id \<times> (error + saga_result)) list"
  rep_attached :: "saga_result list"
  rep_failed :: "id list"
  rep_confirmed :: "settle_result list"
  rep_expired :: "(id \<times> int) list"
  rep_critical :: "(id \<times> nat) list"

definition no_report :: report where
  "no_report = \<lparr>rep_resumed = [], rep_attached = [], rep_failed = [], rep_confirmed = [],
     rep_expired = [], rep_critical = []\<rparr>"

text \<open>A committed \<open>received\<close> order resumes; whatever it raises is only reported.\<close>

definition resume_received :: "env \<Rightarrow> lnbits \<Rightarrow> int \<Rightarrow> report \<Rightarrow> id \<Rightarrow> (db, report) proc" where
  "resume_received E L now rep i =
     pr_catch
       (pr_bind (begin_saga E L i now) (\<lambda>r.
          pr_return (rep\<lparr>rep_resumed := rep_resumed rep @ [(i, Inr r)]\<rparr>)))
       (\<lambda>e. pr_return (rep\<lparr>rep_resumed := rep_resumed rep @ [(i, Inl e)]\<rparr>))"

definition flag_multiple :: "env \<Rightarrow> id \<Rightarrow> nat \<Rightarrow> report \<Rightarrow> (db, report) proc" where
  "flag_multiple E i n rep =
     pr_bind (pr_get db_clock) (\<lambda>t.
     pr_bind (commit (flag_exception E i ''multiple-core-payments'' ''reconciliation'' t)) (\<lambda>_.
       pr_return (rep\<lparr>rep_critical := rep_critical rep @ [(i, n)]\<rparr>)))"

definition reconcile_creating :: "env \<Rightarrow> lnbits \<Rightarrow> int \<Rightarrow> report \<Rightarrow> payment \<Rightarrow> (db, report) proc" where
  "reconcile_creating E L now rep p =
     (case ln_payments L (pay_core_external_id p) of
        [] \<Rightarrow>
          if UNCERTAINTY_WINDOW_S \<le> now - pay_created_at p then
            pr_bind (commit (mark_rejection E (pay_order_id p) InvoicePending now)) (\<lambda>_.
              pr_return (rep\<lparr>rep_failed := rep_failed rep @ [pay_order_id p]\<rparr>))
          else pr_return rep
      | [core] \<Rightarrow>
          pr_bind (attach_payment E L (pay_order_id p) core now) (\<lambda>r.
            pr_return (rep\<lparr>rep_attached := rep_attached rep @ [r]\<rparr>))
      | cs \<Rightarrow> flag_multiple E (pay_order_id p) (length cs) rep)"

definition expire_projection :: "id \<Rightarrow> (db, unit) tx" where
  "expire_projection i = tx_ignore (update_payment i {PyPending} (\<lambda>p. p\<lparr>pay_status := PyExpired\<rparr>))"

definition settle_pending :: "env \<Rightarrow> lnbits \<Rightarrow> int \<Rightarrow> report \<Rightarrow> payment \<Rightarrow> core_payment \<Rightarrow> (db, report) proc" where
  "settle_pending E L now rep p core =
     (case (if cp_success core then Some True else ln_paid L core) of
        None \<Rightarrow> pr_raise RuntimeError
      | Some True \<Rightarrow>
          pr_bind (handle_core_payment E L (pay_order_id p)
             (if cp_success core then core else core\<lparr>cp_success := True, cp_pending := False\<rparr>)
             ''reconciliation'') (\<lambda>r.
          pr_return (case r of None \<Rightarrow> rep
             | Some x \<Rightarrow> rep\<lparr>rep_confirmed := rep_confirmed rep @ [x]\<rparr>))
      | Some False \<Rightarrow>
          if pay_status p = PyPending \<and> (\<not> cp_pending core \<or> cp_is_expired core) then
            pr_bind (get_order (pay_order_id p) None) (\<lambda>k.
            if o_state k = AwaitingPayment then
              pr_bind (commit (expire_order E (o_id k) now)) (\<lambda>released.
                pr_return (rep\<lparr>rep_expired := rep_expired rep @ [(o_id k, released)]\<rparr>))
            else if o_state k \<in> {Cancelled, Expired, Rejected} then
              pr_bind (commit (expire_projection (o_id k))) (\<lambda>_. pr_return rep)
            else pr_return rep)
          else pr_return rep)"

definition reconcile_pending :: "env \<Rightarrow> lnbits \<Rightarrow> int \<Rightarrow> report \<Rightarrow> payment \<Rightarrow> (db, report) proc" where
  "reconcile_pending E L now rep p =
     (case ln_payments L (pay_core_external_id p) of
        [] \<Rightarrow> pr_return rep
      | [core] \<Rightarrow> pr_catch (settle_pending E L now rep p core) (\<lambda>_. pr_return rep)
      | cs \<Rightarrow> flag_multiple E (pay_order_id p) (length cs) rep)"

definition reconcile_orders :: "env \<Rightarrow> lnbits \<Rightarrow> int \<Rightarrow> (db, report) proc" where
  "reconcile_orders E L now =
     pr_bind (assert_database_compatible E) (\<lambda>_.
     pr_bind (pr_get (\<lambda>s. map o_id (filter (\<lambda>k. o_state k = Received) (db_orders s)))) (\<lambda>received.
     pr_bind (pr_fold (resume_received E L now) no_report received) (\<lambda>rep1.
     pr_bind (pr_get (\<lambda>s. filter (\<lambda>p. pay_status p \<in> {PyCreating, PyCreationUnknown})
        (db_payments s))) (\<lambda>creating.
     pr_bind (pr_fold (reconcile_creating E L now) rep1 creating) (\<lambda>rep2.
     pr_bind (pr_get (\<lambda>s. filter (\<lambda>p. pay_status p \<in> {PyPending, PyExpired})
        (db_payments s))) (\<lambda>pend.
       pr_fold (reconcile_pending E L now) rep2 pend))))))"

section \<open>Payment requests that were never enqueued\<close>

definition lacks_request :: "db \<Rightarrow> order_row \<Rightarrow> bool" where
  "lacks_request s k \<longleftrightarrow> o_state k = AwaitingPayment \<and> o_buyer_pubkey_hash k \<noteq> None
     \<and> \<not> list_ex (\<lambda>m. om_order_id m = Some (o_id k) \<and> om_semantic_kind m = Some ''payment-request''
          \<and> om_direction m = ''out'') (db_messages s)"

definition unrequested :: "db \<Rightarrow> (order_row \<times> payment) list" where
  "unrequested s = concat (map (\<lambda>k. map (Pair k)
     (filter (\<lambda>p. pay_order_id p = o_id k \<and> pay_status p = PyPending) (db_payments s)))
     (filter (lacks_request s) (db_orders s)))"

definition reenqueue_one :: "env \<Rightarrow> nat \<Rightarrow> order_row \<times> payment \<Rightarrow> (db, nat) proc" where
  "reenqueue_one E n entry =
     (let k = fst entry in
      pr_catch
        (pr_bind (pr_lift (open_required E (o_id k) ''payments'' ''bolt11_enc''
            (pay_bolt11_enc (snd entry)))) (\<lambda>bolt11.
         pr_bind (commit (enqueue_payment_request E k bolt11 (o_invoice_expiry k))) (\<lambda>_.
           pr_return (n + 1))))
        (\<lambda>_. pr_return n))"

definition reenqueue_payment_requests :: "env \<Rightarrow> (db, nat) proc" where
  "reenqueue_payment_requests E = pr_bind (pr_get unrequested) (pr_fold (reenqueue_one E) 0)"

section \<open>Retention\<close>

definition INBOX_CIPHERTEXT_RETENTION_S :: int where "INBOX_CIPHERTEXT_RETENTION_S = 7 * 86400"
definition INBOX_QUARANTINE_RETENTION_S :: int where "INBOX_QUARANTINE_RETENTION_S = 30 * 86400"
definition ORDER_PII_RETENTION_S :: int where "ORDER_PII_RETENTION_S = 90 * 86400"

text \<open>When the order entered its state: the latest event into it, or its last update.\<close>

definition closed_at :: "db \<Rightarrow> order_row \<Rightarrow> int" where
  "closed_at s k =
     (let ts = map oe_created_at (filter (\<lambda>e. oe_order_id e = o_id k \<and> oe_to_state e = o_state k
            \<and> (case oe_from_state e of None \<Rightarrow> False | Some f \<Rightarrow> f \<noteq> oe_to_state e)) (db_events s))
      in if ts = [] then o_updated_at k else fold max (tl ts) (hd ts))"

definition erasable :: "int \<Rightarrow> db \<Rightarrow> order_row \<Rightarrow> bool" where
  "erasable now s k \<longleftrightarrow> o_state k \<in> {Completed, Rejected, Cancelled, Expired}
     \<and> closed_at s k \<le> now - ORDER_PII_RETENTION_S"

definition erase_order :: "order_row \<Rightarrow> order_row" where
  "erase_order k = k\<lparr>o_contact_enc := None, o_address_enc := None, o_buyer_pubkey_enc := None,
     o_external_id_enc := None, o_public_token_enc := None\<rparr>"

definition erasable_ids :: "int \<Rightarrow> db \<Rightarrow> id list" where
  "erasable_ids now s = map o_id (filter (erasable now s) (db_orders s))"

definition older :: "int \<Rightarrow> int option \<Rightarrow> bool" where
  "older t v \<longleftrightarrow> (case v of None \<Rightarrow> False | Some x \<Rightarrow> x \<le> t)"

definition erase_inbox :: "(inbox_row_state \<Rightarrow> bool) \<Rightarrow> int \<Rightarrow> (db, nat) tx" where
  "erase_inbox P t = sql_update db_inbox db_inbox_update inbox_ok
     (\<lambda>r. P (in_processed_state r) \<and> older t (in_processed_at r))
     (\<lambda>r. r\<lparr>in_raw_json := None, in_author_enc := None\<rparr>)"

definition erase_tokens :: "int \<Rightarrow> (db, nat) tx" where
  "erase_tokens now = sql_update db_orders db_orders_update orders_ok
     (\<lambda>k. o_public_token_enc k \<noteq> None \<and> older now (o_public_token_expires_at k))
     (\<lambda>k. k\<lparr>o_public_token_enc := None\<rparr>)"

definition erase_orders :: "int \<Rightarrow> (db, nat) tx" where
  "erase_orders now = tx_bind (tx_get (erasable_ids now)) (\<lambda>ids.
     sql_update db_orders db_orders_update orders_ok (\<lambda>k. o_id k \<in> set ids) erase_order)"

definition erase_dependents :: "int \<Rightarrow> (db, unit) tx" where
  "erase_dependents now =
     tx_bind (tx_get (erasable_ids now)) (\<lambda>ids.
     tx_seq (tx_ignore (sql_update db_fulfillment db_fulfillment_update fulfillment_ok
        (\<lambda>r. of_order_id r \<in> set ids) (\<lambda>r. r\<lparr>of_tracking_enc := None\<rparr>)))
    (tx_seq (tx_ignore (sql_update db_emails db_emails_update emails_ok
        (\<lambda>r. case em_order_id r of None \<Rightarrow> False | Some i \<Rightarrow> i \<in> set ids)
        (\<lambda>r. r\<lparr>em_recipient_enc := [],
           em_state := (if em_state r = EmSent then EmSent else EmSuppressed),
           em_claim_token := em_claim_token r + 1, em_claimed_until := None,
           em_claimed_by := None\<rparr>)))
    (tx_seq (tx_ignore (sql_update db_idempotency db_idempotency_update idempotency_ok
        (\<lambda>r. ir_expires_at r \<le> now
           \<or> (case ir_order_id r of None \<Rightarrow> False | Some i \<Rightarrow> i \<in> set ids))
        (\<lambda>r. r\<lparr>ir_response_enc := None\<rparr>)))
       (tx_ignore (sql_update db_messages db_messages_update messages_ok
          (\<lambda>m. om_created_at m \<le> now - ORDER_PII_RETENTION_S)
          (\<lambda>m. m\<lparr>om_content_enc := None, om_participant_keys_enc := None\<rparr>))))))"

text \<open>The result: tokens, inbox rows, peer relays and orders erased.\<close>

definition retention_tx :: "int \<Rightarrow> (db, nat \<times> nat \<times> nat \<times> nat) tx" where
  "retention_tx now =
     tx_bind (erase_tokens now) (\<lambda>tokens.
     tx_bind (erase_inbox (\<lambda>st. st = InProcessed) (now - INBOX_CIPHERTEXT_RETENTION_S)) (\<lambda>n1.
     tx_bind (erase_inbox (\<lambda>st. st \<in> {InRejected, InQuarantined})
        (now - INBOX_QUARANTINE_RETENTION_S)) (\<lambda>n2.
     tx_bind (sql_delete db_peer_relays db_peer_relays_update
        (\<lambda>r. older now (pr_expires_at r))) (\<lambda>peers.
     tx_bind (erase_orders now) (\<lambda>orders.
     tx_seq (erase_dependents now)
       (tx_return (tokens, n1 + n2, peers, orders)))))))"

definition retention_prune :: "env \<Rightarrow> (db, nat \<times> nat \<times> nat \<times> nat) proc" where
  "retention_prune E = pr_bind (pr_get db_clock) (\<lambda>now. commit (retention_tx now))"

section \<open>The invariants\<close>

lemma stock_view_peers [simp]: "stock_view (db_peer_relays_update g s) = stock_view s"
  by (simp add: stock_view_def)

lemmas stock_reconcile_steps = stock_begin_saga stock_flag_exception stock_mark_rejection
  stock_attach_payment stock_handle_core_payment stock_expire_order

lemmas audit_reconcile_steps = audit_begin_saga audit_flag_exception audit_mark_rejection
  audit_attach_payment audit_handle_core_payment audit_expire_order

lemma pr_inv_list [pr_invs]:
  "pr_inv I a \<Longrightarrow> (\<And>x. pr_inv I (b x)) \<Longrightarrow> (\<And>x y ys. pr_inv I (c x y ys))
     \<Longrightarrow> pr_inv I (case v of [] \<Rightarrow> a | [x] \<Rightarrow> b x | x # y # ys \<Rightarrow> c x y ys)"
  by (auto split: list.split)

lemma pr_inv_bool [pr_invs]:
  "pr_inv I a \<Longrightarrow> pr_inv I b \<Longrightarrow> pr_inv I (case v of True \<Rightarrow> a | False \<Rightarrow> b)"
  by (cases v) auto

lemma stock_expire_projection: "tx_inv stock_ok (expire_projection i)"
  unfolding expire_projection_def by (intro stock_keeps keeps stock_view_other)

lemma audit_expire_projection: "tx_inv audit_ok (expire_projection i)"
  unfolding expire_projection_def by (intro audit_keeps keeps audit_view_other)

lemma stock_reconcile_orders: "pr_inv stock_ok (reconcile_orders E L now)"
  unfolding reconcile_orders_def resume_received_def reconcile_creating_def reconcile_pending_def
    settle_pending_def flag_multiple_def
  by (intro pr_invs stock_reconcile_steps stock_expire_projection)

lemma audit_reconcile_orders: "pr_inv audit_ok (reconcile_orders E L now)"
  unfolding reconcile_orders_def resume_received_def reconcile_creating_def reconcile_pending_def
    settle_pending_def flag_multiple_def
  by (intro pr_invs audit_reconcile_steps audit_expire_projection)

lemma stock_reenqueue: "pr_inv stock_ok (reenqueue_payment_requests E)"
  unfolding reenqueue_payment_requests_def reenqueue_one_def Let_def
  by (intro pr_invs stock_keeps keeps stock_view_other)

lemma audit_reenqueue: "pr_inv audit_ok (reenqueue_payment_requests E)"
  unfolding reenqueue_payment_requests_def reenqueue_one_def Let_def
  by (intro pr_invs audit_keeps keeps audit_view_other)

lemmas retention_defs = retention_prune_def retention_tx_def erase_tokens_def erase_inbox_def
  erase_orders_def erase_dependents_def

lemma stock_retention_prune: "pr_inv stock_ok (retention_prune E)"
  unfolding retention_defs
  by (intro pr_invs stock_keeps keeps keeps_sql stock_view_other stock_view_peers)

lemma audit_retention_prune: "pr_inv audit_ok (retention_prune E)"
  unfolding retention_defs
  by (intro pr_invs tx_inv_bind tx_inv_seq tx_inv_ignore tx_inv_return audit_keeps
      audit_keeps_orders; simp add: erase_order_def keeps keeps_sql)

end
