(* ===== verification/Samples.thy ===== *)
theory Samples
  imports Crypto
begin

text \<open>
  A concrete environment and an empty database, on which the concrete instances of the
  theorems are evaluated. The toy cipher binds its associated data the way AES-GCM does, so
  the documented behaviour the theorems rely on can hold.
\<close>

fun mark :: "bytes \<Rightarrow> bytes" where
  "mark [] = [CHR ''.'']"
| "mark (c # cs) = CHR '':'' # c # mark cs"

fun unmark :: "bytes \<Rightarrow> bytes \<Rightarrow> bytes option" where
  "unmark [] (x # xs) = (if x = CHR ''.'' then Some xs else None)"
| "unmark (c # cs) (x # y # xs) = (if x = CHR '':'' \<and> y = c then unmark cs xs else None)"
| "unmark _ _ = None"

definition toy_seal :: "bytes \<Rightarrow> bytes \<Rightarrow> bytes \<Rightarrow> bytes \<Rightarrow> bytes" where
  "toy_seal k n a p = replicate TAG_LEN (CHR ''T'') @ mark a @ p"

definition toy_open :: "bytes \<Rightarrow> bytes \<Rightarrow> bytes \<Rightarrow> bytes \<Rightarrow> bytes option" where
  "toy_open k n a b = unmark a (drop TAG_LEN b)"

lemma unmark_mark: "unmark a (mark b @ p) = (if a = b then Some p else None)"
proof (induction a arbitrary: b)
  case Nil
  then show ?case by (cases b) auto
next
  case (Cons c a)
  then show ?case by (cases b; cases p) auto
qed

definition sample_env :: env where
  "sample_env = \<lparr>master_keys = (\<lambda>v. if v = ''v1'' then Some ''key'' else None),
     active_key_version = ''v1'', privacy_key = ''priv'', public_base_url = ''https://shop'',
     reservation_ttl = 600, peer_relay_ttl = 86400, spec_revision = ''rev'',
     checkout_rate_limit = 10, checkout_rate_limit_hourly = 100, outbox_max_attempts = 20, outbox_batch = 32,
     inbox_max_event_bytes = 65536, inbox_author_cap = 30,
     email_enabled = True, email_max_attempts = 10,
     gcm_encrypt = toy_seal, gcm_decrypt = toy_open,
     hmac_sha256 = (\<lambda>k m. m), sha256_hex = (\<lambda>b. b), nfc_strip_lower = (\<lambda>x. x),
     str_upper = (\<lambda>x. x), str_lower = (\<lambda>x. x), str_isalpha = (\<lambda>x. True), str_strip = (\<lambda>x. x),
     nfc = (\<lambda>x. x), idna_host = Some, ip_literal = (\<lambda>x. False), netloc_ok = (\<lambda>x. True), parse_pubkey = Some,
     npub = (\<lambda>x. Some x), database_compatible = True,
     json_dumps = (\<lambda>j. ''{}''), json_loads = (\<lambda>b. None),
     canonical_id = (\<lambda>k c t tags a. ''rumor''),
     uuid4 = (\<lambda>n. CHR ''u'' # replicate n (CHR ''u'')), random_bytes = (\<lambda>n l. replicate l (CHR ''n'')),
     randint = (\<lambda>n b. 0)\<rparr>"

lemma gcm_sound_sample: "gcm_sound sample_env"
  by (simp add: gcm_sound_def sample_env_def toy_seal_def toy_open_def unmark_mark)

text \<open>The fields of the environment, and the envelope its cipher makes.\<close>

lemma sample_env_fields [evals]:
  "master_keys sample_env = (\<lambda>v. if v = ''v1'' then Some ''key'' else None)"
  "active_key_version sample_env = ''v1''"
  "privacy_key sample_env = ''priv''"
  "public_base_url sample_env = ''https://shop''"
  "reservation_ttl sample_env = 600"
  "peer_relay_ttl sample_env = 86400"
  "spec_revision sample_env = ''rev''"
  "checkout_rate_limit sample_env = 10"
  "checkout_rate_limit_hourly sample_env = 100"
  "nfc sample_env = (\<lambda>x. x)"
  "idna_host sample_env = Some"
  "ip_literal sample_env = (\<lambda>x. False)"
  "netloc_ok sample_env = (\<lambda>x. True)"
  "parse_pubkey sample_env = Some"
  "outbox_max_attempts sample_env = 20"
  "outbox_batch sample_env = 32"
  "inbox_max_event_bytes sample_env = 65536"
  "inbox_author_cap sample_env = 30"
  "email_enabled sample_env = True"
  "email_max_attempts sample_env = 10"
  "gcm_encrypt sample_env = toy_seal"
  "gcm_decrypt sample_env = toy_open"
  "hmac_sha256 sample_env = (\<lambda>k m. m)"
  "sha256_hex sample_env = (\<lambda>b. b)"
  "nfc_strip_lower sample_env = (\<lambda>x. x)"
  "str_upper sample_env = (\<lambda>x. x)"
  "str_lower sample_env = (\<lambda>x. x)"
  "str_isalpha sample_env = (\<lambda>x. True)"
  "str_strip sample_env = (\<lambda>x. x)"
  "npub sample_env = (\<lambda>x. Some x)"
  "database_compatible sample_env = True"
  "json_dumps sample_env = (\<lambda>j. ''{}'')"
  "json_loads sample_env = (\<lambda>b. None)"
  "canonical_id sample_env = (\<lambda>k c t tags a. ''rumor'')"
  "uuid4 sample_env = (\<lambda>n. CHR ''u'' # replicate n (CHR ''u''))"
  "random_bytes sample_env = (\<lambda>n l. replicate l (CHR ''n''))"
  "randint sample_env = (\<lambda>n b. 0)"
  by (simp_all add: sample_env_def)

definition sample_sealed :: "string \<Rightarrow> string \<Rightarrow> string \<Rightarrow> bytes \<Rightarrow> bytes" where
  "sample_sealed r t c p = ljust VERSION_LEN ''v1'' @ replicate NONCE_LEN (CHR ''n'')
     @ toy_seal ''key'' (replicate NONCE_LEN (CHR ''n'')) (aad_for r t c ''v1'') p"

lemma seal_sample [evals]:
  "seal_column sample_env r t c p s = Inr (sample_sealed r t c p, db_draws_update Suc s)"
  by (simp add: seal_column_def encrypt_def sample_env_def sample_sealed_def draw_def tx_defs VERSION_LEN_def)

lemma crypto_sound_sample: "crypto_sound sample_env"
  by (simp add: crypto_sound_def gcm_sound_sample) (simp add: sample_env_def nul_def char_of_def)

lemma open_sample [evals]: "open_column sample_env r t c (sample_sealed r t c p) = Inr p"
  by (rule open_sealed [OF crypto_sound_sample seal_sample])

text \<open>A sealed public token of order \<open>k\<close> opens in that order and not in order \<open>j\<close>.\<close>

lemma envelope_bound_to_its_field_witness:
  "case encrypt sample_env (replicate 12 (CHR ''n'')) ''tok'' ''key'' ''k'' ''orders'' ''public_token_enc'' ''v1'' of
     Inl _ \<Rightarrow> False
   | Inr e \<Rightarrow> decrypt sample_env e ''key'' ''k'' ''orders'' ''public_token_enc'' ''v1'' = Inr ''tok''
       \<and> decrypt sample_env e ''key'' ''j'' ''orders'' ''public_token_enc'' ''v1'' = Inl CryptoError"
proof -
  let ?n = "replicate 12 (CHR ''n'')"
  let ?e = "ljust VERSION_LEN ''v1'' @ ?n @ gcm_encrypt sample_env ''key'' ?n
    (aad_for ''k'' ''orders'' ''public_token_enc'' ''v1'') ''tok''"
  have enc: "encrypt sample_env ?n ''tok'' ''key'' ''k'' ''orders'' ''public_token_enc'' ''v1'' = Inr ?e"
    by (simp add: encrypt_def VERSION_LEN_def)
  have n: "length ?n = NONCE_LEN" by (simp add: NONCE_LEN_def)
  note bound = envelope_bound_to_its_field [OF gcm_sound_sample n enc]
  show ?thesis
    using bound [of "''k''" "''orders''" "''public_token_enc''"]
      bound [of "''j''" "''orders''" "''public_token_enc''"]
    unfolding enc by (simp add: short_def)
qed

definition empty_db :: db where
  "empty_db = \<lparr>db_merchants = [], db_settings = [], db_catalogs = [], db_products = [],
     db_images = [], db_specs = [], db_categories = [], db_product_collections = [], db_product_shipping_options = [],
     db_product_shipping_collections = [], db_collections = [], db_collection_shipping = [],
     db_shipping_options = [], db_outbox = [], db_outbox_deps = [], db_publications = [],
     db_addresses = [], db_relay_configs = [], db_leases = [], db_buckets = [], db_orders = [],
     db_items = [], db_events = [], db_fx_quotes = [], db_fulfillment = [], db_messages = [],
     db_payments = [], db_reservations = [], db_idempotency = [], db_emails = [], db_inbox = [],
     db_blocklist = [], db_peer_relays = [], db_cursors = [], db_merchant_keys = [],
     db_challenges = [], db_sessions = [], db_clock = 1000, db_draws = 0\<rparr>"

text \<open>Rows with every optional column NULL.\<close>

definition sample_order :: "id \<Rightarrow> order_state \<Rightarrow> order_row" where
  "sample_order i st = \<lparr>o_id = i, o_merchant_id = ''m'', o_buyer_pubkey_enc = None,
     o_buyer_pubkey_hash = None, o_protocol = ''web'', o_external_id_enc = None,
     o_external_id_hash = None, o_request_hash = None, o_source_event_id = None,
     o_currency = ''SAT'', o_subtotal_sat = 30, o_shipping_sat = 0, o_total_sat = 30,
     o_buyer_amount_sat = None, o_state = st, o_shipping_state = ShNotRequired,
     o_contact_enc = None, o_address_enc = None, o_shipping_option_id = None,
     o_payment_hash = None, o_invoice_expiry = None, o_public_token_hash = None,
     o_public_token_enc = None, o_public_token_expires_at = None, o_checkout_scope_hash = None,
     o_payment_exception = False, o_payment_exception_reason = None,
     o_payment_exception_resolution = None, o_oversold = False, o_receipt_verified = False,
     o_email_opt_in = False, o_created_at = 0, o_updated_at = 0, o_archived_at = None\<rparr>"

definition sample_product :: "id \<Rightarrow> int option \<Rightarrow> int \<Rightarrow> product" where
  "sample_product i hand held = \<lparr>p_id = i, p_merchant_id = ''m'', p_catalog_id = ''c'', p_d_tag = i,
     p_parent_product_id = None, p_product_type = ''simple'', p_format = ''digital'',
     p_title = None, p_summary = None, p_description_md = None, p_amount_minor = Some 10, p_currency = Some ''SAT'',
     p_currency_decimals = Some 0, p_recurring_frequency = None, p_visibility = ''on-sale'',
     p_nip99_status = ''active'', p_draft = False, p_stock_on_hand = hand,
     p_stock_reserved = held, p_location = None, p_geohash = None, p_weight_value = None, p_weight_unit = None, p_dim_l = None,
     p_dim_w = None, p_dim_h = None, p_dim_unit = None, p_nip15_product_id = None,
     p_published_at = Some 0,
     p_revision = 0, p_deleted_at = None, p_created_at = 0, p_updated_at = 0, p_delivery_enc = None\<rparr>"

definition sample_reservation :: "id \<Rightarrow> id \<Rightarrow> id \<Rightarrow> int \<Rightarrow> reservation_state \<Rightarrow> reservation" where
  "sample_reservation i p k q st = \<lparr>r_id = i, r_product_id = p, r_order_id = k, r_quantity = q,
     r_state = st, r_expires_at = Some 900, r_created_at = 0, r_updated_at = 0\<rparr>"

definition sample_payment :: "id \<Rightarrow> id \<Rightarrow> payment_status \<Rightarrow> payment" where
  "sample_payment i k st = \<lparr>pay_id = i, pay_order_id = k,
     pay_core_external_id = ''infinitemarkets:'' @ k, pay_payment_hash = None,
     pay_checking_id_enc = None, pay_bolt11_enc = None, pay_wallet_refs_enc = None,
     pay_wallet_id_hash = None, pay_source_wallet_id_hash = None, pay_amount_sat = Some 30,
     pay_status = st, pay_settled_at = None, pay_created_at = 0\<rparr>"

definition sample_event :: "id \<Rightarrow> id \<Rightarrow> order_state option \<Rightarrow> order_state \<Rightarrow> order_event" where
  "sample_event i k f t = \<lparr>oe_id = i, oe_order_id = k, oe_from_state = f, oe_to_state = t,
     oe_actor = ''system'', oe_detail_json = None, oe_created_at = 0\<rparr>"

definition sample_merchant :: merchant where
  "sample_merchant = \<lparr>m_id = ''m'', m_user_id = ''o'', m_pubkey = ''mk'',
     m_key_ref = ''merchant_keys:m'', m_display_name = None, m_profile_json = None,
     m_recommended_app_d = None,
     m_wallet_id_enc = sample_sealed ''m'' ''merchants'' ''wallet_id_enc'' ''w'',
     m_wallet_id_hash = ''w'', m_notify_emails = [], m_notify_events = [], m_theme = None,
     m_state = MsActive, m_inbox_state = IsOff, m_created_at = 0, m_updated_at = 0\<rparr>"

definition sample_item :: "id \<Rightarrow> id \<Rightarrow> id \<Rightarrow> int \<Rightarrow> order_item" where
  "sample_item i k p q = \<lparr>oi_id = i, oi_order_id = k, oi_product_id = p, oi_product_d = p,
     oi_title = None, oi_quantity = q, oi_unit_price_minor = 10, oi_currency = ''SAT'',
     oi_currency_decimals = 0, oi_line_total_sat = 10 * q, oi_backordered_qty = 0\<rparr>"

text \<open>An order taken in and not yet claimed: three units of a product that has five.\<close>

definition intake_db :: db where
  "intake_db = empty_db
    \<lparr>db_merchants := [sample_merchant],
     db_products := [sample_product ''p'' (Some 5) 0],
     db_orders := [sample_order ''k'' Received],
     db_items := [sample_item ''i'' ''k'' ''p'' 3],
     db_events := [sample_event ''a'' ''k'' None Received]\<rparr>"

text \<open>One order of three units of one product, waiting for its payment.\<close>

definition shop_db :: db where
  "shop_db = empty_db
    \<lparr>db_products := [sample_product ''p'' (Some 5) 3],
     db_orders := [sample_order ''k'' AwaitingPayment],
     db_reservations := [sample_reservation ''r'' ''p'' ''k'' 3 ReHeld],
     db_payments := [sample_payment ''y'' ''k'' PyPending],
     db_events := [sample_event ''a'' ''k'' None Received,
       sample_event ''b'' ''k'' (Some Received) InvoicePending,
       sample_event ''c'' ''k'' (Some InvoicePending) AwaitingPayment]\<rparr>"

lemmas [evals] = empty_db_def sample_order_def sample_product_def
  sample_reservation_def sample_payment_def sample_event_def shop_db_def
  sample_merchant_def sample_item_def intake_db_def

end
