(* ===== verification/Fx.thy ===== *)
theory Fx
  imports Complex_Main Samples
begin

text \<open>
  Decimal arithmetic and price conversion (\<open>services/fx.py\<close>). Python's \<open>Decimal\<close> works in
  the default context: 28 significant digits, rounding half to even. A number is a signed
  coefficient and an exponent; the operations follow the \<open>decimal\<close> module's algorithms
  digit for digit, so rounding is part of the model. Exponent limits (\<open>Emax\<close> 999999) are
  out of reach of the amounts the columns hold.
\<close>

section \<open>Decimal numbers\<close>

fun ndigits :: "nat \<Rightarrow> nat" where
  "ndigits n = (if n < 10 then 1 else Suc (ndigits (n div 10)))"

declare ndigits.simps [simp del]

definition PREC :: nat where "PREC = 28"

text \<open>The quotient of \<open>n\<close> by \<open>10 ^ k\<close>, rounded half to even.\<close>

definition half_even :: "nat \<Rightarrow> nat \<Rightarrow> nat" where
  "half_even n k =
     (let q = n div 10 ^ k; r = n mod 10 ^ k in
      if 10 ^ k < 2 * r \<or> (2 * r = 10 ^ k \<and> odd q) then q + 1 else q)"

definition dec_fix :: "dec \<Rightarrow> dec" where
  "dec_fix d =
     (let n = nat \<bar>dec_coeff d\<bar>; k = ndigits n - PREC in
      if k = 0 then d
      else
        (let q = half_even n k in
         if PREC < ndigits q then Dec (sgn (dec_coeff d) * int (q div 10)) (dec_exp d + int k + 1)
         else Dec (sgn (dec_coeff d) * int q) (dec_exp d + int k)))"

definition dec_int :: "int \<Rightarrow> dec" where
  "dec_int i = Dec i 0"

text \<open>Coefficients brought to the smaller exponent.\<close>

definition aligned :: "dec \<Rightarrow> dec \<Rightarrow> int \<times> int \<times> int" where
  "aligned a b =
     (let e = min (dec_exp a) (dec_exp b) in
      (dec_coeff a * 10 ^ nat (dec_exp a - e), dec_coeff b * 10 ^ nat (dec_exp b - e), e))"

definition dec_add :: "dec \<Rightarrow> dec \<Rightarrow> dec" where
  "dec_add a b = (case aligned a b of (x, y, e) \<Rightarrow> dec_fix (Dec (x + y) e))"

definition dec_mult :: "dec \<Rightarrow> dec \<Rightarrow> dec" where
  "dec_mult a b = dec_fix (Dec (dec_coeff a * dec_coeff b) (dec_exp a + dec_exp b))"

definition dec_less :: "dec \<Rightarrow> dec \<Rightarrow> bool" where
  "dec_less a b = (case aligned a b of (x, y, _) \<Rightarrow> x < y)"

text \<open>
  Division: the integer quotient with \<open>PREC + 1\<close> digits to spare, a sticky digit when it is
  not exact, trailing zeros dropped towards the ideal exponent when it is. \<open>None\<close> is
  \<open>DivisionByZero\<close>.
\<close>

fun strip_zeros :: "nat \<Rightarrow> nat \<Rightarrow> int \<Rightarrow> nat \<times> int" where
  "strip_zeros 0 c e = (c, e)"
| "strip_zeros (Suc n) c e = (if c mod 10 = 0 then strip_zeros n (c div 10) (e + 1) else (c, e))"

definition dec_div :: "dec \<Rightarrow> dec \<Rightarrow> dec option" where
  "dec_div a b =
     (if dec_coeff b = 0 then None
      else if dec_coeff a = 0 then Some (Dec 0 (dec_exp a - dec_exp b))
      else
        (let m = nat \<bar>dec_coeff a\<bar>; n = nat \<bar>dec_coeff b\<bar>;
             shift = int (ndigits n) - int (ndigits m) + int PREC + 1;
             e = dec_exp a - dec_exp b - shift;
             x = (if 0 \<le> shift then m * 10 ^ nat shift else m);
             y = (if 0 \<le> shift then n else n * 10 ^ nat (- shift));
             (c, e') = (if x mod y \<noteq> 0
                then (if (x div y) mod 5 = 0 then x div y + 1 else x div y, e)
                else strip_zeros (nat (dec_exp a - dec_exp b - e)) (x div y) e)
         in Some (dec_fix (Dec (sgn (dec_coeff a) * sgn (dec_coeff b) * int c) e'))))"

text \<open>\<open>to_integral_value(rounding=ROUND_CEILING)\<close> and \<open>int\<close>.\<close>

definition dec_ceiling :: "dec \<Rightarrow> int" where
  "dec_ceiling d = (if 0 \<le> dec_exp d then dec_coeff d * 10 ^ nat (dec_exp d)
     else - ((- dec_coeff d) div 10 ^ nat (- dec_exp d)))"

definition dec_pos :: "dec \<Rightarrow> bool" where
  "dec_pos d \<longleftrightarrow> 0 < dec_coeff d"

section \<open>Quotes\<close>

record fx_quote =
  q_currency :: string
  q_currency_per_btc :: dec
  q_sat_per_major_unit :: dec
  q_providers :: "string list"
  q_observed_at :: int
  q_expires_at :: int
  q_source :: string

definition SAT_PER_BTC :: dec where "SAT_PER_BTC = Dec 100000000 0"
definition QUOTE_TTL_S :: int where "QUOTE_TTL_S = 300"
definition INT64_MAX :: int where "INT64_MAX = 2 ^ 63 - 1"

definition currency_decimals :: "string \<Rightarrow> int" where
  "currency_decimals c =
     (if c \<in> {''SAT'', ''BIF'', ''CLP'', ''DJF'', ''GNF'', ''ISK'', ''JPY'', ''KMF'', ''KRW'',
          ''PYG'', ''RWF'', ''UGX'', ''UYI'', ''VND'', ''VUV'', ''XAF'', ''XOF'', ''XPF''} then 0
      else if c \<in> {''BHD'', ''IQD'', ''JOD'', ''KWD'', ''LYD'', ''OMR'', ''TND''} then 3
      else if c \<in> {''CLF'', ''UYW''} then 4
      else if c = ''BTC'' then 8
      else 2)"

definition default_currency_decimals :: "string option \<Rightarrow> int" where
  "default_currency_decimals c =
     currency_decimals (if truthy c then the c else ''SAT'')"

text \<open>
  What a provider returned: a finite number, already as the \<open>Decimal\<close> of its shortest
  representation; an infinity or NaN; or something that is not a number. A currency is
  \<open>None\<close> when the column it came from is NULL.
\<close>

datatype provider_value = ProvNumber dec | ProvNonfinite | ProvOther

definition usable_values :: "(string \<times> provider_value) list \<Rightarrow> (string \<times> dec) list" where
  "usable_values pvs = concat (map (\<lambda>(name, v).
     case v of ProvNumber d \<Rightarrow> if dec_pos d then [(name, d)] else [] | _ \<Rightarrow> []) pvs)"

type_synonym rates = "string option \<Rightarrow> (string \<times> provider_value) list option"

definition quote_currency :: "env \<Rightarrow> rates \<Rightarrow> string option \<Rightarrow> int \<Rightarrow> error + fx_quote" where
  "quote_currency E btc_rates currency now =
     (case btc_rates currency of
        None \<Rightarrow> Inl (FxRejection ''quote-provider-failed'')
      | Some pvs \<Rightarrow>
          (let vs = usable_values pvs in
           if vs = [] then Inl (FxRejection ''quote-no-provenance'')
           else if \<not> truthy currency \<or> \<not> str_isalpha E (the currency) \<or> chars (the currency) \<noteq> 3
           then Inl (FxRejection ''quote-currency-invalid'')
           else
             (case dec_div (foldl dec_add (dec_int 0) (map snd vs)) (dec_int (int (length vs))) of
                None \<Rightarrow> Inl (FxRejection ''quote-nonfinite'')
              | Some mean \<Rightarrow>
                  if \<not> dec_pos mean then Inl (FxRejection ''quote-nonpositive'')
                  else
                    (case dec_div SAT_PER_BTC mean of
                       None \<Rightarrow> Inl (FxRejection ''quote-nonpositive'')
                     | Some rate \<Rightarrow> Inr \<lparr>q_currency = str_upper E (the currency),
                         q_currency_per_btc = mean, q_sat_per_major_unit = rate,
                         q_providers = map fst vs, q_observed_at = now,
                         q_expires_at = now + QUOTE_TTL_S, q_source = ''btc_rates''\<rparr>))))"

definition sat_quote :: "int \<Rightarrow> fx_quote" where
  "sat_quote now = \<lparr>q_currency = ''SAT'', q_currency_per_btc = SAT_PER_BTC,
     q_sat_per_major_unit = Dec 1 0, q_providers = [''identity''], q_observed_at = now,
     q_expires_at = now + QUOTE_TTL_S, q_source = ''identity''\<rparr>"

definition require_usable_quote :: "fx_quote \<Rightarrow> int \<Rightarrow> error + unit" where
  "require_usable_quote q now =
     (if q_providers q = [] then Inl (FxRejection ''quote-no-provenance'')
      else if \<not> dec_pos (q_currency_per_btc q) \<or> \<not> dec_pos (q_sat_per_major_unit q)
      then Inl (FxRejection ''quote-nonpositive'')
      else if q_expires_at q \<le> now then Inl (FxRejection ''quote-stale'')
      else Inr ())"

section \<open>Conversion\<close>

definition dec_pow10 :: "int \<Rightarrow> dec" where
  "dec_pow10 n = dec_fix (Dec (10 ^ nat n) 0)"

definition convert_minor_to_sat :: "fx_quote \<Rightarrow> int \<Rightarrow> int \<Rightarrow> int \<Rightarrow> error + int" where
  "convert_minor_to_sat q amount_minor decimals now =
     (case require_usable_quote q now of
        Inl e \<Rightarrow> Inl e
      | Inr _ \<Rightarrow>
          if amount_minor < 0 then Inl (FxRejection ''amount-minor-negative'')
          else if decimals < 0 then Inl (FxRejection ''currency-decimals-negative'')
          else
            (case dec_div (dec_int amount_minor) (dec_pow10 decimals) of
               None \<Rightarrow> Inl ValueError
             | Some major \<Rightarrow> Inr (dec_ceiling (dec_mult major (q_sat_per_major_unit q)))))"

definition convert_line :: "fx_quote \<Rightarrow> string \<Rightarrow> int \<Rightarrow> int \<Rightarrow> int \<Rightarrow> error + int" where
  "convert_line q currency amount_minor decimals now =
     (if currency \<noteq> q_currency q then Inl (FxRejection ''currency-mismatch'')
      else convert_minor_to_sat q amount_minor decimals now)"

fun checked_sum :: "int \<Rightarrow> int list \<Rightarrow> error + int" where
  "checked_sum total_sat [] = Inr total_sat"
| "checked_sum total_sat (c # cs) =
     (if c < 0 then Inl (FxRejection ''component-negative'')
      else if INT64_MAX < total_sat + c then Inl (FxRejection ''total-overflow'')
      else checked_sum (total_sat + c) cs)"

definition checked_total_sat :: "int list \<Rightarrow> error + int" where
  "checked_total_sat cs =
     (case checked_sum 0 cs of
        Inl e \<Rightarrow> Inl e
      | Inr n \<Rightarrow> if n < 1 then Inl (FxRejection ''total-sat-below-1'') else Inr n)"

definition persist_quote :: "env \<Rightarrow> id \<Rightarrow> fx_quote \<Rightarrow> (db, unit) tx" where
  "persist_quote E i q =
     tx_bind (new_uuid E) (\<lambda>u.
       sql_insert db_fx_quotes_update fx_quotes_ok
         \<lparr>fq_id = u, fq_order_id = i, fq_currency = q_currency q,
          fq_rate_decimal = q_sat_per_major_unit q, fq_source = q_source q,
          fq_providers = q_providers q, fq_quoted_at = q_observed_at q,
          fq_expires_at = q_expires_at q\<rparr>)"

lemma keeps_persist_quote [keeps]:
  "(\<And>g s. f (db_fx_quotes_update g s) = f s) \<Longrightarrow> (\<And>g s. f (db_draws_update g s) = f s)
     \<Longrightarrow> tx_keeps f (persist_quote E i q)"
  unfolding persist_quote_def by (intro keeps keeps_sql)

end
