(* ===== verification/Cart.thy ===== *)
theory Cart
  imports Fx CatalogOutbox OrderMessages
begin

text \<open>
  Cart resolution and server-side pricing (\<open>services/checkout.py\<close>): which products a cart
  may name, whether the destination and the measurements fit the shipping option, and the
  totals in satoshi. Everything here reads one snapshot of the database and writes nothing.
\<close>

section \<open>Items\<close>

definition MAX_ITEMS :: nat where "MAX_ITEMS = 64"
definition MAX_QTY :: int where "MAX_QTY = 10000"

definition unprocessable :: "string \<Rightarrow> error" where
  "unprocessable code = ProblemError 422 code"

definition not_found :: error where
  "not_found = ProblemError 404 ''unauthorized''"

abbreviation "invalid_content \<equiv> unprocessable ''invalid-content''"
abbreviation "product_inactive \<equiv> unprocessable ''product-inactive''"
abbreviation "bad_destination \<equiv> unprocessable ''invalid-shipping-destination''"

definition assert_purchasable :: "product \<Rightarrow> error + unit" where
  "assert_purchasable p =
     (if p_draft p then Inl product_inactive
      else if p_visibility p \<noteq> ''on-sale'' then Inl product_inactive
      else if p_nip99_status p \<noteq> ''active'' then Inl product_inactive
      else if p_recurring_frequency p \<noteq> None then Inl product_inactive
      else if p_product_type p = ''variable'' then Inl product_inactive
      else if p_product_type p \<notin> {''simple'', ''variation''} then Inl product_inactive
      else Inr ())"

text \<open>One entry \<open>{d_tag, quantity}\<close>; a JSON boolean is not an integer.\<close>

definition entry_fields :: "json \<Rightarrow> error + string \<times> int" where
  "entry_fields j =
     (case j of
        JObj kvs \<Rightarrow>
          (case (map_of kvs ''d_tag'', map_of kvs ''quantity'') of
             (Some (JStr d), Some (JInt n)) \<Rightarrow> Inr (d, n)
           | _ \<Rightarrow> Inl invalid_content)
      | _ \<Rightarrow> Inl invalid_content)"

type_synonym cart = "(product \<times> int) list"

definition resolve_entry :: "db \<Rightarrow> id \<Rightarrow> string list \<times> cart \<Rightarrow> json \<Rightarrow> error + string list \<times> cart" where
  "resolve_entry s merchant acc entry =
     try_bind (entry_fields entry) (\<lambda>(d, n).
     try_bind (try_require (1 \<le> n \<and> n \<le> MAX_QTY) invalid_content) (\<lambda>_.
     try_bind (try_require (d \<notin> set (fst acc)) invalid_content) (\<lambda>_.
       case List.find (\<lambda>p. p_merchant_id p = merchant \<and> p_d_tag p = d) (db_products s) of
         None \<Rightarrow> Inl not_found
       | Some p \<Rightarrow>
           if p_deleted_at p \<noteq> None then Inl not_found
           else try_bind (assert_purchasable p) (\<lambda>_. Inr (d # fst acc, snd acc @ [(p, n)])))))"

definition check_parent :: "db \<Rightarrow> unit \<Rightarrow> product \<times> int \<Rightarrow> error + unit" where
  "check_parent s _ entry =
     (if p_product_type (fst entry) \<noteq> ''variation'' then Inr ()
      else case List.find (\<lambda>q. Some (p_id q) = p_parent_product_id (fst entry)) (db_products s) of
        None \<Rightarrow> Inl product_inactive
      | Some q \<Rightarrow>
          if p_product_type q \<noteq> ''variable'' \<or> p_visibility q \<noteq> ''on-sale'' \<or> p_deleted_at q \<noteq> None
          then Inl product_inactive else Inr ())"

definition resolve_items :: "db \<Rightarrow> id \<Rightarrow> json \<Rightarrow> error + cart" where
  "resolve_items s merchant items =
     (case items of
        JArr entries \<Rightarrow>
          if entries = [] \<or> MAX_ITEMS < length entries then Inl invalid_content
          else
            try_bind (try_fold (resolve_entry s merchant) ([], []) entries) (\<lambda>(_, resolved).
            try_bind (try_fold (check_parent s) () resolved) (\<lambda>_. Inr resolved))
      | _ \<Rightarrow> Inl invalid_content)"

section \<open>Shipping destination\<close>

definition is_upper :: "char \<Rightarrow> bool" where
  "is_upper c \<longleftrightarrow> 65 \<le> (of_char c :: nat) \<and> (of_char c :: nat) \<le> 90"

definition is_digit :: "char \<Rightarrow> bool" where
  "is_digit c \<longleftrightarrow> 48 \<le> (of_char c :: nat) \<and> (of_char c :: nat) \<le> 57"

text \<open>\<open>[A-Z]{2}\<close> and \<open>[A-Z]{2}-[A-Z0-9]{1,3}\<close>.\<close>

definition country_re :: "string \<Rightarrow> bool" where
  "country_re c \<longleftrightarrow> length c = 2 \<and> list_all is_upper c"

definition region_re :: "string \<Rightarrow> bool" where
  "region_re r \<longleftrightarrow> list_all is_upper (take 2 r) \<and> take 1 (drop 2 r) = ''-''
     \<and> 4 \<le> length r \<and> length r \<le> 6
     \<and> list_all (\<lambda>c. is_upper c \<or> is_digit c) (drop 3 r)"

definition address_region :: "env \<Rightarrow> json \<Rightarrow> string \<Rightarrow> error + string option" where
  "address_region E address country =
     (case json_field ''region'' address of
        None \<Rightarrow> Inr None
      | Some JNull \<Rightarrow> Inr None
      | Some (JStr r) \<Rightarrow>
          if region_re (str_upper E r)
             \<and> take (length country + 1) (str_upper E r) = country @ ''-''
          then Inr (Some (str_upper E r)) else Inl bad_destination
      | Some _ \<Rightarrow> Inl bad_destination)"

definition resolve_shipping :: "env \<Rightarrow> db \<Rightarrow> id \<Rightarrow> string \<Rightarrow> json \<Rightarrow> error + shipping_option" where
  "resolve_shipping E s merchant d address =
     (case List.find (\<lambda>r. so_merchant_id r = merchant \<and> so_d_tag r = d \<and> so_deleted_at r = None)
             (db_shipping_options s) of
        None \<Rightarrow> Inl bad_destination
      | Some opt \<Rightarrow>
          if \<not> so_active opt then Inl bad_destination
          else
            (case json_field ''country'' address of
               Some (JStr c) \<Rightarrow>
                 (let country = str_upper E c in
                  if \<not> country_re country then Inl bad_destination
                  else
                    try_bind (address_region E address country) (\<lambda>region.
                      if country \<notin> set (so_countries opt) then Inl bad_destination
                      else if so_regions opt \<noteq> [] \<and> (case region of None \<Rightarrow> True
                                | Some r \<Rightarrow> r \<notin> set (so_regions opt))
                      then Inl bad_destination
                      else if \<not> truthy (so_currency opt) \<or> so_base_price_minor opt = None
                      then Inl bad_destination
                      else Inr opt))
             | _ \<Rightarrow> Inl bad_destination))"

section \<open>Measurements\<close>

definition weight_factor :: "string \<Rightarrow> dec option" where
  "weight_factor u = map_of [(''mg'', Dec 1 (- 6)), (''g'', Dec 1 (- 3)), (''kg'', Dec 1 0),
     (''t'', Dec 1000 0), (''lb'', Dec 45359237 (- 8)), (''oz'', Dec 28349523125 (- 12))] u"

definition length_factor :: "string \<Rightarrow> dec option" where
  "length_factor u = map_of [(''mm'', Dec 1 (- 3)), (''cm'', Dec 1 (- 2)), (''m'', Dec 1 0),
     (''in'', Dec 254 (- 4)), (''ft'', Dec 3048 (- 4))] u"

definition measurement :: "dec option \<Rightarrow> string option \<Rightarrow> (string \<Rightarrow> dec option) \<Rightarrow> error + dec" where
  "measurement v u factor =
     (case (v, Option.bind u factor) of
        (Some d, Some f) \<Rightarrow> if dec_coeff d < 0 then Inl bad_destination else Inr (dec_mult d f)
      | _ \<Rightarrow> Inl bad_destination)"

definition physical :: "cart \<Rightarrow> cart" where
  "physical resolved = filter (\<lambda>e. p_format (fst e) = ''physical'') resolved"

definition cart_weight :: "cart \<Rightarrow> error + dec" where
  "cart_weight entries = try_fold (\<lambda>acc (p, n).
     try_bind (measurement (p_weight_value p) (p_weight_unit p) weight_factor) (\<lambda>w.
       Inr (dec_add acc (dec_mult w (dec_int n))))) (dec_int 0) entries"

text \<open>A bound that is not set is skipped, before the measurement is read.\<close>

definition within_bound :: "bool \<Rightarrow> (error + dec) \<Rightarrow> dec option \<Rightarrow> string option \<Rightarrow>
    (string \<Rightarrow> dec option) \<Rightarrow> error + unit" where
  "within_bound is_min extent limit_value u factor =
     (case limit_value of
        None \<Rightarrow> Inr ()
      | Some _ \<Rightarrow>
          try_bind extent (\<lambda>x.
          try_bind (measurement limit_value u factor) (\<lambda>lim.
            if (is_min \<and> dec_less x lim) \<or> (\<not> is_min \<and> dec_less lim x) then Inl bad_destination
            else Inr ())))"

definition check_dimensions :: "shipping_option \<Rightarrow> unit \<Rightarrow> product \<times> int \<Rightarrow> error + unit" where
  "check_dimensions opt _ entry =
     (let p = fst entry;
          axis = (\<lambda>extent lo hi.
            try_bind (within_bound True (measurement extent (p_dim_unit p) length_factor) lo
                        (so_dim_unit opt) length_factor) (\<lambda>_.
              within_bound False (measurement extent (p_dim_unit p) length_factor) hi
                        (so_dim_unit opt) length_factor));
          (l0, w0, h0) = so_dim_min opt; (l1, w1, h1) = so_dim_max opt
      in try_bind (axis (p_dim_l p) l0 l1) (\<lambda>_.
         try_bind (axis (p_dim_w p) w0 w1) (\<lambda>_.
           axis (p_dim_h p) h0 h1)))"

definition check_shipping_constraints :: "shipping_option \<Rightarrow> cart \<Rightarrow> error + unit" where
  "check_shipping_constraints opt resolved =
     (let phys = physical resolved in
      try_bind
        (if so_weight_min opt = None \<and> so_weight_max opt = None then Inr ()
         else
           try_bind (cart_weight phys) (\<lambda>w.
           try_bind (within_bound True (Inr w) (so_weight_min opt) (so_weight_unit opt) weight_factor)
             (\<lambda>_. within_bound False (Inr w) (so_weight_max opt) (so_weight_unit opt) weight_factor)))
        (\<lambda>_. try_fold (check_dimensions opt) () phys))"

text \<open>\<open>(unit or "")\<close> with the superscript three and \<open>^3\<close> read as \<open>3\<close>, in lower case.\<close>

fun cube_marks :: "string \<Rightarrow> string" where
  "cube_marks (a # b # cs) = (if a = char_of (194 :: nat) \<and> b = char_of (179 :: nat)
     then CHR ''3'' # cube_marks cs else a # cube_marks (b # cs))"
| "cube_marks cs = cs"

fun caret_marks :: "string \<Rightarrow> string" where
  "caret_marks (a # b # cs) = (if a = CHR ''^'' \<and> b = CHR ''3''
     then CHR ''3'' # caret_marks cs else a # caret_marks (b # cs))"
| "caret_marks cs = cs"

definition volume_factor :: "env \<Rightarrow> string option \<Rightarrow> error + dec" where
  "volume_factor E v =
     (let u = str_lower E (caret_marks (cube_marks (case v of None \<Rightarrow> '''' | Some x \<Rightarrow> x))) in
      if u = ''l'' then Inr (Dec 1 (- 3))
      else if u = ''ml'' then Inr (Dec 1 (- 6))
      else if u \<noteq> '''' \<and> last u = CHR ''3'' then
        (case length_factor (butlast u) of
           None \<Rightarrow> Inl bad_destination
         | Some f \<Rightarrow> Inr (dec_mult (dec_mult f f) f))
      else Inl bad_destination)"

section \<open>Shipping price\<close>

type_synonym price_part = "string option \<times> int \<times> dec"

definition extra_costs :: "db \<Rightarrow> shipping_option \<Rightarrow> product \<Rightarrow> int list" where
  "extra_costs s opt p =
     (let direct = filter (\<lambda>r. psr_product_id r = p_id p \<and> psr_ref_id r = so_id opt)
            (db_product_shipping_options s);
          via = concat (map (\<lambda>r. concat (map (\<lambda>c.
              map (\<lambda>_. r) (filter (\<lambda>cs. cs_collection_id cs = c_id c
                   \<and> cs_shipping_option_id cs = so_id opt) (db_collection_shipping s)))
            (filter (\<lambda>c. c_id c = psr_ref_id r \<and> c_merchant_id c = p_merchant_id p
                \<and> c_deleted_at c = None) (db_collections s))))
            (filter (\<lambda>r. psr_product_id r = p_id p) (db_product_shipping_collections s)));
          rows = (if direct \<noteq> [] then direct else via)
      in remdups (map (\<lambda>r. case psr_extra_cost_minor r of None \<Rightarrow> 0 | Some x \<Rightarrow> x) rows))"

definition surcharge_part :: "db \<Rightarrow> shipping_option \<Rightarrow> price_part list \<Rightarrow> product \<times> int \<Rightarrow>
    error + price_part list" where
  "surcharge_part s opt acc entry =
     (case extra_costs s opt (fst entry) of
        [x] \<Rightarrow>
          if x < 0 then Inl bad_destination
          else Inr (acc @ [(p_currency (fst entry),
            (case p_currency_decimals (fst entry) of None \<Rightarrow> 0 | Some d \<Rightarrow> d),
            dec_int (x * snd entry))])
      | _ \<Rightarrow> Inl bad_destination)"

definition entry_volume :: "product \<Rightarrow> error + dec" where
  "entry_volume p =
     try_bind (measurement (p_dim_l p) (p_dim_unit p) length_factor) (\<lambda>l.
     try_bind (measurement (p_dim_w p) (p_dim_unit p) length_factor) (\<lambda>w.
     try_bind (measurement (p_dim_h p) (p_dim_unit p) length_factor) (\<lambda>h.
       Inr (dec_mult (dec_mult l w) h))))"

definition dec_quotient :: "dec \<Rightarrow> dec \<Rightarrow> error + dec" where
  "dec_quotient a b = (case dec_div a b of None \<Rightarrow> Inl ValueError | Some d \<Rightarrow> Inr d)"

definition shipping_components :: "env \<Rightarrow> db \<Rightarrow> shipping_option \<Rightarrow> cart \<Rightarrow> error + price_part list" where
  "shipping_components E s opt resolved =
     (let phys = physical resolved; cur = so_currency opt; dcs = so_currency_decimals opt in
      try_bind (case so_base_price_minor opt of
          None \<Rightarrow> Inl TypeError
        | Some b \<Rightarrow> Inr [(cur, dcs, dec_int b)]) (\<lambda>base.
      try_bind (case so_price_weight_minor opt of
          None \<Rightarrow> Inr []
        | Some rate \<Rightarrow>
            try_bind (cart_weight phys) (\<lambda>w.
            try_bind (measurement (Some (dec_int 1)) (so_price_weight_unit opt) weight_factor) (\<lambda>u.
            try_bind (dec_quotient w u) (\<lambda>n. Inr [(cur, dcs, dec_mult n (dec_int rate))])))) (\<lambda>by_weight.
      try_bind (case so_price_volume_minor opt of
          None \<Rightarrow> Inr []
        | Some rate \<Rightarrow>
            try_bind (try_fold (\<lambda>acc (p, n). try_bind (entry_volume p) (\<lambda>v.
                Inr (dec_add acc (dec_mult v (dec_int n))))) (dec_int 0) phys) (\<lambda>v.
            try_bind (volume_factor E (so_price_volume_unit opt)) (\<lambda>u.
            try_bind (dec_quotient v u) (\<lambda>n. Inr [(cur, dcs, dec_mult n (dec_int rate))])))) (\<lambda>by_volume.
        try_fold (surcharge_part s opt) (base @ by_weight @ by_volume) phys))))"

section \<open>The cart and its totals\<close>

text \<open>\<open>expected_total\<close> is the JSON value sent, if any.\<close>

record checkout_payload =
  pl_merchant_pubkey :: string
  pl_items :: json
  pl_shipping_option_d :: "string option"
  pl_address :: json
  pl_email :: "string option"
  pl_phone :: "string option"
  pl_email_opt_in :: bool
  pl_expected_total :: json
  pl_buyer_amount :: "int option"

definition resolve_cart :: "env \<Rightarrow> db \<Rightarrow> id \<Rightarrow> json \<Rightarrow> string option \<Rightarrow> json \<Rightarrow>
    error + cart \<times> shipping_option option" where
  "resolve_cart E s merchant items shipping_d address =
     try_bind (resolve_items s merchant items) (\<lambda>resolved.
       if physical resolved = [] then Inr (resolved, None)
       else if \<not> is_object address then Inl bad_destination
       else if \<not> truthy shipping_d then Inl bad_destination
       else
         try_bind (resolve_shipping E s merchant (the shipping_d) address) (\<lambda>opt.
         try_bind (check_shipping_constraints opt resolved) (\<lambda>_. Inr (resolved, Some opt))))"

record cart_line =
  cl_product :: product
  cl_qty :: int
  cl_unit_minor :: int
  cl_currency :: string
  cl_decimals :: int
  cl_line_sat :: int

record pricing =
  pr_lines :: "cart_line list"
  pr_quotes :: "(string option \<times> fx_quote) list"
  pr_subtotal_sat :: int
  pr_shipping_sat :: int
  pr_components :: "int list"

definition fx_unavailable :: "error \<Rightarrow> error" where
  "fx_unavailable e = (case e of FxRejection _ \<Rightarrow> unprocessable ''fx-unavailable'' | _ \<Rightarrow> e)"

definition quote_for :: "env \<Rightarrow> rates \<Rightarrow> int \<Rightarrow> (string option \<times> fx_quote) list \<Rightarrow> string option \<Rightarrow>
    error + (string option \<times> fx_quote) list \<times> fx_quote" where
  "quote_for E rates clock quotes currency =
     (case map_of quotes currency of
        Some q \<Rightarrow> Inr (quotes, q)
      | None \<Rightarrow>
          try_bind (if currency = Some ''SAT'' then Inr (sat_quote clock)
             else try_map_error fx_unavailable (quote_currency E rates currency clock)) (\<lambda>q.
            Inr (quotes @ [(currency, q)], q)))"

definition price_line :: "env \<Rightarrow> rates \<Rightarrow> int \<Rightarrow> int \<Rightarrow> pricing \<Rightarrow> product \<times> int \<Rightarrow> error + pricing" where
  "price_line E rates now clock acc entry =
     (let p = fst entry; n = snd entry;
          currency = (if truthy (p_currency p) then the (p_currency p) else ''SAT'');
          unit_minor = (case p_amount_minor p of None \<Rightarrow> 0 | Some a \<Rightarrow> a);
          dcs = (case p_currency_decimals p of None \<Rightarrow> 0 | Some d \<Rightarrow> d) in
      try_bind (quote_for E rates clock (pr_quotes acc) (Some currency)) (\<lambda>(quotes, q).
      try_bind (try_map_error fx_unavailable
         (convert_line q currency (unit_minor * n) dcs now)) (\<lambda>sat.
        Inr \<lparr>pr_lines = pr_lines acc @ [\<lparr>cl_product = p, cl_qty = n, cl_unit_minor = unit_minor,
               cl_currency = currency, cl_decimals = dcs, cl_line_sat = sat\<rparr>],
             pr_quotes = quotes, pr_subtotal_sat = pr_subtotal_sat acc + sat,
             pr_shipping_sat = pr_shipping_sat acc,
             pr_components = pr_components acc @ [sat]\<rparr>)))"

text \<open>A fractional minor amount is converted at a finer scale, so no fraction is dropped.\<close>

definition price_shipping :: "env \<Rightarrow> rates \<Rightarrow> int \<Rightarrow> pricing \<Rightarrow> price_part \<Rightarrow> error + pricing" where
  "price_shipping E rates clock acc part =
     (case part of (cur, dcs, minor) \<Rightarrow>
      try_bind (quote_for E rates clock (pr_quotes acc) cur) (\<lambda>(quotes, q).
      (let scale = max 0 (- dec_exp minor);
           scaled = dec_fix (Dec (dec_coeff minor) (dec_exp minor + scale));
           amount_minor = dec_coeff scaled * 10 ^ nat (dec_exp scaled) in
      try_bind (try_map_error fx_unavailable
         (case cur of
            None \<Rightarrow> Inl (FxRejection ''currency-mismatch'')
          | Some c \<Rightarrow> convert_line q c amount_minor (dcs + scale) clock)) (\<lambda>sat.
        Inr (acc\<lparr>pr_quotes := quotes, pr_shipping_sat := pr_shipping_sat acc + sat,
                 pr_components := pr_components acc @ [sat]\<rparr>)))))"

definition invalid_total :: "error \<Rightarrow> error" where
  "invalid_total e = (case e of FxRejection _ \<Rightarrow> unprocessable ''invalid-total'' | _ \<Rightarrow> e)"

definition price_cart :: "env \<Rightarrow> rates \<Rightarrow> int \<Rightarrow> db \<Rightarrow> cart \<Rightarrow> shipping_option option \<Rightarrow>
    error + pricing \<times> int" where
  "price_cart E rates now s resolved opt =
     (let clock = db_clock s in
      try_bind (try_fold (price_line E rates now clock)
         \<lparr>pr_lines = [], pr_quotes = [], pr_subtotal_sat = 0, pr_shipping_sat = 0,
          pr_components = []\<rparr> resolved) (\<lambda>lines.
      try_bind (case opt of
          None \<Rightarrow> Inr lines
        | Some o' \<Rightarrow> try_bind (shipping_components E s o' resolved) (\<lambda>parts.
            try_fold (price_shipping E rates clock) lines parts)) (\<lambda>priced.
      try_bind (try_map_error invalid_total
         (try_fold (\<lambda>_ q. require_usable_quote (snd q) clock) () (pr_quotes priced))) (\<lambda>_.
      try_bind (try_map_error invalid_total (checked_total_sat (pr_components priced))) (\<lambda>amount.
        Inr (priced, amount))))))"

end
