(* ===== verification/StorefrontMode.thy ===== *)
theory StorefrontMode
  imports Cart
begin

text \<open>
  The storefront modes (\<open>services/storefront_mode.py\<close>) and what each one
  switches off.
\<close>

definition SETTINGS_KEY :: string where "SETTINGS_KEY = ''storefront_mode''"
definition DEFAULT_MODE :: string where "DEFAULT_MODE = ''full''"

definition storefront_modes :: "string list" where
  "storefront_modes = [''full'', ''showcase'', ''browse_only'', ''nostr_only'']"

definition INBOX_GATED_MODES :: "string list" where
  "INBOX_GATED_MODES = [''showcase'', ''nostr_only'']"

definition get_mode :: "id \<Rightarrow> db \<Rightarrow> string" where
  "get_mode merchant s =
     (case List.find (\<lambda>r. st_merchant_id r = merchant \<and> st_key r = SETTINGS_KEY) (db_settings s) of
        None \<Rightarrow> DEFAULT_MODE
      | Some r \<Rightarrow> (case st_value r of
            None \<Rightarrow> DEFAULT_MODE
          | Some v \<Rightarrow> if v \<in> set storefront_modes then v else DEFAULT_MODE))"

definition checkout_allowed :: "string \<Rightarrow> bool" where
  "checkout_allowed mode \<longleftrightarrow> mode = ''full''"

definition browse_page_allowed :: "string \<Rightarrow> bool" where
  "browse_page_allowed mode \<longleftrightarrow> mode \<noteq> ''nostr_only''"

definition publish_allowed :: "string \<Rightarrow> bool" where
  "publish_allowed mode \<longleftrightarrow> mode \<noteq> ''browse_only''"

definition buy_controls_visible :: "string \<Rightarrow> bool" where
  "buy_controls_visible mode \<longleftrightarrow> mode = ''full''"

text \<open>\<open>UNIQUE (merchant_id, key)\<close> of the settings table.\<close>

definition settings_ok :: "db \<Rightarrow> bool" where
  "settings_ok s \<longleftrightarrow> distinct (map (\<lambda>r. (st_merchant_id r, st_key r)) (db_settings s))"

definition write_mode :: "id \<Rightarrow> string \<Rightarrow> (db, unit) tx" where
  "write_mode merchant mode =
     tx_seq (tx_ignore (sql_delete db_settings db_settings_update
        (\<lambda>r. st_merchant_id r = merchant \<and> st_key r = SETTINGS_KEY)))
       (tx_when (mode \<noteq> DEFAULT_MODE)
          (sql_insert db_settings_update settings_ok
             \<lparr>st_merchant_id = merchant, st_key = SETTINGS_KEY, st_value = Some mode\<rparr>))"

text \<open>The result is the mode in force and whether the change was applied.\<close>

definition set_mode :: "merchant \<Rightarrow> string \<Rightarrow> bool \<Rightarrow> (db, string \<times> bool) proc" where
  "set_mode m mode confirm =
     (if mode \<notin> set storefront_modes then pr_raise (unprocessable ''invalid-storefront-mode'')
      else if mode \<in> set INBOX_GATED_MODES \<and> m_inbox_state m \<noteq> IsActive
      then pr_raise (ProblemError 409 ''inbox-required'')
      else if \<not> confirm then pr_bind (pr_get (get_mode (m_id m))) (\<lambda>cur. pr_return (cur, False))
      else pr_bind (commit (write_mode (m_id m) mode)) (\<lambda>_. pr_return (mode, True)))"

lemma keeps_write_mode:
  "(\<And>g s. f (db_settings_update g s) = f s) \<Longrightarrow> tx_keeps f (write_mode m mode)"
  unfolding write_mode_def by (intro keeps keeps_sql)

lemmas [evals] = get_mode_def checkout_allowed_def write_mode_def set_mode_def
  storefront_modes_def INBOX_GATED_MODES_def DEFAULT_MODE_def
  SETTINGS_KEY_def settings_ok_def pr_defs

end
