(* ===== verification/Idempotency.thy ===== *)
theory Idempotency
  imports Samples
begin

text \<open>
  The idempotency records of the checkout (\<open>services/checkout.py\<close>, 4.15): a claim under a
  unique scope, fenced by a token, with a lease; completed responses are replayed.
\<close>

definition IDEMPOTENCY_LEASE_S :: int where "IDEMPOTENCY_LEASE_S = 120"
definition IDEMPOTENCY_TTL_S :: int where "IDEMPOTENCY_TTL_S = 30 * 86400"

text \<open>
  What a claim returns: the completed record to replay, or the claim token with the order
  the record is already linked to.
\<close>

datatype idem_claim = Replay idempotency_record | Claimed int "id option"

definition conflict :: "string \<Rightarrow> error" where
  "conflict code = ProblemError 409 code"

definition new_record :: "string \<Rightarrow> string \<Rightarrow> int \<Rightarrow> idempotency_record" where
  "new_record scope h now = \<lparr>ir_scope_hash = scope, ir_request_hash = h, ir_state = IdInProgress,
     ir_order_id = None, ir_lease_until = Some (now + IDEMPOTENCY_LEASE_S), ir_status_code = None,
     ir_response_enc = None, ir_created_at = now, ir_expires_at = now + IDEMPOTENCY_TTL_S,
     ir_claim_token = 1\<rparr>"

definition lease_live :: "int \<Rightarrow> int option \<Rightarrow> bool" where
  "lease_live now v \<longleftrightarrow> (case v of None \<Rightarrow> False | Some l \<Rightarrow> l \<noteq> 0 \<and> now < l)"

definition reclaim :: "string \<Rightarrow> int \<Rightarrow> (db, nat) tx" where
  "reclaim scope now =
     sql_update db_idempotency db_idempotency_update idempotency_ok (\<lambda>r. ir_scope_hash r = scope)
       (\<lambda>r. r\<lparr>ir_state := IdInProgress, ir_lease_until := Some (now + IDEMPOTENCY_LEASE_S),
          ir_claim_token := ir_claim_token r + 1\<rparr>)"

definition claim_idempotency :: "string \<Rightarrow> string \<Rightarrow> int \<Rightarrow> (db, idem_claim) tx" where
  "claim_idempotency scope h now =
     tx_bind (sql_insert_ignore db_idempotency_update idempotency_ok (new_record scope h now)) (\<lambda>n.
     if n = 1 then tx_return (Claimed 1 None)
     else
       tx_bind (sql_one db_idempotency (\<lambda>r. ir_scope_hash r = scope)) (\<lambda>row.
       case row of
         None \<Rightarrow> tx_raise TypeError
       | Some r \<Rightarrow>
           tx_seq (tx_assert (ir_request_hash r = h) (conflict ''idempotency-conflict''))
          (if ir_state r = IdCompleted \<and> ir_response_enc r \<noteq> None then tx_return (Replay r)
           else
             tx_seq (tx_assert (\<not> (ir_state r = IdInProgress \<and> lease_live now (ir_lease_until r)))
                (conflict ''request-in-progress''))
            (tx_bind (reclaim scope now) (\<lambda>rc.
             tx_seq (tx_assert (rc = 1) (conflict ''request-in-progress''))
               (tx_return (Claimed (ir_claim_token r + 1)
                  (if truthy (ir_order_id r) then ir_order_id r else None)))))))) "

text \<open>The fence of every later write: token, state and lease.\<close>

definition holds_record :: "string \<Rightarrow> int \<Rightarrow> int \<Rightarrow> idempotency_record \<Rightarrow> bool" where
  "holds_record scope token now r \<longleftrightarrow> ir_scope_hash r = scope \<and> ir_claim_token r = token
     \<and> ir_state r = IdInProgress
     \<and> (case ir_lease_until r of None \<Rightarrow> False | Some l \<Rightarrow> now < l)"

definition complete_idempotency :: "env \<Rightarrow> string \<Rightarrow> id \<Rightarrow> int \<Rightarrow> json \<Rightarrow> int \<Rightarrow> (db, unit) tx" where
  "complete_idempotency E scope order status_code body token =
     tx_bind (seal_column E scope ''idempotency_records'' ''response_enc'' (json_dumps E body)) (\<lambda>enc.
     tx_bind tx_now (\<lambda>now.
       tx_ignore (sql_update db_idempotency db_idempotency_update idempotency_ok
         (\<lambda>r. holds_record scope token now r \<and> ir_order_id r = Some order)
         (\<lambda>r. r\<lparr>ir_state := IdCompleted, ir_status_code := Some status_code,
            ir_response_enc := Some enc, ir_lease_until := Some 0\<rparr>))))"

definition fail_idempotency :: "string \<Rightarrow> int \<Rightarrow> (db, unit) tx" where
  "fail_idempotency scope token =
     tx_bind tx_now (\<lambda>now.
       tx_ignore (sql_update db_idempotency db_idempotency_update idempotency_ok
         (holds_record scope token now)
         (\<lambda>r. r\<lparr>ir_state := IdFailed, ir_lease_until := Some 0\<rparr>)))"

definition replay_response :: "env \<Rightarrow> idempotency_record \<Rightarrow> error + json option" where
  "replay_response E r =
     (case ir_response_enc r of
        None \<Rightarrow> Inr None
      | Some envelope \<Rightarrow>
          (case open_column E (ir_scope_hash r) ''idempotency_records'' ''response_enc'' envelope of
             Inl e \<Rightarrow> Inl e
           | Inr raw \<Rightarrow> (case json_loads E raw of None \<Rightarrow> Inl ValueError | Some j \<Rightarrow> Inr (Some j))))"

lemma keeps_idempotency [keeps]:
  assumes "\<And>g s. f (db_idempotency_update g s) = f s" "\<And>g s. f (db_draws_update g s) = f s"
  shows "tx_keeps f (claim_idempotency scope h now)"
    "tx_keeps f (complete_idempotency E scope i c body token)"
    "tx_keeps f (fail_idempotency scope token)"
  unfolding claim_idempotency_def complete_idempotency_def fail_idempotency_def reclaim_def
  by (intro keeps keeps_sql assms)+

lemmas [evals] = new_record_def lease_live_def reclaim_def claim_idempotency_def holds_record_def
  complete_idempotency_def fail_idempotency_def replay_response_def conflict_def
  IDEMPOTENCY_LEASE_S_def IDEMPOTENCY_TTL_S_def

end
