(* ===== verification/RelayUrl.thy ===== *)
theory RelayUrl
  imports Samples
begin

text \<open>
  \<open>validate_relay_url\<close> of \<open>security.py\<close>: which relay URLs the extension accepts and how it
  writes them. The part of \<open>urllib.parse\<close> it uses is modelled on strings; the Unicode side
  (\<open>str.lower\<close>, NFC, the IDNA codec, IP literals, the netlocs \<open>urlsplit\<close> refuses) is in
  \<open>env\<close>.
\<close>

section \<open>Splitting\<close>

definition until_char :: "(char \<Rightarrow> bool) \<Rightarrow> string \<Rightarrow> string" where
  "until_char stop s = takeWhile (\<lambda>c. \<not> stop c) s"

text \<open>\<open>partition\<close>: what comes after the first separator, nothing if there is none.\<close>

definition past_char :: "(char \<Rightarrow> bool) \<Rightarrow> string \<Rightarrow> string" where
  "past_char stop s = drop 1 (dropWhile (\<lambda>c. \<not> stop c) s)"

text \<open>\<open>rpartition\<close> at \<open>@\<close>.\<close>

definition host_part :: "string \<Rightarrow> string" where
  "host_part netloc = rev (until_char (\<lambda>c. c = CHR ''@'') (rev netloc))"

definition user_part :: "string \<Rightarrow> string" where
  "user_part netloc = rev (past_char (\<lambda>c. c = CHR ''@'') (rev netloc))"

definition alpha :: "char \<Rightarrow> bool" where
  "alpha c \<longleftrightarrow> (let n = of_char c :: nat in 65 \<le> n \<and> n \<le> 90 \<or> 97 \<le> n \<and> n \<le> 122)"

definition digit :: "char \<Rightarrow> bool" where
  "digit c \<longleftrightarrow> (let n = of_char c :: nat in 48 \<le> n \<and> n \<le> 57)"

definition scheme_char :: "char \<Rightarrow> bool" where
  "scheme_char c \<longleftrightarrow> alpha c \<or> digit c \<or> c \<in> set ''+-.''"

definition ascii_lower :: "char \<Rightarrow> char" where
  "ascii_lower c = (let n = of_char c :: nat in if 65 \<le> n \<and> n \<le> 90 then char_of (n + 32) else c)"

record url =
  u_scheme :: string
  u_netloc :: string
  u_path :: string
  u_fragment :: string

text \<open>
  \<open>urlsplit\<close>: leading control characters and spaces go, tabs and line ends go everywhere; then
  the scheme, the netloc, the fragment and the query (which is dropped here, because the
  validator does not look at it).
\<close>

definition split_scheme :: "string \<Rightarrow> string \<times> string" where
  "split_scheme s = (let name = until_char (\<lambda>c. c = CHR '':'') s in
     if CHR '':'' \<in> set s \<and> name \<noteq> [] \<and> alpha (hd name) \<and> list_all scheme_char name
     then (map ascii_lower name, past_char (\<lambda>c. c = CHR '':'') s) else ('''', s))"

definition urlparse :: "env \<Rightarrow> string \<Rightarrow> error + url" where
  "urlparse E raw =
     (let s = filter (\<lambda>c. (of_char c :: nat) \<notin> {9, 10, 13}) (dropWhile (\<lambda>c. (of_char c :: nat) \<le> 32) raw);
          (scheme, rest) = split_scheme s;
          has_netloc = (take 2 rest = ''//'');
          netloc = (if has_netloc then until_char (\<lambda>c. c \<in> set ''/?#'') (drop 2 rest) else '''');
          tail = (if has_netloc then dropWhile (\<lambda>c. c \<notin> set ''/?#'') (drop 2 rest) else rest);
          body = until_char (\<lambda>c. c = CHR ''#'') tail
      in if \<not> netloc_ok E netloc then Inl ValueError
         else Inr \<lparr>u_scheme = scheme, u_netloc = netloc, u_path = until_char (\<lambda>c. c = CHR ''?'') body,
                u_fragment = past_char (\<lambda>c. c = CHR ''#'') tail\<rparr>)"

definition has_userinfo :: "url \<Rightarrow> bool" where
  "has_userinfo u \<longleftrightarrow> until_char (\<lambda>c. c = CHR '':'') (user_part (u_netloc u)) \<noteq> []
     \<or> past_char (\<lambda>c. c = CHR '':'') (user_part (u_netloc u)) \<noteq> []"

text \<open>The host and port of the part past_char the user, in brackets or not.\<close>

definition hostinfo :: "url \<Rightarrow> string \<times> string" where
  "hostinfo u = (let h = host_part (u_netloc u) in
     if CHR ''['' \<in> set h
     then (let b = past_char (\<lambda>c. c = CHR ''['') h in
       (until_char (\<lambda>c. c = CHR '']'') b, past_char (\<lambda>c. c = CHR '':'') (past_char (\<lambda>c. c = CHR '']'') b)))
     else (until_char (\<lambda>c. c = CHR '':'') h, past_char (\<lambda>c. c = CHR '':'') h))"

definition url_hostname :: "env \<Rightarrow> url \<Rightarrow> string" where
  "url_hostname E u = (let h = fst (hostinfo u) in
     str_lower E (until_char (\<lambda>c. c = CHR ''%'') h) @ dropWhile (\<lambda>c. c \<noteq> CHR ''%'') h)"

fun parse_nat :: "nat \<Rightarrow> string \<Rightarrow> nat" where
  "parse_nat acc [] = acc"
| "parse_nat acc (c # cs) = parse_nat (10 * acc + (of_char c - 48)) cs"

text \<open>\<open>parsed.port\<close>: \<open>None\<close> without one, a \<open>ValueError\<close> when it is not a port number.\<close>

definition url_port :: "url \<Rightarrow> error + nat option" where
  "url_port u = (let p = snd (hostinfo u) in
     if p = [] then Inr None
     else if list_all digit p \<and> parse_nat 0 p \<le> 65535 then Inr (Some (parse_nat 0 p))
     else Inl ValueError)"

section \<open>The validator\<close>

fun split_on :: "char \<Rightarrow> string \<Rightarrow> string list" where
  "split_on sep [] = [[]]"
| "split_on sep (c # cs) = (if c = sep then [] # split_on sep cs
     else case split_on sep cs of [] \<Rightarrow> [[c]] | w # ws \<Rightarrow> (c # w) # ws)"

definition host_char :: "char \<Rightarrow> bool" where
  "host_char c \<longleftrightarrow> (let n = of_char c :: nat in 97 \<le> n \<and> n \<le> 122) \<or> digit c \<or> c \<in> set ''.-''"

fun contains_sub :: "string \<Rightarrow> string \<Rightarrow> bool" where
  "contains_sub p [] \<longleftrightarrow> p = []"
| "contains_sub p (c # cs) \<longleftrightarrow> take (length p) (c # cs) = p \<or> contains_sub p cs"

definition INTERNAL_TLDS :: "string list" where
  "INTERNAL_TLDS = [''localhost'', ''local'', ''internal'', ''lan'', ''home'', ''corp'',
     ''localdomain'', ''intranet'']"

definition host_labels :: "string \<Rightarrow> string list" where
  "host_labels h = split_on (CHR ''.'') (rev (dropWhile (\<lambda>c. c = CHR ''.'') (rev h)))"

definition invalid_relay :: error where
  "invalid_relay = ProblemError 422 ''invalid-relay''"

definition relay_host :: "env \<Rightarrow> string \<Rightarrow> error + string" where
  "relay_host E host =
     try_bind (try_require (\<not> ip_literal E (rev (dropWhile (\<lambda>c. c \<in> set ''[]'')
        (rev (dropWhile (\<lambda>c. c \<in> set ''[]'') host))))) invalid_relay) (\<lambda>_.
     case idna_host E host of
       None \<Rightarrow> Inl invalid_relay
     | Some a \<Rightarrow>
         try_bind (try_require (a \<noteq> [] \<and> list_all host_char a) invalid_relay) (\<lambda>_.
         try_bind (try_require (nfc E host = host) invalid_relay) (\<lambda>_.
         try_bind (try_require (\<not> contains_sub ''xn--'' a) invalid_relay) (\<lambda>_.
         try_bind (try_require (2 \<le> length (host_labels a) \<and> last (host_labels a) \<notin> set INTERNAL_TLDS)
            invalid_relay) (\<lambda>_.
         Inr a)))))"

definition validate_relay_url :: "env \<Rightarrow> string \<Rightarrow> error + string" where
  "validate_relay_url E raw =
     (if raw = [] \<or> 512 < chars raw \<or> raw \<noteq> str_strip E raw then Inl invalid_relay
      else
        try_bind (urlparse E raw) (\<lambda>u.
        try_bind (try_require (u_scheme u = ''wss'') invalid_relay) (\<lambda>_.
        try_bind (try_require (\<not> has_userinfo u) invalid_relay) (\<lambda>_.
        try_bind (try_require (u_fragment u = []) invalid_relay) (\<lambda>_.
        try_bind (try_require (url_hostname E u \<noteq> []) invalid_relay) (\<lambda>_.
        try_bind (relay_host E (url_hostname E u)) (\<lambda>a.
        try_bind (url_port u) (\<lambda>port.
        Inr (''wss://'' @ a
          @ (case port of None \<Rightarrow> '''' | Some n \<Rightarrow> if n = 0 then '''' else '':'' @ str_nat n)
          @ (if u_path u \<noteq> '''' \<and> u_path u \<noteq> ''/'' then u_path u else ''''))))))))))"

end
