(* ===== verification/PeerRelays.thy ===== *)
theory PeerRelays
  imports RelayUrl OrderMessages CatalogOutbox
begin

text \<open>
  Relay targets (\<open>services/relay.py\<close>) and the discovery of a buyer's inbox relays
  (\<open>services/peer_relays.py\<close>). What the network answers is a \<open>network\<close>: the kind-10050
  events the discovery relays return for a key, the DNS check of a host, the signing key store,
  the gift wrap, and what a relay set answers to a send together with the seconds it took.
\<close>

section \<open>The network\<close>

record relay_event =
  re_kind :: int
  re_author :: string
  re_created_at :: int
  re_valid :: bool
  re_tags :: "string list list"

datatype send_report = SendFailed string | SendOutput "string list" "(string \<times> string) list"

record network =
  net_started :: bool
  net_discover :: "string \<Rightarrow> relay_event list"
  net_public_host :: "string \<Rightarrow> nat \<Rightarrow> bool"
  net_sign :: "id \<Rightarrow> string option \<Rightarrow> int \<Rightarrow> string \<Rightarrow> string list list \<Rightarrow> int \<Rightarrow> error + string"
  net_wrap :: "id \<Rightarrow> rumor_parts \<Rightarrow> string \<Rightarrow> error + string"
  net_send :: "id \<Rightarrow> delivery_copy \<Rightarrow> string list \<Rightarrow> send_report \<times> int"

section \<open>Relay targets\<close>

definition serves :: "string \<Rightarrow> relay_config \<Rightarrow> bool" where
  "serves direction r \<longleftrightarrow> rc_enabled r \<and> rc_direction r \<in> {direction, ''both''}"

definition relay_targets :: "id \<Rightarrow> string \<Rightarrow> db \<Rightarrow> string list" where
  "relay_targets merchant direction s =
     sorted_strings (remdups (map rc_relay_url (filter (\<lambda>r. rc_merchant_id r \<in> {Some merchant, None}
        \<and> rc_relay_url r \<noteq> [] \<and> serves direction r) (db_relay_configs s))))"

definition all_public_targets :: "db \<Rightarrow> string list" where
  "all_public_targets s =
     sorted_strings (remdups (map rc_relay_url (filter (\<lambda>r. rc_enabled r
        \<and> rc_direction r \<in> {''public'', ''both''}) (db_relay_configs s))))"

lemma set_relay_targets:
  "u \<in> set (relay_targets m d s) \<longleftrightarrow> (\<exists>r \<in> set (db_relay_configs s). rc_relay_url r = u
     \<and> (rc_merchant_id r = Some m \<or> rc_merchant_id r = None) \<and> u \<noteq> [] \<and> serves d r)"
  by (auto simp: relay_targets_def sorted_strings_def)

section \<open>Routes of a buyer\<close>

text \<open>\<open>validate_peer_relay_target\<close>: the URL check and the DNS check of the host it names.\<close>

definition validate_peer_target :: "env \<Rightarrow> network \<Rightarrow> string \<Rightarrow> error + string" where
  "validate_peer_target E N raw =
     try_bind (urlparse E (str_strip E raw)) (\<lambda>u.
     try_bind (validate_relay_url E raw) (\<lambda>url.
     try_bind (try_require (url_hostname E u \<noteq> []) invalid_relay) (\<lambda>_.
     try_bind (url_port u) (\<lambda>port.
     try_bind (try_require (net_public_host N (url_hostname E u)
        (case port of None \<Rightarrow> 443 | Some n \<Rightarrow> if n = 0 then 443 else n)) invalid_relay) (\<lambda>_.
     Inr url)))))"

definition extract_routes :: "relay_event \<Rightarrow> string list option" where
  "extract_routes e =
     (let relays = map (\<lambda>t. t ! 1) (filter (\<lambda>t. 2 \<le> length t \<and> hd t = ''relay'') (re_tags e)) in
      if re_kind e \<noteq> 10050 \<or> \<not> re_valid e \<or> length relays < 1 \<or> 3 < length relays then None
      else Some relays)"

text \<open>An advertisement with one target that fails is no route; any exception is.\<close>

definition routes_of :: "env \<Rightarrow> network \<Rightarrow> string \<Rightarrow> relay_event \<Rightarrow> string list option" where
  "routes_of E N buyer e =
     (if re_author e \<noteq> buyer then None
      else case extract_routes e of
        None \<Rightarrow> None
      | Some candidates \<Rightarrow>
          (case try_fold (\<lambda>acc u. try_bind (validate_peer_target E N u) (\<lambda>v. Inr (acc @ [v]))) [] candidates of
             Inl _ \<Rightarrow> None
           | Inr urls \<Rightarrow> Some urls))"

fun first_routes :: "env \<Rightarrow> network \<Rightarrow> string \<Rightarrow> relay_event list \<Rightarrow> string list option" where
  "first_routes E N buyer [] = None"
| "first_routes E N buyer (e # es) = (case routes_of E N buyer e of
     None \<Rightarrow> first_routes E N buyer es
   | Some urls \<Rightarrow> Some urls)"

definition cached_routes :: "id \<Rightarrow> string \<Rightarrow> int \<Rightarrow> db \<Rightarrow> string list option" where
  "cached_routes merchant h now s =
     (let urls = sorted_strings (map pr_relay_url (filter (\<lambda>r. pr_merchant_id r = merchant
            \<and> pr_pubkey_hash r = h \<and> (case pr_expires_at r of None \<Rightarrow> False | Some x \<Rightarrow> now < x))
          (db_peer_relays s)))
      in if urls = [] then None else Some urls)"

definition drop_routes :: "id \<Rightarrow> string \<Rightarrow> (db, unit) tx" where
  "drop_routes merchant h = tx_ignore (sql_delete db_peer_relays db_peer_relays_update
     (\<lambda>r. pr_merchant_id r = merchant \<and> pr_pubkey_hash r = h))"

definition store_routes :: "env \<Rightarrow> id \<Rightarrow> string \<Rightarrow> string \<Rightarrow> string list \<Rightarrow> int \<Rightarrow> (db, unit) tx" where
  "store_routes E merchant buyer h urls now =
     tx_seq (drop_routes merchant h)
       (tx_for urls (\<lambda>url.
         tx_bind (new_uuid E) (\<lambda>i.
         tx_bind (seal_column E i ''peer_relays'' ''pubkey_enc'' buyer) (\<lambda>enc.
           sql_insert db_peer_relays_update peer_relays_ok
             \<lparr>pr_id = i, pr_merchant_id = merchant, pr_pubkey_hash = h, pr_pubkey_enc = Some enc,
              pr_relay_url = url, pr_fetched_at = Some now,
              pr_expires_at = Some (now + peer_relay_ttl E)\<rparr>))))"

text \<open>
  \<open>resolve_buyer_inbox_relays\<close>: the cache, then the newest usable advertisement; \<open>None\<close> is
  the sentinel \<open>NO_INBOX_RELAYS\<close>. A key that does not parse fails in the filter.
\<close>

definition resolve_buyer_inbox_relays :: "env \<Rightarrow> network \<Rightarrow> id \<Rightarrow> string \<Rightarrow> (db, string list option) proc" where
  "resolve_buyer_inbox_relays E N merchant buyer =
     pr_bind (pr_get db_clock) (\<lambda>now.
     (let h = buyer_hash E merchant buyer in
      pr_bind (pr_get (cached_routes merchant h now)) (\<lambda>cached.
      case cached of
        Some urls \<Rightarrow> pr_return (Some urls)
      | None \<Rightarrow>
          pr_bind (pr_get (relay_targets merchant ''public'')) (\<lambda>discovery.
          if discovery = [] then pr_return None
          else if parse_pubkey E buyer = None then pr_raise (ForeignError ''NostrSdkError'')
          else
            (case first_routes E N buyer (sort_key (\<lambda>e. - re_created_at e) (net_discover N buyer)) of
               None \<Rightarrow> pr_return None
             | Some urls \<Rightarrow>
                 pr_bind (commit (store_routes E merchant buyer h urls now)) (\<lambda>_.
                 pr_return (Some urls)))))))"

section \<open>Refresh\<close>

definition ORDER_MSG_NO_ROUTE_REFRESH_S :: int where "ORDER_MSG_NO_ROUTE_REFRESH_S = 15 * 60"
definition ORDER_MSG_NO_ROUTE_DEADLINE_S :: int where "ORDER_MSG_NO_ROUTE_DEADLINE_S = 48 * 3600"

record refresh_stats =
  rs_refreshed :: nat
  rs_failed :: nat
  rs_no_route_refreshed :: nat
  rs_no_route_failed :: nat

definition stale_peers :: "int \<Rightarrow> db \<Rightarrow> (id \<times> string) list" where
  "stale_peers now s = remdups (map (\<lambda>r. (pr_merchant_id r, pr_pubkey_hash r))
     (filter (\<lambda>r. case pr_expires_at r of None \<Rightarrow> False | Some x \<Rightarrow> x \<le> now) (db_peer_relays s)))"

definition refresh_peer :: "env \<Rightarrow> network \<Rightarrow> refresh_stats \<Rightarrow> id \<times> string \<Rightarrow> (db, refresh_stats) proc" where
  "refresh_peer E N st peer =
     pr_bind (pr_get (\<lambda>s. List.find (\<lambda>r. pr_merchant_id r = fst peer \<and> pr_pubkey_hash r = snd peer)
        (db_peer_relays s))) (\<lambda>row.
     case row of
       None \<Rightarrow> pr_return st
     | Some r \<Rightarrow>
         pr_catch
           (pr_bind (pr_lift (case (pr_pubkey_enc r, master_keys E (active_key_version E)) of
                (None, _) \<Rightarrow> Inl TypeError
              | (_, None) \<Rightarrow> Inl KeyError
              | (Some enc, Some key) \<Rightarrow>
                  decrypt E enc key (pr_id r) ''peer_relays'' ''pubkey_enc'' (active_key_version E))) (\<lambda>buyer.
            pr_bind (commit (drop_routes (fst peer) (snd peer))) (\<lambda>_.
            pr_bind (resolve_buyer_inbox_relays E N (fst peer) buyer) (\<lambda>_.
            pr_return (st\<lparr>rs_refreshed := rs_refreshed st + 1\<rparr>)))))
           (\<lambda>_. pr_return (st\<lparr>rs_failed := rs_failed st + 1\<rparr>)))"

definition no_route_stuck :: "outbox_event \<Rightarrow> bool" where
  "no_route_stuck x \<longleftrightarrow> x_state x \<in> {ObPending, ObPartiallyPublished}
     \<and> x_last_error x = Some ''no_inbox_relays''"

definition fail_no_route :: "id \<Rightarrow> int \<Rightarrow> (db, unit) tx" where
  "fail_no_route i now = tx_ignore (sql_update db_outbox db_outbox_update outbox_ok
     (\<lambda>x. x_id x = i \<and> no_route_stuck x)
     (\<lambda>x. x\<lparr>x_state := ObFailed, x_next_attempt_at := 0, x_claimed_by := None,
        x_claimed_until := None, x_updated_at := now\<rparr>))"

definition stored_descriptor :: "env \<Rightarrow> outbox_event \<Rightarrow> bytes \<Rightarrow> error + json" where
  "stored_descriptor E x enc =
     try_bind (open_column E (x_id x) ''outbox_events'' ''payload_enc'' enc) (\<lambda>text.
     case json_loads E text of None \<Rightarrow> Inl (ForeignError ''JSONDecodeError'') | Some j \<Rightarrow> Inr j)"

definition refresh_intent :: "env \<Rightarrow> network \<Rightarrow> int \<Rightarrow> refresh_stats \<Rightarrow> outbox_event \<Rightarrow> (db, refresh_stats) proc" where
  "refresh_intent E N now st x =
     pr_catch
       (if ORDER_MSG_NO_ROUTE_DEADLINE_S \<le> now - x_created_at x then
          pr_bind (commit (fail_no_route (x_id x) now)) (\<lambda>_.
          pr_return (st\<lparr>rs_no_route_failed := rs_no_route_failed st + 1\<rparr>))
        else case x_payload_enc x of
          None \<Rightarrow> pr_return st
        | Some enc \<Rightarrow>
            pr_bind (pr_lift (stored_descriptor E x enc)) (\<lambda>j.
            case json_field ''recipient_pubkey'' j of
              Some (JStr buyer) \<Rightarrow>
                if buyer = [] then pr_return st
                else
                  pr_bind (commit (drop_routes (x_merchant_id x) (buyer_hash E (x_merchant_id x) buyer))) (\<lambda>_.
                  pr_bind (resolve_buyer_inbox_relays E N (x_merchant_id x) buyer) (\<lambda>_.
                  pr_return (st\<lparr>rs_no_route_refreshed := rs_no_route_refreshed st + 1\<rparr>)))
            | Some JNull \<Rightarrow> pr_return st
            | None \<Rightarrow> pr_return st
            | Some _ \<Rightarrow> pr_raise TypeError))
       (\<lambda>_. pr_return (st\<lparr>rs_failed := rs_failed st + 1\<rparr>))"

definition refresh_stale_peer_relays :: "env \<Rightarrow> network \<Rightarrow> (db, refresh_stats) proc" where
  "refresh_stale_peer_relays E N =
     pr_bind (pr_get db_clock) (\<lambda>now.
     pr_bind (pr_get (stale_peers now)) (\<lambda>peers.
     pr_bind (pr_fold (refresh_peer E N) \<lparr>rs_refreshed = 0, rs_failed = 0,
        rs_no_route_refreshed = 0, rs_no_route_failed = 0\<rparr> peers) (\<lambda>st.
     pr_bind (pr_get (\<lambda>s. filter (\<lambda>x. x_aggregate_type x = ''order_msg'' \<and> no_route_stuck x)
        (db_outbox s))) (\<lambda>stuck.
     pr_fold (refresh_intent E N now) st stuck))))"

end
