(* ===== verification/Checkout.thy ===== *)
theory Checkout
  imports Recovery StorefrontMode Idempotency PeerRelays
begin

text \<open>
  The checkout pipelines of \<open>services/checkout.py\<close>: the web checkout (idempotency claim, cart,
  totals, intake transaction, saga, stored response) and the Gamma intake that feeds the same
  saga from a NIP-17 order message.
\<close>

section \<open>Intake\<close>

definition MAX_OPEN_ORDERS_PER_SCOPE :: nat where "MAX_OPEN_ORDERS_PER_SCOPE = 10"
definition TOKEN_TTL_S :: int where "TOKEN_TTL_S = 30 * 86400"

definition open_states :: "order_state set" where
  "open_states = {Received, InvoicePending, AwaitingPayment}"

abbreviation "rate_limited \<equiv> ProblemError 429 ''rate-limited''"

definition client_scope_hash :: "env \<Rightarrow> id \<Rightarrow> string \<Rightarrow> string" where
  "client_scope_hash E merchant scope = hmac_index E ''client-ip'' merchant scope"

definition order_id_hash :: "env \<Rightarrow> id \<Rightarrow> string \<Rightarrow> string" where
  "order_id_hash E merchant external_id =
     hmac_index E ''order-id'' merchant (nfc_strip_lower E external_id)"

text \<open>What both intakes insert; the columns they do not name are NULL or their defaults.\<close>

definition intake_order :: "id \<Rightarrow> id \<Rightarrow> string \<Rightarrow> pricing \<Rightarrow> int \<Rightarrow> int option \<Rightarrow>
    shipping_option option \<Rightarrow> bytes \<Rightarrow> string \<Rightarrow> bytes \<Rightarrow> bytes option \<Rightarrow> bool \<Rightarrow> int \<Rightarrow> order_row" where
  "intake_order i merchant protocol priced total_sat buyer_amount opt eie eih contact address
      opt_in now = \<lparr>
     o_id = i, o_merchant_id = merchant, o_buyer_pubkey_enc = None, o_buyer_pubkey_hash = None,
     o_protocol = protocol, o_external_id_enc = Some eie, o_external_id_hash = Some eih,
     o_request_hash = None, o_source_event_id = None, o_currency = ''SAT'',
     o_subtotal_sat = pr_subtotal_sat priced, o_shipping_sat = pr_shipping_sat priced,
     o_total_sat = total_sat, o_buyer_amount_sat = buyer_amount, o_state = Received,
     o_shipping_state = (if opt = None then ShNotRequired else ShPending),
     o_contact_enc = Some contact, o_address_enc = address,
     o_shipping_option_id = map_option so_id opt, o_payment_hash = None,
     o_invoice_expiry = None, o_public_token_hash = None, o_public_token_enc = None,
     o_public_token_expires_at = None, o_checkout_scope_hash = None,
     o_payment_exception = False, o_payment_exception_reason = None,
     o_payment_exception_resolution = None, o_oversold = False, o_receipt_verified = False,
     o_email_opt_in = opt_in, o_created_at = now, o_updated_at = now, o_archived_at = None\<rparr>"

definition seal_order :: "env \<Rightarrow> id \<Rightarrow> string \<Rightarrow> bytes \<Rightarrow> (db, bytes) tx" where
  "seal_order E i column plaintext = seal_column E i ''orders'' column plaintext"

definition seal_address :: "env \<Rightarrow> id \<Rightarrow> json \<Rightarrow> (db, bytes option) tx" where
  "seal_address E i address =
     (if address = JNull then tx_return None
      else tx_bind (seal_order E i ''address_enc'' (json_dumps E address)) (\<lambda>e. tx_return (Some e)))"

definition insert_item :: "env \<Rightarrow> id \<Rightarrow> cart_line \<Rightarrow> (db, unit) tx" where
  "insert_item E i line =
     tx_bind (new_uuid E) (\<lambda>u.
       sql_insert db_items_update items_ok
         \<lparr>oi_id = u, oi_order_id = i, oi_product_id = p_id (cl_product line),
          oi_product_d = p_d_tag (cl_product line), oi_title = p_title (cl_product line),
          oi_quantity = cl_qty line, oi_unit_price_minor = cl_unit_minor line,
          oi_currency = cl_currency line, oi_currency_decimals = cl_decimals line,
          oi_line_total_sat = cl_line_sat line, oi_backordered_qty = 0\<rparr>)"

text \<open>
  The common tail: items, quotes of foreign currencies, the first audit event, and the
  merchant's \<open>order_received\<close> alert.
\<close>

definition intake_rows :: "env \<Rightarrow> merchant \<Rightarrow> id \<Rightarrow> pricing \<Rightarrow> bool \<Rightarrow> int \<Rightarrow> (db, unit) tx" where
  "intake_rows E m i priced opt_in now =
     tx_seq (tx_for (pr_lines priced) (insert_item E i))
    (tx_seq (tx_for (map snd (pr_quotes priced))
        (\<lambda>q. if q_source q = ''identity'' then tx_return () else persist_quote E i q))
    (tx_seq (insert_event E i None Received ''buyer'' [] now)
       (tx_ignore (enqueue_email_intents E i (m_id m) opt_in EvOrderReceived
          \<lparr>nc_emails = m_notify_emails m, nc_events = m_notify_events m, nc_customer = None\<rparr> now))))"

record intake =
  k_order_id :: id
  k_external_id :: string
  k_token :: string
  k_address :: json
  k_email :: "string option"
  k_phone :: "string option"
  k_opt_in :: bool
  k_buyer_amount :: "int option"
  k_buyer_pubkey :: "string option"
  k_client_scope :: string

definition json_opt_str :: "string option \<Rightarrow> json" where
  "json_opt_str v = (case v of None \<Rightarrow> JNull | Some x \<Rightarrow> JStr x)"

definition link_record :: "string \<Rightarrow> int \<Rightarrow> id \<Rightarrow> (db, nat) tx" where
  "link_record scope token i =
     tx_bind tx_now (\<lambda>now.
       sql_update db_idempotency db_idempotency_update idempotency_ok
         (\<lambda>r. holds_record scope token now r \<and> ir_order_id r = None)
         (\<lambda>r. r\<lparr>ir_order_id := Some i\<rparr>))"

definition web_order :: "env \<Rightarrow> merchant \<Rightarrow> intake \<Rightarrow> pricing \<Rightarrow> int \<Rightarrow> shipping_option option \<Rightarrow> bytes \<Rightarrow>
    string \<Rightarrow> int \<Rightarrow> (db, order_row) tx" where
  "web_order E m k priced total_sat opt token_enc csh now =
     tx_bind (seal_order E (k_order_id k) ''external_id_enc'' (k_external_id k)) (\<lambda>eie.
     tx_bind (seal_order E (k_order_id k) ''contact_enc'' (json_dumps E (JObj
        [(''email'', json_opt_str (k_email k)), (''phone'', json_opt_str (k_phone k))]))) (\<lambda>contact.
     tx_bind (seal_address E (k_order_id k) (k_address k)) (\<lambda>address.
     tx_bind (tx_lift (token_lookup_hash E (k_token k))) (\<lambda>pth.
       tx_return ((intake_order (k_order_id k) (m_id m) ''web'' priced total_sat (k_buyer_amount k)
           opt eie (order_id_hash E (m_id m) (k_external_id k)) contact address (k_opt_in k) now)
         \<lparr>o_public_token_hash := Some pth, o_public_token_enc := Some token_enc,
          o_public_token_expires_at := Some (now + TOKEN_TTL_S),
          o_checkout_scope_hash := Some csh\<rparr>)))))"

definition insert_order_intake :: "env \<Rightarrow> merchant \<Rightarrow> intake \<Rightarrow> pricing \<Rightarrow> int \<Rightarrow>
    shipping_option option \<Rightarrow> string \<Rightarrow> int \<Rightarrow> int \<Rightarrow> (db, unit) tx" where
  "insert_order_intake E m k priced total_sat opt scope token now =
     (let csh = client_scope_hash E (m_id m) (k_client_scope k) in
     tx_bind (seal_order E (k_order_id k) ''public_token_enc'' (k_token k)) (\<lambda>token_enc.
     tx_bind (sql_count db_orders (\<lambda>r. o_merchant_id r = m_id m
        \<and> o_checkout_scope_hash r = Some csh \<and> o_state r \<in> open_states)) (\<lambda>n.
     tx_seq (tx_assert (n < MAX_OPEN_ORDERS_PER_SCOPE) rate_limited)
    (tx_bind (web_order E m k priced total_sat opt token_enc csh now) (\<lambda>row.
     tx_seq (sql_insert db_orders_update orders_ok row)
    (tx_seq (if truthy (k_buyer_pubkey k) then
         tx_bind (seal_order E (k_order_id k) ''buyer_pubkey_enc'' (the (k_buyer_pubkey k))) (\<lambda>be.
           update_order (k_order_id k) (\<lambda>r. r\<lparr>o_buyer_pubkey_enc := Some be,
             o_buyer_pubkey_hash := Some (buyer_hash E (m_id m) (the (k_buyer_pubkey k)))\<rparr>))
       else tx_return ())
    (tx_bind (link_record scope token (k_order_id k)) (\<lambda>linked.
     tx_seq (tx_assert (linked = 1) (conflict ''request-in-progress''))
       (intake_rows E m (k_order_id k) priced (k_opt_in k) now)))))))))"

section \<open>Web checkout\<close>

definition checkout_scope :: "env \<Rightarrow> id \<Rightarrow> string \<Rightarrow> string" where
  "checkout_scope E merchant key =
     sha256_hex E (merchant @ ''|POST|'' @ ''/api/v1/public/checkout'' @ ''|'' @ key)"

definition request_hash :: "env \<Rightarrow> checkout_payload \<Rightarrow> string" where
  "request_hash E p = sha256_hex E (json_dumps E (JObj
     [(''address'', pl_address p), (''email'', json_opt_str (pl_email p)),
      (''email_opt_in'', JBool (pl_email_opt_in p)), (''items'', pl_items p),
      (''merchant_pubkey'', JStr (pl_merchant_pubkey p)),
      (''phone'', json_opt_str (pl_phone p)),
      (''shipping_option_d'', json_opt_str (pl_shipping_option_d p))]))"

definition merchant_for_checkout :: "string \<Rightarrow> db \<Rightarrow> error + merchant" where
  "merchant_for_checkout pubkey s =
     (case List.find (\<lambda>m. m_pubkey m = pubkey) (db_merchants s) of
        None \<Rightarrow> Inl (unprocessable ''merchant-inactive'')
      | Some m \<Rightarrow> if m_state m = MsActive then Inr m else Inl (unprocessable ''merchant-inactive''))"

definition open_order_count :: "id \<Rightarrow> string \<Rightarrow> db \<Rightarrow> nat" where
  "open_order_count merchant csh s = length (filter (\<lambda>r. o_merchant_id r = merchant
     \<and> o_protocol r = ''web'' \<and> o_checkout_scope_hash r = Some csh \<and> o_state r \<in> open_states)
     (db_orders s))"

definition held_reservation_count :: "id \<Rightarrow> db \<Rightarrow> nat" where
  "held_reservation_count p s =
     length (filter (\<lambda>r. r_product_id r = p \<and> r_state r = ReHeld) (db_reservations s))"

definition check_held :: "db \<Rightarrow> unit \<Rightarrow> product \<times> int \<Rightarrow> error + unit" where
  "check_held s _ entry = try_require
     (held_reservation_count (p_id (fst entry)) s < MAX_HELD_PER_PRODUCT) insufficient_stock"

definition expected_matches :: "json \<Rightarrow> int \<Rightarrow> bool" where
  "expected_matches j amount = (case j of JNull \<Rightarrow> True | JInt i \<Rightarrow> i = amount | _ \<Rightarrow> False)"

text \<open>The part of \<open>_run_checkout\<close> that only reads.\<close>

definition checkout_reads :: "env \<Rightarrow> rates \<Rightarrow> merchant \<Rightarrow> checkout_payload \<Rightarrow> string \<Rightarrow> int \<Rightarrow> db \<Rightarrow>
    error + pricing \<times> int \<times> shipping_option option" where
  "checkout_reads E rates m p scope now s =
     (if MAX_OPEN_ORDERS_PER_SCOPE \<le> open_order_count (m_id m) (client_scope_hash E (m_id m) scope) s
      then Inl rate_limited
      else
        try_bind (resolve_cart E s (m_id m) (pl_items p) (pl_shipping_option_d p) (pl_address p))
          (\<lambda>(resolved, opt).
        try_bind (try_require (pl_email_opt_in p \<longrightarrow> truthy (pl_email p)) invalid_content) (\<lambda>_.
        try_bind (try_fold (check_held s) () resolved) (\<lambda>_.
        try_bind (price_cart E rates now s resolved opt) (\<lambda>(priced, amount).
        try_bind (try_require (expected_matches (pl_expected_total p) amount)
           (unprocessable ''quote-changed'')) (\<lambda>_.
          Inr (priced, amount, opt)))))))"

record checkout_response =
  cr_public_token :: string
  cr_state :: order_state
  cr_total_sat :: int
  cr_bolt11 :: "string option"
  cr_expires_at :: "int option"

definition attributed_request :: "env \<Rightarrow> id \<Rightarrow> saga_result \<Rightarrow> (db, unit) tx" where
  "attributed_request E i res =
     tx_bind (find_order i) (\<lambda>row.
     case row of
       None \<Rightarrow> tx_return ()
     | Some k \<Rightarrow> tx_when (o_state k = AwaitingPayment)
         (tx_ignore (enqueue_payment_request E k (the (sr_bolt11 res)) (sr_expires_at res))))"

definition run_checkout :: "env \<Rightarrow> lnbits \<Rightarrow> rates \<Rightarrow> merchant \<Rightarrow> checkout_payload \<Rightarrow> string \<Rightarrow>
    string option \<Rightarrow> string \<Rightarrow> int \<Rightarrow> int \<Rightarrow> (db, id \<times> checkout_response) proc" where
  "run_checkout E L rates m p client_scope buyer scope token now =
     pr_bind (pr_get (checkout_reads E rates m p client_scope now)) (\<lambda>r.
     pr_bind (pr_lift r) (\<lambda>(priced, amount, opt).
     pr_bind (pr_get db_clock) (\<lambda>t.
     pr_bind (commit (new_uuid E)) (\<lambda>i.
     pr_bind (commit draw) (\<lambda>n.
     pr_bind (commit (new_uuid E)) (\<lambda>ext.
     pr_bind (commit (insert_order_intake E m
        \<lparr>k_order_id = i, k_external_id = ext, k_token = generate_public_token E n,
         k_address = pl_address p, k_email = pl_email p, k_phone = pl_phone p,
         k_opt_in = pl_email_opt_in p, k_buyer_amount = map_option (max 0) (pl_buyer_amount p),
         k_buyer_pubkey = buyer, k_client_scope = client_scope\<rparr>
        priced amount opt scope token t)) (\<lambda>_.
     pr_bind (begin_saga E L i t) (\<lambda>res.
     pr_bind (if truthy buyer \<and> sr_state res = AwaitingPayment \<and> truthy (sr_bolt11 res)
        then commit (attributed_request E i res) else pr_return ()) (\<lambda>_.
       pr_return (i, \<lparr>cr_public_token = generate_public_token E n, cr_state = sr_state res,
         cr_total_sat = amount, cr_bolt11 = sr_bolt11 res, cr_expires_at = sr_expires_at res\<rparr>))))))))))"

definition read_order :: "id \<Rightarrow> (db, order_row) proc" where
  "read_order i = pr_bind (pr_get (\<lambda>s. List.find (\<lambda>k. o_id k = i) (db_orders s))) (\<lambda>row.
     case row of None \<Rightarrow> pr_raise not_found | Some k \<Rightarrow> pr_return k)"

definition resume_order :: "env \<Rightarrow> lnbits \<Rightarrow> id \<Rightarrow> int \<Rightarrow> (db, checkout_response) proc" where
  "resume_order E L i now =
     pr_bind (read_order i) (\<lambda>k0.
     pr_bind (if o_state k0 = Received
        then pr_bind (begin_saga E L i now) (\<lambda>_. read_order i) else pr_return k0) (\<lambda>k.
     pr_bind (pr_lift (open_required E i ''orders'' ''public_token_enc'' (o_public_token_enc k))) (\<lambda>token.
     pr_bind (pr_get (find_payment i)) (\<lambda>pay.
     pr_bind (case Option.bind pay pay_bolt11_enc of
         None \<Rightarrow> pr_return None
       | Some e \<Rightarrow> pr_bind (pr_lift (open_column E i ''payments'' ''bolt11_enc'' e))
           (\<lambda>b. pr_return (Some b))) (\<lambda>bolt11.
       pr_return \<lparr>cr_public_token = token, cr_state = o_state k, cr_total_sat = o_total_sat k,
         cr_bolt11 = (if o_state k = AwaitingPayment then bolt11 else None),
         cr_expires_at = o_invoice_expiry k\<rparr>)))))"

definition response_json :: "checkout_response \<Rightarrow> json" where
  "response_json r = JObj [(''public_token'', JStr (cr_public_token r)), (''order'', JObj
     [(''state'', JStr (order_state_name (cr_state r))), (''total_sat'', JInt (cr_total_sat r)),
      (''bolt11'', json_opt_str (cr_bolt11 r)),
      (''expires_at'', (case cr_expires_at r of None \<Rightarrow> JNull | Some x \<Rightarrow> JInt x))])]"

text \<open>
  The whole handler. The buyer session is the resolved NIP-07 session, if any: its merchant
  and its key. The result is the response body.
\<close>

definition checkout :: "env \<Rightarrow> lnbits \<Rightarrow> rates \<Rightarrow> checkout_payload \<Rightarrow> string \<Rightarrow> string \<Rightarrow>
    (id \<times> string) option \<Rightarrow> int \<Rightarrow> (db, json) proc" where
  "checkout E L rates p key client_scope session now =
     pr_bind (assert_database_compatible E) (\<lambda>_.
     pr_bind (pr_get (merchant_for_checkout (pl_merchant_pubkey p))) (\<lambda>mr.
     pr_bind (pr_lift mr) (\<lambda>m.
     pr_bind (pr_get (get_mode (m_id m))) (\<lambda>mode.
     if \<not> checkout_allowed mode then pr_raise (unprocessable ''storefront-mode-unavailable'')
     else
       (let scope = checkout_scope E (m_id m) key;
            buyer = (case session of None \<Rightarrow> None
              | Some (sm, bp) \<Rightarrow> if sm = m_id m then Some bp else None) in
        pr_bind (commit (claim_idempotency scope (request_hash E p) now)) (\<lambda>claim.
        case claim of
          Replay r \<Rightarrow>
            pr_bind (pr_lift (replay_response E r)) (\<lambda>body.
            case body of Some j \<Rightarrow> pr_return j | None \<Rightarrow> pr_raise not_found)
        | Claimed token resumed \<Rightarrow>
            pr_bind (pr_catch
              (case resumed of
                 Some i \<Rightarrow> pr_bind (resume_order E L i now) (\<lambda>r. pr_return (i, r))
               | None \<Rightarrow> run_checkout E L rates m p client_scope buyer scope token now)
              (\<lambda>e. pr_bind (commit (fail_idempotency scope token)) (\<lambda>_. pr_raise e))) (\<lambda>(i, r).
            pr_bind (commit (complete_idempotency E scope i 201 (response_json r) token)) (\<lambda>_.
              pr_return (response_json r)))))))))"

definition quote_preview :: "env \<Rightarrow> rates \<Rightarrow> checkout_payload \<Rightarrow> (db, int \<times> int \<times> int) proc" where
  "quote_preview E rates p =
     pr_bind (assert_database_compatible E) (\<lambda>_.
     pr_bind (pr_get (merchant_for_checkout (pl_merchant_pubkey p))) (\<lambda>mr.
     pr_bind (pr_lift mr) (\<lambda>m.
     pr_bind (pr_get (get_mode (m_id m))) (\<lambda>mode.
     if \<not> checkout_allowed mode then pr_raise (unprocessable ''storefront-mode-unavailable'')
     else
       pr_bind (pr_get (\<lambda>s.
         try_bind (resolve_cart E s (m_id m) (pl_items p) (pl_shipping_option_d p) (pl_address p))
           (\<lambda>(resolved, opt). price_cart E rates (db_clock s) s resolved opt))) (\<lambda>r.
       pr_bind (pr_lift r) (\<lambda>(priced, amount).
         pr_return (pr_subtotal_sat priced, pr_shipping_sat priced, amount)))))))"

section \<open>Gamma intake\<close>

record gamma_payload =
  g_items :: json
  g_shipping_option_d :: "string option"
  g_address :: json
  g_external_id :: string
  g_buyer_amount_sat :: "int option"
  g_email :: "string option"
  g_phone :: "string option"

text \<open>\<open>str\<close> of a d-tag, the sort key of the request hash; intake d-tags are strings.\<close>

definition json_key :: "json \<Rightarrow> string" where
  "json_key j = (case j of JStr x \<Rightarrow> x | JInt i \<Rightarrow> str_int i | JNull \<Rightarrow> ''None'' | _ \<Rightarrow> '''')"

definition gamma_request_hash :: "env \<Rightarrow> gamma_payload \<Rightarrow> string" where
  "gamma_request_hash E p =
     (let entries = (case json_arr (g_items p) of None \<Rightarrow> [] | Some xs \<Rightarrow> filter is_object xs);
          items = map (\<lambda>e. (json_member ''d_tag'' e, json_member ''quantity'' e)) entries in
      sha256_hex E (json_dumps E (JObj
        [(''items'', JArr (map (\<lambda>(d, n). JObj [(''d_tag'', d), (''quantity'', n)])
            (sort_key (json_key \<circ> fst) items))),
         (''shipping_option_d'', json_opt_str (g_shipping_option_d p))])))"

definition open_order_count_buyer :: "id \<Rightarrow> string \<Rightarrow> db \<Rightarrow> nat" where
  "open_order_count_buyer merchant h s = length (filter (\<lambda>r. o_merchant_id r = merchant
     \<and> o_buyer_pubkey_hash r = Some h \<and> o_state r \<in> open_states) (db_orders s))"

definition gamma_order :: "env \<Rightarrow> id \<Rightarrow> id \<Rightarrow> gamma_payload \<Rightarrow> string \<Rightarrow> string \<Rightarrow> pricing \<Rightarrow> int \<Rightarrow>
    shipping_option option \<Rightarrow> int \<Rightarrow> (db, order_row) tx" where
  "gamma_order E merchant i p buyer rumor_id priced total_sat opt now =
     tx_bind (seal_order E i ''buyer_pubkey_enc'' buyer) (\<lambda>bpe.
     tx_bind (seal_order E i ''external_id_enc'' (g_external_id p)) (\<lambda>eie.
     tx_bind (seal_order E i ''contact_enc'' (json_dumps E (JObj
        [(''email'', json_opt_str (g_email p)), (''phone'', json_opt_str (g_phone p)),
         (''npub'', JStr (case npub E buyer of None \<Rightarrow> buyer | Some n \<Rightarrow> n))]))) (\<lambda>contact.
     tx_bind (seal_address E i (g_address p)) (\<lambda>address.
       tx_return ((intake_order i merchant ''gamma'' priced total_sat (g_buyer_amount_sat p) opt eie
           (order_id_hash E merchant (g_external_id p)) contact address False now)
         \<lparr>o_buyer_pubkey_enc := Some bpe, o_buyer_pubkey_hash := Some (buyer_hash E merchant buyer),
          o_request_hash := Some (gamma_request_hash E p), o_source_event_id := Some rumor_id\<rparr>)))))"

definition insert_gamma_order_intake :: "env \<Rightarrow> merchant \<Rightarrow> id \<Rightarrow> gamma_payload \<Rightarrow> string \<Rightarrow> string \<Rightarrow>
    pricing \<Rightarrow> int \<Rightarrow> shipping_option option \<Rightarrow> int \<Rightarrow> (db, order_row option) tx" where
  "insert_gamma_order_intake E m i p buyer rumor_id priced total_sat opt now =
     (let bph = buyer_hash E (m_id m) buyer in
     tx_bind (sql_count db_orders (\<lambda>r. o_merchant_id r = m_id m \<and> o_buyer_pubkey_hash r = Some bph
        \<and> o_state r \<in> open_states)) (\<lambda>n.
     tx_seq (tx_assert (n < MAX_OPEN_ORDERS_PER_SCOPE) rate_limited)
    (tx_bind (gamma_order E (m_id m) i p buyer rumor_id priced total_sat opt now) (\<lambda>row.
     tx_bind (sql_insert_ignore db_orders_update orders_ok row) (\<lambda>inserted.
     if inserted \<noteq> 1 then
       tx_bind (sql_one db_orders (\<lambda>r. o_merchant_id r = m_id m \<and> o_buyer_pubkey_hash r = Some bph
          \<and> o_external_id_hash r = Some (order_id_hash E (m_id m) (g_external_id p)))) (\<lambda>existing.
       case existing of
         None \<Rightarrow> tx_raise (conflict ''duplicate-order-conflict'')
       | Some k \<Rightarrow>
           if o_request_hash k = Some (gamma_request_hash E p) then tx_return (Some k)
           else tx_raise (conflict ''duplicate-order-conflict''))
     else tx_seq (intake_rows E m i priced False now) (tx_return None))))))"

datatype gamma_result = GammaExisting id order_state | GammaCreated id order_state

definition gamma_reads :: "env \<Rightarrow> rates \<Rightarrow> merchant \<Rightarrow> gamma_payload \<Rightarrow> string \<Rightarrow> bool \<Rightarrow> int \<Rightarrow> db \<Rightarrow>
    error + pricing \<times> int \<times> shipping_option option" where
  "gamma_reads E rates m p buyer has_routes now s =
     (if \<not> has_routes then Inl (unprocessable ''no-inbox-relays'')
      else if MAX_OPEN_ORDERS_PER_SCOPE \<le> open_order_count_buyer (m_id m) (buyer_hash E (m_id m) buyer) s
      then Inl rate_limited
      else
        try_bind (resolve_cart E s (m_id m) (g_items p) (g_shipping_option_d p) (g_address p))
          (\<lambda>(resolved, opt).
        try_bind (try_fold (check_held s) () resolved) (\<lambda>_.
        try_bind (price_cart E rates now s resolved opt) (\<lambda>(priced, amount).
          Inr (priced, amount, opt)))))"

definition gamma_request :: "env \<Rightarrow> id \<Rightarrow> saga_result \<Rightarrow> (db, unit) tx" where
  "gamma_request E i res =
     tx_bind (find_order i) (\<lambda>row.
     case row of
       None \<Rightarrow> tx_raise TypeError
     | Some k \<Rightarrow> tx_ignore (enqueue_payment_request E k (the (sr_bolt11 res)) (sr_expires_at res)))"

definition gamma_order_intake :: "env \<Rightarrow> network \<Rightarrow> lnbits \<Rightarrow> rates \<Rightarrow> merchant \<Rightarrow> gamma_payload \<Rightarrow>
    string \<Rightarrow> string \<Rightarrow> int \<Rightarrow> (db, gamma_result) proc" where
  "gamma_order_intake E N L rates m p buyer rumor_id now =
     pr_bind (assert_database_compatible E) (\<lambda>_.
     if m_state m \<noteq> MsActive then pr_raise (unprocessable ''merchant-inactive'')
     else
       pr_bind (resolve_buyer_inbox_relays E N (m_id m) buyer) (\<lambda>routes.
       pr_bind (pr_get (gamma_reads E rates m p buyer (routes \<noteq> None) now)) (\<lambda>r.
       pr_bind (pr_lift r) (\<lambda>(priced, amount, opt).
       pr_bind (pr_get db_clock) (\<lambda>t.
       pr_bind (commit (new_uuid E)) (\<lambda>i.
       pr_bind (commit (insert_gamma_order_intake E m i p buyer rumor_id priced amount opt t)) (\<lambda>existing.
       case existing of
         Some k \<Rightarrow> pr_return (GammaExisting (o_id k) (o_state k))
       | None \<Rightarrow>
           pr_bind (begin_saga E L i t) (\<lambda>res.
           pr_bind (if sr_state res = AwaitingPayment \<and> truthy (sr_bolt11 res)
              then commit (gamma_request E i res) else pr_return ()) (\<lambda>_.
             pr_return (GammaCreated i (sr_state res)))))))))))"

lemmas [evals] = client_scope_hash_def order_id_hash_def intake_order_def seal_order_def
  seal_address_def insert_item_def intake_rows_def json_opt_str_def link_record_def web_order_def
  insert_order_intake_def checkout_scope_def request_hash_def merchant_for_checkout_def
  open_order_count_def held_reservation_count_def check_held_def expected_matches_def
  checkout_reads_def attributed_request_def run_checkout_def read_order_def resume_order_def
  response_json_def checkout_def quote_preview_def open_order_count_buyer_def gamma_order_def
  insert_gamma_order_intake_def gamma_reads_def gamma_request_def gamma_order_intake_def
  MAX_HELD_PER_PRODUCT_def MAX_OPEN_ORDERS_PER_SCOPE_def

section \<open>The intake and the invariants\<close>

lemma keeps_intake_parts [keeps]:
  assumes "\<And>g s. f (db_draws_update g s) = f s"
  shows "tx_keeps f (seal_order E i c pt)" "tx_keeps f (seal_address E i a)"
    "tx_keeps f (web_order E m k priced n opt te csh now)"
    "tx_keeps f (gamma_order E mi i p buyer rumor priced n opt now)"
  unfolding seal_address_def web_order_def gamma_order_def seal_order_def by (intro keeps assms)+

lemma keeps_link_record [keeps]:
  "(\<And>g s. f (db_idempotency_update g s) = f s) \<Longrightarrow> tx_keeps f (link_record scope token i)"
  unfolding link_record_def by (intro keeps keeps_sql)

lemma keeps_insert_item [keeps]:
  "(\<And>g s. f (db_items_update g s) = f s) \<Longrightarrow> (\<And>g s. f (db_draws_update g s) = f s)
     \<Longrightarrow> tx_keeps f (insert_item E i line)"
  unfolding insert_item_def by (intro keeps keeps_sql)

lemma stock_intake: "tx_inv stock_ok (insert_order_intake E m k priced n opt scope token now)"
  "tx_inv stock_ok (insert_gamma_order_intake E m i p buyer rumor priced n opt now)"
  unfolding insert_order_intake_def insert_gamma_order_intake_def intake_rows_def Let_def
  by (intro stock_keeps keeps keeps_sql keeps_update_order_other keeps_insert_event stock_view_other)+

text \<open>Between the insert of the order and of its first event the trail has one order too many.\<close>

definition half_taken :: "id \<Rightarrow> audit \<Rightarrow> bool" where
  "half_taken i A \<longleftrightarrow> (\<exists>os. replays (os, snd A) \<and> i \<notin> fst ` set os \<and> fst A = os @ [(i, Received)])"

lemma half_taken_insert:
  assumes "audit_ok s" and run: "sql_insert db_orders_update orders_ok k s = Inr (u, t)"
    and "o_state k = Received"
  shows "half_taken (o_id k) (audit_view t)"
proof -
  have t: "t = db_orders_update (\<lambda>rs. rs @ [k]) s" and "orders_ok t" using run by (auto simp: sql_Inr)
  then have "o_id k \<notin> o_id ` set (db_orders s)" by (simp add: orders_ok_def)
  moreover have "fst (audit_view s) = map (\<lambda>k. (o_id k, o_state k)) (db_orders s)"
    by (simp add: audit_view_def)
  ultimately show ?thesis
    using assms(1,3) unfolding half_taken_def
    by (intro exI [of _ "fst (audit_view s)"])
      (auto simp: t audit_ok_def audit_view_def image_iff)
qed

lemma audit_intake_rows:
  assumes half: "half_taken i (audit_view s)"
    and run: "intake_rows E m i priced opt_in now s = Inr (u, t)"
  shows "audit_ok t"
proof -
  obtain s1 s2 where
    s1: "tx_seq (tx_for (pr_lines priced) (insert_item E i)) (tx_for (map snd (pr_quotes priced))
        (\<lambda>q. if q_source q = ''identity'' then tx_return () else persist_quote E i q)) s = Inr ((), s1)"
    and s2: "insert_event E i None Received ''buyer'' [] now s1 = Inr ((), s2)"
    and t: "tx_ignore (enqueue_email_intents E i (m_id m) opt_in EvOrderReceived
          \<lparr>nc_emails = m_notify_emails m, nc_events = m_notify_events m, nc_customer = None\<rparr> now) s2
        = Inr ((), t)"
    using run unfolding intake_rows_def tx_seq_Inr by auto
  have "audit_view s1 = audit_view s"
    using s1 by (rule tx_keepsD [rotated]) (intro keeps audit_view_other)
  moreover have "audit_view t = audit_view s2"
    using t by (rule tx_keepsD [rotated]) (intro keeps audit_view_other)
  moreover have "audit_view s2 = (fst (audit_view s1), snd (audit_view s1) @ [(i, None, Received)])"
    using s2 by (auto simp: insert_event_def event_row_def tx_Inr sql_Inr audit_view_def)
  ultimately have t: "audit_view t = (fst (audit_view s), snd (audit_view s) @ [(i, None, Received)])"
    by simp
  obtain os where os: "replays (os, snd (audit_view s))" "i \<notin> fst ` set os"
    "fst (audit_view s) = os @ [(i, Received)]"
    using half unfolding half_taken_def by blast
  show ?thesis unfolding audit_ok_def t os(3) by (rule replays_intake [OF os(1,2)])
qed

lemma web_order_state:
  "web_order E m k priced n opt te csh now s = Inr (row, t) \<Longrightarrow>
     o_id row = k_order_id k \<and> o_state row = Received"
  by (auto simp: web_order_def tx_Inr intake_order_def)

lemma gamma_order_state:
  "gamma_order E mi i p buyer rumor priced n opt now s = Inr (row, t) \<Longrightarrow>
     o_id row = i \<and> o_state row = Received"
  by (auto simp: gamma_order_def tx_Inr intake_order_def)

lemma audit_order_intake: "tx_inv audit_ok (insert_order_intake E m k priced n opt scope token now)"
proof (rule tx_invI)
  fix s u t
  let ?csh = "client_scope_hash E (m_id m) (k_client_scope k)"
  let ?bind = "if truthy (k_buyer_pubkey k) then
         tx_bind (seal_order E (k_order_id k) ''buyer_pubkey_enc'' (the (k_buyer_pubkey k))) (\<lambda>be.
           update_order (k_order_id k) (\<lambda>r. r\<lparr>o_buyer_pubkey_enc := Some be,
             o_buyer_pubkey_hash := Some (buyer_hash E (m_id m) (the (k_buyer_pubkey k)))\<rparr>))
       else tx_return ()"
  assume ok: "audit_ok s"
    and run: "insert_order_intake E m k priced n opt scope token now s = Inr (u, t)"
  obtain te s1 row s2 s3 s4 l s5 where
    s1: "seal_order E (k_order_id k) ''public_token_enc'' (k_token k) s = Inr (te, s1)" and
    s2: "web_order E m k priced n opt te ?csh now s1 = Inr (row, s2)" and
    s3: "sql_insert db_orders_update orders_ok row s2 = Inr ((), s3)" and
    s4: "?bind s3 = Inr ((), s4)" and
    s5: "link_record scope token (k_order_id k) s4 = Inr (l, s5)" and
    t: "intake_rows E m (k_order_id k) priced (k_opt_in k) now s5 = Inr (u, t)"
    using run unfolding insert_order_intake_def Let_def tx_bind_Inr tx_seq_Inr by auto
  have "audit_view s1 = audit_view s"
    using s1 by (rule tx_keepsD [rotated]) (intro keeps audit_view_other)
  moreover have "audit_view s2 = audit_view s1"
    using s2 by (rule tx_keepsD [rotated]) (intro keeps audit_view_other)
  ultimately have "audit_ok s2" using ok by (simp add: audit_ok_def)
  from half_taken_insert [OF this s3] have "half_taken (k_order_id k) (audit_view s3)"
    using web_order_state [OF s2] by simp
  moreover have "audit_view s4 = audit_view s3"
    using s4 by (rule tx_keepsD [rotated]) (intro keeps audit_view_other; simp)
  moreover have "audit_view s5 = audit_view s4"
    using s5 by (rule tx_keepsD [rotated]) (intro keeps audit_view_other)
  ultimately show "audit_ok t" using audit_intake_rows [OF _ t] by simp
qed

lemma audit_gamma_intake:
  "tx_inv audit_ok (insert_gamma_order_intake E m i p buyer rumor priced n opt now)"
proof (rule tx_invI)
  fix s u t
  assume ok: "audit_ok s"
    and run: "insert_gamma_order_intake E m i p buyer rumor priced n opt now s = Inr (u, t)"
  obtain row s1 c s2 where
    s1: "gamma_order E (m_id m) i p buyer rumor priced n opt now s = Inr (row, s1)" and
    s2: "sql_insert_ignore db_orders_update orders_ok row s1 = Inr (c, s2)" and
    t: "c = 1 \<and> (\<exists>v. intake_rows E m i priced False now s2 = Inr (v, t)) \<or> c \<noteq> 1 \<and> t = s2"
    using run unfolding insert_gamma_order_intake_def Let_def tx_bind_Inr tx_seq_Inr
    by (auto simp: tx_Inr split: if_splits option.splits)
  have "audit_view s1 = audit_view s"
    using s1 by (rule tx_keepsD [rotated]) (intro keeps audit_view_other)
  then have s1_ok: "audit_ok s1" using ok by (simp add: audit_ok_def)
  show "audit_ok t"
  proof (cases "c = 1")
    case True
    then have "sql_insert db_orders_update orders_ok row s1 = Inr ((), s2)"
      using s2 unfolding sql_insert_ignore_Inr sql_insert_Inr by (metis zero_neq_one)
    from half_taken_insert [OF s1_ok this] gamma_order_state [OF s1]
    have "half_taken i (audit_view s2)" by simp
    then show ?thesis using True t by (auto intro: audit_intake_rows)
  next
    case False
    then show ?thesis using t s2 s1_ok unfolding sql_insert_ignore_Inr by metis
  qed
qed

lemma keeps_requests [keeps]:
  assumes "\<And>g s. f (db_outbox_update g s) = f s" "\<And>g s. f (db_outbox_deps_update g s) = f s"
    "\<And>g s. f (db_draws_update g s) = f s" "\<And>g s. f (db_messages_update g s) = f s"
  shows "tx_keeps f (attributed_request E i res)" "tx_keeps f (gamma_request E i res)"
  unfolding attributed_request_def gamma_request_def by (intro keeps assms)+

lemma stock_idempotency: "tx_inv stock_ok (claim_idempotency scope h now)"
    "tx_inv stock_ok (complete_idempotency E scope i c body token)"
    "tx_inv stock_ok (fail_idempotency scope token)"
    "tx_inv stock_ok (attributed_request E i res)" "tx_inv stock_ok (gamma_request E i res)"
  by (intro stock_keeps keeps stock_view_other)+

lemma audit_idempotency: "tx_inv audit_ok (claim_idempotency scope h now)"
    "tx_inv audit_ok (complete_idempotency E scope i c body token)"
    "tx_inv audit_ok (fail_idempotency scope token)"
    "tx_inv audit_ok (attributed_request E i res)" "tx_inv audit_ok (gamma_request E i res)"
  by (intro audit_keeps keeps audit_view_other)+

lemma pr_inv_claim [pr_invs]:
  "(\<And>r. pr_inv I (f r)) \<Longrightarrow> (\<And>t o'. pr_inv I (g t o'))
     \<Longrightarrow> pr_inv I (case c of Replay r \<Rightarrow> f r | Claimed t o' \<Rightarrow> g t o')"
  by (cases c) auto

lemma pr_inv_read_order [pr_invs]: "pr_inv I (read_order i)"
  unfolding read_order_def by (intro pr_invs)

lemma keeps_store_routes [keeps]:
  assumes "\<And>g s. f (db_peer_relays_update g s) = f s" "\<And>g s. f (db_draws_update g s) = f s"
  shows "tx_keeps f (store_routes E m buyer h urls now)" "tx_keeps f (drop_routes m h)"
  unfolding store_routes_def drop_routes_def by (intro keeps keeps_sql assms)+

lemma audit_view_peers: "audit_view (db_peer_relays_update g s) = audit_view s"
  by (simp add: audit_view_def)

lemma routes_inv:
  "tx_inv stock_ok (store_routes E m buyer h urls now)" "tx_inv audit_ok (store_routes E m buyer h urls now)"
  by (intro stock_keeps audit_keeps keeps stock_view_other stock_view_peers audit_view_other audit_view_peers)+

lemma pr_inv_routes [pr_invs]:
  "(\<And>h urls now. tx_inv I (store_routes E m buyer h urls now)) \<Longrightarrow> pr_inv I (resolve_buyer_inbox_relays E N m buyer)"
  unfolding resolve_buyer_inbox_relays_def Let_def by (intro pr_invs)

lemmas checkout_processes = checkout_def run_checkout_def resume_order_def gamma_order_intake_def
  Let_def

lemma stock_checkout: "pr_inv stock_ok (checkout E L rates p key scope session now)"
  "pr_inv stock_ok (gamma_order_intake E N L rates m g buyer rumor now)"
  unfolding checkout_processes
  by (intro pr_invs pr_inv_compatible routes_inv stock_idempotency stock_begin_saga stock_intake stock_aside)+

lemma audit_checkout: "pr_inv audit_ok (checkout E L rates p key scope session now)"
  "pr_inv audit_ok (gamma_order_intake E N L rates m g buyer rumor now)"
  unfolding checkout_processes
  by (intro pr_invs pr_inv_compatible routes_inv audit_idempotency audit_begin_saga audit_order_intake
      audit_gamma_intake audit_aside)+

end
