(* ===== verification/Commerce.thy ===== *)
theory Commerce
  imports Checkout
begin

text \<open>
  The services together. Workers and requests run concurrently, but every write they make is
  one of the transactions below, with parameters read at any earlier time; the step relation
  has one rule per transaction, so its reachable states are those of every interleaving. The
  handlers of the services are shown to be sequences of these steps, and the stock ledger,
  the audit trail and the reservation life cycle are shown for every reachable state.
\<close>

section \<open>Steps\<close>

text \<open>
  What the ledger and the audit trail are about. A transaction that leaves both alone (e-mail,
  relay publication, inbound messages, keys, catalog edits that touch no stock) is a step too.
\<close>

definition ledgers :: "db \<Rightarrow> ((id \<times> int option \<times> int) list \<times> reservation list) \<times> audit" where
  "ledgers s = (stock_view s, audit_view s)"

inductive service_tx :: "env \<Rightarrow> (db, unit) tx \<Rightarrow> bool" for E where
  draws: "service_tx E (tx_ignore draw)"
| seals: "service_tx E (tx_ignore (seal_column E r tbl c p))"
| uuid: "service_tx E (tx_ignore (new_uuid E))"
| context_read: "service_tx E (tx_ignore (notify_context E k))"
| idem_claim: "service_tx E (tx_ignore (claim_idempotency scope h now))"
| idem_complete: "service_tx E (tx_ignore (complete_idempotency E scope i c body token))"
| idem_fail: "service_tx E (tx_ignore (fail_idempotency scope token))"
| web_intake: "service_tx E (tx_ignore (insert_order_intake E m k priced n opt scope token now))"
| gamma_intake: "service_tx E (tx_ignore (insert_gamma_order_intake E m i g buyer rumor priced n opt now))"
| claim: "service_tx E (tx_ignore (claim_tx E i items m wallet amount now))"
| attach: "service_tx E (tx_ignore (attach_tx E i core expiry now))"
| reject: "service_tx E (tx_ignore (mark_rejection E i st now))"
| unknown: "service_tx E (tx_ignore (mark_unknown i now reason))"
| web_request: "service_tx E (tx_ignore (attributed_request E i res))"
| gamma_req: "service_tx E (tx_ignore (gamma_request E i res))"
| request_again: "service_tx E (tx_ignore (enqueue_payment_request E k bolt11 expiry))"
| settle: "service_tx E (tx_ignore (confirm_settlement E i source now))"
| flag: "service_tx E (tx_ignore (flag_exception E i reason source now))"
| expire: "service_tx E (tx_ignore (expire_order E i now))"
| release: "service_tx E (tx_ignore (release_reservations E i ReExpired now))"
| expire_proj: "service_tx E (tx_ignore (expire_projection i))"
| accept: "service_tx E (tx_ignore (resolve_accept E i reason actor now))"
| refund: "service_tx E (tx_ignore (resolve_refund E i actor ref now))"
| confirm_refund: "service_tx E (tx_ignore (resolve_confirm_refund E i actor ref now))"
| cancel: "service_tx E (tx_ignore (cancel_order E i actor reason ctx))"
| status: "service_tx E (tx_ignore (set_status_tx E m i v now))"
| shipping: "service_tx E (tx_ignore (set_shipping_tx E m i sh tr ca eta now))"
| archive: "service_tx E (tx_ignore (bulk_archive_tx m ids))"
| restore: "service_tx E (tx_ignore (bulk_restore_tx m ids))"
| reissue: "service_tx E (tx_ignore (reissue_tx E i token enc now))"
| prune: "service_tx E (tx_ignore (retention_tx now))"
| mode: "service_tx E (tx_ignore (write_mode m v))"
| outbox_claim: "service_tx E (tx_ignore (claim_batch E now worker limit))"
| outbox_write: "service_tx E (tx_ignore (cas_state row st now next_at err))"
| outbox_evidence: "service_tx E (tx_ignore (record_publications E i copy ev n results now))"
| outbox_recover: "service_tx E (tx_ignore (recover_stale_claims E now))"
| outbox_retry: "service_tx E (tx_ignore (retry_intent m i))"
| elsewhere: "tx_keeps ledgers m \<Longrightarrow> service_tx E m"

text \<open>Time passes; or one of the transactions commits.\<close>

inductive tx_step :: "env \<Rightarrow> db \<Rightarrow> db \<Rightarrow> bool" for E where
  tick: "db_clock s \<le> t \<Longrightarrow> tx_step E s (s\<lparr>db_clock := t\<rparr>)"
| commits: "service_tx E m \<Longrightarrow> m s = Inr ((), t) \<Longrightarrow> tx_step E s t"

text \<open>A shop before its first order: products, but no order, event or reservation.\<close>

definition new_shop :: "db \<Rightarrow> bool" where
  "new_shop s \<longleftrightarrow> db_orders s = [] \<and> db_events s = [] \<and> db_reservations s = []
     \<and> products_ok s \<and> (\<forall>p \<in> set (db_products s). p_stock_reserved p = 0)"

inductive reachable :: "env \<Rightarrow> db \<Rightarrow> bool" for E where
  start: "new_shop s \<Longrightarrow> reachable E s"
| step: "reachable E s \<Longrightarrow> tx_step E s t \<Longrightarrow> reachable E t"

section \<open>Invariants\<close>

lemma stock_outbox: "tx_inv stock_ok (write_mode m v)" "tx_inv stock_ok (claim_batch E now w l)"
    "tx_inv stock_ok (cas_state row st now na e)"
    "tx_inv stock_ok (record_publications E i copy ev n rs now)"
    "tx_inv stock_ok (recover_stale_claims E now)" "tx_inv stock_ok (retry_intent m i)"
    "tx_inv stock_ok (enqueue_payment_request E k b x)" "tx_inv stock_ok (retention_tx now)"
  unfolding retention_defs
  by (intro stock_keeps keeps keeps_sql keeps_write_mode stock_view_other stock_view_peers)+

lemma audit_outbox: "tx_inv audit_ok (write_mode m v)" "tx_inv audit_ok (claim_batch E now w l)"
    "tx_inv audit_ok (cas_state row st now na e)"
    "tx_inv audit_ok (record_publications E i copy ev n rs now)"
    "tx_inv audit_ok (recover_stale_claims E now)" "tx_inv audit_ok (retry_intent m i)"
    "tx_inv audit_ok (enqueue_payment_request E k b x)"
  by (intro audit_keeps keeps keeps_write_mode audit_view_other)+

lemmas stock_steps = stock_aside stock_idempotency stock_intake stock_claim_tx stock_attach_tx
  stock_mark_rejection stock_mark_unknown stock_confirm_settlement stock_flag_exception
  stock_expire_order stock_expire_projection stock_resolve_accept stock_resolve_refund
  stock_resolve_confirm_refund cancel_order_stock stock_set_status stock_set_shipping stock_bulk
  stock_reissue stock_outbox

lemmas audit_steps = audit_aside audit_idempotency audit_order_intake audit_gamma_intake
  audit_claim_tx audit_attach_tx audit_mark_rejection audit_mark_unknown audit_confirm_settlement
  audit_flag_exception audit_expire_order audit_expire_projection audit_resolve_accept
  audit_resolve_refund audit_resolve_confirm_refund cancel_order_audit audit_set_status
  audit_set_shipping audit_bulk audit_reissue audit_outbox

lemma stock_release_any: "tx_inv stock_ok (release_reservations E i ReExpired now)"
  by (rule stock_release_reservations) simp

lemma audit_release_any: "tx_inv audit_ok (release_reservations E i st now)"
  and audit_retention_tx: "tx_inv audit_ok (retention_tx now)"
proof -
  show "tx_inv audit_ok (release_reservations E i st now)" by (intro audit_keeps keeps)
  show "tx_inv audit_ok (retention_tx now)"
    unfolding retention_defs
    by (intro tx_inv_bind tx_inv_seq tx_inv_ignore tx_inv_return audit_keeps
        audit_keeps_orders; simp add: erase_order_def keeps keeps_sql)
qed

lemma step_inv:
  assumes "tx_step E s t" "I s" and "\<And>m. service_tx E m \<Longrightarrow> tx_inv I m"
    and "\<And>s t. I s \<Longrightarrow> I (s\<lparr>db_clock := t\<rparr>)"
  shows "I t"
  using assms(1,2) by cases (auto simp: assms(4) dest: tx_invD [OF assms(3)])

lemma keeps_ledgers:
  assumes "tx_keeps ledgers m"
  shows "tx_keeps stock_view m" and "tx_keeps audit_view m" and "tx_keeps db_reservations m"
  using assms by (force simp: tx_keeps_def ledgers_def stock_view_def)+

lemma ledgers_other:
  "stock_view (g s) = stock_view s \<Longrightarrow> audit_view (g s) = audit_view s \<Longrightarrow> ledgers (g s) = ledgers s"
  by (simp add: ledgers_def)

lemma stock_service: "service_tx E m \<Longrightarrow> tx_inv stock_ok m"
  by (induction rule: service_tx.induct)
    ((rule tx_inv_ignore, rule stock_steps stock_release_any) | (rule stock_keeps, erule keeps_ledgers))+

lemma audit_service: "service_tx E m \<Longrightarrow> tx_inv audit_ok m"
  by (induction rule: service_tx.induct)
    ((rule tx_inv_ignore, rule audit_steps audit_release_any audit_retention_tx)
     | (rule audit_keeps, erule keeps_ledgers))+

lemma stock_tick: "stock_ok s \<Longrightarrow> stock_ok (s\<lparr>db_clock := t\<rparr>)"
  and audit_tick: "audit_ok s \<Longrightarrow> audit_ok (s\<lparr>db_clock := t\<rparr>)"
  by (simp_all add: stock_ok_def audit_ok_def)

lemma checked_within: "product_check p \<Longrightarrow> fits (p_stock_on_hand p) (p_stock_reserved p)"
  by (auto simp: product_check_def fits_def split: option.splits)

lemma new_shop_stock: "new_shop s \<Longrightarrow> stock_ok s"
  unfolding stock_ok_def balanced_def off_by_tables
  by (auto simp: new_shop_def products_ok_def list_all_iff checked_within)
    (metis checked_within)

lemma reachable_stock: "reachable E s \<Longrightarrow> stock_ok s"
  by (induction rule: reachable.induct)
    (rule new_shop_stock, assumption, erule step_inv, assumption, erule stock_service, erule stock_tick)

lemma reachable_audit: "reachable E s \<Longrightarrow> audit_ok s"
proof (induction rule: reachable.induct)
  case (start s)
  then show ?case by (simp add: new_shop_def audit_ok_def audit_view_def replays_def)
next
  case (step s t)
  from step(2,3) audit_service audit_tick show ?case by (rule step_inv [where I = audit_ok])
qed

section \<open>Handlers are sequences of transactions\<close>

lemma steps_tx:
  assumes "service_tx E (tx_ignore m)"
  shows "tx_inv ((tx_step E)\<^sup>*\<^sup>* s) m"
proof (rule tx_invI)
  fix u a t
  assume "(tx_step E)\<^sup>*\<^sup>* s u" and run: "m u = Inr (a, t)"
  moreover have "tx_step E u t" by (rule commits [OF assms]) (simp add: tx_ignore_Inr run)
  ultimately show "(tx_step E)\<^sup>*\<^sup>* s t" by simp
qed

lemma routes_step: "service_tx E (tx_ignore (store_routes E m buyer h urls now))"
  by (rule elsewhere, rule tx_keeps_ignore) (intro keeps; simp add: ledgers_def audit_view_def stock_view_def)

lemmas service_steps = draws seals uuid context_read idem_claim idem_complete idem_fail web_intake
  gamma_intake claim attach reject unknown web_request gamma_req request_again settle flag expire
  release expire_proj accept refund confirm_refund cancel status shipping archive restore reissue
  prune mode outbox_claim outbox_write outbox_evidence outbox_recover outbox_retry routes_step

lemmas steps = pr_invs steps_tx service_steps tx_inv_if tx_inv_map_error

lemma steps_saga: "pr_inv ((tx_step E)\<^sup>*\<^sup>* s) (attach_payment E L i core now)"
    "pr_inv ((tx_step E)\<^sup>*\<^sup>* s) (begin_saga E L i now)"
    "pr_inv ((tx_step E)\<^sup>*\<^sup>* s) (handle_core_payment E L i core source)"
  unfolding attach_payment_def begin_saga_def handle_core_payment_def settle_core_def
  by (intro steps)+

lemma steps_checkout: "pr_inv ((tx_step E)\<^sup>*\<^sup>* s) (checkout E L rates p key scope session now)"
    "pr_inv ((tx_step E)\<^sup>*\<^sup>* s) (gamma_order_intake E N L rates m g buyer rumor now)"
  unfolding checkout_processes by (intro steps steps_saga)+

lemma steps_settlement: "pr_inv ((tx_step E)\<^sup>*\<^sup>* s) (invoice_listener E L core)"
    "pr_inv ((tx_step E)\<^sup>*\<^sup>* s) (reservation_expiry_pass E now)"
    "pr_inv ((tx_step E)\<^sup>*\<^sup>* s) (resolve_exception E i action reason ref actor)"
    "pr_inv ((tx_step E)\<^sup>*\<^sup>* s) (reconcile_orders E L now)"
    "pr_inv ((tx_step E)\<^sup>*\<^sup>* s) (reenqueue_payment_requests E)"
    "pr_inv ((tx_step E)\<^sup>*\<^sup>* s) (retention_prune E)"
  unfolding invoice_listener_def reservation_expiry_pass_def expire_due_order_def
    resolve_exception_def reconcile_orders_def resume_received_def reconcile_creating_def
    reconcile_pending_def settle_pending_def flag_multiple_def reenqueue_payment_requests_def
    reenqueue_one_def retention_prune_def Let_def
  by (intro steps steps_saga)+

lemma steps_admin: "pr_inv ((tx_step E)\<^sup>*\<^sup>* s) (admin_bulk_archive m u ids a)"
    "pr_inv ((tx_step E)\<^sup>*\<^sup>* s) (admin_set_status E m u i v)"
    "pr_inv ((tx_step E)\<^sup>*\<^sup>* s) (admin_set_shipping E m u i sh t c e)"
    "pr_inv ((tx_step E)\<^sup>*\<^sup>* s) (admin_cancel E m u i reason)"
    "pr_inv ((tx_step E)\<^sup>*\<^sup>* s) (admin_resolve_exception E m u i act ref)"
    "pr_inv ((tx_step E)\<^sup>*\<^sup>* s) (admin_reissue_token E m u i)"
    "pr_inv ((tx_step E)\<^sup>*\<^sup>* s) (set_mode mrow v confirm)"
  unfolding admin_bulk_archive_def admin_set_status_def admin_set_shipping_def admin_cancel_def
    admin_resolve_exception_def admin_reissue_token_def set_mode_def Let_def
  by (intro steps steps_settlement)+

text \<open>
  Handlers and background passes are sequences of the transactions of the step relation, whatever
  they raise on the way: the state they leave is one the interleaving model reaches.
\<close>

theorem handlers_are_transaction_sequences:
  "(tx_step E)\<^sup>*\<^sup>* s (snd (checkout E L rates p key scope session now s))
   \<and> (tx_step E)\<^sup>*\<^sup>* s (snd (gamma_order_intake E N L rates m g buyer rumor now s))
   \<and> (tx_step E)\<^sup>*\<^sup>* s (snd (invoice_listener E L core s))
   \<and> (tx_step E)\<^sup>*\<^sup>* s (snd (reservation_expiry_pass E now s))
   \<and> (tx_step E)\<^sup>*\<^sup>* s (snd (reconcile_orders E L now s))
   \<and> (tx_step E)\<^sup>*\<^sup>* s (snd (admin_set_status E mid u i v s))
   \<and> (tx_step E)\<^sup>*\<^sup>* s (snd (admin_cancel E mid u i reason s))
   \<and> (tx_step E)\<^sup>*\<^sup>* s (snd (admin_resolve_exception E mid u i act ref s))
   \<and> (tx_step E)\<^sup>*\<^sup>* s (snd (retention_prune E s))"
  by (intro conjI)
    (rule steps_checkout [THEN pr_invD, OF rtranclp.rtrancl_refl]
       steps_settlement [THEN pr_invD, OF rtranclp.rtrancl_refl]
       steps_admin [THEN pr_invD, OF rtranclp.rtrancl_refl])+

section \<open>A run\<close>

text \<open>
  Product \<open>p\<close> with five units; a buyer's checkout of three of them is taken in and claimed.
\<close>

definition demo_db :: db where
  "demo_db = empty_db\<lparr>db_products := [sample_product ''p'' (Some 5) 0]\<rparr>"

definition demo_intake :: intake where
  "demo_intake = \<lparr>k_order_id = ''k'', k_external_id = ''x'',
     k_token = b64url_encode (replicate 32 (CHR ''n'')), k_address = JNull, k_email = None,
     k_phone = None, k_opt_in = False, k_buyer_amount = None, k_buyer_pubkey = None,
     k_client_scope = ''ip''\<rparr>"

definition demo_pricing :: pricing where
  "demo_pricing = \<lparr>pr_lines = [\<lparr>cl_product = sample_product ''p'' (Some 5) 0, cl_qty = 3,
       cl_unit_minor = 10, cl_currency = ''SAT'', cl_decimals = 0, cl_line_sat = 30\<rparr>],
     pr_quotes = [], pr_subtotal_sat = 30, pr_shipping_sat = 0, pr_components = [30]\<rparr>"

lemmas [evals] = demo_db_def demo_intake_def demo_pricing_def

lemma demo_new_shop: "new_shop demo_db"
  by (simp add: new_shop_def evals)

lemma demo_token: "token_lookup_hash sample_env (b64url_encode (replicate 32 (CHR ''n'')))
    = Inr (replicate 32 (CHR ''n''))"
proof -
  have "token_lookup_hash sample_env (b64url_encode (replicate 32 (CHR ''n'')))
    = Inr (sha256_hex sample_env (replicate 32 (CHR ''n'')))"
    by (simp add: token_lookup_hash_def encode_token_re decode_encode TOKEN_BYTES_def)
  then show ?thesis by (simp add: evals)
qed

definition demo_steps :: "(db, unit) tx" where
  "demo_steps = tx_seq (tx_ignore (claim_idempotency ''scope'' ''h'' 1000))
    (tx_seq (tx_ignore (insert_order_intake sample_env sample_merchant demo_intake demo_pricing 30 None
        ''scope'' 1 1000))
      (tx_ignore (claim_tx sample_env ''k'' [sample_item ''i'' ''k'' ''p'' 3] sample_merchant ''w'' 30 1000)))"

lemma demo_run: "case demo_steps demo_db of Inl _ \<Rightarrow> False
    | Inr (_, s) \<Rightarrow> map p_stock_reserved (db_products s) = [3] \<and> map (\<lambda>k. (o_id k, o_state k)) (db_orders s) = [(''k'', InvoicePending)]"
  by (simp add: demo_steps_def evals demo_token)

lemma demo_reachable:
  "\<exists>s. reachable sample_env s \<and> map p_stock_reserved (db_products s) = [3]
     \<and> map (\<lambda>k. (o_id k, o_state k)) (db_orders s) = [(''k'', InvoicePending)]"
proof -
  obtain s3 where run: "demo_steps demo_db = Inr ((), s3)"
    and s3: "map p_stock_reserved (db_products s3) = [3]"
      "map (\<lambda>k. (o_id k, o_state k)) (db_orders s3) = [(''k'', InvoicePending)]"
    using demo_run by (auto split: sum.splits)
  obtain s1 s2 where steps:
    "tx_ignore (claim_idempotency ''scope'' ''h'' 1000) demo_db = Inr ((), s1)"
    "tx_ignore (insert_order_intake sample_env sample_merchant demo_intake demo_pricing 30 None
        ''scope'' 1 1000) s1 = Inr ((), s2)"
    "tx_ignore (claim_tx sample_env ''k'' [sample_item ''i'' ''k'' ''p'' 3] sample_merchant ''w'' 30 1000) s2 = Inr ((), s3)"
    using run unfolding demo_steps_def tx_seq_Inr by auto
  have "reachable sample_env demo_db" by (rule start [OF demo_new_shop])
  then have "reachable sample_env s1" by (rule step) (rule commits [OF idem_claim steps(1)])
  then have "reachable sample_env s2" by (rule step) (rule commits [OF web_intake steps(2)])
  then have "reachable sample_env s3" by (rule step) (rule commits [OF claim steps(3)])
  with s3 show ?thesis by (intro exI [of _ s3] conjI)
qed

section \<open>The ledger and the trail of every reachable state\<close>

text \<open>
  (Stock ledger). In every state a shop reaches, under any interleaving of checkouts, invoice
  callbacks, expiry passes, reconciliation and merchant actions, each product's
  \<open>stock_reserved\<close> is exactly the quantity of its held reservations and never exceeds a finite
  \<open>stock_on_hand\<close>: no sequence of operations reserves a unit twice or loses one.
\<close>

theorem reserved_stock_is_held:
  assumes "reachable E s" and "p \<in> set (db_products s)"
  shows "p_stock_reserved p = sum_list (map r_quantity (filter (\<lambda>r. r_product_id r = p_id p
      \<and> r_state r = ReHeld) (db_reservations s)))
    \<and> 0 \<le> p_stock_reserved p
    \<and> (case p_stock_on_hand p of None \<Rightarrow> True | Some h \<Rightarrow> p_stock_reserved p \<le> h)"
proof -
  have ok: "off_by (\<lambda>_. 0) (stock_view s)"
    using reachable_stock [OF assms(1)] by (simp add: stock_ok_def balanced_def)
  then have "p_stock_reserved p = held_qty (db_reservations s) (p_id p)"
    "fits (p_stock_on_hand p) (p_stock_reserved p)" "0 \<le> held_qty (db_reservations s) (p_id p)"
    using assms(2) by (auto simp: off_by_tables intro: held_qty_nonneg)
  then show ?thesis by (auto simp: held_qty_def fits_def split: option.splits)
qed

lemma reserved_stock_is_held_witness:
  "\<exists>s p. reachable sample_env s \<and> p \<in> set (db_products s) \<and> p_stock_reserved p = 3
     \<and> sum_list (map r_quantity (filter (\<lambda>r. r_product_id r = p_id p \<and> r_state r = ReHeld)
         (db_reservations s))) = 3"
proof -
  obtain s where s: "reachable sample_env s" "map p_stock_reserved (db_products s) = [3]"
    using demo_reachable by (elim exE conjE)
  have "3 \<in> set (map p_stock_reserved (db_products s))" unfolding s(2) by simp
  then obtain p where p: "p \<in> set (db_products s)" "p_stock_reserved p = 3"
    by (metis (no_types, lifting) ex_map_conv in_set_conv_nth length_map nth_map)
  show ?thesis
    using reserved_stock_is_held [OF s(1) p(1)] p s(1) by (intro exI [of _ s] exI [of _ p]) simp
qed

text \<open>
  C2 (Audit trail). In every reachable state the events of an order, in the order they were
  written, replay through the transition table from its intake to exactly the state its row
  holds: no state change escapes the log and no event records a change that did not happen.
\<close>

theorem order_state_replays_its_log:
  assumes "reachable E s" and "k \<in> set (db_orders s)"
  shows "replay None (map (\<lambda>e. (oe_from_state e, oe_to_state e))
      (filter (\<lambda>e. oe_order_id e = o_id k) (db_events s))) = Some (Some (o_state k))"
proof -
  have "trail_of (o_id k) (snd (audit_view s)) = map (\<lambda>e. (oe_from_state e, oe_to_state e))
      (filter (\<lambda>e. oe_order_id e = o_id k) (db_events s))"
    by (simp add: trail_of_def audit_view_def filter_map comp_def)
  moreover have "(o_id k, o_state k) \<in> set (fst (audit_view s))"
    using assms(2) by (auto simp: audit_view_def)
  ultimately show ?thesis
    using reachable_audit [OF assms(1)] unfolding audit_ok_def by (metis replaysD)
qed

lemma order_state_replays_its_log_witness:
  "\<exists>s. reachable sample_env s \<and> replay None (map (\<lambda>e. (oe_from_state e, oe_to_state e))
      (filter (\<lambda>e. oe_order_id e = ''k'') (db_events s))) = Some (Some InvoicePending)"
proof -
  obtain s where s: "reachable sample_env s"
    "map (\<lambda>k. (o_id k, o_state k)) (db_orders s) = [(''k'', InvoicePending)]"
    using demo_reachable by (elim exE conjE)
  have "(''k'', InvoicePending) \<in> set (map (\<lambda>k. (o_id k, o_state k)) (db_orders s))"
    unfolding s(2) by simp
  then obtain k where "k \<in> set (db_orders s)" "o_id k = ''k''" "o_state k = InvoicePending"
    unfolding set_map by (elim imageE) simp
  then show ?thesis
    using s(1) order_state_replays_its_log [OF s(1), of k] by (intro exI [of _ s]) simp
qed

end
