(* ===== verification/Lifecycle.thy ===== *)
theory Lifecycle
  imports Commerce
begin

text \<open>
  What no transaction undoes: a reservation keeps its identity and quantity and moves only along
  its table, the audit log is only appended to, and the state of an order moves only along the
  transition table.
\<close>

section \<open>Reservations\<close>

definition same_hold :: "reservation \<Rightarrow> reservation \<Rightarrow> bool" where
  "same_hold r r' \<longleftrightarrow> r_id r' = r_id r \<and> r_product_id r' = r_product_id r
     \<and> r_order_id r' = r_order_id r \<and> r_quantity r' = r_quantity r"

definition moves_on :: "reservation_state \<Rightarrow> reservation_state \<Rightarrow> bool" where
  "moves_on a b \<longleftrightarrow> b = a \<or> b \<in> set (reservation_transitions a)"

definition holds_advance :: "db \<Rightarrow> db \<Rightarrow> bool" where
  "holds_advance s t \<longleftrightarrow> (\<forall>r \<in> set (db_reservations s). \<exists>r' \<in> set (db_reservations t).
     same_hold r r' \<and> moves_on (r_state r) (r_state r'))"

lemma moves_on_trans: "moves_on a b \<Longrightarrow> moves_on b c \<Longrightarrow> moves_on a c"
  by (cases a; cases b) (auto simp: moves_on_def)

lemma holds_advance_refl: "holds_advance s s"
  by (auto simp: holds_advance_def same_hold_def moves_on_def)

lemma holds_advance_trans: "holds_advance s t \<Longrightarrow> holds_advance t u \<Longrightarrow> holds_advance s u"
  unfolding holds_advance_def by (metis (no_types, lifting) moves_on_trans same_hold_def)

lemma holds_keeps: "tx_keeps db_reservations m \<Longrightarrow> tx_inv (holds_advance s) m"
  by (rule tx_invI) (auto simp: holds_advance_def dest: tx_keepsD)

lemma holds_update:
  assumes "\<And>r. P r \<Longrightarrow> same_hold r (f r) \<and> moves_on (r_state r) (r_state (f r))"
  shows "tx_inv (holds_advance s) (sql_update db_reservations db_reservations_update ok P f)"
proof (rule tx_invI)
  fix s1 n t
  assume ok: "holds_advance s s1"
    and run: "sql_update db_reservations db_reservations_update ok P f s1 = Inr (n, t)"
  have "holds_advance s1 t"
    unfolding holds_advance_def
  proof
    fix r assume "r \<in> set (db_reservations s1)"
    moreover have "db_reservations t = upd_rows P f (db_reservations s1)"
      using run by (auto simp: sql_Inr)
    ultimately have "(if P r then f r else r) \<in> set (db_reservations t)"
      by (auto simp: set_upd_rows)
    moreover have "same_hold r (if P r then f r else r) \<and> moves_on (r_state r) (r_state (if P r then f r else r))"
      using assms by (auto simp: same_hold_def moves_on_def)
    ultimately show "\<exists>r' \<in> set (db_reservations t). same_hold r r' \<and> moves_on (r_state r) (r_state r')"
      by blast
  qed
  with ok show "holds_advance s t" by (rule holds_advance_trans)
qed

lemma holds_insert: "tx_inv (holds_advance s) (sql_insert db_reservations_update ok r)"
  by (rule tx_invI) (auto simp: holds_advance_def sql_Inr)

lemma holds_flip: "st \<noteq> ReHeld \<Longrightarrow> tx_inv (holds_advance s) (flip_reservation i st now)"
  unfolding flip_reservation_def
  by (rule holds_update) (cases st; auto simp: same_hold_def moves_on_def)

lemma keeps_res_projection: "tx_keeps db_reservations (enqueue_stock_projection E i)"
  by (rule keeps_enqueue_stock_projection) (simp_all add: keeps_sql)

lemmas tx_inv_rules = tx_inv_bind tx_inv_seq tx_inv_if tx_inv_option tx_inv_return tx_inv_when
  tx_inv_ignore tx_inv_map_error tx_inv_fold tx_inv_for

lemma holds_release: "st \<noteq> ReHeld \<Longrightarrow> tx_inv (holds_advance s) (release_reservations E i st now)"
  unfolding release_reservations_def release_one_def update_product_def
  by (intro tx_inv_rules holds_flip holds_keeps keeps keeps_sql keeps_res_projection) simp_all

lemma holds_consume: "tx_inv (holds_advance s) (consume_held i now)"
  unfolding consume_held_def consume_one_def update_product_def
  by (intro tx_inv_rules holds_flip holds_keeps keeps keeps_sql) simp_all

lemma holds_transition: "tx_inv (holds_advance s) (transition_order E i t fr actor reason detail now)"
  by (intro holds_keeps keeps_transition_order) simp_all

lemma holds_insert_event: "tx_inv (holds_advance s) (insert_event E i fr st a d now)"
    "tx_inv (holds_advance s) (annotate E i a d now)"
  by (intro holds_keeps keeps_insert_event; simp)+

lemma holds_other: "tx_inv (holds_advance s) (update_order i f)"
    "tx_inv (holds_advance s) (notify E k ev now)" "tx_inv (holds_advance s) (update_payment i sts g)"
    "tx_inv (holds_advance s) (email_for_order E k ev ctx now)"
    "tx_inv (holds_advance s) (find_order i)" "tx_inv (holds_advance s) (order_row_tx i)"
    "tx_inv (holds_advance s) (attach_projection E i core)"
    "tx_inv (holds_advance s) (enqueue_stock_projection E i)"
  by (intro holds_keeps keeps keeps_update_order_other keeps_res_projection; simp)+

lemma holds_saga: "tx_inv (holds_advance s) (claim_tx E i its m w amt now)"
    "tx_inv (holds_advance s) (attach_tx E i core ex now)"
    "tx_inv (holds_advance s) (mark_rejection E i st now)"
    "tx_inv (holds_advance s) (mark_unknown i now r)"
  unfolding claim_tx_def reserve_one_def hold_one_def insert_projection_def attach_tx_def
    extend_held_def mark_rejection_def mark_unknown_def
  by (intro tx_inv_rules holds_transition holds_release holds_insert holds_update holds_other
      holds_keeps keeps keeps_sql; simp add: same_hold_def moves_on_def)+

lemma holds_settlement: "tx_inv (holds_advance s) (confirm_settlement E i source now)"
    "tx_inv (holds_advance s) (flag_exception E i reason source now)"
    "tx_inv (holds_advance s) (expire_order E i now)"
    "tx_inv (holds_advance s) (expire_projection i)"
    "tx_inv (holds_advance s) (resolve_accept E i rs actor now)"
    "tx_inv (holds_advance s) (resolve_refund E i actor ref now)"
    "tx_inv (holds_advance s) (resolve_confirm_refund E i actor ref now)"
    "tx_inv (holds_advance s) (cancel_order E i actor rs ctx)"
  unfolding confirm_settlement_def flag_exception_def expire_order_def expire_projection_def
    resolve_accept_def accept_item_def resolve_refund_def resolve_confirm_refund_def
    cancel_order_def update_product_def Let_def
  by (intro tx_inv_rules holds_transition holds_release holds_consume holds_insert_event holds_other
      holds_keeps keeps keeps_sql; simp)+

lemma holds_admin: "tx_inv (holds_advance s) (set_status_tx E m i v now)"
    "tx_inv (holds_advance s) (set_shipping_tx E m i sh tr ca et now)"
    "tx_inv (holds_advance s) (bulk_archive_tx m ids)" "tx_inv (holds_advance s) (bulk_restore_tx m ids)"
    "tx_inv (holds_advance s) (reissue_tx E i token enc now)"
    "tx_inv (holds_advance s) (retention_tx now)" "tx_inv (holds_advance s) (write_mode m v)"
  unfolding set_status_tx_def set_shipping_tx_def bulk_archive_tx_def bulk_restore_tx_def
    reissue_tx_def retention_defs
  by (intro tx_inv_rules holds_transition holds_other holds_keeps keeps keeps_sql keeps_write_mode; simp)+

lemma holds_intake: "tx_inv (holds_advance s) (insert_order_intake E m k priced n opt scope token now)"
    "tx_inv (holds_advance s) (insert_gamma_order_intake E m i g buyer rumor priced n opt now)"
  unfolding insert_order_intake_def insert_gamma_order_intake_def intake_rows_def Let_def
  by (intro tx_inv_rules holds_insert_event holds_other holds_keeps keeps keeps_sql; simp)+

lemma holds_queue: "tx_inv (holds_advance s) (claim_batch E now w l)"
    "tx_inv (holds_advance s) (cas_state row st now na e)"
    "tx_inv (holds_advance s) (record_publications E i copy ev n rs now)"
    "tx_inv (holds_advance s) (recover_stale_claims E now)" "tx_inv (holds_advance s) (retry_intent m i)"
    "tx_inv (holds_advance s) (enqueue_payment_request E k b x)"
    "tx_inv (holds_advance s) (attributed_request E i res)" "tx_inv (holds_advance s) (gamma_request E i res)"
    "tx_inv (holds_advance s) (claim_idempotency scope h now)"
    "tx_inv (holds_advance s) (complete_idempotency E scope i c body token)"
    "tx_inv (holds_advance s) (fail_idempotency scope token)"
    "tx_inv (holds_advance s) (notify_context E k)" "tx_inv (holds_advance s) draw"
    "tx_inv (holds_advance s) (seal_column E r tb cl p)" "tx_inv (holds_advance s) (new_uuid E)"
  by (intro holds_keeps keeps; simp)+

lemma holds_service: "service_tx E m \<Longrightarrow> tx_inv (holds_advance s) m"
  by (induction rule: service_tx.induct)
    ((rule tx_inv_ignore, rule holds_saga holds_settlement holds_admin holds_intake holds_queue
      holds_release, (simp; fail)?) | (rule holds_keeps, erule keeps_ledgers))+

lemma holds_step: "tx_step E s t \<Longrightarrow> holds_advance s t"
  by (rule step_inv [where I = "holds_advance s"])
    (auto simp: holds_advance_refl holds_service, simp add: holds_advance_def)

section \<open>Orders and their log\<close>

definition state_path :: "order_state \<Rightarrow> order_state \<Rightarrow> bool" where
  "state_path = (\<lambda>a b. b \<in> set (order_transitions a))\<^sup>*\<^sup>*"

definition trail_extends :: "db \<Rightarrow> db \<Rightarrow> bool" where
  "trail_extends s t \<longleftrightarrow> (\<exists>es. snd (audit_view t) = snd (audit_view s) @ es)
     \<and> (\<forall>(i, a) \<in> set (fst (audit_view s)). \<exists>b. (i, b) \<in> set (fst (audit_view t)) \<and> state_path a b)"

lemma state_path_refl [simp]: "state_path a a"
  and state_path_trans: "state_path a b \<Longrightarrow> state_path b c \<Longrightarrow> state_path a c"
  and state_path_step: "b \<in> set (order_transitions a) \<Longrightarrow> state_path a b"
  by (auto simp: state_path_def)

lemma trail_refl: "trail_extends s s"
  by (force simp: trail_extends_def)

lemma trail_trans: "trail_extends s t \<Longrightarrow> trail_extends t u \<Longrightarrow> trail_extends s u"
  unfolding trail_extends_def by (fastforce intro: state_path_trans)

lemma trail_view: "audit_view t = audit_view s \<Longrightarrow> trail_extends s t"
  by (force simp: trail_extends_def)

lemma trail_inv: "(\<And>u a t. m u = Inr (a, t) \<Longrightarrow> trail_extends u t) \<Longrightarrow> tx_inv (trail_extends s) m"
  by (rule tx_invI) (rule trail_trans)

lemma trail_keeps: "tx_keeps audit_view m \<Longrightarrow> tx_inv (trail_extends s) m"
  by (rule trail_inv) (auto intro: trail_view dest: tx_keepsD)

lemma trail_append:
  assumes "fst (audit_view t) = fst (audit_view s)" "snd (audit_view t) = snd (audit_view s) @ es"
  shows "trail_extends s t"
  using assms by (force simp: trail_extends_def)

lemma trail_event: "tx_inv (trail_extends s) (insert_event E i fr st a d now)"
    "tx_inv (trail_extends s) (annotate E i a d now)"
proof -
  show "tx_inv (trail_extends s) (insert_event E i fr st a d now)"
    by (rule trail_inv, rule trail_append [where es = "[(i, fr, st)]"])
      (auto simp: insert_event_def event_row_def tx_Inr sql_Inr audit_view_def)
  show "tx_inv (trail_extends s) (annotate E i a d now)"
    unfolding annotate_def find_order_def
  proof (intro tx_inv_rules)
    fix u k
    show "tx_inv (trail_extends s)
      (sql_insert db_events_update events_ok (event_row u i (Some (o_state k)) (o_state k) a d now))"
      by (rule trail_inv, rule trail_append [where es = "[(i, Some (o_state k), o_state k)]"])
        (auto simp: event_row_def sql_Inr audit_view_def)
  qed (intro trail_keeps keeps; simp)+
qed

lemma trail_transition: "tx_inv (trail_extends s) (transition_order E i t fr actor reason detail now)"
proof -
  have "tx_inv (trail_extends s) (transition_from E i f t actor reason detail now)" for f
  proof (rule trail_inv)
    fix u a v
    assume "transition_from E i f t actor reason detail now u = Inr (a, v)"
    note T = transition_from_run [OF this]
    have st: "\<exists>b. (j, b) \<in> set (fst (audit_view v)) \<and> state_path st b"
      if m: "(j, st) \<in> set (fst (audit_view u))" for j st
    proof (cases "j = i \<and> st = f")
      case True
      then have "(j, t) \<in> set (fst (audit_view v))"
        using m unfolding T(5) move_def by force
      then show ?thesis using True T(2) state_path_step by blast
    next
      case False
      then have "(j, st) \<in> set (fst (audit_view v))" using m unfolding T(5) move_def by force
      then show ?thesis by auto
    qed
    show "trail_extends u v"
      unfolding trail_extends_def using st by (auto simp: T(5) move_def)
  qed
  then show ?thesis
    unfolding transition_order_def find_order_def
    by (intro tx_inv_rules) (auto intro: tx_invI trail_keeps)
qed

lemma trail_insert_order: "tx_inv (trail_extends s) (sql_insert db_orders_update ok k)"
    "tx_inv (trail_extends s) (sql_insert_ignore db_orders_update ok k)"
  by (rule trail_inv, force simp: trail_extends_def sql_Inr audit_view_def split: if_splits)+

lemma trail_update: "(\<And>k. o_id (f k) = o_id k) \<Longrightarrow> (\<And>k. o_state (f k) = o_state k)
    \<Longrightarrow> tx_inv (trail_extends s) (update_order i f)"
  by (intro trail_keeps keeps)

lemma trail_saga: "tx_inv (trail_extends s) (claim_tx E i its m w amt now)"
    "tx_inv (trail_extends s) (attach_tx E i core ex now)"
    "tx_inv (trail_extends s) (mark_rejection E i st now)"
    "tx_inv (trail_extends s) (mark_unknown i now r)"
  unfolding claim_tx_def reserve_one_def hold_one_def insert_projection_def attach_tx_def
    extend_held_def mark_rejection_def mark_unknown_def find_order_def
  by (intro tx_inv_rules trail_transition trail_update trail_keeps keeps keeps_sql; simp)+

lemma trail_settlement: "tx_inv (trail_extends s) (confirm_settlement E i source now)"
    "tx_inv (trail_extends s) (flag_exception E i reason source now)"
    "tx_inv (trail_extends s) (expire_order E i now)"
    "tx_inv (trail_extends s) (expire_projection i)"
    "tx_inv (trail_extends s) (resolve_accept E i rs actor now)"
    "tx_inv (trail_extends s) (resolve_refund E i actor ref now)"
    "tx_inv (trail_extends s) (resolve_confirm_refund E i actor ref now)"
    "tx_inv (trail_extends s) (cancel_order E i actor rs ctx)"
    "tx_inv (trail_extends s) (release_reservations E i rst now)"
  unfolding confirm_settlement_def flag_exception_def expire_order_def expire_projection_def
    resolve_accept_def accept_item_def resolve_refund_def resolve_confirm_refund_def
    cancel_order_def update_product_def Let_def set_exception_def
  by (intro tx_inv_rules trail_transition trail_event trail_update trail_keeps keeps keeps_sql; simp)+

lemma trail_admin: "tx_inv (trail_extends s) (set_status_tx E m i v now)"
    "tx_inv (trail_extends s) (set_shipping_tx E m i sh tr ca et now)"
    "tx_inv (trail_extends s) (bulk_archive_tx m ids)" "tx_inv (trail_extends s) (bulk_restore_tx m ids)"
    "tx_inv (trail_extends s) (reissue_tx E i token enc now)"
    "tx_inv (trail_extends s) (retention_tx now)" "tx_inv (trail_extends s) (write_mode m v)"
  unfolding set_status_tx_def set_shipping_tx_def bulk_archive_tx_def bulk_restore_tx_def
    reissue_tx_def retention_defs
  by (intro tx_inv_rules trail_transition trail_update trail_keeps keeps audit_keeps_orders keeps_sql
      keeps_write_mode; simp add: erase_order_def)+

lemma trail_intake: "tx_inv (trail_extends s) (insert_order_intake E m k priced n opt scope token now)"
    "tx_inv (trail_extends s) (insert_gamma_order_intake E m i g buyer rumor priced n opt now)"
  unfolding insert_order_intake_def insert_gamma_order_intake_def intake_rows_def Let_def
  by (intro tx_inv_rules trail_insert_order trail_event trail_update trail_keeps keeps keeps_sql; simp)+

lemma trail_queue: "tx_inv (trail_extends s) (claim_batch E now w l)"
    "tx_inv (trail_extends s) (cas_state row st now na e)"
    "tx_inv (trail_extends s) (record_publications E i copy ev n rs now)"
    "tx_inv (trail_extends s) (recover_stale_claims E now)" "tx_inv (trail_extends s) (retry_intent m i)"
    "tx_inv (trail_extends s) (enqueue_payment_request E k b x)"
    "tx_inv (trail_extends s) (attributed_request E i res)" "tx_inv (trail_extends s) (gamma_request E i res)"
    "tx_inv (trail_extends s) (claim_idempotency scope h now)"
    "tx_inv (trail_extends s) (complete_idempotency E scope i c body token)"
    "tx_inv (trail_extends s) (fail_idempotency scope token)"
    "tx_inv (trail_extends s) (notify_context E k)" "tx_inv (trail_extends s) draw"
    "tx_inv (trail_extends s) (seal_column E r tb cl p)" "tx_inv (trail_extends s) (new_uuid E)"
  by (intro trail_keeps keeps; simp)+

lemma trail_service: "service_tx E m \<Longrightarrow> tx_inv (trail_extends s) m"
  by (induction rule: service_tx.induct)
    ((rule tx_inv_ignore, rule trail_saga trail_settlement trail_admin trail_intake trail_queue)
     | (rule trail_keeps, erule keeps_ledgers))+

lemma trail_step: "tx_step E s t \<Longrightarrow> trail_extends s t"
  by (rule step_inv [where I = "trail_extends s"])
    (auto simp: trail_refl trail_service, simp add: trail_extends_def)

section \<open>Runs\<close>

lemma holds_run: "(tx_step E)\<^sup>*\<^sup>* s t \<Longrightarrow> holds_advance s t"
  by (induction rule: rtranclp_induct) (auto intro: holds_advance_refl holds_advance_trans holds_step)

lemma trail_run: "(tx_step E)\<^sup>*\<^sup>* s t \<Longrightarrow> trail_extends s t"
  by (induction rule: rtranclp_induct) (auto intro: trail_refl trail_trans trail_step)

text \<open>
  C3 (Reservation life cycle). Whatever transactions follow, a reservation is never deleted, keeps
  its product, order and quantity, and its state moves at most once, along the table
  \<open>RESERVATION_TRANSITIONS\<close>: a consumed, released or expired reservation never changes again,
  so its stock is returned or sold exactly once.
\<close>

theorem reservation_moves_once:
  assumes "(tx_step E)\<^sup>*\<^sup>* s t" and "r \<in> set (db_reservations s)"
  shows "\<exists>r' \<in> set (db_reservations t). r_id r' = r_id r \<and> r_product_id r' = r_product_id r
    \<and> r_order_id r' = r_order_id r \<and> r_quantity r' = r_quantity r
    \<and> (r_state r' = r_state r \<or> r_state r' \<in> set (reservation_transitions (r_state r)))"
  using holds_run [OF assms(1)] assms(2)
  unfolding holds_advance_def same_hold_def moves_on_def by blast

lemma shop_cancelled: "case cancel_order sample_env ''k'' ''merchant'' None None shop_db of Inl _ \<Rightarrow> False
    | Inr (_, t) \<Rightarrow> map (\<lambda>r. (r_id r, r_state r)) (db_reservations t) = [(''r'', ReReleased)]
        \<and> length (db_events t) = 4"
  by (simp add: evals)

lemma shop_cancel_step:
  "\<exists>t. (tx_step sample_env)\<^sup>*\<^sup>* shop_db t \<and> length (db_events t) = 4
     \<and> map (\<lambda>r. (r_id r, r_state r)) (db_reservations t) = [(''r'', ReReleased)]"
proof -
  obtain a t where run: "cancel_order sample_env ''k'' ''merchant'' None None shop_db = Inr (a, t)"
    and t: "map (\<lambda>r. (r_id r, r_state r)) (db_reservations t) = [(''r'', ReReleased)]"
      "length (db_events t) = 4"
    using shop_cancelled by (auto split: sum.splits)
  have "tx_step sample_env shop_db t"
    by (rule commits [OF cancel [where i = "''k''" and actor = "''merchant''" and reason = None
          and ctx = None]]) (simp add: tx_ignore_Inr run)
  then have "(tx_step sample_env)\<^sup>*\<^sup>* shop_db t" by (rule r_into_rtranclp)
  with t show ?thesis by (intro exI [of _ t] conjI)
qed

lemma reservation_moves_once_witness:
  "\<exists>t. (tx_step sample_env)\<^sup>*\<^sup>* shop_db t \<and> (\<exists>r' \<in> set (db_reservations t).
     r_id r' = ''r'' \<and> r_quantity r' = 3 \<and> r_state r' = ReReleased)"
proof -
  obtain t where run: "(tx_step sample_env)\<^sup>*\<^sup>* shop_db t"
    and t: "map (\<lambda>r. (r_id r, r_state r)) (db_reservations t) = [(''r'', ReReleased)]"
    using shop_cancel_step by (elim exE conjE)
  have "sample_reservation ''r'' ''p'' ''k'' 3 ReHeld \<in> set (db_reservations shop_db)"
    by (simp add: shop_db_def)
  from reservation_moves_once [OF run this] obtain r' where r': "r' \<in> set (db_reservations t)"
    "r_id r' = ''r''" "r_quantity r' = 3"
    by (auto simp: sample_reservation_def)
  have "(r_id r', r_state r') \<in> set (map (\<lambda>r. (r_id r, r_state r)) (db_reservations t))"
    using r'(1) by simp
  then have "r_state r' = ReReleased" unfolding t by simp
  with run r' show ?thesis by (intro exI [of _ t] conjI bexI [of _ r'])
qed

text \<open>
  C4 (Append-only log, closed orders). Whatever transactions follow, the audit log keeps every event
  it had, in order, at its head; every order keeps its row, and its state moves only along
  \<open>ORDER_TRANSITIONS\<close>. In particular a completed or rejected order never changes state.
\<close>

theorem log_only_grows:
  assumes "(tx_step E)\<^sup>*\<^sup>* s t" and "k \<in> set (db_orders s)"
  shows "(\<exists>es. map (\<lambda>e. (oe_order_id e, oe_from_state e, oe_to_state e)) (db_events t)
      = map (\<lambda>e. (oe_order_id e, oe_from_state e, oe_to_state e)) (db_events s) @ es)
    \<and> (\<exists>k' \<in> set (db_orders t). o_id k' = o_id k \<and> state_path (o_state k) (o_state k')
        \<and> (o_state k \<in> {Completed, Rejected} \<longrightarrow> o_state k' = o_state k))"
proof -
  have T: "trail_extends s t" by (rule trail_run [OF assms(1)])
  then have "\<exists>b. (o_id k, b) \<in> set (fst (audit_view t)) \<and> state_path (o_state k) b"
    using assms(2) by (fastforce simp: trail_extends_def audit_view_def)
  then obtain k' where k': "k' \<in> set (db_orders t)" "o_id k' = o_id k"
    "state_path (o_state k) (o_state k')"
    by (auto simp: audit_view_def)
  moreover have "o_state k' = o_state k" if "o_state k \<in> {Completed, Rejected}"
    using k'(3) that unfolding state_path_def by (auto elim: converse_rtranclpE)
  ultimately show ?thesis
    using T unfolding trail_extends_def audit_view_def snd_conv by blast
qed

lemma log_only_grows_witness:
  "\<exists>t. (tx_step sample_env)\<^sup>*\<^sup>* shop_db t \<and> length (db_events t) = 4 \<and>
     (\<exists>es. map (\<lambda>e. (oe_order_id e, oe_from_state e, oe_to_state e)) (db_events t) = map (\<lambda>e. (oe_order_id e, oe_from_state e, oe_to_state e)) (db_events shop_db) @ es)"
proof -
  obtain t where run: "(tx_step sample_env)\<^sup>*\<^sup>* shop_db t" and t: "length (db_events t) = 4"
    using shop_cancel_step by (elim exE conjE)
  have "sample_order ''k'' AwaitingPayment \<in> set (db_orders shop_db)" by (simp add: shop_db_def)
  from log_only_grows [OF run this] have "\<exists>es. map (\<lambda>e. (oe_order_id e, oe_from_state e, oe_to_state e))
      (db_events t)
    = map (\<lambda>e. (oe_order_id e, oe_from_state e, oe_to_state e)) (db_events shop_db) @ es"
    by (rule conjunct1)
  with run t show ?thesis by (intro exI [of _ t] conjI)
qed

end
