(* ===== verification/Transitions.thy ===== *)
theory Transitions
  imports AuditTrail Samples
begin

text \<open>
  \<open>transition_order\<close> is the single entry to the order state machine: what a run that commits
  has changed, and exactly when it refuses.
\<close>

section \<open>The effect\<close>

abbreviation entered :: "order_state \<Rightarrow> int \<Rightarrow> order_row \<Rightarrow> order_row" where
  "entered st now k \<equiv> k\<lparr>o_state := st, o_updated_at := now, o_archived_at := None\<rparr>"

lemma transition_from_rows:
  assumes run: "transition_from E i f to_state actor reason detail now s = Inr (r, t)"
    and ids: "distinct (map o_id (db_orders s))"
  shows "db_orders t = map (\<lambda>k. if o_id k = i then entered to_state now k else k) (db_orders s)"
    and "db_events t = db_events s
      @ [event_row (uuid4 E (db_draws s)) i (Some f) to_state actor (event_payload reason detail) now]"
proof -
  obtain s1 s2 s3 where
    s1: "cas_order_state i f to_state s = Inr (1, s1)" and
    s2: "update_order i (\<lambda>k. k\<lparr>o_updated_at := now, o_archived_at := None\<rparr>) s1 = Inr ((), s2)" and
    s3: "insert_event E i (Some f) to_state actor (event_payload reason detail) now s2 = Inr ((), s3)" and
    s4: "(case List.find (\<lambda>k. o_id k = i) (db_orders s3) of
         None \<Rightarrow> tx_return ()
       | Some k \<Rightarrow> tx_when (truthy (o_buyer_pubkey_hash k))
           (tx_ignore (enqueue_status E k to_state reason))) s3 = Inr ((), t)"
    using run by (auto simp: transition_from_def tx_Inr find_order_def)
  have n1: "length (filter (\<lambda>k. o_id k = i \<and> o_state k = f) (db_orders s)) = 1"
    and s1': "s1 = db_orders_update (upd_rows (\<lambda>k. o_id k = i \<and> o_state k = f) (\<lambda>k. k\<lparr>o_state := to_state\<rparr>)) s"
    using s1 by (auto simp: cas_order_state_def sql_Inr)
  obtain k where k: "k \<in> set (db_orders s)" "o_id k = i" "o_state k = f"
    using filter_nonempty_ex [of "\<lambda>k. o_id k = i \<and> o_state k = f" _ 0] n1 by auto
  have only: "o_id q = i \<and> o_state q = f \<longleftrightarrow> o_id q = i" if "q \<in> set (db_orders s)" for q
    using distinct_key_eq [OF ids that k(1)] k by auto
  have o2: "db_orders s2 = map (\<lambda>k. if o_id k = i then entered to_state now k else k) (db_orders s)"
    using s2 only by (auto simp: s1' update_order_def tx_Inr sql_Inr upd_rows_def)
  have e2: "db_events s2 = db_events s" "db_draws s2 = db_draws s"
    using s2 by (auto simp: s1' update_order_def tx_Inr sql_Inr)
  have "tx_keeps (\<lambda>s. (db_orders s, db_events s)) (case List.find (\<lambda>k. o_id k = i) (db_orders s3) of
         None \<Rightarrow> tx_return ()
       | Some k \<Rightarrow> tx_when (truthy (o_buyer_pubkey_hash k))
           (tx_ignore (enqueue_status E k to_state reason)))"
    by (intro keeps) simp_all
  from tx_keepsD [OF this s4] have t: "db_orders t = db_orders s3" "db_events t = db_events s3"
    by simp_all
  show "db_orders t = map (\<lambda>k. if o_id k = i then entered to_state now k else k) (db_orders s)"
    "db_events t = db_events s
      @ [event_row (uuid4 E (db_draws s)) i (Some f) to_state actor (event_payload reason detail) now]"
    using s3 o2 e2 by (auto simp: t insert_event_def tx_Inr sql_Inr)
qed

lemma transition_order_from:
  assumes run: "transition_order E i to_state from_state actor reason detail now s = Inr (f, t)"
  shows "transition_from E i f to_state actor reason detail now s = Inr (f, t)"
    and "from_state \<in> {None, Some f}"
proof -
  from run obtain g where g: "transition_from E i g to_state actor reason detail now s = Inr (f, t)"
    "from_state \<in> {None, Some g}"
    by (auto simp: transition_order_def find_order_def tx_Inr split: option.splits)
  then show "transition_from E i f to_state actor reason detail now s = Inr (f, t)"
    "from_state \<in> {None, Some f}"
    using transition_from_run(1) [OF g(1)] by auto
qed

text \<open>
  C18 (Transition). A transition that commits went from the state the order was in, along the table,
  with a reason where one is required; it rewrites the state, the time stamp and the archive
  mark of that one order, appends exactly one event, with the actor, the reason and the detail
  it was given, and leaves the stock as it was.
\<close>

theorem transition_moves_one_order:
  assumes run: "transition_order E i to_state from_state actor reason detail now s = Inr (f, t)"
    and ids: "distinct (map o_id (db_orders s))"
  shows "to_state \<in> set (order_transitions f) \<and> (reason_required f to_state \<longrightarrow> truthy reason)
    \<and> from_state \<in> {None, Some f} \<and> (\<exists>k \<in> set (db_orders s). o_id k = i \<and> o_state k = f)
    \<and> db_orders t = map (\<lambda>k. if o_id k = i
        then k\<lparr>o_state := to_state, o_updated_at := now, o_archived_at := None\<rparr> else k) (db_orders s)
    \<and> db_events t = db_events s @ [\<lparr>oe_id = uuid4 E (db_draws s), oe_order_id = i,
        oe_from_state = Some f, oe_to_state = to_state, oe_actor = actor,
        oe_detail_json = (let payload = (case reason of None \<Rightarrow> [] | Some r \<Rightarrow> [(''reason'', JStr r)])
            @ detail in if payload = [] then None else Some (JObj payload)),
        oe_created_at = now\<rparr>]
    \<and> stock_view t = stock_view s"
proof -
  note from_f = transition_order_from [OF run]
  have "stock_view t = stock_view s" by (rule tx_keepsD [OF stock_transition_order run])
  then show ?thesis
    using transition_from_run(2-4) [OF from_f(1)] transition_from_rows [OF from_f(1) ids] from_f(2)
    by (auto simp: event_row_def event_payload_def Let_def)
qed

lemma transition_moves_one_order_witness:
  "case transition_order sample_env ''k'' Cancelled None ''merchant'' (Some ''sold out'') [] 50 shop_db of
     Inl _ \<Rightarrow> False
   | Inr (f, t) \<Rightarrow> f = AwaitingPayment \<and> map o_state (db_orders t) = [Cancelled]
       \<and> length (db_events t) = 4 \<and> stock_view t = stock_view shop_db"
proof -
  have "case transition_order sample_env ''k'' Cancelled None ''merchant'' (Some ''sold out'') [] 50 shop_db of
     Inl _ \<Rightarrow> False | Inr (f, t) \<Rightarrow> f = AwaitingPayment"
    by (simp add: evals)
  then obtain t where run: "transition_order sample_env ''k'' Cancelled None ''merchant''
      (Some ''sold out'') [] 50 shop_db = Inr (AwaitingPayment, t)"
    by (auto split: sum.splits)
  have ids: "distinct (map o_id (db_orders shop_db))" by (simp add: evals)
  show ?thesis
    unfolding run using transition_moves_one_order [OF run ids] by (simp add: evals)
qed

section \<open>Refusals\<close>

text \<open>
  Refusal. A move off the table, or one that needs a reason and has none, is refused as illegal
  whatever the database holds; a legal move whose order is missing or is no longer in the
  expected state is refused as a conflict. Either way nothing is written.
\<close>

theorem transition_refusals:
  assumes "orders_ok s"
  shows "(to_state \<notin> set (order_transitions f) \<or> reason_required f to_state \<and> \<not> truthy reason \<longrightarrow>
      transition_order E i to_state (Some f) actor reason detail now s = Inl IllegalTransition)
    \<and> (to_state \<in> set (order_transitions f) \<and> (reason_required f to_state \<longrightarrow> truthy reason)
        \<and> (\<forall>k \<in> set (db_orders s). o_id k = i \<longrightarrow> o_state k \<noteq> f) \<longrightarrow>
      transition_order E i to_state (Some f) actor reason detail now s = Inl TransitionConflict)
    \<and> ((\<forall>k \<in> set (db_orders s). o_id k \<noteq> i) \<longrightarrow>
      transition_order E i to_state None actor reason detail now s = Inl TransitionConflict)"
proof -
  have gone: "cas_order_state i f to_state s = Inr (0, s)"
    if "\<forall>k \<in> set (db_orders s). o_id k = i \<longrightarrow> o_state k \<noteq> f"
  proof -
    have none: "\<not> (o_id k = i \<and> o_state k = f)" if "k \<in> set (db_orders s)" for k
      using that \<open>\<forall>k \<in> set (db_orders s). o_id k = i \<longrightarrow> o_state k \<noteq> f\<close> by blast
    then have "db_orders_update (upd_rows (\<lambda>k. o_id k = i \<and> o_state k = f) (\<lambda>k. k\<lparr>o_state := to_state\<rparr>)) s = s"
      by (cases s) (simp add: upd_rows_None)
    moreover have "filter (\<lambda>k. o_id k = i \<and> o_state k = f) (db_orders s) = []"
      using none by (simp only: filter_empty_conv) blast
    ultimately show ?thesis
      using assms by (simp add: cas_order_state_def sql_update_def Let_def)
  qed
  have missing: "List.find (\<lambda>k. o_id k = i) (db_orders s) = None"
    if "\<forall>k \<in> set (db_orders s). o_id k \<noteq> i"
    using that by (simp add: find_None_iff)
  show ?thesis
  proof (intro conjI impI)
    assume "to_state \<notin> set (order_transitions f) \<or> reason_required f to_state \<and> \<not> truthy reason"
    then show "transition_order E i to_state (Some f) actor reason detail now s = Inl IllegalTransition"
      by (auto simp: transition_order_def transition_from_def tx_defs)
  next
    assume "to_state \<in> set (order_transitions f) \<and> (reason_required f to_state \<longrightarrow> truthy reason)
        \<and> (\<forall>k \<in> set (db_orders s). o_id k = i \<longrightarrow> o_state k \<noteq> f)"
    then show "transition_order E i to_state (Some f) actor reason detail now s = Inl TransitionConflict"
      using gone by (simp add: transition_order_def transition_from_def tx_defs)
  next
    assume "\<forall>k \<in> set (db_orders s). o_id k \<noteq> i"
    then show "transition_order E i to_state None actor reason detail now s = Inl TransitionConflict"
      using missing by (simp add: transition_order_def find_order_def sql_one_def tx_defs)
  qed
qed

text \<open>Completing an order that waits for its payment; confirming one that was never there.\<close>

lemma transition_refusals_witness:
  "transition_order sample_env ''k'' Completed (Some AwaitingPayment) ''merchant'' None [] 50 shop_db
     = Inl IllegalTransition
   \<and> transition_order sample_env ''z'' Confirmed (Some AwaitingPayment) ''merchant'' None [] 50 shop_db
     = Inl TransitionConflict"
proof -
  have ok: "orders_ok shop_db" by (simp add: orders_ok_def evals)
  have "transition_order sample_env ''k'' Completed (Some AwaitingPayment) ''merchant'' None [] 50 shop_db
     = Inl IllegalTransition"
    by (rule transition_refusals [OF ok, THEN conjunct1, rule_format]) simp
  moreover have "transition_order sample_env ''z'' Confirmed (Some AwaitingPayment) ''merchant'' None [] 50 shop_db
     = Inl TransitionConflict"
    by (rule transition_refusals [OF ok, THEN conjunct2, THEN conjunct1, rule_format])
      (simp add: shop_db_def sample_order_def reason_required_def)
  ultimately show ?thesis by (rule conjI)
qed

end
