(* ===== verification/StockEffects.thy ===== *)
theory StockEffects
  imports Settlement Samples
begin

text \<open>
  What the operations on stock do, exactly: the claim takes the quantities of the order's
  items and nothing else, release and settlement drain them again, and a failed invoice
  undoes its claim.
\<close>

section \<open>The claim\<close>

definition held_by :: "id \<Rightarrow> reservation \<Rightarrow> bool" where
  "held_by i r \<longleftrightarrow> r_order_id r = i \<and> r_state r = ReHeld"

definition taken :: "(id \<Rightarrow> int) \<Rightarrow> product \<Rightarrow> id \<times> int option \<times> int" where
  "taken w p = (p_id p, p_stock_on_hand p, p_stock_reserved p + w (p_id p))"

lemma reserve_one_stock:
  assumes run: "reserve_one it s = Inr (u, t)" and ids: "distinct (map p_id (db_products s))"
  shows "map product_stock (db_products t)
      = map (\<lambda>(i, h, v). (i, h, if i = oi_product_id it then v + oi_quantity it else v))
          (map product_stock (db_products s))"
    and "db_reservations t = db_reservations s" and "products_ok t"
proof -
  obtain m where "update_product (oi_product_id it)
      (\<lambda>p. p\<lparr>p_stock_reserved := p_stock_reserved p + oi_quantity it\<rparr>) s = Inr (m, t)"
    using reserve_one_run(1) [OF run ids] by blast
  then show "map product_stock (db_products t)
      = map (\<lambda>(i, h, v). (i, h, if i = oi_product_id it then v + oi_quantity it else v))
          (map product_stock (db_products s))"
    "db_reservations t = db_reservations s" "products_ok t"
    by (auto simp: update_product_def sql_Inr upd_rows_def product_stock_def)
qed

lemma reserve_all_stock:
  assumes run: "tx_for its reserve_one s = Inr (u, t)" and ids: "distinct (map p_id (db_products s))"
  shows "map product_stock (db_products t) = map (taken (wanted its)) (db_products s)
    \<and> db_reservations t = db_reservations s"
proof -
  define P where "P = (\<lambda>ys (s1 :: db). map product_stock (db_products s1)
      = map (taken (\<lambda>i. wanted its i - wanted ys i)) (db_products s)
    \<and> db_reservations s1 = db_reservations s)"
  have "P [] t"
  proof (rule tx_for_hoare [OF _ run])
    show "P its s" by (simp add: P_def taken_def product_stock_def)
  next
    fix it ys s1 u t1
    assume P: "P (it # ys) s1" and run1: "reserve_one it s1 = Inr (u, t1)"
    have "map p_id (db_products s1) = map fst (map product_stock (db_products s1))"
      by (simp add: product_stock_def)
    also have "\<dots> = map p_id (db_products s)"
      using P by (simp add: P_def taken_def del: map_map) (simp add: taken_def)
    finally have "distinct (map p_id (db_products s1))" using ids by simp
    note step = reserve_one_stock [OF run1 this]
    have "map product_stock (db_products t1)
      = map (\<lambda>(i, h, v). (i, h, if i = oi_product_id it then v + oi_quantity it else v))
          (map (taken (\<lambda>i. wanted its i - wanted (it # ys) i)) (db_products s))"
      using step(1) P by (simp only: P_def)
    then show "P ys t1" using step(2) P by (simp add: P_def taken_def)
  qed
  then show ?thesis by (simp add: P_def wanted_Nil)
qed

definition claimed :: "id \<Rightarrow> order_item \<Rightarrow> id \<times> id \<times> int \<times> reservation_state" where
  "claimed i it = (oi_product_id it, i, oi_quantity it, ReHeld)"

definition hold_of :: "reservation \<Rightarrow> id \<times> id \<times> int \<times> reservation_state" where
  "hold_of r = (r_product_id r, r_order_id r, r_quantity r, r_state r)"

lemma hold_all_rows:
  assumes run: "tx_for its (hold_one E i ex now) s = Inr (u, t)"
  shows "\<exists>rs. db_reservations t = db_reservations s @ rs \<and> map hold_of rs = map (claimed i) its
    \<and> db_products t = db_products s"
  using run
proof (induction its arbitrary: s)
  case Nil
  then show ?case by simp
next
  case (Cons it its)
  obtain s1 where s1: "hold_one E i ex now it s = Inr ((), s1)"
    and rest: "tx_for its (hold_one E i ex now) s1 = Inr (u, t)"
    using Cons.prems by (auto simp: tx_seq_Inr)
  obtain r where r: "db_reservations s1 = db_reservations s @ [r]" "hold_of r = claimed i it"
    "db_products s1 = db_products s"
    using s1 by (auto simp: hold_one_def tx_Inr sql_Inr hold_of_def claimed_def)
  obtain rs where "db_reservations t = db_reservations s1 @ rs" "map hold_of rs = map (claimed i) its"
    "db_products t = db_products s1"
    using Cons.IH [OF rest] by blast
  with r show ?case by (intro exI [of _ "r # rs"]) simp
qed

lemma claim_tx_stock:
  assumes run: "claim_tx E i its m w amt now s = Inr (u, t)"
    and ids: "distinct (map p_id (db_products s))"
  shows "map product_stock (db_products t) = map (taken (wanted its)) (db_products s)
    \<and> (\<exists>rs. db_reservations t = db_reservations s @ rs \<and> map hold_of rs = map (claimed i) its)"
proof -
  obtain st s1 s2 s3 where
    s1: "transition_order E i InvoicePending (Some Received) ''system'' None [] now s = Inr (st, s1)" and
    s2: "tx_for (sort_key oi_product_id its) reserve_one s1 = Inr ((), s2)" and
    s3: "tx_for its (hold_one E i (now + reservation_ttl E) now) s2 = Inr ((), s3)" and
    t: "insert_projection E i m w amt now s3 = Inr ((), t)"
    using run by (auto simp: claim_tx_def tx_Inr)
  have keep: "tx_keeps (\<lambda>s. (db_products s, db_reservations s))
      (transition_order E i InvoicePending (Some Received) ''system'' None [] now)"
    by (rule keeps_transition_order) simp_all
  have e1: "db_products s1 = db_products s" "db_reservations s1 = db_reservations s"
    using tx_keepsD [OF keep s1] by simp_all
  have "tx_keeps (\<lambda>s. (db_products s, db_reservations s)) (insert_projection E i m w amt now)"
    unfolding insert_projection_def by (intro keeps keeps_sql) simp_all
  then have e3: "db_products t = db_products s3" "db_reservations t = db_reservations s3"
    using t by (auto dest: tx_keepsD)
  show ?thesis
    using reserve_all_stock [OF s2] hold_all_rows [OF s3] ids
    by (auto simp: e1 e3 wanted_sort)
qed

text \<open>
  C6 (Claim). A claim that commits adds to each product's \<open>stock_reserved\<close> exactly the quantity the
  order's items ask of it, which the free stock of a counted product covered, and appends one
  held reservation per item; every other product and reservation is as before.
\<close>

theorem claim_takes_free_stock:
  assumes run: "claim_tx E i its m w amt now s = Inr (u, t)" and ok: "stock_ok s"
  shows "map product_stock (db_products t)
      = map (\<lambda>p. (p_id p, p_stock_on_hand p, p_stock_reserved p + wanted its (p_id p))) (db_products s)
    \<and> (\<forall>p \<in> set (db_products s). case p_stock_on_hand p of None \<Rightarrow> True
         | Some h \<Rightarrow> wanted its (p_id p) \<le> h - p_stock_reserved p)
    \<and> (\<exists>rs. db_reservations t = db_reservations s @ rs
         \<and> map (\<lambda>r. (r_product_id r, r_order_id r, r_quantity r, r_state r)) rs
           = map (\<lambda>it. (oi_product_id it, i, oi_quantity it, ReHeld)) its)"
proof -
  have ids: "distinct (map p_id (db_products s))" using ok by (simp add: stock_ok_def balanced_def off_by_tables)
  note T = claim_tx_stock [OF run ids]
  have "case p_stock_on_hand p of None \<Rightarrow> True | Some h \<Rightarrow> wanted its (p_id p) \<le> h - p_stock_reserved p"
    if p: "p \<in> set (db_products s)" for p
  proof -
    have "taken (wanted its) p \<in> set (fst (stock_view t))"
      using T p by (simp add: stock_view_def)
    moreover have "off_by (\<lambda>_. 0) (stock_view t)"
      using tx_invD [OF stock_claim_tx ok run] by (simp add: stock_ok_def balanced_def)
    ultimately have "fits (p_stock_on_hand p) (p_stock_reserved p + wanted its (p_id p))"
      by (auto simp: off_by_def taken_def)
    then show ?thesis by (auto simp: fits_def split: option.splits)
  qed
  moreover have "\<exists>rs. db_reservations t = db_reservations s @ rs
      \<and> map (\<lambda>r. (r_product_id r, r_order_id r, r_quantity r, r_state r)) rs
        = map (\<lambda>it. (oi_product_id it, i, oi_quantity it, ReHeld)) its"
    using T [THEN conjunct2] by (simp only: hold_of_def [abs_def] claimed_def [abs_def])
  ultimately show ?thesis using T by (simp add: taken_def [abs_def])
qed

lemma claim_takes_free_stock_witness:
  "case claim_tx sample_env ''k'' [sample_item ''i'' ''k'' ''p'' 3] sample_merchant ''w'' 30 1000 intake_db of
     Inl _ \<Rightarrow> False
   | Inr (_, t) \<Rightarrow> map product_stock (db_products t) = [(''p'', Some 5, 3)]
       \<and> map hold_of (db_reservations t) = [(''p'', ''k'', 3, ReHeld)]"
proof -
  let ?its = "[sample_item ''i'' ''k'' ''p'' 3]"
  have "case claim_tx sample_env ''k'' ?its sample_merchant ''w'' 30 1000 intake_db of
      Inl _ \<Rightarrow> False | Inr (_, t) \<Rightarrow> True"
    by (simp add: evals MAX_HELD_PER_PRODUCT_def)
  then obtain t where run: "claim_tx sample_env ''k'' ?its sample_merchant ''w'' 30 1000 intake_db = Inr ((), t)"
    by (auto split: sum.splits)
  have ok: "stock_ok intake_db"
    by (simp add: stock_ok_def balanced_def off_by_tables evals fits_def held_qty_def)
  show ?thesis
    unfolding run using claim_takes_free_stock [OF run ok]
    by (auto simp: evals product_stock_def hold_of_def [abs_def])
qed

section \<open>Release and consumption\<close>

lemma drained_holds:
  assumes "st \<noteq> ReHeld"
  shows "filter (\<lambda>r. r_order_id r = i \<and> r_state r = ReHeld)
    (upd_rows (\<lambda>r. r_order_id r = i \<and> r_state r = ReHeld)
       (\<lambda>r. r\<lparr>r_state := st, r_updated_at := now\<rparr>) rs) = []"
  using assms by (induction rs) (simp_all add: upd_rows_Cons)

lemma release_nothing:
  assumes "filter (\<lambda>r. r_order_id r = i \<and> r_state r = ReHeld) (db_reservations s) = []"
  shows "release_reservations E i st now s = Inr (0, s)"
  unfolding release_reservations_def held_of_order_def sql_all_def tx_bind_def tx_get_def
  by (simp only: sum.case prod.case assms tx_fold.simps tx_return_def)

lemma foldl_total: "foldl (\<lambda>a r. a + f r) (b :: int) rs = b + sum_list (map f rs)"
  by (induction rs arbitrary: b) auto

lemma release_returns_held_stock_rows:
  assumes run: "release_reservations E i st now s = Inr (n, t)" and st: "st \<noteq> ReHeld"
    and ids: "distinct (map r_id (db_reservations s))"
  shows "db_reservations t = map (\<lambda>r. if r_order_id r = i \<and> r_state r = ReHeld
        then r\<lparr>r_state := st, r_updated_at := now\<rparr> else r) (db_reservations s)"
    and "map product_stock (db_products t) = map (\<lambda>p. (p_id p, p_stock_on_hand p,
      p_stock_reserved p - held_qty (filter (\<lambda>r. r_order_id r = i) (db_reservations s)) (p_id p)))
      (db_products s)"
    and "n = sum_list (map r_quantity
      (filter (\<lambda>r. r_order_id r = i \<and> r_state r = ReHeld) (db_reservations s)))"
proof -
  note D = reservation_drain.drain [OF release_drains [OF st] run [unfolded release_reservations_def] ids]
  have held: "held_qty (filter (\<lambda>r. r_order_id r = i \<and> r_state r = ReHeld) rs)
      = held_qty (filter (\<lambda>r. r_order_id r = i) rs)" for rs
    by (rule ext) (simp add: held_qty_def conj_ac)
  show "db_reservations t = map (\<lambda>r. if r_order_id r = i \<and> r_state r = ReHeld
        then r\<lparr>r_state := st, r_updated_at := now\<rparr> else r) (db_reservations s)"
    using D by (simp add: reservation_drain.settle_row_def [OF release_drains [OF st], abs_def] upd_rows_def)
  show "map product_stock (db_products t) = map (\<lambda>p. (p_id p, p_stock_on_hand p,
      p_stock_reserved p - held_qty (filter (\<lambda>r. r_order_id r = i) (db_reservations s)) (p_id p)))
      (db_products s)"
    using D by (simp add: reservation_drain.drained_def [OF release_drains [OF st], abs_def]
        held option.map_ident)
  show "n = sum_list (map r_quantity
      (filter (\<lambda>r. r_order_id r = i \<and> r_state r = ReHeld) (db_reservations s)))"
    using D by (simp add: foldl_total)
qed

text \<open>
  C16 (Release). Releasing an order's reservations, to any final state, flips exactly its held rows,
  gives each product back their quantity and returns the total; releasing again changes nothing.
\<close>

theorem release_returns_held_stock:
  assumes run: "release_reservations E i st now s = Inr (n, t)" and st: "st \<noteq> ReHeld"
    and ids: "distinct (map r_id (db_reservations s))"
  shows "n = sum_list (map r_quantity (filter (\<lambda>r. r_order_id r = i \<and> r_state r = ReHeld)
        (db_reservations s)))
    \<and> db_reservations t = map (\<lambda>r. if r_order_id r = i \<and> r_state r = ReHeld
        then r\<lparr>r_state := st, r_updated_at := now\<rparr> else r) (db_reservations s)
    \<and> map product_stock (db_products t)
      = map (\<lambda>p. (p_id p, p_stock_on_hand p, p_stock_reserved p
            - held_qty (filter (\<lambda>r. r_order_id r = i) (db_reservations s)) (p_id p))) (db_products s)
    \<and> release_reservations E i st' now' t = Inr (0, t)"
proof -
  note R = release_returns_held_stock_rows [OF run st ids]
  have "release_reservations E i st' now' t = Inr (0, t)"
    by (rule release_nothing) (use R(1) drained_holds [OF st] in \<open>simp add: upd_rows_def\<close>)
  then show ?thesis using R by (intro conjI)
qed

lemma release_returns_held_stock_witness:
  "case release_reservations sample_env ''k'' ReReleased 50 shop_db of Inl _ \<Rightarrow> False
   | Inr (n, t) \<Rightarrow> n = 3 \<and> map product_stock (db_products t) = [(''p'', Some 5, 0)]
       \<and> release_reservations sample_env ''k'' ReExpired 60 t = Inr (0, t)"
proof -
  have "case release_reservations sample_env ''k'' ReReleased 50 shop_db of
      Inl _ \<Rightarrow> False | Inr (n, t) \<Rightarrow> True"
    by (simp add: evals)
  then obtain n t where run: "release_reservations sample_env ''k'' ReReleased 50 shop_db = Inr (n, t)"
    by (auto split: sum.splits)
  have ids: "distinct (map r_id (db_reservations shop_db))" by (simp add: evals)
  show ?thesis
    unfolding run using release_returns_held_stock [OF run _ ids, of ReExpired 60]
    by (simp add: evals product_stock_def held_qty_def)
qed

section \<open>A failed invoice undoes its claim\<close>

lemma held_of_claimed: "map hold_of rs = map (claimed i) its \<Longrightarrow> held_qty rs = wanted its"
proof (induction its arbitrary: rs)
  case Nil
  then show ?case by (simp add: wanted_Nil held_qty_def [abs_def])
next
  case (Cons it its)
  then obtain r rs' where "rs = r # rs'" "hold_of r = claimed i it" "map hold_of rs' = map (claimed i) its"
    by (cases rs) auto
  moreover from this(3) have "held_qty rs' = wanted its" by (rule Cons.IH)
  ultimately show ?case
    by (intro ext) (simp add: held_qty_Cons hold_of_def claimed_def)
qed

lemma claimed_rows: "map hold_of rs = map (claimed i) its \<Longrightarrow> r \<in> set rs \<Longrightarrow> r_order_id r = i \<and> r_state r = ReHeld"
proof -
  assume "map hold_of rs = map (claimed i) its" "r \<in> set rs"
  then have "hold_of r \<in> claimed i ` set its" by (metis imageI set_map)
  then show ?thesis by (auto simp: hold_of_def claimed_def)
qed

lemma mark_rejection_run:
  assumes run: "mark_rejection E i st now s = Inr (u, t)"
    and k: "k \<in> set (db_orders s)" "o_id k = i" "o_state k = st" and ids: "distinct (map o_id (db_orders s))"
  shows "\<exists>s1 s2 f n. update_payment i {PyCreating, PyCreationUnknown} (\<lambda>p. p\<lparr>pay_status := PyFailed\<rparr>) s = Inr (n, s1)
    \<and> (\<exists>reason. transition_from E i st Rejected ''system'' reason [] now s1 = Inr (f, s2))
    \<and> (\<exists>m. release_reservations E i ReReleased now s2 = Inr (m, t))"
proof -
  have "List.find (\<lambda>k. o_id k = i) (db_orders s) = Some k"
    using find_key [OF ids k(1)] k(2) by simp
  then show ?thesis using run k(3)
    by (auto simp: mark_rejection_def find_order_def tx_Inr transition_order_def)
qed

text \<open>
  C13 (Compensation). When LNbits refuses the invoice after the claim has committed, the saga ends
  with the order rejected, every product's stock as it was before the claim, and the reservations
  it made released; it leaves the reservations of other orders alone.
\<close>

theorem failed_invoice_returns_the_stock:
  assumes run: "begin_saga E L i now s = (Inr res, t)"
    and inputs: "saga_inputs E i s = Inr (k, items, m, wallet)"
    and refused: "ln_create_invoice L (core_external_id i) wallet (o_total_sat k) = InvoiceFailed"
    and fresh: "\<forall>r \<in> set (db_reservations s). r_order_id r \<noteq> i"
    and ok: "stock_ok s" "audit_ok s"
  shows "map product_stock (db_products t) = map product_stock (db_products s)
    \<and> (\<exists>rs. db_reservations t = db_reservations s @ rs
         \<and> (\<forall>r \<in> set rs. r_order_id r = i \<and> r_state r = ReReleased))
    \<and> audit_view t = move i InvoicePending Rejected (move i Received InvoicePending (audit_view s))
    \<and> sr_state res = Rejected"
proof -
  obtain s1 where claim: "claim_tx E i items m wallet (o_total_sat k) now s = Inr ((), s1)"
    and rej: "mark_rejection E i InvoicePending (db_clock s1) s1 = Inr ((), t)"
    and res: "sr_state res = Rejected"
    using run inputs refused
    by (auto simp: begin_saga_def pr_Inr pr_lift_def split: if_splits)
  obtain st s0 where tr: "transition_from E i Received InvoicePending ''system'' None [] now s = Inr (st, s0)"
    and rest: "tx_seq (tx_for (sort_key oi_product_id items) reserve_one)
      (tx_seq (tx_for items (hold_one E i (now + reservation_ttl E) now))
        (insert_projection E i m wallet (o_total_sat k) now)) s0 = Inr ((), s1)"
    using claim by (auto simp: claim_tx_def tx_bind_Inr transition_order_def)
  have "audit_view s1 = audit_view s0"
    using rest by (rule tx_keepsD [rotated])
      (unfold reserve_one_def hold_one_def insert_projection_def, intro keeps keeps_sql audit_view_other)
  then have audit1: "audit_view s1 = move i Received InvoicePending (audit_view s)"
    using transition_from_run(5) [OF tr] by simp
  have "audit_ok s1" using tx_invD [OF audit_claim_tx ok(2) claim] .
  then have ids1: "distinct (map o_id (db_orders s1))"
    by (simp add: audit_ok_def replays_def audit_view_def comp_def)
  have "(i, Received) \<in> set (fst (audit_view s))"
    using transition_from_run(4) [OF tr] by (auto simp: audit_view_def)
  then have "(i, InvoicePending) \<in> set (fst (audit_view s1))"
    unfolding audit1 move_def by force
  then obtain k1 where k1: "k1 \<in> set (db_orders s1)" "o_id k1 = i" "o_state k1 = InvoicePending"
    by (auto simp: audit_view_def)
  obtain s2 s3 f n m' reason where
    s2: "update_payment i {PyCreating, PyCreationUnknown} (\<lambda>p. p\<lparr>pay_status := PyFailed\<rparr>) s1 = Inr (n, s2)" and
    s3: "transition_from E i InvoicePending Rejected ''system'' reason [] (db_clock s1) s2 = Inr (f, s3)" and
    rel: "release_reservations E i ReReleased (db_clock s1) s3 = Inr (m', t)"
    using mark_rejection_run [OF rej k1 ids1] by blast
  have a2: "audit_view s2 = audit_view s1" and v2: "stock_view s2 = stock_view s1"
    using s2 by (auto simp: update_payment_def sql_Inr)
  have v3: "stock_view s3 = stock_view s2"
    using s3 tx_keepsD [OF stock_transition_order [of E i Rejected "Some InvoicePending"]]
    by (simp add: transition_order_def)
  have ids: "distinct (map p_id (db_products s))"
    using ok(1) by (simp add: stock_ok_def balanced_def off_by_tables)
  obtain rs where C: "map product_stock (db_products s1) = map (taken (wanted items)) (db_products s)"
    "db_reservations s1 = db_reservations s @ rs" "map hold_of rs = map (claimed i) items"
    using claim_tx_stock [OF claim ids] by blast
  have r3: "db_reservations s3 = db_reservations s @ rs"
    "map product_stock (db_products s3) = map (taken (wanted items)) (db_products s)"
    using v2 v3 C by (simp_all add: stock_view_def)
  have rids: "distinct (map r_id (db_reservations s3))"
    using tx_invD [OF stock_claim_tx ok(1) claim] v2 v3
    by (simp add: stock_ok_def balanced_def off_by_def stock_view_def)
  note R = release_returns_held_stock_rows [OF rel _ rids]
  have mine: "filter (\<lambda>r. r_order_id r = i) (db_reservations s3) = rs"
    using fresh claimed_rows [OF C(3)] by (simp add: r3)
  have "map product_stock (db_products t) = map (\<lambda>(j, h, v). (j, h, v - held_qty rs j))
      (map product_stock (db_products s3))"
    using R by (simp add: mine product_stock_def comp_def)
  also have "\<dots> = map product_stock (db_products s)"
    unfolding r3(2) by (simp add: taken_def product_stock_def held_of_claimed [OF C(3)])
  finally have "map product_stock (db_products t) = map product_stock (db_products s)" .
  moreover have "db_reservations t = db_reservations s @
      map (\<lambda>r. r\<lparr>r_state := ReReleased, r_updated_at := db_clock s1\<rparr>) rs"
    using R fresh claimed_rows [OF C(3)] by (simp add: r3(1) map_idI)
  moreover have "audit_view t = audit_view s3" by (rule tx_keepsD [OF audit_release rel])
  ultimately show ?thesis
    using claimed_rows [OF C(3)] transition_from_run(5) [OF s3] res by (auto simp: a2 audit1)
qed

definition refusing :: lnbits where
  "refusing = \<lparr>ln_decode = (\<lambda>b. None), ln_wallet_user = (\<lambda>w. Some ''o''),
     ln_create_invoice = (\<lambda>x w a. InvoiceFailed), ln_payments = (\<lambda>x. []), ln_paid = (\<lambda>c. Some False)\<rparr>"

lemma failed_invoice_returns_the_stock_witness:
  "case begin_saga sample_env refusing ''k'' 1000 intake_db of (Inl _, _) \<Rightarrow> False
   | (Inr res, t) \<Rightarrow> sr_state res = Rejected
       \<and> map product_stock (db_products t) = [(''p'', Some 5, 0)]"
proof -
  have inp: "saga_inputs sample_env ''k'' intake_db = Inr (sample_order ''k'' Received,
      [sample_item ''i'' ''k'' ''p'' 3], sample_merchant, ''w'')"
    by (simp add: evals)
  have "case begin_saga sample_env refusing ''k'' 1000 intake_db of (Inl _, _) \<Rightarrow> False | (Inr _, t) \<Rightarrow> True"
    by (simp add: evals MAX_HELD_PER_PRODUCT_def refusing_def)
  then obtain res t where run: "begin_saga sample_env refusing ''k'' 1000 intake_db = (Inr res, t)"
    by (auto split: prod.splits sum.splits)
  have ok: "stock_ok intake_db" "audit_ok intake_db"
    by (simp_all add: stock_ok_def balanced_def off_by_tables evals fits_def held_qty_def audit_ok_def
        replays_def audit_view_def trail_of_def legal_def)
  show ?thesis
    unfolding run using failed_invoice_returns_the_stock [OF run inp _ _ ok]
    by (simp add: evals refusing_def product_stock_def)
qed

end
