(* ===== verification/SettlementEffects.thy ===== *)
theory SettlementEffects
  imports StockEffects
begin

text \<open>
  What a settlement does: it marks the one payment row of its order, confirms the order and
  consumes its stock at most once, and never confirms an order that has left
  \<open>awaiting_payment\<close>.
\<close>

section \<open>The runs of a confirmation\<close>

abbreviation settleable :: "payment_status set" where
  "settleable \<equiv> {PyPending, PyCreating, PyCreationUnknown, PyExpired}"

abbreviation settled_at :: "int \<Rightarrow> payment \<Rightarrow> payment" where
  "settled_at now p \<equiv> p\<lparr>pay_status := PySettled, pay_settled_at := Some now\<rparr>"

lemma confirm_settlement_cases:
  assumes run: "confirm_settlement E i source now s = Inr (r, t)"
  obtains (noop) k rc p where
      "List.find (\<lambda>k. o_id k = i) (db_orders s) = Some k"
      "update_payment i settleable (settled_at now) s = Inr (rc, t)" "rc \<noteq> 1"
      "List.find (\<lambda>p. pay_order_id p = i) (db_payments t) = Some p" "pay_status p = PySettled"
      "r = SettleNoop"
  | (late) k s1 s2 where
      "List.find (\<lambda>k. o_id k = i) (db_orders s) = Some k"
      "update_payment i settleable (settled_at now) s = Inr (1, s1)" "o_state k \<noteq> AwaitingPayment"
      "update_order i (set_exception ''settled-after-terminal-state'' now) s1 = Inr ((), s2)"
      "notify E k EvOnHold now s2 = Inr ((), t)" "r = SettleException (o_state k)"
  | (confirmed) k s1 s2 s3 s4 st where
      "List.find (\<lambda>k. o_id k = i) (db_orders s) = Some k" "o_state k = AwaitingPayment"
      "update_payment i settleable (settled_at now) s = Inr (1, s1)"
      "consume_held i now s1 = Inr ((), s2)"
      "transition_order E i Confirmed (Some AwaitingPayment) ''system'' None
         [(''source'', JStr source)] now s2 = Inr (st, s3)"
      "notify E k EvConfirmed now s3 = Inr ((), s4)"
      "tx_for (filter (\<lambda>r. r_order_id r = i \<and> r_state r = ReHeld) (db_reservations s1))
         (\<lambda>r. enqueue_stock_projection E (r_product_id r)) s4 = Inr ((), t)"
      "r = SettleConfirmed (length (filter (\<lambda>r. r_order_id r = i \<and> r_state r = ReHeld)
         (db_reservations s1)))"
proof -
  obtain k where k: "List.find (\<lambda>k. o_id k = i) (db_orders s) = Some k"
    using run by (auto simp: confirm_settlement_def tx_Inr find_order_def split: option.splits)
  obtain rc s1 where u: "update_payment i settleable (settled_at now) s = Inr (rc, s1)"
    using run k by (auto simp: confirm_settlement_def tx_Inr find_order_def)
  show thesis
  proof (cases "rc = 1")
    case False
    with run k u show thesis
      by (auto simp: confirm_settlement_def tx_Inr find_order_def split: option.splits if_splits intro: noop)
  next
    case True
    show thesis
    proof (cases "o_state k = AwaitingPayment")
      case A: True
      with run k u True show thesis
        by (auto simp: confirm_settlement_def tx_Inr find_order_def held_of_order_def intro: confirmed)
    next
      case False
      with run k u True show thesis
        by (auto simp: confirm_settlement_def tx_Inr find_order_def intro: late)
    qed
  qed
qed

section \<open>At most once\<close>

lemma update_payment_ok: "update_payment i S f s = Inr (n, t) \<Longrightarrow> payments_ok t"
  by (auto simp: update_payment_def sql_Inr)

lemma update_payment_once:
  assumes "update_payment i S (settled_at now) s = Inr (1, t)" and ids: "distinct (map pay_order_id (db_payments s))"
  shows "\<exists>p \<in> set (db_payments s). pay_order_id p = i \<and> pay_status p \<in> S
    \<and> db_payments t = map (\<lambda>q. if pay_order_id q = i then settled_at now q else q) (db_payments s)"
proof -
  let ?P = "\<lambda>p. pay_order_id p = i \<and> pay_status p \<in> S"
  have n: "length (filter ?P (db_payments s)) = 1"
    and t: "t = db_payments_update (upd_rows ?P (settled_at now)) s"
    using assms(1) by (auto simp: update_payment_def sql_Inr)
  have "\<exists>p \<in> set (db_payments s). ?P p"
    by (rule filter_nonempty_ex [of _ _ 0]) (simp only: n One_nat_def)
  then obtain p where p: "p \<in> set (db_payments s)" "?P p" by blast
  have "?P q \<longleftrightarrow> pay_order_id q = i" if "q \<in> set (db_payments s)" for q
    using distinct_key_eq [OF ids that p(1)] p(2) by auto
  then have "upd_rows ?P (settled_at now) (db_payments s)
      = upd_rows (\<lambda>q. pay_order_id q = i) (settled_at now) (db_payments s)"
    by (rule upd_rows_cong)
  then show ?thesis using p by (auto simp: t upd_rows_def)
qed

text \<open>The frame of a confirmation after its payment update: the payments and the ids of the orders.\<close>

definition pay_frame :: "db \<Rightarrow> payment list \<times> id list" where
  "pay_frame s = (db_payments s, map o_id (db_orders s))"

lemma pay_frame_orders:
  "(\<And>k. o_id (f k) = o_id k) \<Longrightarrow> tx_keeps pay_frame (sql_update db_orders db_orders_update ok P f)"
  by (rule tx_keepsI) (auto simp: pay_frame_def sql_Inr map_upd_rows)

lemma pay_frame_other [simp]:
  "pay_frame (db_outbox_update g1 s) = pay_frame s"
  "pay_frame (db_outbox_deps_update g2 s) = pay_frame s"
  "pay_frame (db_draws_update g3 s) = pay_frame s"
  "pay_frame (db_messages_update g4 s) = pay_frame s"
  "pay_frame (db_products_update g5 s) = pay_frame s"
  "pay_frame (db_reservations_update g6 s) = pay_frame s"
  "pay_frame (db_emails_update g7 s) = pay_frame s"
  "pay_frame (db_events_update g8 s) = pay_frame s"
  by (simp_all add: pay_frame_def)

lemma pay_frame_steps:
  "tx_keeps pay_frame (transition_order E i to fr actor reason detail now)"
  "(\<And>k. o_id (f k) = o_id k) \<Longrightarrow> tx_keeps pay_frame (update_order i f)"
  "tx_keeps pay_frame (notify E k ev now)"
  "tx_keeps pay_frame (consume_held i now)"
  "tx_keeps pay_frame (enqueue_stock_projection E i)"
proof -
  show upd: "tx_keeps pay_frame (update_order i f)" if "\<And>k. o_id (f k) = o_id k" for f i
    unfolding update_order_def by (intro keeps pay_frame_orders that)
  show "tx_keeps pay_frame (transition_order E i to fr actor reason detail now)"
    unfolding transition_order_def transition_from_def cas_order_state_def insert_event_def
    by (intro keeps upd pay_frame_orders keeps_sql pay_frame_other) simp_all
  show "tx_keeps pay_frame (notify E k ev now)" by (intro keeps pay_frame_other)
  show "tx_keeps pay_frame (consume_held i now)"
    unfolding consume_held_def consume_one_def held_of_order_def flip_reservation_def update_product_def
    by (intro keeps keeps_sql pay_frame_other)
  show "tx_keeps pay_frame (enqueue_stock_projection E i)"
    by (rule keeps_enqueue_stock_projection) (simp_all add: keeps_sql)
qed

lemma payments_ok_frame: "pay_frame t = pay_frame s \<Longrightarrow> payments_ok t = payments_ok s"
proof -
  assume "pay_frame t = pay_frame s"
  then have p: "db_payments t = db_payments s" and i: "map o_id (db_orders t) = map o_id (db_orders s)"
    by (simp_all add: pay_frame_def)
  have "(\<exists>k \<in> set (db_orders u). o_id k = x) \<longleftrightarrow> x \<in> set (map o_id (db_orders u))" for u :: db and x
    by auto
  then show "payments_ok t = payments_ok s" unfolding payments_ok_def p by (simp only: i)
qed

definition settled_row :: "id \<Rightarrow> db \<Rightarrow> bool" where
  "settled_row i s \<longleftrightarrow> payments_ok s \<and> (\<exists>p \<in> set (db_payments s). pay_order_id p = i \<and> pay_status p = PySettled)"

lemma settled_again:
  assumes "settled_row i s"
  shows "confirm_settlement E i source now s = Inr (SettleNoop, s)"
proof -
  obtain p where p: "p \<in> set (db_payments s)" "pay_order_id p = i" "pay_status p = PySettled"
    and ok: "payments_ok s" using assms by (auto simp: settled_row_def)
  have ids: "distinct (map pay_order_id (db_payments s))" using ok by (simp add: payments_ok_def)
  have one: "List.find (\<lambda>q. pay_order_id q = i) (db_payments s) = Some p"
    using find_key [OF ids p(1)] p(2) by simp
  have none: "\<not> (pay_order_id q = i \<and> pay_status q \<in> settleable)" if "q \<in> set (db_payments s)" for q
    using distinct_key_eq [OF ids that p(1)] p(2,3) by auto
  then have "db_payments_update (upd_rows (\<lambda>q. pay_order_id q = i \<and> pay_status q \<in> settleable) f) s = s" for f
    by (cases s) (simp add: upd_rows_None)
  moreover have "filter (\<lambda>q. pay_order_id q = i \<and> pay_status q \<in> settleable) (db_payments s) = []"
    using none by (simp only: filter_empty_conv) blast
  ultimately have u: "update_payment i settleable f s = Inr (0, s)" for f
    using ok by (simp add: update_payment_def sql_update_def Let_def)
  have "\<exists>k \<in> set (db_orders s). o_id k = i"
    using ok p(1,2) by (auto simp: payments_ok_def list_all_iff)
  then obtain k where "List.find (\<lambda>k. o_id k = i) (db_orders s) = Some k"
    using find_ex [of _ "db_orders s" "\<lambda>k. o_id k = i"] by blast
  then show ?thesis
    using u one p(3) by (simp add: confirm_settlement_def find_order_def sql_one_def tx_defs)
qed

lemma confirmed_settled:
  assumes ok: "payments_ok s" and run: "confirm_settlement E i source now s = Inr (r, t)"
  shows "settled_row i t"
proof -
  have ids: "distinct (map pay_order_id (db_payments s))" using ok by (simp add: payments_ok_def)
  have marked: "settled_row i s1" if u: "update_payment i settleable (settled_at now) s = Inr (1, s1)" for s1
  proof -
    obtain p where "p \<in> set (db_payments s)" "pay_order_id p = i"
      "db_payments s1 = map (\<lambda>q. if pay_order_id q = i then settled_at now q else q) (db_payments s)"
      using update_payment_once [OF u ids] by blast
    then have "settled_at now p \<in> set (db_payments s1)" "pay_order_id (settled_at now p) = i" by auto
    then have "\<exists>q \<in> set (db_payments s1). pay_order_id q = i \<and> pay_status q = PySettled"
      by (intro bexI [of _ "settled_at now p"]) simp_all
    moreover have "payments_ok s1" using u by (rule update_payment_ok)
    ultimately show ?thesis by (simp add: settled_row_def)
  qed
  have frame: "settled_row i u" if "settled_row i s1" "pay_frame u = pay_frame s1" for s1 u
    using that payments_ok_frame [OF that(2)] by (simp add: settled_row_def pay_frame_def)
  from run show ?thesis
  proof (cases rule: confirm_settlement_cases)
    case (noop k rc p)
    then have "p \<in> set (db_payments t)" "pay_order_id p = i" by (auto dest: find_SomeD)
    moreover have "payments_ok t" using noop(2) by (rule update_payment_ok)
    ultimately show ?thesis using noop(5) by (auto simp: settled_row_def)
  next
    case (late k s1 s2)
    have "pay_frame s2 = pay_frame s1"
      using late(4) by (rule tx_keepsD [rotated]) (intro pay_frame_steps, simp add: set_exception_def)
    moreover have "pay_frame t = pay_frame s2" by (rule tx_keepsD [OF pay_frame_steps(3) late(5)])
    ultimately show ?thesis using frame [OF marked [OF late(2)]] by simp
  next
    case (confirmed k s1 s2 s3 s4 st)
    have "pay_frame s2 = pay_frame s1" by (rule tx_keepsD [OF pay_frame_steps(4) confirmed(4)])
    moreover have "pay_frame s3 = pay_frame s2" by (rule tx_keepsD [OF pay_frame_steps(1) confirmed(5)])
    moreover have "pay_frame s4 = pay_frame s3" by (rule tx_keepsD [OF pay_frame_steps(3) confirmed(6)])
    moreover have "pay_frame t = pay_frame s4"
      using confirmed(7) by (rule tx_keepsD [rotated]) (intro keeps pay_frame_steps)
    ultimately show ?thesis using frame [OF marked [OF confirmed(3)]] by simp
  qed
qed

text \<open>
  C11 (Exactly once). Once a settlement of an order has committed, whatever its outcome, its payment
  is settled, and every later delivery of the same settlement is a no-op.
\<close>

theorem settlement_is_idempotent:
  assumes "payments_ok s" and "confirm_settlement E i source now s = Inr (r, t)"
  shows "(\<exists>p \<in> set (db_payments t). pay_order_id p = i \<and> pay_status p = PySettled)
    \<and> confirm_settlement E i source' now' t = Inr (SettleNoop, t)"
  using settled_again [OF confirmed_settled [OF assms]] confirmed_settled [OF assms]
  by (auto simp: settled_row_def)

lemma shop_confirms: "\<exists>t. confirm_settlement sample_env ''k'' ''listener'' 100 shop_db
    = Inr (SettleConfirmed 1, t)"
proof -
  have "case confirm_settlement sample_env ''k'' ''listener'' 100 shop_db of Inl _ \<Rightarrow> False
   | Inr (r, t) \<Rightarrow> r = SettleConfirmed 1"
    by (simp add: evals)
  from run_ex [OF this] show ?thesis by blast
qed

lemma settlement_is_idempotent_witness:
  "case confirm_settlement sample_env ''k'' ''listener'' 100 shop_db of Inl _ \<Rightarrow> False
   | Inr (r, t) \<Rightarrow> r = SettleConfirmed 1
       \<and> confirm_settlement sample_env ''k'' ''reconciliation'' 200 t = Inr (SettleNoop, t)"
proof -
  have ok: "payments_ok shop_db" by (simp add: evals payments_ok_def)
  obtain t where t: "confirm_settlement sample_env ''k'' ''listener'' 100 shop_db
      = Inr (SettleConfirmed 1, t)"
    using shop_confirms by blast
  show ?thesis
    unfolding t using settlement_is_idempotent [OF ok t, of "''reconciliation''" 200] by simp
qed

section \<open>What the stock and the order see\<close>

lemma payment_update_views:
  assumes "update_payment i S f s = Inr (n, t)"
  shows "stock_view t = stock_view s" "audit_view t = audit_view s" "db_reservations t = db_reservations s"
    "db_products t = db_products s" "db_orders t = db_orders s"
  using assms by (auto simp: update_payment_def sql_Inr)

text \<open>
  C14 (Confirmation). A settlement that confirms finds the order awaiting payment, moves it to
  confirmed with exactly one new event, turns each of its held reservations into a consumed one,
  and takes their quantity off both the stock on hand and the reserved stock; the number it
  returns is the number of reservations consumed.
\<close>

theorem confirmation_consumes_held_stock:
  assumes run: "confirm_settlement E i source now s = Inr (SettleConfirmed n, t)"
    and ids: "distinct (map r_id (db_reservations s))"
  shows "(\<exists>k \<in> set (db_orders s). o_id k = i \<and> o_state k = AwaitingPayment)
    \<and> audit_view t = move i AwaitingPayment Confirmed (audit_view s)
    \<and> db_reservations t = map (\<lambda>r. if r_order_id r = i \<and> r_state r = ReHeld
        then r\<lparr>r_state := ReConsumed, r_updated_at := now\<rparr> else r) (db_reservations s)
    \<and> map product_stock (db_products t) = map (\<lambda>p. let q = held_qty (filter (\<lambda>r. r_order_id r = i)
          (db_reservations s)) (p_id p)
        in (p_id p, map_option (\<lambda>h. h - q) (p_stock_on_hand p), p_stock_reserved p - q)) (db_products s)
    \<and> n = length (filter (\<lambda>r. r_order_id r = i \<and> r_state r = ReHeld) (db_reservations s))"
  using run
proof (cases rule: confirm_settlement_cases)
  case (confirmed k s1 s2 s3 s4 st)
  let ?H = "\<lambda>r. r_order_id r = i \<and> r_state r = ReHeld"
  note v1 = payment_update_views [OF confirmed(3)]
  have k: "k \<in> set (db_orders s)" "o_id k = i"
    using confirmed(1) by (auto dest: find_SomeD)
  note D = consumed.drain [OF confirmed(4) [unfolded consume_held_def], unfolded v1, OF ids]
  have s3: "transition_from E i AwaitingPayment Confirmed ''system'' None
      [(''source'', JStr source)] now s2 = Inr (st, s3)"
    using confirmed(5) by (simp add: transition_order_def)
  have stock: "stock_view t = stock_view s2"
  proof -
    have "stock_view s3 = stock_view s2" by (rule tx_keepsD [OF stock_transition_order confirmed(5)])
    moreover have "stock_view s4 = stock_view s3"
      using confirmed(6) by (rule tx_keepsD [rotated]) (intro keeps stock_view_other)
    moreover have "stock_view t = stock_view s4"
      using confirmed(7) by (rule tx_keepsD [rotated]) (intro keeps)
    ultimately show ?thesis by simp
  qed
  have audit: "audit_view t = move i AwaitingPayment Confirmed (audit_view s)"
  proof -
    have "audit_view s2 = audit_view s1" by (rule tx_keepsD [OF audit_consume_held confirmed(4)])
    moreover have "audit_view s4 = audit_view s3"
      using confirmed(6) by (rule tx_keepsD [rotated]) (intro keeps audit_view_other)
    moreover have "audit_view t = audit_view s4"
      using confirmed(7) by (rule tx_keepsD [rotated]) (intro keeps)
    ultimately show ?thesis using transition_from_run(5) [OF s3] v1(2) by simp
  qed
  have "held_qty (filter ?H rs) = held_qty (filter (\<lambda>r. r_order_id r = i) rs)" for rs
    by (rule ext) (simp add: held_qty_def conj_ac)
  then have "map product_stock (db_products t) = map (\<lambda>p. let q = held_qty (filter (\<lambda>r. r_order_id r = i)
          (db_reservations s)) (p_id p)
        in (p_id p, map_option (\<lambda>h. h - q) (p_stock_on_hand p), p_stock_reserved p - q)) (db_products s)"
    using D stock by (simp add: stock_view_def consumed.drained_def [abs_def] Let_def)
  moreover have "db_reservations t = map (\<lambda>r. if ?H r
        then r\<lparr>r_state := ReConsumed, r_updated_at := now\<rparr> else r) (db_reservations s)"
    using D stock by (simp add: stock_view_def consumed.settle_row_def [abs_def] upd_rows_def)
  ultimately show ?thesis using k confirmed(2,8) audit v1(3) by auto
qed simp_all

lemma confirmation_consumes_held_stock_witness:
  "case confirm_settlement sample_env ''k'' ''listener'' 100 shop_db of Inl _ \<Rightarrow> False
   | Inr (_, t) \<Rightarrow> map product_stock (db_products t) = [(''p'', Some 2, 0)]
       \<and> map r_state (db_reservations t) = [ReConsumed]"
proof -
  obtain t where run: "confirm_settlement sample_env ''k'' ''listener'' 100 shop_db
      = Inr (SettleConfirmed 1, t)"
    using shop_confirms by blast
  have ids: "distinct (map r_id (db_reservations shop_db))" by (simp add: evals)
  show ?thesis
    unfolding run using confirmation_consumes_held_stock [OF run ids]
    by (simp add: evals product_stock_def held_qty_def)
qed

text \<open>
  C15 (Late settlement). A settlement that finds its order in any other state leaves the stock, the
  reservations, every order state and the audit log as they are: it marks the order's payment
  settled and puts the order on hold as a payment exception for the merchant to resolve.
\<close>

theorem late_settlement_moves_nothing:
  assumes run: "confirm_settlement E i source now s = Inr (SettleException st, t)"
  shows "st \<noteq> AwaitingPayment \<and> stock_view t = stock_view s \<and> audit_view t = audit_view s
    \<and> db_orders t = map (\<lambda>k. if o_id k = i then k\<lparr>o_payment_exception := True,
        o_payment_exception_reason := Some ''settled-after-terminal-state'', o_updated_at := now\<rparr>
        else k) (db_orders s)"
  using run
proof (cases rule: confirm_settlement_cases)
  case (late k s1 s2)
  note v1 = payment_update_views [OF late(2)]
  have s2: "s2 = db_orders_update (upd_rows (\<lambda>k. o_id k = i)
      (set_exception ''settled-after-terminal-state'' now)) s1"
    using late(4) by (auto simp: update_order_def tx_Inr sql_Inr)
  have "audit_view s2 = audit_view s1"
    using late(4) by (rule tx_keepsD [rotated]) (intro keeps; simp add: set_exception_def)
  moreover have "stock_view s2 = stock_view s1" by (simp add: s2)
  moreover have "tx_keeps (\<lambda>s. (stock_view s, audit_view s, db_orders s)) (notify E k EvOnHold now)"
    by (intro keeps) simp_all
  from tx_keepsD [OF this late(5)]
  have "stock_view t = stock_view s2" "audit_view t = audit_view s2" "db_orders t = db_orders s2"
    by simp_all
  ultimately show ?thesis
    using late(3,6) v1 by (simp add: s2 upd_rows_def set_exception_def [abs_def])
qed simp_all

text \<open>A payment that arrives after its order was cancelled.\<close>

definition late_db :: db where
  "late_db = shop_db\<lparr>db_orders := [sample_order ''k'' Cancelled],
     db_reservations := [sample_reservation ''r'' ''p'' ''k'' 3 ReReleased],
     db_products := [sample_product ''p'' (Some 5) 0]\<rparr>"

lemma late_settlement_moves_nothing_witness:
  "case confirm_settlement sample_env ''k'' ''listener'' 100 late_db of Inl _ \<Rightarrow> False
   | Inr (r, t) \<Rightarrow> r = SettleException Cancelled \<and> stock_view t = stock_view late_db
       \<and> map o_payment_exception (db_orders t) = [True] \<and> map o_state (db_orders t) = [Cancelled]"
proof -
  have "case confirm_settlement sample_env ''k'' ''listener'' 100 late_db of Inl _ \<Rightarrow> False
   | Inr (r, t) \<Rightarrow> r = SettleException Cancelled"
    by (simp add: late_db_def evals)
  then obtain t where run: "confirm_settlement sample_env ''k'' ''listener'' 100 late_db
      = Inr (SettleException Cancelled, t)"
    by (auto split: sum.splits)
  show ?thesis
    unfolding run using late_settlement_moves_nothing [OF run]
    by (simp add: late_db_def evals)
qed

end
