(* ===== verification/Verified.thy ===== *)
theory Verified
  imports SettlementEffects
begin

text \<open>
  No payment settles an order, and no order is confirmed, on the word of a core payment that
  does not match the order's payment row: the checks of \<open>_verify_settlement\<close> guard every path
  from a core payment to a confirmation, including the one that first attaches an invoice whose
  creation was uncertain.
\<close>

section \<open>What a confirmation would change\<close>

definition settle_view :: "db \<Rightarrow> (id \<times> id \<times> int option \<times> string option \<times> bool) list \<times> (id \<times> id \<times> bool) list" where
  "settle_view s =
     (map (\<lambda>p. (pay_id p, pay_order_id p, pay_amount_sat p, pay_wallet_id_hash p,
         pay_status p = PySettled)) (db_payments s),
      map (\<lambda>k. (o_id k, o_merchant_id k, o_state k = Confirmed)) (db_orders s))"

lemma settle_view_other [simp]:
  "settle_view (db_outbox_update g1 s) = settle_view s"
  "settle_view (db_outbox_deps_update g2 s) = settle_view s"
  "settle_view (db_draws_update g3 s) = settle_view s"
  "settle_view (db_messages_update g4 s) = settle_view s"
  "settle_view (db_reservations_update g6 s) = settle_view s"
  "settle_view (db_emails_update g7 s) = settle_view s"
  "settle_view (db_events_update g8 s) = settle_view s"
  by (simp_all add: settle_view_def)

lemma settle_view_orders:
  assumes "\<And>k. P k \<Longrightarrow> o_id (f k) = o_id k \<and> o_merchant_id (f k) = o_merchant_id k
      \<and> (o_state (f k) = Confirmed \<longleftrightarrow> o_state k = Confirmed)"
  shows "tx_keeps settle_view (sql_update db_orders db_orders_update ok P f)"
  using assms by (intro tx_keepsI) (auto simp: settle_view_def sql_Inr upd_rows_def)

lemma settle_view_payments:
  assumes "\<And>p. P p \<Longrightarrow> pay_id (f p) = pay_id p \<and> pay_order_id (f p) = pay_order_id p
      \<and> pay_amount_sat (f p) = pay_amount_sat p \<and> pay_wallet_id_hash (f p) = pay_wallet_id_hash p
      \<and> (pay_status (f p) = PySettled \<longleftrightarrow> pay_status p = PySettled)"
  shows "tx_keeps settle_view (sql_update db_payments db_payments_update ok P f)"
  using assms by (intro tx_keepsI) (auto simp: settle_view_def sql_Inr upd_rows_def)

lemma settle_view_transition:
  assumes "to \<noteq> Confirmed" "f \<noteq> Confirmed"
  shows "tx_keeps settle_view (transition_order E i to (Some f) actor reason detail now)"
  unfolding transition_order_def transition_from_def cas_order_state_def update_order_def
    insert_event_def find_order_def option.case
  using assms by (intro keeps settle_view_orders keeps_sql settle_view_other) auto

lemma settle_view_attach: "tx_keeps settle_view (attach_tx E i core ex now)"
  unfolding attach_tx_def find_order_def extend_held_def attach_projection_def update_order_def
  by (intro keeps keeps_sql settle_view_orders settle_view_payments settle_view_transition
      settle_view_other; auto)

lemma settle_view_unknown: "tx_keeps settle_view (mark_unknown i now reason)"
  unfolding mark_unknown_def update_payment_def update_order_def
  by (intro keeps settle_view_orders settle_view_payments; auto)

lemma settle_view_flag: "tx_keeps settle_view (flag_exception E i reason source now)"
  unfolding flag_exception_def annotate_def update_order_def set_exception_def find_order_def
  by (intro keeps keeps_sql settle_view_orders settle_view_other; auto)

lemma keeps_pr_inv: "tx_keeps f m \<Longrightarrow> pr_inv (\<lambda>s. f s = v) (commit m)"
  by (rule pr_inv_commit) (rule tx_keeps_inv)

lemma settle_view_attach_payment: "pr_inv (\<lambda>s. settle_view s = v) (attach_payment E L i core now)"
  unfolding attach_payment_def
  by (intro pr_invs keeps_pr_inv tx_keeps_inv settle_view_attach settle_view_unknown)

section \<open>Verification guards every path\<close>

text \<open>
  A core payment that does not fit the order \<open>k\<close> and its payment row \<open>p\<close>: each check of
  \<open>_verify_settlement\<close>, and success before them, written out over the rows.
\<close>

definition wrong_wallet :: "env \<Rightarrow> core_payment \<Rightarrow> order_row \<Rightarrow> payment \<Rightarrow> bool" where
  "wrong_wallet E core k p \<longleftrightarrow> truthy (pay_wallet_id_hash p)
     \<and> pay_wallet_id_hash p \<noteq> Some (wallet_hash E (o_merchant_id k) (cp_wallet_id core))"

definition wallet_not_owned :: "env \<Rightarrow> lnbits \<Rightarrow> merchant list \<Rightarrow> order_row \<Rightarrow> payment \<Rightarrow> bool" where
  "wallet_not_owned E L ms k p \<longleftrightarrow>
     (\<exists>envelope raw. pay_wallet_refs_enc p = Some envelope
        \<and> open_column E (o_id k) ''payments'' ''wallet_refs_enc'' envelope = Inr raw
        \<and> \<not> (\<exists>user m. ln_wallet_user L (takeWhile (\<lambda>c. c \<noteq> CHR ''|'') raw) = Some user
             \<and> m \<in> set ms \<and> m_id m = o_merchant_id k \<and> m_user_id m = user))"

definition wrong_invoice :: "env \<Rightarrow> lnbits \<Rightarrow> core_payment \<Rightarrow> order_row \<Rightarrow> payment \<Rightarrow> bool" where
  "wrong_invoice E L core k p \<longleftrightarrow>
     (\<exists>envelope. pay_bolt11_enc p = Some envelope
        \<and> (\<forall>bolt11 iv. open_column E (o_id k) ''payments'' ''bolt11_enc'' envelope = Inr bolt11 \<longrightarrow>
             ln_decode L bolt11 = Some iv \<longrightarrow>
             bi_payment_hash iv \<noteq> cp_payment_hash core
             \<or> (\<exists>x y. cp_expiry core = Some x \<and> bi_expiry iv = Some y \<and> x \<noteq> y)))"

definition mismatched :: "env \<Rightarrow> lnbits \<Rightarrow> merchant list \<Rightarrow> core_payment \<Rightarrow> order_row \<Rightarrow> payment \<Rightarrow> bool" where
  "mismatched E L ms core k p \<longleftrightarrow> \<not> cp_success core \<or> \<not> cp_is_in core \<or> cp_amount core mod 1000 \<noteq> 0
     \<or> pay_amount_sat p \<notin> {None, Some (cp_sat core)} \<or> wrong_wallet E core k p
     \<or> wallet_not_owned E L ms k p \<or> wrong_invoice E L core k p"

lemma ownership_refused: "wallet_not_owned E L (db_merchants s) k p \<Longrightarrow> ownership_lost E L s k p"
  by (fastforce simp: wallet_not_owned_def ownership_lost_def wallet_id_from_snapshot_def
      split: option.splits dest: find_SomeD)

lemma invoice_refused: "wrong_invoice E L core k p \<Longrightarrow> bolt11_mismatch E L k p core \<noteq> None"
  by (fastforce simp: wrong_invoice_def bolt11_mismatch_def split: sum.splits option.splits)

lemma mismatch_refused:
  "mismatched E L (db_merchants s) core k p \<Longrightarrow> cp_success core \<Longrightarrow> verify_settlement E L s k p core \<noteq> None"
  using ownership_refused [of E L s k p] invoice_refused [of E L core k p]
  by (auto simp: mismatched_def wrong_wallet_def verify_settlement_def)

lemma settle_core_refused:
  assumes "\<not> cp_success core \<or> verify_settlement E L u k p core \<noteq> None"
  shows "settle_view (snd (settle_core E L i core source k p u)) = settle_view u"
proof (cases "cp_success core")
  case False
  then show ?thesis by (simp add: settle_core_def pr_defs)
next
  case True
  then obtain reason where v: "verify_settlement E L u k p core = Some reason" using assms by blast
  have "pr_inv (\<lambda>x. settle_view x = settle_view u)
      (commit (flag_exception E i reason source (db_clock u)))"
    by (rule keeps_pr_inv) (rule settle_view_flag)
  then have "settle_view (snd (commit (flag_exception E i reason source (db_clock u)) u)) = settle_view u"
    by (rule pr_invD) simp
  then show ?thesis
    using True v by (cases "commit (flag_exception E i reason source (db_clock u)) u")
      (auto simp: settle_core_def pr_bind_def pr_get_def pr_return_def split: sum.split)
qed

text \<open>
  On a row that does not verify, the attach step only marks the invoice as unknown, and the rows the
  code reads again afterwards verify as little as before.
\<close>

definition check_view :: "db \<Rightarrow> merchant list
    \<times> (id \<times> int option \<times> string option \<times> string option \<times> string option) list \<times> (id \<times> id) list" where
  "check_view s = (db_merchants s,
     map (\<lambda>p. (pay_order_id p, pay_amount_sat p, pay_wallet_id_hash p, pay_wallet_refs_enc p, pay_bolt11_enc p))
       (db_payments s),
     map (\<lambda>k. (o_id k, o_merchant_id k)) (db_orders s))"

lemma check_view_payments:
  assumes "\<And>p. pay_order_id (f p) = pay_order_id p \<and> pay_amount_sat (f p) = pay_amount_sat p
      \<and> pay_wallet_id_hash (f p) = pay_wallet_id_hash p \<and> pay_wallet_refs_enc (f p) = pay_wallet_refs_enc p
      \<and> pay_bolt11_enc (f p) = pay_bolt11_enc p"
  shows "tx_keeps check_view (sql_update db_payments db_payments_update ok P f)"
  using assms by (intro tx_keepsI) (auto simp: check_view_def sql_Inr upd_rows_def)

lemma check_view_orders:
  assumes "\<And>k. o_id (f k) = o_id k \<and> o_merchant_id (f k) = o_merchant_id k"
  shows "tx_keeps check_view (sql_update db_orders db_orders_update ok P f)"
  using assms by (intro tx_keepsI) (auto simp: check_view_def sql_Inr upd_rows_def)

lemma check_view_unknown: "tx_keeps check_view (mark_unknown i now reason)"
  unfolding mark_unknown_def update_payment_def update_order_def
  by (intro keeps check_view_payments check_view_orders; simp)

lemma attach_refused:
  assumes "find_payment i s = Some p" "List.find (\<lambda>q. o_id q = i) (db_orders s) = Some k"
    and "pay_status p \<in> {PyCreating, PyCreationUnknown}" "verify_settlement E L s k p core \<noteq> None"
  shows "check_view (snd (attach_payment E L i core now s)) = check_view s"
proof -
  have "invoice_delivery_mismatch E L i core s"
    using assms by (auto simp: invoice_delivery_mismatch_def find_payment_def)
  then have "snd (attach_payment E L i core now s) = snd (commit (mark_unknown i now ''invoice-correlation-failed'') s)"
    by (simp add: attach_payment_def pr_bind_def pr_get_def pr_return_def split: sum.split prod.split)
  then show ?thesis
    using pr_invD [OF keeps_pr_inv [OF check_view_unknown]] by metis
qed

lemma verify_same:
  assumes "db_merchants u = db_merchants s" "o_id k' = o_id k" "o_merchant_id k' = o_merchant_id k"
    and "pay_amount_sat p' = pay_amount_sat p" "pay_wallet_id_hash p' = pay_wallet_id_hash p"
      "pay_wallet_refs_enc p' = pay_wallet_refs_enc p" "pay_bolt11_enc p' = pay_bolt11_enc p"
  shows "verify_settlement E L u k' p' core = verify_settlement E L s k p core"
  unfolding verify_settlement_def ownership_lost_def bolt11_mismatch_def wallet_id_from_snapshot_def assms ..

lemma verify_again:
  assumes view: "check_view u = check_view s"
    and ids: "distinct (map pay_order_id (db_payments s))" "distinct (map o_id (db_orders s))"
    and old: "k \<in> set (db_orders s)" "o_id k = i" "p \<in> set (db_payments s)" "pay_order_id p = i"
    and new: "k' \<in> set (db_orders u)" "o_id k' = i" "p' \<in> set (db_payments u)" "pay_order_id p' = i"
  shows "verify_settlement E L u k' p' core = verify_settlement E L s k p core"
proof -
  let ?p = "\<lambda>p. (pay_order_id p, pay_amount_sat p, pay_wallet_id_hash p, pay_wallet_refs_enc p, pay_bolt11_enc p)"
  let ?k = "\<lambda>k. (o_id k, o_merchant_id k)"
  have "set (map ?p (db_payments u)) = set (map ?p (db_payments s))" "set (map ?k (db_orders u)) = set (map ?k (db_orders s))"
    using view by (simp_all only: check_view_def prod.inject)
  then have "?p p' \<in> ?p ` set (db_payments s)" "?k k' \<in> ?k ` set (db_orders s)"
    using new(1,3) unfolding set_map by blast+
  then obtain q l where q: "q \<in> set (db_payments s)" "?p p' = ?p q" and l: "l \<in> set (db_orders s)" "?k k' = ?k l"
    by blast
  have "q = p" using distinct_key_eq [OF ids(1) q(1) old(3)] q(2) old(4) new(4) by simp
  moreover have "l = k" using distinct_key_eq [OF ids(2) l(1) old(1)] l(2) old(2) new(2) by simp
  ultimately show ?thesis using view q(2) l(2) by (intro verify_same) (simp_all add: check_view_def)
qed

lemma handled_mismatch:
  assumes ids: "distinct (map pay_order_id (db_payments s))" "distinct (map o_id (db_orders s))"
    and rows: "k \<in> set (db_orders s)" "o_id k = i" "p \<in> set (db_payments s)" "pay_order_id p = i"
    and mis: "mismatched E L (db_merchants s) core k p"
  shows "settle_view (snd (handle_core_payment E L i core source s)) = settle_view s" (is "settle_view ?t = _")
proof -
  have k: "List.find (\<lambda>q. o_id q = i) (db_orders s) = Some k"
    using find_key [OF ids(2) rows(1)] rows(2) by simp
  have p: "find_payment i s = Some p"
    using find_key [OF ids(1) rows(3)] rows(4) by (simp add: find_payment_def)
  have bad: "\<not> cp_success core \<or> verify_settlement E L s k p core \<noteq> None" using mismatch_refused mis by blast
  show ?thesis
  proof (cases "pay_status p \<in> {PyCreating, PyCreationUnknown} \<and> cp_bolt11 core \<noteq> []")
    case False
    then have "?t = snd (settle_core E L i core source k p s)"
      by (auto simp: handle_core_payment_def pr_bind_def pr_get_def k p)
    then show ?thesis by (simp add: settle_core_refused [OF bad])
  next
    case True
    obtain r u where attach: "attach_payment E L i core (db_clock s) s = (r, u)"
      by (cases "attach_payment E L i core (db_clock s) s")
    have view: "settle_view u = settle_view s"
      using pr_invD [OF settle_view_attach_payment, of s "settle_view s" E L i core "db_clock s"] attach
      by simp
    have "?t = u \<or> (\<exists>k' p'. List.find (\<lambda>q. o_id q = i) (db_orders u) = Some k' \<and> find_payment i u = Some p'
        \<and> ?t = snd (settle_core E L i core source k' p' u))"
      using True attach
      by (auto simp: handle_core_payment_def pr_bind_def pr_get_def k p pr_raise_def split: sum.splits option.splits)
    then show ?thesis
    proof (elim disjE exE conjE)
      fix k' p'
      assume k': "List.find (\<lambda>q. o_id q = i) (db_orders u) = Some k'" and p': "find_payment i u = Some p'"
        and t: "?t = snd (settle_core E L i core source k' p' u)"
      have "verify_settlement E L u k' p' core = verify_settlement E L s k p core" if "verify_settlement E L s k p core \<noteq> None"
        using attach_refused [OF p k conjunct1 [OF True] that, of "db_clock s"] find_SomeD [OF k']
          find_SomeD [OF p' [unfolded find_payment_def]] attach
        by (intro verify_again [OF _ ids rows]) simp_all
      then have "\<not> cp_success core \<or> verify_settlement E L u k' p' core \<noteq> None" using bad by auto
      then show ?thesis by (simp add: t view settle_core_refused)
    qed (simp add: view)
  qed
qed

text \<open>
  C12 (Verified settlement). Handling a core payment settles no payment and confirms no order, on any
  path, if the payment is unsuccessful, not incoming, not a whole number of sats, of another amount
  than the order's payment row, received in another wallet than the one that row records; if the
  recorded wallet no longer belongs to the merchant's user (or wallet or merchant are gone); or if the
  row's stored invoice cannot be opened and decoded, has another payment hash, or another expiry.
\<close>

theorem unverified_payment_settles_nothing:
  assumes ids: "distinct (map pay_order_id (db_payments s))" "distinct (map o_id (db_orders s))"
    and rows: "k \<in> set (db_orders s)" "o_id k = i" "p \<in> set (db_payments s)" "pay_order_id p = i"
    and bad: "\<not> cp_success core \<or> \<not> cp_is_in core \<or> cp_amount core mod 1000 \<noteq> 0
      \<or> pay_amount_sat p \<notin> {None, Some (cp_sat core)}
      \<or> truthy (pay_wallet_id_hash p)
        \<and> pay_wallet_id_hash p \<noteq> Some (wallet_hash E (o_merchant_id k) (cp_wallet_id core))
      \<or> (\<exists>envelope raw. pay_wallet_refs_enc p = Some envelope
        \<and> open_column E (o_id k) ''payments'' ''wallet_refs_enc'' envelope = Inr raw
        \<and> \<not> (\<exists>user m. ln_wallet_user L (takeWhile (\<lambda>c. c \<noteq> CHR ''|'') raw) = Some user
             \<and> m \<in> set (db_merchants s) \<and> m_id m = o_merchant_id k \<and> m_user_id m = user))
      \<or> (\<exists>envelope. pay_bolt11_enc p = Some envelope
        \<and> (\<forall>bolt11 iv. open_column E (o_id k) ''payments'' ''bolt11_enc'' envelope = Inr bolt11 \<longrightarrow>
             ln_decode L bolt11 = Some iv \<longrightarrow>
             bi_payment_hash iv \<noteq> cp_payment_hash core
             \<or> (\<exists>x y. cp_expiry core = Some x \<and> bi_expiry iv = Some y \<and> x \<noteq> y)))"
    and t: "t = snd (handle_core_payment E L i core source s)"
  shows "map (\<lambda>p. (pay_id p, pay_status p = PySettled)) (db_payments t)
      = map (\<lambda>p. (pay_id p, pay_status p = PySettled)) (db_payments s)
    \<and> map (\<lambda>k. (o_id k, o_state k = Confirmed)) (db_orders t)
      = map (\<lambda>k. (o_id k, o_state k = Confirmed)) (db_orders s)"
proof -
  have "mismatched E L (db_merchants s) core k p"
    using bad unfolding mismatched_def wrong_wallet_def wallet_not_owned_def wrong_invoice_def .
  then have "settle_view t = settle_view s" unfolding t by (rule handled_mismatch [OF ids rows])
  then have "map (\<lambda>(i, _, _, _, b). (i, b)) (fst (settle_view t))
      = map (\<lambda>(i, _, _, _, b). (i, b)) (fst (settle_view s))"
    "map (\<lambda>(i, _, b). (i, b)) (snd (settle_view t)) = map (\<lambda>(i, _, b). (i, b)) (snd (settle_view s))"
    by simp_all
  then show ?thesis by (simp add: settle_view_def comp_def)
qed

text \<open>A payment of 29 sats for an invoice of 30 leaves the order waiting.\<close>

definition short_payment :: core_payment where
  "short_payment = \<lparr>cp_extension = Some ''infinitemarkets'', cp_external_id = Some ''infinitemarkets:k'',
     cp_wallet_id = ''w'', cp_payment_hash = ''h'', cp_checking_id = ''c'', cp_bolt11 = ''b'',
     cp_expiry = None, cp_amount = 29000, cp_sat = 29, cp_is_in = True, cp_success = True,
     cp_pending = False, cp_is_expired = False\<rparr>"

lemma unverified_payment_settles_nothing_witness:
  "let t = snd (handle_core_payment sample_env refusing ''k'' short_payment ''listener'' shop_db) in
   map (\<lambda>p. (pay_id p, pay_status p = PySettled)) (db_payments t) = [(''y'', False)]
   \<and> map (\<lambda>k. (o_id k, o_state k = Confirmed)) (db_orders t) = [(''k'', False)]"
proof -
  let ?t = "snd (handle_core_payment sample_env refusing ''k'' short_payment ''listener'' shop_db)"
  have "map (\<lambda>p. (pay_id p, pay_status p = PySettled)) (db_payments ?t)
      = map (\<lambda>p. (pay_id p, pay_status p = PySettled)) (db_payments shop_db)
    \<and> map (\<lambda>k. (o_id k, o_state k = Confirmed)) (db_orders ?t)
      = map (\<lambda>k. (o_id k, o_state k = Confirmed)) (db_orders shop_db)"
    by (rule unverified_payment_settles_nothing [OF _ _ _ _ _ _ _ refl,
          where k = "sample_order ''k'' AwaitingPayment" and p = "sample_payment ''y'' ''k'' PyPending"])
      (simp_all add: shop_db_def sample_order_def sample_payment_def short_payment_def)
  moreover have "map (\<lambda>p. (pay_id p, pay_status p = PySettled)) (db_payments shop_db) = [(''y'', False)]"
    "map (\<lambda>k. (o_id k, o_state k = Confirmed)) (db_orders shop_db) = [(''k'', False)]"
    by (simp_all add: shop_db_def sample_order_def sample_payment_def)
  ultimately show ?thesis unfolding Let_def by simp
qed

end
