(* ===== verification/Expiry.thy ===== *)
theory Expiry
  imports StockEffects
begin

text \<open>
  The reservation expiry pass does its work: when it returns, no reservation that was due is
  still held. The pass swallows an illegal transition, so the proof first shows that expiring an
  order that waits for its payment never raises one.
\<close>

section \<open>Transactions that never raise an illegal transition\<close>

definition never_illegal :: "('s, 'a) tx \<Rightarrow> bool" where
  "never_illegal m \<longleftrightarrow> (\<forall>s. m s \<noteq> Inl IllegalTransition)"

named_theorems nevers "rules for transactions that never raise an illegal transition"

lemma never_return [nevers]: "never_illegal (tx_return a)"
  and never_raise [nevers]: "e \<noteq> IllegalTransition \<Longrightarrow> never_illegal (tx_raise e)"
  and never_get [nevers]: "never_illegal (tx_get f)"
  and never_assert [nevers]: "e \<noteq> IllegalTransition \<Longrightarrow> never_illegal (tx_assert b e)"
  and never_lift [nevers]: "r \<noteq> Inl IllegalTransition \<Longrightarrow> never_illegal (tx_lift r)"
  and never_sql_all [nevers]: "never_illegal (sql_all get P)"
  and never_sql_one [nevers]: "never_illegal (sql_one get P)"
  and never_sql_count [nevers]: "never_illegal (sql_count get P)"
  and never_sql_update [nevers]: "never_illegal (sql_update get upd ok P h)"
  and never_sql_insert [nevers]: "never_illegal (sql_insert upd ok row)"
  and never_sql_insert_ignore [nevers]: "never_illegal (sql_insert_ignore upd ok row)"
  by (auto simp: never_illegal_def tx_defs sql_all_def sql_one_def sql_count_def sql_update_def
      sql_insert_def sql_insert_ignore_def Let_def split: sum.split)

lemma never_bind [nevers]:
  "never_illegal m \<Longrightarrow> (\<And>a. never_illegal (k a)) \<Longrightarrow> never_illegal (tx_bind m k)"
  by (auto simp: never_illegal_def tx_bind_def split: sum.splits)

lemma never_seq [nevers]: "never_illegal m \<Longrightarrow> never_illegal k \<Longrightarrow> never_illegal (tx_seq m k)"
  unfolding tx_seq_def by (rule never_bind)

lemma never_ignore [nevers]: "never_illegal m \<Longrightarrow> never_illegal (tx_ignore m)"
  unfolding tx_ignore_def by (intro never_bind never_return)

lemma never_when [nevers]: "never_illegal m \<Longrightarrow> never_illegal (tx_when b m)"
  by (simp add: tx_when_def never_return)

lemma never_if [nevers]: "never_illegal m \<Longrightarrow> never_illegal k \<Longrightarrow> never_illegal (if b then m else k)"
  by simp

lemma never_option [nevers]:
  "never_illegal m \<Longrightarrow> (\<And>x. never_illegal (k x)) \<Longrightarrow> never_illegal (case v of None \<Rightarrow> m | Some x \<Rightarrow> k x)"
  by (cases v) auto

lemma never_prod [nevers]:
  "(\<And>a b. never_illegal (k a b)) \<Longrightarrow> never_illegal (case v of (a, b) \<Rightarrow> k a b)"
  by (cases v) auto

lemma never_fold [nevers]:
  "(\<And>b x. never_illegal (g b x)) \<Longrightarrow> never_illegal (tx_fold g acc xs)"
  by (induction xs arbitrary: acc) (auto intro!: nevers)

lemma never_for [nevers]: "(\<And>x. never_illegal (g x)) \<Longrightarrow> never_illegal (tx_for xs g)"
  by (induction xs) (auto intro!: nevers)

lemma opens_legally: "open_column E r t c e \<noteq> Inl IllegalTransition"
  "open_required E r t c v \<noteq> Inl IllegalTransition"
  by (auto simp: open_column_def open_required_def decrypt_def Let_def split: option.split)

lemma never_uuid [nevers]: "never_illegal (new_uuid E)"
  and never_draw [nevers]: "never_illegal draw"
  by (simp_all add: never_illegal_def new_uuid_def draw_def tx_bind_def tx_seq_def tx_get_def
      tx_modify_def tx_return_def)

lemma never_seal [nevers]: "never_illegal (seal_column E r t c p)"
  unfolding seal_column_def by (intro nevers) (simp_all add: encrypt_def)

lemma never_enqueue_intent [nevers]: "never_illegal (enqueue_intent E m at ai k rv a ds)"
  unfolding enqueue_intent_def supersede_older_def add_dependency_def by (intro nevers)

lemma never_status [nevers]: "never_illegal (enqueue_status E k st r)"
proof -
  have "order_message_context E k \<noteq> Inl IllegalTransition"
    using opens_legally(2) by (auto simp: order_message_context_def split: sum.split)
  then show ?thesis
    unfolding enqueue_status_def send_for_order_def next_msg_seq_def enqueue_order_msg_def author_of_def
      store_message_def Let_def
    by (intro nevers) simp_all
qed

lemma never_stock [nevers]: "never_illegal (enqueue_stock_projection E i)"
  unfolding enqueue_stock_projection_def enqueue_product_def collections_of_product_def
    product_shipping_refs_def
  by (intro nevers)

lemma never_notify [nevers]: "never_illegal (notify E k ev now)"
  unfolding notify_def notify_context_def email_for_order_def enqueue_email_intents_def insert_email_def
  by (intro nevers) simp_all

lemma never_release [nevers]: "never_illegal (release_reservations E i st now)"
  unfolding release_reservations_def release_one_def held_of_order_def flip_reservation_def
    update_product_def
  by (intro nevers) simp_all

lemma never_expire_transition:
  "never_illegal (transition_order E i Expired (Some AwaitingPayment) a (Some (c # cs)) [] now)"
proof -
  have legal: "Expired \<in> set (order_transitions AwaitingPayment)"
    "reason_required AwaitingPayment Expired \<longrightarrow> truthy (Some (c # cs))"
    by (simp_all add: reason_required_def)
  have pass: "never_illegal k \<Longrightarrow> b \<Longrightarrow> never_illegal (tx_seq (tx_assert b e) k)" for b e and k :: "(db, order_state) tx"
    by (simp add: tx_assert_def tx_seq_def tx_bind_def tx_return_def)
  show ?thesis
    unfolding transition_order_def transition_from_def option.case
    by (rule pass [OF pass [OF _ legal(2)] legal(1)], unfold cas_order_state_def update_order_def
        insert_event_def find_order_def, intro nevers) simp_all
qed

lemma expire_order_legal:
  assumes "List.find (\<lambda>k. o_id k = i) (db_orders s) = Some k" "o_state k = AwaitingPayment"
  shows "expire_order E i now s \<noteq> Inl IllegalTransition"
proof -
  let ?m = "tx_bind (transition_order E i Expired (Some AwaitingPayment) ''system''
        (Some ''invoice-expired-unpaid'') [] now) (\<lambda>_.
     tx_bind (release_reservations E i ReExpired now) (\<lambda>released.
     tx_bind (update_payment i {PyPending} (\<lambda>p. p\<lparr>pay_status := PyExpired\<rparr>)) (\<lambda>_.
     tx_seq (notify E k EvExpired now) (tx_return released))))"
  have "never_illegal ?m"
    unfolding update_payment_def by (intro nevers never_expire_transition)
  moreover have "expire_order E i now s = ?m s"
    using assms by (simp add: expire_order_def find_order_def sql_one_def tx_bind_def tx_get_def)
  ultimately show ?thesis by (simp add: never_illegal_def)
qed

section \<open>The pass\<close>

definition expired_holds :: "id set \<Rightarrow> int \<Rightarrow> reservation list \<Rightarrow> reservation list" where
  "expired_holds D now rs = map (\<lambda>r. if r_order_id r \<in> D \<and> r_state r = ReHeld
     then r\<lparr>r_state := ReExpired, r_updated_at := now\<rparr> else r) rs"

lemma expired_holds_twice: "expired_holds D now (expired_holds C now rs) = expired_holds (C \<union> D) now rs"
  unfolding expired_holds_def map_map
  by (rule map_cong [OF refl], case_tac "r_order_id x \<in> C"; case_tac "r_order_id x \<in> D";
      case_tac "r_state x = ReHeld"; simp)

lemma expired_holds_ids: "map r_id (expired_holds D now rs) = map r_id rs"
  by (induction rs) (simp_all add: expired_holds_def)

lemma release_holds:
  assumes "release_reservations E i ReExpired now s = Inr (n, t)" "distinct (map r_id (db_reservations s))"
  shows "db_reservations t = expired_holds {i} now (db_reservations s)"
  using release_returns_held_stock_rows [OF assms(1) _ assms(2)] by (simp add: expired_holds_def)

definition order_ids :: "db \<Rightarrow> id list" where
  "order_ids s = map o_id (db_orders s)"

lemma order_ids_other [simp]:
  "order_ids (db_outbox_update g1 s) = order_ids s"
  "order_ids (db_outbox_deps_update g2 s) = order_ids s"
  "order_ids (db_draws_update g3 s) = order_ids s"
  "order_ids (db_messages_update g4 s) = order_ids s"
  "order_ids (db_products_update g5 s) = order_ids s"
  "order_ids (db_reservations_update g6 s) = order_ids s"
  "order_ids (db_emails_update g7 s) = order_ids s"
  "order_ids (db_events_update g8 s) = order_ids s"
  "order_ids (db_payments_update g9 s) = order_ids s"
  by (simp_all add: order_ids_def)

lemma keeps_order_ids:
  "(\<And>k. o_id (f k) = o_id k) \<Longrightarrow> tx_keeps order_ids (sql_update db_orders db_orders_update ok P f)"
  by (rule tx_keepsI) (auto simp: order_ids_def sql_Inr map_upd_rows)

lemma release_order_ids: "tx_keeps order_ids (release_reservations E i st now)"
  unfolding release_reservations_def release_one_def held_of_order_def flip_reservation_def
    update_product_def
  by (intro keeps keeps_sql keeps_enqueue_stock_projection order_ids_other)

lemma expire_order_effect:
  assumes run: "expire_order E i now s = Inr (n, t)" and ids: "distinct (map r_id (db_reservations s))"
  shows "db_reservations t = expired_holds {i} now (db_reservations s) \<and> order_ids t = order_ids s"
proof -
  obtain st s1 s2 m s3 k where
    s1: "transition_order E i Expired (Some AwaitingPayment) ''system''
        (Some ''invoice-expired-unpaid'') [] now s = Inr (st, s1)" and
    s2: "release_reservations E i ReExpired now s1 = Inr (n, s2)" and
    s3: "update_payment i {PyPending} (\<lambda>p. p\<lparr>pay_status := PyExpired\<rparr>) s2 = Inr (m, s3)" and
    t: "notify E k EvExpired now s3 = Inr ((), t)"
    using run by (auto simp: expire_order_def find_order_def tx_Inr split: option.splits if_splits)
  have r1: "db_reservations s1 = db_reservations s"
    using s1 by (rule tx_keepsD [rotated]) (rule keeps_transition_order; simp)
  have r2: "db_reservations s2 = expired_holds {i} now (db_reservations s1)"
    using s2 ids by (intro release_holds) (simp_all add: r1)
  have r3: "db_reservations t = db_reservations s2"
  proof -
    have "db_reservations s3 = db_reservations s2"
      using s3 by (rule tx_keepsD [rotated]) (intro keeps; simp)
    moreover have "db_reservations t = db_reservations s3"
      using t by (rule tx_keepsD [rotated]) (intro keeps; simp)
    ultimately show ?thesis by simp
  qed
  have o1: "order_ids s1 = order_ids s"
    using s1 unfolding transition_order_def transition_from_def cas_order_state_def update_order_def
      insert_event_def find_order_def option.case
    by (rule tx_keepsD [rotated]) (intro keeps keeps_order_ids keeps_sql order_ids_other; simp)
  have "order_ids s2 = order_ids s1" by (rule tx_keepsD [OF release_order_ids s2])
  moreover have "order_ids s3 = order_ids s2"
    using s3 by (rule tx_keepsD [rotated]) (intro keeps order_ids_other)
  moreover have "order_ids t = order_ids s3"
    using t by (rule tx_keepsD [rotated]) (intro keeps order_ids_other)
  ultimately show ?thesis using r1 r2 r3 o1 by simp
qed

lemma expire_due_order_effect:
  assumes run: "expire_due_order E now acc i s = (Inr acc', t)"
    and ids: "distinct (map r_id (db_reservations s))" and known: "i \<in> set (order_ids s)"
  shows "db_reservations t = expired_holds {i} now (db_reservations s) \<and> order_ids t = order_ids s"
proof -
  have "\<exists>k \<in> set (db_orders s). o_id k = i" using known by (auto simp: order_ids_def)
  then obtain k where k: "List.find (\<lambda>k. o_id k = i) (db_orders s) = Some k"
    using find_ex [of _ "db_orders s" "\<lambda>k. o_id k = i"] by blast
  show ?thesis
  proof (cases "o_state k = AwaitingPayment")
    case True
    have "\<not> is_illegal e" if "expire_order E i now s = Inl e" for e
      using that expire_order_legal [OF k True] by (cases e) (auto simp: is_illegal_def)
    then obtain n where "expire_order E i now s = Inr (n, t)"
      using run k True
      by (auto simp: expire_due_order_def pr_defs split: sum.splits)
    then show ?thesis by (rule expire_order_effect [OF _ ids])
  next
    case False
    then obtain n where rel: "release_reservations E i ReExpired now s = Inr (n, t)"
      using run k by (auto simp: expire_due_order_def pr_Inr)
    show ?thesis
      using release_holds [OF rel ids] tx_keepsD [OF release_order_ids rel] by (rule conjI)
  qed
qed

lemma expire_all_effect:
  assumes "pr_fold (expire_due_order E now) acc xs s = (Inr acc', t)"
    and "distinct (map r_id (db_reservations s))" and "set xs \<subseteq> set (order_ids s)"
  shows "db_reservations t = expired_holds (set xs) now (db_reservations s)"
  using assms
proof (induction xs arbitrary: acc s)
  case Nil
  then show ?case by (simp add: pr_Inr expired_holds_def)
next
  case (Cons i xs)
  obtain a u where step: "expire_due_order E now acc i s = (Inr a, u)"
    and rest: "pr_fold (expire_due_order E now) a xs u = (Inr acc', t)"
    using Cons.prems(1) by (auto simp: pr_Inr)
  have eff: "db_reservations u = expired_holds {i} now (db_reservations s)" "order_ids u = order_ids s"
    using expire_due_order_effect [OF step Cons.prems(2)] Cons.prems(3) by auto
  have "db_reservations t = expired_holds (set xs) now (db_reservations u)"
    using Cons.IH [OF rest] Cons.prems(2,3) eff by (simp add: expired_holds_ids)
  then show ?case by (simp add: eff expired_holds_twice)
qed

text \<open>
  C17 (Expiry pass). When the pass returns, exactly the held reservations of the orders that had a
  due one are expired, and every other reservation is as before: none that was due is still held.
\<close>

theorem expiry_pass_frees_every_due_hold:
  assumes run: "reservation_expiry_pass E now s = (Inr res, t)"
    and ids: "distinct (map r_id (db_reservations s))"
    and orders: "\<forall>r \<in> set (db_reservations s). \<exists>k \<in> set (db_orders s). o_id k = r_order_id r"
  shows "db_reservations t = map (\<lambda>r. if r_state r = ReHeld \<and> (\<exists>d \<in> set (db_reservations s).
        r_order_id d = r_order_id r \<and> r_state d = ReHeld \<and> (\<exists>x \<le> now. r_expires_at d = Some x))
      then r\<lparr>r_state := ReExpired, r_updated_at := now\<rparr> else r) (db_reservations s)
    \<and> (\<forall>r \<in> set (db_reservations t). \<forall>x \<le> now. r_expires_at r = Some x \<longrightarrow> r_state r \<noteq> ReHeld)"
proof -
  let ?due = "\<lambda>r. r_state r = ReHeld \<and> (case r_expires_at r of None \<Rightarrow> False | Some x \<Rightarrow> x \<le> now)"
  let ?xs = "remdups (map r_order_id (filter ?due (db_reservations s)))"
  have "pr_fold (expire_due_order E now) (0, 0) ?xs s = (Inr res, t)"
    using run by (auto simp: reservation_expiry_pass_def assert_database_compatible_def pr_Inr split: if_splits)
  moreover have "set ?xs \<subseteq> set (order_ids s)"
    using orders by (force simp: order_ids_def)
  ultimately have t: "db_reservations t = expired_holds (set ?xs) now (db_reservations s)"
    using ids by (intro expire_all_effect)
  have mem: "j \<in> set ?xs \<longleftrightarrow> (\<exists>d \<in> set (db_reservations s). r_order_id d = j \<and> r_state d = ReHeld
      \<and> (\<exists>x \<le> now. r_expires_at d = Some x))" for j
    by (force split: option.splits)
  have "db_reservations t = map (\<lambda>r. if r_state r = ReHeld \<and> (\<exists>d \<in> set (db_reservations s).
        r_order_id d = r_order_id r \<and> r_state d = ReHeld \<and> (\<exists>x \<le> now. r_expires_at d = Some x))
      then r\<lparr>r_state := ReExpired, r_updated_at := now\<rparr> else r) (db_reservations s)"
    unfolding t expired_holds_def mem by (simp only: conj_commute)
  moreover have "r_state r \<noteq> ReHeld"
    if "r \<in> set (db_reservations t)" "x \<le> now" "r_expires_at r = Some x" for r x
    using that unfolding t expired_holds_def set_map mem by (fastforce split: if_splits)
  ultimately show ?thesis by blast
qed

lemma expiry_pass_frees_every_due_hold_witness:
  "case reservation_expiry_pass sample_env 950 shop_db of (Inl _, _) \<Rightarrow> False
   | (Inr _, t) \<Rightarrow> map r_state (db_reservations t) = [ReExpired]"
proof -
  have "case reservation_expiry_pass sample_env 950 shop_db of (Inl _, _) \<Rightarrow> False | (Inr _, t) \<Rightarrow> True"
    by (simp add: evals)
  then obtain res t where run: "reservation_expiry_pass sample_env 950 shop_db = (Inr res, t)"
    by (auto split: prod.splits sum.splits)
  have ids: "distinct (map r_id (db_reservations shop_db))"
    and orders: "\<forall>r \<in> set (db_reservations shop_db). \<exists>k \<in> set (db_orders shop_db). o_id k = r_order_id r"
    by (simp_all add: evals)
  show ?thesis
    unfolding run using expiry_pass_frees_every_due_hold [OF run ids orders] by (simp add: evals)
qed

end
