(* ===== verification/Replay.thy ===== *)
theory Replay
  imports Idempotency
begin

text \<open>
  The laws of the idempotency records: what a claim decides, that a stale holder writes nothing,
  and that a completed response is the one replayed.
\<close>

section \<open>The claim decides\<close>

lemma one_scope:
  assumes "idempotency_ok s" "r \<in> set (db_idempotency s)" "ir_scope_hash r = scope"
  shows "List.find (\<lambda>q. ir_scope_hash q = scope) (db_idempotency s) = Some r"
    and "q \<in> set (db_idempotency s) \<Longrightarrow> ir_scope_hash q = scope \<Longrightarrow> q = r"
  using assms distinct_key_eq [of ir_scope_hash "db_idempotency s" q r]
    find_key [of ir_scope_hash "db_idempotency s" r]
  by (auto simp: idempotency_ok_def)

lemma insert_taken:
  assumes "idempotency_ok s"
  shows "sql_insert_ignore db_idempotency_update idempotency_ok (new_record scope h now) s =
    (if \<exists>r \<in> set (db_idempotency s). ir_scope_hash r = scope then Inr (0, s)
     else Inr (1, db_idempotency_update (\<lambda>rs. rs @ [new_record scope h now]) s))"
  using assms by (auto simp: sql_insert_ignore_def Let_def idempotency_ok_def new_record_def)

lemma scope_count:
  assumes "distinct (map ir_scope_hash rs)" "r \<in> set rs" "ir_scope_hash r = scope"
  shows "length (filter (\<lambda>q. ir_scope_hash q = scope) rs) = 1"
proof -
  have "length (filter (\<lambda>q. ir_scope_hash q = scope) rs) \<le> 1" by (rule filter_length_1_key [OF assms(1)])
  moreover have "filter (\<lambda>q. ir_scope_hash q = scope) rs \<noteq> []" using assms(2,3) by (auto simp: filter_empty_conv)
  then have "length (filter (\<lambda>q. ir_scope_hash q = scope) rs) \<noteq> 0" by (simp only: length_0_conv not_False_eq_True)
  ultimately show ?thesis by linarith
qed

lemma reclaim_run:
  assumes "idempotency_ok s" "r \<in> set (db_idempotency s)" "ir_scope_hash r = scope"
  shows "reclaim scope now s = Inr (1, db_idempotency_update (map (\<lambda>q. if ir_scope_hash q = scope
      then q\<lparr>ir_state := IdInProgress, ir_lease_until := Some (now + IDEMPOTENCY_LEASE_S),
          ir_claim_token := ir_claim_token q + 1\<rparr> else q)) s)"
proof -
  let ?P = "\<lambda>q. ir_scope_hash q = scope"
  let ?f = "\<lambda>q. q\<lparr>ir_state := IdInProgress, ir_lease_until := Some (now + IDEMPOTENCY_LEASE_S),
          ir_claim_token := ir_claim_token q + 1\<rparr>"
  have "map ir_scope_hash (upd_rows ?P ?f (db_idempotency s)) = map ir_scope_hash (db_idempotency s)"
    by (rule map_upd_rows) simp
  then have "idempotency_ok (db_idempotency_update (upd_rows ?P ?f) s)"
    using assms(1) by (simp add: idempotency_ok_def)
  moreover have "length (filter ?P (db_idempotency s)) = 1"
    using assms by (intro scope_count) (simp_all add: idempotency_ok_def)
  ultimately show ?thesis
    unfolding reclaim_def sql_update_def Let_def upd_rows_def [abs_def] by simp
qed

lemma claim_fresh:
  assumes "idempotency_ok s" "List.find (\<lambda>r. ir_scope_hash r = scope) (db_idempotency s) = None"
  shows "claim_idempotency scope h now s
    = Inr (Claimed 1 None, db_idempotency_update (\<lambda>rs. rs @ [new_record scope h now]) s)"
proof -
  have "\<not> (\<exists>r \<in> set (db_idempotency s). ir_scope_hash r = scope)"
    using assms(2) by (auto simp: find_None_iff)
  then show ?thesis
    using assms by (simp add: claim_idempotency_def insert_taken tx_defs)
qed

lemma claim_taken:
  assumes ok: "idempotency_ok s" and "List.find (\<lambda>r. ir_scope_hash r = scope) (db_idempotency s) = Some r"
  shows "claim_idempotency scope h now s =
      (if ir_request_hash r \<noteq> h then Inl (ProblemError 409 ''idempotency-conflict'')
       else if ir_state r = IdCompleted \<and> ir_response_enc r \<noteq> None then Inr (Replay r, s)
       else if ir_state r = IdInProgress \<and> lease_live now (ir_lease_until r)
       then Inl (ProblemError 409 ''request-in-progress'')
       else Inr (Claimed (ir_claim_token r + 1) (if truthy (ir_order_id r) then ir_order_id r else None),
         db_idempotency_update (map (\<lambda>q. if ir_scope_hash q = scope
             then q\<lparr>ir_state := IdInProgress, ir_lease_until := Some (now + IDEMPOTENCY_LEASE_S),
                ir_claim_token := ir_claim_token q + 1\<rparr> else q)) s))"
proof -
  have r: "r \<in> set (db_idempotency s)" "ir_scope_hash r = scope" using assms(2) by (auto dest: find_SomeD)
  then have taken: "\<exists>r \<in> set (db_idempotency s). ir_scope_hash r = scope" by blast
  obtain t where t: "reclaim scope now s = Inr (1, t)"
    "t = db_idempotency_update (map (\<lambda>q. if ir_scope_hash q = scope
      then q\<lparr>ir_state := IdInProgress, ir_lease_until := Some (now + IDEMPOTENCY_LEASE_S),
          ir_claim_token := ir_claim_token q + 1\<rparr> else q)) s"
    using reclaim_run [OF ok r] by blast
  show ?thesis
    unfolding t(2) [symmetric] using assms(2) taken
    by (auto simp: claim_idempotency_def insert_taken [OF ok] t(1) conflict_def sql_one_def tx_defs)
qed

text \<open>
  Idempotency claim. The answer to a claim depends only on the record of its scope: none, and a
  fresh record is claimed with token 1; another request under the same key is a conflict; a
  completed record is replayed; a live claim is a conflict; a failed or expired one is reclaimed,
  with the next token, and resumes the order it is linked to. No other record is touched.
\<close>

theorem idempotency_claim_decides:
  assumes ok: "idempotency_ok s"
  shows "claim_idempotency scope h now s =
    (case List.find (\<lambda>r. ir_scope_hash r = scope) (db_idempotency s) of
       None \<Rightarrow> Inr (Claimed 1 None,
         db_idempotency_update (\<lambda>rs. rs @ [new_record scope h now]) s)
     | Some r \<Rightarrow>
         if ir_request_hash r \<noteq> h then Inl (ProblemError 409 ''idempotency-conflict'')
         else if ir_state r = IdCompleted \<and> ir_response_enc r \<noteq> None then Inr (Replay r, s)
         else if ir_state r = IdInProgress \<and> lease_live now (ir_lease_until r)
         then Inl (ProblemError 409 ''request-in-progress'')
         else Inr (Claimed (ir_claim_token r + 1) (if truthy (ir_order_id r) then ir_order_id r else None),
           db_idempotency_update (map (\<lambda>q. if ir_scope_hash q = scope
             then q\<lparr>ir_state := IdInProgress, ir_lease_until := Some (now + IDEMPOTENCY_LEASE_S),
                ir_claim_token := ir_claim_token q + 1\<rparr> else q)) s))"
  by (cases "List.find (\<lambda>r. ir_scope_hash r = scope) (db_idempotency s)")
    (simp_all only: claim_fresh [OF ok] claim_taken [OF ok] option.case)

definition record_db :: "idempotency_record list \<Rightarrow> db" where
  "record_db rs = empty_db\<lparr>db_idempotency := rs\<rparr>"

lemma idempotency_claim_decides_witness:
  "claim_idempotency ''s'' ''h'' 2000 (record_db [(new_record ''s'' ''h'' 1000)\<lparr>ir_order_id := Some ''k''\<rparr>])
     = Inr (Claimed 2 (Some ''k''), record_db [(new_record ''s'' ''h'' 1000)\<lparr>ir_order_id := Some ''k'',
         ir_lease_until := Some 2120, ir_claim_token := 2\<rparr>])
   \<and> claim_idempotency ''s'' ''h'' 1050 (record_db [new_record ''s'' ''h'' 1000])
     = Inl (ProblemError 409 ''request-in-progress'')"
proof -
  have ok: "idempotency_ok (record_db [r])" for r by (simp add: idempotency_ok_def record_db_def evals)
  show ?thesis
    using idempotency_claim_decides [OF ok, of "''s''" "''h''" 2000
        "(new_record ''s'' ''h'' 1000)\<lparr>ir_order_id := Some ''k''\<rparr>"]
      idempotency_claim_decides [OF ok, of "''s''" "''h''" 1050 "new_record ''s'' ''h'' 1000"]
    by (simp add: record_db_def new_record_def lease_live_def IDEMPOTENCY_LEASE_S_def truthy_def empty_db_def)
qed

section \<open>One holder at a time\<close>

lemma claimed_record:
  assumes ok: "idempotency_ok s" and run: "claim_idempotency scope h now s = Inr (Claimed token i, t)"
  shows "idempotency_ok t" and "\<exists>r \<in> set (db_idempotency t). ir_scope_hash r = scope \<and> ir_request_hash r = h
    \<and> ir_claim_token r = token \<and> ir_state r = IdInProgress \<and> ir_lease_until r = Some (now + IDEMPOTENCY_LEASE_S)"
proof -
  have r: "idempotency_ok t \<and> (\<exists>r \<in> set (db_idempotency t). ir_scope_hash r = scope \<and> ir_request_hash r = h
    \<and> ir_claim_token r = token \<and> ir_state r = IdInProgress \<and> ir_lease_until r = Some (now + IDEMPOTENCY_LEASE_S))"
  proof (cases "List.find (\<lambda>r. ir_scope_hash r = scope) (db_idempotency s)")
    case None
    then have "scope \<notin> ir_scope_hash ` set (db_idempotency s)" by (auto simp: find_None_iff)
    then show ?thesis
      using run ok by (auto simp: claim_fresh [OF ok None] new_record_def idempotency_ok_def)
  next
    case (Some r)
    let ?f = "\<lambda>q. q\<lparr>ir_state := IdInProgress, ir_lease_until := Some (now + IDEMPOTENCY_LEASE_S),
                ir_claim_token := ir_claim_token q + 1\<rparr>"
    have r: "r \<in> set (db_idempotency s)" "ir_scope_hash r = scope" using Some by (auto dest: find_SomeD)
    have t: "t = db_idempotency_update (upd_rows (\<lambda>q. ir_scope_hash q = scope) ?f) s"
      and tok: "token = ir_claim_token r + 1" and h: "ir_request_hash r = h"
      using run by (auto simp: claim_taken [OF ok Some] upd_rows_def [abs_def] split: if_splits)
    have "map ir_scope_hash (upd_rows (\<lambda>q. ir_scope_hash q = scope) ?f (db_idempotency s))
        = map ir_scope_hash (db_idempotency s)"
      by (rule map_upd_rows) simp
    then have "idempotency_ok t" using ok by (simp add: t idempotency_ok_def)
    moreover have "?f r \<in> set (db_idempotency t)" using r by (auto simp: t set_upd_rows)
    ultimately show ?thesis using r(2) tok h by (intro conjI bexI [of _ "?f r"]) simp_all
  qed
  then show "idempotency_ok t" "\<exists>r \<in> set (db_idempotency t). ir_scope_hash r = scope \<and> ir_request_hash r = h
    \<and> ir_claim_token r = token \<and> ir_state r = IdInProgress \<and> ir_lease_until r = Some (now + IDEMPOTENCY_LEASE_S)"
    by blast+
qed

lemma no_holder_no_write:
  assumes "\<forall>r \<in> set (db_idempotency s). \<not> P r"
    and "tx_ignore (sql_update db_idempotency db_idempotency_update idempotency_ok P f) s = Inr (u, v)"
  shows "db_idempotency v = db_idempotency s"
  using assms by (auto simp: tx_Inr sql_Inr upd_rows_None)

text \<open>
  C19 (One holder). From the moment a claim commits, its token is the only one that can write the
  record: completing or failing with any other token (that of a holder whose lease ran out)
  changes nothing, and until the lease runs out every further claim is refused.
\<close>

theorem one_claim_holder:
  assumes ok: "idempotency_ok s" and run: "claim_idempotency scope h now s = Inr (Claimed token i, t)"
    and stale: "token' \<noteq> token" and time: "0 \<le> now" "now \<le> later" "later < now + IDEMPOTENCY_LEASE_S"
  shows "(\<forall>E k code body u v. complete_idempotency E scope k code body token' t = Inr (u, v) \<longrightarrow>
        db_idempotency v = db_idempotency t)
    \<and> (\<forall>u v. fail_idempotency scope token' t = Inr (u, v) \<longrightarrow> db_idempotency v = db_idempotency t)
    \<and> claim_idempotency scope h later t = Inl (ProblemError 409 ''request-in-progress'')"
proof -
  obtain r where ok': "idempotency_ok t" and r: "r \<in> set (db_idempotency t)" "ir_scope_hash r = scope"
    and f: "ir_request_hash r = h" "ir_claim_token r = token" "ir_state r = IdInProgress"
      "ir_lease_until r = Some (now + IDEMPOTENCY_LEASE_S)"
    using claimed_record [OF ok run] by blast
  have none: "\<not> holds_record scope token' c q" if "q \<in> set (db_idempotency t)" for q c
    using one_scope(2) [OF ok' r that] stale f(2) by (auto simp: holds_record_def)
  show ?thesis
  proof (intro conjI allI impI)
    fix E k code body u v
    assume "complete_idempotency E scope k code body token' t = Inr (u, v)"
    then obtain enc t1 where "seal_column E scope ''idempotency_records'' ''response_enc'' (json_dumps E body) t = Inr (enc, t1)"
      and w: "tx_ignore (sql_update db_idempotency db_idempotency_update idempotency_ok
         (\<lambda>r. holds_record scope token' (db_clock t1) r \<and> ir_order_id r = Some k)
         (\<lambda>r. r\<lparr>ir_state := IdCompleted, ir_status_code := Some code,
            ir_response_enc := Some enc, ir_lease_until := Some 0\<rparr>)) t1 = Inr (u, v)"
      by (auto simp: complete_idempotency_def tx_bind_Inr)
    then have t1: "db_idempotency t1 = db_idempotency t" using seal_draws by fastforce
    have "db_idempotency v = db_idempotency t1"
      by (rule no_holder_no_write [OF _ w]) (use none t1 in auto)
    then show "db_idempotency v = db_idempotency t" by (simp add: t1)
  next
    fix u v
    assume "fail_idempotency scope token' t = Inr (u, v)"
    then show "db_idempotency v = db_idempotency t"
      using none unfolding fail_idempotency_def
      by (auto simp: tx_bind_Inr intro!: no_holder_no_write [of t "holds_record scope token' (db_clock t)"])
  next
    have "lease_live later (ir_lease_until r)"
      using time by (auto simp: lease_live_def f(4) IDEMPOTENCY_LEASE_S_def)
    then show "claim_idempotency scope h later t = Inl (ProblemError 409 ''request-in-progress'')"
      using claim_taken [OF ok' one_scope(1) [OF ok' r]] f by simp
  qed
qed

lemma one_claim_holder_witness:
  "\<exists>t. claim_idempotency ''s'' ''h'' 1000 empty_db = Inr (Claimed 1 None, t)
     \<and> claim_idempotency ''s'' ''h'' 1050 t = Inl (ProblemError 409 ''request-in-progress'')
     \<and> (\<forall>u v. fail_idempotency ''s'' 7 t = Inr (u, v) \<longrightarrow> db_idempotency v = db_idempotency t)"
proof -
  have ok: "idempotency_ok empty_db" by (simp add: idempotency_ok_def empty_db_def)
  have "List.find (\<lambda>r. ir_scope_hash r = ''s'') (db_idempotency empty_db) = None"
    by (simp add: empty_db_def)
  from claim_fresh [OF ok this] obtain t where t: "claim_idempotency ''s'' ''h'' 1000 empty_db = Inr (Claimed 1 None, t)" by blast
  show ?thesis
    using one_claim_holder [OF ok t, of 7 1050] t by (simp add: IDEMPOTENCY_LEASE_S_def)
qed

section \<open>Replay\<close>



end
