(* ===== verification/OutboxLaws.thy ===== *)
theory OutboxLaws
  imports Outbox Samples
begin

text \<open>
  The laws of the publication queue: enqueueing supersedes and is idempotent, a batch claims
  exactly what is due, a stale holder writes nothing, and recovery reschedules within bounds.
\<close>

section \<open>Enqueue\<close>

definition superseded :: "string \<Rightarrow> string \<Rightarrow> int \<Rightarrow> int \<Rightarrow> outbox_event list \<Rightarrow> outbox_event list" where
  "superseded at ai rv t = upd_rows (\<lambda>x. same_aggregate at ai x \<and> x_aggregate_revision x < rv \<and> ob_live (x_state x))
     (\<lambda>x. x\<lparr>x_state := ObSuperseded, x_updated_at := t\<rparr>)"

definition same_intent :: "string \<Rightarrow> string \<Rightarrow> int \<Rightarrow> int \<Rightarrow> outbox_event \<Rightarrow> bool" where
  "same_intent at ai rv kind x \<longleftrightarrow> same_aggregate at ai x \<and> x_aggregate_revision x = rv
     \<and> x_event_kind x = kind \<and> ob_live (x_state x)"

lemma superseded_ids [simp]: "map x_id (superseded at ai rv t xs) = map x_id xs"
  by (simp add: superseded_def map_upd_rows)

lemma superseded_set: "x_id ` set (superseded at ai rv t xs) = x_id ` set xs"
  using arg_cong [OF superseded_ids, of set] by (simp only: set_map)

lemma find_append: "find P (xs @ ys) = (case find P xs of None \<Rightarrow> find P ys | Some x \<Rightarrow> Some x)"
  by (induction xs) auto

lemma superseded_same: "find (same_intent at ai rv kind) (superseded at ai rv t xs) = find (same_intent at ai rv kind) xs"
  by (induction xs) (auto simp: superseded_def upd_rows_Cons same_intent_def same_aggregate_def ob_live_def)

lemma superseded_older: "x \<in> set (superseded at ai rv t xs) \<Longrightarrow> same_aggregate at ai x \<Longrightarrow>
    x_aggregate_revision x < rv \<Longrightarrow> \<not> ob_live (x_state x)"
  by (auto simp: superseded_def set_upd_rows ob_live_def split: if_splits)

lemma superseded_others: "filter (\<lambda>x. \<not> same_aggregate at ai x) (superseded at ai rv t xs)
    = filter (\<lambda>x. \<not> same_aggregate at ai x) xs"
  by (induction xs) (auto simp: superseded_def upd_rows_Cons same_aggregate_def)

lemma superseded_none:
  "\<forall>x \<in> set xs. same_aggregate at ai x \<and> x_aggregate_revision x < rv \<longrightarrow> \<not> ob_live (x_state x) \<Longrightarrow>
     superseded at ai rv t xs = xs"
  unfolding superseded_def by (rule upd_rows_None) blast

lemma enqueue_intent_run:
  assumes run: "enqueue_intent E m at ai kind rv addr deps s = Inr (i, t)"
  shows "outbox_ok (db_outbox_update (superseded at ai rv (db_clock s)) s)"
    and "case find (same_intent at ai rv kind) (db_outbox s) of
      Some x \<Rightarrow> i = x_id x \<and> t = db_outbox_update (superseded at ai rv (db_clock s)) s
    | None \<Rightarrow> i = uuid4 E (db_draws s)
        \<and> db_outbox t = superseded at ai rv (db_clock s) (db_outbox s)
            @ [new_intent i m at ai kind rv addr (db_clock s)]
        \<and> i \<notin> x_id ` set (db_outbox s) \<and> db_clock t = db_clock s"
proof -
  let ?s1 = "db_outbox_update (superseded at ai rv (db_clock s)) s"
  let ?rest = "\<lambda>existing. case existing of
         Some x \<Rightarrow> tx_return (x_id x)
       | None \<Rightarrow>
           tx_bind (new_uuid E) (\<lambda>i.
           tx_seq (sql_insert db_outbox_update outbox_ok (new_intent i m at ai kind rv addr (db_clock s)))
          (tx_seq (tx_for deps (add_dependency i))
             (tx_return i)))"
  have run1: "outbox_ok ?s1 \<and> ?rest (find (same_intent at ai rv kind) (db_outbox ?s1)) ?s1 = Inr (i, t)"
    using run by (auto simp: enqueue_intent_def supersede_older_def tx_Inr sql_Inr superseded_def
        same_intent_def [abs_def])
  then show "outbox_ok ?s1" by simp
  have same: "find (same_intent at ai rv kind) (db_outbox ?s1) = find (same_intent at ai rv kind) (db_outbox s)"
    by (simp add: superseded_same)
  show "case find (same_intent at ai rv kind) (db_outbox s) of
      Some x \<Rightarrow> i = x_id x \<and> t = db_outbox_update (superseded at ai rv (db_clock s)) s
    | None \<Rightarrow> i = uuid4 E (db_draws s)
        \<and> db_outbox t = superseded at ai rv (db_clock s) (db_outbox s)
            @ [new_intent i m at ai kind rv addr (db_clock s)]
        \<and> i \<notin> x_id ` set (db_outbox s) \<and> db_clock t = db_clock s"
  proof (cases "find (same_intent at ai rv kind) (db_outbox s)")
    case (Some x)
    then show ?thesis using run1 unfolding same by simp
  next
    case None
    let ?s2 = "db_outbox_update (\<lambda>rows. rows @ [new_intent (uuid4 E (db_draws s)) m at ai kind rv addr (db_clock s)])
      (db_draws_update Suc ?s1)"
    have i: "i = uuid4 E (db_draws s)" and ok: "outbox_ok ?s2"
      and deps: "tx_for deps (add_dependency i) ?s2 = Inr ((), t)"
      using run1 unfolding same None by (auto simp: tx_Inr sql_Inr)
    have "tx_keeps (\<lambda>s. (db_outbox s, db_clock s)) (tx_for deps (add_dependency i))"
      by (intro keeps) simp
    from tx_keepsD [OF this deps] have t: "db_outbox t = superseded at ai rv (db_clock s) (db_outbox s)
        @ [new_intent i m at ai kind rv addr (db_clock s)]" "db_clock t = db_clock s" by (simp_all add: i)
    have "i \<notin> set (map x_id (superseded at ai rv (db_clock s) (db_outbox s)))"
      using ok by (simp add: outbox_ok_def new_intent_def i)
    then show ?thesis using None i t unfolding superseded_ids by simp
  qed
qed

text \<open>
  C35 (Supersession). An enqueue answers with a live intent of exactly the aggregate, revision and
  kind asked for, leaves no live intent of an older revision of that aggregate, and does not touch
  the intents of other aggregates; asking again returns the same intent and changes nothing.
\<close>

theorem enqueue_supersedes_and_repeats:
  assumes run: "enqueue_intent E m at ai kind rv addr deps s = Inr (i, t)"
  shows "(\<exists>x \<in> set (db_outbox t). x_id x = i \<and> x_aggregate_type x = at \<and> x_aggregate_id x = ai
        \<and> x_aggregate_revision x = rv \<and> x_event_kind x = kind
        \<and> x_state x \<in> {ObPending, ObClaimed, ObPartiallyPublished})
    \<and> (\<forall>x \<in> set (db_outbox t). x_aggregate_type x = at \<and> x_aggregate_id x = ai
        \<and> x_aggregate_revision x < rv \<longrightarrow> x_state x \<notin> {ObPending, ObClaimed, ObPartiallyPublished})
    \<and> filter (\<lambda>x. \<not> (x_aggregate_type x = at \<and> x_aggregate_id x = ai)) (db_outbox t)
      = filter (\<lambda>x. \<not> (x_aggregate_type x = at \<and> x_aggregate_id x = ai)) (db_outbox s)
    \<and> enqueue_intent E m' at ai kind rv addr' deps' t = Inr (i, t)"
proof -
  note R = enqueue_intent_run [OF run]
  have same: "same_aggregate at ai = (\<lambda>x. x_aggregate_type x = at \<and> x_aggregate_id x = ai)"
    by (rule ext) (simp add: same_aggregate_def)
  have live: "ob_live = (\<lambda>st. st \<in> {ObPending, ObClaimed, ObPartiallyPublished})"
    by (rule ext) (simp add: ob_live_def)
  have found: "\<exists>x. find (same_intent at ai rv kind) (db_outbox t) = Some x \<and> x_id x = i"
  proof (cases "find (same_intent at ai rv kind) (db_outbox s)")
    case None
    then have none: "find (same_intent at ai rv kind) (superseded at ai rv (db_clock s) (db_outbox s)) = None"
      by (simp add: superseded_same)
    have "same_intent at ai rv kind (new_intent i m at ai kind rv addr (db_clock s))"
      by (simp add: same_intent_def new_intent_def same_aggregate_def ob_live_def)
    then show ?thesis using R(2) None none by (simp add: find_append) (simp add: new_intent_def)
  next
    case (Some x)
    then show ?thesis using R(2) by (auto simp: superseded_same)
  qed
  have older: "\<forall>x \<in> set (db_outbox t). same_aggregate at ai x \<and> x_aggregate_revision x < rv
      \<longrightarrow> \<not> ob_live (x_state x)"
    using R(2) by (auto simp: new_intent_def dest: superseded_older split: option.splits)
  have others: "filter (\<lambda>x. \<not> same_aggregate at ai x) (db_outbox t)
      = filter (\<lambda>x. \<not> same_aggregate at ai x) (db_outbox s)"
    using R(2) superseded_others [of at ai rv "db_clock s" "db_outbox s"]
    by (auto simp: new_intent_def same_aggregate_def split: option.splits)
  obtain x where x: "find (same_intent at ai rv kind) (db_outbox t) = Some x" "x_id x = i"
    using found by blast
  have "db_outbox_update (superseded at ai rv (db_clock t)) t = t"
    using older by (cases t) (simp add: superseded_none)
  moreover have "outbox_ok t"
    using R by (auto simp: outbox_ok_def new_intent_def superseded_set split: option.splits)
  ultimately obtain n where "supersede_older at ai rv (db_clock t) t = Inr (n, t)"
    by (auto simp: supersede_older_def sql_update_def Let_def superseded_def)
  then have "enqueue_intent E m' at ai kind rv addr' deps' t = Inr (i, t)"
    using x by (simp add: enqueue_intent_def tx_bind_def tx_seq_def tx_get_def tx_return_def
        sql_one_def same_intent_def [abs_def])
  then show ?thesis
    using find_SomeD [OF x(1)] x(2) older others unfolding same live same_intent_def by blast
qed

text \<open>Two revisions of one product.\<close>

lemma enqueue_supersedes_and_repeats_witness:
  "case tx_seq (tx_ignore (enqueue_intent sample_env ''m'' ''products'' ''p'' 30402 1 None []))
      (enqueue_intent sample_env ''m'' ''products'' ''p'' 30402 2 None []) empty_db of
     Inl _ \<Rightarrow> False
   | Inr (i, t) \<Rightarrow> map x_state (db_outbox t) = [ObSuperseded, ObPending]
       \<and> enqueue_intent sample_env ''m'' ''products'' ''p'' 30402 2 None [(''catalogs'', ''c'')] t = Inr (i, t)"
proof -
  let ?one = "enqueue_intent sample_env ''m'' ''products'' ''p'' 30402 1 None []"
  let ?two = "enqueue_intent sample_env ''m'' ''products'' ''p'' 30402 2 None []"
  have "case tx_seq (tx_ignore ?one) ?two empty_db of Inl _ \<Rightarrow> False
    | Inr (i, t) \<Rightarrow> map x_state (db_outbox t) = [ObSuperseded, ObPending]"
    by (simp add: evals outbox_ok_def)
  then obtain i t where run: "tx_seq (tx_ignore ?one) ?two empty_db = Inr (i, t)"
    and st: "map x_state (db_outbox t) = [ObSuperseded, ObPending]"
    by (auto split: sum.splits)
  then obtain s where "?two s = Inr (i, t)" by (auto simp: tx_seq_Inr)
  from enqueue_supersedes_and_repeats [OF this] show ?thesis
    unfolding run using st by simp
qed

section \<open>The claim of a batch\<close>

definition due_batch :: "env \<Rightarrow> int \<Rightarrow> nat \<Rightarrow> outbox_event list \<Rightarrow> outbox_event list" where
  "due_batch E now limit xs = take limit (sort_key x_created_at (filter (claimable E now) xs))"

lemma due_batch_facts:
  assumes "distinct (map x_id xs)"
  shows "distinct (due_batch E now limit xs)"
    and "set (due_batch E now limit xs) \<subseteq> set xs \<inter> {x. claimable E now x}"
proof -
  have "distinct (sort_key x_created_at (filter (claimable E now) xs))"
    using assms by (simp add: distinct_map)
  then show "distinct (due_batch E now limit xs)" by (simp add: due_batch_def)
  show "set (due_batch E now limit xs) \<subseteq> set xs \<inter> {x. claimable E now x}"
    using set_take_subset [of limit "sort_key x_created_at (filter (claimable E now) xs)"]
    by (auto simp: due_batch_def)
qed

lemma claim_one_run:
  assumes run: "claim_one now w acc r s = Inr (acc', t)" and ids: "distinct (map x_id (db_outbox s))"
    and r: "r \<in> set (db_outbox s)" "x_state r \<in> {ObPending, ObPartiallyPublished}"
  shows "acc' = acc @ [claim_row now w r]"
    and "db_outbox t = map (\<lambda>x. if x_id x = x_id r then claim_row now w x else x) (db_outbox s)"
proof -
  let ?P = "\<lambda>x. x_id x = x_id r \<and> x_state x \<in> {ObPending, ObPartiallyPublished}"
  have only: "?P x \<longleftrightarrow> x_id x = x_id r" if "x \<in> set (db_outbox s)" for x
    using distinct_key_eq [OF ids that r(1)] r(2) by blast
  then have rows: "upd_rows ?P (claim_row now w) (db_outbox s)
      = map (\<lambda>x. if x_id x = x_id r then claim_row now w x else x) (db_outbox s)"
    by (simp only: upd_rows_def cong: map_cong if_cong)
  have "filter ?P (db_outbox s) \<noteq> []" using r by (auto simp: filter_empty_conv)
  then have n: "length (filter ?P (db_outbox s)) \<noteq> 0" by (simp only: length_0_conv not_False_eq_True)
  let ?t = "db_outbox_update (upd_rows ?P (claim_row now w)) s"
  have t: "t = ?t" and acc: "\<exists>x. List.find (\<lambda>x. x_id x = x_id r) (db_outbox ?t) = Some x \<and> acc' = acc @ [x]"
    using run n by (auto simp: claim_one_def tx_Inr sql_Inr split: option.splits if_splits)
  show out: "db_outbox t = map (\<lambda>x. if x_id x = x_id r then claim_row now w x else x) (db_outbox s)"
    unfolding t using rows by simp
  have "claim_row now w r \<in> set (db_outbox t)" using r(1) unfolding out by force
  moreover have "map x_id (db_outbox t) = map x_id (db_outbox s)"
    unfolding out by (induction "db_outbox s") (auto simp: claim_row_def)
  then have "distinct (map x_id (db_outbox t))" using ids by simp
  ultimately have "List.find (\<lambda>x. x_id x = x_id (claim_row now w r)) (db_outbox t) = Some (claim_row now w r)"
    by (intro find_key)
  then show "acc' = acc @ [claim_row now w r]" using acc by (simp add: t claim_row_def)
qed

lemma claim_fold:
  assumes "tx_fold (claim_one now w) acc ys s = Inr (rows, t)"
    and "distinct (map x_id xs)" "distinct (zs @ ys)" "set (zs @ ys) \<subseteq> set xs"
    and "\<forall>y \<in> set ys. x_state y \<in> {ObPending, ObPartiallyPublished}"
    and "db_outbox s = map (\<lambda>x. if x \<in> set zs then claim_row now w x else x) xs"
  shows "rows = acc @ map (claim_row now w) ys
    \<and> db_outbox t = map (\<lambda>x. if x \<in> set (zs @ ys) then claim_row now w x else x) xs"
  using assms
proof (induction ys arbitrary: acc s zs)
  case Nil
  then show ?case by simp
next
  case (Cons y ys)
  obtain acc1 s1 where one: "claim_one now w acc y s = Inr (acc1, s1)"
    and rest: "tx_fold (claim_one now w) acc1 ys s1 = Inr (rows, t)"
    using Cons.prems(1) by (auto simp: tx_bind_Inr)
  have y: "y \<in> set xs" "y \<notin> set zs" using Cons.prems(3,4) by auto
  have same: "x = y" if "x \<in> set xs" "x_id x = x_id y" for x
    using distinct_key_eq [OF Cons.prems(2) that(1) y(1) that(2)] .
  have ids: "map x_id (db_outbox s) = map x_id xs"
    unfolding Cons.prems(6) by (simp add: claim_row_def)
  have "y \<in> set (db_outbox s)" unfolding Cons.prems(6) using y by force
  note one' = claim_one_run [OF one _ this]
  have "db_outbox s1 = map (\<lambda>x. if x_id x = x_id y then claim_row now w x else x) (db_outbox s)"
    using one'(2) Cons.prems(2,5) by (simp add: ids)
  also have "\<dots> = map (\<lambda>x. if x \<in> set (zs @ [y]) then claim_row now w x else x) xs"
    unfolding Cons.prems(6) map_map using same y(2)
    by (intro map_cong refl) (auto simp: claim_row_def)
  finally have "rows = acc1 @ map (claim_row now w) ys
    \<and> db_outbox t = map (\<lambda>x. if x \<in> set ((zs @ [y]) @ ys) then claim_row now w x else x) xs"
    using Cons.prems(2-5) by (intro Cons.IH [OF rest]) auto
  moreover have "acc1 = acc @ [claim_row now w y]"
    using one'(1) Cons.prems(2,5) by (simp add: ids)
  ultimately show ?case by simp
qed

lemma claim_batch_run:
  assumes run: "claim_batch E now w limit s = Inr (rows, t)" and ok: "outbox_ok s"
  shows "rows = map (claim_row now w) (due_batch E now limit (db_outbox s))"
    and "db_outbox t = map (\<lambda>x. if x \<in> set (due_batch E now limit (db_outbox s))
      then claim_row now w x else x) (db_outbox s)"
proof -
  let ?due = "due_batch E now limit (db_outbox s)"
  have ids: "distinct (map x_id (db_outbox s))" using ok by (simp add: outbox_ok_def)
  note D = due_batch_facts [OF ids]
  have "tx_fold (claim_one now w) [] ?due s = Inr (rows, t)"
    using run by (auto simp: claim_batch_def tx_Inr due_batch_def)
  moreover have "\<forall>y \<in> set ?due. x_state y \<in> {ObPending, ObPartiallyPublished}"
  proof
    fix y assume "y \<in> set ?due"
    then have "claimable E now y" using D(2) by blast
    then show "x_state y \<in> {ObPending, ObPartiallyPublished}" by (simp add: claimable_def)
  qed
  moreover have "set ?due \<subseteq> set (db_outbox s)" using D(2) by blast
  ultimately show
    "rows = map (claim_row now w) ?due"
    "db_outbox t = map (\<lambda>x. if x \<in> set ?due then claim_row now w x else x) (db_outbox s)"
    using claim_fold [OF _ ids, of now w "[]" ?due s rows t "[]"] D(1) by simp_all
qed

text \<open>
  Batch claim. A claim of at most \<open>limit\<close> intents takes the oldest due ones: it returns them
  marked as claimed by the worker, with a lease and the next fencing token, exactly as they now
  stand in the table, and touches no other row.
\<close>

theorem batch_claim_takes_the_oldest_due:
  assumes run: "claim_batch E now w limit s = Inr (rows, t)" and ok: "outbox_ok s"
  shows "length rows \<le> limit
    \<and> rows = map (claim_row now w) (take limit (sort_key x_created_at (filter (claimable E now) (db_outbox s))))
    \<and> db_outbox t = map (\<lambda>x. if claim_row now w x \<in> set rows then claim_row now w x else x) (db_outbox s)"
proof -
  note R = claim_batch_run [OF run ok]
  have ids: "distinct (map x_id (db_outbox s))" using ok by (simp add: outbox_ok_def)
  have "x \<in> set (due_batch E now limit (db_outbox s)) \<longleftrightarrow> claim_row now w x \<in> set rows"
    if "x \<in> set (db_outbox s)" for x
  proof
    assume "claim_row now w x \<in> set rows"
    then obtain y where y: "y \<in> set (due_batch E now limit (db_outbox s))" "claim_row now w x = claim_row now w y"
      by (auto simp: R(1))
    have "x_id (claim_row now w x) = x_id (claim_row now w y)" using y(2) by simp
    then have "x_id x = x_id y" by (simp add: claim_row_def)
    then have "x = y" using distinct_key_eq [OF ids that] y(1) due_batch_facts(2) [OF ids] by blast
    then show "x \<in> set (due_batch E now limit (db_outbox s))" using y(1) by simp
  qed (simp add: R(1))
  then have "db_outbox t = map (\<lambda>x. if claim_row now w x \<in> set rows then claim_row now w x else x) (db_outbox s)"
    unfolding R(2) by (intro map_cong) auto
  then show ?thesis using R(1) by (auto simp: due_batch_def)
qed

definition sample_intent :: "id \<Rightarrow> int \<Rightarrow> int \<Rightarrow> outbox_event" where
  "sample_intent i created due = (new_intent i ''m'' ''products'' i 30402 0 None created)
     \<lparr>x_next_attempt_at := due\<rparr>"

definition outbox_db :: "outbox_event list \<Rightarrow> db" where
  "outbox_db xs = empty_db\<lparr>db_outbox := xs\<rparr>"

lemma batch_claim_takes_the_oldest_due_witness:
  "case claim_batch sample_env 1000 ''w'' 1 (outbox_db [sample_intent ''a'' 9 0, sample_intent ''b'' 5 0,
      sample_intent ''c'' 1 2000]) of
     Inl _ \<Rightarrow> False
   | Inr (rows, t) \<Rightarrow> map x_id rows = [''b''] \<and> map x_claim_token rows = [1]
       \<and> map x_state (db_outbox t) = [ObPending, ObClaimed, ObPending]"
proof -
  let ?s = "outbox_db [sample_intent ''a'' 9 0, sample_intent ''b'' 5 0, sample_intent ''c'' 1 2000]"
  have ok: "outbox_ok ?s" by (simp add: outbox_ok_def outbox_db_def sample_intent_def new_intent_def)
  have "case claim_batch sample_env 1000 ''w'' 1 ?s of Inl _ \<Rightarrow> False | Inr _ \<Rightarrow> True"
    by (simp add: claim_batch_def claim_one_def claimable_def claim_row_def outbox_db_def sample_intent_def
        outbox_ok_def evals)
  then obtain rows t where run: "claim_batch sample_env 1000 ''w'' 1 ?s = Inr (rows, t)"
    by (auto split: sum.splits)
  show ?thesis
    unfolding run using batch_claim_takes_the_oldest_due [OF run ok]
    by (simp add: claimable_def claim_row_def outbox_db_def sample_intent_def evals)
qed

section \<open>Recovery and fencing\<close>

definition recover_row :: "int \<Rightarrow> outbox_state \<Rightarrow> int \<Rightarrow> outbox_event \<Rightarrow> outbox_event" where
  "recover_row now st next_at x = x\<lparr>x_state := st, x_claimed_by := None, x_claimed_until := None,
     x_claim_token := x_claim_token x + 1, x_next_attempt_at := next_at, x_updated_at := now\<rparr>"

definition after_recovery :: "relay_publication list \<Rightarrow> outbox_event \<Rightarrow> outbox_state" where
  "after_recovery pubs x = (if \<exists>r \<in> set pubs. rp_outbox_event_id r = x_id x \<and> rp_result r = SrAccepted
     then ObPartiallyPublished else ObPending)"

definition recovered :: "env \<Rightarrow> int \<Rightarrow> relay_publication list \<Rightarrow> outbox_event \<Rightarrow> outbox_event \<Rightarrow> bool" where
  "recovered E now pubs x y \<longleftrightarrow> (\<exists>k. y = recover_row now (after_recovery pubs x)
     (now + (backoff_base (x_attempts x) + randint E k 5)) x)"

lemma recover_one_run:
  assumes run: "recover_one E now n row s = Inr (m, t)" and ids: "distinct (map x_id (db_outbox s))"
    and row: "row \<in> set (db_outbox s)" "stale_claim now row"
  shows "m = n + 1" and "db_publications t = db_publications s"
    and "\<exists>y. recovered E now (db_publications s) row y
      \<and> db_outbox t = map (\<lambda>x. if x = row then y else x) (db_outbox s)"
proof -
  let ?P = "\<lambda>x. x_id x = x_id row \<and> stale_claim now x \<and> x_claim_token x = x_claim_token row"
  let ?f = "recover_row now (after_recovery (db_publications s) row)
    (now + (backoff_base (x_attempts row) + randint E (db_draws s) 5))"
  have only: "?P x \<longleftrightarrow> x = row" if "x \<in> set (db_outbox s)" for x
    using distinct_key_eq [OF ids that row(1)] row(2) by blast
  have "filter ?P (db_outbox s) = filter (\<lambda>x. x = row) (db_outbox s)"
    using only by (intro filter_cong) simp_all
  moreover have "length (filter (\<lambda>x. x = row) (db_outbox s)) = 1"
    using ids row(1) distinct_map [of x_id "db_outbox s"]
    by (simp add: distinct_length_filter Collect_conv_if)
  ultimately have n: "length (filter ?P (db_outbox s)) = 1" by simp
  have acc: "(accepted \<noteq> []) \<longleftrightarrow> (\<exists>r \<in> set (db_publications s). rp_outbox_event_id r = x_id row \<and> rp_result r = SrAccepted)"
    if "accepted = remdups (map rp_relay_url (filter (\<lambda>r. rp_outbox_event_id r = x_id row
        \<and> rp_result r = SrAccepted) (db_publications s)))" for accepted
    unfolding that by (simp add: filter_empty_conv)
  have m: "m = n + length (filter ?P (db_outbox s))"
    and t: "t = db_outbox_update (upd_rows ?P ?f) (db_draws_update Suc s)"
    using run acc [OF refl]
    by (auto simp: recover_one_def accepted_targets_def backoff_def tx_Inr sql_Inr recover_row_def [abs_def]
        after_recovery_def cong: conj_cong)
  show "m = n + 1" "db_publications t = db_publications s" using m n by (simp_all add: t)
  have "upd_rows ?P ?f (db_outbox s) = map (\<lambda>x. if x = row then ?f row else x) (db_outbox s)"
    unfolding upd_rows_def using only by (intro map_cong) auto
  then show "\<exists>y. recovered E now (db_publications s) row y
      \<and> db_outbox t = map (\<lambda>x. if x = row then y else x) (db_outbox s)"
    by (intro exI [of _ "?f row"]) (auto simp: t recovered_def)
qed

lemma recover_fold:
  assumes "tx_fold (recover_one E now) n ys s = Inr (m, t)"
    and "distinct (map x_id xs)" "distinct (zs @ ys)" "set (zs @ ys) \<subseteq> set xs"
    and "\<forall>y \<in> set ys. stale_claim now y" and "db_publications s = pubs"
    and "list_all2 (\<lambda>x y. if x \<in> set zs then recovered E now pubs x y else y = x) xs (db_outbox s)"
  shows "m = n + length ys \<and> db_publications t = pubs
    \<and> list_all2 (\<lambda>x y. if x \<in> set (zs @ ys) then recovered E now pubs x y else y = x) xs (db_outbox t)"
  using assms
proof (induction ys arbitrary: n s zs)
  case Nil
  then show ?case by simp
next
  case (Cons y ys)
  obtain n1 s1 where one: "recover_one E now n y s = Inr (n1, s1)"
    and rest: "tx_fold (recover_one E now) n1 ys s1 = Inr (m, t)"
    using Cons.prems(1) by (auto simp: tx_bind_Inr)
  have y: "y \<in> set xs" "y \<notin> set zs" using Cons.prems(3,4) by auto
  have ids: "list_all2 (\<lambda>x y. x_id y = x_id x) xs (db_outbox s)"
    using Cons.prems(7) by (rule list_all2_mono) (auto simp: recovered_def recover_row_def split: if_splits)
  then have map_ids: "map x_id (db_outbox s) = map x_id xs"
    by (induction rule: list_all2_induct) auto
  have "y \<in> set (db_outbox s)"
    using Cons.prems(7) y by (auto simp: list_all2_conv_all_nth in_set_conv_nth)
  note one' = recover_one_run [OF one _ this]
  obtain y' where y': "recovered E now pubs y y'"
    "db_outbox s1 = map (\<lambda>x. if x = y then y' else x) (db_outbox s)"
    using one'(3) Cons.prems(2,5,6) map_ids by auto
  have "list_all2 (\<lambda>x z. if x \<in> set (zs @ [y]) then recovered E now pubs x z else z = x) xs (db_outbox s1)"
    unfolding y'(2) list_all2_map2
  proof (rule list.rel_mono_strong [OF Cons.prems(7)])
    fix x z
    assume x: "x \<in> set xs" and xz: "if x \<in> set zs then recovered E now pubs x z else z = x"
    have "x_id z = x_id x" using xz by (auto simp: recovered_def recover_row_def split: if_splits)
    have "x = y" if "z = y"
    proof (rule distinct_key_eq [OF Cons.prems(2) x y(1)])
      show "x_id x = x_id y" using \<open>x_id z = x_id x\<close> unfolding that by (rule sym)
    qed
    then have zx: "z = y \<longrightarrow> x = y" by (rule impI)
    show "if x \<in> set (zs @ [y]) then recovered E now pubs x (if z = y then y' else z)
        else (if z = y then y' else z) = x"
    proof (cases "x = y")
      case True
      then have "z = y" using xz y(2) by simp
      then show ?thesis using True y'(1) by simp
    next
      case False
      then have "z \<noteq> y" using zx by blast
      then show ?thesis using False xz by simp
    qed
  qed
  moreover have "n1 = n + 1" "db_publications s1 = pubs"
    using one'(1,2) Cons.prems(2,5,6) map_ids by auto
  ultimately show ?case
    using Cons.IH [OF rest, of "zs @ [y]"] Cons.prems(2-5) by auto
qed

lemma recover_run:
  assumes run: "recover_stale_claims E now s = Inr (n, t)" and ok: "outbox_ok s"
  shows "n = length (filter (stale_claim now) (db_outbox s))"
    and "list_all2 (\<lambda>x y. if stale_claim now x then recovered E now (db_publications s) x y else y = x)
      (db_outbox s) (db_outbox t)"
proof -
  let ?ys = "filter (stale_claim now) (db_outbox s)"
  have ids: "distinct (map x_id (db_outbox s))" using ok by (simp add: outbox_ok_def)
  then have d: "distinct ?ys" by (simp add: distinct_map)
  have "tx_fold (recover_one E now) 0 ?ys s = Inr (n, t)"
    using run by (auto simp: recover_stale_claims_def tx_Inr)
  moreover have "list_all2 (\<lambda>x y. if x \<in> set [] then recovered E now (db_publications s) x y else y = x)
      (db_outbox s) (db_outbox s)"
    by (simp add: list_all2_refl)
  moreover have "distinct ([] @ ?ys)" "set ([] @ ?ys) \<subseteq> set (db_outbox s)" "\<forall>y \<in> set ?ys. stale_claim now y"
    using d by auto
  ultimately have "n = 0 + length ?ys \<and> db_publications t = db_publications s
    \<and> list_all2 (\<lambda>x y. if x \<in> set ([] @ ?ys) then recovered E now (db_publications s) x y else y = x)
      (db_outbox s) (db_outbox t)"
    by (intro recover_fold [OF _ ids _ _ _ refl])
  then have n: "n = length ?ys" and rel: "list_all2 (\<lambda>x y. if x \<in> set ?ys
      then recovered E now (db_publications s) x y else y = x) (db_outbox s) (db_outbox t)"
    by (simp_all only: append_Nil add_0)
  show "n = length ?ys" by (rule n)
  show "list_all2 (\<lambda>x y. if stale_claim now x then recovered E now (db_publications s) x y else y = x)
      (db_outbox s) (db_outbox t)"
    by (rule list.rel_mono_strong [OF rel]) simp
qed

lemma backoff_base_bounds: "0 \<le> a \<Longrightarrow> 5 \<le> backoff_base a \<and> backoff_base a \<le> 1800"
proof -
  have "1 \<le> (2 :: int) ^ nat a" by simp
  then show ?thesis by (simp add: backoff_base_def BACKOFF_BASE_S_def BACKOFF_CAP_S_def)
qed

text \<open>
  (Recovery). Recovery touches exactly the claims whose lease has run out: each goes back to
  pending, or to partially published when a relay already accepted it, with a new fencing token
  and a next attempt between 5 and 1805 seconds away (\<open>random.randint(0, 5)\<close> is within its
  bounds); every other intent is as before, and the number it returns is the number recovered.
\<close>

theorem recovery_reschedules_stale_claims:
  assumes run: "recover_stale_claims E now s = Inr (n, t)" and ok: "outbox_ok s"
    and jitter: "\<forall>k. 0 \<le> randint E k 5 \<and> randint E k 5 \<le> 5"
    and tries: "\<forall>x \<in> set (db_outbox s). 0 \<le> x_attempts x"
  shows "n = length (filter (stale_claim now) (db_outbox s))
    \<and> list_all2 (\<lambda>x y. if stale_claim now x
        then (\<exists>at. now + 5 \<le> at \<and> at \<le> now + 1805 \<and> y = x\<lparr>
          x_state := (if \<exists>r \<in> set (db_publications s). rp_outbox_event_id r = x_id x
              \<and> rp_result r = SrAccepted then ObPartiallyPublished else ObPending),
          x_claimed_by := None, x_claimed_until := None, x_claim_token := x_claim_token x + 1,
          x_next_attempt_at := at, x_updated_at := now\<rparr>)
        else y = x) (db_outbox s) (db_outbox t)"
proof -
  note R = recover_run [OF run ok]
  have "list_all2 (\<lambda>x y. if stale_claim now x
        then (\<exists>at. now + 5 \<le> at \<and> at \<le> now + 1805 \<and> y = recover_row now (after_recovery (db_publications s) x) at x)
        else y = x) (db_outbox s) (db_outbox t)"
  proof (rule list.rel_mono_strong [OF R(2)])
    fix x y
    assume x: "x \<in> set (db_outbox s)"
      and xy: "if stale_claim now x then recovered E now (db_publications s) x y else y = x"
    show "if stale_claim now x
        then (\<exists>at. now + 5 \<le> at \<and> at \<le> now + 1805 \<and> y = recover_row now (after_recovery (db_publications s) x) at x)
        else y = x"
    proof (cases "stale_claim now x")
      case True
      then obtain k where y: "y = recover_row now (after_recovery (db_publications s) x)
          (now + (backoff_base (x_attempts x) + randint E k 5)) x"
        using xy by (auto simp: recovered_def)
      have "5 \<le> backoff_base (x_attempts x) + randint E k 5" "backoff_base (x_attempts x) + randint E k 5 \<le> 1805"
        using backoff_base_bounds [of "x_attempts x"] tries x jitter [rule_format, of k] by auto
      then have "\<exists>at. now + 5 \<le> at \<and> at \<le> now + 1805
          \<and> y = recover_row now (after_recovery (db_publications s) x) at x"
        unfolding y by (intro exI [of _ "now + (backoff_base (x_attempts x) + randint E k 5)"] conjI refl) linarith+
      then show ?thesis using True by (simp only: if_True)
    qed (use xy in simp)
  qed
  then show ?thesis using R(1) unfolding recover_row_def after_recovery_def by (intro conjI)
qed

lemma outbox_ok_ids: "map x_id (db_outbox t) = map x_id (db_outbox s) \<Longrightarrow> outbox_ok t = outbox_ok s"
  by (simp add: outbox_ok_def)

lemma claim_batch_ids:
  assumes "claim_batch E now w limit s = Inr (rows, t)" "outbox_ok s"
  shows "map x_id (db_outbox t) = map x_id (db_outbox s)"
  unfolding claim_batch_run(2) [OF assms] by (simp add: claim_row_def)

lemma recover_ids:
  assumes "recover_stale_claims E now s = Inr (n, t)" "outbox_ok s"
  shows "map x_id (db_outbox t) = map x_id (db_outbox s)"
proof -
  have "list_all2 (\<lambda>x y. x_id y = x_id x) (db_outbox s) (db_outbox t)"
    by (rule list.rel_mono_strong [OF recover_run(2) [OF assms]])
      (auto simp: recovered_def recover_row_def split: if_splits)
  then show ?thesis by (induction rule: list_all2_induct) auto
qed

lemma all2_right: "list_all2 R xs ys \<Longrightarrow> y \<in> set ys \<Longrightarrow> \<exists>x \<in> set xs. R x y"
  by (induction rule: list_all2_induct) auto

lemma cas_state_refused:
  assumes "outbox_ok s" "\<forall>x \<in> set (db_outbox s). \<not> holds_claim row (db_clock s) x"
  shows "cas_state row st now na err s = Inr (False, s)"
proof -
  have "db_outbox_update (upd_rows (holds_claim row (db_clock s)) f) s = s" for f
    using assms(2) by (cases s) (simp add: upd_rows_None)
  moreover have "filter (holds_claim row (db_clock s)) (db_outbox s) = []"
    using assms(2) by (simp add: filter_empty_conv)
  ultimately show ?thesis
    using assms(1) by (simp add: cas_state_def sql_update_def Let_def tx_bind_def tx_get_def tx_return_def)
qed

text \<open>
  C20 (Fencing). A worker whose lease ran out and whose claim was recovered can no longer write the
  outcome of its attempt, whoever has claimed the intent since, itself included: the write is
  refused and changes nothing.
\<close>

theorem recovered_claim_is_fenced_off:
  assumes ok: "outbox_ok s" and claim: "claim_batch E now w limit s = Inr (rows, s1)" and c: "c \<in> set rows"
    and recover: "recover_stale_claims E later s1 = Inr (n, s2)" and late: "now + CLAIM_LEASE_S \<le> later"
    and again: "claim_batch E later' w' limit' s2 = Inr (rows', s3)"
  shows "cas_state c st t na err s3 = Inr (False, s3)"
proof -
  have ok1: "outbox_ok s1" using outbox_ok_ids [OF claim_batch_ids [OF claim ok]] ok by simp
  have ok2: "outbox_ok s2" using outbox_ok_ids [OF recover_ids [OF recover ok1]] ok1 by simp
  have ok3: "outbox_ok s3" using outbox_ok_ids [OF claim_batch_ids [OF again ok2]] ok2 by simp
  have ids: "distinct (map x_id (db_outbox s))" "distinct (map x_id (db_outbox s1))"
    using ok ok1 by (simp_all add: outbox_ok_def)
  obtain x where x: "x \<in> set (due_batch E now limit (db_outbox s))" "c = claim_row now w x"
    using c claim_batch_run(1) [OF claim ok] by auto
  then have "x \<in> set (db_outbox s)" using due_batch_facts(2) [OF ids(1)] by blast
  then have c1: "c \<in> set (db_outbox s1)" using x unfolding claim_batch_run(2) [OF claim ok] by force
  have stale: "stale_claim later c" using late by (simp add: x(2) stale_claim_def claim_row_def)
  have token2: "x_claim_token y = x_claim_token c + 1" if y: "y \<in> set (db_outbox s2)" "x_id y = x_id c" for y
  proof -
    obtain z where z: "z \<in> set (db_outbox s1)"
      "if stale_claim later z then recovered E later (db_publications s1) z y else y = z"
      using all2_right [OF recover_run(2) [OF recover ok1] y(1)] by blast
    then have "x_id z = x_id c" using y(2) by (auto simp: recovered_def recover_row_def split: if_splits)
    then have "z = c" by (rule distinct_key_eq [OF ids(2) z(1) c1])
    then show ?thesis using z(2) stale by (auto simp: recovered_def recover_row_def)
  qed
  have "\<not> holds_claim c (db_clock s3) v" if v: "v \<in> set (db_outbox s3)" for v
  proof
    assume h: "holds_claim c (db_clock s3) v"
    obtain y where "y \<in> set (db_outbox s2)" "v = y \<or> v = claim_row later' w' y"
      using v unfolding claim_batch_run(2) [OF again ok2] by auto
    with token2 [of y] h show False by (auto simp: holds_claim_def claim_row_def)
  qed
  then show ?thesis by (intro cas_state_refused [OF ok3]) blast
qed

definition two_workers :: "(db, outbox_event list) tx" where
  "two_workers = tx_bind (claim_batch sample_env 1000 ''w'' 1) (\<lambda>rows.
     tx_seq (tx_ignore (recover_stale_claims sample_env 1120))
    (tx_seq (tx_ignore (claim_batch sample_env 1200 ''v'' 1)) (tx_return rows)))"

text \<open>Worker \<open>w\<close> comes back after worker \<open>v\<close> has taken over.\<close>

lemma recovered_claim_is_fenced_off_witness:
  "case two_workers (outbox_db [sample_intent ''a'' 0 0]) of Inl _ \<Rightarrow> False
   | Inr (rows, t) \<Rightarrow> map x_claimed_by (db_outbox t) = [Some ''v'']
       \<and> cas_state (hd rows) ObPublished 1210 None None t = Inr (False, t)"
proof -
  let ?s = "outbox_db [sample_intent ''a'' 0 0]"
  have ok: "outbox_ok ?s" by (simp add: outbox_ok_def outbox_db_def)
  have "case two_workers ?s of Inl _ \<Rightarrow> False
    | Inr (rows, t) \<Rightarrow> map x_claimed_by (db_outbox t) = [Some ''v''] \<and> rows \<noteq> []"
    by (simp add: two_workers_def claim_batch_def claim_one_def claimable_def claim_row_def outbox_db_def
        sample_intent_def outbox_ok_def recover_stale_claims_def recover_one_def stale_claim_def
        accepted_targets_def backoff_def backoff_base_def BACKOFF_BASE_S_def BACKOFF_CAP_S_def
        CLAIM_LEASE_S_def evals)
  then obtain rows t where run: "two_workers ?s = Inr (rows, t)" and out: "map x_claimed_by (db_outbox t) = [Some ''v'']" "rows \<noteq> []"
    by (auto split: sum.splits)
  obtain s1 n s2 rows' where "claim_batch sample_env 1000 ''w'' 1 ?s = Inr (rows, s1)"
    "recover_stale_claims sample_env 1120 s1 = Inr (n, s2)" "claim_batch sample_env 1200 ''v'' 1 s2 = Inr (rows', t)"
    using run by (auto simp: two_workers_def tx_Inr)
  from recovered_claim_is_fenced_off [OF ok this(1) _ this(2) _ this(3), of "hd rows"] out show ?thesis
    unfolding run by (simp add: CLAIM_LEASE_S_def)
qed

lemma recovery_reschedules_stale_claims_witness:
  "case recover_stale_claims sample_env 1120 (outbox_db [claim_row 1000 ''w'' (sample_intent ''a'' 0 0),
      claim_row 1100 ''w'' (sample_intent ''b'' 0 0)]) of Inl _ \<Rightarrow> False
   | Inr (n, t) \<Rightarrow> n = 1 \<and> map x_state (db_outbox t) = [ObPending, ObClaimed]
       \<and> map x_claim_token (db_outbox t) = [2, 1]"
proof -
  let ?a = "claim_row 1000 ''w'' (sample_intent ''a'' 0 0)"
  let ?b = "claim_row 1100 ''w'' (sample_intent ''b'' 0 0)"
  let ?s = "outbox_db [?a, ?b]"
  have rows: "db_outbox ?s = [?a, ?b]" "db_publications ?s = []"
    by (simp_all add: outbox_db_def empty_db_def)
  have ok: "outbox_ok ?s" and tries: "\<forall>x \<in> set (db_outbox ?s). 0 \<le> x_attempts x"
    unfolding outbox_ok_def rows by (simp_all add: claim_row_def sample_intent_def new_intent_def)
  have stale: "stale_claim 1120 ?a" "\<not> stale_claim 1120 ?b"
    by (simp_all add: stale_claim_def claim_row_def CLAIM_LEASE_S_def)
  have "case recover_stale_claims sample_env 1120 ?s of Inl _ \<Rightarrow> False | Inr _ \<Rightarrow> True"
    by (simp add: outbox_db_def sample_intent_def outbox_ok_def recover_stale_claims_def recover_one_def
        stale_claim_def claim_row_def CLAIM_LEASE_S_def accepted_targets_def backoff_def backoff_base_def evals)
  then obtain n t where run: "recover_stale_claims sample_env 1120 ?s = Inr (n, t)"
    by (auto split: sum.splits)
  have jitter: "\<forall>k. 0 \<le> randint sample_env k 5 \<and> randint sample_env k 5 \<le> 5" by (simp add: evals)
  note R = recovery_reschedules_stale_claims [OF run ok jitter tries]
  have n: "n = 1" using R unfolding rows by (simp add: stale)
  obtain y where "db_outbox t = [y, ?b]" "x_state y = ObPending" "x_claim_token y = x_claim_token ?a + 1"
    using R [THEN conjunct2] unfolding rows list_all2_Cons1 by (auto simp: stale)
  then show ?thesis
    unfolding run using n by (simp add: claim_row_def sample_intent_def new_intent_def)
qed

end
