(* ===== verification/Fencing.thy ===== *)
theory Fencing
  imports Prelude
begin

text \<open>
  The fencing discipline shared by the publication queue, the e-mail queue, the idempotency
  records and the task leases: a row carries a token that only grows, a holder remembers the row
  as it was when it took it, and every write of the holder compares what it remembers. The locale
  states the laws a table must obey; the lemmas say that a claim once lost stays lost.
\<close>

section \<open>Rows that only move on\<close>

definition table_moves :: "('r \<Rightarrow> 'k) \<Rightarrow> ('r \<Rightarrow> 'r \<Rightarrow> bool) \<Rightarrow> 'r list \<Rightarrow> 'r list \<Rightarrow> bool" where
  "table_moves key R xs ys \<longleftrightarrow> (distinct (map key xs) \<longrightarrow>
     distinct (map key ys) \<and> (\<forall>x\<in>set xs. \<exists>y\<in>set ys. key y = key x \<and> R\<^sup>*\<^sup>* x y))"

text \<open>A table in which every row stays and only moves along \<open>R\<close>; rows may be added.\<close>

definition tx_moves :: "('s \<Rightarrow> 'r list) \<Rightarrow> ('r \<Rightarrow> 'k) \<Rightarrow> ('r \<Rightarrow> 'r \<Rightarrow> bool) \<Rightarrow> ('s, 'a) tx \<Rightarrow> bool" where
  "tx_moves rows key R m \<longleftrightarrow> (\<forall>s a t. m s = Inr (a, t) \<longrightarrow> table_moves key R (rows s) (rows t))"

lemma table_moves_refl [simp]: "table_moves key R xs xs"
  unfolding table_moves_def by blast

lemma table_moves_trans:
  "table_moves key R xs ys \<Longrightarrow> table_moves key R ys zs \<Longrightarrow> table_moves key R xs zs"
  unfolding table_moves_def by (metis rtranclp_trans)

lemma table_movesD:
  assumes "table_moves key R xs ys" "distinct (map key xs)"
  shows "distinct (map key ys)" "x \<in> set xs \<Longrightarrow> \<exists>y\<in>set ys. key y = key x \<and> R\<^sup>*\<^sup>* x y"
  using assms by (auto simp: table_moves_def)

lemma table_moves_mono:
  "table_moves key R xs ys \<Longrightarrow> (\<And>x y. R x y \<Longrightarrow> S x y) \<Longrightarrow> table_moves key S xs ys"
  unfolding table_moves_def by (metis mono_rtranclp)

named_theorems moves "rules: how a transaction moves the rows of a table"

lemma tx_movesI:
  "(\<And>s a t. m s = Inr (a, t) \<Longrightarrow> table_moves key R (rows s) (rows t)) \<Longrightarrow> tx_moves rows key R m"
  by (auto simp: tx_moves_def)

lemma tx_movesD:
  "tx_moves rows key R m \<Longrightarrow> m s = Inr (a, t) \<Longrightarrow> table_moves key R (rows s) (rows t)"
  by (auto simp: tx_moves_def)

lemma moves_keeps: "tx_keeps rows m \<Longrightarrow> tx_moves rows key R m"
  by (rule tx_movesI) (metis table_moves_refl tx_keepsD)

lemma moves_bind [moves]:
  assumes "tx_moves rows key R m" "\<And>a. tx_moves rows key R (k a)"
  shows "tx_moves rows key R (tx_bind m k)"
proof (rule tx_movesI)
  fix s b t
  assume "tx_bind m k s = Inr (b, t)"
  then obtain a u where "m s = Inr (a, u)" "k a u = Inr (b, t)" by (auto simp: tx_bind_Inr)
  then show "table_moves key R (rows s) (rows t)"
    using assms by (blast intro: table_moves_trans dest: tx_movesD)
qed

lemma moves_seq [moves]:
  "tx_moves rows key R m \<Longrightarrow> tx_moves rows key R k \<Longrightarrow> tx_moves rows key R (tx_seq m k)"
  unfolding tx_seq_def by (rule moves_bind)

lemma moves_ignore [moves]: "tx_moves rows key R m \<Longrightarrow> tx_moves rows key R (tx_ignore m)"
  by (rule tx_movesI) (auto simp: tx_ignore_Inr dest: tx_movesD)

lemma moves_when [moves]: "tx_moves rows key R m \<Longrightarrow> tx_moves rows key R (tx_when b m)"
  by (rule tx_movesI) (auto simp: tx_when_Inr dest: tx_movesD split: if_splits)

lemma moves_if [moves]:
  "(b \<Longrightarrow> tx_moves rows key R m) \<Longrightarrow> (\<not> b \<Longrightarrow> tx_moves rows key R k)
     \<Longrightarrow> tx_moves rows key R (if b then m else k)"
  by simp

lemma moves_option [moves]:
  "tx_moves rows key R m \<Longrightarrow> (\<And>x. tx_moves rows key R (k x))
     \<Longrightarrow> tx_moves rows key R (case v of None \<Rightarrow> m | Some x \<Rightarrow> k x)"
  by (cases v) auto

lemma moves_prod [moves]:
  "(\<And>a b. tx_moves rows key R (k a b)) \<Longrightarrow> tx_moves rows key R (case v of (a, b) \<Rightarrow> k a b)"
  by (cases v) auto

lemma moves_fold [moves]:
  "(\<And>b x. tx_moves rows key R (f b x)) \<Longrightarrow> tx_moves rows key R (tx_fold f acc xs)"
proof (induction xs arbitrary: acc)
  case Nil
  then show ?case by (simp add: moves_keeps tx_keeps_return)
next
  case (Cons x xs)
  then show ?case by (simp add: moves_bind)
qed

lemma moves_for [moves]: "(\<And>x. tx_moves rows key R (f x)) \<Longrightarrow> tx_moves rows key R (tx_for xs f)"
proof (induction xs)
  case Nil
  then show ?case by (simp add: moves_keeps tx_keeps_return)
next
  case (Cons x xs)
  then show ?case by (simp add: moves_seq)
qed

lemma moves_update:
  assumes get: "\<And>g s. rows (upd g s) = g (rows s)"
    and row: "\<And>r. P r \<Longrightarrow> key (f r) = key r \<and> R\<^sup>*\<^sup>* r (f r)"
  shows "tx_moves rows key R (sql_update rows upd ok P f)"
proof (rule tx_movesI)
  fix s n t
  assume "sql_update rows upd ok P f s = Inr (n, t)"
  then have t: "rows t = upd_rows P f (rows s)" by (auto simp: sql_Inr get)
  have "map key (upd_rows P f (rows s)) = map key (rows s)"
    using row by (intro map_upd_rows) simp
  moreover have "\<exists>y\<in>set (upd_rows P f (rows s)). key y = key x \<and> R\<^sup>*\<^sup>* x y" if "x \<in> set (rows s)" for x
    using that row [of x] by (intro bexI [of _ "if P x then f x else x"]) (simp_all add: set_upd_rows)
  ultimately show "table_moves key R (rows s) (rows t)"
    by (simp add: table_moves_def t)
qed

text \<open>An update by key of a row that was read before.\<close>

lemma moves_update_one:
  assumes run: "sql_update rows upd ok (\<lambda>r. key r = key x) f s = Inr (n, t)"
    and get: "\<And>g s. rows (upd g s) = g (rows s)"
    and x: "x \<in> set (rows s)" "key (f x) = key x" "R\<^sup>*\<^sup>* x (f x)"
  shows "table_moves key R (rows s) (rows t)"
proof -
  have t: "rows t = upd_rows (\<lambda>r. key r = key x) f (rows s)" using run by (auto simp: sql_Inr get)
  show ?thesis
    unfolding table_moves_def
  proof (intro impI)
    assume d: "distinct (map key (rows s))"
    then have "rows t = upd_rows (\<lambda>r. r = x) f (rows s)"
      unfolding t using x(1) by (intro upd_rows_cong) (auto dest: distinct_key_eq)
    moreover from this have "map key (rows t) = map key (rows s)"
      using x(2) by (auto intro!: map_upd_rows)
    moreover have "\<exists>z\<in>set (upd_rows (\<lambda>r. r = x) f (rows s)). key z = key y \<and> R\<^sup>*\<^sup>* y z"
      if "y \<in> set (rows s)" for y
      using that x by (intro bexI [of _ "if y = x then f y else y"]) (simp_all add: set_upd_rows)
    ultimately show "distinct (map key (rows t)) \<and>
        (\<forall>y\<in>set (rows s). \<exists>z\<in>set (rows t). key z = key y \<and> R\<^sup>*\<^sup>* y z)"
      using d by simp
  qed
qed

lemma moves_insert:
  assumes get: "\<And>g s. rows (upd g s) = g (rows s)" and ok: "\<And>s. ok s \<Longrightarrow> distinct (map key (rows s))"
  shows "tx_moves rows key R (sql_insert upd ok row)"
    and "tx_moves rows key R (sql_insert_ignore upd ok row)"
proof -
  show "tx_moves rows key R (sql_insert upd ok row)"
    using ok by (intro tx_movesI) (force simp: sql_Inr get table_moves_def)
  show "tx_moves rows key R (sql_insert_ignore upd ok row)"
    using ok by (intro tx_movesI) (force simp: sql_Inr get table_moves_def split: if_splits)
qed

section \<open>Epochs\<close>

text \<open>
  \<open>epoch\<close> grows with every change of hands, and within one epoch the lease stays as it was.
\<close>

definition moved_on :: "('r \<Rightarrow> int) \<Rightarrow> ('r \<Rightarrow> 'c) \<Rightarrow> 'r \<Rightarrow> 'r \<Rightarrow> bool" where
  "moved_on epoch lease x y \<longleftrightarrow> epoch x \<le> epoch y \<and> (epoch y = epoch x \<longrightarrow> lease y = lease x)"

lemma moved_on_rtranclp [simp]: "(moved_on epoch lease)\<^sup>*\<^sup>* = moved_on epoch lease"
proof (intro ext iffI)
  show "moved_on epoch lease x y" if "(moved_on epoch lease)\<^sup>*\<^sup>* x y" for x y
    using that by induction (force simp: moved_on_def)+
qed (rule r_into_rtranclp)

abbreviation table_advances :: "('r \<Rightarrow> 'k) \<Rightarrow> ('r \<Rightarrow> int) \<Rightarrow> ('r \<Rightarrow> 'c) \<Rightarrow> 'r list \<Rightarrow> 'r list \<Rightarrow> bool" where
  "table_advances key epoch lease \<equiv> table_moves key (moved_on epoch lease)"

lemmas table_advances_def = table_moves_def [where R = "moved_on epoch lease" for epoch lease, unfolded moved_on_rtranclp]

lemma table_advancesD:
  assumes "table_advances key epoch lease xs ys" "distinct (map key xs)"
  shows "distinct (map key ys)"
    "x \<in> set xs \<Longrightarrow> \<exists>y\<in>set ys. key y = key x \<and> moved_on epoch lease x y"
  using assms by (auto simp: table_advances_def)

section \<open>The contract\<close>

text \<open>
  \<open>step\<close> is any change of the program's state; \<open>owns h t x\<close> is the guard with which a
  holder that remembers \<open>h\<close> writes at time \<open>t\<close> on a row that is now \<open>x\<close>.
\<close>

locale fencing =
  fixes rows :: "'s \<Rightarrow> 'r list" and key :: "'r \<Rightarrow> 'k" and epoch :: "'r \<Rightarrow> int"
    and lease :: "'r \<Rightarrow> 'c" and clock :: "'s \<Rightarrow> int" and step :: "'s \<Rightarrow> 's \<Rightarrow> bool"
    and owns :: "'r \<Rightarrow> int \<Rightarrow> 'r \<Rightarrow> bool"
  assumes step_advances: "step s t \<Longrightarrow> table_advances key epoch lease (rows s) (rows t)"
    and step_clock: "step s t \<Longrightarrow> clock s \<le> clock t"
    and owns_row: "owns h now x \<Longrightarrow> key x = key h \<and> epoch x = epoch h"
    and owns_lease: "owns h now x \<Longrightarrow> lease x = lease y \<Longrightarrow> key y = key h \<Longrightarrow> epoch y = epoch h
      \<Longrightarrow> before \<le> now \<Longrightarrow> owns h before y"
begin

lemma run_advances:
  assumes "step\<^sup>*\<^sup>* s t"
  shows "table_advances key epoch lease (rows s) (rows t)" and "clock s \<le> clock t"
proof -
  from assms have "table_advances key epoch lease (rows s) (rows t) \<and> clock s \<le> clock t"
    by induction (force intro: table_moves_trans step_advances dest: step_clock)+
  then show "table_advances key epoch lease (rows s) (rows t)" "clock s \<le> clock t" by simp_all
qed

lemma run_distinct: "step\<^sup>*\<^sup>* s t \<Longrightarrow> distinct (map key (rows s)) \<Longrightarrow> distinct (map key (rows t))"
  by (rule table_advancesD(1) [OF run_advances(1)])

text \<open>A row taken over is closed to its earlier holder, whatever happens next.\<close>

lemma taken_over:
  assumes keys: "distinct (map key (rows s))" and run: "step\<^sup>*\<^sup>* s t"
    and x: "x \<in> set (rows s)" "key x = key h" "epoch h < epoch x" and y: "y \<in> set (rows t)"
  shows "\<not> owns h now y"
proof
  assume o: "owns h now y"
  obtain z where z: "z \<in> set (rows t)" "key z = key x" "epoch x \<le> epoch z"
    using table_advancesD(2) [OF run_advances(1) [OF run] keys x(1)] by (auto simp: moved_on_def)
  have "y = z"
    using owns_row [OF o] z x run_distinct [OF run keys] y by (intro distinct_key_eq [of key]) auto
  with owns_row [OF o] z x show False by simp
qed

text \<open>A claim that is lost at one time is lost at every later time.\<close>

lemma lost_for_good:
  assumes keys: "distinct (map key (rows s0))" and h: "h \<in> set (rows s0)"
    and run: "step\<^sup>*\<^sup>* s0 s" and lost: "\<forall>x \<in> set (rows s). \<not> owns h (clock s) x"
    and later: "step\<^sup>*\<^sup>* s t" and y: "y \<in> set (rows t)"
  shows "\<not> owns h (clock t) y"
proof
  assume o: "owns h (clock t) y"
  have keys1: "distinct (map key (rows s))" by (rule run_distinct [OF run keys])
  obtain x where x: "x \<in> set (rows s)" "key x = key h" "moved_on epoch lease h x"
    using table_advancesD(2) [OF run_advances(1) [OF run] keys h] by auto
  obtain z where z: "z \<in> set (rows t)" "key z = key x" "moved_on epoch lease x z"
    using table_advancesD(2) [OF run_advances(1) [OF later] keys1 x(1)] by auto
  have "y = z"
    using owns_row [OF o] x z run_distinct [OF later keys1] y
    by (intro distinct_key_eq [of key]) (auto simp: moved_on_def)
  then have e: "epoch x = epoch h" "lease y = lease x" "key x = key h"
    using owns_row [OF o] x(2,3) z(2,3) by (auto simp: moved_on_def)
  have "owns h (clock s) x"
    using o e(2,3,1) run_advances(2) [OF later] by (rule owns_lease)
  with lost x(1) show False by blast
qed

end

end
