(* ===== verification/Leases.thy ===== *)
theory Leases
  imports Fencing Samples
begin

text \<open>
  The task leases of the background passes: \<open>_acquire_lease\<close> and \<open>_run_leased\<close> of
  \<open>services/tasks.py\<close> and the fence that \<open>DomainTransaction\<close> (\<open>db.py\<close>) checks when it
  begins and when it commits. The context variable \<open>ACTIVE_TASK_LEASE\<close> is an argument: the
  name, the holder and the token of the lease the running pass was started under.
\<close>

section \<open>Acquisition\<close>

definition LEASE_TTL_S :: int where "LEASE_TTL_S = 120"

definition leasable :: "string \<Rightarrow> string \<Rightarrow> int \<Rightarrow> task_lease \<Rightarrow> bool" where
  "leasable worker name now l \<longleftrightarrow> tl_name l = name
     \<and> (tl_leased_until l \<le> now \<or> tl_holder_id l = Some worker)"

definition new_lease :: "string \<Rightarrow> string \<Rightarrow> int \<Rightarrow> int \<Rightarrow> int \<Rightarrow> task_lease" where
  "new_lease worker name token until now = \<lparr>tl_name = name, tl_holder_id = Some worker,
     tl_fencing_token = token, tl_leased_until = until, tl_updated_at = now\<rparr>"

definition acquire_lease :: "string \<Rightarrow> string \<Rightarrow> int \<Rightarrow> (db, int option) tx" where
  "acquire_lease worker name ttl =
     tx_bind tx_now (\<lambda>now.
     tx_bind (sql_update db_leases db_leases_update leases_ok (leasable worker name now)
        (\<lambda>l. l\<lparr>tl_holder_id := Some worker, tl_fencing_token := tl_fencing_token l + 1,
           tl_leased_until := now + ttl, tl_updated_at := now\<rparr>)) (\<lambda>rc.
     if rc = 1 then
       tx_bind (sql_one db_leases (\<lambda>l. tl_name l = name)) (\<lambda>row.
         tx_return (map_option tl_fencing_token row))
     else
       tx_bind (sql_insert_ignore db_leases_update leases_ok (new_lease worker name 1 (now + ttl) now))
         (\<lambda>n. tx_return (if n = 1 then Some 1 else None))))"

section \<open>The fence\<close>

type_synonym active_lease = "string \<times> string \<times> int"

definition holds_lease :: "active_lease \<Rightarrow> int \<Rightarrow> task_lease \<Rightarrow> bool" where
  "holds_lease fence now l \<longleftrightarrow> (case fence of (name, holder, token) \<Rightarrow>
     tl_name l = name \<and> tl_holder_id l = Some holder \<and> tl_fencing_token l = token
     \<and> now < tl_leased_until l)"

definition check_fence :: "active_lease option \<Rightarrow> (db, unit) tx" where
  "check_fence fence = (case fence of
     None \<Rightarrow> tx_return ()
   | Some f \<Rightarrow>
       tx_bind tx_now (\<lambda>now.
       tx_bind (sql_update db_leases db_leases_update leases_ok (holds_lease f now) (\<lambda>l. l)) (\<lambda>rc.
         tx_assert (rc = 1) LeaseLostError)))"

text \<open>\<open>__aenter__\<close>, the body, and \<open>commit\<close>.\<close>

definition domain_transaction :: "active_lease option \<Rightarrow> (db, 'a) tx \<Rightarrow> (db, 'a) tx" where
  "domain_transaction fence m =
     tx_seq (check_fence fence)
    (tx_bind m (\<lambda>a. tx_seq (check_fence fence) (tx_return a)))"

text \<open>
  \<open>INSERT ... ON CONFLICT (name) DO UPDATE\<close> of the completion mark, which the start-up of
  other workers waits for.
\<close>

definition COMPLETION_MARK :: string where "COMPLETION_MARK = ''reconciliation_complete''"

definition mark_complete :: "string \<Rightarrow> int \<Rightarrow> (db, unit) tx" where
  "mark_complete worker token =
     tx_bind tx_now (\<lambda>now.
     tx_bind (sql_one db_leases (\<lambda>l. tl_name l = COMPLETION_MARK)) (\<lambda>row.
       case row of
         None \<Rightarrow> sql_insert db_leases_update leases_ok (new_lease worker COMPLETION_MARK token 0 now)
       | Some _ \<Rightarrow> tx_ignore (sql_update db_leases db_leases_update leases_ok
             (\<lambda>l. tl_name l = COMPLETION_MARK)
             (\<lambda>l. l\<lparr>tl_holder_id := Some worker, tl_fencing_token := token, tl_updated_at := now\<rparr>))))"

text \<open>
  \<open>_run_leased\<close>: a fenced empty transaction, the pass (whose transactions run under the same
  fence), and a fenced transaction that marks a reconciliation complete.
\<close>

definition run_leased :: "string \<Rightarrow> string \<Rightarrow> int \<Rightarrow> (active_lease option \<Rightarrow> (db, 'a) proc) \<Rightarrow> (db, 'a) proc" where
  "run_leased worker name token operation =
     (let fence = Some (name, worker, token) in
      pr_bind (commit (domain_transaction fence (tx_return ()))) (\<lambda>_.
      pr_bind (operation fence) (\<lambda>result.
      pr_bind (commit (domain_transaction fence
          (tx_when (name = ''reconciliation'') (mark_complete worker token)))) (\<lambda>_.
        pr_return result))))"

lemma keeps_check_fence [keeps]: "(\<And>g s. f (db_leases_update g s) = f s) \<Longrightarrow> tx_keeps f (check_fence c)"
  unfolding check_fence_def by (intro keeps keeps_sql)

section \<open>What the fence decides\<close>

definition passes :: "active_lease \<Rightarrow> db \<Rightarrow> bool" where
  "passes f s \<longleftrightarrow> (\<exists>l \<in> set (db_leases s). holds_lease f (db_clock s) l)"

lemma leases_update_id [simp]: "db_leases_update (\<lambda>rows. rows) s = s"
  by (cases s) simp

lemma upd_rows_id [simp]: "upd_rows P (\<lambda>r. r) = (\<lambda>rows. rows)"
  by (rule ext) (simp add: upd_rows_def)

lemma holders_unique:
  assumes "leases_ok s"
  shows "length (filter (holds_lease f now) (db_leases s)) = 1
    \<longleftrightarrow> (\<exists>l \<in> set (db_leases s). holds_lease f now l)"
proof -
  have "distinct (map tl_name (db_leases s))" using assms by (simp add: leases_ok_def)
  then have "length (filter (\<lambda>l. tl_name l = fst f) (db_leases s)) \<le> 1"
    by (rule filter_length_1_key)
  moreover have "filter (holds_lease f now) (db_leases s)
      = filter (holds_lease f now) (filter (\<lambda>l. tl_name l = fst f) (db_leases s))"
    unfolding filter_filter by (rule filter_cong) (auto simp: holds_lease_def split: prod.splits)
  ultimately have "length (filter (holds_lease f now) (db_leases s)) \<le> 1"
    by (metis length_filter_le order_trans)
  then have "length (filter (holds_lease f now) (db_leases s)) = 1 \<longleftrightarrow> filter (holds_lease f now) (db_leases s) \<noteq> []"
    by (cases "filter (holds_lease f now) (db_leases s)") auto
  then show ?thesis by (simp add: filter_empty_conv)
qed

lemma check_fence_eval:
  assumes "leases_ok s"
  shows "check_fence (Some f) s = (if passes f s then Inr ((), s) else Inl LeaseLostError)"
  using holders_unique [OF assms, of f "db_clock s"] assms
  by (simp add: check_fence_def passes_def tx_bind_def tx_get_def sql_update_def Let_def
      tx_assert_def tx_return_def tx_raise_def)

lemma check_fence_None [simp]: "check_fence None s = Inr ((), s)"
  by (simp add: check_fence_def tx_return_def)

lemma acquire_run:
  assumes ok: "leases_ok s"
  shows "acquire_lease w name ttl s =
    (case List.find (\<lambda>l. tl_name l = name) (db_leases s) of
       None \<Rightarrow> Inr (Some 1, s\<lparr>db_leases := db_leases s @ [new_lease w name 1 (db_clock s + ttl) (db_clock s)]\<rparr>)
     | Some l \<Rightarrow>
         if leasable w name (db_clock s) l
         then Inr (Some (tl_fencing_token l + 1), s\<lparr>db_leases := map (\<lambda>r. if tl_name r = name
           then new_lease w name (tl_fencing_token l + 1) (db_clock s + ttl) (db_clock s) else r) (db_leases s)\<rparr>)
         else Inr (None, s))"
proof -
  let ?P = "leasable w name (db_clock s)"
  let ?f = "\<lambda>l. l\<lparr>tl_holder_id := Some w, tl_fencing_token := tl_fencing_token l + 1,
    tl_leased_until := db_clock s + ttl, tl_updated_at := db_clock s\<rparr>"
  have d: "distinct (map tl_name (db_leases s))" using ok by (simp add: leases_ok_def)
  have names: "map tl_name (upd_rows ?P ?f (db_leases s)) = map tl_name (db_leases s)"
    by (intro map_upd_rows) simp
  have ok1: "leases_ok (db_leases_update (upd_rows ?P ?f) s)"
    using d by (simp add: leases_ok_def names)
  have skip: "sql_update db_leases db_leases_update leases_ok ?P ?f s = Inr (0, s)"
    if no: "\<forall>r \<in> set (db_leases s). \<not> ?P r"
  proof -
    have "db_leases_update (upd_rows ?P ?f) s = s"
      using no by (cases s) (simp add: upd_rows_None)
    moreover have "filter ?P (db_leases s) = []" using no by (simp add: filter_empty_conv)
    ultimately show ?thesis unfolding sql_update_def Let_def using ok by simp
  qed
  let ?new = "new_lease w name 1 (db_clock s + ttl) (db_clock s)"
  show ?thesis
  proof (cases "List.find (\<lambda>l. tl_name l = name) (db_leases s)")
    case None
    then have no: "\<forall>l \<in> set (db_leases s). tl_name l \<noteq> name" by (auto dest: find_NoneD)
    then have u: "sql_update db_leases db_leases_update leases_ok ?P ?f s = Inr (0, s)"
      by (intro skip) (auto simp: leasable_def)
    have "sql_insert_ignore db_leases_update leases_ok ?new s = Inr (1, s\<lparr>db_leases := db_leases s @ [?new]\<rparr>)"
      using d no by (cases s) (auto simp: sql_insert_ignore_def Let_def leases_ok_def new_lease_def)
    then show ?thesis unfolding None
      by (simp add: acquire_lease_def tx_bind_def tx_get_def tx_return_def u)
  next
    case (Some l)
    then have l: "l \<in> set (db_leases s)" "tl_name l = name" by (auto dest: find_SomeD)
    have same: "r = l" if "r \<in> set (db_leases s)" "tl_name r = name" for r
      using distinct_key_eq [OF d that(1) l(1)] that(2) l(2) by simp
    show ?thesis
    proof (cases "?P l")
      case True
      let ?row = "new_lease w name (tl_fencing_token l + 1) (db_clock s + ttl) (db_clock s)"
      have row: "?f l = ?row" using l(2) by (cases l) (simp add: new_lease_def)
      have rows: "upd_rows ?P ?f (db_leases s) = map (\<lambda>r. if tl_name r = name then ?row else r) (db_leases s)"
        unfolding upd_rows_def
      proof (intro map_cong refl)
        fix r assume r: "r \<in> set (db_leases s)"
        show "(if ?P r then ?f r else r) = (if tl_name r = name then ?row else r)"
        proof (cases "tl_name r = name")
          case True
          then have "r = l" using same r by blast
          then show ?thesis using row \<open>?P l\<close> l(2) by simp
        qed (simp add: leasable_def)
      qed
      have "filter ?P (db_leases s) = filter (\<lambda>r. tl_name r = name) (db_leases s)"
        using same True by (intro filter_cong) (auto simp: leasable_def)
      moreover have "length (filter (\<lambda>r. tl_name r = name) (db_leases s)) = 1"
        using filter_length_1_key [OF d, of name] l
        by (cases "filter (\<lambda>r. tl_name r = name) (db_leases s)") (auto simp: filter_empty_conv)
      moreover have "db_leases_update (upd_rows ?P ?f) s = s\<lparr>db_leases := upd_rows ?P ?f (db_leases s)\<rparr>"
        by (cases s) simp
      ultimately have u: "sql_update db_leases db_leases_update leases_ok ?P ?f s
          = Inr (1, s\<lparr>db_leases := upd_rows ?P ?f (db_leases s)\<rparr>)"
        unfolding sql_update_def Let_def using ok1 by simp
      have "?f l \<in> set (upd_rows ?P ?f (db_leases s))"
        using l True by (auto simp: set_upd_rows)
      with d have "List.find (\<lambda>r. tl_name r = tl_name (?f l)) (upd_rows ?P ?f (db_leases s)) = Some (?f l)"
        by (intro find_key) (simp_all only: names)
      then have "List.find (\<lambda>r. tl_name r = name) (upd_rows ?P ?f (db_leases s)) = Some (?f l)"
        using l by simp
      then show ?thesis using Some True
        by (simp add: acquire_lease_def tx_bind_def tx_get_def sql_one_def tx_return_def u rows)
    next
      case False
      then have u: "sql_update db_leases db_leases_update leases_ok ?P ?f s = Inr (0, s)"
        using same by (intro skip) (auto simp: leasable_def)
      have "sql_insert_ignore db_leases_update leases_ok ?new s = Inr (0, s)"
        using l by (cases s) (auto simp: sql_insert_ignore_def Let_def leases_ok_def new_lease_def)
      then show ?thesis using Some False
        by (simp add: acquire_lease_def tx_bind_def tx_get_def tx_return_def u)
    qed
  qed
qed

section \<open>The leases as a fenced table\<close>

text \<open>
  What can happen between two transactions of a worker: any worker acquires or renews a lease,
  any reconciliation marks itself complete, time passes, and anything else that leaves the lease
  table alone.
\<close>

inductive lease_step :: "db \<Rightarrow> db \<Rightarrow> bool" where
  acquires: "acquire_lease worker name ttl s = Inr (r, t) \<Longrightarrow> name \<noteq> COMPLETION_MARK \<Longrightarrow> lease_step s t"
| completes: "mark_complete worker token s = Inr (r, t) \<Longrightarrow> lease_step s t"
| elsewhere: "db_leases t = db_leases s \<Longrightarrow> db_clock s \<le> db_clock t \<Longrightarrow> lease_step s t"

text \<open>The completion mark is not a lease: its token counts nothing.\<close>

definition lease_epoch :: "task_lease \<Rightarrow> int" where
  "lease_epoch l = (if tl_name l = COMPLETION_MARK then 0 else tl_fencing_token l)"

definition lease_terms :: "task_lease \<Rightarrow> (string option \<times> int) option" where
  "lease_terms l = (if tl_name l = COMPLETION_MARK then None
     else Some (tl_holder_id l, tl_leased_until l))"

lemma advances_acquire:
  "name \<noteq> COMPLETION_MARK \<Longrightarrow> tx_moves db_leases tl_name (moved_on lease_epoch lease_terms) (acquire_lease w name ttl)"
  unfolding acquire_lease_def
  by (intro moves moves_keeps keeps moves_update moves_insert)
    (auto simp: moved_on_def lease_epoch_def leasable_def leases_ok_def)

lemma advances_mark_complete:
  "tx_moves db_leases tl_name (moved_on lease_epoch lease_terms) (mark_complete w token)"
  unfolding mark_complete_def
  by (intro moves moves_keeps keeps moves_update moves_insert)
    (auto simp: moved_on_def lease_epoch_def lease_terms_def leases_ok_def)

lemma acquire_keeps_clock: "tx_keeps db_clock (acquire_lease w name ttl)"
  and mark_keeps_clock: "tx_keeps db_clock (mark_complete w token)"
  unfolding acquire_lease_def mark_complete_def by (intro keeps keeps_sql; simp)+

definition lease_guard :: "task_lease \<Rightarrow> int \<Rightarrow> task_lease \<Rightarrow> bool" where
  "lease_guard h now l \<longleftrightarrow> tl_name h \<noteq> COMPLETION_MARK \<and> tl_holder_id h \<noteq> None
     \<and> holds_lease (tl_name h, the (tl_holder_id h), tl_fencing_token h) now l"

interpretation leases: fencing db_leases tl_name lease_epoch lease_terms db_clock lease_step lease_guard
proof unfold_locales
  show "table_advances tl_name lease_epoch lease_terms (db_leases s) (db_leases t)" if "lease_step s t" for s t
    using that by cases (auto dest: tx_movesD [OF advances_acquire] tx_movesD [OF advances_mark_complete])
  show "db_clock s \<le> db_clock t" if "lease_step s t" for s t
    using that by cases (auto dest: tx_keepsD [OF acquire_keeps_clock] tx_keepsD [OF mark_keeps_clock])
qed (auto simp: lease_guard_def holds_lease_def lease_epoch_def lease_terms_def split: if_splits)

lemma leases_ok_step: "lease_step\<^sup>*\<^sup>* s t \<Longrightarrow> leases_ok s \<Longrightarrow> leases_ok t"
  using leases.run_distinct by (simp add: leases_ok_def)

lemma acquired_row:
  assumes ok: "leases_ok s" and run: "acquire_lease w name ttl s = Inr (Some k, t)"
  shows "new_lease w name k (db_clock s + ttl) (db_clock s) \<in> set (db_leases t)"
    and "\<forall>l \<in> set (db_leases s). tl_name l = name \<longrightarrow> tl_fencing_token l < k"
    and "leases_ok t"
proof -
  have d: "distinct (map tl_name (db_leases s))" using ok by (simp add: leases_ok_def)
  have only: "\<forall>r \<in> set (db_leases s). tl_name r = name \<longrightarrow> r = l"
    if "List.find (\<lambda>l. tl_name l = name) (db_leases s) = Some l" for l
    using distinct_key_eq [OF d] find_SomeD [OF that] by blast
  show "new_lease w name k (db_clock s + ttl) (db_clock s) \<in> set (db_leases t)"
    using run unfolding acquire_run [OF ok]
    by (auto split: option.splits if_splits dest!: find_SomeD)
  show "\<forall>l \<in> set (db_leases s). tl_name l = name \<longrightarrow> tl_fencing_token l < k"
    using run only unfolding acquire_run [OF ok]
    by (fastforce split: option.splits if_splits dest: find_NoneD)
  have "tx_moves db_leases tl_name (\<lambda>_ _. True) (acquire_lease w name ttl)"
    unfolding acquire_lease_def
    by (intro moves moves_keeps keeps moves_update moves_insert)
      (auto simp: moved_on_def leases_ok_def)
  from tx_movesD [OF this run] d show "leases_ok t"
    by (simp add: table_moves_def leases_ok_def)
qed

lemma fence_refused:
  "leases_ok s \<Longrightarrow> \<not> passes f s \<Longrightarrow> domain_transaction (Some f) m s = Inl LeaseLostError"
  by (simp add: domain_transaction_def tx_seq_def tx_bind_def check_fence_eval)

lemma fenced_commit:
  assumes run: "domain_transaction (Some f) m s = Inr (a, t)" and ok: "leases_ok s" "leases_ok t"
  shows "passes f s" "m s = Inr (a, t)" "passes f t"
proof -
  obtain u where u: "passes f s" "m s = Inr (a, u)" "check_fence (Some f) u = Inr ((), t)"
    using run check_fence_eval [OF ok(1), of f]
    by (auto simp: domain_transaction_def tx_Inr split: if_splits)
  then have "u = t"
    by (auto simp: check_fence_def tx_Inr sql_Inr split: prod.splits)
  with u check_fence_eval [OF ok(2), of f] show "passes f s" "m s = Inr (a, t)" "passes f t"
    by (auto split: if_splits)
qed

text \<open>
  Acquisition. A lease is handed out exactly when nobody has it, when its time has run out or
  when the caller already holds it; the token handed out is larger than any the lease has had, the
  row then names the caller until the end of the time to live, and every other lease is as it was.
  Otherwise nothing changes.
\<close>

theorem lease_goes_to_one_worker:
  assumes ok: "leases_ok s"
  shows "\<exists>r t. acquire_lease w name ttl s = Inr (r, t)
    \<and> (r = None \<longleftrightarrow> (\<exists>l \<in> set (db_leases s). tl_name l = name \<and> db_clock s < tl_leased_until l
          \<and> tl_holder_id l \<noteq> Some w))
    \<and> (case r of
         None \<Rightarrow> t = s
       | Some k \<Rightarrow> (\<forall>l \<in> set (db_leases s). tl_name l = name \<longrightarrow> tl_fencing_token l < k)
           \<and> filter (\<lambda>l. tl_name l = name) (db_leases t) = [new_lease w name k (db_clock s + ttl) (db_clock s)]
           \<and> filter (\<lambda>l. tl_name l \<noteq> name) (db_leases t) = filter (\<lambda>l. tl_name l \<noteq> name) (db_leases s))"
proof -
  let ?row = "List.find (\<lambda>l. tl_name l = name) (db_leases s)"
  have d: "distinct (map tl_name (db_leases s))" using ok by (simp add: leases_ok_def)
  have "\<exists>r t. acquire_lease w name ttl s = Inr (r, t)"
    unfolding acquire_run [OF ok] by (simp split: option.split)
  then obtain r t where run: "acquire_lease w name ttl s = Inr (r, t)" by blast
  have refused: "r = None \<longleftrightarrow> (\<exists>l. ?row = Some l \<and> \<not> leasable w name (db_clock s) l)"
    and same: "r = None \<Longrightarrow> t = s"
    using run unfolding acquire_run [OF ok] by (auto split: option.splits if_splits)
  have row: "?row = Some l \<longleftrightarrow> l \<in> set (db_leases s) \<and> tl_name l = name" for l
    using find_key [OF d, of l] by (auto dest: find_SomeD)
  have others: "filter (\<lambda>l. tl_name l \<noteq> name) (db_leases t) = filter (\<lambda>l. tl_name l \<noteq> name) (db_leases s)"
    if "r = Some k" for k
  proof -
    have "filter (\<lambda>l. tl_name l \<noteq> name) (map (\<lambda>l. if tl_name l = name then new_lease w name c u v else l) rows)
        = filter (\<lambda>l. tl_name l \<noteq> name) rows" for c u v rows
      by (induction rows) (simp_all add: new_lease_def)
    then show ?thesis
      using run that unfolding acquire_run [OF ok]
      by (auto simp: new_lease_def split: option.splits if_splits)
  qed
  have one: "filter (\<lambda>l. tl_name l = name) (db_leases t) = [new_lease w name k (db_clock s + ttl) (db_clock s)]"
    if "r = Some k" for k
  proof -
    let ?new = "new_lease w name k (db_clock s + ttl) (db_clock s)"
    note A = acquired_row [OF ok run [unfolded that]]
    have n: "tl_name ?new = name" by (simp add: new_lease_def)
    have "distinct (map tl_name (db_leases t))" using A(3) by (simp add: leases_ok_def)
    then have "length (filter (\<lambda>l. tl_name l = name) (db_leases t)) \<le> 1" by (rule filter_length_1_key)
    moreover have "?new \<in> set (filter (\<lambda>l. tl_name l = name) (db_leases t))" using A(1) n by simp
    ultimately show ?thesis
      by (cases "filter (\<lambda>l. tl_name l = name) (db_leases t)") (simp_all del: filter_set set_filter)
  qed
  show ?thesis
    using run refused row same others one acquired_row(2) [OF ok]
    by (intro exI [of _ r] exI [of _ t]) (auto simp: leasable_def split: option.splits)
qed

lemma lease_goes_to_one_worker_witness:
  "case acquire_lease ''w'' ''reconciliation'' 120 empty_db of Inl _ \<Rightarrow> False
   | Inr (r, s) \<Rightarrow> r = Some 1 \<and> acquire_lease ''v'' ''reconciliation'' 120 s = Inr (None, s)"
proof -
  obtain s where run: "acquire_lease ''w'' ''reconciliation'' 120 empty_db = Inr (Some 1, s)"
    and rows: "db_leases s = [new_lease ''w'' ''reconciliation'' 1 1120 1000]" "db_clock s = 1000"
    by (auto simp: acquire_lease_def leases_ok_def new_lease_def leasable_def evals)
  have ok: "leases_ok s" by (simp add: leases_ok_def rows)
  from lease_goes_to_one_worker [OF this, of "''v''" "''reconciliation''" 120]
  show ?thesis unfolding run by (auto simp: rows new_lease_def)
qed

text \<open>
  C36 (Fencing). Once a lease has been handed out again, to another worker or to the same one, no
  transaction of a pass that runs under the earlier token commits any more, whatever else happens:
  each is refused before its body runs.
\<close>

theorem stale_pass_commits_nothing:
  assumes ok: "leases_ok s0" and name: "name \<noteq> COMPLETION_MARK"
    and first: "acquire_lease w name ttl s0 = Inr (Some k, s1)" and run: "lease_step\<^sup>*\<^sup>* s1 s2"
    and again: "acquire_lease v name ttl' s2 = Inr (Some k', s3)" and later: "lease_step\<^sup>*\<^sup>* s3 s4"
  shows "k < k' \<and> domain_transaction (Some (name, w, k)) m s4 = Inl LeaseLostError
    \<and> commit (domain_transaction (Some (name, w, k)) m) s4 = (Inl LeaseLostError, s4)"
proof -
  let ?h = "new_lease w name k (db_clock s0 + ttl) (db_clock s0)"
  let ?n = "new_lease v name k' (db_clock s2 + ttl') (db_clock s2)"
  note F = acquired_row [OF ok first]
  have ok2: "leases_ok s2" by (rule leases_ok_step [OF run F(3)])
  note A = acquired_row [OF ok2 again]
  have ok4: "leases_ok s4" by (rule leases_ok_step [OF later A(3)])
  have "distinct (map tl_name (db_leases s1))" using F(3) by (simp add: leases_ok_def)
  then obtain x where x: "x \<in> set (db_leases s2)" "moved_on lease_epoch lease_terms ?h x"
    and "tl_name x = tl_name ?h"
    using table_advancesD(2) [OF leases.run_advances(1) [OF run] _ F(1)] by auto
  then have kk: "k < k'"
    using A(2) name by (force simp: moved_on_def lease_epoch_def new_lease_def)
  have "\<not> lease_guard ?h now y" if "y \<in> set (db_leases s4)" for now y
    using A(1,3) kk name later that
    by (intro leases.taken_over [of s3 s4 ?n]) (simp_all add: leases_ok_def lease_epoch_def new_lease_def)
  then have "\<not> passes (name, w, k) s4"
    using name by (auto simp: passes_def lease_guard_def new_lease_def)
  from fence_refused [OF ok4 this, of m] kk show ?thesis by (simp add: commit_def)
qed

text \<open>A reconciliation that overran its lease while another worker took it over.\<close>

lemma stale_pass_commits_nothing_witness:
  "\<exists>s1 s2 s3. acquire_lease ''w'' ''reconciliation'' 120 empty_db = Inr (Some 1, s1)
    \<and> s2 = s1\<lparr>db_clock := 1130\<rparr> \<and> acquire_lease ''v'' ''reconciliation'' 120 s2 = Inr (Some 2, s3)
    \<and> domain_transaction (Some (''reconciliation'', ''w'', 1)) (mark_complete ''w'' 1) s3 = Inl LeaseLostError"
proof -
  obtain s1 where run: "acquire_lease ''w'' ''reconciliation'' 120 empty_db = Inr (Some 1, s1)"
    and rows: "db_leases s1 = [new_lease ''w'' ''reconciliation'' 1 1120 1000]" "db_clock s1 = 1000"
    by (auto simp: acquire_lease_def leases_ok_def new_lease_def leasable_def evals)
  obtain s3 where again: "acquire_lease ''v'' ''reconciliation'' 120 (s1\<lparr>db_clock := 1130\<rparr>) = Inr (Some 2, s3)"
    by (auto simp: acquire_lease_def leases_ok_def new_lease_def leasable_def rows evals)
  have "lease_step\<^sup>*\<^sup>* s1 (s1\<lparr>db_clock := 1130\<rparr>)"
    using rows by (intro r_into_rtranclp elsewhere) simp_all
  from stale_pass_commits_nothing [OF _ _ run this again rtranclp.rtrancl_refl, of "mark_complete ''w'' 1"]
  show ?thesis using run again by (auto simp: leases_ok_def COMPLETION_MARK_def evals)
qed

end
