(* ===== verification/Events.thy ===== *)
theory Events
  imports Fx CatalogOutbox "HOL-Library.Product_Lexorder"
begin

text \<open>
  The unsigned events of \<open>services/events.py\<close>: every builder is a function of the rows it is
  given. A \<open>JReal d\<close> in a content stands for the float nearest to \<open>d\<close>; \<open>sort_keys\<close>
  is \<open>sort_keys_json\<close>, which orders the members of every object.
\<close>

record unsigned_event =
  ue_kind :: int
  ue_content :: string
  ue_tags :: "string list list"

definition or_empty :: "string option \<Rightarrow> string" where
  "or_empty v = (case v of None \<Rightarrow> '''' | Some x \<Rightarrow> x)"

definition tag_if :: "string \<Rightarrow> string option \<Rightarrow> string list list" where
  "tag_if name v = (if truthy v then [[name, the v]] else [])"

definition coordinate :: "string \<Rightarrow> string \<Rightarrow> string \<Rightarrow> string" where
  "coordinate kind pubkey d = kind @ '':'' @ pubkey @ '':'' @ d"

section \<open>Fixed-point text\<close>

text \<open>\<open>format(value, "f")\<close> of a \<open>Decimal\<close>, and the trailing zeros \<open>normalize\<close> drops.\<close>

definition format_f :: "dec \<Rightarrow> string" where
  "format_f d =
     (let ds = str_nat (nat \<bar>dec_coeff d\<bar>); n = length ds; point = int n + dec_exp d;
          sign = (if dec_coeff d < 0 then ''-'' else '''')
      in if dec_coeff d = 0 \<and> 0 < dec_exp d then ''0''
         else if point < 0 then sign @ ''0.'' @ replicate (nat (- point)) (CHR ''0'') @ ds
         else if int n < point then sign @ ds @ replicate (nat (point - int n)) (CHR ''0'')
         else
           (let whole = take (nat point) ds; frac = drop (nat point) ds in
            sign @ (if whole = [] then ''0'' else whole) @ (if frac = [] then [] else CHR ''.'' # frac)))"

definition decimal_str :: "int \<Rightarrow> int \<Rightarrow> string" where
  "decimal_str amount_minor decimals = format_f (dec_fix (Dec amount_minor (- decimals)))"

definition dec_normalize :: "dec \<Rightarrow> dec" where
  "dec_normalize d =
     (let r = dec_fix d; n = nat \<bar>dec_coeff r\<bar> in
      if n = 0 then Dec 0 0
      else case strip_zeros (ndigits n) n (dec_exp r) of (c, e) \<Rightarrow> Dec (sgn (dec_coeff r) * int c) e)"

definition measure_str :: "dec \<Rightarrow> string" where
  "measure_str d = format_f (dec_normalize d)"

text \<open>\<open>Decimal(str(None))\<close> is an \<open>InvalidOperation\<close>.\<close>

definition dims_str :: "dec option \<Rightarrow> dec option \<Rightarrow> dec option \<Rightarrow> error + string" where
  "dims_str l w h = (case (l, w, h) of
     (Some a, Some b, Some c) \<Rightarrow> Inr (measure_str a @ ''x'' @ measure_str b @ ''x'' @ measure_str c)
   | _ \<Rightarrow> Inl InvalidOperation)"

section \<open>JSON content\<close>

fun sort_keys_json :: "json \<Rightarrow> json" where
  "sort_keys_json (JArr xs) = JArr (map sort_keys_json xs)"
| "sort_keys_json (JObj kvs) = JObj (sort_key fst (map (\<lambda>kv. (fst kv, sort_keys_json (snd kv))) kvs))"
| "sort_keys_json j = j"

definition json_text :: "env \<Rightarrow> json \<Rightarrow> string" where
  "json_text E j = json_dumps E (sort_keys_json j)"

text \<open>\<open>float(_decimal(...))\<close>.\<close>

definition json_price :: "int \<Rightarrow> int \<Rightarrow> json" where
  "json_price amount_minor decimals = JReal (dec_fix (Dec amount_minor (- decimals)))"

definition available_stock :: "product \<Rightarrow> int option" where
  "available_stock p = map_option (\<lambda>hand. max 0 (hand - p_stock_reserved p)) (p_stock_on_hand p)"

section \<open>Gamma: product, collection, shipping option\<close>

definition NIP32_NAMESPACE :: string where "NIP32_NAMESPACE = ''org.infinitemarkets.protocol''"

definition nip32_tags :: "string \<Rightarrow> string list list" where
  "nip32_tags revision = [[''L'', NIP32_NAMESPACE], [''l'', revision, NIP32_NAMESPACE]]"

definition or_zero :: "int option \<Rightarrow> int" where
  "or_zero v = (case v of None \<Rightarrow> 0 | Some x \<Rightarrow> x)"

definition price_tag :: "product \<Rightarrow> string list list" where
  "price_tag p = (case p_amount_minor p of
     Some amount \<Rightarrow>
       if truthy (p_currency p)
       then [[''price'', decimal_str amount (or_zero (p_currency_decimals p)), the (p_currency p)]
          @ (if truthy (p_recurring_frequency p) then [the (p_recurring_frequency p)] else [])]
       else []
   | None \<Rightarrow> [])"

definition dim_tag :: "product \<Rightarrow> error + string list list" where
  "dim_tag p = (if p_dim_l p \<noteq> None \<and> truthy (p_dim_unit p)
     then try_bind (dims_str (p_dim_l p) (p_dim_w p) (p_dim_h p))
       (\<lambda>dims. Inr [[''dim'', dims, the (p_dim_unit p)]])
     else Inr [])"

text \<open>A shipping reference: the kind it points to, the d-tag and the extra cost.\<close>

definition shipping_ref_tag :: "string \<Rightarrow> int \<Rightarrow> int \<times> string \<times> int option \<Rightarrow> string list" where
  "shipping_ref_tag pubkey decimals ref = (case ref of (kind, d, extra) \<Rightarrow>
     [''shipping_option'', coordinate (str_int kind) pubkey d]
     @ (case extra of None \<Rightarrow> [] | Some e \<Rightarrow> [decimal_str e decimals]))"

definition product_event :: "env \<Rightarrow> product \<Rightarrow> string \<Rightarrow> product_image list \<Rightarrow> product_spec list \<Rightarrow>
    string list \<Rightarrow> string list \<Rightarrow> (int \<times> string \<times> int option) list \<Rightarrow> string \<Rightarrow> error + unsigned_event" where
  "product_event E p pubkey images specs categories members refs parent_d =
     try_bind (dim_tag p) (\<lambda>dims.
     Inr \<lparr>ue_kind = 30402, ue_content = or_empty (p_description_md p), ue_tags =
         [[''d'', p_d_tag p], [''title'', or_empty (p_title p)]]
       @ price_tag p
       @ [[''type'', p_product_type p, p_format p], [''visibility'', p_visibility p]]
       @ (case available_stock p of None \<Rightarrow> [] | Some n \<Rightarrow> [[''stock'', str_int n]])
       @ tag_if ''summary'' (p_summary p)
       @ (if or_zero (p_published_at p) \<noteq> 0 then [[''published_at'', str_int (or_zero (p_published_at p))]] else [])
       @ map (\<lambda>i. [''image'', pi_url i, or_empty (pi_dimensions i)])
           (sort_key (\<lambda>i. (pi_sort_order i, pi_url i)) images)
       @ map (\<lambda>x. [''spec'', ps_key x, ps_value x]) (sort_key (\<lambda>x. (ps_key x, ps_value x)) specs)
       @ (case p_weight_value p of
            Some w \<Rightarrow> if truthy (p_weight_unit p) then [[''weight'', measure_str w, the (p_weight_unit p)]] else []
          | None \<Rightarrow> [])
       @ dims
       @ tag_if ''location'' (p_location p)
       @ tag_if ''g'' (p_geohash p)
       @ map (\<lambda>c. [''t'', c]) (sorted_strings categories)
       @ (if p_product_type p = ''variation'' then [[''a'', coordinate ''30402'' pubkey parent_d]] else [])
       @ map (\<lambda>d. [''a'', coordinate ''30405'' pubkey d]) (sorted_strings members)
       @ map (shipping_ref_tag pubkey (or_zero (p_currency_decimals p)))
           (sort_key (\<lambda>r. (fst r, fst (snd r))) refs)
       @ [[''status'', if p_nip99_status p = [] then ''active'' else p_nip99_status p]]
       @ nip32_tags (spec_revision E)\<rparr>)"

definition collection_event :: "env \<Rightarrow> collection \<Rightarrow> string \<Rightarrow> string list \<Rightarrow> string list \<Rightarrow> unsigned_event" where
  "collection_event E c pubkey members ships =
     \<lparr>ue_kind = 30405, ue_content = or_empty (c_description c), ue_tags =
         [[''d'', c_d_tag c], [''title'', or_empty (c_title c)]]
       @ map (\<lambda>d. [''a'', coordinate ''30402'' pubkey d]) (sorted_strings members)
       @ tag_if ''image'' (c_image c)
       @ (if truthy (c_description c) then [[''summary'', take_chars 280 (the (c_description c))]] else [])
       @ tag_if ''location'' (c_location c)
       @ tag_if ''g'' (c_geohash c)
       @ map (\<lambda>d. [''shipping_option'', coordinate ''30406'' pubkey d]) (sorted_strings ships)
       @ nip32_tags (spec_revision E)\<rparr>"

definition weight_bound_tag :: "string \<Rightarrow> dec option \<Rightarrow> string option \<Rightarrow> string list list" where
  "weight_bound_tag name v unit = (case v of
     Some w \<Rightarrow> if truthy unit then [[name, measure_str w, the unit]] else []
   | None \<Rightarrow> [])"

definition dim_bound_tag :: "string \<Rightarrow> dec option \<times> dec option \<times> dec option \<Rightarrow> string option \<Rightarrow> string list list" where
  "dim_bound_tag name v unit = (case v of (l, w, h) \<Rightarrow>
     (case dims_str l w h of
        Inr dims \<Rightarrow> if truthy unit then [[name, dims, the unit]] else []
      | Inl _ \<Rightarrow> []))"

definition surcharge_tag :: "string \<Rightarrow> int option \<Rightarrow> string option \<Rightarrow> int \<Rightarrow> string option \<Rightarrow> string list list" where
  "surcharge_tag name minor unit decimals currency = (case minor of
     Some v \<Rightarrow> if truthy unit then [[name, decimal_str v decimals, or_empty currency, the unit]] else []
   | None \<Rightarrow> [])"

definition shipping_event :: "env \<Rightarrow> shipping_option \<Rightarrow> unsigned_event" where
  "shipping_event E k =
     (let decimals = so_currency_decimals k in
      \<lparr>ue_kind = 30406, ue_content = or_empty (so_description k), ue_tags =
         [[''d'', so_d_tag k], [''title'', or_empty (so_title k)]]
       @ (case so_base_price_minor k of
            Some v \<Rightarrow> if truthy (so_currency k) then [[''price'', decimal_str v decimals, the (so_currency k)]] else []
          | None \<Rightarrow> [])
       @ map (\<lambda>c. [''country'', c]) (sorted_strings (so_countries k))
       @ map (\<lambda>r. [''region'', r]) (sorted_strings (so_regions k))
       @ [[''service'', so_service k]]
       @ tag_if ''carrier'' (so_carrier k)
       @ (case (so_duration_min k, so_duration_max k) of
            (Some a, Some b) \<Rightarrow> if truthy (so_duration_unit k)
              then [[''duration'', str_int a, str_int b, the (so_duration_unit k)]] else []
          | _ \<Rightarrow> [])
       @ tag_if ''location'' (so_location k)
       @ tag_if ''g'' (so_geohash k)
       @ weight_bound_tag ''weight-min'' (so_weight_min k) (so_weight_unit k)
       @ dim_bound_tag ''dim-min'' (so_dim_min k) (so_dim_unit k)
       @ weight_bound_tag ''weight-max'' (so_weight_max k) (so_weight_unit k)
       @ dim_bound_tag ''dim-max'' (so_dim_max k) (so_dim_unit k)
       @ surcharge_tag ''price-weight'' (so_price_weight_minor k) (so_price_weight_unit k) decimals (so_currency k)
       @ surcharge_tag ''price-volume'' (so_price_volume_minor k) (so_price_volume_unit k) decimals (so_currency k)
       @ nip32_tags (spec_revision E)\<rparr>)"

section \<open>Identity and handler events\<close>

text \<open>
  \<open>dict.update\<close> with what \<open>json.loads\<close> gave: an object, or a sequence of pairs. A pair whose
  key is not a string fails when \<open>sort_keys\<close> compares it with \<open>"name"\<close>, or before.
\<close>

definition update_pair :: "json \<Rightarrow> error + string \<times> json" where
  "update_pair j = (case j of
     JArr [JStr k, v] \<Rightarrow> Inr (k, v)
   | JArr [_, _] \<Rightarrow> Inl TypeError
   | JArr _ \<Rightarrow> Inl ValueError
   | JObj [(k, _), (v, _)] \<Rightarrow> Inr (k, JStr v)
   | JObj _ \<Rightarrow> Inl ValueError
   | JStr x \<Rightarrow> if chars x = 2 then Inr (take_chars 1 x, JStr (drop (length (take_chars 1 x)) x)) else Inl ValueError
   | _ \<Rightarrow> Inl TypeError)"

definition put_member :: "(string \<times> json) list \<Rightarrow> string \<times> json \<Rightarrow> (string \<times> json) list" where
  "put_member kvs kv = (if fst kv \<in> set (map fst kvs)
     then map (\<lambda>x. if fst x = fst kv then kv else x) kvs else kvs @ [kv])"

definition update_members :: "(string \<times> json) list \<Rightarrow> json \<Rightarrow> error + (string \<times> json) list" where
  "update_members kvs j = (case j of
     JObj new \<Rightarrow> Inr (foldl put_member kvs new)
   | JArr xs \<Rightarrow> try_fold (\<lambda>acc x. try_bind (update_pair x) (\<lambda>kv. Inr (put_member acc kv))) kvs xs
   | JStr [] \<Rightarrow> Inr kvs
   | JStr _ \<Rightarrow> Inl ValueError
   | _ \<Rightarrow> Inl TypeError)"

definition merchant_profile_event :: "env \<Rightarrow> merchant \<Rightarrow> error + unsigned_event" where
  "merchant_profile_event E m =
     try_bind (if truthy (m_profile_json m)
        then case json_loads E (the (m_profile_json m)) of None \<Rightarrow> Inl (ForeignError ''JSONDecodeError'') | Some j \<Rightarrow> Inr j
        else Inr (JObj [])) (\<lambda>profile.
     try_bind (update_members [(''name'', JStr (or_empty (m_display_name m)))] profile) (\<lambda>content.
     Inr \<lparr>ue_kind = 0, ue_content = json_text E (JObj content),
          ue_tags = [[''payment_preference'', ''manual'']]\<rparr>))"

definition app_d :: "merchant \<Rightarrow> string" where
  "app_d m = (if truthy (m_recommended_app_d m) then the (m_recommended_app_d m) else ''infinitemarkets'')"

definition handler_info_event :: "env \<Rightarrow> merchant \<Rightarrow> unsigned_event" where
  "handler_info_event E m =
     \<lparr>ue_kind = 31990, ue_content = json_text E (JObj [(''name'', JStr ''Infinitemarkets''),
        (''about'', JStr ''Lightning + Nostr storefront checkout'')]),
      ue_tags = [[''d'', app_d m], [''k'', ''30402''],
        [''web'', public_base_url E @ ''/infinitemarkets/p/<bech32>'', ''naddr'']]\<rparr>"

definition handler_recommendation_event :: "merchant \<Rightarrow> string \<Rightarrow> unsigned_event" where
  "handler_recommendation_event m pubkey =
     \<lparr>ue_kind = 31989, ue_content = '''',
      ue_tags = [[''d'', ''30402''], [''a'', coordinate ''31990'' pubkey (app_d m), '''', ''web'']]\<rparr>"

section \<open>NIP-15 compatibility\<close>

definition NIP15_ID_MAX :: nat where "NIP15_ID_MAX = 64"
definition DIGITAL_ZONE_ID :: string where "DIGITAL_ZONE_ID = ''digital''"

definition be16 :: "nat \<Rightarrow> bytes" where
  "be16 n = [char_of (n div 256), char_of (n mod 256)]"

definition nip15_product_id :: "env \<Rightarrow> product \<Rightarrow> string option \<Rightarrow> error + string" where
  "nip15_product_id E p parent_d =
     (if truthy (p_nip15_product_id p) then Inr (the (p_nip15_product_id p))
      else if p_product_type p = ''variation'' \<and> truthy parent_d then
        (let d = the parent_d; candidate = d @ ''-'' @ p_d_tag p in
         if chars candidate \<le> NIP15_ID_MAX then Inr candidate
         else if 65536 \<le> chars d then Inl OverflowError
         else Inr (''v-'' @ take 32 (sha256_hex E (be16 (chars d) @ d @ p_d_tag p))))
      else Inr (p_d_tag p))"

record zone =
  z_id :: string
  z_name :: string
  z_cost_minor :: int
  z_currency_decimals :: int
  z_regions :: "string list"

definition digital_zone :: zone where
  "digital_zone = \<lparr>z_id = DIGITAL_ZONE_ID, z_name = ''Digital delivery'', z_cost_minor = 0,
     z_currency_decimals = 0, z_regions = []\<rparr>"

definition zone_json :: "zone \<Rightarrow> json" where
  "zone_json z = JObj [(''id'', JStr (z_id z)), (''name'', JStr (z_name z)),
     (''cost'', json_price (z_cost_minor z) (z_currency_decimals z)),
     (''regions'', JArr (map JStr (sorted_strings (z_regions z))))]"

definition stall_event :: "env \<Rightarrow> catalog \<Rightarrow> string \<Rightarrow> zone list \<Rightarrow> unsigned_event" where
  "stall_event E c stall_d zones =
     \<lparr>ue_kind = 30017, ue_content = json_text E (JObj [(''id'', JStr stall_d),
        (''name'', JStr (or_empty (cat_name c))), (''description'', JStr (or_empty (cat_description c))),
        (''currency'', JStr (or_empty (cat_default_currency c))),
        (''shipping'', JArr (map zone_json (sort_key z_id zones)))]),
      ue_tags = [[''d'', stall_d]]\<rparr>"

definition surcharge_json :: "int \<Rightarrow> string \<times> int option \<Rightarrow> json" where
  "surcharge_json decimals x = (case x of (d, extra) \<Rightarrow>
     JObj [(''id'', JStr d), (''cost'', json_price (or_zero extra) decimals)])"

definition nip15_product_event :: "env \<Rightarrow> product \<Rightarrow> string \<Rightarrow> string \<Rightarrow> string option \<Rightarrow>
    product_image list \<Rightarrow> product_spec list \<Rightarrow> (string \<times> int option) list \<Rightarrow> error + unsigned_event" where
  "nip15_product_event E p stall_d stall_currency parent_d images specs surcharges =
     (let currency = (if truthy (p_currency p) then the (p_currency p) else stall_currency);
          decimals = or_zero (p_currency_decimals p)
      in if currency \<noteq> stall_currency then Inl CompatibilityError
         else try_bind (nip15_product_id E p parent_d) (\<lambda>i.
           Inr \<lparr>ue_kind = 30018, ue_content = json_text E (JObj [
               (''id'', JStr i), (''stall_id'', JStr stall_d), (''name'', JStr (or_empty (p_title p))),
               (''description'', JStr (or_empty (p_description_md p))),
               (''images'', JArr (map JStr (sorted_strings (map pi_url images)))),
               (''currency'', JStr currency),
               (''price'', json_price (or_zero (p_amount_minor p)) decimals),
               (''quantity'', if p_visibility p \<in> {''hidden'', ''pre-order''} then JInt 0
                  else case available_stock p of None \<Rightarrow> JNull | Some n \<Rightarrow> JInt n),
               (''specs'', JArr (map (\<lambda>x. JArr [JStr (ps_key x), JStr (ps_value x)])
                  (sort_key (\<lambda>x. (ps_key x, ps_value x)) specs))),
               (''shipping'', JArr (if p_format p = ''digital''
                  then [JObj [(''id'', JStr DIGITAL_ZONE_ID), (''cost'', JInt 0)]]
                  else map (surcharge_json decimals) (sort_key fst surcharges)))]),
             ue_tags = [[''d'', i]]\<rparr>))"

section \<open>Deletion\<close>

definition inbox_profile_address :: "string \<Rightarrow> string" where
  "inbox_profile_address pubkey = coordinate ''10050'' pubkey ''''"

definition tombstone_intent :: "string \<Rightarrow> int \<Rightarrow> string \<Rightarrow> unsigned_event" where
  "tombstone_intent pubkey kind d =
     \<lparr>ue_kind = 5, ue_content = ''deleted'',
      ue_tags = [[''a'', coordinate (str_int kind) pubkey d], [''k'', str_int kind]]\<rparr>"

end
