(* ===== verification/Publisher.thy ===== *)
theory Publisher
  imports Events PeerRelays StorefrontMode
begin

text \<open>
  The publisher of \<open>services/outbox.py\<close>: what an intent publishes (\<open>render_intent\<close>, from the
  rows as they are when it is sent), the transaction before the send, the classification of what
  the relays answered, the transaction after it, the two-copy branch for order messages, and the
  worker's pass. Each transaction runs only while the worker still holds its claim.
\<close>

section \<open>Addresses\<close>

fun digits_value :: "string \<Rightarrow> int option" where
  "digits_value s = (if s \<noteq> [] \<and> list_all digit s then Some (int (parse_nat 0 s)) else None)"

text \<open>\<open>_address_parts\<close>: \<open>split(":", 2)\<close> and \<open>int\<close>; the addresses are written by the code.\<close>

definition address_parts :: "string \<Rightarrow> error + int \<times> string \<times> string" where
  "address_parts a =
     (case split_on (CHR '':'') a of
        kind # pubkey # d # rest \<Rightarrow>
          (case digits_value kind of
             None \<Rightarrow> Inl ValueError
           | Some k \<Rightarrow> Inr (k, pubkey, drop (length kind + length pubkey + 2) a))
      | _ \<Rightarrow> Inl ValueError)"

section \<open>Rendering\<close>

definition CATALOG_AGGREGATES :: "string list" where
  "CATALOG_AGGREGATES = [''products'', ''collections'', ''shipping_options'', ''catalogs'']"

definition d_tags_of :: "(id \<times> int option) list \<Rightarrow> db \<Rightarrow> (string \<times> int option) list" where
  "d_tags_of refs s = concat (map (\<lambda>(i, extra). map (\<lambda>k. (so_d_tag k, extra))
     (filter (\<lambda>k. so_id k = i \<and> so_deleted_at k = None) (db_shipping_options s))) refs)"

definition shipping_of_product :: "id \<Rightarrow> db \<Rightarrow> (string \<times> int option) list" where
  "shipping_of_product p s = d_tags_of (map (\<lambda>r. (psr_ref_id r, psr_extra_cost_minor r))
     (filter (\<lambda>r. psr_product_id r = p) (db_product_shipping_options s))) s"

definition shipping_collections_of_product :: "id \<Rightarrow> db \<Rightarrow> (string \<times> int option) list" where
  "shipping_collections_of_product p s =
     concat (map (\<lambda>r. map (\<lambda>c. (c_d_tag c, psr_extra_cost_minor r))
        (filter (\<lambda>c. c_id c = psr_ref_id r \<and> c_deleted_at c = None) (db_collections s)))
       (filter (\<lambda>r. psr_product_id r = p) (db_product_shipping_collections s)))"

definition collections_with_product :: "id \<Rightarrow> db \<Rightarrow> string list" where
  "collections_with_product p s =
     concat (map (\<lambda>r. map c_d_tag (filter (\<lambda>c. c_id c = pc_collection_id r \<and> c_deleted_at c = None)
        (db_collections s)))
       (filter (\<lambda>r. pc_product_id r = p) (db_product_collections s)))"

definition merchant_pubkey :: "id \<Rightarrow> db \<Rightarrow> error + string" where
  "merchant_pubkey m s = (case List.find (\<lambda>x. m_id x = m) (db_merchants s) of
     None \<Rightarrow> Inl TypeError | Some r \<Rightarrow> Inr (m_pubkey r))"

definition parent_d_tag :: "product \<Rightarrow> db \<Rightarrow> string option" where
  "parent_d_tag p s = (if p_product_type p = ''variation''
     then map_option p_d_tag (List.find (\<lambda>q. Some (p_id q) = p_parent_product_id p) (db_products s))
     else None)"

definition render_product :: "env \<Rightarrow> outbox_event \<Rightarrow> db \<Rightarrow> error + unsigned_event option" where
  "render_product E row s =
     (case List.find (\<lambda>p. p_id p = x_aggregate_id row) (db_products s) of
        None \<Rightarrow> Inr None
      | Some p \<Rightarrow>
          if p_draft p \<or> p_deleted_at p \<noteq> None then Inr None
          else
            try_bind (merchant_pubkey (x_merchant_id row) s) (\<lambda>pubkey.
            (let images = filter (\<lambda>r. pi_product_id r = p_id p) (db_images s);
                 specs = filter (\<lambda>r. ps_product_id r = p_id p) (db_specs s);
                 ships = shipping_of_product (p_id p) s
             in if x_event_kind row = 30018 then
                  (case List.find (\<lambda>c. cat_id c = p_catalog_id p) (db_catalogs s) of
                     None \<Rightarrow> Inr None
                   | Some c \<Rightarrow>
                       if \<not> cat_publish_nip15 c then Inr None
                       else case cat_nip15_stall_d c of
                         None \<Rightarrow> Inl TypeError
                       | Some stall_d \<Rightarrow>
                           try_bind (nip15_product_event E p stall_d (or_empty (cat_default_currency c))
                              (parent_d_tag p s) images specs ships) (\<lambda>u. Inr (Some u)))
                else
                  try_bind (product_event E p pubkey images specs
                     (map pg_category (filter (\<lambda>r. pg_product_id r = p_id p) (db_categories s)))
                     (collections_with_product (p_id p) s)
                     (map (\<lambda>(d, extra). (30406, d, extra)) ships
                       @ map (\<lambda>(d, extra). (30405, d, extra)) (shipping_collections_of_product (p_id p) s))
                     (or_empty (parent_d_tag p s))) (\<lambda>u. Inr (Some u)))))"

definition render_collection :: "env \<Rightarrow> outbox_event \<Rightarrow> db \<Rightarrow> error + unsigned_event option" where
  "render_collection E row s =
     (case List.find (\<lambda>c. c_id c = x_aggregate_id row) (db_collections s) of
        None \<Rightarrow> Inr None
      | Some c \<Rightarrow>
          if c_deleted_at c \<noteq> None then Inr None
          else
            try_bind (merchant_pubkey (x_merchant_id row) s) (\<lambda>pubkey.
            (let members = concat (map (\<lambda>r. map p_d_tag (filter (\<lambda>p. p_id p = pc_product_id r
                     \<and> p_deleted_at p = None \<and> \<not> p_draft p) (db_products s)))
                   (filter (\<lambda>r. pc_collection_id r = c_id c) (db_product_collections s)))
             in if members = [] then Inr None
                else Inr (Some (collection_event E c pubkey members
                  (map fst (d_tags_of (map (\<lambda>r. (cs_shipping_option_id r, None))
                     (filter (\<lambda>r. cs_collection_id r = c_id c) (db_collection_shipping s))) s)))))))"

definition render_shipping :: "env \<Rightarrow> outbox_event \<Rightarrow> db \<Rightarrow> error + unsigned_event option" where
  "render_shipping E row s =
     (case List.find (\<lambda>k. so_id k = x_aggregate_id row) (db_shipping_options s) of
        None \<Rightarrow> Inr None
      | Some k \<Rightarrow>
          if so_deleted_at k \<noteq> None \<or> \<not> so_active k then Inr None
          else try_bind (merchant_pubkey (x_merchant_id row) s) (\<lambda>_. Inr (Some (shipping_event E k))))"

text \<open>
  The zones of a stall: the options attached to a collection of one of the catalog's products,
  and the digital zone when the catalog sells something digital.
\<close>

definition serves_catalog :: "id \<Rightarrow> db \<Rightarrow> shipping_option \<Rightarrow> bool" where
  "serves_catalog c s k \<longleftrightarrow> so_deleted_at k = None
     \<and> (\<exists>r \<in> set (db_collection_shipping s). cs_shipping_option_id r = so_id k
         \<and> (\<exists>q \<in> set (db_product_collections s). pc_collection_id q = cs_collection_id r
             \<and> (\<exists>p \<in> set (db_products s). p_id p = pc_product_id q \<and> p_catalog_id p = c
                  \<and> p_deleted_at p = None)))"

definition option_zone :: "shipping_option \<Rightarrow> zone" where
  "option_zone k = \<lparr>z_id = so_d_tag k, z_name = (if truthy (so_title k) then the (so_title k) else so_d_tag k),
     z_cost_minor = or_zero (so_base_price_minor k), z_currency_decimals = 2,
     z_regions = so_countries k @ so_regions k\<rparr>"

definition render_stall :: "env \<Rightarrow> outbox_event \<Rightarrow> db \<Rightarrow> error + unsigned_event option" where
  "render_stall E row s =
     (case List.find (\<lambda>c. cat_id c = x_aggregate_id row) (db_catalogs s) of
        None \<Rightarrow> Inr None
      | Some c \<Rightarrow>
          if cat_deleted_at c \<noteq> None \<or> \<not> cat_publish_nip15 c then Inr None
          else case cat_nip15_stall_d c of
            None \<Rightarrow> Inl TypeError
          | Some stall_d \<Rightarrow> Inr (Some (stall_event E c stall_d
              (map option_zone (filter (serves_catalog (cat_id c) s) (db_shipping_options s))
               @ (if \<exists>p \<in> set (db_products s). p_catalog_id p = cat_id c \<and> p_format p = ''digital''
                     \<and> p_deleted_at p = None \<and> \<not> p_draft p
                  then [digital_zone] else [])))))"

text \<open>\<open>build_kind10050\<close>: one to three distinct targets, each validated.\<close>

definition build_kind10050 :: "env \<Rightarrow> string \<Rightarrow> string list \<Rightarrow> error + unsigned_event" where
  "build_kind10050 E pubkey urls =
     (if pubkey = [] then Inl invalid_relay
      else try_bind (try_fold (\<lambda>acc raw. try_bind (validate_relay_url E raw)
              (\<lambda>u. Inr (if u \<in> set acc then acc else acc @ [u]))) [] urls) (\<lambda>normalized.
        if length normalized < 1 \<or> 3 < length normalized then Inl invalid_relay
        else Inr \<lparr>ue_kind = 10050, ue_content = '''', ue_tags = map (\<lambda>u. [''relay'', u]) normalized\<rparr>))"

definition render_inbox_profile :: "env \<Rightarrow> outbox_event \<Rightarrow> db \<Rightarrow> error + unsigned_event option" where
  "render_inbox_profile E row s =
     (case List.find (\<lambda>m. m_id m = x_merchant_id row) (db_merchants s) of
        None \<Rightarrow> Inr None
      | Some m \<Rightarrow>
          if x_event_kind row \<noteq> 10050 then Inr None
          else
            (let urls = sorted_strings (map rc_relay_url (filter (\<lambda>r.
                   rc_merchant_id r \<in> {Some (x_merchant_id row), None} \<and> serves ''inbox'' r)
                   (db_relay_configs s)))
             in if urls = [] then Inr None
                else try_bind (build_kind10050 E (m_pubkey m) (take 3 urls)) (\<lambda>u. Inr (Some u))))"

definition render_profile :: "env \<Rightarrow> outbox_event \<Rightarrow> db \<Rightarrow> error + unsigned_event option" where
  "render_profile E row s =
     (case List.find (\<lambda>m. m_id m = x_merchant_id row) (db_merchants s) of
        None \<Rightarrow> Inr None
      | Some m \<Rightarrow>
          if x_event_kind row = 0 then try_bind (merchant_profile_event E m) (\<lambda>u. Inr (Some u))
          else if x_event_kind row = 31989 then Inr (Some (handler_recommendation_event m (m_pubkey m)))
          else if x_event_kind row = 31990 then Inr (Some (handler_info_event E m))
          else Inr None)"

definition render_tombstone :: "outbox_event \<Rightarrow> error + unsigned_event option" where
  "render_tombstone row =
     (case split_on (CHR '':'') (or_empty (x_event_address row)) of
        [kind, pubkey, d] \<Rightarrow>
          (case digits_value kind of
             None \<Rightarrow> Inl ValueError
           | Some k \<Rightarrow> Inr (Some (tombstone_intent pubkey k d)))
      | _ \<Rightarrow> Inr None)"

definition render_intent :: "env \<Rightarrow> outbox_event \<Rightarrow> db \<Rightarrow> error + unsigned_event option" where
  "render_intent E row s =
     (let agg = x_aggregate_type row in
      if x_event_kind row = 5 then render_tombstone row
      else if agg \<in> set CATALOG_AGGREGATES \<and> \<not> publish_allowed (get_mode (x_merchant_id row) s)
      then Inr None
      else if agg = ''products'' then render_product E row s
      else if agg = ''collections'' then render_collection E row s
      else if agg = ''shipping_options'' then render_shipping E row s
      else if agg = ''catalogs'' then render_stall E row s
      else if agg = ''merchant'' then render_inbox_profile E row s
      else if agg = ''merchant_profile'' then render_profile E row s
      else Inr None)"

section \<open>The claimed row\<close>

definition claim_of :: "outbox_event \<Rightarrow> string \<Rightarrow> int \<Rightarrow> outbox_event \<Rightarrow> bool" where
  "claim_of row worker now x \<longleftrightarrow> x_id x = x_id row \<and> x_state x = ObClaimed
     \<and> x_claim_token x = x_claim_token row \<and> x_claimed_by x = Some worker
     \<and> (case x_claimed_until x of None \<Rightarrow> False | Some u \<Rightarrow> now < u)"

definition publication_tx :: "outbox_event \<Rightarrow> string \<Rightarrow> (outbox_event \<Rightarrow> (db, 'a) tx) \<Rightarrow> (db, 'a option) tx" where
  "publication_tx row worker body =
     tx_bind tx_now (\<lambda>now.
     tx_bind (sql_one db_outbox (claim_of row worker now)) (\<lambda>live.
     case live of
       None \<Rightarrow> tx_return None
     | Some r \<Rightarrow>
         tx_bind (body r) (\<lambda>a.
         tx_bind tx_now (\<lambda>later.
         tx_seq (tx_assert (case x_claimed_until r of None \<Rightarrow> False | Some u \<Rightarrow> later < u) LeaseLostError)
           (tx_return (Some a))))))"

definition outbox_name :: "outbox_state \<Rightarrow> string" where
  "outbox_name st = (case st of
     ObPending \<Rightarrow> ''pending'' | ObClaimed \<Rightarrow> ''claimed'' | ObPartiallyPublished \<Rightarrow> ''partially_published''
   | ObPublished \<Rightarrow> ''published'' | ObFailed \<Rightarrow> ''failed'' | ObSuperseded \<Rightarrow> ''superseded'')"

text \<open>A write of the claimed row, and the outcome the publisher reports for it.\<close>

definition settle :: "outbox_event \<Rightarrow> outbox_state \<Rightarrow> int \<Rightarrow> int option \<Rightarrow> string option \<Rightarrow> (db, unit) tx" where
  "settle row st now next_at err = tx_ignore (cas_state row st now next_at err)"

definition CLOCK_SKEW_TOLERANCE_S :: int where "CLOCK_SKEW_TOLERANCE_S = 300"

text \<open>
  The latest timestamp signed for the address, or for the aggregate and kind of an intent that
  has none.
\<close>

definition same_clock :: "outbox_event \<Rightarrow> outbox_event \<Rightarrow> bool" where
  "same_clock row x \<longleftrightarrow> x_merchant_id x = x_merchant_id row
     \<and> (if truthy (x_event_address row) then x_event_address x = x_event_address row
        else x_aggregate_type x = x_aggregate_type row \<and> x_aggregate_id x = x_aggregate_id row
          \<and> x_event_kind x = x_event_kind row)"

definition latest_signed :: "outbox_event \<Rightarrow> db \<Rightarrow> int" where
  "latest_signed row s = foldr max (map x_last_signed_at (filter (same_clock row) (db_outbox s))) 0"

definition latest_recorded :: "outbox_event \<Rightarrow> db \<Rightarrow> error + int" where
  "latest_recorded row s =
     (if \<not> truthy (x_event_address row) then Inr 0
      else try_bind (address_parts (the (x_event_address row))) (\<lambda>(kind, pubkey, d).
        Inr (case List.find (\<lambda>a. pa_protocol a = ''nostr'' \<and> pa_event_kind a = kind
               \<and> pa_d_tag a = d \<and> pa_author_pubkey a = pubkey) (db_addresses s) of
             None \<Rightarrow> 0 | Some a \<Rightarrow> or_zero (pa_latest_created_at a))))"

definition maybe_activate_merchant :: "outbox_event \<Rightarrow> (db, unit) tx" where
  "maybe_activate_merchant row =
     tx_when (x_aggregate_type row = ''merchant_profile'')
       (tx_bind tx_now (\<lambda>now. tx_ignore (sql_update db_merchants db_merchants_update merchants_ok
          (\<lambda>m. m_id m = x_aggregate_id row \<and> m_state m = MsPublicationPending)
          (\<lambda>m. m\<lparr>m_state := MsActive, m_updated_at := now\<rparr>))))"

definition inbox_outcome :: "outbox_event \<Rightarrow> string \<Rightarrow> inbox_state option" where
  "inbox_outcome row outcome =
     (if x_aggregate_type row \<noteq> ''merchant'' then None
      else if x_event_kind row = 10050 then
        (if outcome = ''published'' then Some IsActive else if outcome = ''failed'' then Some IsError else None)
      else if x_event_kind row = 5 \<and> take 6 (or_empty (x_event_address row)) = ''10050:'' then
        (if outcome = ''published'' then Some IsOff else if outcome = ''failed'' then Some IsError else None)
      else None)"

definition maybe_update_inbox_state :: "outbox_event \<Rightarrow> string \<Rightarrow> (db, unit) tx" where
  "maybe_update_inbox_state row outcome =
     (case inbox_outcome row outcome of
        None \<Rightarrow> tx_return ()
      | Some st \<Rightarrow> tx_bind tx_now (\<lambda>now. tx_ignore (sql_update db_merchants db_merchants_update merchants_ok
          (\<lambda>m. m_id m = x_aggregate_id row) (\<lambda>m. m\<lparr>m_inbox_state := st, m_updated_at := now\<rparr>))))"

definition record_address :: "env \<Rightarrow> outbox_event \<Rightarrow> string \<Rightarrow> int \<Rightarrow> (db, unit) tx" where
  "record_address E row event_id created_at =
     tx_bind (tx_lift (address_parts (or_empty (x_event_address row)))) (\<lambda>(_, pubkey, d).
     tx_bind (new_uuid E) (\<lambda>i.
     (let here = (\<lambda>a. pa_protocol a = ''nostr'' \<and> pa_event_kind a = x_event_kind row
            \<and> pa_author_pubkey a = pubkey \<and> pa_d_tag a = d)
      in tx_bind (sql_one db_addresses here) (\<lambda>old.
         case old of
           Some _ \<Rightarrow> tx_ignore (sql_update db_addresses db_addresses_update addresses_ok here
             (\<lambda>a. a\<lparr>pa_latest_event_id := Some event_id, pa_latest_created_at := Some created_at\<rparr>))
         | None \<Rightarrow> sql_insert db_addresses_update addresses_ok
             \<lparr>pa_id = i, pa_domain_type = x_aggregate_type row, pa_domain_id = x_aggregate_id row,
              pa_protocol = ''nostr'', pa_event_kind = x_event_kind row, pa_author_pubkey = pubkey,
              pa_d_tag = d, pa_latest_event_id = Some event_id,
              pa_latest_created_at = Some created_at\<rparr>))))"

section \<open>Before the send\<close>

text \<open>Either the outcome is already settled, or a signed event has to be sent to targets.\<close>

record sending =
  sd_event_id :: string
  sd_created_at :: int
  sd_accepted :: "string list"
  sd_targets :: "string list"

datatype prepared = Settled string | Sending sending

definition settle_as :: "outbox_event \<Rightarrow> outbox_state \<Rightarrow> int \<Rightarrow> int option \<Rightarrow> string option \<Rightarrow> string \<Rightarrow>
    (db, prepared) tx" where
  "settle_as row st now next_at err outcome =
     tx_seq (settle row st now next_at err) (tx_return (Settled outcome))"

definition published :: "outbox_event \<Rightarrow> int \<Rightarrow> (db, unit) tx" where
  "published row now =
     tx_seq (settle row ObPublished now None None)
    (tx_seq (maybe_activate_merchant row) (maybe_update_inbox_state row ''published''))"

definition no_targets :: "env \<Rightarrow> outbox_event \<Rightarrow> int \<Rightarrow> string list \<Rightarrow> (db, prepared) tx" where
  "no_targets E row now accepted =
     (if accepted \<noteq> [] then tx_seq (published row now) (tx_return (Settled ''published''))
      else if x_event_kind row = 5 \<and> \<not> truthy (x_event_address row)
      then settle_as row ObSuperseded now None None ''superseded''
      else
        (let st = (if outbox_max_attempts E \<le> x_attempts row + 1 then ObFailed else ObPending) in
         tx_bind (backoff E (x_attempts row + 1)) (\<lambda>b.
         tx_seq (settle row st now (Some (now + b)) (Some ''no-relay-targets''))
        (tx_seq (maybe_update_inbox_state row (outbox_name st))
           (tx_return (Settled (outbox_name st)))))))"

definition sign_event :: "network \<Rightarrow> outbox_event \<Rightarrow> unsigned_event \<Rightarrow> int \<Rightarrow> error + string" where
  "sign_event N row u created_at = net_sign N (x_merchant_id row)
     (case split_on (CHR '':'') (or_empty (x_event_address row)) of
        _ # pubkey # _ \<Rightarrow> Some pubkey | _ \<Rightarrow> None)
     (ue_kind u) (ue_content u) (ue_tags u) created_at"

definition prepare_send :: "env \<Rightarrow> network \<Rightarrow> string list \<Rightarrow> outbox_event \<Rightarrow> int \<Rightarrow> unsigned_event \<Rightarrow>
    (db, prepared) tx" where
  "prepare_send E N relays row now unsigned =
     tx_bind (tx_get (latest_recorded row)) (\<lambda>recorded.
     tx_bind (tx_lift recorded) (\<lambda>known.
     tx_bind (tx_get (latest_signed row)) (\<lambda>signed.
     (let latest = max known signed; created_at = max now (latest + 1) in
      if now + CLOCK_SKEW_TOLERANCE_S < latest
      then settle_as row ObPending now (Some (latest + 1)) None ''clock_skew''
      else
        tx_bind (accepted_targets (x_id row) None) (\<lambda>accepted.
        (let targets = (if x_event_kind row = 5 \<and> \<not> truthy (x_event_address row) then []
               else filter (\<lambda>u. u \<notin> set accepted) relays)
         in if targets = [] then no_targets E row now accepted
            else
              tx_bind (tx_lift (sign_event N row unsigned created_at)) (\<lambda>event_id.
              tx_seq (tx_ignore (sql_update db_outbox db_outbox_update outbox_ok (\<lambda>x. x_id x = x_id row)
                 (\<lambda>x. x\<lparr>x_last_signed_at := created_at\<rparr>)))
                (tx_return (Sending \<lparr>sd_event_id = event_id, sd_created_at = created_at,
                   sd_accepted = accepted, sd_targets = targets\<rparr>)))))))))"

definition prepare_publication :: "env \<Rightarrow> network \<Rightarrow> string list \<Rightarrow> outbox_event \<Rightarrow> (db, prepared) tx" where
  "prepare_publication E N relays row =
     tx_bind tx_now (\<lambda>now.
     tx_bind (deps_published (x_id row)) (\<lambda>ready.
     if \<not> ready then settle_as row ObPending now (Some now) None ''blocked''
     else
       tx_bind (newer_live_exists row) (\<lambda>newer.
       if newer then settle_as row ObSuperseded now None None ''superseded''
       else
         tx_bind (tx_get (render_intent E row)) (\<lambda>rendered.
         tx_bind (tx_lift rendered) (\<lambda>unsigned.
         case unsigned of
           None \<Rightarrow> settle_as row ObSuperseded now None None ''superseded''
         | Some u \<Rightarrow> prepare_send E N relays row now u)))))"

section \<open>After the send\<close>

definition TRANSIENT_REASONS :: "string list" where
  "TRANSIENT_REASONS = [''timeout'', ''relay not connected'', ''relay is initialized but not ready'']"

definition classify_one :: "send_report \<Rightarrow> string \<Rightarrow> string \<times> send_result \<times> string" where
  "classify_one report u = (case report of
     SendFailed err \<Rightarrow> (u, SrTimeout, if err = [] then ''send failed'' else err)
   | SendOutput oks failed \<Rightarrow>
       if u \<in> set oks then (u, SrAccepted, '''')
       else case map_of failed u of
         Some reason \<Rightarrow> (u, if reason \<in> set TRANSIENT_REASONS then SrTimeout else SrRejected, reason)
       | None \<Rightarrow> (u, SrTimeout, ''absent from send output''))"

definition classify_results :: "send_report \<Rightarrow> string list \<Rightarrow> (string \<times> send_result \<times> string) list" where
  "classify_results report targets = map (classify_one report) targets"

definition any_accepted :: "(string \<times> send_result \<times> string) list \<Rightarrow> bool" where
  "any_accepted results \<longleftrightarrow> (\<exists>r \<in> set results. fst (snd r) = SrAccepted)"

text \<open>A failed round: back off, or give up after the last attempt.\<close>

definition retry_or_fail :: "env \<Rightarrow> outbox_event \<Rightarrow> outbox_state \<Rightarrow> int \<Rightarrow> (db, outbox_state) tx" where
  "retry_or_fail E row st now =
     tx_bind (backoff E (x_attempts row + 1)) (\<lambda>b.
     (let spent = (outbox_max_attempts E \<le> x_attempts row + 1); st' = (if spent then ObFailed else st) in
      tx_seq (settle row st' now (Some (if spent then 0 else now + b)) None) (tx_return st')))"

definition record_outcome :: "env \<Rightarrow> sending \<Rightarrow> (string \<times> send_result \<times> string) list \<Rightarrow> outbox_event \<Rightarrow>
    (db, string) tx" where
  "record_outcome E sd results row =
     tx_bind tx_now (\<lambda>now.
     tx_seq (record_publications E (x_id row) CopyPublic (sd_event_id sd) (x_attempts row + 1) results now)
       (if any_accepted results \<or> sd_accepted sd \<noteq> [] then
          tx_seq (tx_when (any_accepted results \<and> truthy (x_event_address row) \<and> x_event_kind row \<noteq> 5)
             (record_address E row (sd_event_id sd) (sd_created_at sd)))
         (tx_seq (published row now) (tx_return ''published''))
        else
          tx_bind (retry_or_fail E row (if any_accepted results then ObPartiallyPublished else ObPending) now)
            (\<lambda>st. tx_seq (maybe_update_inbox_state row (outbox_name st)) (tx_return (outbox_name st)))))"

definition publish_public :: "env \<Rightarrow> network \<Rightarrow> string list \<Rightarrow> string \<Rightarrow> outbox_event \<Rightarrow> (db, string) proc" where
  "publish_public E N relays worker row =
     pr_bind (commit (publication_tx row worker (prepare_publication E N relays))) (\<lambda>before.
     case before of
       None \<Rightarrow> pr_return ''lost_claim''
     | Some (Settled outcome) \<Rightarrow> pr_return outcome
     | Some (Sending sd) \<Rightarrow>
         (case net_send N (x_id row) CopyPublic (sd_targets sd) of (report, seconds) \<Rightarrow>
            pr_bind (pr_wait seconds) (\<lambda>_.
            pr_bind (commit (publication_tx row worker
               (record_outcome E sd (classify_results report (sd_targets sd))))) (\<lambda>after.
            pr_return (case after of None \<Rightarrow> ''lost_claim'' | Some outcome \<Rightarrow> outcome)))))"

section \<open>Order messages: two copies\<close>

text \<open>
  The descriptor is opened and the routes resolved outside the claim; each copy that has targets
  left is wrapped once. \<open>None\<close> as the recipient's routes is the sentinel.
\<close>

record msg_plan =
  mq_descriptor :: bool
  mq_no_route :: bool
  mq_recipient_accepted :: "string list"
  mq_sender_accepted :: "string list"
  mq_recipient_targets :: "string list"
  mq_sender_targets :: "string list"
  mq_recipient_wrap :: "string option"
  mq_sender_wrap :: "string option"

definition accepted_copy :: "id \<Rightarrow> delivery_copy \<Rightarrow> db \<Rightarrow> string list" where
  "accepted_copy i copy s = remdups (map rp_relay_url (filter (\<lambda>r. rp_outbox_event_id r = i
     \<and> rp_result r = SrAccepted \<and> rp_delivery_copy r = copy) (db_publications s)))"

definition required_str :: "string \<Rightarrow> json \<Rightarrow> error + string" where
  "required_str k j = (case json_field k j of
     None \<Rightarrow> Inl KeyError | Some (JStr x) \<Rightarrow> Inr x | Some _ \<Rightarrow> Inl TypeError)"

definition wrap_if :: "network \<Rightarrow> id \<Rightarrow> string list \<Rightarrow> rumor_parts option \<Rightarrow> string \<Rightarrow> error + string option" where
  "wrap_if N merchant targets rumor receiver =
     (case rumor of
        Some r \<Rightarrow> if targets = [] then Inr None
          else try_bind (net_wrap N merchant r receiver) (\<lambda>w. Inr (Some w))
      | None \<Rightarrow> Inr None)"

definition plan_order_msg :: "env \<Rightarrow> network \<Rightarrow> outbox_event \<Rightarrow> (db, msg_plan) proc" where
  "plan_order_msg E N row =
     pr_bind (case x_payload_enc row of
        None \<Rightarrow> pr_return None
      | Some enc \<Rightarrow> pr_bind (pr_lift (stored_descriptor E row enc)) (\<lambda>j. pr_return (Some j))) (\<lambda>descriptor.
     pr_bind (case descriptor of
        None \<Rightarrow> pr_return (None, [], '''', '''')
      | Some j \<Rightarrow>
          pr_bind (pr_lift (required_str ''recipient_pubkey'' j)) (\<lambda>recipient.
          pr_bind (pr_lift (required_str ''author_pubkey'' j)) (\<lambda>author.
          pr_bind (resolve_buyer_inbox_relays E N (x_merchant_id row) recipient) (\<lambda>routes.
          pr_bind (pr_get (relay_targets (x_merchant_id row) ''inbox'')) (\<lambda>own.
          pr_return (routes, own, recipient, author)))))) (\<lambda>(routes, own, recipient, author).
     pr_bind (pr_get (accepted_copy (x_id row) CopyRecipient)) (\<lambda>rec_acc.
     pr_bind (pr_get (accepted_copy (x_id row) CopySender)) (\<lambda>sen_acc.
     (let rec_targets = (case routes of None \<Rightarrow> [] | Some urls \<Rightarrow> filter (\<lambda>u. u \<notin> set rec_acc) urls);
          sen_targets = filter (\<lambda>u. u \<notin> set sen_acc) own
      in pr_bind (pr_lift (case descriptor of
            None \<Rightarrow> Inr None
          | Some j \<Rightarrow> try_bind (rumor_of_json E j) (\<lambda>r. Inr (Some r)))) (\<lambda>rumor.
         pr_bind (pr_lift (wrap_if N (x_merchant_id row) rec_targets rumor recipient)) (\<lambda>rec_wrap.
         pr_bind (pr_lift (wrap_if N (x_merchant_id row) sen_targets rumor author)) (\<lambda>sen_wrap.
         pr_return \<lparr>mq_descriptor = (descriptor \<noteq> None), mq_no_route = (routes = None),
           mq_recipient_accepted = rec_acc, mq_sender_accepted = sen_acc,
           mq_recipient_targets = rec_targets, mq_sender_targets = sen_targets,
           mq_recipient_wrap = rec_wrap, mq_sender_wrap = sen_wrap\<rparr>))))))))"

text \<open>\<open>None\<close>: go on and send.\<close>

definition prepare_order_msg :: "env \<Rightarrow> msg_plan \<Rightarrow> outbox_event \<Rightarrow> (db, string option) tx" where
  "prepare_order_msg E q row =
     tx_bind tx_now (\<lambda>now.
     tx_bind (deps_published (x_id row)) (\<lambda>ready.
     if \<not> ready then tx_seq (settle row ObPending now (Some now) None) (tx_return (Some ''blocked''))
     else if \<not> mq_descriptor q
     then tx_seq (settle row ObFailed now None (Some ''missing-payload'')) (tx_return (Some ''failed''))
     else if mq_recipient_accepted q = [] \<and> mq_no_route q then
       (if ORDER_MSG_NO_ROUTE_DEADLINE_S \<le> now - x_created_at row
        then tx_seq (settle row ObFailed now None (Some ''no_inbox_relays'')) (tx_return (Some ''failed''))
        else tx_seq (settle row ObPending now (Some (now + ORDER_MSG_NO_ROUTE_REFRESH_S))
               (Some ''no_inbox_relays'')) (tx_return (Some ''pending'')))
     else if mq_recipient_targets q = [] \<and> mq_sender_targets q = [] then
       (if mq_recipient_accepted q \<noteq> [] \<and> mq_sender_accepted q \<noteq> []
        then tx_seq (settle row ObPublished now None None) (tx_return (Some ''published''))
        else
          (let st = (if outbox_max_attempts E \<le> x_attempts row + 1 then ObFailed
               else if mq_recipient_accepted q \<noteq> [] \<or> mq_sender_accepted q \<noteq> []
               then ObPartiallyPublished else ObPending) in
           tx_bind (backoff E (x_attempts row + 1)) (\<lambda>b.
           tx_seq (settle row st now (Some (now + b))
             (Some (if mq_recipient_accepted q = [] then ''no_inbox_relays'' else ''no-relay-targets'')))
             (tx_return (Some (outbox_name st))))))
     else tx_return None))"

definition record_copy :: "env \<Rightarrow> outbox_event \<Rightarrow> delivery_copy \<Rightarrow> string option \<Rightarrow>
    (string \<times> send_result \<times> string) list \<Rightarrow> int \<Rightarrow> (db, unit) tx" where
  "record_copy E row copy wrap results now = (case wrap of
     None \<Rightarrow> tx_return ()
   | Some w \<Rightarrow> record_publications E (x_id row) copy w (x_attempts row + 1) results now)"

definition finish_order_msg :: "env \<Rightarrow> msg_plan \<Rightarrow> (string \<times> send_result \<times> string) list \<Rightarrow>
    (string \<times> send_result \<times> string) list \<Rightarrow> outbox_event \<Rightarrow> (db, string) tx" where
  "finish_order_msg E q rec_results sen_results row =
     tx_bind tx_now (\<lambda>now.
     tx_seq (record_copy E row CopyRecipient (mq_recipient_wrap q) rec_results now)
    (tx_seq (record_copy E row CopySender (mq_sender_wrap q) sen_results now)
       (let rec_ok = (mq_recipient_accepted q \<noteq> [] \<or> mq_recipient_wrap q \<noteq> None \<and> any_accepted rec_results);
            sen_ok = (mq_sender_accepted q \<noteq> [] \<or> mq_sender_wrap q \<noteq> None \<and> any_accepted sen_results)
        in if rec_ok \<and> sen_ok
           then tx_seq (settle row ObPublished now None None) (tx_return ''published'')
           else tx_bind (retry_or_fail E row (if rec_ok \<or> sen_ok then ObPartiallyPublished else ObPending) now)
             (\<lambda>st. tx_return (outbox_name st)))))"

definition send_copy :: "network \<Rightarrow> outbox_event \<Rightarrow> delivery_copy \<Rightarrow> string option \<Rightarrow> string list \<Rightarrow>
    (db, (string \<times> send_result \<times> string) list) proc" where
  "send_copy N row copy wrap targets = (case wrap of
     None \<Rightarrow> pr_return []
   | Some _ \<Rightarrow> (case net_send N (x_id row) copy targets of (report, seconds) \<Rightarrow>
       pr_bind (pr_wait seconds) (\<lambda>_. pr_return (classify_results report targets))))"

definition publish_order_msg :: "env \<Rightarrow> network \<Rightarrow> string \<Rightarrow> outbox_event \<Rightarrow> (db, string) proc" where
  "publish_order_msg E N worker row =
     pr_bind (plan_order_msg E N row) (\<lambda>q.
     pr_bind (commit (publication_tx row worker (prepare_order_msg E q))) (\<lambda>before.
     case before of
       None \<Rightarrow> pr_return ''lost_claim''
     | Some (Some outcome) \<Rightarrow> pr_return outcome
     | Some None \<Rightarrow>
         pr_bind (send_copy N row CopyRecipient (mq_recipient_wrap q) (mq_recipient_targets q)) (\<lambda>rec_results.
         pr_bind (send_copy N row CopySender (mq_sender_wrap q) (mq_sender_targets q)) (\<lambda>sen_results.
         pr_bind (commit (publication_tx row worker (finish_order_msg E q rec_results sen_results))) (\<lambda>after.
         pr_return (case after of None \<Rightarrow> ''lost_claim'' | Some outcome \<Rightarrow> outcome))))))"

section \<open>The worker\<close>

definition publish_intent :: "env \<Rightarrow> network \<Rightarrow> string list \<Rightarrow> string \<Rightarrow> outbox_event \<Rightarrow> (db, string) proc" where
  "publish_intent E N relays worker row =
     (if x_aggregate_type row = ''order_msg'' then publish_order_msg E N worker row
      else publish_public E N relays worker row)"

definition targets_inbox_set :: "outbox_event \<Rightarrow> bool" where
  "targets_inbox_set row \<longleftrightarrow> x_event_kind row = 10050
     \<or> x_event_kind row = 5 \<and> take 6 (or_empty (x_event_address row)) = ''10050:''"

definition publish_targets :: "outbox_event \<Rightarrow> db \<Rightarrow> string list" where
  "publish_targets row s =
     (if x_aggregate_type row = ''order_msg'' then []
      else if targets_inbox_set row
      then sorted_strings (remdups (relay_targets (x_merchant_id row) ''public'' s
             @ relay_targets (x_merchant_id row) ''inbox'' s))
      else relay_targets (x_merchant_id row) ''public'' s)"

definition put_back :: "env \<Rightarrow> error \<Rightarrow> int \<Rightarrow> outbox_event \<Rightarrow> (db, unit) tx" where
  "put_back E e now row =
     tx_bind (backoff E (x_attempts row + 1)) (\<lambda>b.
     settle row ObPending now (Some (now + b)) (Some (error_name e)))"

definition publish_claimed :: "env \<Rightarrow> network \<Rightarrow> string \<Rightarrow> int \<Rightarrow> string list \<Rightarrow> outbox_event \<Rightarrow> (db, string list) proc" where
  "publish_claimed E N worker now outcomes row =
     pr_bind (pr_get (publish_targets row)) (\<lambda>relays.
     pr_bind (pr_catch (publish_intent E N relays worker row) (\<lambda>e.
        if e = LeaseLostError then pr_return ''lost_claim''
        else pr_bind (commit (publication_tx row worker (put_back E e now))) (\<lambda>r.
          pr_return (if r = None then ''lost_claim'' else ''pending'')))) (\<lambda>outcome.
     pr_return (outcomes @ [outcome])))"

text \<open>The result: how many intents were claimed, how many recovered, and the outcomes.\<close>

definition worker_tick :: "env \<Rightarrow> network \<Rightarrow> string \<Rightarrow> int \<Rightarrow> (db, nat \<times> nat \<times> string list) proc" where
  "worker_tick E N worker now =
     pr_bind (commit (recover_stale_claims E now)) (\<lambda>recovered.
     if \<not> net_started N then pr_return (0, recovered, [])
     else
       pr_bind (commit (claim_batch E now worker (outbox_batch E))) (\<lambda>claimed.
       pr_bind (pr_fold (publish_claimed E N worker now) [] claimed) (\<lambda>outcomes.
       pr_return (length claimed, recovered, outcomes))))"

end
