(* ===== verification/OutboxSteps.thy ===== *)
theory OutboxSteps
  imports Publisher Fencing
begin

text \<open>
  The life of a publication intent as a state machine, and every transaction on the queue as a
  sequence of its moves. From it: settled intents are final, a lost claim stays lost, a relay's
  acceptance stands behind everything that is called published, and timestamps only grow.
\<close>

section \<open>The state machine of an intent\<close>

inductive intent_step :: "outbox_event \<Rightarrow> outbox_event \<Rightarrow> bool" where
  supersedes: "ob_live (x_state x) \<Longrightarrow> intent_step x (x\<lparr>x_state := ObSuperseded, x_updated_at := t\<rparr>)"
| claims: "x_state x \<in> {ObPending, ObPartiallyPublished} \<Longrightarrow> intent_step x (claim_row now worker x)"
| settles: "x_state x = ObClaimed \<Longrightarrow> st \<noteq> ObClaimed \<Longrightarrow> intent_step x (x\<lparr>x_state := st, x_attempts := n,
     x_next_attempt_at := na, x_last_error := err, x_updated_at := t\<rparr>)"
| signs: "x_state x = ObClaimed \<Longrightarrow> x_last_signed_at x < c \<Longrightarrow> intent_step x (x\<lparr>x_last_signed_at := c\<rparr>)"
| recovers: "x_state x = ObClaimed \<Longrightarrow> st \<in> {ObPending, ObPartiallyPublished} \<Longrightarrow> x_claim_token x < k \<Longrightarrow>
     intent_step x (x\<lparr>x_state := st, x_claimed_by := None, x_claimed_until := None, x_claim_token := k, x_next_attempt_at := na, x_updated_at := t\<rparr>)"
| retries: "x_state x \<in> {ObFailed, ObPartiallyPublished} \<Longrightarrow> intent_step x (x\<lparr>x_state := ObPending,
     x_attempts := 0, x_next_attempt_at := na, x_last_error := None, x_updated_at := t\<rparr>)"
| gives_up: "no_route_stuck x \<Longrightarrow> intent_step x (x\<lparr>x_state := ObFailed, x_next_attempt_at := 0,
     x_claimed_by := None, x_claimed_until := None, x_updated_at := t\<rparr>)"
| gets_payload: "intent_step x (x\<lparr>x_payload_enc := p\<rparr>)"

abbreviation outbox_moves :: "(db, 'a) tx \<Rightarrow> bool" where
  "outbox_moves \<equiv> tx_moves db_outbox x_id intent_step"

lemma claim_row_id [simp]: "x_id (claim_row now worker x) = x_id x"
  by (simp add: claim_row_def)

lemma intent_moves:
  "intent_step x y \<Longrightarrow> x_id y = x_id x \<and> intent_step\<^sup>*\<^sup>* x y"
  by (auto elim: intent_step.cases simp: claim_row_def intro: r_into_rtranclp)

section \<open>Every transaction of the queue follows it\<close>

lemma moves_supersede [moves]: "outbox_moves (supersede_older ag ai rv t)"
  unfolding supersede_older_def
  by (rule moves_update) (auto intro!: intent_moves intent_step.intros)

lemma moves_add_dependency [moves]: "outbox_moves (add_dependency i dep)"
  by (intro moves_keeps keeps) simp

lemma moves_enqueue [moves]: "outbox_moves (enqueue_intent E m ag ai kind rv addr deps)"
  unfolding enqueue_intent_def
  by (intro moves moves_insert) (auto intro!: moves_keeps keeps simp: outbox_ok_def)

lemma moves_claim_batch [moves]: "outbox_moves (claim_batch E now w limit)"
  unfolding claim_batch_def claim_one_def
  by (intro moves moves_update) (auto intro!: moves_keeps keeps intent_moves intent_step.intros)

lemma moves_cas [moves]: "st \<noteq> ObClaimed \<Longrightarrow> outbox_moves (cas_state row st now na e)"
  unfolding cas_state_def
  by (intro moves moves_update)
    (auto intro!: moves_keeps keeps intent_moves intent_step.intros simp: holds_claim_def)

lemma moves_recover [moves]: "outbox_moves (recover_stale_claims E now)"
  unfolding recover_stale_claims_def recover_one_def
  by (intro moves moves_update)
    (auto intro!: moves_keeps keeps intent_moves intent_step.intros simp: stale_claim_def)

lemma moves_fail_no_route [moves]: "outbox_moves (fail_no_route i now)"
  unfolding fail_no_route_def
  by (intro moves moves_update) (auto intro!: intent_moves intent_step.intros)

lemma moves_retry [moves]: "outbox_moves (retry_intent m i)"
proof (rule tx_movesI)
  fix s a t
  assume "retry_intent m i s = Inr (a, t)"
  then obtain r n where r: "List.find (\<lambda>x. x_id x = i \<and> x_merchant_id x = m) (db_outbox s) = Some r"
      "x_state r \<in> {ObFailed, ObPartiallyPublished}"
    and run: "sql_update db_outbox db_outbox_update outbox_ok (\<lambda>x. x_id x = i)
        (\<lambda>x. x\<lparr>x_state := ObPending, x_attempts := 0, x_next_attempt_at := db_clock s,
               x_last_error := None, x_updated_at := db_clock s\<rparr>) s = Inr (n, t)"
    by (auto simp: retry_intent_def tx_Inr split: option.splits)
  from find_SomeD [OF r(1)] have "r \<in> set (db_outbox s)" and i: "i = x_id r" by auto
  then show "table_moves x_id intent_step (db_outbox s) (db_outbox t)"
    using r(2) intent_moves [OF retries] by (intro moves_update_one [OF run [unfolded i]]) auto
qed


lemma moves_settle [moves]: "st \<noteq> ObClaimed \<Longrightarrow> outbox_moves (settle row st now na e)"
  unfolding settle_def by (intro moves)

lemma moves_settle_as [moves]: "st \<noteq> ObClaimed \<Longrightarrow> outbox_moves (settle_as row st now na e w)"
  unfolding settle_as_def by (intro moves moves_keeps keeps)

lemma keeps_merchant_states [keeps]:
  assumes "\<And>g s. f (db_merchants_update g s) = f s"
  shows "tx_keeps f (maybe_activate_merchant row)" "tx_keeps f (maybe_update_inbox_state row w)"
  unfolding maybe_activate_merchant_def maybe_update_inbox_state_def
  by (intro keeps keeps_sql assms)+

lemma keeps_record_address [keeps]:
  assumes "\<And>g s. f (db_addresses_update g s) = f s" "\<And>g s. f (db_draws_update g s) = f s"
  shows "tx_keeps f (record_address E row ev c)"
  unfolding record_address_def Let_def by (intro keeps keeps_sql assms)

lemma moves_published [moves]: "outbox_moves (published row now)"
  unfolding published_def by (intro moves) (auto intro!: moves_keeps keeps)

lemma moves_no_targets [moves]: "outbox_moves (no_targets E row now acc)"
  unfolding no_targets_def Let_def
  by (intro moves) (auto intro!: moves moves_keeps keeps)

lemma moves_retry_or_fail [moves]:
  "st \<noteq> ObClaimed \<Longrightarrow> outbox_moves (retry_or_fail E row st now)"
  unfolding retry_or_fail_def Let_def
  by (intro moves) (auto intro!: moves moves_keeps keeps)

lemma moves_record_outcome [moves]: "outbox_moves (record_outcome E sd results row)"
  unfolding record_outcome_def
  by (intro moves) (auto intro!: moves moves_keeps keeps)

lemma moves_put_back [moves]: "outbox_moves (put_back E e now row)"
  unfolding put_back_def by (intro moves) (auto intro!: moves_keeps keeps)

lemma moves_prepare_order_msg [moves]: "outbox_moves (prepare_order_msg E q row)"
  unfolding prepare_order_msg_def Let_def
  by (intro moves) (auto intro!: moves moves_keeps keeps)

lemma moves_finish_order_msg [moves]: "outbox_moves (finish_order_msg E q rs ss row)"
  unfolding finish_order_msg_def Let_def record_copy_def
  by (intro moves) (auto intro!: moves moves_keeps keeps)

section \<open>The publication transactions\<close>

lemma publication_cases:
  assumes "publication_tx row worker body s = Inr (a, t)"
  obtains "a = None" "t = s" "\<forall>x \<in> set (db_outbox s). \<not> claim_of row worker (db_clock s) x"
  | r b where "a = Some b" "r \<in> set (db_outbox s)" "claim_of row worker (db_clock s) r"
      "body r s = Inr (b, t)"
proof (cases "List.find (claim_of row worker (db_clock s)) (db_outbox s)")
  case None
  then have "a = None" "t = s" using assms by (auto simp: publication_tx_def tx_Inr)
  with that(1) show ?thesis using find_NoneD [OF None] by blast
next
  case (Some r)
  from assms obtain b where "a = Some b" "body r s = Inr (b, t)"
    by (auto simp: publication_tx_def tx_Inr Some)
  with that(2) show ?thesis using find_SomeD [OF Some] by blast
qed

lemma publication_refused:
  assumes "\<forall>x \<in> set (db_outbox s). \<not> claim_of row worker (db_clock s) x"
  shows "publication_tx row worker body s = Inr (None, s)"
proof -
  from assms have "List.find (claim_of row worker (db_clock s)) (db_outbox s) = None"
    by (simp add: find_None_iff)
  then show ?thesis by (simp add: publication_tx_def tx_defs sql_one_def)
qed

lemma foldr_max: "x \<in> set xs \<Longrightarrow> x \<le> foldr max xs (k::int)"
  by (induction xs) auto

lemma latest_signed_ge: "x \<in> set (db_outbox s) \<Longrightarrow> same_clock row x \<Longrightarrow> x_last_signed_at x \<le> latest_signed row s"
  unfolding latest_signed_def by (rule foldr_max) auto

lemma same_clock_refl [simp]: "same_clock row row"
  by (simp add: same_clock_def)

text \<open>The runs of \<open>prepare_send\<close>: a settled outcome, or a signature later than any before.\<close>

lemma prepare_send_signed:
  assumes run: "prepare_send E N relays row now u s = Inr (Sending sd, t)"
  shows "latest_signed row s < sd_created_at sd" "now \<le> sd_created_at sd"
    "sd_created_at sd \<le> now + CLOCK_SKEW_TOLERANCE_S + 1"
    "sd_targets sd = filter (\<lambda>u. u \<notin> set (sd_accepted sd)) relays" "sd_targets sd \<noteq> []"
    "set (sd_accepted sd) = {rp_relay_url r |r. r \<in> set (db_publications s)
       \<and> rp_outbox_event_id r = x_id row \<and> rp_result r = SrAccepted}"
    "\<exists>n. sql_update db_outbox db_outbox_update outbox_ok (\<lambda>x. x_id x = x_id row)
       (\<lambda>x. x\<lparr>x_last_signed_at := sd_created_at sd\<rparr>) s = Inr (n, t)"
    "sign_event N row u (sd_created_at sd) = Inr (sd_event_id sd)"
proof -
  have skew: "0 \<le> CLOCK_SKEW_TOLERANCE_S" by (simp add: CLOCK_SKEW_TOLERANCE_S_def)
  obtain known event_id accepted n where
    k: "max known (latest_signed row s) \<le> now + CLOCK_SKEW_TOLERANCE_S"
      "accepted_targets (x_id row) None s = Inr (accepted, s)"
      "filter (\<lambda>u. u \<notin> set accepted) relays \<noteq> []"
      "sign_event N row u (max now (max known (latest_signed row s) + 1)) = Inr event_id"
    and sd: "sd = \<lparr>sd_event_id = event_id, sd_created_at = max now (max known (latest_signed row s) + 1),
        sd_accepted = accepted, sd_targets = filter (\<lambda>u. u \<notin> set accepted) relays\<rparr>"
    and upd: "sql_update db_outbox db_outbox_update outbox_ok (\<lambda>x. x_id x = x_id row)
       (\<lambda>x. x\<lparr>x_last_signed_at := max now (max known (latest_signed row s) + 1)\<rparr>) s = Inr (n, t)"
    using run
    by (auto simp: prepare_send_def tx_Inr Let_def settle_as_def no_targets_def accepted_targets_def
        not_less split: if_splits)
  show "latest_signed row s < sd_created_at sd" "now \<le> sd_created_at sd"
    "sd_created_at sd \<le> now + CLOCK_SKEW_TOLERANCE_S + 1"
    using k(1) skew unfolding sd by auto
  show "sd_targets sd = filter (\<lambda>u. u \<notin> set (sd_accepted sd)) relays" "sd_targets sd \<noteq> []"
    using k(3) unfolding sd by auto
  show "set (sd_accepted sd) = {rp_relay_url r |r. r \<in> set (db_publications s)
       \<and> rp_outbox_event_id r = x_id row \<and> rp_result r = SrAccepted}"
    using k(2) unfolding sd by (auto simp: accepted_targets_def tx_Inr)
  show "\<exists>n. sql_update db_outbox db_outbox_update outbox_ok (\<lambda>x. x_id x = x_id row)
       (\<lambda>x. x\<lparr>x_last_signed_at := sd_created_at sd\<rparr>) s = Inr (n, t)"
    using upd unfolding sd by auto
  show "sign_event N row u (sd_created_at sd) = Inr (sd_event_id sd)"
    using k(4) unfolding sd by simp
qed

lemma prepare_send_settled:
  assumes "prepare_send E N relays row now u s = Inr (Settled w, t)"
  shows "(\<exists>na. settle_as row ObPending now na None ''clock_skew'' s = Inr (Settled w, t))
    \<or> (\<exists>acc. accepted_targets (x_id row) None s = Inr (acc, s) \<and> no_targets E row now acc s = Inr (Settled w, t))"
  using assms
  by (auto simp: prepare_send_def tx_Inr Let_def accepted_targets_def split: if_splits)

lemma prepare_cases:
  assumes run: "prepare_publication E N relays row s = Inr (p, t)"
  obtains st na w where "st \<noteq> ObClaimed" "st \<noteq> ObPublished" "settle_as row st (db_clock s) na None w s = Inr (p, t)"
  | u where "render_intent E row s = Inr (Some u)" "deps_published (x_id row) s = Inr (True, s)"
      "newer_live_exists row s = Inr (False, s)"
      "prepare_send E N relays row (db_clock s) u s = Inr (p, t)"
  using run
  by (auto simp: prepare_publication_def tx_Inr deps_published_def newer_live_exists_def split: if_splits option.splits)

lemma prepare_moves:
  assumes run: "prepare_publication E N relays row s = Inr (p, t)"
    and row: "row \<in> set (db_outbox s)" "x_state row = ObClaimed"
  shows "table_moves x_id intent_step (db_outbox s) (db_outbox t)"
  using run
proof (cases rule: prepare_cases)
  case (1 st na w)
  then show ?thesis by (metis moves_settle_as tx_movesD)
next
  case (2 u)
  show ?thesis
  proof (cases p)
    case (Settled w)
    show ?thesis
      using prepare_send_settled [OF 2(4) [unfolded Settled]]
      by (auto dest: tx_movesD [OF moves_no_targets]
          tx_movesD [OF moves_settle_as [of ObPending row "db_clock s" _ None "''clock_skew''"], rotated])
  next
    case (Sending sd)
    note P = prepare_send_signed [OF 2(4) [unfolded Sending]]
    from P(7) obtain n where upd: "sql_update db_outbox db_outbox_update outbox_ok (\<lambda>x. x_id x = x_id row)
       (\<lambda>x. x\<lparr>x_last_signed_at := sd_created_at sd\<rparr>) s = Inr (n, t)" ..
    have "x_last_signed_at row < sd_created_at sd"
      using latest_signed_ge [OF row(1), of row] P(1) by simp
    with row show ?thesis
      using intent_moves [OF signs] by (intro moves_update_one [OF upd]) auto
  qed
qed

section \<open>What can happen to the queue\<close>

definition evidence :: "id \<Rightarrow> db \<Rightarrow> bool" where
  "evidence i s \<longleftrightarrow> (\<exists>r \<in> set (db_publications s). rp_outbox_event_id r = i \<and> rp_result r = SrAccepted)"

definition copy_evidence :: "id \<Rightarrow> delivery_copy \<Rightarrow> db \<Rightarrow> bool" where
  "copy_evidence i c s \<longleftrightarrow> (\<exists>r \<in> set (db_publications s). rp_outbox_event_id r = i
     \<and> rp_result r = SrAccepted \<and> rp_delivery_copy r = c)"

definition is_msg :: "outbox_event \<Rightarrow> bool" where
  "is_msg x \<longleftrightarrow> x_aggregate_type x = ''order_msg''"

text \<open>
  The transactions on the queue outside a publication, and anything that touches neither the queue
  nor takes recorded attempts away.
\<close>

inductive queue_step :: "db \<Rightarrow> db \<Rightarrow> bool" where
  enqueues: "enqueue_intent E m ag ai kind rv addr deps s = Inr (r, t) \<Longrightarrow> queue_step s t"
| enqueues_msg: "enqueue_order_msg E m k p n agg conv s = Inr (r, t) \<Longrightarrow> queue_step s t"
| claims_due: "claim_batch E now w limit s = Inr (r, t) \<Longrightarrow> queue_step s t"
| recovers_stale: "recover_stale_claims E now s = Inr (r, t) \<Longrightarrow> queue_step s t"
| retries_failed: "retry_intent m i s = Inr (r, t) \<Longrightarrow> queue_step s t"
| fails_unroutable: "fail_no_route i now s = Inr (r, t) \<Longrightarrow> queue_step s t"
| puts_back: "publication_tx row w (put_back E e now) s = Inr (r, t) \<Longrightarrow> queue_step s t"
| elsewhere: "db_outbox t = db_outbox s \<Longrightarrow> set (db_publications s) \<subseteq> set (db_publications t) \<Longrightarrow>
    db_clock s \<le> db_clock t \<Longrightarrow> queue_step s t"

text \<open>
  Any transaction on the queue by any worker, whatever row it holds, whatever it remembers as sent,
  planned or accepted, and whatever the relays answered.
\<close>

inductive outbox_step :: "db \<Rightarrow> db \<Rightarrow> bool" where
  queues: "queue_step s t \<Longrightarrow> outbox_step s t"
| prepares: "publication_tx row w (prepare_publication E N relays) s = Inr (r, t) \<Longrightarrow> outbox_step s t"
| records: "publication_tx row w (record_outcome E sd results) s = Inr (r, t) \<Longrightarrow> outbox_step s t"
| prepares_msg: "publication_tx row w (prepare_order_msg E q) s = Inr (r, t) \<Longrightarrow> outbox_step s t"
| records_msg: "publication_tx row w (finish_order_msg E q rs ss) s = Inr (r, t) \<Longrightarrow> outbox_step s t"

lemma moves_enqueue_order_msg [moves]: "outbox_moves (enqueue_order_msg E m k p n agg conv)"
  unfolding enqueue_order_msg_def Let_def author_of_def store_message_def
  by (intro moves moves_update)
    (auto intro!: moves_keeps keeps keeps_sql intent_moves intent_step.intros)

lemma publication_moves:
  assumes "publication_tx row w body s = Inr (r, t)" "\<And>x. outbox_moves (body x)"
  shows "table_moves x_id intent_step (db_outbox s) (db_outbox t)"
  using assms(1) by (cases rule: publication_cases) (auto dest: tx_movesD [OF assms(2)])

lemma queue_step_moves: "queue_step s t \<Longrightarrow> table_moves x_id intent_step (db_outbox s) (db_outbox t)"
  by (erule queue_step.cases) (auto dest: tx_movesD [OF moves_enqueue] tx_movesD [OF moves_enqueue_order_msg]
    tx_movesD [OF moves_claim_batch] tx_movesD [OF moves_recover] tx_movesD [OF moves_retry]
    tx_movesD [OF moves_fail_no_route] intro: publication_moves moves)

lemma outbox_step_moves:
  assumes "outbox_step s t"
  shows "table_moves x_id intent_step (db_outbox s) (db_outbox t)"
  using assms
proof cases
  case (prepares row w E N relays r)
  from prepares(1) show ?thesis
    by (cases rule: publication_cases) (auto intro: prepare_moves simp: claim_of_def)
qed (auto intro: queue_step_moves publication_moves moves)

lemma keeps_settle [keeps]:
  "(\<And>g s. f (db_outbox_update g s) = f s) \<Longrightarrow> tx_keeps f (settle row st now na e)"
  unfolding settle_def by (intro keeps)

lemma keeps_publication_tx [keeps]:
  "(\<And>r. tx_keeps f (body r)) \<Longrightarrow> tx_keeps f (publication_tx row w body)"
  unfolding publication_tx_def by (intro keeps)

lemma keeps_settle_as [keeps]:
  "(\<And>g s. f (db_outbox_update g s) = f s) \<Longrightarrow> tx_keeps f (settle_as row st now na e w)"
  unfolding settle_as_def by (intro keeps)

lemma keeps_published [keeps]:
  "(\<And>g s. f (db_outbox_update g s) = f s) \<Longrightarrow> (\<And>g s. f (db_merchants_update g s) = f s)
     \<Longrightarrow> tx_keeps f (published row now)"
  unfolding published_def by (intro keeps)

lemma keeps_no_targets [keeps]:
  "(\<And>g s. f (db_outbox_update g s) = f s) \<Longrightarrow> (\<And>g s. f (db_merchants_update g s) = f s)
     \<Longrightarrow> (\<And>g s. f (db_draws_update g s) = f s) \<Longrightarrow> tx_keeps f (no_targets E row now acc)"
  unfolding no_targets_def Let_def by (intro keeps)

lemma keeps_prepare_send [keeps]:
  "(\<And>g s. f (db_outbox_update g s) = f s) \<Longrightarrow> (\<And>g s. f (db_merchants_update g s) = f s)
     \<Longrightarrow> (\<And>g s. f (db_draws_update g s) = f s) \<Longrightarrow> tx_keeps f (prepare_send E N relays row now u)"
  unfolding prepare_send_def Let_def by (intro keeps keeps_sql)

lemma keeps_prepare_publication [keeps]:
  "(\<And>g s. f (db_outbox_update g s) = f s) \<Longrightarrow> (\<And>g s. f (db_merchants_update g s) = f s)
     \<Longrightarrow> (\<And>g s. f (db_draws_update g s) = f s) \<Longrightarrow> tx_keeps f (prepare_publication E N relays row)"
  unfolding prepare_publication_def by (intro keeps)

lemma keeps_retry_or_fail [keeps]:
  "(\<And>g s. f (db_outbox_update g s) = f s) \<Longrightarrow> (\<And>g s. f (db_draws_update g s) = f s)
     \<Longrightarrow> tx_keeps f (retry_or_fail E row st now)"
  unfolding retry_or_fail_def Let_def by (intro keeps)

lemma keeps_record_outcome [keeps]:
  "(\<And>g s. f (db_outbox_update g s) = f s) \<Longrightarrow> (\<And>g s. f (db_merchants_update g s) = f s)
     \<Longrightarrow> (\<And>g s. f (db_addresses_update g s) = f s) \<Longrightarrow> (\<And>g s. f (db_publications_update g s) = f s)
     \<Longrightarrow> (\<And>g s. f (db_draws_update g s) = f s) \<Longrightarrow> tx_keeps f (record_outcome E sd results row)"
  unfolding record_outcome_def by (intro keeps)

lemma keeps_order_msg_bodies [keeps]:
  assumes "\<And>g s. f (db_outbox_update g s) = f s" "\<And>g s. f (db_draws_update g s) = f s"
  shows "tx_keeps f (prepare_order_msg E q row)" "tx_keeps f (put_back E e now row)"
proof -
  show "tx_keeps f (prepare_order_msg E q row)"
    unfolding prepare_order_msg_def Let_def by (intro keeps assms)
  show "tx_keeps f (put_back E e now row)"
    unfolding put_back_def by (intro keeps assms)
qed

lemma keeps_finish_order_msg [keeps]:
  "(\<And>g s. f (db_outbox_update g s) = f s) \<Longrightarrow> (\<And>g s. f (db_publications_update g s) = f s)
     \<Longrightarrow> (\<And>g s. f (db_draws_update g s) = f s) \<Longrightarrow> tx_keeps f (finish_order_msg E q rs ss row)"
  unfolding finish_order_msg_def record_copy_def Let_def by (intro keeps)

lemma queue_keeps:
  assumes "\<And>g s. f (db_outbox_update g s) = f s" "\<And>g s. f (db_outbox_deps_update g s) = f s"
    "\<And>g s. f (db_messages_update g s) = f s" "\<And>g s. f (db_draws_update g s) = f s"
  shows "tx_keeps f (enqueue_intent E m ag ai kind rv addr deps)"
    "tx_keeps f (enqueue_order_msg E m k p n agg conv)" "tx_keeps f (claim_batch E now w limit)"
    "tx_keeps f (recover_stale_claims E now)" "tx_keeps f (retry_intent m i)" "tx_keeps f (fail_no_route i now)"
    "tx_keeps f (publication_tx row w (put_back E e now))"
  by (auto simp: fail_no_route_def intro!: keeps keeps_sql assms)

lemma publication_keeps:
  assumes "\<And>g s. f (db_outbox_update g s) = f s" "\<And>g s. f (db_merchants_update g s) = f s"
    "\<And>g s. f (db_addresses_update g s) = f s" "\<And>g s. f (db_draws_update g s) = f s"
  shows "tx_keeps f (publication_tx row w (prepare_publication E N relays))"
    "tx_keeps f (publication_tx row w (prepare_order_msg E q))"
    "(\<And>g s. f (db_publications_update g s) = f s) \<Longrightarrow> tx_keeps f (publication_tx row w (record_outcome E sd results))"
    "(\<And>g s. f (db_publications_update g s) = f s) \<Longrightarrow> tx_keeps f (publication_tx row w (finish_order_msg E q rs ss))"
  by (intro keeps assms; assumption?)+

lemma queue_step_clock: "queue_step s t \<Longrightarrow> db_clock s \<le> db_clock t"
  by (erule queue_step.cases) (simp_all add: queue_keeps [where f = db_clock, simplified, THEN tx_keepsD])

lemma outbox_step_clock: "outbox_step s t \<Longrightarrow> db_clock s \<le> db_clock t"
  by (erule outbox_step.cases)
    (simp_all add: publication_keeps [where f = db_clock, simplified, THEN tx_keepsD] queue_step_clock)

text \<open>Recorded attempts stay.\<close>

lemma queue_step_publications: "queue_step s t \<Longrightarrow> set (db_publications s) \<subseteq> set (db_publications t)"
  by (erule queue_step.cases) (simp_all add: queue_keeps [where f = db_publications, simplified, THEN tx_keepsD])

lemma grows_record_publications:
  "tx_inv (\<lambda>t. P \<subseteq> set (db_publications t)) (record_publications E i c ev n results now)"
proof -
  have new: "tx_inv (\<lambda>t. P \<subseteq> set (db_publications t)) (sql_insert db_publications_update ok row)" for ok row
    by (rule tx_invI) (auto simp: sql_Inr)
  show ?thesis
    unfolding record_publications_def
    by (intro tx_inv_for, clarsimp, intro tx_inv_bind new) (auto intro!: tx_invI simp: tx_Inr)
qed

lemma grows_keeps: "tx_keeps db_publications m \<Longrightarrow> tx_inv (\<lambda>t. P \<subseteq> set (db_publications t)) m"
  by (rule tx_invI) (metis tx_keepsD)

lemma grows_bodies:
  "tx_inv (\<lambda>t. P \<subseteq> set (db_publications t)) (record_outcome E sd results row)"
  "tx_inv (\<lambda>t. P \<subseteq> set (db_publications t)) (finish_order_msg E q rs ss row)"
  unfolding record_outcome_def finish_order_msg_def record_copy_def Let_def
  by (intro tx_inv_bind tx_inv_seq tx_inv_if tx_inv_option tx_inv_return grows_record_publications;
      (rule grows_keeps, intro keeps; simp)?)+

lemma outbox_step_publications: "outbox_step s t \<Longrightarrow> set (db_publications s) \<subseteq> set (db_publications t)"
proof (induction rule: outbox_step.induct)
  case (records row w E sd results s r t)
  then show ?case by (cases rule: publication_cases) (auto dest: tx_invD [OF grows_bodies(1) subset_refl])
next
  case (records_msg row w E q rs ss s r t)
  then show ?case by (cases rule: publication_cases) (auto dest: tx_invD [OF grows_bodies(2) subset_refl])
qed (simp_all add: publication_keeps(1,2) [where f = db_publications, simplified, THEN tx_keepsD]
  queue_step_publications)

lemma run_publications: "outbox_step\<^sup>*\<^sup>* s t \<Longrightarrow> set (db_publications s) \<subseteq> set (db_publications t)"
  by (induction rule: rtranclp_induct) (auto dest: outbox_step_publications)

section \<open>Three readings of the state machine\<close>

text \<open>Whose claim it is.\<close>

definition claim_epoch :: "outbox_event \<Rightarrow> int" where
  "claim_epoch x = 2 * x_claim_token x + (if x_state x = ObClaimed then 0 else 1)"

definition claim_terms :: "outbox_event \<Rightarrow> (string option \<times> int option) option" where
  "claim_terms x = (if x_state x = ObClaimed then Some (x_claimed_by x, x_claimed_until x) else None)"

definition publisher_owns :: "outbox_event \<Rightarrow> int \<Rightarrow> outbox_event \<Rightarrow> bool" where
  "publisher_owns h now x \<longleftrightarrow> x_state h = ObClaimed
     \<and> (case x_claimed_by h of None \<Rightarrow> False | Some worker \<Rightarrow> claim_of h worker now x)"

text \<open>Whether it is settled, and how.\<close>

definition final_epoch :: "outbox_event \<Rightarrow> int" where
  "final_epoch x = (if x_state x \<in> {ObPublished, ObSuperseded} then 1 else 0)"

definition final_state :: "outbox_event \<Rightarrow> outbox_state option" where
  "final_state x = (if x_state x \<in> {ObPublished, ObSuperseded} then Some (x_state x) else None)"

text \<open>What it is about, and the last timestamp signed for it.\<close>

definition subject :: "outbox_event \<Rightarrow> id \<times> string \<times> id \<times> int \<times> int \<times> string option" where
  "subject x = (x_merchant_id x, x_aggregate_type x, x_aggregate_id x, x_aggregate_revision x,
     x_event_kind x, x_event_address x)"

definition same_subject :: "outbox_event \<Rightarrow> outbox_event \<Rightarrow> bool" where
  "same_subject x y \<longleftrightarrow> subject y = subject x \<and> x_last_signed_at x \<le> x_last_signed_at y"

lemma claim_view: "intent_step x y \<Longrightarrow> moved_on claim_epoch claim_terms x y"
  by (auto elim!: intent_step.cases simp: moved_on_def claim_epoch_def claim_terms_def claim_row_def
      ob_live_def no_route_stuck_def)

lemma final_view: "intent_step x y \<Longrightarrow> moved_on final_epoch final_state x y"
  by (auto elim!: intent_step.cases simp: moved_on_def final_epoch_def final_state_def claim_row_def
      ob_live_def no_route_stuck_def)

lemma subject_view: "intent_step x y \<Longrightarrow> same_subject x y"
  by (auto elim!: intent_step.cases simp: same_subject_def subject_def claim_row_def)

interpretation claims: fencing db_outbox x_id claim_epoch claim_terms db_clock outbox_step publisher_owns
proof unfold_locales
  show "table_advances x_id claim_epoch claim_terms (db_outbox s) (db_outbox t)" if "outbox_step s t" for s t
    using outbox_step_moves [OF that] claim_view by (rule table_moves_mono)
qed (auto simp: outbox_step_clock publisher_owns_def claim_of_def claim_epoch_def claim_terms_def
  split: if_splits option.splits | presburger)+

interpretation finals: fencing db_outbox x_id final_epoch final_state db_clock outbox_step "\<lambda>_ _ _. False"
proof unfold_locales
  show "table_advances x_id final_epoch final_state (db_outbox s) (db_outbox t)" if "outbox_step s t" for s t
    using outbox_step_moves [OF that] final_view by (rule table_moves_mono)
qed (auto simp: outbox_step_clock)

lemma run_subject:
  assumes "outbox_step\<^sup>*\<^sup>* s t" "outbox_ok s" "x \<in> set (db_outbox s)"
  obtains y where "y \<in> set (db_outbox t)" "x_id y = x_id x" "same_subject x y"
proof -
  have "table_moves x_id same_subject (db_outbox s) (db_outbox t)"
    using assms(1)
    by induction (auto intro: table_moves_trans table_moves_mono [OF outbox_step_moves subject_view])
  moreover have "same_subject\<^sup>*\<^sup>* = same_subject"
  proof (intro ext iffI)
    show "same_subject a b" if "same_subject\<^sup>*\<^sup>* a b" for a b
      using that by induction (auto simp: same_subject_def)
  qed (rule r_into_rtranclp)
  ultimately show ?thesis
    using assms(2,3) that by (auto simp: table_moves_def outbox_ok_def)
qed

lemma run_outbox_ok: "outbox_step\<^sup>*\<^sup>* s t \<Longrightarrow> outbox_ok s \<Longrightarrow> outbox_ok t"
  using claims.run_distinct by (simp add: outbox_ok_def)

end
