(* ===== verification/PublisherLaws.thy ===== *)
theory PublisherLaws
  imports OutboxSteps OutboxLaws
begin

text \<open>
  What the publisher guarantees over any interleaving of workers, producers and relay answers:
  evidence behind every published intent, finality, fencing, order of dependencies, and
  timestamps that only grow.
\<close>

section \<open>Evidence\<close>

definition proven :: "outbox_event \<Rightarrow> db \<Rightarrow> bool" where
  "proven x s \<longleftrightarrow> (if is_msg x
     then copy_evidence (x_id x) CopyRecipient s \<and> copy_evidence (x_id x) CopySender s
     else evidence (x_id x) s)"

definition published_ok :: "db \<Rightarrow> bool" where
  "published_ok s \<longleftrightarrow> outbox_ok s
     \<and> (\<forall>x \<in> set (db_outbox s). x_state x = ObPublished \<longrightarrow> proven x s)"

definition queue_view :: "db \<Rightarrow> outbox_event list \<times> relay_publication list" where
  "queue_view s = (db_outbox s, db_publications s)"

lemma published_ok_view: "queue_view t = queue_view s \<Longrightarrow> published_ok t = published_ok s"
  by (simp add: queue_view_def published_ok_def outbox_ok_def proven_def evidence_def copy_evidence_def)

lemma inv_keeps: "tx_keeps queue_view m \<Longrightarrow> tx_inv published_ok m"
  by (rule tx_invI) (metis published_ok_view tx_keepsD)

lemma inv_update:
  assumes "\<And>x. P x \<Longrightarrow> x_id (f x) = x_id x \<and> x_aggregate_type (f x) = x_aggregate_type x
    \<and> (x_state (f x) = ObPublished \<longrightarrow> x_state x = ObPublished)"
  shows "tx_inv published_ok (sql_update db_outbox db_outbox_update ok P f)"
proof (rule tx_invI)
  fix s n t
  assume I: "published_ok s" and "sql_update db_outbox db_outbox_update ok P f s = Inr (n, t)"
  then have t: "t = db_outbox_update (upd_rows P f) s" by (auto simp: sql_Inr)
  have "map x_id (upd_rows P f (db_outbox s)) = map x_id (db_outbox s)"
    using assms by (intro map_upd_rows) blast
  moreover have "proven y t" if "y \<in> set (upd_rows P f (db_outbox s))" "x_state y = ObPublished" for y
  proof -
    from that(1) obtain x where x: "x \<in> set (db_outbox s)" "y = (if P x then f x else x)"
      by (auto simp: set_upd_rows)
    then have "x_id y = x_id x" "is_msg y = is_msg x" "x_state x = ObPublished"
      using assms [of x] that(2) by (auto simp: is_msg_def split: if_splits)
    with I x(1) show ?thesis
      by (auto simp: published_ok_def proven_def evidence_def copy_evidence_def t)
  qed
  ultimately show "published_ok t"
    using I by (auto simp: published_ok_def outbox_ok_def t)
qed

lemma inv_insert:
  assumes "x_state row \<noteq> ObPublished"
  shows "tx_inv published_ok (sql_insert db_outbox_update outbox_ok row)"
  using assms
  by (intro tx_invI) (auto simp: sql_Inr published_ok_def proven_def evidence_def copy_evidence_def)

lemma evidence_mono:
  assumes "set (db_publications s) \<subseteq> set (db_publications t)"
  shows "evidence i s \<Longrightarrow> evidence i t" "copy_evidence i c s \<Longrightarrow> copy_evidence i c t" "proven x s \<Longrightarrow> proven x t"
proof -
  show "evidence i s \<Longrightarrow> evidence i t" for i using assms unfolding evidence_def by blast
  show "copy_evidence i c s \<Longrightarrow> copy_evidence i c t" for i c using assms unfolding copy_evidence_def by blast
  then show "proven x s \<Longrightarrow> proven x t"
    using \<open>\<And>i. evidence i s \<Longrightarrow> evidence i t\<close> unfolding proven_def by (auto split: if_splits)
qed

lemma more_evidence:
  assumes "published_ok s" "db_outbox t = db_outbox s" "set (db_publications s) \<subseteq> set (db_publications t)"
  shows "published_ok t"
  using assms(1,2) evidence_mono(3) [OF assms(3)] by (simp add: published_ok_def outbox_ok_def)

lemma tx_inv_branch: "(b \<Longrightarrow> tx_inv I m) \<Longrightarrow> (\<not> b \<Longrightarrow> tx_inv I k) \<Longrightarrow> tx_inv I (if b then m else k)"
  by simp

lemmas inv_rules = tx_inv_return tx_inv_bind tx_inv_seq tx_inv_ignore tx_inv_when tx_inv_branch
  tx_inv_option tx_inv_for

lemma queue_view_other [simp]:
  "queue_view (db_merchants_update g1 s) = queue_view s"
  "queue_view (db_addresses_update g2 s) = queue_view s"
  "queue_view (db_draws_update g3 s) = queue_view s"
  "queue_view (db_messages_update g4 s) = queue_view s"
  "queue_view (db_outbox_deps_update g5 s) = queue_view s"
  by (simp_all add: queue_view_def)

lemma inv_enqueue: "tx_inv published_ok (enqueue_intent E m ag ai kind rv addr deps)"
proof -
  have sup: "tx_inv published_ok (supersede_older ag ai rv t)" for t
    unfolding supersede_older_def by (rule inv_update) simp
  have new: "tx_inv published_ok (sql_insert db_outbox_update outbox_ok (new_intent i m ag ai kind rv addr t))" for i t
    by (rule inv_insert) (simp add: new_intent_def)
  show ?thesis
    unfolding enqueue_intent_def
    by (intro inv_rules sup new) (auto intro!: inv_keeps keeps)
qed

lemma inv_enqueue_order_msg: "tx_inv published_ok (enqueue_order_msg E m k p n agg conv)"
  unfolding enqueue_order_msg_def Let_def author_of_def store_message_def
  by (intro inv_rules inv_enqueue inv_update) (auto intro!: inv_keeps keeps keeps_sql split: option.split)

lemma inv_claim_batch: "tx_inv published_ok (claim_batch E now w limit)"
  unfolding claim_batch_def claim_one_def
  by (intro inv_rules tx_inv_fold inv_update) (auto intro!: inv_keeps keeps simp: claim_row_def)

lemma inv_recover: "tx_inv published_ok (recover_stale_claims E now)"
  unfolding recover_stale_claims_def recover_one_def
  by (intro inv_rules tx_inv_fold inv_update) (auto intro!: inv_keeps keeps)

lemma inv_retry: "tx_inv published_ok (retry_intent m i)"
  unfolding retry_intent_def by (intro inv_rules inv_update) (auto intro!: inv_keeps keeps)

lemma inv_fail_no_route: "tx_inv published_ok (fail_no_route i now)"
  unfolding fail_no_route_def by (intro inv_rules inv_update) simp

lemma inv_settle: "st \<noteq> ObPublished \<Longrightarrow> tx_inv published_ok (settle row st now na e)"
  unfolding settle_def cas_state_def by (intro inv_rules inv_update) (auto intro!: inv_keeps keeps)

lemma inv_settle_as: "st \<noteq> ObPublished \<Longrightarrow> tx_inv published_ok (settle_as row st now na e w)"
  unfolding settle_as_def by (intro inv_rules inv_settle)

lemma inv_put_back: "tx_inv published_ok (put_back E e now row)"
  unfolding put_back_def by (intro inv_rules inv_settle) (auto intro!: inv_keeps keeps)

lemma inv_retry_or_fail: "st \<noteq> ObPublished \<Longrightarrow> tx_inv published_ok (retry_or_fail E row st now)"
  unfolding retry_or_fail_def Let_def by (intro inv_rules inv_settle) (auto intro!: inv_keeps keeps)

text \<open>The one write that publishes: it keeps the invariant where the evidence is in the table.\<close>

lemma settle_published:
  assumes I: "published_ok s" and row: "row \<in> set (db_outbox s)" and ev: "proven row s"
    and run: "settle row ObPublished now na e s = Inr (u, t)"
  shows "published_ok t"
proof -
  let ?f = "\<lambda>x. x\<lparr>x_state := ObPublished, x_attempts := x_attempts row + 1,
    x_next_attempt_at := (case na of None \<Rightarrow> 0 | Some t \<Rightarrow> t), x_last_error := e, x_updated_at := now\<rparr>"
  have t: "t = db_outbox_update (upd_rows (holds_claim row (db_clock s)) ?f) s"
    using run by (auto simp: settle_def cas_state_def tx_Inr sql_Inr)
  have "map x_id (upd_rows (holds_claim row (db_clock s)) ?f (db_outbox s)) = map x_id (db_outbox s)"
    by (rule map_upd_rows) simp
  moreover have "proven y t" if "y \<in> set (upd_rows (holds_claim row (db_clock s)) ?f (db_outbox s))"
      "x_state y = ObPublished" for y
  proof -
    from that(1) obtain x where x: "x \<in> set (db_outbox s)"
        "y = (if holds_claim row (db_clock s) x then ?f x else x)"
      by (auto simp: set_upd_rows)
    have "proven x s"
    proof (cases "holds_claim row (db_clock s) x")
      case True
      then have "x = row"
        using I row x(1) by (auto simp: published_ok_def outbox_ok_def holds_claim_def dest: distinct_key_eq)
      with ev show ?thesis by simp
    next
      case False
      with I x that(2) show ?thesis by (auto simp: published_ok_def)
    qed
    with x(2) show ?thesis
      by (auto simp: proven_def evidence_def copy_evidence_def is_msg_def t split: if_splits)
  qed
  ultimately show ?thesis using I by (auto simp: published_ok_def outbox_ok_def t)
qed


section \<open>The publishing transactions\<close>

lemma record_publications_run:
  "record_publications E i c ev n results now s = Inr (u, t) \<Longrightarrow>
     db_outbox t = db_outbox s \<and> set (db_publications s) \<subseteq> set (db_publications t)
     \<and> (any_accepted results \<longrightarrow> copy_evidence i c t)"
proof (induction results arbitrary: s)
  case Nil
  then show ?case by (simp add: record_publications_def any_accepted_def)
next
  case (Cons r results)
  obtain url res msg where r: "r = (url, res, msg)" by (cases r)
  let ?row = "\<lparr>rp_id = uuid4 E (db_draws s), rp_outbox_event_id = i, rp_delivery_copy = c, rp_relay_url = url,
            rp_event_id = ev, rp_attempt_no = n, rp_result = res,
            rp_message = take_chars 512 msg, rp_attempted_at = now\<rparr>"
  let ?s = "db_publications_update (\<lambda>rows. rows @ [?row]) (db_draws_update Suc s)"
  have "record_publications E i c ev n results now ?s = Inr (u, t)"
    using Cons.prems by (auto simp: record_publications_def r tx_Inr sql_Inr)
  from Cons.IH [OF this] show ?case
    by (auto simp: any_accepted_def copy_evidence_def r intro: bexI [of _ ?row])
qed

lemma copy_evidence_evidence: "copy_evidence i c s \<Longrightarrow> evidence i s"
  by (auto simp: evidence_def copy_evidence_def)

lemma published_keeps:
  assumes I: "published_ok s" "row \<in> set (db_outbox s)" "proven row s"
    and run: "published row now s = Inr (u, t)"
  shows "published_ok t"
proof -
  obtain v w where "settle row ObPublished now None None s = Inr (v, w)"
    and rest: "tx_seq (maybe_activate_merchant row) (maybe_update_inbox_state row ''published'') w = Inr (u, t)"
    using run by (auto simp: published_def tx_Inr)
  then have "published_ok w" using I by (blast intro: settle_published)
  moreover have "tx_inv published_ok (tx_seq (maybe_activate_merchant row) (maybe_update_inbox_state row ''published''))"
    by (intro inv_rules inv_keeps keeps) simp_all
  ultimately show ?thesis using rest by (blast dest: tx_invD)
qed

lemma inv_no_targets:
  assumes I: "published_ok s" "row \<in> set (db_outbox s)" "\<not> is_msg row"
    and acc: "accepted_targets (x_id row) None s = Inr (acc, s')" and run: "no_targets E row now acc s = Inr (p, t)"
  shows "published_ok t"
proof (cases "acc = []")
  case True
  have "tx_inv published_ok (no_targets E row now acc)"
    unfolding no_targets_def Let_def True
    by (simp, intro conjI impI inv_rules inv_settle_as inv_settle) (auto intro!: inv_keeps keeps)
  with I(1) run show ?thesis by (blast dest: tx_invD)
next
  case False
  then have "evidence (x_id row) s"
    using acc by (auto simp: accepted_targets_def tx_Inr evidence_def filter_empty_conv)
  with False I run show ?thesis
    by (auto simp: no_targets_def tx_Inr proven_def intro: published_keeps)
qed

lemma inv_prepare:
  assumes run: "prepare_publication E N relays row s = Inr (p, t)"
    and I: "published_ok s" "row \<in> set (db_outbox s)" "\<not> is_msg row"
  shows "published_ok t"
  using run
proof (cases rule: prepare_cases)
  case (1 st na w)
  with I(1) inv_settle_as [OF 1(2)] show ?thesis by (blast dest: tx_invD)
next
  case (2 u)
  show ?thesis
  proof (cases p)
    case (Settled w)
    have "tx_inv published_ok (settle_as row ObPending (db_clock s) na None ''clock_skew'')" for na
      by (rule inv_settle_as) simp
    then show ?thesis
      using prepare_send_settled [OF 2(4) [unfolded Settled]] I inv_no_targets [OF I]
      by (auto dest: tx_invD)
  next
    case (Sending sd)
    have "tx_inv published_ok (sql_update db_outbox db_outbox_update outbox_ok (\<lambda>x. x_id x = x_id row)
       (\<lambda>x. x\<lparr>x_last_signed_at := sd_created_at sd\<rparr>))"
      by (rule inv_update) simp
    with prepare_send_signed(7) [OF 2(4) [unfolded Sending]] I(1) show ?thesis by (blast dest: tx_invD)
  qed
qed

lemma inv_record_outcome:
  assumes run: "record_outcome E sd results row s = Inr (w, t)"
    and I: "published_ok s" "row \<in> set (db_outbox s)" "\<not> is_msg row"
    and sd: "sd_accepted sd \<noteq> [] \<Longrightarrow> evidence (x_id row) s"
  shows "published_ok t"
proof -
  obtain s1 where rec: "record_publications E (x_id row) CopyPublic (sd_event_id sd) (x_attempts row + 1)
      results (db_clock s) s = Inr ((), s1)"
    and rest: "(if any_accepted results \<or> sd_accepted sd \<noteq> [] then
          tx_seq (tx_when (any_accepted results \<and> truthy (x_event_address row) \<and> x_event_kind row \<noteq> 5)
             (record_address E row (sd_event_id sd) (sd_created_at sd)))
         (tx_seq (published row (db_clock s)) (tx_return ''published''))
        else
          tx_bind (retry_or_fail E row (if any_accepted results then ObPartiallyPublished else ObPending) (db_clock s))
            (\<lambda>st. tx_seq (maybe_update_inbox_state row (outbox_name st)) (tx_return (outbox_name st)))) s1 = Inr (w, t)"
    using run by (auto simp: record_outcome_def tx_bind_Inr tx_seq_Inr)
  note R = record_publications_run [OF rec]
  have I1: "published_ok s1" using R I(1) by (blast intro: more_evidence)
  show ?thesis
  proof (cases "any_accepted results \<or> sd_accepted sd \<noteq> []")
    case True
    then obtain u s2 where s2: "tx_when (any_accepted results \<and> truthy (x_event_address row) \<and> x_event_kind row \<noteq> 5)
             (record_address E row (sd_event_id sd) (sd_created_at sd)) s1 = Inr (u, s2)"
      and pub: "\<exists>v. published row (db_clock s) s2 = Inr (v, t)"
      using rest by (auto simp: tx_seq_Inr)
    have "tx_keeps queue_view (tx_when (any_accepted results \<and> truthy (x_event_address row) \<and> x_event_kind row \<noteq> 5)
             (record_address E row (sd_event_id sd) (sd_created_at sd)))"
      by (intro keeps) simp_all
    from tx_keepsD [OF this s2] have view: "queue_view s2 = queue_view s1" .
    have "evidence (x_id row) s1"
      using True R sd evidence_mono(1) copy_evidence_evidence by blast
    then have "proven row s2" "published_ok s2" "row \<in> set (db_outbox s2)"
      using view I I1 R published_ok_view [OF view]
      by (simp_all add: proven_def evidence_def queue_view_def)
    with pub show ?thesis by (blast intro: published_keeps)
  next
    case False
    have "tx_inv published_ok (tx_bind (retry_or_fail E row ObPending (db_clock s))
            (\<lambda>st. tx_seq (maybe_update_inbox_state row (outbox_name st)) (tx_return (outbox_name st))))"
      by (intro inv_rules inv_retry_or_fail) (auto intro!: inv_keeps keeps)
    with False I1 rest show ?thesis by (auto dest: tx_invD)
  qed
qed


lemma inv_settled_msg: "st \<noteq> ObPublished \<Longrightarrow> tx_inv published_ok (tx_seq (settle row st now na e) (tx_return w))"
  by (intro inv_rules inv_settle)

lemma inv_prepare_order_msg:
  assumes run: "prepare_order_msg E q row s = Inr (w, t)"
    and I: "published_ok s" "row \<in> set (db_outbox s)"
    and q: "mq_recipient_accepted q \<noteq> [] \<Longrightarrow> copy_evidence (x_id row) CopyRecipient s"
      "mq_sender_accepted q \<noteq> [] \<Longrightarrow> copy_evidence (x_id row) CopySender s"
  shows "published_ok t"
proof (cases "mq_recipient_accepted q \<noteq> [] \<and> mq_sender_accepted q \<noteq> []")
  case True
  then have "proven row s" using q copy_evidence_evidence by (auto simp: proven_def)
  note pub = settle_published [OF I this]
  have other: "published_ok t" if "settle row st now na e s = Inr (u, t)" "st \<noteq> ObPublished" for st now na e u
    using that I(1) by (blast dest: tx_invD [OF inv_settle])
  show ?thesis
    using run True I(1)
    by (auto simp: prepare_order_msg_def tx_Inr deps_published_def split: if_splits intro: pub other)
next
  case False
  have "tx_inv published_ok (prepare_order_msg E q row)"
    unfolding prepare_order_msg_def Let_def
    by (intro inv_rules) (use False in \<open>auto intro!: inv_settle inv_keeps [OF keeps_backoff]
      inv_keeps [OF keeps_deps_published] inv_keeps [OF tx_keeps_get]\<close>)
  with run I(1) show ?thesis by (blast dest: tx_invD)
qed

lemma two_then:
  "tx_bind tx_now (\<lambda>now. tx_seq (a now) (tx_seq (b now) (k now))) s = Inr (w, t) \<Longrightarrow>
     \<exists>s1 s2. a (db_clock s) s = Inr ((), s1) \<and> b (db_clock s) s1 = Inr ((), s2) \<and> k (db_clock s) s2 = Inr (w, t)"
  by (auto simp: tx_Inr)

lemma inv_finish_order_msg:
  assumes run: "finish_order_msg E q rs ss row s = Inr (w, t)"
    and I: "published_ok s" "row \<in> set (db_outbox s)"
    and q: "mq_recipient_accepted q \<noteq> [] \<Longrightarrow> copy_evidence (x_id row) CopyRecipient s"
      "mq_sender_accepted q \<noteq> [] \<Longrightarrow> copy_evidence (x_id row) CopySender s"
  shows "published_ok t"
proof -
  let ?rec_ok = "mq_recipient_accepted q \<noteq> [] \<or> mq_recipient_wrap q \<noteq> None \<and> any_accepted rs"
  let ?sen_ok = "mq_sender_accepted q \<noteq> [] \<or> mq_sender_wrap q \<noteq> None \<and> any_accepted ss"
  obtain s1 s2 where r1: "record_copy E row CopyRecipient (mq_recipient_wrap q) rs (db_clock s) s = Inr ((), s1)"
    and r2: "record_copy E row CopySender (mq_sender_wrap q) ss (db_clock s) s1 = Inr ((), s2)"
    and rest: "(if ?rec_ok \<and> ?sen_ok
           then tx_seq (settle row ObPublished (db_clock s) None None) (tx_return ''published'')
           else tx_bind (retry_or_fail E row (if ?rec_ok \<or> ?sen_ok then ObPartiallyPublished else ObPending) (db_clock s))
             (\<lambda>st. tx_return (outbox_name st))) s2 = Inr (w, t)"
    using two_then [OF run [unfolded finish_order_msg_def Let_def]] by blast
  have copy: "db_outbox s2 = db_outbox s1 \<and> set (db_publications s1) \<subseteq> set (db_publications s2)
     \<and> (wrap \<noteq> None \<and> any_accepted rs \<longrightarrow> copy_evidence (x_id row) c s2)"
    if "record_copy E row c wrap rs now s1 = Inr ((), s2)" for c wrap rs now s1 s2
    using that by (cases wrap) (auto simp: record_copy_def dest: record_publications_run)
  note R1 = copy [OF r1] and R2 = copy [OF r2]
  have I2: "published_ok s2" "row \<in> set (db_outbox s2)"
    using R1 R2 I by (auto intro: more_evidence)
  show ?thesis
  proof (cases "?rec_ok \<and> ?sen_ok")
    case True
    have "copy_evidence (x_id row) CopyRecipient s2" "copy_evidence (x_id row) CopySender s2"
      using True q R1 R2 evidence_mono(2) by blast+
    then have "proven row s2" using copy_evidence_evidence by (auto simp: proven_def)
    with I2 rest True show ?thesis by (auto simp: tx_Inr intro: settle_published)
  next
    case False
    have "tx_inv published_ok (tx_bind (retry_or_fail E row (if ?rec_ok \<or> ?sen_ok then ObPartiallyPublished else ObPending) (db_clock s))
             (\<lambda>st. tx_return (outbox_name st)))"
      by (intro inv_rules inv_retry_or_fail) simp
    with False I2 rest show ?thesis by (auto dest: tx_invD)
  qed
qed

lemma published_ok_queue: "queue_step s t \<Longrightarrow> published_ok s \<Longrightarrow> published_ok t"
proof (induction rule: queue_step.induct)
  case (puts_back row w E e now s r t)
  from puts_back(1) show ?case
    by (cases rule: publication_cases) (use puts_back in \<open>auto dest: tx_invD [OF inv_put_back]\<close>)
next
  case (elsewhere t s)
  then show ?case by (blast intro: more_evidence)
qed (auto dest: tx_invD [OF inv_enqueue] tx_invD [OF inv_enqueue_order_msg] tx_invD [OF inv_claim_batch]
  tx_invD [OF inv_recover] tx_invD [OF inv_retry] tx_invD [OF inv_fail_no_route])

section \<open>What the publisher does with the queue\<close>

text \<open>A row as some earlier claim returned it.\<close>

definition seen_intent :: "outbox_event \<Rightarrow> db \<Rightarrow> bool" where
  "seen_intent row s \<longleftrightarrow> (\<exists>u. outbox_ok u \<and> row \<in> set (db_outbox u) \<and> outbox_step\<^sup>*\<^sup>* u s)"

text \<open>
  The transactions of \<open>publish_public\<close> and \<open>publish_order_msg\<close>, with what they remember between
  them: the row from its claim, whose type says which of the two runs; what an earlier preparation of
  that row returned; and a plan, whose reads may lie at different earlier moments, so that it is a plan
  over some database with no attempts that are not in the table by now.
\<close>

inductive publisher_step :: "db \<Rightarrow> db \<Rightarrow> bool" where
  queue_moves: "queue_step s t \<Longrightarrow> publisher_step s t"
| prepares_event: "seen_intent row s \<Longrightarrow> x_aggregate_type row \<noteq> ''order_msg'' \<Longrightarrow>
    publication_tx row w (prepare_publication E N relays) s = Inr (r, t) \<Longrightarrow> publisher_step s t"
| records_event: "seen_intent row s \<Longrightarrow> x_aggregate_type row \<noteq> ''order_msg'' \<Longrightarrow>
    publication_tx row w (prepare_publication E N relays) u = Inr (Some (Sending sd), u') \<Longrightarrow>
    outbox_step\<^sup>*\<^sup>* u' s \<Longrightarrow>
    publication_tx row w (record_outcome E sd results) s = Inr (r, t) \<Longrightarrow> publisher_step s t"
| prepares_copies: "fst (plan_order_msg E N row u) = Inr q \<Longrightarrow>
    set (db_publications u) \<subseteq> set (db_publications s) \<Longrightarrow>
    publication_tx row w (prepare_order_msg E q) s = Inr (r, t) \<Longrightarrow> publisher_step s t"
| records_copies: "fst (plan_order_msg E N row u) = Inr q \<Longrightarrow>
    set (db_publications u) \<subseteq> set (db_publications s) \<Longrightarrow>
    publication_tx row w (finish_order_msg E q rs ss) s = Inr (r, t) \<Longrightarrow> publisher_step s t"

lemma publisher_step_outbox: "publisher_step s t \<Longrightarrow> outbox_step s t"
  by (induction rule: publisher_step.induct) (blast intro: outbox_step.intros)+

lemma publisher_run_outbox: "publisher_step\<^sup>*\<^sup>* s t \<Longrightarrow> outbox_step\<^sup>*\<^sup>* s t"
  by (rule mono_rtranclp [rule_format, of publisher_step outbox_step]) (rule publisher_step_outbox)

text \<open>Where the remembered acceptances come from.\<close>

lemma sending_run:
  assumes "publication_tx row w (prepare_publication E N relays) s = Inr (Some (Sending sd), t)"
  obtains r u where "r \<in> set (db_outbox s)" "x_id r = x_id row" "claim_of row w (db_clock s) r"
    "deps_published (x_id r) s = Inr (True, s)" "newer_live_exists r s = Inr (False, s)"
    "render_intent E r s = Inr (Some u)" "prepare_send E N relays r (db_clock s) u s = Inr (Sending sd, t)"
  using assms
proof (cases rule: publication_cases)
  case (2 r b)
  from 2(4) show ?thesis
  proof (cases rule: prepare_cases)
    case (1 st na v)
    with 2(1) show ?thesis by (auto simp: settle_as_def tx_Inr)
  next
    case p: (2 u)
    with 2 that show ?thesis by (auto simp: claim_of_def)
  qed
qed simp

lemma seen_type:
  assumes "seen_intent row s" "x \<in> set (db_outbox s)" "x_id x = x_id row"
  shows "is_msg x \<longleftrightarrow> x_aggregate_type row = ''order_msg''"
proof -
  obtain u where u: "outbox_ok u" "row \<in> set (db_outbox u)" "outbox_step\<^sup>*\<^sup>* u s"
    using assms(1) by (auto simp: seen_intent_def)
  obtain y where y: "y \<in> set (db_outbox s)" "x_id y = x_id row" "same_subject row y"
    using run_subject [OF u(3,1,2)] .
  have "y = x"
    using run_outbox_ok [OF u(3,1)] y(1,2) assms(2,3) by (auto simp: outbox_ok_def dest: distinct_key_eq)
  with y(3) show ?thesis by (simp add: is_msg_def same_subject_def subject_def)
qed

lemma sending_evidence:
  assumes prep: "publication_tx row w (prepare_publication E N relays) u = Inr (Some (Sending sd), u')"
    and run: "outbox_step\<^sup>*\<^sup>* u' s" and some: "sd_accepted sd \<noteq> []"
  shows "evidence (x_id row) s"
proof -
  obtain r v where r: "x_id r = x_id row" "prepare_send E N relays r (db_clock u) v u = Inr (Sending sd, u')"
    using prep by (rule sending_run) blast
  have "evidence (x_id row) u"
    using prepare_send_signed(6) [OF r(2)] some r(1) by (auto simp: evidence_def simp flip: set_empty)
  moreover have "set (db_publications u) \<subseteq> set (db_publications s)"
    using outbox_step_publications [OF prepares [OF prep]] run_publications [OF run] by (rule subset_trans)
  ultimately show ?thesis using evidence_mono(1) by blast
qed

lemma accepted_copy_evidence: "accepted_copy i c u \<noteq> [] \<Longrightarrow> copy_evidence i c u"
  by (auto simp: accepted_copy_def copy_evidence_def filter_empty_conv)

lemma routes_keep_publications: "pr_inv (\<lambda>s. db_publications s = v) (resolve_buyer_inbox_relays E N m buyer)"
  unfolding resolve_buyer_inbox_relays_def store_routes_def drop_routes_def Let_def
  by (intro pr_invs tx_keeps_inv keeps keeps_sql) simp_all

lemma plan_reads:
  assumes "fst (plan_order_msg E N row u) = Inr q"
  obtains v where "db_publications v = db_publications u"
    "mq_recipient_accepted q = accepted_copy (x_id row) CopyRecipient v"
    "mq_sender_accepted q = accepted_copy (x_id row) CopySender v"
proof -
  let ?routes = "\<lambda>descriptor. case descriptor of
        None \<Rightarrow> pr_return (None, [], '''', '''')
      | Some j \<Rightarrow>
          pr_bind (pr_lift (required_str ''recipient_pubkey'' j)) (\<lambda>recipient.
          pr_bind (pr_lift (required_str ''author_pubkey'' j)) (\<lambda>author.
          pr_bind (resolve_buyer_inbox_relays E N (x_merchant_id row) recipient) (\<lambda>routes.
          pr_bind (pr_get (relay_targets (x_merchant_id row) ''inbox'')) (\<lambda>own.
          pr_return (routes, own, recipient, author)))))"
  let ?k = "\<lambda>descriptor (routes, own, recipient, author).
     pr_bind (pr_get (accepted_copy (x_id row) CopyRecipient)) (\<lambda>rec_acc.
     pr_bind (pr_get (accepted_copy (x_id row) CopySender)) (\<lambda>sen_acc.
     (let rec_targets = (case routes of None \<Rightarrow> [] | Some urls \<Rightarrow> filter (\<lambda>u. u \<notin> set rec_acc) urls);
          sen_targets = filter (\<lambda>u. u \<notin> set sen_acc) own
      in pr_bind (pr_lift (case descriptor of
            None \<Rightarrow> Inr None
          | Some j \<Rightarrow> try_bind (rumor_of_json E j) (\<lambda>r. Inr (Some r)))) (\<lambda>rumor.
         pr_bind (pr_lift (wrap_if N (x_merchant_id row) rec_targets rumor recipient)) (\<lambda>rec_wrap.
         pr_bind (pr_lift (wrap_if N (x_merchant_id row) sen_targets rumor author)) (\<lambda>sen_wrap.
         pr_return \<lparr>mq_descriptor = (descriptor \<noteq> None), mq_no_route = (routes = None),
           mq_recipient_accepted = rec_acc, mq_sender_accepted = sen_acc,
           mq_recipient_targets = rec_targets, mq_sender_targets = sen_targets,
           mq_recipient_wrap = rec_wrap, mq_sender_wrap = sen_wrap\<rparr>)))))) :: (db, msg_plan) proc"
  obtain t where "plan_order_msg E N row u = (Inr q, t)"
    using assms by (cases "plan_order_msg E N row u") auto
  from this [unfolded plan_order_msg_def pr_bind_Inr [of "case x_payload_enc row of None \<Rightarrow> _ | Some enc \<Rightarrow> _ enc"]]
  obtain d u1 where d: "(case x_payload_enc row of None \<Rightarrow> pr_return None
      | Some enc \<Rightarrow> pr_bind (pr_lift (stored_descriptor E row enc)) (\<lambda>j. pr_return (Some j))) u = (Inr d, u1)"
    and rest: "pr_bind (?routes d) (?k d) u1 = (Inr q, t)"
    by (elim exE conjE) (rule that)
  have u1: "u1 = u" using d by (auto simp: pr_Inr pr_lift_def split: option.splits sum.splits)
  obtain a v where a: "?routes d u = (Inr a, v)" and k: "?k d a v = (Inr q, t)"
    using rest u1 by (auto simp only: pr_bind_Inr)
  have "mq_recipient_accepted q = accepted_copy (x_id row) CopyRecipient v"
      "mq_sender_accepted q = accepted_copy (x_id row) CopySender v"
    using k by (cases a; auto simp: pr_Inr Let_def pr_lift_def split: sum.splits)+
  moreover have "pr_inv (\<lambda>s. db_publications s = db_publications u) (?routes d)"
    by (auto intro!: pr_invs routes_keep_publications simp: pr_lift_def split: option.split sum.split)
  then have "db_publications v = db_publications u" using a by (auto dest: pr_invD [of _ _ u])
  ultimately show ?thesis using that by blast
qed

lemma plan_evidence:
  assumes plan: "fst (plan_order_msg E N row u) = Inr q" and more: "set (db_publications u) \<subseteq> set (db_publications s)"
  shows "mq_recipient_accepted q \<noteq> [] \<Longrightarrow> copy_evidence (x_id row) CopyRecipient s"
    "mq_sender_accepted q \<noteq> [] \<Longrightarrow> copy_evidence (x_id row) CopySender s"
proof -
  obtain v where v: "db_publications v = db_publications u"
    "mq_recipient_accepted q = accepted_copy (x_id row) CopyRecipient v"
    "mq_sender_accepted q = accepted_copy (x_id row) CopySender v"
    using plan by (rule plan_reads)
  have "copy_evidence i c v \<Longrightarrow> copy_evidence i c s" for i c
    using more v(1) by (simp add: evidence_mono(2) [of v s])
  then show "mq_recipient_accepted q \<noteq> [] \<Longrightarrow> copy_evidence (x_id row) CopyRecipient s"
    "mq_sender_accepted q \<noteq> [] \<Longrightarrow> copy_evidence (x_id row) CopySender s"
    using v(2,3) accepted_copy_evidence by metis+
qed

lemma published_ok_step: "publisher_step s t \<Longrightarrow> published_ok s \<Longrightarrow> published_ok t"
proof (induction rule: publisher_step.induct)
  case (prepares_event row s w E N relays r t)
  from prepares_event(3) show ?case
    by (cases rule: publication_cases)
      (use prepares_event seen_type [OF prepares_event(1)] in \<open>auto simp: claim_of_def intro: inv_prepare\<close>)
next
  case (records_event row s w E N relays u sd u' results r t)
  note ev = sending_evidence [OF records_event(3,4)]
  from records_event(5) show ?case
    by (cases rule: publication_cases)
      (use records_event ev seen_type [OF records_event(1)] in \<open>auto simp: claim_of_def intro: inv_record_outcome\<close>)
next
  case (prepares_copies E N row u q s w r t)
  from prepares_copies(3) show ?case
    by (cases rule: publication_cases) (use prepares_copies plan_evidence [OF prepares_copies(1,2)]
      in \<open>auto simp: claim_of_def intro: inv_prepare_order_msg\<close>)
next
  case (records_copies E N row u q s w rs ss r t)
  from records_copies(3) show ?case
    by (cases rule: publication_cases) (use records_copies plan_evidence [OF records_copies(1,2)]
      in \<open>auto simp: claim_of_def intro: inv_finish_order_msg\<close>)
qed (rule published_ok_queue)

section \<open>Concrete runs\<close>

definition sample_network :: network where
  "sample_network = \<lparr>net_started = True, net_discover = (\<lambda>_. []), net_public_host = (\<lambda>_ _. True),
     net_sign = (\<lambda>_ _ _ _ _ _. Inr ''ev''), net_wrap = (\<lambda>_ _ _. Inr ''wrap''),
     net_send = (\<lambda>_ _ us. (SendOutput us [], 1))\<rparr>"

definition profile_intent :: "id \<Rightarrow> outbox_event" where
  "profile_intent i = claim_row 1000 ''w''
     (new_intent i ''m'' ''merchant_profile'' ''m'' 31989 0 (Some ''31989:mk:30402'') 0)"

definition publisher_db :: "int \<Rightarrow> db" where
  "publisher_db signed = empty_db\<lparr>db_merchants := [sample_merchant],
     db_outbox := [(profile_intent ''a'')\<lparr>x_last_signed_at := signed\<rparr>]\<rparr>"

definition sample_send :: "int \<Rightarrow> sending" where
  "sample_send c = \<lparr>sd_event_id = ''ev'', sd_created_at = c, sd_accepted = [], sd_targets = [''r'']\<rparr>"

lemmas publisher_evals = publisher_db_def profile_intent_def claim_row_def CLAIM_LEASE_S_def claim_of_def
  publication_tx_def outbox_ok_def evals

lemma prepare_sample:
  assumes "0 \<le> c" "c \<le> 1300"
  shows "publication_tx (profile_intent ''a'') ''w'' (prepare_publication sample_env sample_network [''r'']) (publisher_db c)
   = Inr (Some (Sending (sample_send (max 1000 (c + 1)))), publisher_db (max 1000 (c + 1)))"
  using assms
  by (simp add: publisher_evals prepare_publication_def deps_published_def newer_live_exists_def
      render_intent_def render_profile_def handler_recommendation_event_def CATALOG_AGGREGATES_def
      prepare_send_def latest_recorded_def address_parts_def digit_def same_clock_def try_bind_def
      latest_signed_def accepted_targets_def sign_event_def sample_network_def
      CLOCK_SKEW_TOLERANCE_S_def sample_send_def max_def)

lemma record_sample:
  "\<exists>t. publication_tx (profile_intent ''a'') ''w'' (record_outcome sample_env (sample_send 1000)
       [(''r'', SrAccepted, '''')]) (publisher_db 1000) = Inr (Some ''published'', t)
     \<and> map x_state (db_outbox t) = [ObPublished] \<and> map x_id (db_outbox t) = [''a''] \<and> evidence ''a'' t"
  by (simp add: publisher_evals record_outcome_def record_publications_def publications_ok_def any_accepted_def
      sample_send_def record_address_def address_parts_def digit_def addresses_ok_def published_def settle_def
      cas_state_def holds_claim_def maybe_activate_merchant_def maybe_update_inbox_state_def inbox_outcome_def
      merchants_ok_def evidence_def or_empty_def)

section \<open>The laws\<close>

lemma only_row:
  assumes "distinct (map x_id rows)" "y \<in> set rows"
  shows "filter (\<lambda>z. x_id z = x_id y) rows = [y]"
proof -
  have "length (filter (\<lambda>z. x_id z = x_id y) rows) \<le> 1" by (rule filter_length_1_key [OF assms(1)])
  moreover have "y \<in> set (filter (\<lambda>z. x_id z = x_id y) rows)" using assms(2) by simp
  ultimately show ?thesis
    by (cases "filter (\<lambda>z. x_id z = x_id y) rows") (simp_all del: filter_set set_filter)
qed

text \<open>
  C21 (Evidence). From any queue in which nothing is published yet, over any interleaving of
  publishers, retries, recoveries and relay answers: an intent is called published only if a relay
  accepted it, and an order message only if a relay accepted each of its two copies. What a publisher
  counts as accepted is what its own earlier preparation or plan read, by then possibly out of date.
  (That a pass of the worker is such a run is shown in \<open>PublisherRuns\<close>.)
\<close>

theorem published_was_accepted:
  assumes start: "\<forall>x \<in> set (db_outbox s). x_state x \<noteq> ObPublished" and ok: "outbox_ok s"
    and run: "publisher_step\<^sup>*\<^sup>* s t" and x: "x \<in> set (db_outbox t)" "x_state x = ObPublished"
  shows "if x_aggregate_type x = ''order_msg''
    then copy_evidence (x_id x) CopyRecipient t \<and> copy_evidence (x_id x) CopySender t
    else evidence (x_id x) t"
proof -
  have "published_ok s" using start ok by (simp add: published_ok_def)
  with run have "published_ok t" by induction (auto intro: published_ok_step)
  with x show ?thesis by (auto simp: published_ok_def proven_def is_msg_def)
qed

text \<open>
  C22 (Fencing). A publisher whose claim is lost at some time, because it ran out, was recovered,
  superseded or settled, never writes under it again, whatever happens in between and however the
  clock moves on.
\<close>

theorem lost_publication_claim:
  assumes ok: "outbox_ok s0" and h: "h \<in> set (db_outbox s0)" "x_state h = ObClaimed" "x_claimed_by h = Some w"
    and run: "outbox_step\<^sup>*\<^sup>* s0 s" and lost: "\<forall>x \<in> set (db_outbox s). \<not> claim_of h w (db_clock s) x"
    and later: "outbox_step\<^sup>*\<^sup>* s t"
  shows "publication_tx h w body t = Inr (None, t)"
proof -
  have "\<not> publisher_owns h (db_clock t) y" if "y \<in> set (db_outbox t)" for y
    using ok h lost that
    by (intro claims.lost_for_good [OF _ h(1) run _ later]) (auto simp: outbox_ok_def publisher_owns_def)
  with h show ?thesis by (intro publication_refused) (auto simp: publisher_owns_def)
qed

text \<open>
  C23 (Finality). Whatever happens to the queue, every intent stays in it exactly once and keeps its
  merchant, aggregate, revision, kind and address; and a published or superseded intent stays what it
  is: nothing reopens, resends or removes it.
\<close>

theorem settled_intent_is_final:
  assumes ok: "outbox_ok s" and x: "x \<in> set (db_outbox s)" and run: "outbox_step\<^sup>*\<^sup>* s t"
  shows "\<exists>y. filter (\<lambda>z. x_id z = x_id x) (db_outbox t) = [y]
    \<and> x_merchant_id y = x_merchant_id x \<and> x_aggregate_type y = x_aggregate_type x
    \<and> x_aggregate_id y = x_aggregate_id x \<and> x_aggregate_revision y = x_aggregate_revision x
    \<and> x_event_kind y = x_event_kind x \<and> x_event_address y = x_event_address x
    \<and> (x_state x \<in> {ObPublished, ObSuperseded} \<longrightarrow> x_state y = x_state x)"
proof -
  have d: "distinct (map x_id (db_outbox s))" using ok by (simp add: outbox_ok_def)
  have d': "distinct (map x_id (db_outbox t))" by (rule finals.run_distinct [OF run d])
  obtain y where y: "y \<in> set (db_outbox t)" "x_id y = x_id x" "moved_on final_epoch final_state x y"
    using table_advancesD(2) [OF finals.run_advances(1) [OF run] d x] by blast
  obtain z where z: "z \<in> set (db_outbox t)" "x_id z = x_id x" "same_subject x z"
    using run_subject [OF run ok x] .
  have "z = y" using distinct_key_eq [OF d' z(1) y(1)] z(2) y(2) by simp
  then have "subject y = subject x" using z(3) by (simp add: same_subject_def)
  moreover have "x_state x \<in> {ObPublished, ObSuperseded} \<longrightarrow> x_state y = x_state x"
    using y(3) by (auto simp: moved_on_def final_epoch_def final_state_def split: if_splits)
  moreover have "filter (\<lambda>z. x_id z = x_id x) (db_outbox t) = [y]"
    using only_row [OF d' y(1)] y(2) by simp
  ultimately show ?thesis by (intro exI [of _ y]) (simp add: subject_def)
qed




lemma published_was_accepted_witness:
  "\<exists>s. publication_tx (profile_intent ''a'') ''w'' (record_outcome sample_env (sample_send 1000)
      [(''r'', SrAccepted, '''')]) (publisher_db 1000) = Inr (Some ''published'', s)
    \<and> (\<forall>x \<in> set (db_outbox s). x_state x = ObPublished \<and> evidence (x_id x) s)"
proof -
  obtain t where t: "publication_tx (profile_intent ''a'') ''w'' (record_outcome sample_env (sample_send 1000)
       [(''r'', SrAccepted, '''')]) (publisher_db 1000) = Inr (Some ''published'', t)"
    and st: "map x_state (db_outbox t) = [ObPublished]"
    using record_sample by (elim exE conjE) (rule that)
  have "outbox_step (publisher_db 0) (publisher_db 1000)"
    using prepare_sample [of 0] by (intro prepares) simp
  then have seen: "seen_intent (profile_intent ''a'') (publisher_db 1000)"
    unfolding seen_intent_def by (intro exI [of _ "publisher_db 0"] conjI r_into_rtranclp)
      (simp_all add: publisher_evals)
  have "publisher_step (publisher_db 1000) t"
    using prepare_sample [of 0]
    by (intro records_event [OF seen _ _ rtranclp.rtrancl_refl t]) (simp_all add: profile_intent_def claim_row_def new_intent_def)
  then have run: "publisher_step\<^sup>*\<^sup>* (publisher_db 1000) t" by simp
  have "\<forall>x \<in> set (db_outbox (publisher_db 1000)). x_state x \<noteq> ObPublished" "outbox_ok (publisher_db 1000)"
    by (simp_all add: publisher_evals)
  note E = published_was_accepted [OF this run]
  obtain x where x: "db_outbox t = [x]" "x_state x = ObPublished" using st by auto
  obtain y where "y \<in> set (db_outbox t)" "same_subject ((profile_intent ''a'')\<lparr>x_last_signed_at := 1000\<rparr>) y"
    using run_subject [OF publisher_run_outbox [OF run], of "(profile_intent ''a'')\<lparr>x_last_signed_at := 1000\<rparr>"] by (auto simp: publisher_evals)
  then have "x_aggregate_type x = ''merchant_profile''"
    using x(1) by (simp add: same_subject_def subject_def publisher_evals)
  then have "evidence (x_id x) t" using E [of x] x by simp
  with t x show ?thesis by (intro exI [of _ t]) simp
qed

lemma lost_publication_claim_witness:
  "publication_tx (profile_intent ''a'') ''w'' (put_back sample_env RuntimeError 1200)
     ((publisher_db 0)\<lparr>db_clock := 1200\<rparr>) = Inr (None, (publisher_db 0)\<lparr>db_clock := 1200\<rparr>)"
proof -
  let ?h = "(profile_intent ''a'')\<lparr>x_last_signed_at := 0\<rparr>"
  have same: "?h = profile_intent ''a''" by (simp add: profile_intent_def claim_row_def new_intent_def)
  have step: "outbox_step\<^sup>*\<^sup>* ((publisher_db 0)\<lparr>db_clock := a\<rparr>) ((publisher_db 0)\<lparr>db_clock := b\<rparr>)" if "a \<le> b" for a b
    using that by (intro r_into_rtranclp queues elsewhere) simp_all
  have "publication_tx ?h ''w'' (put_back sample_env RuntimeError 1200) ((publisher_db 0)\<lparr>db_clock := 1200\<rparr>)
      = Inr (None, (publisher_db 0)\<lparr>db_clock := 1200\<rparr>)"
    by (rule lost_publication_claim [OF _ _ _ _ step [of 1000 1150] _ step [of 1150 1200]])
      (simp_all add: publisher_evals)
  then show ?thesis by (simp only: same)
qed

lemma settled_intent_is_final_witness:
  "\<exists>s t. map x_state (db_outbox s) = [ObPublished] \<and> retry_intent ''m'' ''a'' s = Inl (ProblemError 409 ''invalid-transition'')
     \<and> claim_batch sample_env 2000 ''v'' 5 s = Inr ([], t) \<and> map x_state (db_outbox t) = [ObPublished]"
proof -
  let ?x = "(profile_intent ''a'')\<lparr>x_state := ObPublished\<rparr>"
  let ?s = "outbox_db [?x]"
  have claim: "claim_batch sample_env 2000 ''v'' 5 ?s = Inr ([], ?s)"
    by (simp add: claim_batch_def claimable_def outbox_db_def publisher_evals)
  then have run: "outbox_step\<^sup>*\<^sup>* ?s ?s" by (intro r_into_rtranclp queues claims_due)
  have "\<exists>y. filter (\<lambda>z. x_id z = x_id ?x) (db_outbox ?s) = [y]
    \<and> x_merchant_id y = x_merchant_id ?x \<and> x_aggregate_type y = x_aggregate_type ?x
    \<and> x_aggregate_id y = x_aggregate_id ?x \<and> x_aggregate_revision y = x_aggregate_revision ?x
    \<and> x_event_kind y = x_event_kind ?x \<and> x_event_address y = x_event_address ?x
    \<and> (x_state ?x \<in> {ObPublished, ObSuperseded} \<longrightarrow> x_state y = x_state ?x)"
    by (rule settled_intent_is_final [OF _ _ run]) (simp_all add: outbox_db_def outbox_ok_def)
  moreover have "retry_intent ''m'' ''a'' ?s = Inl (ProblemError 409 ''invalid-transition'')"
    by (simp add: retry_intent_def outbox_db_def publisher_evals)
  ultimately show ?thesis using claim by (intro exI [of _ ?s]) (simp add: outbox_db_def publisher_evals)
qed



section \<open>Stranded intents\<close>

lemma replaced_row:
  assumes ok: "outbox_ok t" and r: "r \<in> set (db_outbox t)" and id: "x_id (f r) = x_id r"
    and u: "u = db_outbox_update (upd_rows (\<lambda>x. x = r) f) t"
  shows "outbox_ok u" "filter (\<lambda>z. x_id z = x_id r) (db_outbox u) = [f r]"
    "P (f r) \<Longrightarrow> List.find (\<lambda>z. x_id z = x_id r \<and> P z) (db_outbox u) = Some (f r)"
proof -
  have "map x_id (upd_rows (\<lambda>x. x = r) f (db_outbox t)) = map x_id (db_outbox t)"
    using id by (intro map_upd_rows) simp
  then show ok_u: "outbox_ok u" using ok by (simp add: outbox_ok_def u)
  have fr: "f r \<in> set (db_outbox u)" using r by (auto simp: u set_upd_rows)
  have "length (filter (\<lambda>z. x_id z = x_id r) (db_outbox u)) \<le> 1"
    using ok_u unfolding outbox_ok_def by (rule filter_length_1_key)
  moreover have "f r \<in> set (filter (\<lambda>z. x_id z = x_id r) (db_outbox u))" using fr id by simp
  ultimately show "filter (\<lambda>z. x_id z = x_id r) (db_outbox u) = [f r]"
    by (cases "filter (\<lambda>z. x_id z = x_id r) (db_outbox u)") (simp_all del: filter_set set_filter)
  assume P: "P (f r)"
  obtain x where x: "List.find (\<lambda>z. x_id z = x_id r \<and> P z) (db_outbox u) = Some x"
    using find_ex [OF fr, of "\<lambda>z. x_id z = x_id r \<and> P z"] id P by blast
  then have "x = f r"
    using find_SomeD [OF x] fr id ok_u distinct_key_eq [of x_id "db_outbox u" x "f r"] by (simp add: outbox_ok_def)
  with x show "List.find (\<lambda>z. x_id z = x_id r \<and> P z) (db_outbox u) = Some (f r)" by simp
qed

definition settled_as :: "outbox_event \<Rightarrow> outbox_state \<Rightarrow> int \<Rightarrow> int option \<Rightarrow> string option \<Rightarrow> outbox_event" where
  "settled_as r st now na e = r\<lparr>x_state := st, x_attempts := x_attempts r + 1,
     x_next_attempt_at := (case na of None \<Rightarrow> 0 | Some t \<Rightarrow> t), x_last_error := e, x_updated_at := now\<rparr>"

lemma outbox_update_eq: "g (db_outbox t) = h (db_outbox t) \<Longrightarrow> db_outbox_update g t = db_outbox_update h t"
  by (cases t) simp

lemma settle_owned:
  assumes ok: "outbox_ok t" and r: "r \<in> set (db_outbox t)" "claim_of row w (db_clock t) r"
  shows "settle r st now na e t = Inr ((), db_outbox_update (upd_rows (\<lambda>x. x = r) (\<lambda>_. settled_as r st now na e)) t)"
proof -
  let ?f = "\<lambda>x. x\<lparr>x_state := st, x_attempts := x_attempts r + 1,
    x_next_attempt_at := (case na of None \<Rightarrow> 0 | Some t \<Rightarrow> t), x_last_error := e, x_updated_at := now\<rparr>"
  have only: "holds_claim r (db_clock t) x \<longleftrightarrow> x = r" if "x \<in> set (db_outbox t)" for x
    using that r ok by (auto simp: holds_claim_def claim_of_def outbox_ok_def dest: distinct_key_eq)
  have u: "db_outbox_update (upd_rows (holds_claim r (db_clock t)) ?f) t
      = db_outbox_update (upd_rows (\<lambda>x. x = r) (\<lambda>_. settled_as r st now na e)) t"
  proof -
    have "upd_rows (holds_claim r (db_clock t)) ?f (db_outbox t)
        = upd_rows (\<lambda>x. x = r) (\<lambda>_. settled_as r st now na e) (db_outbox t)"
      using only by (auto simp: upd_rows_def settled_as_def)
    then show ?thesis by (rule outbox_update_eq)
  qed
  have "outbox_ok (db_outbox_update (upd_rows (\<lambda>x. x = r) (\<lambda>_. settled_as r st now na e)) t)"
    by (rule replaced_row(1) [OF ok r(1) _ refl]) (simp add: settled_as_def)
  then show ?thesis
    unfolding settle_def cas_state_def tx_ignore_def tx_bind_def tx_get_def tx_return_def sql_update_def Let_def
    by (simp add: u)
qed

lemma publication_found:
  assumes ok: "outbox_ok t" and r: "r \<in> set (db_outbox t)" "claim_of row w (db_clock t) r"
    and body: "body r t = Inr (a, u)" "db_clock u = db_clock t"
  shows "publication_tx row w body t = Inr (Some a, u)"
proof -
  obtain x where x: "List.find (claim_of row w (db_clock t)) (db_outbox t) = Some x"
    using find_ex [OF r(1), of "claim_of row w (db_clock t)"] r(2) by blast
  have "x = r" using find_SomeD [OF x] r ok by (auto simp: claim_of_def outbox_ok_def dest: distinct_key_eq)
  then show ?thesis
    using x r(2) body
    by (auto simp: publication_tx_def tx_bind_def tx_seq_def tx_get_def tx_return_def tx_assert_def sql_one_def
        claim_of_def split: option.splits)
qed

lemma unpublished_dependency:
  assumes "\<lparr>od_outbox_event_id = i, od_depends_on_outbox_event_id = x_id y\<rparr> \<in> set (db_outbox_deps t)"
    and "y \<in> set (db_outbox t)" "x_state y \<noteq> ObPublished"
  shows "deps_published i t = Inr (False, t)"
proof -
  let ?A = "\<forall>d\<in>set (db_outbox_deps t). od_outbox_event_id d = i \<longrightarrow>
     (\<forall>x\<in>set (db_outbox t). x_id x = od_depends_on_outbox_event_id d \<longrightarrow> x_state x = ObPublished)"
  have "\<not> ?A"
  proof
    assume ?A
    from bspec [OF this assms(1)] have "\<forall>x\<in>set (db_outbox t). x_id x = x_id y \<longrightarrow> x_state x = ObPublished" by simp
    from bspec [OF this assms(2)] assms(3) show False by simp
  qed
  then show ?thesis unfolding deps_published_def tx_get_def by simp
qed

text \<open>
  C30 (Blocked publications). What happens to an intent whose dependency was superseded instead of
  published: every attempt puts it back as blocked and counts an attempt, and when the attempts are
  used up it is pending, can no longer be claimed, and the merchant's retry refuses it.
\<close>

theorem superseded_dependency_strands:
  assumes ok: "outbox_ok s" and y: "y \<in> set (db_outbox s)" "x_state y = ObSuperseded"
    and run: "outbox_step\<^sup>*\<^sup>* s t"
    and edge: "\<lparr>od_outbox_event_id = x_id row, od_depends_on_outbox_event_id = x_id y\<rparr> \<in> set (db_outbox_deps t)"
    and r: "r \<in> set (db_outbox t)" "claim_of row w (db_clock t) r"
  shows "\<exists>u z. publication_tx row w (prepare_publication E N relays) t = Inr (Some (Settled ''blocked''), u)
    \<and> filter (\<lambda>z. x_id z = x_id row) (db_outbox u) = [z]
    \<and> x_state z = ObPending \<and> x_attempts z = x_attempts r + 1
    \<and> (outbox_max_attempts E \<le> x_attempts z \<longrightarrow>
        (\<forall>now. \<not> claimable E now z)
        \<and> retry_intent (x_merchant_id z) (x_id z) u = Inl (ProblemError 409 ''invalid-transition''))"
proof -
  have ok_t: "outbox_ok t" by (rule run_outbox_ok [OF run ok])
  have id: "x_id r = x_id row" using r(2) by (simp add: claim_of_def)
  let ?z = "settled_as r ObPending (db_clock t) (Some (db_clock t)) None"
  let ?u = "db_outbox_update (upd_rows (\<lambda>x. x = r) (\<lambda>_. ?z)) t"
  obtain y' where y': "y' \<in> set (db_outbox t)" "x_id y' = x_id y" "moved_on final_epoch final_state y y'"
    using table_advancesD(2) [OF finals.run_advances(1) [OF run] _ y(1)] ok by (auto simp: outbox_ok_def)
  then have "x_state y' \<noteq> ObPublished"
    using y(2) by (auto simp: moved_on_def final_epoch_def final_state_def split: if_splits)
  with edge y'(1,2) id have "deps_published (x_id r) t = Inr (False, t)"
    by (intro unpublished_dependency) simp_all
  then have body: "prepare_publication E N relays r t = Inr (Settled ''blocked'', ?u)"
    using settle_owned [OF ok_t r]
    by (simp add: prepare_publication_def settle_as_def tx_bind_def tx_seq_def tx_get_def tx_return_def)
  have zid: "x_id ?z = x_id r" by (simp add: settled_as_def)
  note u = replaced_row [OF ok_t r(1), of "\<lambda>_. ?z", OF zid refl]
  have "retry_intent (x_merchant_id ?z) (x_id ?z) ?u = Inl (ProblemError 409 ''invalid-transition'')"
    using u(3) [of "\<lambda>x. x_merchant_id x = x_merchant_id ?z"] zid
    by (simp add: retry_intent_def tx_bind_def tx_seq_def tx_get_def tx_assert_def tx_raise_def sql_one_def settled_as_def)
  with u(2) id show ?thesis
    using publication_found [of t r row w "prepare_publication E N relays", OF ok_t r body]
    by (intro exI [of _ ?u] exI [of _ ?z]) (simp add: claimable_def settled_as_def)
qed

text \<open>An intent at its last attempt whose dependency was superseded.\<close>

lemma superseded_dependency_strands_witness:
  "\<exists>s u z. publication_tx (profile_intent ''a'') ''w'' (prepare_publication sample_env sample_network [''r'']) s
       = Inr (Some (Settled ''blocked''), u)
    \<and> filter (\<lambda>z. x_id z = ''a'') (db_outbox u) = [z] \<and> x_attempts z = 20
    \<and> retry_intent (x_merchant_id z) (x_id z) u = Inl (ProblemError 409 ''invalid-transition'')"
proof -
  let ?a = "(profile_intent ''a'')\<lparr>x_attempts := 19\<rparr>"
  let ?b = "(profile_intent ''b'')\<lparr>x_state := ObSuperseded\<rparr>"
  define s where "s = empty_db\<lparr>db_outbox := [?a, ?b],
    db_outbox_deps := [\<lparr>od_outbox_event_id = ''a'', od_depends_on_outbox_event_id = ''b''\<rparr>]\<rparr>"
  have id: "x_id (profile_intent i) = i" for i by (simp add: profile_intent_def new_intent_def)
  have hyps: "outbox_ok s" "?b \<in> set (db_outbox s)" "?a \<in> set (db_outbox s)"
    "claim_of (profile_intent ''a'') ''w'' (db_clock s) ?a"
    "\<lparr>od_outbox_event_id = x_id (profile_intent ''a''), od_depends_on_outbox_event_id = x_id ?b\<rparr> \<in> set (db_outbox_deps s)"
    by (simp_all add: s_def publisher_evals)
  have "x_state ?b = ObSuperseded" by simp
  from superseded_dependency_strands [OF hyps(1,2) this rtranclp.rtrancl_refl hyps(5,3,4), of sample_env sample_network "[''r'']"]
  obtain u z where "publication_tx (profile_intent ''a'') ''w'' (prepare_publication sample_env sample_network [''r'']) s
      = Inr (Some (Settled ''blocked''), u)" and "filter (\<lambda>z. x_id z = ''a'') (db_outbox u) = [z]"
    and n: "x_attempts z = x_attempts ?a + 1" and "outbox_max_attempts sample_env \<le> x_attempts z \<longrightarrow>
        (\<forall>now. \<not> claimable sample_env now z)
        \<and> retry_intent (x_merchant_id z) (x_id z) u = Inl (ProblemError 409 ''invalid-transition'')"
    unfolding id by (elim exE conjE) (rule that)
  then show ?thesis by (intro exI [of _ s] exI [of _ u] exI [of _ z]) (simp add: evals)
qed

end
