(* ===== verification/PublisherRuns.thy ===== *)
theory PublisherRuns
  imports PublisherLaws
begin

text \<open>
  A pass of the publisher is a run of the step relation: what its transactions remember of earlier
  ones is what the steps ask for, whatever the relays answer and however long they take. So the laws
  of interleaved runs hold of every pass.
\<close>

lemma seen_later: "seen_intent row s \<Longrightarrow> outbox_step\<^sup>*\<^sup>* s t \<Longrightarrow> seen_intent row t"
  unfolding seen_intent_def by (meson rtranclp_trans)

lemma seen_publisher_later: "seen_intent row s \<Longrightarrow> publisher_step\<^sup>*\<^sup>* s t \<Longrightarrow> seen_intent row t"
  by (rule seen_later [OF _ publisher_run_outbox])

lemma wait_step: "0 \<le> d \<Longrightarrow> publisher_step s (db_clock_update (\<lambda>c. c + d) s)"
  by (intro queue_moves elsewhere) simp_all

definition patient :: "network \<Rightarrow> bool" where
  "patient N \<longleftrightarrow> (\<forall>i c targets. 0 \<le> snd (net_send N i c targets))"

lemma public_run:
  assumes N: "patient N" and seen: "seen_intent row s" and type: "x_aggregate_type row \<noteq> ''order_msg''"
  shows "publisher_step\<^sup>*\<^sup>* s (snd (publish_public E N relays w row s))"
proof (cases "publication_tx row w (prepare_publication E N relays) s")
  case (Inl e)
  then show ?thesis by (simp add: publish_public_def pr_bind_def commit_def)
next
  case (Inr bt)
  then obtain b s1 where prep: "publication_tx row w (prepare_publication E N relays) s = Inr (b, s1)"
    by (cases bt) simp
  have 1: "publisher_step s s1" using seen type prep by (rule prepares_event)
  show ?thesis
  proof (cases "\<exists>sd. b = Some (Sending sd)")
    case False
    then have "snd (publish_public E N relays w row s) = s1"
      by (auto simp: publish_public_def pr_bind_def commit_def prep pr_return_def split: option.split prepared.split)
    with 1 show ?thesis by simp
  next
    case True
    then obtain sd where b: "b = Some (Sending sd)" ..
    obtain report d where net: "net_send N (x_id row) CopyPublic (sd_targets sd) = (report, d)"
      by (cases "net_send N (x_id row) CopyPublic (sd_targets sd)")
    let ?s2 = "db_clock_update (\<lambda>c. c + d) s1"
    let ?m = "publication_tx row w (record_outcome E sd (classify_results report (sd_targets sd)))"
    have "0 \<le> d" using N net by (metis patient_def snd_conv)
    then have 2: "publisher_step s1 ?s2" by (rule wait_step)
    have out: "snd (publish_public E N relays w row s) = (case ?m ?s2 of Inl _ \<Rightarrow> ?s2 | Inr (_, t) \<Rightarrow> t)"
      by (simp add: publish_public_def pr_bind_def commit_def prep b net pr_return_def pr_wait_def
        split: sum.split prod.split)
    have "publisher_step ?s2 t" if "?m ?s2 = Inr (r, t)" for r t
    proof (rule records_event [OF _ type prep [unfolded b] _ that])
      show "outbox_step\<^sup>*\<^sup>* s1 ?s2" using publisher_step_outbox [OF 2] by blast
      show "seen_intent row ?s2" using seen 1 2 by (meson seen_publisher_later r_into_rtranclp)
    qed
    with 1 2 out show ?thesis
      by (auto split: sum.split prod.split intro: rtranclp.rtrancl_into_rtrancl)
  qed
qed

lemma plan_keeps:
  "pr_inv (\<lambda>t. db_outbox t = a \<and> db_publications t = b \<and> db_clock t = c) (plan_order_msg E N row)"
proof -
  have routes: "pr_inv (\<lambda>t. db_outbox t = a \<and> db_publications t = b \<and> db_clock t = c)
      (resolve_buyer_inbox_relays E N m buyer)" for m buyer
    unfolding resolve_buyer_inbox_relays_def Let_def
  proof (intro pr_invs)
    fix h urls now
    have "tx_keeps (\<lambda>t. (db_outbox t, db_publications t, db_clock t)) (store_routes E m buyer h urls now)"
      unfolding store_routes_def drop_routes_def by (intro keeps keeps_sql) simp_all
    then show "tx_inv (\<lambda>t. db_outbox t = a \<and> db_publications t = b \<and> db_clock t = c)
        (store_routes E m buyer h urls now)"
      by (intro tx_invI) (auto dest!: tx_keepsD)
  qed
  show ?thesis
    unfolding plan_order_msg_def Let_def pr_lift_def
    by (auto intro!: pr_invs routes split: option.split sum.split)
qed

lemma send_copy_run:
  assumes "patient N"
  obtains rs d where "send_copy N row c wrap targets s = (Inr rs, db_clock_update (\<lambda>t. t + d) s)" "0 \<le> d"
proof (cases wrap)
  case None
  then show ?thesis using that [of "[]" 0] by (simp add: send_copy_def pr_return_def)
next
  case (Some x)
  obtain report d where net: "net_send N (x_id row) c targets = (report, d)"
    by (cases "net_send N (x_id row) c targets")
  then have "0 \<le> d" using assms by (metis patient_def snd_conv)
  with Some net that show ?thesis by (simp add: send_copy_def pr_bind_def pr_wait_def pr_return_def)
qed

lemma order_msg_run:
  assumes N: "patient N"
  shows "publisher_step\<^sup>*\<^sup>* s (snd (publish_order_msg E N w row s))"
proof -
  obtain r s1 where plan: "plan_order_msg E N row s = (r, s1)" by (cases "plan_order_msg E N row s")
  have same: "db_outbox s1 = db_outbox s" "db_publications s1 = db_publications s" "db_clock s1 = db_clock s"
    using pr_invD [OF plan_keeps, of s "db_outbox s" "db_publications s" "db_clock s" E N row] plan by simp_all
  have 1: "publisher_step s s1" by (intro queue_moves elsewhere) (simp_all add: same)
  show ?thesis
  proof (cases r)
    case (Inl e)
    with 1 show ?thesis by (simp add: publish_order_msg_def pr_bind_def plan)
  next
    case (Inr q)
    have q: "fst (plan_order_msg E N row s) = Inr q" by (simp add: plan Inr)
    let ?prep = "publication_tx row w (prepare_order_msg E q) s1"
    show ?thesis
    proof (cases "\<exists>s2. ?prep = Inr (Some None, s2)")
      case False
      have "publisher_step s1 t" if "?prep = Inr (b, t)" for b t
        by (rule prepares_copies [OF q _ that]) (simp add: same)
      moreover have "snd (publish_order_msg E N w row s) = (case ?prep of Inl _ \<Rightarrow> s1 | Inr (_, t) \<Rightarrow> t)"
        using False by (auto simp: publish_order_msg_def pr_bind_def plan Inr commit_def pr_return_def
          split: sum.split prod.split option.split)
      ultimately show ?thesis using 1
        by (auto split: sum.split prod.split intro: rtranclp.rtrancl_into_rtrancl)
    next
      case True
      then obtain s2 where prep: "?prep = Inr (Some None, s2)" ..
      have 2: "publisher_step s1 s2" by (rule prepares_copies [OF q _ prep]) (simp add: same)
      obtain rs d where rec: "send_copy N row CopyRecipient (mq_recipient_wrap q) (mq_recipient_targets q) s2
          = (Inr rs, db_clock_update (\<lambda>t. t + d) s2)" "0 \<le> d" using N by (rule send_copy_run)
      let ?s3 = "db_clock_update (\<lambda>t. t + d) s2"
      obtain ss f where sen: "send_copy N row CopySender (mq_sender_wrap q) (mq_sender_targets q) ?s3
          = (Inr ss, db_clock_update (\<lambda>t. t + f) ?s3)" "0 \<le> f" using N by (rule send_copy_run)
      let ?s4 = "db_clock_update (\<lambda>t. t + f) ?s3"
      let ?m = "publication_tx row w (finish_order_msg E q rs ss) ?s4"
      have waited: "publisher_step\<^sup>*\<^sup>* s ?s4"
        using 1 2 wait_step [OF rec(2), of s2] wait_step [OF sen(2), of ?s3]
        by (meson rtranclp.rtrancl_into_rtrancl rtranclp.rtrancl_refl)
      have "set (db_publications s) \<subseteq> set (db_publications ?s4)"
        using run_publications [OF publisher_run_outbox [OF waited]] .
      then have "publisher_step ?s4 t" if "?m = Inr (b, t)" for b t
        using q that by (intro records_copies)
      moreover have "snd (publish_order_msg E N w row s) = (case ?m of Inl _ \<Rightarrow> ?s4 | Inr (_, t) \<Rightarrow> t)"
        by (simp add: publish_order_msg_def pr_bind_def plan Inr commit_def prep rec(1) sen(1) pr_return_def
          split: sum.split prod.split)
      ultimately show ?thesis using waited
        by (auto split: sum.split prod.split intro: rtranclp.rtrancl_into_rtrancl)
    qed
  qed
qed

lemma claimed_run:
  assumes N: "patient N" and seen: "seen_intent row s"
  shows "publisher_step\<^sup>*\<^sup>* s (snd (publish_claimed E N w now outcomes row s))"
proof -
  let ?relays = "publish_targets row s"
  obtain r t where r: "publish_intent E N ?relays w row s = (r, t)" by (cases "publish_intent E N ?relays w row s")
  have run: "publisher_step\<^sup>*\<^sup>* s t"
    using public_run [OF N seen, of E ?relays w] order_msg_run [OF N, of s E w row] r
    by (auto simp: publish_intent_def split: if_splits)
  have "publisher_step t u" if "publication_tx row w (put_back E e now) t = Inr (b, u)" for e b u
    using that by (intro queue_moves puts_back)
  with run show ?thesis
    by (auto simp: publish_claimed_def pr_bind_def pr_get_def pr_catch_def r pr_return_def commit_def
      split: sum.split prod.split intro: rtranclp.rtrancl_into_rtrancl)
qed

lemma rows_run:
  assumes N: "patient N" and "\<And>row. row \<in> set rows \<Longrightarrow> seen_intent row s"
  shows "publisher_step\<^sup>*\<^sup>* s (snd (pr_fold (publish_claimed E N w now) outcomes rows s))"
  using assms(2)
proof (induction rows arbitrary: s outcomes)
  case (Cons row rows)
  let ?t = "snd (publish_claimed E N w now outcomes row s)"
  have 1: "publisher_step\<^sup>*\<^sup>* s ?t" using Cons.prems by (intro claimed_run [OF N]) simp
  then have 2: "publisher_step\<^sup>*\<^sup>* ?t (snd (pr_fold (publish_claimed E N w now) o' rows ?t))" for o'
    using Cons.prems by (intro Cons.IH) (auto intro: seen_publisher_later)
  show ?case using 1 rtranclp_trans [OF 1 2]
    by (cases "publish_claimed E N w now outcomes row s") (auto simp: pr_bind_def split: sum.split)
qed (simp add: pr_return_def)

lemma claim_batch_rows:
  assumes claim: "claim_batch E now w limit s = Inr (rows, t)" and ok: "outbox_ok s" and c: "c \<in> set rows"
  shows "c \<in> set (db_outbox t)"
proof -
  have ids: "distinct (map x_id (db_outbox s))" using ok by (simp add: outbox_ok_def)
  obtain x where x: "x \<in> set (due_batch E now limit (db_outbox s))" "c = claim_row now w x"
    using c claim_batch_run(1) [OF claim ok] by auto
  then have "x \<in> set (db_outbox s)" using due_batch_facts(2) [OF ids] by blast
  then show ?thesis using x unfolding claim_batch_run(2) [OF claim ok] by force
qed

theorem worker_tick_run:
  assumes ok: "outbox_ok s" and N: "patient N"
  shows "publisher_step\<^sup>*\<^sup>* s (snd (worker_tick E N w now s))"
proof (cases "recover_stale_claims E now s")
  case (Inl e)
  then show ?thesis by (simp add: worker_tick_def pr_bind_def commit_def)
next
  case (Inr ns)
  then obtain n s1 where rec: "recover_stale_claims E now s = Inr (n, s1)" by (cases ns) simp
  then have 1: "publisher_step s s1" by (intro queue_moves recovers_stale)
  have ok1: "outbox_ok s1" using run_outbox_ok [OF publisher_run_outbox ok] 1 by blast
  show ?thesis
  proof (cases "\<exists>rows s2. net_started N \<and> claim_batch E now w (outbox_batch E) s1 = Inr (rows, s2)")
    case False
    then have "snd (worker_tick E N w now s) = s1"
      by (auto simp: worker_tick_def pr_bind_def commit_def rec pr_return_def split: sum.split)
    with 1 show ?thesis by simp
  next
    case True
    then obtain rows s2 where claim: "net_started N" "claim_batch E now w (outbox_batch E) s1 = Inr (rows, s2)"
      by blast
    then have 2: "publisher_step s1 s2" by (intro queue_moves claims_due)
    have ok2: "outbox_ok s2" using run_outbox_ok [OF publisher_run_outbox ok1] 2 by blast
    have "seen_intent row s2" if "row \<in> set rows" for row
      using claim_batch_rows [OF claim(2) ok1 that] ok2 by (auto simp: seen_intent_def)
    then have 3: "publisher_step\<^sup>*\<^sup>* s2 (snd (pr_fold (publish_claimed E N w now) [] rows s2))"
      by (rule rows_run [OF N])
    have "snd (worker_tick E N w now s) = snd (pr_fold (publish_claimed E N w now) [] rows s2)"
      using claim by (simp add: worker_tick_def pr_bind_def commit_def rec pr_return_def split: sum.split prod.split)
    with 3 have "publisher_step\<^sup>*\<^sup>* s2 (snd (worker_tick E N w now s))" by (simp only:)
    with 1 2 show ?thesis by (blast intro: converse_rtranclp_into_rtranclp)
  qed
qed

end
