(* ===== verification/RateLimit.thy ===== *)
theory RateLimit
  imports Schema
begin

text \<open>
  The fixed-window counters of \<open>rate_limit_buckets\<close>. The e-mail worker, the inbox and the
  direct messages all issue the same statement, an insert that on a conflict increments the count
  of the window while it is below the cap and returns no row when it is not. The locale states
  what a client may rely on; its lemma bounds the number of slots a run can take.
\<close>

section \<open>One slot of a window\<close>

definition bucket_key :: "rate_bucket \<Rightarrow> string \<times> string \<times> int" where
  "bucket_key b = (rb_scope_hash b, rb_bucket b, rb_window_start b)"

definition take_slot :: "string \<Rightarrow> string \<Rightarrow> int \<Rightarrow> int \<Rightarrow> int \<Rightarrow> (db, bool) tx" where
  "take_slot scope bucket window expires cap =
     tx_bind (sql_one db_buckets (\<lambda>b. bucket_key b = (scope, bucket, window))) (\<lambda>old.
     case old of
       None \<Rightarrow> tx_seq (sql_insert db_buckets_update buckets_ok
         \<lparr>rb_scope_hash = scope, rb_bucket = bucket, rb_window_start = window, rb_count = 1,
          rb_expires_at = expires\<rparr>) (tx_return True)
     | Some b \<Rightarrow>
         if rb_count b < cap
         then tx_seq (tx_ignore (sql_update db_buckets db_buckets_update buckets_ok
           (\<lambda>b. bucket_key b = (scope, bucket, window)) (\<lambda>b. b\<lparr>rb_count := rb_count b + 1\<rparr>)))
           (tx_return True)
         else tx_return False)"

definition slots :: "string \<times> string \<times> int \<Rightarrow> db \<Rightarrow> int" where
  "slots k s = (case List.find (\<lambda>b. bucket_key b = k) (db_buckets s) of None \<Rightarrow> 0 | Some b \<Rightarrow> rb_count b)"

lemma keeps_take_slot [keeps]:
  "(\<And>g s. f (db_buckets_update g s) = f s) \<Longrightarrow> tx_keeps f (take_slot sc bu w e cap)"
  unfolding take_slot_def by (intro keeps keeps_sql)

lemma bucket_key_count [simp]: "bucket_key (b\<lparr>rb_count := n\<rparr>) = bucket_key b"
  by (simp add: bucket_key_def)

lemma slots_update:
  "slots k (db_buckets_update (upd_rows (\<lambda>b. bucket_key b = k0) (\<lambda>b. b\<lparr>rb_count := rb_count b + 1\<rparr>)) s)
   = slots k s + (if k = k0 \<and> List.find (\<lambda>b. bucket_key b = k) (db_buckets s) \<noteq> None then 1 else 0)"
  by (cases "List.find (\<lambda>b. bucket_key b = k) (db_buckets s)")
    (auto simp: slots_def find_upd_rows [where key = bucket_key] dest: find_SomeD)

lemma slots_insert:
  "slots k (db_buckets_update (\<lambda>rows. rows @ [b]) s)
   = (if List.find (\<lambda>b. bucket_key b = k) (db_buckets s) = None \<and> bucket_key b = k then rb_count b else slots k s)"
  by (auto simp: slots_def find_append_one split: option.splits)

lemma take_slot_run:
  assumes run: "take_slot scope bucket window expires cap s = Inr (r, t)"
  shows "slots k t = slots k s + (if r \<and> k = (scope, bucket, window) then 1 else 0)"
    and "r \<Longrightarrow> slots (scope, bucket, window) s < cap \<or> slots (scope, bucket, window) s = 0"
    and "\<not> r \<Longrightarrow> t = s \<and> cap \<le> slots (scope, bucket, window) s"
proof -
  let ?k = "(scope, bucket, window)"
  have new: "bucket_key \<lparr>rb_scope_hash = scope, rb_bucket = bucket, rb_window_start = window, rb_count = 1,
      rb_expires_at = expires\<rparr> = ?k" by (simp add: bucket_key_def)
  note run' = run [unfolded take_slot_def tx_Inr sql_Inr]
  show "slots k t = slots k s + (if r \<and> k = ?k then 1 else 0)"
    using run'
    by (auto simp: tx_Inr sql_Inr slots_insert slots_update new split: option.splits if_splits)
      (auto simp: slots_def)
  show "r \<Longrightarrow> slots ?k s < cap \<or> slots ?k s = 0"
    and "\<not> r \<Longrightarrow> t = s \<and> cap \<le> slots ?k s"
    using run' by (auto simp: tx_Inr sql_Inr slots_def split: option.splits if_splits)
qed

section \<open>The contract\<close>

text \<open>A run of a program whose steps carry labels.\<close>

inductive labelled_run :: "('s \<Rightarrow> 'l \<Rightarrow> 's \<Rightarrow> bool) \<Rightarrow> 's \<Rightarrow> 'l list \<Rightarrow> 's \<Rightarrow> bool" for step where
  stays: "labelled_run step s [] s"
| goes: "labelled_run step s ls t \<Longrightarrow> step t l u \<Longrightarrow> labelled_run step s (ls @ [l]) u"

text \<open>
  \<open>used\<close> counts the slots taken of one window, \<open>step\<close> is one labelled step of the program, and
  \<open>takes\<close> says which labels take a slot.
\<close>

locale limiter =
  fixes used :: "'s \<Rightarrow> int" and cap :: int and step :: "'s \<Rightarrow> 'l \<Rightarrow> 's \<Rightarrow> bool" and takes :: "'l \<Rightarrow> bool"
  assumes counted: "step s l t \<Longrightarrow> takes l \<Longrightarrow> used s < used t \<and> used t \<le> cap"
    and grows: "step s l t \<Longrightarrow> used s \<le> used t"
begin

lemma run_used: "labelled_run step s ls t \<Longrightarrow> used s + int (length (filter takes ls)) \<le> used t"
  by (induction rule: labelled_run.induct) (force dest: counted grows)+

lemma run_within: "labelled_run step s ls t \<Longrightarrow> filter takes ls \<noteq> [] \<Longrightarrow> int (length (filter takes ls)) \<le> cap - used s"
proof (induction rule: labelled_run.induct)
  case (goes s ls t l u)
  show ?case
  proof (cases "takes l")
    case True
    with run_used [OF goes.hyps(1)] counted [OF goes.hyps(2)] show ?thesis by simp
  qed (use goes in simp)
qed simp

end

end
