(* ===== verification/Email.thy ===== *)
theory Email
  imports OrderAdmin RateLimit "HOL-Library.Product_Lexorder"
begin

text \<open>
  The e-mail worker of \<open>services/email.py\<close>: the claim, the transaction that decides whether a
  message may be sent, the message itself, the transaction that records what became of it, and the
  recovery of stale claims. The SMTP call of the host is the argument \<open>smtp\<close>, its configuration
  check the argument \<open>ready\<close>.
\<close>

definition EMAIL_BATCH :: nat where "EMAIL_BATCH = 16"
definition EMAIL_CLAIM_LEASE_S :: int where "EMAIL_CLAIM_LEASE_S = 120"
definition EMAIL_BACKOFF_BASE_S :: int where "EMAIL_BACKOFF_BASE_S = 30"
definition EMAIL_BACKOFF_CAP_S :: int where "EMAIL_BACKOFF_CAP_S = 4 * 3600"
definition CUSTOMER_HOURLY_CAP :: int where "CUSTOMER_HOURLY_CAP = 8"
definition MERCHANT_HOURLY_CAP :: int where "MERCHANT_HOURLY_CAP = 60"

text \<open>\<open>_backoff\<close>: the exponential delay plus \<open>random.randint(0, 30)\<close>.\<close>

definition email_backoff :: "env \<Rightarrow> int \<Rightarrow> (db, int) tx" where
  "email_backoff E attempts = tx_bind draw (\<lambda>n.
     tx_return (min (2 ^ nat attempts * EMAIL_BACKOFF_BASE_S) EMAIL_BACKOFF_CAP_S + randint E n 30))"

section \<open>Claim and fenced write\<close>

definition email_due :: "env \<Rightarrow> int \<Rightarrow> email_row \<Rightarrow> bool" where
  "email_due E now r \<longleftrightarrow> em_state r = EmPending \<and> em_next_attempt_at r \<le> now \<and> em_attempts r < email_max_attempts E"

definition claim_email :: "int \<Rightarrow> string \<Rightarrow> email_row \<Rightarrow> email_row" where
  "claim_email now worker r = r\<lparr>em_state := EmClaimed, em_claimed_by := Some worker, em_claimed_at := Some now,
     em_claimed_until := Some (now + EMAIL_CLAIM_LEASE_S), em_claim_token := em_claim_token r + 1\<rparr>"

definition due_ids :: "env \<Rightarrow> int \<Rightarrow> email_row list \<Rightarrow> id list" where
  "due_ids E now rows = map em_id (take EMAIL_BATCH
     (sort_key (\<lambda>r. (em_next_attempt_at r, em_id r)) (filter (email_due E now) rows)))"

definition claim_emails :: "env \<Rightarrow> int \<Rightarrow> string \<Rightarrow> (db, email_row list) tx" where
  "claim_emails E now worker =
     tx_bind (tx_get (\<lambda>s. due_ids E now (db_emails s))) (\<lambda>ids.
      if ids = [] then tx_return []
      else
        tx_seq (tx_ignore (sql_update db_emails db_emails_update emails_ok
          (\<lambda>r. em_id r \<in> set ids \<and> em_state r = EmPending) (claim_email now worker)))
          (sql_all db_emails (\<lambda>r. em_id r \<in> set ids \<and> em_state r = EmClaimed \<and> em_claimed_by r = Some worker)))"

definition email_claim :: "email_row \<Rightarrow> string option \<Rightarrow> int \<Rightarrow> email_row \<Rightarrow> bool" where
  "email_claim h worker now r \<longleftrightarrow> em_id r = em_id h \<and> em_state r = EmClaimed \<and> em_claim_token r = em_claim_token h
     \<and> em_claimed_by r = worker \<and> worker \<noteq> None
     \<and> (case em_claimed_until r of None \<Rightarrow> False | Some u \<Rightarrow> now < u)"

definition leased_write :: "email_row \<Rightarrow> (email_row \<Rightarrow> email_row) \<Rightarrow> (db, unit) tx" where
  "leased_write h f =
     tx_bind tx_now (\<lambda>now.
     tx_bind (sql_update db_emails db_emails_update emails_ok (email_claim h (em_claimed_by h) now) f) (\<lambda>n.
     tx_assert (n = 1) RuntimeError))"

section \<open>Suppression\<close>

definition suppression_reason :: "env \<Rightarrow> bool \<Rightarrow> email_row \<Rightarrow> merchant option \<Rightarrow> order_row option \<Rightarrow> string option" where
  "suppression_reason E ready r merchant order =
     (if \<not> email_enabled E then Some ''email-disabled''
      else if \<not> ready then Some ''host-email-unconfigured''
      else case merchant of
        None \<Rightarrow> Some ''merchant-inactive''
      | Some m \<Rightarrow>
          if m_state m = MsInactive then Some ''merchant-inactive''
          else if map_of (m_notify_events m) (email_event_name (em_event_type r)) = Some False
          then Some ''event-disabled''
          else if em_channel r = ChCustomer \<and> (case order of None \<Rightarrow> True | Some k \<Rightarrow> \<not> o_email_opt_in k)
          then Some ''consent-revoked''
          else None)"

section \<open>The message\<close>

fun email_label :: "email_event \<Rightarrow> string" where
  "email_label EvOrderReceived = ''new order received''"
| "email_label EvConfirmed = ''order confirmed''"
| "email_label EvProcessing = ''order processing''"
| "email_label EvShipped = ''order shipped''"
| "email_label EvDelivered = ''order delivered''"
| "email_label EvCancelled = ''order cancelled''"
| "email_label EvExpired = ''order expired''"
| "email_label EvOnHold = ''order on hold''"
| "email_label EvRefundRequested = ''refund requested''"

definition email_subject :: "env \<Rightarrow> merchant \<Rightarrow> email_event \<Rightarrow> string" where
  "email_subject E m ev = take_chars 150
     (str_strip E (if truthy (m_display_name m) then the (m_display_name m) else ''Infinitemarkets'')
      @ '': '' @ email_label ev)"

definition newline :: string where "newline = [char_of (10 :: nat)]"
definition em_dash :: string where "em_dash = map char_of [226, 128, 148 :: nat]"

text \<open>\<open>"\n".join\<close>, and what an f-string shows for \<open>None\<close>.\<close>

definition join_lines :: "string list \<Rightarrow> string" where
  "join_lines ls = concat (case ls of [] \<Rightarrow> [] | l # rest \<Rightarrow> l # map (\<lambda>x. newline @ x) rest)"

definition shown :: "string option \<Rightarrow> string" where
  "shown v = (case v of None \<Rightarrow> ''None'' | Some x \<Rightarrow> x)"

definition email_body :: "email_row \<Rightarrow> order_row option \<Rightarrow> order_item list \<Rightarrow> string option \<Rightarrow>
    (string option \<times> string) list \<Rightarrow> string" where
  "email_body r order items link delivery = join_lines
     ([''Order '' @ email_label (em_event_type r) @ ''.'']
      @ (case order of None \<Rightarrow> [] | Some k \<Rightarrow>
           [''State: '' @ order_state_name (o_state k), ''Total: '' @ str_int (o_total_sat k) @ '' sats''])
      @ map (\<lambda>it. ''- '' @ (if truthy (oi_title it) then the (oi_title it) else ''item'') @ '' x'' @ str_int (oi_quantity it)) items
      @ map (\<lambda>(title, content). newline @ ''Your digital item '' @ em_dash @ '' '' @ shown title @ '':'' @ newline @ content) delivery
      @ (case link of None \<Rightarrow> [] | Some l \<Rightarrow> [''Order status: '' @ l])
      @ [''This is a transactional order notification.''])"

text \<open>\<open>_status_link\<close>: only while the token is live and its sealed copy can be opened.\<close>

definition status_link :: "env \<Rightarrow> int \<Rightarrow> order_row option \<Rightarrow> string option" where
  "status_link E now order =
     (case order of
        None \<Rightarrow> None
      | Some k \<Rightarrow>
          if \<not> truthy (o_public_token_enc k) then None
          else if (case o_public_token_expires_at k of None \<Rightarrow> False | Some x \<Rightarrow> x \<le> now) then None
          else case open_column E (o_id k) ''orders'' ''public_token_enc'' (the (o_public_token_enc k)) of
            Inl _ \<Rightarrow> None
          | Inr token \<Rightarrow> Some (public_base_url E @ ''/infinitemarkets/order#'' @ token))"

section \<open>Before the send\<close>

record mail_job =
  mj_row :: email_row
  mj_merchant :: merchant
  mj_order :: "order_row option"
  mj_items :: "order_item list"
  mj_delivery :: "(string option \<times> string) list"

datatype mail_plan = MailDone string | MailSend mail_job

definition hour_start :: "int \<Rightarrow> int" where "hour_start now = now - now mod 3600"

definition mail_slot :: "email_row \<Rightarrow> int \<Rightarrow> string \<times> string \<times> int" where
  "mail_slot r now = (if em_channel r = ChCustomer then (em_recipient_hash r, ''email-customer'', hour_start now)
     else (em_merchant_id r, ''email-merchant'', hour_start now))"

definition mail_cap :: "email_row \<Rightarrow> int" where
  "mail_cap r = (if em_channel r = ChCustomer then CUSTOMER_HOURLY_CAP else MERCHANT_HOURLY_CAP)"

definition rate_bucket_ok :: "email_row \<Rightarrow> int \<Rightarrow> (db, bool) tx" where
  "rate_bucket_ok r now = (case mail_slot r now of (scope, bucket, window) \<Rightarrow>
     take_slot scope bucket window (window + 7200) (mail_cap r))"

definition order_of_mail :: "email_row \<Rightarrow> (db, order_row option \<times> order_item list) tx" where
  "order_of_mail r =
     (if \<not> truthy (em_order_id r) then tx_return (None, [])
      else
        (let i = the (em_order_id r) in
         tx_bind (sql_one db_orders (\<lambda>k. o_id k = i)) (\<lambda>order.
         tx_bind (sql_all db_items (\<lambda>it. oi_order_id it = i)) (\<lambda>items.
         tx_return (order, items)))))"

definition delivery_of_mail :: "env \<Rightarrow> email_row \<Rightarrow> order_row option \<Rightarrow> (db, (string option \<times> string) list) tx" where
  "delivery_of_mail E r order =
     (case order of
        None \<Rightarrow> tx_return []
      | Some k \<Rightarrow>
          if em_channel r = ChCustomer \<and> em_event_type r = EvConfirmed
          then tx_bind (tx_get (digital_delivery E k)) tx_lift
          else tx_return [])"

definition prepare_mail :: "env \<Rightarrow> bool \<Rightarrow> string \<Rightarrow> int \<Rightarrow> email_row \<Rightarrow> (db, mail_plan) tx" where
  "prepare_mail E ready worker now row =
     tx_bind tx_now (\<lambda>db_now.
     tx_bind (sql_one db_emails (email_claim row (Some worker) db_now)) (\<lambda>live.
     case live of
       None \<Rightarrow> tx_return (MailDone ''lost_claim'')
     | Some r \<Rightarrow>
         tx_bind (sql_one db_merchants (\<lambda>m. m_id m = em_merchant_id r)) (\<lambda>merchant.
         tx_bind (order_of_mail r) (\<lambda>(order, items).
         tx_bind (delivery_of_mail E r order) (\<lambda>delivery.
         case suppression_reason E ready r merchant order of
           Some reason \<Rightarrow>
             tx_seq (leased_write r (\<lambda>x. x\<lparr>em_state := EmSuppressed, em_last_error := Some reason\<rparr>))
               (tx_return (MailDone ''suppressed''))
         | None \<Rightarrow>
             tx_bind (rate_bucket_ok r now) (\<lambda>granted.
             if granted
             then tx_return (MailSend \<lparr>mj_row = r, mj_merchant = the merchant, mj_order = order,
                    mj_items = items, mj_delivery = delivery\<rparr>)
             else
               tx_seq (leased_write r (\<lambda>x. x\<lparr>em_state := EmPending, em_next_attempt_at := hour_start now + 3600,
                    em_claimed_by := None, em_claimed_at := None, em_claimed_until := None\<rparr>))
                 (tx_return (MailDone ''rate-deferred''))))))))"

section \<open>After the send\<close>

definition record_mail :: "env \<Rightarrow> email_row \<Rightarrow> bool \<Rightarrow> int \<Rightarrow> (db, string) tx" where
  "record_mail E r sent now =
     (if sent then
        tx_seq (leased_write r (\<lambda>x. x\<lparr>em_state := EmSent, em_sent_at := Some now, em_recipient_enc := []\<rparr>))
          (tx_return ''sent'')
      else if email_max_attempts E \<le> em_attempts r + 1 then
        tx_seq (leased_write r (\<lambda>x. x\<lparr>em_state := EmFailed, em_attempts := em_attempts r + 1,
            em_last_error := Some ''send-failed''\<rparr>))
          (tx_return ''failed'')
      else
        tx_bind (email_backoff E (em_attempts r + 1)) (\<lambda>b.
        tx_seq (leased_write r (\<lambda>x. x\<lparr>em_state := EmPending, em_attempts := em_attempts r + 1,
            em_next_attempt_at := now + b, em_last_error := Some ''send-failed'',
            em_claimed_by := None, em_claimed_at := None, em_claimed_until := None\<rparr>))
          (tx_return ''retry'')))"

text \<open>What the SMTP call answers for a recipient, a subject and a body, and how long it takes.\<close>

type_synonym smtp = "id \<Rightarrow> string \<Rightarrow> string \<Rightarrow> string \<Rightarrow> bool \<times> int"

definition send_mail :: "env \<Rightarrow> smtp \<Rightarrow> string \<Rightarrow> int \<Rightarrow> mail_job \<Rightarrow> (db, string) proc" where
  "send_mail E smtp worker now j =
     (let r = mj_row j;
          record_id = (if truthy (em_order_id r) then the (em_order_id r) else em_merchant_id r) in
      pr_bind (pr_lift (open_column E record_id ''email_queue'' ''recipient_enc'' (em_recipient_enc r))) (\<lambda>recipient.
      pr_bind (pr_get db_clock) (\<lambda>clock.
      (let body = email_body r (mj_order j) (mj_items j) (status_link E clock (mj_order j)) (mj_delivery j) in
      if (case em_claimed_until r of None \<Rightarrow> True | Some u \<Rightarrow> u \<le> clock) then pr_return ''lost_claim''
      else
        (case smtp (em_id r) recipient (email_subject E (mj_merchant j) (em_event_type r)) body of (sent, took) \<Rightarrow>
          pr_bind (pr_wait took) (\<lambda>_. commit (record_mail E r sent now)))))))"

definition mail_row :: "env \<Rightarrow> bool \<Rightarrow> smtp \<Rightarrow> string \<Rightarrow> int \<Rightarrow> email_row \<Rightarrow> (db, string) proc" where
  "mail_row E ready smtp worker now row =
     pr_bind (commit (prepare_mail E ready worker now row)) (\<lambda>plan.
     case plan of
       MailDone outcome \<Rightarrow> pr_return outcome
     | MailSend j \<Rightarrow> send_mail E smtp worker now j)"

text \<open>The pass; a row that raises is isolated as \<open>error\<close>.\<close>

definition email_tick :: "env \<Rightarrow> bool \<Rightarrow> smtp \<Rightarrow> string \<Rightarrow> int \<Rightarrow> (db, nat \<times> string list) proc" where
  "email_tick E ready smtp worker now =
     pr_bind (commit (claim_emails E now worker)) (\<lambda>rows.
     pr_bind (pr_fold (\<lambda>outcomes row.
         pr_bind (pr_catch (mail_row E ready smtp worker now row) (\<lambda>_. pr_return ''error'')) (\<lambda>o'.
         pr_return (outcomes @ [o']))) [] rows) (\<lambda>outcomes.
     pr_return (length rows, outcomes)))"

section \<open>Recovery and test messages\<close>

definition recover_emails :: "int \<Rightarrow> (db, nat) tx" where
  "recover_emails now = sql_update db_emails db_emails_update emails_ok
     (\<lambda>r. em_state r = EmClaimed \<and> (case em_claimed_until r of None \<Rightarrow> False | Some u \<Rightarrow> u \<le> now))
     (\<lambda>r. r\<lparr>em_state := EmPending, em_claimed_by := None, em_claimed_at := None, em_claimed_until := None\<rparr>)"

definition enqueue_test_send :: "env \<Rightarrow> id \<Rightarrow> string \<Rightarrow> int \<Rightarrow> (db, id) tx" where
  "enqueue_test_send E merchant recipient now =
     tx_bind (seal_column E merchant ''email_queue'' ''recipient_enc'' recipient) (\<lambda>enc.
     tx_bind (new_uuid E) (\<lambda>i.
     tx_seq (sql_insert db_emails_update emails_ok
         \<lparr>em_id = i, em_merchant_id = merchant, em_order_id = None, em_channel = ChMerchant,
          em_event_type = EvOrderReceived, em_recipient_enc = enc,
          em_recipient_hash = email_recipient_hash E merchant recipient,
          em_state = EmPending, em_attempts = 0, em_next_attempt_at = now, em_claimed_by = None,
          em_claimed_at = None, em_claimed_until = None, em_claim_token = 0,
          em_last_error = None, em_created_at = now, em_sent_at = None\<rparr>)
       (tx_return i)))"

end
