(* ===== verification/EmailLaws.thy ===== *)
theory EmailLaws
  imports Email Fencing Recovery Samples
begin

text \<open>
  What the e-mail worker guarantees: the step relation of everything that moves a row of the
  e-mail queue or takes a slot of a rate limit, the queue as a fenced table, the hourly caps as
  limiters, and the properties of a send.
\<close>

section \<open>Steps\<close>

datatype mail_label = Quiet | Mails "string \<times> string \<times> int"

inductive mail_step :: "db \<Rightarrow> mail_label \<Rightarrow> db \<Rightarrow> bool" where
  claims: "claim_emails E now w s = Inr (r, t) \<Longrightarrow> mail_step s Quiet t"
| mails: "prepare_mail E ready w now row s = Inr (MailSend j, t) \<Longrightarrow> mail_step s (Mails (mail_slot (mj_row j) now)) t"
| settles: "prepare_mail E ready w now row s = Inr (MailDone o', t) \<Longrightarrow> mail_step s Quiet t"
| records: "record_mail E h sent now s = Inr (r, t) \<Longrightarrow> mail_step s Quiet t"
| recovers: "recover_emails now s = Inr (n, t) \<Longrightarrow> mail_step s Quiet t"
| tests: "enqueue_test_send E m recipient now s = Inr (i, t) \<Longrightarrow> mail_step s Quiet t"
| enqueues: "enqueue_email_intents E k m opt_in ev ctx now s = Inr (n, t) \<Longrightarrow> mail_step s Quiet t"
| erases: "erase_dependents now s = Inr (u, t) \<Longrightarrow> mail_step s Quiet t"
| elsewhere: "db_emails t = db_emails s \<Longrightarrow> db_clock s \<le> db_clock t \<Longrightarrow> (\<And>k. slots k s \<le> slots k t)
    \<Longrightarrow> mail_step s Quiet t"

definition mail_epoch :: "email_row \<Rightarrow> int" where
  "mail_epoch r = 2 * em_claim_token r + (if em_state r = EmClaimed then 0 else 1)"

definition mail_terms :: "email_row \<Rightarrow> (string option \<times> int option) option" where
  "mail_terms r = (if em_state r = EmClaimed then Some (em_claimed_by r, em_claimed_until r) else None)"

abbreviation mail_moves :: "(db, 'a) tx \<Rightarrow> bool" where
  "mail_moves \<equiv> tx_moves db_emails em_id (moved_on mail_epoch mail_terms)"

lemmas mail_views = moved_on_def mail_epoch_def mail_terms_def

lemma moves_claim_emails: "mail_moves (claim_emails E now w)"
  unfolding claim_emails_def Let_def
  by (intro moves moves_keeps [OF keeps_sql_all] moves_keeps [OF tx_keeps_get] moves_keeps [OF tx_keeps_return] moves_update)
    (auto simp: mail_views claim_email_def)

lemma moves_leased_write:
  assumes "\<And>r. em_id (f r) = em_id r \<and> em_claim_token (f r) = em_claim_token r \<and> em_state (f r) \<noteq> EmClaimed"
  shows "mail_moves (leased_write h f)"
  unfolding leased_write_def
  by (intro moves moves_keeps [OF tx_keeps_get] moves_keeps [OF tx_keeps_assert] moves_update)
    (use assms in \<open>auto simp: mail_views email_claim_def\<close>)

lemma keeps_mail_reads [keeps]:
  "tx_keeps f (order_of_mail r)" "tx_keeps f (delivery_of_mail E r ord)"
  unfolding order_of_mail_def delivery_of_mail_def Let_def by (intro keeps)+

lemma keeps_rate_bucket [keeps]:
  "(\<And>g s. f (db_buckets_update g s) = f s) \<Longrightarrow> tx_keeps f (rate_bucket_ok r now)"
  unfolding rate_bucket_ok_def by (intro keeps)

lemma keeps_email_backoff [keeps]: "(\<And>g s. f (db_draws_update g s) = f s) \<Longrightarrow> tx_keeps f (email_backoff E n)"
  unfolding email_backoff_def by (intro keeps)

lemma moves_prepare_mail: "mail_moves (prepare_mail E ready w now row)"
  unfolding prepare_mail_def
  by (intro moves moves_leased_write moves_keeps [OF keeps_mail_reads(1)] moves_keeps [OF keeps_mail_reads(2)]
      moves_keeps [OF tx_keeps_get] moves_keeps [OF keeps_sql_one] moves_keeps [OF tx_keeps_return]
      moves_keeps [OF keeps_rate_bucket]) simp_all

lemma moves_record_mail: "mail_moves (record_mail E h sent now)"
  unfolding record_mail_def
  by (intro moves moves_leased_write moves_keeps [OF tx_keeps_return] moves_keeps [OF keeps_email_backoff]) simp_all

lemma moves_recover_emails: "mail_moves (recover_emails now)"
  unfolding recover_emails_def by (rule moves_update) (auto simp: mail_views)

lemma emails_ids: "emails_ok s \<Longrightarrow> distinct (map em_id (db_emails s))"
  by (simp add: emails_ok_def)

lemma moves_new_emails:
  "mail_moves (enqueue_test_send E m recipient now)"
  "mail_moves (enqueue_email_intents E k m opt_in ev ctx now)"
  unfolding enqueue_test_send_def enqueue_email_intents_def insert_email_def
  by (intro moves moves_insert [OF _ emails_ids] moves_keeps [OF tx_keeps_return] moves_keeps [OF tx_keeps_assert]
      moves_keeps [OF keeps_new_uuid] moves_keeps [OF keeps_seal_column]; simp)+

lemma moves_erase_dependents: "mail_moves (erase_dependents now)"
  unfolding erase_dependents_def
  by (intro moves moves_keeps [OF tx_keeps_get] moves_update)
    (auto intro!: moves_keeps keeps_sql simp: mail_views)

section \<open>The queue is fenced, the caps are limits\<close>

lemma mail_step_moves: "mail_step s l t \<Longrightarrow> table_advances em_id mail_epoch mail_terms (db_emails s) (db_emails t)"
  by (induction rule: mail_step.induct)
    (auto dest: tx_movesD [OF moves_claim_emails] tx_movesD [OF moves_prepare_mail] tx_movesD [OF moves_record_mail]
      tx_movesD [OF moves_recover_emails] tx_movesD [OF moves_new_emails(1)] tx_movesD [OF moves_new_emails(2)]
      tx_movesD [OF moves_erase_dependents])

lemma keeps_leased_write [keeps]:
  "(\<And>g s. f (db_emails_update g s) = f s) \<Longrightarrow> tx_keeps f (leased_write h w)"
  unfolding leased_write_def by (intro keeps keeps_sql)

lemma keeps_queue_ops [keeps]:
  assumes "\<And>g s. f (db_emails_update g s) = f s" "\<And>g s. f (db_draws_update g s) = f s"
  shows "tx_keeps f (claim_emails E now w)" "tx_keeps f (record_mail E h sent now)" "tx_keeps f (recover_emails now)"
    "tx_keeps f (enqueue_test_send E m recipient now)"
  unfolding claim_emails_def record_mail_def recover_emails_def enqueue_test_send_def Let_def
  by (intro keeps keeps_sql assms)+

lemma keeps_prepare_mail:
  assumes "\<And>g s. f (db_emails_update g s) = f s" "\<And>g s. f (db_buckets_update g s) = f s"
  shows "tx_keeps f (prepare_mail E ready w now row)"
  unfolding prepare_mail_def by (intro keeps assms)

lemma keeps_erase_dependents:
  assumes "\<And>g s. f (db_emails_update g s) = f s" "\<And>g s. f (db_fulfillment_update g s) = f s"
    "\<And>g s. f (db_idempotency_update g s) = f s" "\<And>g s. f (db_messages_update g s) = f s"
  shows "tx_keeps f (erase_dependents now)"
  unfolding erase_dependents_def by (intro keeps keeps_sql assms)

lemma slots_other [simp]:
  "slots k (db_emails_update g s) = slots k s" "slots k (db_draws_update h s) = slots k s"
  "slots k (db_fulfillment_update g1 s) = slots k s" "slots k (db_idempotency_update g2 s) = slots k s"
  "slots k (db_messages_update g3 s) = slots k s"
  by (simp_all add: slots_def)

text \<open>Everything but a preparation leaves clock and rate limits alone, and a preparation the clock.\<close>

lemma keeps_clock_and_slots:
  "tx_keeps (\<lambda>s. (db_clock s, slots k s)) (claim_emails E now w)"
  "tx_keeps (\<lambda>s. (db_clock s, slots k s)) (record_mail E h sent now)"
  "tx_keeps (\<lambda>s. (db_clock s, slots k s)) (recover_emails now)"
  "tx_keeps (\<lambda>s. (db_clock s, slots k s)) (enqueue_test_send E m recipient now)"
  "tx_keeps (\<lambda>s. (db_clock s, slots k s)) (enqueue_email_intents E ord m opt_in ev ctx now)"
  "tx_keeps (\<lambda>s. (db_clock s, slots k s)) (erase_dependents now)"
  by (intro keeps keeps_erase_dependents; simp)+

lemma prepare_mail_clock: "tx_keeps db_clock (prepare_mail E ready w now row)"
  by (intro keeps_prepare_mail) simp_all

lemmas quiet_steps = keeps_clock_and_slots [THEN tx_keepsD]

lemma mail_step_clock: "mail_step s l t \<Longrightarrow> db_clock s \<le> db_clock t"
  by (induction rule: mail_step.induct) (auto dest!: quiet_steps tx_keepsD [OF prepare_mail_clock])

definition slot_cap :: "string \<times> string \<times> int \<Rightarrow> int" where
  "slot_cap k = (if fst (snd k) = ''email-customer'' then CUSTOMER_HOURLY_CAP else MERCHANT_HOURLY_CAP)"

definition mail_order :: "email_row \<Rightarrow> db \<Rightarrow> order_row option" where
  "mail_order r s = (if truthy (em_order_id r) then List.find (\<lambda>k. o_id k = the (em_order_id r)) (db_orders s) else None)"

definition mail_items :: "email_row \<Rightarrow> db \<Rightarrow> order_item list" where
  "mail_items r s = (if truthy (em_order_id r) then filter (\<lambda>it. oi_order_id it = the (em_order_id r)) (db_items s) else [])"

definition mail_delivery :: "env \<Rightarrow> email_row \<Rightarrow> db \<Rightarrow> error + (string option \<times> string) list" where
  "mail_delivery E r s = (case mail_order r s of
      Some k \<Rightarrow> if em_channel r = ChCustomer \<and> em_event_type r = EvConfirmed then digital_delivery E k s else Inr []
    | None \<Rightarrow> Inr [])"

definition mail_merchant :: "email_row \<Rightarrow> db \<Rightarrow> merchant option" where
  "mail_merchant r s = List.find (\<lambda>m. m_id m = em_merchant_id r) (db_merchants s)"

text \<open>The reads of a preparation, evaluated.\<close>

lemma prepare_mail_run:
  "prepare_mail E ready w now row s =
     (case List.find (email_claim row (Some w) (db_clock s)) (db_emails s) of
        None \<Rightarrow> Inr (MailDone ''lost_claim'', s)
      | Some r \<Rightarrow>
          (case mail_delivery E r s of
             Inl e \<Rightarrow> Inl e
           | Inr d \<Rightarrow>
               (case suppression_reason E ready r (mail_merchant r s) (mail_order r s) of
                  Some reason \<Rightarrow>
                    tx_seq (leased_write r (\<lambda>x. x\<lparr>em_state := EmSuppressed, em_last_error := Some reason\<rparr>))
                      (tx_return (MailDone ''suppressed'')) s
                | None \<Rightarrow>
                    tx_bind (rate_bucket_ok r now) (\<lambda>granted.
                    if granted
                    then tx_return (MailSend \<lparr>mj_row = r, mj_merchant = the (mail_merchant r s),
                      mj_order = mail_order r s, mj_items = mail_items r s, mj_delivery = d\<rparr>)
                    else
                      tx_seq (leased_write r (\<lambda>x. x\<lparr>em_state := EmPending, em_next_attempt_at := hour_start now + 3600,
                           em_claimed_by := None, em_claimed_at := None, em_claimed_until := None\<rparr>))
                        (tx_return (MailDone ''rate-deferred''))) s)))"
proof -
  have orders: "order_of_mail r s = Inr ((mail_order r s, mail_items r s), s)" for r
    by (simp add: order_of_mail_def mail_order_def mail_items_def tx_bind_def tx_return_def sql_one_def sql_all_def
        tx_get_def Let_def)
  have delivery: "delivery_of_mail E r (mail_order r s) s
      = (case mail_delivery E r s of Inl e \<Rightarrow> Inl e | Inr d \<Rightarrow> Inr (d, s))" for r
    by (simp add: delivery_of_mail_def mail_delivery_def tx_bind_def tx_return_def tx_get_def tx_lift_def tx_raise_def
        split: option.split sum.split)
  have one: "sql_one db_emails P s = Inr (List.find P (db_emails s), s)"
    "sql_one db_merchants Q s = Inr (List.find Q (db_merchants s), s)" for P Q
    by (simp_all add: sql_one_def tx_get_def)
  show ?thesis
    unfolding prepare_mail_def
    by (simp add: one orders delivery tx_get_def tx_return_def mail_merchant_def tx_bind_def
        split: option.split sum.split)
qed

lemma rate_bucket_run:
  assumes "rate_bucket_ok r now s = Inr (g, t)"
  shows "slots k t = slots k s + (if g \<and> k = mail_slot r now then 1 else 0)"
    and "g \<Longrightarrow> k = mail_slot r now \<Longrightarrow> slots k t \<le> slot_cap k"
proof -
  obtain scope bucket window where m: "mail_slot r now = (scope, bucket, window)" by (cases "mail_slot r now")
  then have cap: "mail_cap r = slot_cap (scope, bucket, window)" "1 \<le> mail_cap r"
    by (auto simp: mail_slot_def mail_cap_def slot_cap_def CUSTOMER_HOURLY_CAP_def MERCHANT_HOURLY_CAP_def split: if_splits)
  note run = assms [unfolded rate_bucket_ok_def m prod.case]
  show "slots k t = slots k s + (if g \<and> k = mail_slot r now then 1 else 0)"
    using take_slot_run(1) [OF run, of k] m by simp
  show "g \<Longrightarrow> k = mail_slot r now \<Longrightarrow> slots k t \<le> slot_cap k"
    using take_slot_run(1,2) [OF run] m cap by fastforce
qed

text \<open>A prepared message took a slot of its window; no other plan did.\<close>

lemma prepare_mail_slots:
  assumes run: "prepare_mail E ready w now row s = Inr (plan, t)"
  shows "slots k t = slots k s + (case plan of MailSend j \<Rightarrow> if k = mail_slot (mj_row j) now then 1 else 0 | _ \<Rightarrow> 0)"
    and "plan = MailSend j \<Longrightarrow> k = mail_slot (mj_row j) now \<Longrightarrow> slots k t \<le> slot_cap k"
proof -
  have keep: "slots k b = slots k a" if "leased_write h f a = Inr (u, b)" for h f a u b
    by (rule tx_keepsD [OF keeps_leased_write that]) simp
  show "slots k t = slots k s + (case plan of MailSend j \<Rightarrow> if k = mail_slot (mj_row j) now then 1 else 0 | _ \<Rightarrow> 0)"
    using run unfolding prepare_mail_run
    by (auto simp: tx_Inr split: option.splits sum.splits if_splits dest!: keep rate_bucket_run(1) [where k = k])
  show "plan = MailSend j \<Longrightarrow> k = mail_slot (mj_row j) now \<Longrightarrow> slots k t \<le> slot_cap k"
    using run unfolding prepare_mail_run
    by (auto simp: tx_Inr split: option.splits sum.splits if_splits dest: rate_bucket_run(2))
qed

definition mail_owns :: "email_row \<Rightarrow> int \<Rightarrow> email_row \<Rightarrow> bool" where
  "mail_owns h now r \<longleftrightarrow> em_state h = EmClaimed \<and> email_claim h (em_claimed_by h) now r"

interpretation mailing: fencing db_emails em_id mail_epoch mail_terms db_clock "\<lambda>s t. \<exists>l. mail_step s l t" mail_owns
proof unfold_locales
  show "table_advances em_id mail_epoch mail_terms (db_emails s) (db_emails t)" if "\<exists>l. mail_step s l t" for s t
    using that mail_step_moves by blast
  show "db_clock s \<le> db_clock t" if "\<exists>l. mail_step s l t" for s t
    using that mail_step_clock by blast
qed (auto simp: mail_owns_def email_claim_def mail_epoch_def mail_terms_def split: if_splits option.splits | presburger)+

interpretation hourly: limiter "slots k" "slot_cap k" mail_step "\<lambda>l. l = Mails k" for k
proof unfold_locales
  show "slots k s \<le> slots k t" if "mail_step s l t" for s l t
    using that by (induction rule: mail_step.induct)
      (auto dest!: keeps_clock_and_slots [of k, THEN tx_keepsD] dest: prepare_mail_slots(1) [where k = k])
  show "slots k s < slots k t \<and> slots k t \<le> slot_cap k" if "mail_step s l t" "l = Mails k" for s l t
    using that by cases (auto dest: prepare_mail_slots(1) [where k = k] prepare_mail_slots(2) [where k = k])
qed

section \<open>Writes that are refused, passes that return\<close>

lemma emails_ok_cong: "db_emails t = db_emails s \<Longrightarrow> emails_ok t = emails_ok s"
  by (simp add: emails_ok_def)

lemma emails_ok_update:
  assumes "\<And>r. em_id (f r) = em_id r \<and> em_order_id (f r) = em_order_id r \<and> em_channel (f r) = em_channel r
    \<and> em_event_type (f r) = em_event_type r \<and> em_recipient_hash (f r) = em_recipient_hash r"
  shows "emails_ok (db_emails_update (upd_rows P f) s) = emails_ok s"
proof -
  have "map em_id (upd_rows P f xs) = map em_id xs" for xs
    using assms by (intro map_upd_rows) simp
  moreover have "map (\<lambda>r. (em_order_id r, em_channel r, em_event_type r, em_recipient_hash r))
      (filter (\<lambda>r. em_order_id r \<noteq> None) (upd_rows P f xs))
    = map (\<lambda>r. (em_order_id r, em_channel r, em_event_type r, em_recipient_hash r))
      (filter (\<lambda>r. em_order_id r \<noteq> None) xs)" for xs
    using assms by (induction xs) (auto simp: upd_rows_def)
  ultimately show ?thesis by (simp add: emails_ok_def)
qed

lemma emails_ok_inv:
  "tx_inv emails_ok (sql_update db_emails db_emails_update emails_ok P f)"
  "tx_inv emails_ok (sql_insert db_emails_update emails_ok row)"
  "tx_inv emails_ok (sql_insert_ignore db_emails_update emails_ok row)"
  by (auto intro!: tx_invI simp: sql_Inr split: if_splits)

lemma emails_ok_keeps: "tx_keeps db_emails m \<Longrightarrow> tx_inv emails_ok m"
  by (rule tx_invI) (metis emails_ok_cong tx_keepsD)

lemmas queue_inv_rules = tx_inv_bind tx_inv_seq tx_inv_ignore tx_inv_if tx_inv_option tx_inv_fold emails_ok_inv

lemma emails_ok_leased: "tx_inv emails_ok (leased_write h f)"
  unfolding leased_write_def by (intro queue_inv_rules emails_ok_keeps keeps)

lemma emails_ok_ops:
  "tx_inv emails_ok (claim_emails E now w)" "tx_inv emails_ok (record_mail E h sent now)"
  "tx_inv emails_ok (recover_emails now)" "tx_inv emails_ok (enqueue_test_send E m recipient now)"
  "tx_inv emails_ok (enqueue_email_intents E k m opt_in ev ctx now)"
  unfolding claim_emails_def record_mail_def recover_emails_def enqueue_test_send_def enqueue_email_intents_def
    insert_email_def Let_def
  by (intro queue_inv_rules emails_ok_leased emails_ok_keeps keeps keeps_sql; simp)+

lemma emails_ok_prepare: "tx_inv emails_ok (prepare_mail E ready w now row)"
proof (rule tx_invI)
  show "emails_ok t" if "emails_ok s" "prepare_mail E ready w now row s = Inr (plan, t)" for s plan t
  proof -
    have bucket: "db_emails b = db_emails a" if "rate_bucket_ok r now a = Inr (g, b)" for r a g b
      by (rule tx_keepsD [OF keeps_rate_bucket that]) simp
    show ?thesis
      using that unfolding prepare_mail_run
      by (auto simp: tx_Inr split: option.splits sum.splits if_splits
          intro: tx_invD [OF emails_ok_leased] dest!: bucket emails_ok_cong)
  qed
qed

lemma emails_ok_erase: "tx_inv emails_ok (erase_dependents now)"
  unfolding erase_dependents_def
  by (intro tx_inv_bind tx_inv_seq tx_inv_ignore emails_ok_inv) (intro emails_ok_keeps keeps keeps_sql; simp)+

lemma mail_step_ok: "mail_step s l t \<Longrightarrow> emails_ok s \<Longrightarrow> emails_ok t"
  by (induction rule: mail_step.induct)
    (auto dest: tx_invD [OF emails_ok_ops(1)] tx_invD [OF emails_ok_ops(2)] tx_invD [OF emails_ok_ops(3)]
      tx_invD [OF emails_ok_ops(4)] tx_invD [OF emails_ok_ops(5)] tx_invD [OF emails_ok_prepare]
      tx_invD [OF emails_ok_erase] emails_ok_cong)

lemma mail_run_ok: "(\<lambda>s t. \<exists>l. mail_step s l t)\<^sup>*\<^sup>* s t \<Longrightarrow> emails_ok s \<Longrightarrow> emails_ok t"
  by (induction rule: rtranclp_induct) (auto dest: mail_step_ok)

lemma leased_write_refused:
  assumes "emails_ok s" "\<forall>x \<in> set (db_emails s). \<not> email_claim h (em_claimed_by h) (db_clock s) x"
  shows "leased_write h f s = Inl RuntimeError"
proof -
  have "upd_rows (email_claim h (em_claimed_by h) (db_clock s)) f (db_emails s) = db_emails s"
    using assms(2) by (intro upd_rows_None) simp
  then have "emails_ok (db_emails_update (upd_rows (email_claim h (em_claimed_by h) (db_clock s)) f) s)"
    using assms(1) by (simp add: emails_ok_def)
  moreover have "filter (email_claim h (em_claimed_by h) (db_clock s)) (db_emails s) = []"
    using assms(2) by (simp add: filter_empty_conv)
  ultimately show ?thesis
    by (simp add: leased_write_def tx_bind_def tx_get_def sql_update_def Let_def tx_assert_def tx_raise_def)
qed

lemma record_mail_refused:
  assumes "emails_ok s" "\<forall>x \<in> set (db_emails s). \<not> email_claim h (em_claimed_by h) (db_clock s) x"
  shows "record_mail E h sent now s = Inl RuntimeError"
proof -
  have "emails_ok (db_draws_update Suc s)" using assms(1) by (simp add: emails_ok_def)
  then show ?thesis
    using leased_write_refused [OF assms] leased_write_refused [of "db_draws_update Suc s" h] assms(2)
    by (simp add: record_mail_def tx_seq_def tx_bind_def email_backoff_def draw_def tx_get_def tx_modify_def tx_return_def)
qed

lemma keyed_filter_length:
  assumes "distinct (map key xs)"
  shows "length (filter (\<lambda>x. key x \<in> set ks \<and> P x) xs) \<le> length ks"
proof -
  let ?ys = "filter (\<lambda>x. key x \<in> set ks \<and> P x) xs"
  have "distinct (map key ?ys)" using assms by (rule distinct_map_filter)
  from distinct_card [OF this] have "length ?ys = card (set (map key ?ys))" by (simp only: length_map)
  also have "\<dots> \<le> card (set ks)" by (rule card_mono) auto
  also have "\<dots> \<le> length ks" by (rule card_length)
  finally show ?thesis .
qed

lemma claim_emails_returns:
  assumes "emails_ok s"
  obtains rows t where "claim_emails E now w s = Inr (rows, t)" "length rows \<le> EMAIL_BATCH"
proof -
  define ids where "ids = due_ids E now (db_emails s)"
  define u where "u = db_emails_update (upd_rows (\<lambda>r. em_id r \<in> set ids \<and> em_state r = EmPending) (claim_email now w)) s"
  let ?rows = "filter (\<lambda>r. em_id r \<in> set ids \<and> em_state r = EmClaimed \<and> em_claimed_by r = Some w) (db_emails u)"
  have ok: "emails_ok u" unfolding u_def using assms by (subst emails_ok_update) (simp_all add: claim_email_def)
  have run: "claim_emails E now w s = Inr (if ids = [] then ([], s) else (?rows, u))"
    using ok by (simp add: claim_emails_def sql_all_def tx_get_def tx_bind_def tx_seq_def tx_ignore_def tx_return_def
        sql_update_def Let_def ids_def [symmetric] u_def [symmetric])
  have "length ?rows \<le> length ids" using emails_ids [OF ok] by (rule keyed_filter_length)
  also have "\<dots> \<le> EMAIL_BATCH" by (simp add: ids_def due_ids_def)
  finally have "length ?rows \<le> EMAIL_BATCH" .
  then show ?thesis
  proof (cases "ids = []")
    case True
    with run show ?thesis by (intro that [of "[]" s]) simp_all
  next
    case False
    with run \<open>length ?rows \<le> EMAIL_BATCH\<close> show ?thesis by (intro that [of ?rows u]) simp_all
  qed
qed

definition mail_outcomes :: "string set" where
  "mail_outcomes = {''lost_claim'', ''suppressed'', ''rate-deferred'', ''sent'', ''failed'', ''retry'', ''error''}"

lemma pr_yields_after:
  "tx_yields Q m \<Longrightarrow> (\<And>a. Q a \<Longrightarrow> pr_yields P (k a)) \<Longrightarrow> pr_yields P (pr_bind (commit m) k)"
  by (fastforce simp: tx_yields_def pr_yields_def pr_Inr)

lemma mail_row_outcome: "pr_yields (\<lambda>o'. o' \<in> mail_outcomes) (mail_row E ready smtp w now row)"
proof -
  have plan: "tx_yields (\<lambda>p. case p of MailDone o' \<Rightarrow> o' \<in> mail_outcomes | MailSend j \<Rightarrow> True)
      (prepare_mail E ready w now row)"
    unfolding prepare_mail_def by (intro yields) (simp_all add: mail_outcomes_def)
  have rec: "tx_yields (\<lambda>o'. o' \<in> mail_outcomes) (record_mail E h sent now)" for h sent
    unfolding record_mail_def by (intro yields) (simp_all add: mail_outcomes_def)
  have send: "pr_yields (\<lambda>o'. o' \<in> mail_outcomes) (send_mail E smtp w now j)" for j
    unfolding send_mail_def Let_def by (intro yields rec) (simp add: mail_outcomes_def)
  show ?thesis
    unfolding mail_row_def
    by (rule pr_yields_after [OF plan]) (auto simp: pr_yields_def pr_return_Inr dest: pr_yieldsD [OF send]
        split: mail_plan.splits)
qed

lemma outcomes_fold:
  "\<exists>os t. pr_fold (\<lambda>outcomes row.
        pr_bind (pr_catch (mail_row E ready smtp w now row) (\<lambda>_. pr_return ''error'')) (\<lambda>o'.
        pr_return (outcomes @ [o']))) acc rows s = (Inr os, t)
     \<and> length os = length acc + length rows \<and> (set acc \<subseteq> mail_outcomes \<longrightarrow> set os \<subseteq> mail_outcomes)"
proof (induction rows arbitrary: acc s)
  case Nil
  then show ?case by (simp add: pr_return_def)
next
  case (Cons row rows)
  have "\<exists>x u. pr_catch (mail_row E ready smtp w now row) (\<lambda>_. pr_return ''error'') s = (Inr x, u)"
    by (auto simp: pr_catch_def pr_return_def split: prod.split sum.split)
  then obtain x u where x: "pr_catch (mail_row E ready smtp w now row) (\<lambda>_. pr_return ''error'') s = (Inr x, u)"
    by blast
  have "pr_yields (\<lambda>o'. o' \<in> mail_outcomes) (pr_catch (mail_row E ready smtp w now row) (\<lambda>_. pr_return ''error''))"
    by (intro yields mail_row_outcome) (simp add: mail_outcomes_def)
  note x = x pr_yieldsD [OF this x]
  with Cons.IH [of "acc @ [x]" u] show ?case
    by (auto simp: pr_bind_def pr_return_def)
qed

section \<open>A concrete queue\<close>

definition sample_email :: email_row where
  "sample_email = \<lparr>em_id = ''e'', em_merchant_id = ''m'', em_order_id = None, em_channel = ChMerchant,
     em_event_type = EvOrderReceived, em_recipient_enc = sample_sealed ''m'' ''email_queue'' ''recipient_enc'' ''a'',
     em_recipient_hash = ''h'', em_state = EmPending, em_attempts = 0, em_next_attempt_at = 0,
     em_claimed_by = None, em_claimed_at = None, em_claimed_until = None, em_claim_token = 0,
     em_last_error = None, em_created_at = 0, em_sent_at = None\<rparr>"

definition queue_db :: "email_row list \<Rightarrow> db" where
  "queue_db rows = empty_db\<lparr>db_merchants := [sample_merchant], db_emails := rows\<rparr>"

definition held_email :: email_row where "held_email = claim_email 1000 ''w'' sample_email"

definition sample_job :: mail_job where
  "sample_job = \<lparr>mj_row = held_email, mj_merchant = sample_merchant, mj_order = None, mj_items = [], mj_delivery = []\<rparr>"

lemmas queue_evals = queue_db_def held_email_def claim_email_def sample_email_def email_claim_def EMAIL_CLAIM_LEASE_S_def evals

lemma held_fields: "em_id held_email = ''e''" "em_state held_email = EmClaimed" "em_claimed_by held_email = Some ''w''"
    "em_claimed_until held_email = Some 1120" "em_channel held_email = ChMerchant" "em_merchant_id held_email = ''m''"
  by (simp_all add: queue_evals)

lemma prepare_sample_mail:
  "\<exists>t. prepare_mail sample_env True ''w'' 1000 held_email (queue_db [held_email]) = Inr (MailSend sample_job, t)"
  by (simp add: prepare_mail_run queue_evals mail_delivery_def mail_order_def mail_items_def mail_merchant_def truthy_def
      suppression_reason_def rate_bucket_ok_def mail_slot_def take_slot_def hour_start_def buckets_ok_def sample_job_def)

section \<open>The laws\<close>

text \<open>
  C26 (Hourly caps). In any run of the queue, whatever workers, recoveries and new rows it has, at
  most eight messages go out to one customer and sixty for one merchant in one hour, less those the
  hour already had when the run began.
\<close>

theorem mails_within_hourly_caps:
  assumes "labelled_run mail_step s ls t"
  shows "int (length (filter (\<lambda>l. l = Mails (h, ''email-customer'', hour)) ls))
      \<le> max 0 (CUSTOMER_HOURLY_CAP - slots (h, ''email-customer'', hour) s)
    \<and> int (length (filter (\<lambda>l. l = Mails (m, ''email-merchant'', hour)) ls))
      \<le> max 0 (MERCHANT_HOURLY_CAP - slots (m, ''email-merchant'', hour) s)"
proof -
  have "int (length (filter (\<lambda>l. l = Mails k) ls)) \<le> max 0 (slot_cap k - slots k s)" for k
    using hourly.run_within [OF assms, of k] by (cases "filter (\<lambda>l. l = Mails k) ls = []") auto
  from this [of "(h, ''email-customer'', hour)"] this [of "(m, ''email-merchant'', hour)"]
  show ?thesis by (simp add: slot_cap_def)
qed

lemma lost_mail_row:
  assumes ok: "emails_ok s0" and h: "h \<in> set (db_emails s0)" "em_state h = EmClaimed" "em_claimed_by h = Some w"
    and run: "(\<lambda>s t. \<exists>l. mail_step s l t)\<^sup>*\<^sup>* s0 s"
    and lost: "\<forall>x \<in> set (db_emails s). \<not> email_claim h (Some w) (db_clock s) x"
    and later: "(\<lambda>s t. \<exists>l. mail_step s l t)\<^sup>*\<^sup>* s t"
  shows "prepare_mail E ready w now h t = Inr (MailDone ''lost_claim'', t)"
    "record_mail E h sent now t = Inl RuntimeError"
proof -
  have "\<not> mail_owns h (db_clock t) y" if "y \<in> set (db_emails t)" for y
    using h lost that by (intro mailing.lost_for_good [OF emails_ids [OF ok] h(1) run _ later]) (auto simp: mail_owns_def)
  then have no: "\<forall>y \<in> set (db_emails t). \<not> email_claim h (Some w) (db_clock t) y"
    using h by (auto simp: mail_owns_def)
  then have "List.find (email_claim h (Some w) (db_clock t)) (db_emails t) = None"
    by (simp add: find_None_iff)
  then show "prepare_mail E ready w now h t = Inr (MailDone ''lost_claim'', t)" by (simp add: prepare_mail_run)
  show "record_mail E h sent now t = Inl RuntimeError"
    using no h mail_run_ok [OF later mail_run_ok [OF run ok]] by (intro record_mail_refused) auto
qed

lemma mail_wait: "0 \<le> d \<Longrightarrow> \<exists>l. mail_step t l (db_clock_update (\<lambda>c. c + d) t)"
  by (intro exI [of _ Quiet] elsewhere) (simp_all add: slots_def)

lemma send_mail_run:
  "send_mail E smtp w now j t =
     (case open_column E (if truthy (em_order_id (mj_row j)) then the (em_order_id (mj_row j)) else em_merchant_id (mj_row j))
         ''email_queue'' ''recipient_enc'' (em_recipient_enc (mj_row j)) of
        Inl e \<Rightarrow> (Inl e, t)
      | Inr recipient \<Rightarrow>
          if (case em_claimed_until (mj_row j) of None \<Rightarrow> True | Some u \<Rightarrow> u \<le> db_clock t) then (Inr ''lost_claim'', t)
          else (case smtp (em_id (mj_row j)) recipient (email_subject E (mj_merchant j) (em_event_type (mj_row j)))
                  (email_body (mj_row j) (mj_order j) (mj_items j) (status_link E (db_clock t) (mj_order j)) (mj_delivery j)) of
             (sent, took) \<Rightarrow> commit (record_mail E (mj_row j) sent now) (db_clock_update (\<lambda>c. c + took) t)))"
  by (simp add: send_mail_def pr_bind_def pr_lift_def pr_raise_def pr_return_def pr_get_def pr_wait_def Let_def
      split: sum.split option.split prod.split)

text \<open>
  C27 (Fencing). A worker whose claim on a message ran out, was recovered, taken over or erased can
  neither pass the preparation of that message nor record an outcome for it, whatever happens
  afterwards. If it is already past the preparation, its send leaves the queue as it is and ends as
  a lost claim or an error, whatever the mail server answers; and once the lease has run out it asks
  no mail server.
\<close>

theorem lost_mail_claim:
  assumes ok: "emails_ok s0" and h: "h \<in> set (db_emails s0)" "em_state h = EmClaimed" "em_claimed_by h = Some w"
    and run: "(\<lambda>s t. \<exists>l. mail_step s l t)\<^sup>*\<^sup>* s0 s"
    and lost: "\<forall>x \<in> set (db_emails s). \<not> email_claim h (Some w) (db_clock s) x"
    and later: "(\<lambda>s t. \<exists>l. mail_step s l t)\<^sup>*\<^sup>* s t"
    and j: "mj_row j = h"
  shows "prepare_mail E ready w now h t = Inr (MailDone ''lost_claim'', t)
    \<and> commit (record_mail E h sent now) t = (Inl RuntimeError, t)
    \<and> (\<forall>smtp. (\<forall>i a b c. 0 \<le> snd (smtp i a b c)) \<longrightarrow>
         (case send_mail E smtp w now j t of (r, u) \<Rightarrow>
            db_emails u = db_emails t \<and> (r = Inr ''lost_claim'' \<or> (\<exists>e. r = Inl e))))
    \<and> ((case em_claimed_until h of None \<Rightarrow> True | Some u \<Rightarrow> u \<le> db_clock t) \<longrightarrow>
         (\<exists>r. \<forall>smtp. send_mail E smtp w now j t = (r, t)))"
proof -
  note at_once = lost_mail_row [OF ok h run lost later]
  have waited: "record_mail E h sent now (db_clock_update (\<lambda>c. c + d) t) = Inl RuntimeError" if "0 \<le> d" for d sent
    using lost_mail_row(2) [OF ok h run lost rtranclp.rtrancl_into_rtrancl [OF later mail_wait [OF that]]] .
  have "case send_mail E smtp w now j t of (r, u) \<Rightarrow> db_emails u = db_emails t \<and> (r = Inr ''lost_claim'' \<or> (\<exists>e. r = Inl e))"
    if smtp: "\<forall>i a b c. 0 \<le> snd (smtp i a b c)" for smtp
  proof -
    have took: "0 \<le> took" if "smtp i a b c = (x, took)" for i a b c x took
      using smtp [rule_format, of i a b c] that by simp
    show ?thesis by (auto simp: send_mail_run j commit_def waited dest: took split: sum.split prod.split)
  qed
  moreover have "(case em_claimed_until h of None \<Rightarrow> True | Some u \<Rightarrow> u \<le> db_clock t) \<longrightarrow>
      (\<exists>r. \<forall>smtp. send_mail E smtp w now j t = (r, t))"
    by (cases "open_column E (if truthy (em_order_id h) then the (em_order_id h) else em_merchant_id h)
         ''email_queue'' ''recipient_enc'' (em_recipient_enc h)") (simp_all add: send_mail_run [of E _ w now j t, unfolded j])
  ultimately show ?thesis using at_once by (simp add: commit_def)
qed

text \<open>
  C28 (Consent). A message goes out only for a row the worker still holds, with e-mail switched on
  and configured, for a merchant in any state but inactive who did not switch the event off, to a customer
  only while the order says the customer wants it; it carries digital goods only in the customer's
  confirmation of an order whose delivery is unlocked; and preparing it leaves the queue as it was.
\<close>

theorem mail_only_when_allowed:
  assumes run: "prepare_mail E ready w now row s = Inr (MailSend j, t)"
  shows "mj_row j \<in> set (db_emails s) \<and> email_claim row (Some w) (db_clock s) (mj_row j)
    \<and> email_enabled E \<and> ready
    \<and> mj_merchant j \<in> set (db_merchants s) \<and> m_id (mj_merchant j) = em_merchant_id (mj_row j)
    \<and> m_state (mj_merchant j) \<noteq> MsInactive
    \<and> map_of (m_notify_events (mj_merchant j)) (email_event_name (em_event_type (mj_row j))) \<noteq> Some False
    \<and> (em_channel (mj_row j) = ChCustomer \<longrightarrow>
        (\<exists>k \<in> set (db_orders s). em_order_id (mj_row j) = Some (o_id k) \<and> o_email_opt_in k))
    \<and> (mj_delivery j \<noteq> [] \<longrightarrow> em_channel (mj_row j) = ChCustomer \<and> em_event_type (mj_row j) = EvConfirmed
        \<and> (\<exists>k \<in> set (db_orders s). em_order_id (mj_row j) = Some (o_id k) \<and> delivery_unlocked k))
    \<and> db_emails t = db_emails s"
proof -
  obtain r d where r: "List.find (email_claim row (Some w) (db_clock s)) (db_emails s) = Some r"
    and d: "mail_delivery E r s = Inr d"
    and none: "suppression_reason E ready r (mail_merchant r s) (mail_order r s) = None"
    and slot: "rate_bucket_ok r now s = Inr (True, t)"
    and j: "j = \<lparr>mj_row = r, mj_merchant = the (mail_merchant r s), mj_order = mail_order r s,
      mj_items = mail_items r s, mj_delivery = d\<rparr>"
    using run unfolding prepare_mail_run
    by (auto simp: tx_Inr split: option.splits sum.splits if_splits)
  obtain m where m: "mail_merchant r s = Some m" using none by (auto simp: suppression_reason_def split: if_splits option.splits)
  have order: "k \<in> set (db_orders s) \<and> em_order_id r = Some (o_id k)" if "mail_order r s = Some k" for k
    using that by (auto simp: mail_order_def truthy_def split: if_splits option.splits dest: find_SomeD)
  have "digital_delivery E k s = Inr [] \<or> delivery_unlocked k" for k by (simp add: digital_delivery_def)
  then have goods: "em_channel r = ChCustomer \<and> em_event_type r = EvConfirmed
      \<and> (\<exists>k. mail_order r s = Some k \<and> delivery_unlocked k)" if "d \<noteq> []"
    using d that by (force simp: mail_delivery_def split: option.splits if_splits)
  have "db_emails t = db_emails s" by (rule tx_keepsD [OF keeps_rate_bucket slot]) simp
  then show ?thesis
    using none m order goods find_SomeD [OF r] find_SomeD [OF m [unfolded mail_merchant_def]]
    by (auto simp: j suppression_reason_def split: if_splits option.splits)
qed

text \<open>
  C29 (Isolation). A pass over the queue always returns: it takes at most sixteen rows and reports one
  outcome for each of them, and a row that raises costs the others nothing.
\<close>

theorem every_claimed_mail_has_an_outcome:
  assumes "emails_ok s"
  shows "\<exists>n os t. email_tick E ready smtp w now s = (Inr (n, os), t) \<and> length os = n \<and> n \<le> EMAIL_BATCH
    \<and> set os \<subseteq> mail_outcomes"
proof -
  obtain rows u where rows: "claim_emails E now w s = Inr (rows, u)" "length rows \<le> EMAIL_BATCH"
    by (rule claim_emails_returns [OF assms])
  from outcomes_fold [of E ready smtp w now "[]" rows u] rows show ?thesis
    by (auto simp: email_tick_def pr_bind_def commit_def pr_return_def)
qed

text \<open>The first message of the hour for a merchant, prepared from a fresh queue.\<close>

lemma mails_within_hourly_caps_witness:
  "\<exists>t. prepare_mail sample_env True ''w'' 1000 held_email (queue_db [held_email]) = Inr (MailSend sample_job, t)
    \<and> labelled_run mail_step (queue_db [held_email]) [Mails (''m'', ''email-merchant'', 0)] t
    \<and> int (length (filter (\<lambda>l. l = Mails (''m'', ''email-merchant'', 0)) [Mails (''m'', ''email-merchant'', 0)])) \<le> 60"
proof -
  obtain t where t: "prepare_mail sample_env True ''w'' 1000 held_email (queue_db [held_email]) = Inr (MailSend sample_job, t)"
    using prepare_sample_mail by blast
  have slot: "mail_slot (mj_row sample_job) 1000 = (''m'', ''email-merchant'', 0)"
    by (simp add: sample_job_def mail_slot_def held_fields hour_start_def)
  have "labelled_run mail_step (queue_db [held_email]) ([] @ [Mails (''m'', ''email-merchant'', 0)]) t"
    using mails [OF t] unfolding slot by (intro goes [OF stays])
  then have run: "labelled_run mail_step (queue_db [held_email]) [Mails (''m'', ''email-merchant'', 0)] t" by simp
  from mails_within_hourly_caps [OF run, of "''h''" 0 "''m''"] t run show ?thesis
    by (auto simp: slots_def queue_db_def empty_db_def MERCHANT_HOURLY_CAP_def)
qed

text \<open>A worker that let its lease run out: at 1150 the row is still claimed, but no longer held.\<close>

lemma lost_mail_claim_witness:
  "commit (record_mail sample_env held_email True 1000) ((queue_db [held_email])\<lparr>db_clock := 1200\<rparr>)
     = (Inl RuntimeError, (queue_db [held_email])\<lparr>db_clock := 1200\<rparr>)
   \<and> (\<exists>r. \<forall>smtp. send_mail sample_env smtp ''w'' 1000 \<lparr>mj_row = held_email, mj_merchant = sample_merchant,
        mj_order = None, mj_items = [], mj_delivery = []\<rparr> ((queue_db [held_email])\<lparr>db_clock := 1200\<rparr>)
      = (r, (queue_db [held_email])\<lparr>db_clock := 1200\<rparr>))"
proof -
  have step: "(\<lambda>s t. \<exists>l. mail_step s l t)\<^sup>*\<^sup>* ((queue_db [held_email])\<lparr>db_clock := a\<rparr>) ((queue_db [held_email])\<lparr>db_clock := b\<rparr>)"
    if "a \<le> b" for a b
    using that by (intro r_into_rtranclp exI [of _ Quiet] elsewhere) (simp_all add: slots_def)
  let ?j = "\<lparr>mj_row = held_email, mj_merchant = sample_merchant, mj_order = None, mj_items = [], mj_delivery = []\<rparr>"
  have "emails_ok ((queue_db [held_email])\<lparr>db_clock := 1000\<rparr>)"
    "held_email \<in> set (db_emails ((queue_db [held_email])\<lparr>db_clock := 1000\<rparr>))"
    "em_state held_email = EmClaimed" "em_claimed_by held_email = Some ''w''"
    "\<forall>x \<in> set (db_emails ((queue_db [held_email])\<lparr>db_clock := 1150\<rparr>)).
       \<not> email_claim held_email (Some ''w'') (db_clock ((queue_db [held_email])\<lparr>db_clock := 1150\<rparr>)) x"
    "mj_row ?j = held_email"
    by (simp_all add: held_fields queue_db_def emails_ok_def email_claim_def)
  note L = lost_mail_claim [OF this(1-4) step [of 1000 1150] this(5) step [of 1150 1200] this(6), simplified,
      of sample_env undefined 1000 True]
  show ?thesis using L by (simp add: held_fields queue_db_def)
qed

lemma mail_only_when_allowed_witness:
  "\<exists>t. prepare_mail sample_env True ''w'' 1000 held_email (queue_db [held_email]) = Inr (MailSend sample_job, t)
    \<and> m_state (mj_merchant sample_job) \<noteq> MsInactive \<and> db_emails t = [held_email]"
proof -
  obtain t where t: "prepare_mail sample_env True ''w'' 1000 held_email (queue_db [held_email]) = Inr (MailSend sample_job, t)"
    using prepare_sample_mail by blast
  from mail_only_when_allowed [OF t] t show ?thesis by (auto simp: queue_db_def)
qed

lemma every_claimed_mail_has_an_outcome_witness:
  "\<exists>n os t. email_tick sample_env True (\<lambda>_ _ _ _. (False, 5)) ''w'' 1000 (queue_db [sample_email]) = (Inr (n, os), t)
    \<and> length os = n \<and> n \<le> 16"
proof -
  have ok: "emails_ok (queue_db [sample_email])" by (simp add: queue_db_def emails_ok_def)
  from every_claimed_mail_has_an_outcome [OF ok, of sample_env True "\<lambda>_ _ _ _. (False, 5)" "''w''" 1000]
  show ?thesis unfolding EMAIL_BATCH_def by blast
qed

end
