(* ===== verification/Keystore.thy ===== *)
theory Keystore
  imports OrderMessages Tokens Samples "HOL-Library.List_Lexorder" "HOL-Library.Char_ord"
begin

text \<open>
  The merchant key store (\<open>infinitemarkets/keystore.py\<close>): the encrypted secret of a
  merchant, its rotation to a new master key, its backup, and the verification chain of a
  NIP-59 gift wrap (8.5). The Nostr library is a record of functions; the chain itself, what
  it checks and in which order, is the code's.
\<close>

section \<open>The Nostr library\<close>

text \<open>
  A signed event and an unsigned one as the library parses them. \<open>ne_verifies\<close> is the result of
  \<open>Event.verify\<close>: id and signature are those of the content.
\<close>

record nostr_event =
  ne_author :: string
  ne_kind :: int
  ne_created_at :: int
  ne_tags :: "string list list"
  ne_content :: string
  ne_verifies :: bool

record unsigned_event =
  un_id :: string
  un_author :: string
  un_created_at :: int
  un_kind :: int
  un_tags :: "string list list"
  un_content :: string

text \<open>
  \<open>Event.from_json\<close>, \<open>UnsignedEvent.from_json\<close>, the public key of a secret, \<open>Keys.parse\<close> of an
  nsec, \<open>Keys.generate\<close> (indexed by the random draw) and \<open>nip44_decrypt\<close>; \<open>None\<close> stands for the
  exception. \<open>py_repr\<close> is the text \<open>str\<close> gives a decoded JSON value that is neither a string nor
  an integer.
\<close>

record sdk =
  sdk_event :: "string \<Rightarrow> nostr_event option"
  sdk_rumor :: "string \<Rightarrow> unsigned_event option"
  sdk_pubkey :: "bytes \<Rightarrow> string option"
  sdk_nsec :: "string \<Rightarrow> bytes option"
  sdk_generate :: "nat \<Rightarrow> bytes"
  sdk_nip44 :: "bytes \<Rightarrow> string \<Rightarrow> string \<Rightarrow> string option"
  py_repr :: "json \<Rightarrow> string"

definition sdk_key :: "sdk \<Rightarrow> bytes \<Rightarrow> error + string" where
  "sdk_key K secret = (case sdk_pubkey K secret of None \<Rightarrow> Inl (ForeignError ''NostrSdkError'') | Some p \<Rightarrow> Inr p)"

section \<open>Storing and loading a secret\<close>

definition find_key :: "id \<Rightarrow> (db, merchant_key option) tx" where
  "find_key merchant = sql_one db_merchant_keys (\<lambda>k. mk_merchant_id k = merchant)"

text \<open>\<open>_store\<close>: the envelope without its version goes into the nonce and ciphertext columns.\<close>

definition store_key :: "env \<Rightarrow> id \<Rightarrow> bytes \<Rightarrow> string \<Rightarrow> bool \<Rightarrow> (db, unit) tx" where
  "store_key E merchant secret origin replace =
     tx_bind (seal_column E merchant ''merchant_keys'' ''ciphertext'' secret) (\<lambda>envelope.
     tx_bind tx_now (\<lambda>now.
     tx_bind (find_key merchant) (\<lambda>old.
     (let nonce = take NONCE_LEN (drop VERSION_LEN envelope);
          body = drop (VERSION_LEN + NONCE_LEN) envelope in
      if replace \<and> old \<noteq> None
      then tx_ignore (sql_update db_merchant_keys db_merchant_keys_update merchant_keys_ok
        (\<lambda>k. mk_merchant_id k = merchant)
        (\<lambda>k. k\<lparr>mk_key_origin := origin, mk_key_version := active_key_version E, mk_nonce := nonce,
           mk_ciphertext := body, mk_rotated_at := Some now\<rparr>))
      else sql_insert db_merchant_keys_update merchant_keys_ok
        \<lparr>mk_merchant_id = merchant, mk_key_origin = origin, mk_key_version = active_key_version E,
         mk_nonce = nonce, mk_ciphertext = body, mk_created_at = now, mk_rotated_at = None\<rparr>))))"

definition generate_key :: "env \<Rightarrow> sdk \<Rightarrow> id \<Rightarrow> (db, string) tx" where
  "generate_key E K merchant =
     tx_bind (find_key merchant) (\<lambda>existing.
     if existing \<noteq> None then tx_raise KeystoreError
     else
       tx_bind draw (\<lambda>n.
       (let secret = sdk_generate K n in
        tx_seq (store_key E merchant secret ''generated'' False)
          (tx_lift (sdk_key K secret)))))"

definition import_key :: "env \<Rightarrow> sdk \<Rightarrow> id \<Rightarrow> string \<Rightarrow> (db, string) tx" where
  "import_key E K merchant nsec =
     (case sdk_nsec K nsec of
        None \<Rightarrow> tx_raise KeystoreError
      | Some secret \<Rightarrow> tx_seq (store_key E merchant secret ''imported'' True) (tx_lift (sdk_key K secret)))"

text \<open>\<open>_load_nsec\<close> rebuilds the envelope from the columns and opens it under the version's key.\<close>

definition open_key :: "env \<Rightarrow> merchant_key \<Rightarrow> error + bytes" where
  "open_key E k =
     (case master_keys E (mk_key_version k) of
        None \<Rightarrow> Inl KeystoreError
      | Some master \<Rightarrow> decrypt E (ljust VERSION_LEN (mk_key_version k) @ mk_nonce k @ mk_ciphertext k) master
          (mk_merchant_id k) ''merchant_keys'' ''ciphertext'' (mk_key_version k))"

definition load_nsec :: "env \<Rightarrow> id \<Rightarrow> (db, bytes) tx" where
  "load_nsec E merchant =
     tx_bind (find_key merchant) (\<lambda>row.
     case row of None \<Rightarrow> tx_raise KeystoreError | Some k \<Rightarrow> tx_lift (open_key E k))"

definition public_key :: "env \<Rightarrow> sdk \<Rightarrow> id \<Rightarrow> (db, string) tx" where
  "public_key E K merchant = tx_bind (load_nsec E merchant) (\<lambda>secret. tx_lift (sdk_key K secret))"

definition delete_key :: "id \<Rightarrow> (db, unit) tx" where
  "delete_key merchant = tx_ignore (sql_delete db_merchant_keys db_merchant_keys_update (\<lambda>k. mk_merchant_id k = merchant))"

section \<open>Rotation\<close>

text \<open>
  \<open>rewrap\<close>: \<open>False\<close> when the row's version is not in the keyring. The read, the decryption and the
  write are three statements; the write is a transaction of its own.
\<close>

definition rewrap :: "env \<Rightarrow> id \<Rightarrow> (db, bool) proc" where
  "rewrap E merchant =
     pr_bind (commit (find_key merchant)) (\<lambda>row.
     case row of
       None \<Rightarrow> pr_raise KeystoreError
     | Some k \<Rightarrow>
         if mk_key_version k = active_key_version E then pr_return True
         else if master_keys E (mk_key_version k) = None then pr_return False
         else
           pr_bind (commit (load_nsec E merchant)) (\<lambda>secret.
           pr_bind (commit (store_key E merchant secret (mk_key_origin k) True)) (\<lambda>_.
           pr_return True)))"

definition stale_versions :: "db \<Rightarrow> string list" where
  "stale_versions s = remdups (map mk_key_version (db_merchant_keys s))"

definition stale_merchants :: "env \<Rightarrow> db \<Rightarrow> string list" where
  "stale_merchants E s = sort (map mk_merchant_id (filter (\<lambda>k. mk_key_version k \<noteq> active_key_version E) (db_merchant_keys s)))"

section \<open>Backup\<close>

text \<open>Base64 with the standard alphabet and padding; decoding is strict (\<open>validate=True\<close>).\<close>

definition std_char :: "char \<Rightarrow> char" where
  "std_char c = (if c = CHR ''-'' then CHR ''+'' else if c = CHR ''_'' then CHR ''/'' else c)"

definition url_char :: "char \<Rightarrow> char" where
  "url_char c = (if c = CHR ''+'' then CHR ''-'' else if c = CHR ''/'' then CHR ''_'' else c)"

definition std_alphabet :: "char \<Rightarrow> bool" where
  "std_alphabet c \<longleftrightarrow> c \<noteq> CHR ''-'' \<and> c \<noteq> CHR ''_'' \<and> url_char c \<in> set b64_alphabet"

definition b64_padding :: "nat \<Rightarrow> nat" where
  "b64_padding n = (4 - n mod 4) mod 4"

definition b64_encode :: "bytes \<Rightarrow> string" where
  "b64_encode b = (let body = map std_char (b64url_encode b)
     in body @ replicate (b64_padding (length body)) (CHR ''=''))"

definition b64_decode :: "string \<Rightarrow> bytes option" where
  "b64_decode t =
     (let body = takeWhile std_alphabet t in
      if length body mod 4 \<noteq> 1 \<and> drop (length body) t = replicate (b64_padding (length body)) (CHR ''='')
      then Some (b64url_decode (map url_char body)) else None)"

definition key_backup :: "id \<Rightarrow> merchant_key \<Rightarrow> json" where
  "key_backup merchant k = JObj
     [(''merchant_id'', JStr merchant), (''key_origin'', JStr (mk_key_origin k)),
      (''key_version'', JStr (mk_key_version k)), (''nonce'', JStr (b64_encode (mk_nonce k))),
      (''ciphertext'', JStr (b64_encode (mk_ciphertext k))), (''created_at'', JInt (mk_created_at k))]"

definition export_encrypted :: "env \<Rightarrow> id \<Rightarrow> (db, bytes) tx" where
  "export_encrypted E merchant =
     tx_bind (find_key merchant) (\<lambda>row.
     case row of
       None \<Rightarrow> tx_raise KeystoreError
     | Some k \<Rightarrow> tx_return (json_dumps E (key_backup merchant k)))"

text \<open>
  A missing key, a value that is not text and a text that is not base64 are the errors the code
  turns into one. Version and origin are written as they come: NULL fails the column's NOT NULL,
  and what the driver does with a value of another type is left as a foreign error.
\<close>

definition backup_bytes :: "json \<Rightarrow> string \<Rightarrow> error + bytes" where
  "backup_bytes j k = (case Option.bind (json_field k j) (\<lambda>v. Option.bind (json_str v) b64_decode) of
     None \<Rightarrow> Inl KeystoreError | Some b \<Rightarrow> Inr b)"

definition backup_text :: "json \<Rightarrow> string \<Rightarrow> error + json" where
  "backup_text j k = (case json_field k j of None \<Rightarrow> Inl KeystoreError | Some v \<Rightarrow> Inr v)"

definition text_column :: "json \<Rightarrow> error + string" where
  "text_column v = (case v of JStr x \<Rightarrow> Inr x | JNull \<Rightarrow> Inl IntegrityError | _ \<Rightarrow> Inl (ForeignError ''DriverError''))"

definition parse_backup :: "env \<Rightarrow> bytes \<Rightarrow> error + bytes \<times> bytes \<times> json \<times> json" where
  "parse_backup E blob =
     (case json_loads E blob of
        None \<Rightarrow> Inl KeystoreError
      | Some j \<Rightarrow>
          try_bind (backup_bytes j ''nonce'') (\<lambda>nonce.
          try_bind (backup_bytes j ''ciphertext'') (\<lambda>body.
          try_bind (backup_text j ''key_version'') (\<lambda>version.
          try_bind (backup_text j ''key_origin'') (\<lambda>origin.
          Inr (nonce, body, version, origin))))))"

definition restore_encrypted :: "env \<Rightarrow> id \<Rightarrow> bytes \<Rightarrow> (db, unit) tx" where
  "restore_encrypted E merchant blob =
     tx_bind (tx_lift (parse_backup E blob)) (\<lambda>(nonce, body, version, origin).
     tx_bind (find_key merchant) (\<lambda>existing.
     if existing \<noteq> None then tx_raise KeystoreError
     else
       tx_bind tx_now (\<lambda>now.
       tx_bind (tx_lift (text_column version)) (\<lambda>v.
       tx_bind (tx_lift (text_column origin)) (\<lambda>o'.
       sql_insert db_merchant_keys_update merchant_keys_ok
         \<lparr>mk_merchant_id = merchant, mk_key_origin = o', mk_key_version = v, mk_nonce = nonce,
          mk_ciphertext = body, mk_created_at = now, mk_rotated_at = None\<rparr>)))))"

section \<open>Gift wraps\<close>

text \<open>
  The tags of the raw JSON: a list of lists, read entry by entry. The library's own parser drops
  repeated tags, so the counts of the chain run on the raw text too.
\<close>

fun raw_tag :: "string \<Rightarrow> json \<Rightarrow> json list" where
  "raw_tag name (JArr (n # v # _)) = (if n = JStr name then [v] else [])"
| "raw_tag name _ = []"

definition raw_values :: "json list \<Rightarrow> string \<Rightarrow> json list" where
  "raw_values tags name = concat (map (raw_tag name) tags)"

fun raw_name :: "json \<Rightarrow> json list" where
  "raw_name (JArr (n # _)) = [n]"
| "raw_name _ = []"

text \<open>\<open>for t in (value or [])\<close>: the entries of a value that may be of any type.\<close>

definition json_entries :: "json \<Rightarrow> error + json list" where
  "json_entries v =
     (if \<not> json_truthy v then Inr []
      else case v of
        JArr xs \<Rightarrow> Inr xs
      | JStr x \<Rightarrow> Inr (map (\<lambda>c. JStr [c]) x)
      | JObj kvs \<Rightarrow> Inr (map (\<lambda>(k, _). JStr k) kvs)
      | _ \<Rightarrow> Inl TypeError)"

fun event_tag :: "string \<Rightarrow> string list \<Rightarrow> string list" where
  "event_tag name (n # v # _) = (if n = name then [v] else [])"
| "event_tag name _ = []"

definition single_tag_values :: "string list list \<Rightarrow> string \<Rightarrow> string list" where
  "single_tag_values tags name = concat (map (event_tag name) tags)"

record unwrapped =
  uw_rumor_json :: string
  uw_rumor_id :: string
  uw_kind :: int
  uw_author :: string

definition reject :: "string \<Rightarrow> error + 'a" where
  "reject reason = Inl (WrapRejection reason)"

text \<open>Stages 1 and 2: the outer event.\<close>

definition outer_stage :: "env \<Rightarrow> sdk \<Rightarrow> string \<Rightarrow> string \<Rightarrow> error + nostr_event" where
  "outer_stage E K me raw =
     (case json_loads E raw of
        None \<Rightarrow> reject ''outer-unparseable''
      | Some j \<Rightarrow>
          if \<not> is_object j then reject ''outer-unparseable''
          else case sdk_event K raw of
            None \<Rightarrow> reject ''outer-unparseable''
          | Some w \<Rightarrow>
              if ne_kind w \<noteq> 1059 then reject ''outer-kind-not-1059''
              else if \<not> ne_verifies w then reject ''outer-id-or-signature-invalid''
              else try_bind (json_entries (json_member ''tags'' j)) (\<lambda>tags.
                if length (raw_values tags ''p'') \<noteq> 1 then reject ''outer-p-tag-count''
                else if length (single_tag_values (ne_tags w) ''p'') \<noteq> 1 then reject ''outer-p-tag-count''
                else if hd (single_tag_values (ne_tags w) ''p'') \<noteq> me then reject ''outer-p-tag-not-recipient''
                else Inr w))"

text \<open>Stages 3 and 4: the seal inside it.\<close>

definition seal_stage :: "sdk \<Rightarrow> bytes \<Rightarrow> nostr_event \<Rightarrow> error + nostr_event" where
  "seal_stage K secret w =
     (case sdk_nip44 K secret (ne_author w) (ne_content w) of
        None \<Rightarrow> reject ''outer-decrypt-failed''
      | Some text \<Rightarrow>
          (case sdk_event K text of
             None \<Rightarrow> reject ''seal-unparseable''
           | Some seal \<Rightarrow>
               if ne_kind seal \<noteq> 13 then reject ''seal-kind-not-13''
               else if ne_tags seal \<noteq> [] then reject ''seal-tags-not-empty''
               else if \<not> ne_verifies seal then reject ''seal-id-or-signature-invalid''
               else Inr seal))"

text \<open>Stages 5 to 7: the rumor inside the seal.\<close>

definition ALLOWED_RUMOR_KINDS :: "int set" where "ALLOWED_RUMOR_KINDS = {14, 16, 17}"

definition canonical_rumor_id :: "env \<Rightarrow> unsigned_event \<Rightarrow> string" where
  "canonical_rumor_id E r = canonical_id E (un_kind r) (un_content r) (un_created_at r) (un_tags r) (un_author r)"

definition rumor_stage :: "env \<Rightarrow> sdk \<Rightarrow> bytes \<Rightarrow> nostr_event \<Rightarrow> error + string \<times> json \<times> unsigned_event" where
  "rumor_stage E K secret seal =
     (case sdk_nip44 K secret (ne_author seal) (ne_content seal) of
        None \<Rightarrow> reject ''seal-decrypt-failed''
      | Some text \<Rightarrow>
          (case json_loads E text of
             None \<Rightarrow> reject ''rumor-unparseable''
           | Some j \<Rightarrow>
               if \<not> is_object j then reject ''rumor-unparseable''
               else if json_truthy (json_member ''sig'' j) then reject ''rumor-signed''
               else case sdk_rumor K text of
                 None \<Rightarrow> reject ''rumor-unparseable''
               | Some r \<Rightarrow>
                   if un_id r \<noteq> canonical_rumor_id E r then reject ''rumor-id-not-canonical''
                   else if un_author r \<noteq> ne_author seal then reject ''rumor-seal-pubkey-mismatch''
                   else if un_kind r \<notin> ALLOWED_RUMOR_KINDS then reject ''rumor-kind-not-allowed''
                   else Inr (text, j, r)))"

text \<open>Stage 8: the tags of the rumor, on the raw JSON.\<close>

definition rumor_tag_stage :: "string \<Rightarrow> string option \<Rightarrow> json \<Rightarrow> unsigned_event \<Rightarrow> error + unit" where
  "rumor_tag_stage me expected j r =
     (case json_arr (json_member ''tags'' j) of
        None \<Rightarrow> reject ''rumor-unparseable''
      | Some tags \<Rightarrow>
          (let names = concat (map raw_name tags);
               ps = raw_values tags ''p'';
               recipient = (if truthy expected then the expected else me);
               sender_copy = (expected = None \<and> un_author r = me) in
           if \<exists>name \<in> {''subject'', ''type'', ''order''}. 1 < count_list names (JStr name)
           then reject ''rumor-duplicate-common-tag''
           else if length ps \<noteq> 1 \<or> (\<not> sender_copy \<and> hd ps \<noteq> JStr recipient)
           then reject ''rumor-p-tag-invalid''
           else Inr ()))"

definition unwrap_gift_wrap :: "env \<Rightarrow> sdk \<Rightarrow> bytes \<Rightarrow> string \<Rightarrow> string \<Rightarrow> string option \<Rightarrow> error + unwrapped" where
  "unwrap_gift_wrap E K secret me raw expected =
     try_bind (outer_stage E K me raw) (\<lambda>w.
     try_bind (seal_stage K secret w) (\<lambda>seal.
     try_bind (rumor_stage E K secret seal) (\<lambda>(text, j, r).
     try_bind (rumor_tag_stage me expected j r) (\<lambda>_.
     Inr \<lparr>uw_rumor_json = text, uw_rumor_id = un_id r, uw_kind = un_kind r, uw_author = un_author r\<rparr>))))"

definition nip17_unwrap :: "env \<Rightarrow> sdk \<Rightarrow> id \<Rightarrow> string \<Rightarrow> string option \<Rightarrow> (db, unwrapped) tx" where
  "nip17_unwrap E K merchant raw expected =
     tx_bind (load_nsec E merchant) (\<lambda>secret.
     tx_bind (tx_lift (sdk_key K secret)) (\<lambda>me.
     tx_lift (unwrap_gift_wrap E K secret me raw expected)))"

lemmas [evals] = sdk_key_def find_key_def store_key_def generate_key_def import_key_def open_key_def
  load_nsec_def public_key_def delete_key_def rewrap_def

end
