(* ===== verification/KeystoreLaws.thy ===== *)
theory KeystoreLaws
  imports Keystore
begin

text \<open>
  What the key store promises: a merchant's secret is the same after a rotation to a new master
  key and after a backup, and a gift wrap whose raw JSON names one recipient is accepted exactly when
  the qualified reference chain of \<open>harness/sdk.py\<close> accepts it, the merchant's own sender copies apart.
\<close>

section \<open>The reference chain\<close>

text \<open>\<open>harness/sdk.py\<close>: the event is already parsed and the recipient always named.\<close>

definition sdk_unwrap_gift_wrap :: "env \<Rightarrow> sdk \<Rightarrow> bytes \<Rightarrow> string \<Rightarrow> nostr_event \<Rightarrow> string option \<Rightarrow>
    error + nostr_event \<times> unsigned_event" where
  "sdk_unwrap_gift_wrap E K secret me w expected =
     (let recipient = (case expected of None \<Rightarrow> me | Some e \<Rightarrow> e) in
      if ne_kind w \<noteq> 1059 then reject ''outer-kind-not-1059''
      else if \<not> ne_verifies w then reject ''outer-id-or-signature-invalid''
      else if length (single_tag_values (ne_tags w) ''p'') \<noteq> 1 then reject ''outer-p-tag-count''
      else if hd (single_tag_values (ne_tags w) ''p'') \<noteq> me then reject ''outer-p-tag-not-recipient''
      else case sdk_nip44 K secret (ne_author w) (ne_content w) of
        None \<Rightarrow> reject ''outer-decrypt-failed''
      | Some seal_json \<Rightarrow>
      case sdk_event K seal_json of
        None \<Rightarrow> reject ''seal-unparseable''
      | Some seal \<Rightarrow>
      if ne_kind seal \<noteq> 13 then reject ''seal-kind-not-13''
      else if ne_tags seal \<noteq> [] then reject ''seal-tags-not-empty''
      else if \<not> ne_verifies seal then reject ''seal-id-or-signature-invalid''
      else case sdk_nip44 K secret (ne_author seal) (ne_content seal) of
        None \<Rightarrow> reject ''seal-decrypt-failed''
      | Some rumor_json \<Rightarrow>
      case json_loads E rumor_json of
        None \<Rightarrow> reject ''rumor-unparseable''
      | Some data \<Rightarrow>
      if \<not> is_object data then reject ''rumor-unparseable''
      else if json_truthy (json_member ''sig'' data) then reject ''rumor-signed''
      else case sdk_rumor K rumor_json of
        None \<Rightarrow> reject ''rumor-unparseable''
      | Some rumor \<Rightarrow>
      if un_id rumor \<noteq> canonical_rumor_id E rumor then reject ''rumor-id-not-canonical''
      else if un_author rumor \<noteq> ne_author seal then reject ''rumor-seal-pubkey-mismatch''
      else if un_kind rumor \<notin> ALLOWED_RUMOR_KINDS then reject ''rumor-kind-not-allowed''
      else case json_member ''tags'' data of
        JArr tags \<Rightarrow>
          (let names = concat (map raw_name tags); ps = raw_values tags ''p'' in
           if \<exists>name \<in> {''subject'', ''type'', ''order''}. 1 < count_list names (JStr name)
           then reject ''rumor-duplicate-common-tag''
           else if length ps \<noteq> 1 \<or> hd ps \<noteq> JStr recipient then reject ''rumor-p-tag-invalid''
           else Inr (seal, rumor))
      | _ \<Rightarrow> reject ''rumor-unparseable'')"

text \<open>What both report of an accepted message: its id, kind and author.\<close>

definition unwrapped_view :: "error + unwrapped \<Rightarrow> error + string \<times> int \<times> string" where
  "unwrapped_view r = map_sum id (\<lambda>u. (uw_rumor_id u, uw_kind u, uw_author u)) r"

definition rumor_view :: "error + nostr_event \<times> unsigned_event \<Rightarrow> error + string \<times> int \<times> string" where
  "rumor_view r = map_sum id (\<lambda>(_, u). (un_id u, un_kind u, un_author u)) r"

lemma view_reject [simp]: "unwrapped_view (reject x) = reject x" "rumor_view (reject x) = reject x"
  by (simp_all add: unwrapped_view_def rumor_view_def reject_def)

lemma try_bind_reject [simp]: "try_bind (reject x) f = reject x" "try_bind (Inr a) g = g a"
  by (simp_all add: reject_def try_bind_def)

lemma json_arr_cases:
  "json_arr v = (case v of JArr xs \<Rightarrow> Some xs | _ \<Rightarrow> None)"
  by (cases v) auto

lemmas chain_defs = unwrap_gift_wrap_def outer_stage_def seal_stage_def rumor_stage_def
  rumor_tag_stage_def sdk_unwrap_gift_wrap_def json_arr_cases

section \<open>Base64\<close>

lemma alphabet_chars:
  "c \<in> set b64_alphabet \<Longrightarrow> std_alphabet (std_char c) \<and> url_char (std_char c) = c"
proof -
  have "list_all (\<lambda>c. std_alphabet (std_char c) \<and> url_char (std_char c) = c) b64_alphabet" by code_simp
  then show "c \<in> set b64_alphabet \<Longrightarrow> ?thesis" by (simp add: list_all_iff)
qed

lemma encoded_alphabet: "c \<in> set (b64url_encode b) \<Longrightarrow> c \<in> set b64_alphabet"
  by (auto simp: b64url_encode_def intro!: sextet_char_alphabet sextets_mem dest: sextet_groups_length)

lemma encoded_length: "length (b64url_encode b) mod 4 \<noteq> 1"
proof -
  have "(8 * n + 5) div 6 mod 4 \<noteq> (1 :: nat)" for n :: nat by presburger
  then show ?thesis by (simp add: b64url_encode_def length_sextet_groups char_bits_length)
qed

lemma takeWhile_all_append: "list_all P xs \<Longrightarrow> ys = [] \<or> \<not> P (hd ys) \<Longrightarrow> takeWhile P (xs @ ys) = xs"
  by (induction xs) (auto simp: takeWhile_eq_Nil_iff)

lemma b64_round_trip: "b64_decode (b64_encode b) = Some b"
proof -
  let ?body = "map std_char (b64url_encode b)"
  have all: "list_all std_alphabet ?body"
    by (auto simp: list_all_iff dest: encoded_alphabet alphabet_chars)
  have "\<not> std_alphabet (CHR ''='')" by code_simp
  then have body: "takeWhile std_alphabet (?body @ replicate n (CHR ''='')) = ?body" for n
    by (cases n) (simp_all add: takeWhile_all_append [OF all, of "[]", simplified] takeWhile_all_append [OF all])
  have "map url_char ?body = b64url_encode b"
    unfolding map_map o_def by (rule map_idI) (auto dest: encoded_alphabet alphabet_chars)
  then show ?thesis
    using encoded_length [of b] by (simp add: b64_decode_def b64_encode_def Let_def body decode_encode)
qed

section \<open>The secret of a merchant\<close>

text \<open>The environment of a key rotation: the old versions stay in the keyring.\<close>

definition rotates_to :: "env \<Rightarrow> env \<Rightarrow> bool" where
  "rotates_to E E' \<longleftrightarrow> gcm_encrypt E' = gcm_encrypt E \<and> gcm_decrypt E' = gcm_decrypt E
     \<and> (\<forall>v k. master_keys E v = Some k \<longrightarrow> master_keys E' v = Some k)"

lemma seal_opens:
  assumes E: "crypto_sound E" and run: "seal_column E r t c p s = Inr (e, s')"
  obtains key where "master_keys E (active_key_version E) = Some key"
    "decrypt E e key r t c (active_key_version E) = Inr p"
    "e = ljust VERSION_LEN (active_key_version E) @ take NONCE_LEN (drop VERSION_LEN e) @ drop (VERSION_LEN + NONCE_LEN) e"
proof -
  let ?v = "active_key_version E"
  obtain key where key: "master_keys E ?v = Some key"
    and enc: "encrypt E (random_bytes E (db_draws s) NONCE_LEN) p key r t c ?v = Inr e"
    using run by (auto simp: seal_column_def tx_Inr split: option.splits)
  have n: "length (random_bytes E (db_draws s) NONCE_LEN) = NONCE_LEN"
    using E by (simp add: crypto_sound_def)
  note parts = encrypt_parts [OF enc n]
  have "decrypt E e key r t c ?v = Inr p"
    using E parts by (simp add: decrypt_def crypto_sound_def gcm_sound_def Let_def not_less)
  moreover have "e = ljust VERSION_LEN ?v @ take NONCE_LEN (drop VERSION_LEN e) @ drop (VERSION_LEN + NONCE_LEN) e"
    unfolding parts(2) [symmetric] by (metis append_take_drop_id drop_drop add.commute)
  ultimately show thesis using key that by blast
qed

definition holds_key :: "env \<Rightarrow> id \<Rightarrow> bytes \<Rightarrow> merchant_key \<Rightarrow> bool" where
  "holds_key E merchant secret k \<longleftrightarrow> mk_merchant_id k = merchant \<and> open_key E k = Inr secret"

lemma stored_key:
  assumes E: "crypto_sound E" and run: "store_key E merchant secret origin replace s = Inr (u, t)"
  obtains k where "List.find (\<lambda>k. mk_merchant_id k = merchant) (db_merchant_keys t) = Some k"
    "holds_key E merchant secret k" "mk_key_version k = active_key_version E"
    "\<forall>k \<in> set (db_merchant_keys t). mk_merchant_id k = merchant \<longrightarrow> mk_key_version k = active_key_version E"
proof -
  obtain e s1 where seal: "seal_column E merchant ''merchant_keys'' ''ciphertext'' secret s = Inr (e, s1)"
    and rest: "tx_bind tx_now (\<lambda>now. tx_bind (find_key merchant) (\<lambda>old.
     (let nonce = take NONCE_LEN (drop VERSION_LEN e); body = drop (VERSION_LEN + NONCE_LEN) e in
      if replace \<and> old \<noteq> None
      then tx_ignore (sql_update db_merchant_keys db_merchant_keys_update merchant_keys_ok
        (\<lambda>k. mk_merchant_id k = merchant)
        (\<lambda>k. k\<lparr>mk_key_origin := origin, mk_key_version := active_key_version E, mk_nonce := nonce,
           mk_ciphertext := body, mk_rotated_at := Some now\<rparr>))
      else sql_insert db_merchant_keys_update merchant_keys_ok
        \<lparr>mk_merchant_id = merchant, mk_key_origin = origin, mk_key_version = active_key_version E,
         mk_nonce = nonce, mk_ciphertext = body, mk_created_at = now, mk_rotated_at = None\<rparr>))) s1 = Inr (u, t)"
    using run unfolding store_key_def tx_bind_Inr [of "seal_column _ _ _ _ _"] by blast
  obtain key where key: "master_keys E (active_key_version E) = Some key"
    and dec: "decrypt E e key merchant ''merchant_keys'' ''ciphertext'' (active_key_version E) = Inr secret"
    and e: "e = ljust VERSION_LEN (active_key_version E) @ take NONCE_LEN (drop VERSION_LEN e) @ drop (VERSION_LEN + NONCE_LEN) e"
    using seal_opens [OF E seal] by blast
  have holds: "holds_key E merchant secret k"
    if "mk_merchant_id k = merchant" "mk_key_version k = active_key_version E"
      "mk_nonce k = take NONCE_LEN (drop VERSION_LEN e)" "mk_ciphertext k = drop (VERSION_LEN + NONCE_LEN) e" for k
    using that key dec e by (simp add: holds_key_def open_key_def)
  show thesis
  proof (cases "replace \<and> List.find (\<lambda>k. mk_merchant_id k = merchant) (db_merchant_keys s1) \<noteq> None")
    case True
    then obtain k where k: "List.find (\<lambda>k. mk_merchant_id k = merchant) (db_merchant_keys s1) = Some k" by auto
    show thesis
      using rest True k find_SomeD [OF k]
      by (intro that [of "k\<lparr>mk_key_origin := origin, mk_key_version := active_key_version E,
            mk_nonce := take NONCE_LEN (drop VERSION_LEN e),
            mk_ciphertext := drop (VERSION_LEN + NONCE_LEN) e, mk_rotated_at := Some (db_clock s1)\<rparr>"] holds)
        (auto simp: tx_Inr sql_Inr find_key_def Let_def find_upd_rows [where key = mk_merchant_id] set_upd_rows)
  next
    case False
    let ?k = "\<lparr>mk_merchant_id = merchant, mk_key_origin = origin, mk_key_version = active_key_version E,
         mk_nonce = take NONCE_LEN (drop VERSION_LEN e), mk_ciphertext = drop (VERSION_LEN + NONCE_LEN) e,
         mk_created_at = db_clock s1, mk_rotated_at = None\<rparr>"
    have t: "db_merchant_keys t = db_merchant_keys s1 @ [?k]" "merchant_keys_ok t"
      using rest False by (auto simp: tx_Inr sql_Inr find_key_def Let_def)
    then have new: "\<forall>k \<in> set (db_merchant_keys s1). mk_merchant_id k \<noteq> merchant"
      by (force simp: merchant_keys_ok_def)
    then have "List.find (\<lambda>k. mk_merchant_id k = merchant) (db_merchant_keys s1) = None"
      by (simp add: find_None_iff)
    then show thesis
      using t new by (intro that [of ?k] holds) (auto simp: find_append_one)
  qed
qed

lemma load_held:
  assumes "List.find (\<lambda>k. mk_merchant_id k = merchant) (db_merchant_keys s) = Some k" "holds_key E merchant secret k"
  shows "load_nsec E merchant s = Inr (secret, s)"
  using assms by (simp add: load_nsec_def find_key_def holds_key_def tx_Inr)

lemma held_load:
  assumes "load_nsec E merchant s = Inr (secret, t)"
  shows "\<exists>k. List.find (\<lambda>k. mk_merchant_id k = merchant) (db_merchant_keys s) = Some k \<and> holds_key E merchant secret k"
proof (cases "List.find (\<lambda>k. mk_merchant_id k = merchant) (db_merchant_keys s)")
  case None
  then show ?thesis using assms by (simp add: load_nsec_def find_key_def tx_bind_def sql_one_def tx_get_def tx_raise_def)
next
  case (Some k)
  then have "open_key E k = Inr secret"
    using assms by (auto simp: load_nsec_def find_key_def tx_Inr)
  then show ?thesis using find_SomeD [OF Some] Some by (auto simp: holds_key_def)
qed

lemma decrypt_rotated: "rotates_to E E' \<Longrightarrow> decrypt E' e k r t c v = decrypt E e k r t c v"
  by (simp add: rotates_to_def decrypt_def)

lemma holds_rotated:
  assumes rot: "rotates_to E E'" and key: "holds_key E merchant secret k"
  shows "holds_key E' merchant secret k"
proof -
  obtain master where "master_keys E (mk_key_version k) = Some master"
    using key by (auto simp: holds_key_def open_key_def split: option.splits)
  moreover from this have "master_keys E' (mk_key_version k) = Some master"
    using rot by (simp add: rotates_to_def)
  ultimately show ?thesis
    using key by (auto simp: holds_key_def open_key_def decrypt_rotated [OF rot])
qed

lemma rewrapped_key:
  assumes E': "crypto_sound E'" and rot: "rotates_to E E'"
    and key: "List.find (\<lambda>k. mk_merchant_id k = merchant) (db_merchant_keys s) = Some k" "holds_key E merchant secret k"
    and uniq: "\<forall>k \<in> set (db_merchant_keys s). mk_merchant_id k = merchant \<longrightarrow> mk_key_version k = active_key_version E"
    and run: "rewrap E' merchant s = (Inr b, t)"
  shows "b \<and> load_nsec E' merchant t = Inr (secret, t) \<and> merchant \<notin> set (stale_merchants E' t)"
proof -
  have held: "load_nsec E' merchant s = Inr (secret, s)"
    by (rule load_held [OF key(1) holds_rotated [OF rot key(2)]])
  have version: "mk_key_version k = active_key_version E" using uniq find_SomeD [OF key(1)] by blast
  obtain master where "master_keys E (mk_key_version k) = Some master"
    using key(2) by (auto simp: holds_key_def open_key_def split: option.splits)
  then have known: "master_keys E' (mk_key_version k) \<noteq> None" using rot by (simp add: rotates_to_def)
  show ?thesis
  proof (cases "mk_key_version k = active_key_version E'")
    case True
    then have "t = s \<and> b" using run key(1) by (auto simp: rewrap_def find_key_def pr_Inr)
    moreover have "merchant \<notin> set (stale_merchants E' s)"
      using uniq version True by (auto simp: stale_merchants_def)
    ultimately show ?thesis using held by simp
  next
    case False
    then obtain u where st: "store_key E' merchant secret (mk_key_origin k) True s = Inr (u, t)" and b: b
      using run key(1) held known by (auto simp: rewrap_def find_key_def pr_Inr)
    from stored_key [OF E' st] obtain k' where
      k': "List.find (\<lambda>k. mk_merchant_id k = merchant) (db_merchant_keys t) = Some k'" "holds_key E' merchant secret k'"
      and all: "\<forall>k \<in> set (db_merchant_keys t). mk_merchant_id k = merchant \<longrightarrow> mk_key_version k = active_key_version E'"
      by blast
    have "merchant \<notin> set (stale_merchants E' t)" using all by (auto simp: stale_merchants_def)
    then show ?thesis using load_held [OF k'] b by simp
  qed
qed

lemma restored_key:
  assumes exp: "export_encrypted E merchant s = Inr (blob, s')" and held: "load_nsec E merchant s = Inr (secret, s)"
    and json: "\<forall>k \<in> set (db_merchant_keys s). json_loads E (json_dumps E (key_backup merchant k)) = Some (key_backup merchant k)"
    and res: "restore_encrypted E merchant blob u = Inr (v, t)"
  shows "load_nsec E merchant t = Inr (secret, t)"
proof -
  obtain k where k: "List.find (\<lambda>k. mk_merchant_id k = merchant) (db_merchant_keys s) = Some k" "holds_key E merchant secret k"
    using held_load [OF held] by blast
  then have blob: "json_loads E blob = Some (key_backup merchant k)"
    using exp json find_SomeD [OF k(1)] by (auto simp: export_encrypted_def find_key_def tx_Inr)
  have "parse_backup E blob
      = Inr (mk_nonce k, mk_ciphertext k, JStr (mk_key_version k), JStr (mk_key_origin k))"
    by (simp add: parse_backup_def blob key_backup_def backup_bytes_def backup_text_def b64_round_trip)
  then obtain now where t: "db_merchant_keys t = db_merchant_keys u @ [\<lparr>mk_merchant_id = merchant,
      mk_key_origin = mk_key_origin k, mk_key_version = mk_key_version k, mk_nonce = mk_nonce k,
      mk_ciphertext = mk_ciphertext k, mk_created_at = now, mk_rotated_at = None\<rparr>]"
    "List.find (\<lambda>k. mk_merchant_id k = merchant) (db_merchant_keys u) = None"
    using res by (auto simp: restore_encrypted_def find_key_def text_column_def tx_Inr sql_Inr split: if_splits)
  show ?thesis
    by (rule load_held [where k = "\<lparr>mk_merchant_id = merchant,
      mk_key_origin = mk_key_origin k, mk_key_version = mk_key_version k, mk_nonce = mk_nonce k,
      mk_ciphertext = mk_ciphertext k, mk_created_at = now, mk_rotated_at = None\<rparr>"])
      (use t k(2) in \<open>auto simp: find_append_one holds_key_def open_key_def split: option.splits\<close>)
qed

section \<open>Properties\<close>

text \<open>
  C32 (Key custody). A merchant's secret that was stored under one master key is the one every
  later operation opens: after the rotation to another active version, which never ends with
  \<open>False\<close> while the old version is in the keyring and takes the merchant off the work list, and
  after an encrypted backup of the rotated row is restored into any database without a key.
\<close>

theorem key_survives_rotation_and_backup:
  assumes "crypto_sound E" "crypto_sound E'" "rotates_to E E'"
    and "store_key E merchant secret origin replace s = Inr (u, s1)"
    and "rewrap E' merchant s1 = (Inr b, s2)"
    and "export_encrypted E' merchant s2 = Inr (blob, s3)"
    and "\<forall>k \<in> set (db_merchant_keys s2). json_loads E' (json_dumps E' (key_backup merchant k)) = Some (key_backup merchant k)"
    and "restore_encrypted E' merchant blob s4 = Inr (v, t)"
  shows "b \<and> merchant \<notin> set (stale_merchants E' s2)
    \<and> load_nsec E' merchant s2 = Inr (secret, s2) \<and> load_nsec E' merchant t = Inr (secret, t)"
proof -
  obtain k where k: "List.find (\<lambda>k. mk_merchant_id k = merchant) (db_merchant_keys s1) = Some k"
    "holds_key E merchant secret k"
    "\<forall>k \<in> set (db_merchant_keys s1). mk_merchant_id k = merchant \<longrightarrow> mk_key_version k = active_key_version E"
    using stored_key [OF assms(1,4)] by blast
  note r = rewrapped_key [OF assms(2,3) k assms(5)]
  then have "load_nsec E' merchant s2 = Inr (secret, s2)" by blast
  from r restored_key [OF assms(6) this assms(7,8)] show ?thesis by blast
qed

definition rotated_env :: env where
  "rotated_env = sample_env\<lparr>active_key_version := ''v2'',
     master_keys := (\<lambda>v. if v = ''v1'' then Some ''key'' else if v = ''v2'' then Some ''key2'' else None)\<rparr>"

definition rotated_seal :: bytes where
  "rotated_seal = toy_seal ''key2'' (replicate NONCE_LEN (CHR ''n''))
     (aad_for ''m'' ''merchant_keys'' ''ciphertext'' ''v2'') ''secret''"

definition rotated_row :: merchant_key where
  "rotated_row = \<lparr>mk_merchant_id = ''m'', mk_key_origin = ''imported'', mk_key_version = ''v2'',
     mk_nonce = replicate NONCE_LEN (CHR ''n''), mk_ciphertext = rotated_seal, mk_created_at = 1000,
     mk_rotated_at = Some 1000\<rparr>"

text \<open>The same environment reading the backup of that row.\<close>

definition reading_env :: env where
  "reading_env = rotated_env\<lparr>json_loads := (\<lambda>_. Some (key_backup ''m'' rotated_row))\<rparr>"

definition keyed_db :: db where
  "keyed_db = empty_db\<lparr>db_merchants := [sample_merchant]\<rparr>"

lemma reading_env_fields:
  "active_key_version reading_env = ''v2''" "gcm_encrypt reading_env = toy_seal" "gcm_decrypt reading_env = toy_open"
  "master_keys reading_env = (\<lambda>v. if v = ''v1'' then Some ''key'' else if v = ''v2'' then Some ''key2'' else None)"
  "json_loads reading_env b = Some (key_backup ''m'' rotated_row)" "random_bytes reading_env = random_bytes sample_env"
  by (simp_all add: reading_env_def rotated_env_def sample_env_fields)

lemma envelope_parts:
  assumes "v \<in> {''v1'', ''v2''}"
  shows "take NONCE_LEN (drop VERSION_LEN (ljust VERSION_LEN v @ replicate NONCE_LEN c @ b)) = replicate NONCE_LEN c"
    "drop (VERSION_LEN + NONCE_LEN) (ljust VERSION_LEN v @ replicate NONCE_LEN c @ b) = b"
proof -
  have "length (ljust VERSION_LEN v) = VERSION_LEN"
    using assms by (auto simp: VERSION_LEN_def intro!: ljust_length)
  then show "take NONCE_LEN (drop VERSION_LEN (ljust VERSION_LEN v @ replicate NONCE_LEN c @ b)) = replicate NONCE_LEN c"
    "drop (VERSION_LEN + NONCE_LEN) (ljust VERSION_LEN v @ replicate NONCE_LEN c @ b) = b"
    by simp_all
qed

lemma reading_sound: "crypto_sound reading_env" "rotates_to sample_env reading_env"
  using gcm_sound_sample crypto_sound_sample
  by (auto simp: crypto_sound_def gcm_sound_def rotates_to_def reading_env_fields sample_env_fields nul_def char_of_def)

lemma reading_seal: "seal_column reading_env r t c p s = Inr (ljust VERSION_LEN ''v2'' @ replicate NONCE_LEN (CHR ''n'')
    @ toy_seal ''key2'' (replicate NONCE_LEN (CHR ''n'')) (aad_for r t c ''v2'') p, db_draws_update Suc s)"
  by (simp add: seal_column_def encrypt_def reading_env_fields sample_env_fields draw_def tx_defs VERSION_LEN_def)

definition imported_row :: merchant_key where
  "imported_row = \<lparr>mk_merchant_id = ''m'', mk_key_origin = ''imported'', mk_key_version = ''v1'',
     mk_nonce = replicate NONCE_LEN (CHR ''n''),
     mk_ciphertext = toy_seal ''key'' (replicate NONCE_LEN (CHR ''n'')) (aad_for ''m'' ''merchant_keys'' ''ciphertext'' ''v1'') ''secret'',
     mk_created_at = 1000, mk_rotated_at = None\<rparr>"

lemma sample_store: "store_key sample_env ''m'' ''secret'' ''imported'' True keyed_db
   = Inr ((), keyed_db\<lparr>db_draws := 1, db_merchant_keys := [imported_row]\<rparr>)"
  by (simp add: store_key_def find_key_def seal_sample sample_sealed_def envelope_parts tx_defs sql_one_def
      sql_insert_def merchant_keys_ok_def keyed_db_def empty_db_def sample_merchant_def imported_row_def
      sample_env_fields Let_def del: take_append drop_append)

lemma sample_rewrap: "rewrap reading_env ''m'' (keyed_db\<lparr>db_draws := 1, db_merchant_keys := [imported_row]\<rparr>)
   = (Inr True, keyed_db\<lparr>db_draws := 2, db_merchant_keys := [rotated_row]\<rparr>)"
proof -
  have load: "load_nsec reading_env ''m'' (keyed_db\<lparr>db_draws := 1, db_merchant_keys := [imported_row]\<rparr>)
    = Inr (''secret'', keyed_db\<lparr>db_draws := 1, db_merchant_keys := [imported_row]\<rparr>)"
  proof (rule load_held [OF _ holds_rotated [OF reading_sound(2)]])
    obtain k where "List.find (\<lambda>k. mk_merchant_id k = ''m'') [imported_row] = Some k"
      "holds_key sample_env ''m'' ''secret'' k"
      using stored_key [OF crypto_sound_sample sample_store] by auto
    then show "holds_key sample_env ''m'' ''secret'' imported_row" by (auto split: if_splits)
  qed (simp add: imported_row_def)
  have "store_key reading_env ''m'' ''secret'' ''imported'' True (keyed_db\<lparr>db_draws := 1, db_merchant_keys := [imported_row]\<rparr>)
    = Inr ((), keyed_db\<lparr>db_draws := 2, db_merchant_keys := [rotated_row]\<rparr>)"
    by (simp add: store_key_def find_key_def reading_seal envelope_parts tx_defs sql_one_def sql_update_def
      upd_rows_def merchant_keys_ok_def keyed_db_def empty_db_def sample_merchant_def imported_row_def
      rotated_row_def rotated_seal_def reading_env_fields Let_def del: take_append drop_append)
  with load show ?thesis
    by (simp add: rewrap_def find_key_def pr_defs sql_one_def tx_defs reading_env_fields imported_row_def)
qed

lemma key_survives_rotation_and_backup_witness:
  "\<exists>t. load_nsec reading_env ''m'' t = Inr (''secret'', t) \<and> mk_key_version (hd (db_merchant_keys t)) = ''v2''
     \<and> mk_rotated_at (hd (db_merchant_keys t)) = None"
proof -
  let ?s = "keyed_db\<lparr>db_draws := 2, db_merchant_keys := [rotated_row]\<rparr>"
  let ?t = "keyed_db\<lparr>db_merchant_keys := [rotated_row\<lparr>mk_rotated_at := None\<rparr>]\<rparr>"
  have exp: "export_encrypted reading_env ''m'' ?s = Inr (json_dumps reading_env (key_backup ''m'' rotated_row), ?s)"
    by (simp add: export_encrypted_def find_key_def tx_defs sql_one_def rotated_row_def)
  have "parse_backup reading_env b = Inr (mk_nonce rotated_row, mk_ciphertext rotated_row, JStr ''v2'', JStr ''imported'')" for b
    by (simp add: parse_backup_def reading_env_fields key_backup_def backup_bytes_def backup_text_def b64_round_trip)
      (simp add: rotated_row_def)
  then have res: "restore_encrypted reading_env ''m'' b keyed_db = Inr ((), ?t)" for b
    by (simp add: restore_encrypted_def find_key_def text_column_def tx_defs sql_one_def sql_insert_def Let_def
      merchant_keys_ok_def keyed_db_def empty_db_def sample_merchant_def rotated_row_def)
  have json: "\<forall>k \<in> set (db_merchant_keys ?s). json_loads reading_env (json_dumps reading_env (key_backup ''m'' k))
    = Some (key_backup ''m'' k)"
    by (simp add: reading_env_fields)
  show ?thesis
    using key_survives_rotation_and_backup [OF crypto_sound_sample reading_sound sample_store sample_rewrap exp json res]
    by (intro exI [of _ ?t]) (simp add: rotated_row_def)
qed

text \<open>What the library's own parser would hide: the raw JSON names exactly one recipient.\<close>

definition one_raw_recipient :: "env \<Rightarrow> string \<Rightarrow> bool" where
  "one_raw_recipient E raw \<longleftrightarrow>
     (case json_loads E raw of
        None \<Rightarrow> False
      | Some j \<Rightarrow> is_object j \<and>
          (case json_entries (json_member ''tags'' j) of
             Inl _ \<Rightarrow> False | Inr tags \<Rightarrow> length (raw_values tags ''p'') = 1))"

lemma outer_refuses:
  assumes "sdk_event K raw = None \<or> \<not> one_raw_recipient E raw"
  shows "\<exists>e. outer_stage E K me raw = Inl e"
  using assms
  by (auto simp: outer_stage_def one_raw_recipient_def reject_def try_bind_def split: option.splits sum.splits if_splits)

lemma outer_reference:
  assumes "sdk_event K raw = Some w" "one_raw_recipient E raw"
  shows "outer_stage E K me raw =
    (if ne_kind w \<noteq> 1059 then reject ''outer-kind-not-1059''
     else if \<not> ne_verifies w then reject ''outer-id-or-signature-invalid''
     else if length (single_tag_values (ne_tags w) ''p'') \<noteq> 1 then reject ''outer-p-tag-count''
     else if hd (single_tag_values (ne_tags w) ''p'') \<noteq> me then reject ''outer-p-tag-not-recipient''
     else Inr w)"
  using assms by (auto simp: outer_stage_def one_raw_recipient_def split: option.splits sum.splits)

lemma unwrap_named:
  assumes "sdk_event K raw = Some w" "one_raw_recipient E raw"
  shows "unwrapped_view (unwrap_gift_wrap E K secret me raw (Some e))
    = rumor_view (sdk_unwrap_gift_wrap E K secret me w (Some (if e = [] then me else e)))"
  unfolding unwrap_gift_wrap_def outer_reference [OF assms]
  by (simp add: seal_stage_def rumor_stage_def rumor_tag_stage_def sdk_unwrap_gift_wrap_def json_arr_cases Let_def
      truthy_def split: option.split json.split) (auto simp: unwrapped_view_def rumor_view_def)

lemma unwrap_unnamed:
  assumes "sdk_event K raw = Some w" "one_raw_recipient E raw"
  shows "unwrapped_view (unwrap_gift_wrap E K secret me raw None)
      = rumor_view (sdk_unwrap_gift_wrap E K secret me w None)
    \<or> (\<exists>u. unwrap_gift_wrap E K secret me raw None = Inr u \<and> uw_author u = me
        \<and> sdk_unwrap_gift_wrap E K secret me w None = reject ''rumor-p-tag-invalid'')"
  unfolding unwrap_gift_wrap_def outer_reference [OF assms]
  by (simp add: seal_stage_def rumor_stage_def rumor_tag_stage_def sdk_unwrap_gift_wrap_def json_arr_cases Let_def
      truthy_def split: option.split json.split) (auto simp: unwrapped_view_def rumor_view_def)

text \<open>
  C31 (Gift wraps). A wrap the library cannot parse, or whose raw JSON does not show exactly one
  recipient tag, is refused, also where the reference chain, which counts the parsed tags only,
  would take it. On every other wrap the chain of the key store ends as the reference chain does, in
  the same message or in the same reason at the same stage; the one exception is a message the merchant
  wrote itself, which the key store accepts when no recipient is asked for and the reference refuses for
  its recipient tag. An empty expected recipient counts as the merchant's own key.
\<close>

theorem unwrap_agrees_with_the_reference:
  "case sdk_event K raw of
     None \<Rightarrow> \<exists>e. unwrap_gift_wrap E K secret me raw expected = Inl e
   | Some w \<Rightarrow>
       if one_raw_recipient E raw
       then unwrapped_view (unwrap_gift_wrap E K secret me raw expected)
           = rumor_view (sdk_unwrap_gift_wrap E K secret me w (if expected = Some '''' then Some me else expected))
         \<or> (\<exists>u. expected = None \<and> unwrap_gift_wrap E K secret me raw expected = Inr u \<and> uw_author u = me
             \<and> sdk_unwrap_gift_wrap E K secret me w expected = reject ''rumor-p-tag-invalid'')
       else (\<exists>e. unwrap_gift_wrap E K secret me raw expected = Inl e)"
proof (cases "sdk_event K raw = None \<or> \<not> one_raw_recipient E raw")
  case True
  from outer_refuses [OF this, of me] obtain e where "unwrap_gift_wrap E K secret me raw expected = Inl e"
    by (auto simp: unwrap_gift_wrap_def try_bind_def)
  with True show ?thesis by (auto split: option.split)
next
  case False
  then obtain w where w: "sdk_event K raw = Some w" "one_raw_recipient E raw" by auto
  show ?thesis
    using w unwrap_named [OF w, of secret me] unwrap_unnamed [OF w, of secret me]
    by (cases expected) (simp_all split: if_splits)
qed

text \<open>
  A library that knows two events and two rumors: the buyer's key wrote one seal, the merchant's
  own key the other.
\<close>

definition toy_wrap :: "string \<Rightarrow> nostr_event" where
  "toy_wrap c = \<lparr>ne_author = ''eph'', ne_kind = 1059, ne_created_at = 900, ne_tags = [[''p'', ''mk'']],
     ne_content = c, ne_verifies = True\<rparr>"

definition toy_seal_event :: "string \<Rightarrow> string \<Rightarrow> nostr_event" where
  "toy_seal_event a c = \<lparr>ne_author = a, ne_kind = 13, ne_created_at = 900, ne_tags = [], ne_content = c,
     ne_verifies = True\<rparr>"

definition toy_event :: "string \<Rightarrow> nostr_event option" where
  "toy_event t = (if t = ''wrap'' then Some (toy_wrap ''c1'') else if t = ''copy'' then Some (toy_wrap ''c2'')
     else if t = ''seal1'' then Some (toy_seal_event ''bk'' ''r1'')
     else if t = ''seal2'' then Some (toy_seal_event ''mk'' ''r2'') else None)"

definition toy_rumor :: "string \<Rightarrow> unsigned_event" where
  "toy_rumor a = \<lparr>un_id = ''rumor'', un_author = a, un_created_at = 900, un_kind = 14, un_tags = [], un_content = ''hello''\<rparr>"

definition toy_sdk :: sdk where
  "toy_sdk = \<lparr>sdk_event = toy_event,
     sdk_rumor = (\<lambda>t. if t = ''rumor1'' then Some (toy_rumor ''bk'') else if t = ''rumor2'' then Some (toy_rumor ''mk'') else None),
     sdk_pubkey = (\<lambda>k. Some ''mk''), sdk_nsec = Some, sdk_generate = (\<lambda>n. ''secret''),
     sdk_nip44 = (\<lambda>k a c. if c = ''c1'' then Some ''seal1'' else if c = ''c2'' then Some ''seal2''
        else if c = ''r1'' then Some ''rumor1'' else if c = ''r2'' then Some ''rumor2'' else None),
     py_repr = (\<lambda>j. '''')\<rparr>"

definition toy_tags :: "string \<Rightarrow> json" where
  "toy_tags p = JArr [JArr [JStr ''p'', JStr p]]"

definition toy_json :: "string \<Rightarrow> json option" where
  "toy_json t =
     (if t = ''wrap'' \<or> t = ''copy''
      then Some (JObj [(''kind'', JInt 1059), (''id'', JStr t), (''pubkey'', JStr ''eph''), (''tags'', toy_tags ''mk'')])
      else if t = ''rumor1'' then Some (JObj [(''content'', JStr ''hello''), (''tags'', toy_tags ''mk'')])
      else if t = ''rumor2'' then Some (JObj [(''content'', JStr ''hello''), (''tags'', toy_tags ''bk'')])
      else None)"

definition wrap_env :: env where
  "wrap_env = sample_env\<lparr>json_loads := toy_json\<rparr>"

lemmas toy_defs = wrap_env_def toy_json_def toy_tags_def toy_sdk_def toy_event_def toy_wrap_def
  toy_seal_event_def toy_rumor_def

lemma unwrap_agrees_with_the_reference_witness:
  "unwrapped_view (unwrap_gift_wrap wrap_env toy_sdk ''secret'' ''mk'' ''wrap'' (Some ''mk'')) = Inr (''rumor'', 14, ''bk'')
   \<and> rumor_view (sdk_unwrap_gift_wrap wrap_env toy_sdk ''secret'' ''mk'' (toy_wrap ''c1'') (Some ''mk'')) = Inr (''rumor'', 14, ''bk'')
   \<and> unwrapped_view (unwrap_gift_wrap wrap_env toy_sdk ''secret'' ''mk'' ''copy'' None) = Inr (''rumor'', 14, ''mk'')
   \<and> rumor_view (sdk_unwrap_gift_wrap wrap_env toy_sdk ''secret'' ''mk'' (toy_wrap ''c2'') None) = reject ''rumor-p-tag-invalid''"
proof -
  have runs: "rumor_view (sdk_unwrap_gift_wrap wrap_env toy_sdk ''secret'' ''mk'' (toy_wrap ''c1'') (Some ''mk'')) = Inr (''rumor'', 14, ''bk'')"
    "rumor_view (sdk_unwrap_gift_wrap wrap_env toy_sdk ''secret'' ''mk'' (toy_wrap ''c2'') None) = reject ''rumor-p-tag-invalid''"
    "unwrapped_view (unwrap_gift_wrap wrap_env toy_sdk ''secret'' ''mk'' ''copy'' None) = Inr (''rumor'', 14, ''mk'')"
    by (simp_all add: chain_defs toy_defs
      single_tag_values_def raw_values_def rumor_view_def unwrapped_view_def canonical_rumor_id_def sample_env_def
      ALLOWED_RUMOR_KINDS_def json_member_def json_entries_def truthy_def Let_def reject_def)
  have "sdk_event toy_sdk ''wrap'' = Some (toy_wrap ''c1'')" "one_raw_recipient wrap_env ''wrap''"
    by (simp_all add: toy_defs one_raw_recipient_def raw_values_def json_entries_def json_member_def)
  then show ?thesis
    using unwrap_agrees_with_the_reference [where E = wrap_env and K = toy_sdk and raw = "''wrap''"
      and secret = "''secret''" and me = "''mk''" and expected = "Some ''mk''"] runs by simp
qed

end
