(* ===== verification/SignIn.thy ===== *)
theory SignIn
  imports Keystore Settlement
begin

text \<open>
  Buyer sign-in (\<open>services/nostr_auth.py\<close>): one-time challenges, the signed event that answers
  one, the sessions it mints, and the claim of an order by a signed-in buyer.
\<close>

section \<open>Challenges\<close>

definition CHALLENGE_TTL_S :: int where "CHALLENGE_TTL_S = 300"
definition SIGNIN_EVENT_MAX_AGE_S :: int where "SIGNIN_EVENT_MAX_AGE_S = 300"
definition SIGNIN_EVENT_KIND :: int where "SIGNIN_EVENT_KIND = 22242"
definition NOSTR_SESSION_TTL_S :: int where "NOSTR_SESSION_TTL_S = 7 * 86400"
definition SIGNIN_EVENT_MAX_BYTES :: nat where "SIGNIN_EVENT_MAX_BYTES = 16384"

definition SIGNIN_INVALID :: error where "SIGNIN_INVALID = ProblemError 401 ''unauthorized''"
definition CLAIM_INVALID :: error where "CLAIM_INVALID = ProblemError 401 ''unauthorized''"

definition challenge_scope :: "env \<Rightarrow> id \<Rightarrow> string \<Rightarrow> string" where
  "challenge_scope E merchant ip = hmac_index E ''nostr-challenge'' merchant ip"

text \<open>
  \<open>mint_challenge k c\<close>: at most \<open>k\<close> inserts of a challenge, each after the first with a fresh
  one. Only the digest is stored.
\<close>

fun mint_challenge :: "env \<Rightarrow> id \<Rightarrow> string \<Rightarrow> int \<Rightarrow> nat \<Rightarrow> string \<Rightarrow> (db, string) tx" where
  "mint_challenge E merchant scope now 0 challenge = tx_return challenge"
| "mint_challenge E merchant scope now (Suc k) challenge =
     tx_bind (new_uuid E) (\<lambda>u.
     tx_bind (sql_one db_challenges (\<lambda>r. nc_challenge_hash r = sha256_hex E challenge)) (\<lambda>taken.
     case taken of
       Some _ \<Rightarrow> tx_bind draw (\<lambda>n. mint_challenge E merchant scope now k (generate_public_token E n))
     | None \<Rightarrow>
         tx_seq (sql_insert db_challenges_update challenges_ok
           \<lparr>nc_id = u, nc_merchant_id = merchant, nc_challenge_hash = sha256_hex E challenge,
            nc_scope_hash = scope, nc_expires_at = now + CHALLENGE_TTL_S, nc_used_at = None,
            nc_created_at = now\<rparr>)
           (tx_return challenge)))"

definition issue_challenge :: "env \<Rightarrow> id \<Rightarrow> string \<Rightarrow> int \<Rightarrow> (db, string \<times> int) tx" where
  "issue_challenge E merchant ip now =
     tx_bind draw (\<lambda>n.
     tx_bind (mint_challenge E merchant (challenge_scope E merchant ip) now 3 (generate_public_token E n)) (\<lambda>c.
     tx_return (c, now + CHALLENGE_TTL_S)))"

section \<open>Sign-in\<close>

fun challenge_tag :: "string list \<Rightarrow> string list" where
  "challenge_tag (n # v # _) = (if n = ''challenge'' then [v] else [])"
| "challenge_tag _ = []"

definition candidate_challenges :: "nostr_event \<Rightarrow> string list" where
  "candidate_challenges ev =
     (if ne_content ev = '''' then [] else [ne_content ev]) @ concat (map challenge_tag (ne_tags ev))"

definition live_challenge :: "env \<Rightarrow> id \<Rightarrow> int \<Rightarrow> string \<Rightarrow> nostr_challenge \<Rightarrow> bool" where
  "live_challenge E merchant now c r \<longleftrightarrow> nc_challenge_hash r = sha256_hex E c \<and> nc_merchant_id r = merchant
     \<and> nc_used_at r = None \<and> now < nc_expires_at r"

fun match_challenge :: "env \<Rightarrow> id \<Rightarrow> string \<Rightarrow> int \<Rightarrow> string list \<Rightarrow> db \<Rightarrow> nostr_challenge option" where
  "match_challenge E merchant scope now [] s = None"
| "match_challenge E merchant scope now (c # cs) s =
     (if chars c \<noteq> 43 then match_challenge E merchant scope now cs s
      else case List.find (live_challenge E merchant now c) (db_challenges s) of
        None \<Rightarrow> match_challenge E merchant scope now cs s
      | Some r \<Rightarrow> if nc_scope_hash r = scope then Some r else match_challenge E merchant scope now cs s)"

text \<open>The checks before the transaction: the same refusal whatever is wrong.\<close>

definition signin_event :: "sdk \<Rightarrow> string \<Rightarrow> int \<Rightarrow> error + nostr_event" where
  "signin_event K text now =
     (if SIGNIN_EVENT_MAX_BYTES < length text then Inl SIGNIN_INVALID
      else case sdk_event K text of
        None \<Rightarrow> Inl SIGNIN_INVALID
      | Some ev \<Rightarrow>
          if \<not> ne_verifies ev then Inl SIGNIN_INVALID
          else if ne_kind ev \<noteq> SIGNIN_EVENT_KIND then Inl SIGNIN_INVALID
          else if SIGNIN_EVENT_MAX_AGE_S < \<bar>now - ne_created_at ev\<bar> then Inl SIGNIN_INVALID
          else Inr ev)"

definition session_of :: "id \<Rightarrow> id \<Rightarrow> string \<Rightarrow> bytes \<Rightarrow> string \<Rightarrow> int \<Rightarrow> buyer_session" where
  "session_of u merchant h enc bh now = \<lparr>bs_id = u, bs_merchant_id = merchant, bs_token_hash = h,
     bs_buyer_pubkey_enc = Some enc, bs_buyer_pubkey_hash = bh,
     bs_expires_at = now + NOSTR_SESSION_TTL_S, bs_revoked_at = None, bs_created_at = now\<rparr>"

definition mint_session :: "env \<Rightarrow> id \<Rightarrow> nostr_event \<Rightarrow> string \<Rightarrow> id \<Rightarrow> int \<Rightarrow> (db, unit) tx" where
  "mint_session E merchant ev token u now =
     tx_bind (tx_lift (token_lookup_hash E token)) (\<lambda>h.
     tx_bind (seal_column E u ''buyer_sessions'' ''buyer_pubkey_enc'' (ne_author ev)) (\<lambda>enc.
     sql_insert db_sessions_update sessions_ok
       (session_of u merchant h enc (buyer_hash E merchant (ne_author ev)) now)))"

definition signin_tx :: "env \<Rightarrow> id \<Rightarrow> string \<Rightarrow> nostr_event \<Rightarrow> string \<Rightarrow> id \<Rightarrow> int \<Rightarrow> (db, unit) tx" where
  "signin_tx E merchant scope ev token u now =
     tx_bind (tx_get (match_challenge E merchant scope now (candidate_challenges ev))) (\<lambda>matched.
     case matched of
       None \<Rightarrow> tx_raise SIGNIN_INVALID
     | Some r \<Rightarrow>
         tx_bind (sql_update db_challenges db_challenges_update challenges_ok
           (\<lambda>c. nc_id c = nc_id r \<and> nc_used_at c = None \<and> now < nc_expires_at c)
           (\<lambda>c. c\<lparr>nc_used_at := Some now\<rparr>)) (\<lambda>rc.
         if rc \<noteq> 1 then tx_raise SIGNIN_INVALID
         else mint_session E merchant ev token u now))"

text \<open>The result: the token, the buyer's key, its bech32 form and the end of the session.\<close>

definition verify_signin :: "env \<Rightarrow> sdk \<Rightarrow> id \<Rightarrow> string \<Rightarrow> string \<Rightarrow> int \<Rightarrow>
    (db, string \<times> string \<times> string \<times> int) proc" where
  "verify_signin E K merchant text ip now =
     pr_bind (pr_lift (signin_event K text now)) (\<lambda>ev.
     pr_bind (commit draw) (\<lambda>n.
     pr_bind (commit (new_uuid E)) (\<lambda>u.
     if master_keys E (active_key_version E) = None then pr_raise KeyError
     else
       (let token = generate_public_token E n in
        pr_bind (commit (signin_tx E merchant (challenge_scope E merchant ip) ev token u now)) (\<lambda>_.
        case npub E (ne_author ev) of
          None \<Rightarrow> pr_raise (ForeignError ''NostrSdkError'')
        | Some b \<Rightarrow> pr_return (token, ne_author ev, b, now + NOSTR_SESSION_TTL_S))))))"

section \<open>Sessions\<close>

record session =
  ss_id :: id
  ss_merchant_id :: id
  ss_buyer_pubkey :: string
  ss_buyer_pubkey_hash :: string
  ss_expires_at :: int

text \<open>
  A key version missing from the keyring is the \<open>KeyError\<close> of the lookup, which the handler for
  \<open>CryptoError\<close> does not cover.
\<close>

definition session_pubkey :: "env \<Rightarrow> buyer_session \<Rightarrow> error + string option" where
  "session_pubkey E r =
     (case bs_buyer_pubkey_enc r of
        None \<Rightarrow> Inr None
      | Some enc \<Rightarrow>
          (case open_column E (bs_id r) ''buyer_sessions'' ''buyer_pubkey_enc'' enc of
             Inr p \<Rightarrow> Inr (Some p)
           | Inl e \<Rightarrow> if e = CryptoError then Inr None else Inl e))"

definition session_from_cookie :: "env \<Rightarrow> string option \<Rightarrow> int \<Rightarrow> (db, session option) tx" where
  "session_from_cookie E cookie now =
     (if \<not> truthy cookie then tx_return None
      else case token_lookup_hash E (the cookie) of
        Inl _ \<Rightarrow> tx_return None
      | Inr h \<Rightarrow>
          tx_bind (sql_one db_sessions (\<lambda>r. bs_token_hash r = h)) (\<lambda>row.
          case row of
            None \<Rightarrow> tx_return None
          | Some r \<Rightarrow>
              if bs_revoked_at r \<noteq> None \<or> bs_expires_at r \<le> now then tx_return None
              else
                tx_bind (tx_lift (session_pubkey E r)) (\<lambda>p.
                tx_return (if \<not> truthy p then None
                  else Some \<lparr>ss_id = bs_id r, ss_merchant_id = bs_merchant_id r, ss_buyer_pubkey = the p,
                    ss_buyer_pubkey_hash = bs_buyer_pubkey_hash r, ss_expires_at = bs_expires_at r\<rparr>))))"

definition revoke_session :: "env \<Rightarrow> string option \<Rightarrow> int \<Rightarrow> (db, bool) tx" where
  "revoke_session E cookie now =
     (if \<not> truthy cookie then tx_return False
      else case token_lookup_hash E (the cookie) of
        Inl _ \<Rightarrow> tx_return False
      | Inr h \<Rightarrow>
          tx_bind (sql_update db_sessions db_sessions_update sessions_ok
            (\<lambda>r. bs_token_hash r = h \<and> bs_revoked_at r = None) (\<lambda>r. r\<lparr>bs_revoked_at := Some now\<rparr>)) (\<lambda>rc.
          tx_return (rc = 1)))"

definition require_origin :: "env \<Rightarrow> string option \<Rightarrow> error + unit" where
  "require_origin E origin =
     try_require (truthy origin \<and> str_lower E (the origin) \<noteq> ''null'' \<and> origin = Some (public_base_url E))
       (ProblemError 403 ''unauthorized'')"

section \<open>Claiming an order\<close>

text \<open>
  \<open>claim_order\<close> has the order as its caller read it. The result says whether the order was
  already linked to this buyer.
\<close>

definition claim_order_tx :: "env \<Rightarrow> id \<Rightarrow> string \<Rightarrow> bytes \<Rightarrow> int \<Rightarrow> (db, bool) tx" where
  "claim_order_tx E i buyer_h enc now =
     tx_bind (sql_update db_orders db_orders_update orders_ok
       (\<lambda>k. o_id k = i \<and> o_buyer_pubkey_hash k = None)
       (\<lambda>k. k\<lparr>o_buyer_pubkey_enc := Some enc, o_buyer_pubkey_hash := Some buyer_h, o_updated_at := now\<rparr>)) (\<lambda>rc.
     if rc \<noteq> 1
     then tx_bind (sql_one db_orders (\<lambda>k. o_id k = i)) (\<lambda>row.
       case row of
         Some k \<Rightarrow> if truthy (o_buyer_pubkey_hash k) \<and> o_buyer_pubkey_hash k = Some buyer_h then tx_return True
           else tx_raise CLAIM_INVALID
       | None \<Rightarrow> tx_raise CLAIM_INVALID)
     else tx_seq (annotate E i ''buyer'' [(''type'', JStr ''buyer-claimed'')] now) (tx_return False))"

definition claim_order :: "env \<Rightarrow> session \<Rightarrow> order_row \<Rightarrow> int \<Rightarrow> (db, bool) proc" where
  "claim_order E ss k now =
     (if truthy (o_buyer_pubkey_hash k)
      then if o_buyer_pubkey_hash k = Some (ss_buyer_pubkey_hash ss) then pr_return True else pr_raise CLAIM_INVALID
      else
        pr_bind (commit (seal_column E (o_id k) ''orders'' ''buyer_pubkey_enc'' (ss_buyer_pubkey ss))) (\<lambda>enc.
        commit (claim_order_tx E (o_id k) (ss_buyer_pubkey_hash ss) enc now)))"

end
