(* ===== verification/SignInLaws.thy ===== *)
theory SignInLaws
  imports SignIn RateLimit
begin

text \<open>
  What the buyer sign-in promises: a challenge mints at most one session, whoever races for it,
  and the session a sign-in returns names the key whose verified signature answered a live
  challenge of that merchant and client.
\<close>

section \<open>Challenges are used once\<close>

text \<open>
  One step of the sign-in tables: a challenge is issued, one is answered (the label is its id), or
  a transaction leaves the challenges alone.
\<close>

inductive signin_step :: "env \<Rightarrow> db \<Rightarrow> id option \<Rightarrow> db \<Rightarrow> bool" for E where
  issues: "issue_challenge E merchant ip now s = Inr (r, t) \<Longrightarrow> signin_step E s None t"
| answers: "match_challenge E merchant scope now (candidate_challenges ev) s = Some r
    \<Longrightarrow> signin_tx E merchant scope ev token u now s = Inr (v, t) \<Longrightarrow> signin_step E s (Some (nc_id r)) t"
| elsewhere: "db_challenges t = db_challenges s \<Longrightarrow> signin_step E s None t"

definition used_challenges :: "db \<Rightarrow> id set" where
  "used_challenges s = {nc_id r | r. r \<in> set (db_challenges s) \<and> nc_used_at r \<noteq> None}"

definition challenge_ids_ok :: "db \<Rightarrow> bool" where
  "challenge_ids_ok s \<longleftrightarrow> distinct (map nc_id (db_challenges s))"

lemma match_live:
  "match_challenge E merchant scope now cs s = Some r \<Longrightarrow>
    \<exists>c \<in> set cs. chars c = 43 \<and> r \<in> set (db_challenges s) \<and> live_challenge E merchant now c r \<and> nc_scope_hash r = scope"
  by (induction E merchant scope now cs s rule: match_challenge.induct)
    (auto dest!: find_SomeD split: if_splits option.splits)

lemma mint_adds:
  "mint_challenge E merchant scope now k c s = Inr (c', t) \<Longrightarrow> challenge_ids_ok s \<Longrightarrow>
    challenge_ids_ok t \<and> used_challenges t = used_challenges s"
proof (induction k arbitrary: c s)
  case (Suc k)
  show ?case
  proof (cases "List.find (\<lambda>r. nc_challenge_hash r = sha256_hex E c) (db_challenges s)")
    case None
    then show ?thesis
      using Suc.prems by (auto simp: tx_Inr sql_Inr challenge_ids_ok_def challenges_ok_def used_challenges_def)
  next
    case (Some r)
    then have "mint_challenge E merchant scope now k (generate_public_token E (Suc (db_draws s)))
        (db_draws_update Suc (db_draws_update Suc s)) = Inr (c', t)"
      using Suc.prems(1) by (auto simp: tx_Inr)
    from Suc.IH [OF this] Suc.prems(2) show ?thesis by (simp add: challenge_ids_ok_def used_challenges_def)
  qed
qed simp

lemma issue_adds:
  "issue_challenge E merchant ip now s = Inr (r, t) \<Longrightarrow> challenge_ids_ok s \<Longrightarrow>
    challenge_ids_ok t \<and> used_challenges t = used_challenges s"
  unfolding issue_challenge_def tx_Inr
  by (auto dest!: mint_adds simp: challenge_ids_ok_def used_challenges_def)

lemma answer_uses:
  assumes m: "match_challenge E merchant scope now (candidate_challenges ev) s = Some r"
    and run: "signin_tx E merchant scope ev token u now s = Inr (v, t)" and ok: "challenge_ids_ok s"
  shows "challenge_ids_ok t \<and> nc_id r \<notin> used_challenges s \<and> used_challenges t = insert (nc_id r) (used_challenges s)"
proof -
  let ?f = "upd_rows (\<lambda>c. nc_id c = nc_id r \<and> nc_used_at c = None \<and> now < nc_expires_at c) (\<lambda>c. c\<lparr>nc_used_at := Some now\<rparr>)"
  have t: "db_challenges t = ?f (db_challenges s)"
    using run m by (auto simp: signin_tx_def mint_session_def tx_Inr sql_Inr dest!: seal_draws split: if_splits)
  have r: "r \<in> set (db_challenges s)" "nc_used_at r = None" "now < nc_expires_at r"
    using match_live [OF m] by (auto simp: live_challenge_def)
  have uniq: "q = r" if "q \<in> set (db_challenges s)" "nc_id q = nc_id r" for q
    using distinct_key_eq [OF ok [unfolded challenge_ids_ok_def] that(1) r(1) that(2)] .
  then have "nc_id r \<notin> used_challenges s" using r(2) by (auto simp: used_challenges_def)
  moreover have "used_challenges t = insert (nc_id r) (used_challenges s)"
  proof -
    have hit: "nc_id q = nc_id r \<and> nc_used_at q = None \<and> now < nc_expires_at q \<longleftrightarrow> q = r"
      if "q \<in> set (db_challenges s)" for q
      using uniq [OF that] r by blast
    have "?f (db_challenges s) = map (\<lambda>q. if q = r then q\<lparr>nc_used_at := Some now\<rparr> else q) (db_challenges s)"
      unfolding upd_rows_def by (rule map_cong [OF refl], rule if_cong [OF _ refl refl], erule hit)
    then have rows: "set (db_challenges t) = (\<lambda>q. if q = r then q\<lparr>nc_used_at := Some now\<rparr> else q) ` set (db_challenges s)"
      by (simp add: t)
    have "nc_id q \<in> used_challenges t" if "q \<in> set (db_challenges s)" "q = r \<or> nc_used_at q \<noteq> None" for q
      unfolding used_challenges_def rows
      by (rule CollectI, rule exI [of _ "if q = r then q\<lparr>nc_used_at := Some now\<rparr> else q"]) (use that in auto)
    then show ?thesis using r(1) by (auto simp: used_challenges_def rows split: if_splits)
  qed
  moreover have "map nc_id (?f (db_challenges s)) = map nc_id (db_challenges s)"
    by (rule map_upd_rows) simp
  then have "challenge_ids_ok t" using ok by (simp add: challenge_ids_ok_def t)
  ultimately show ?thesis by blast
qed

lemma run_uses:
  "labelled_run (signin_step E) s ls t \<Longrightarrow> challenge_ids_ok s \<Longrightarrow>
    challenge_ids_ok t \<and> distinct (List.map_filter id ls)
    \<and> set (List.map_filter id ls) \<inter> used_challenges s = {}
    \<and> used_challenges t = used_challenges s \<union> set (List.map_filter id ls)"
proof (induction rule: labelled_run.induct)
  case (goes s ls t l u)
  note IH = goes.IH [OF goes.prems]
  have step: "challenge_ids_ok u \<and> (case l of None \<Rightarrow> used_challenges u = used_challenges t
    | Some i \<Rightarrow> i \<notin> used_challenges t \<and> used_challenges u = insert i (used_challenges t))"
    using goes.hyps(2)
  proof cases
    case issues
    then show ?thesis using issue_adds IH by simp
  next
    case (answers merchant scope now ev r token i v)
    show ?thesis unfolding answers(1) using answer_uses [OF answers(2,3)] IH by simp
  next
    case elsewhere
    then show ?thesis using IH by (simp add: challenge_ids_ok_def used_challenges_def)
  qed
  then show ?case using IH by (cases l) (auto simp: List.map_filter_def)
qed (simp add: List.map_filter_def)

section \<open>What a session proves\<close>

lemma signin_event_checks:
  "signin_event K text now = Inr ev \<Longrightarrow> sdk_event K text = Some ev \<and> ne_verifies ev
    \<and> ne_kind ev = SIGNIN_EVENT_KIND \<and> \<bar>now - ne_created_at ev\<bar> \<le> SIGNIN_EVENT_MAX_AGE_S"
  by (auto simp: signin_event_def split: if_splits option.splits)

lemma session_of_fields [simp]:
  "bs_id (session_of u merchant h enc bh now) = u" "bs_merchant_id (session_of u merchant h enc bh now) = merchant"
  "bs_token_hash (session_of u merchant h enc bh now) = h"
  "bs_buyer_pubkey_enc (session_of u merchant h enc bh now) = Some enc"
  "bs_buyer_pubkey_hash (session_of u merchant h enc bh now) = bh"
  "bs_expires_at (session_of u merchant h enc bh now) = now + NOSTR_SESSION_TTL_S"
  "bs_revoked_at (session_of u merchant h enc bh now) = None"
  by (simp_all add: session_of_def)

lemma mint_session_row:
  assumes "mint_session E merchant ev token u now s = Inr (v, t)"
  shows "\<exists>h enc. token_lookup_hash E token = Inr h
    \<and> seal_column E u ''buyer_sessions'' ''buyer_pubkey_enc'' (ne_author ev) s = Inr (enc, db_draws_update Suc s)
    \<and> db_sessions t = db_sessions s @ [session_of u merchant h enc (buyer_hash E merchant (ne_author ev)) now]
    \<and> sessions_ok t"
proof -
  from assms obtain h enc s2 where h: "token_lookup_hash E token = Inr h"
    and seal: "seal_column E u ''buyer_sessions'' ''buyer_pubkey_enc'' (ne_author ev) s = Inr (enc, s2)"
    and ins: "sql_insert db_sessions_update sessions_ok
      (session_of u merchant h enc (buyer_hash E merchant (ne_author ev)) now) s2 = Inr (v, t)"
    unfolding mint_session_def tx_bind_Inr tx_lift_Inr by blast
  show ?thesis
    by (rule exI [of _ h], rule exI [of _ enc]) (use h seal ins seal_draws [OF seal] in \<open>auto simp: sql_Inr\<close>)
qed

lemma signin_mints:
  assumes "signin_tx E merchant scope ev token u now s = Inr (v, t)"
  obtains r s1 where "match_challenge E merchant scope now (candidate_challenges ev) s = Some r"
    "mint_session E merchant ev token u now s1 = Inr (v, t)"
  using assms by (auto simp: signin_tx_def tx_bind_Inr split: option.splits if_splits)

lemma session_opens:
  assumes E: "crypto_sound E" and run: "mint_session E merchant ev token u now s = Inr (v, t)"
    and "token \<noteq> []" "ne_author ev \<noteq> []" and later: "later < now + NOSTR_SESSION_TTL_S"
  shows "\<exists>ss. session_from_cookie E (Some token) later t = Inr (Some ss, t) \<and> ss_buyer_pubkey ss = ne_author ev
    \<and> ss_merchant_id ss = merchant \<and> ss_buyer_pubkey_hash ss = buyer_hash E merchant (ne_author ev)"
proof -
  from mint_session_row [OF run] obtain h enc where h: "token_lookup_hash E token = Inr h"
    and seal: "seal_column E u ''buyer_sessions'' ''buyer_pubkey_enc'' (ne_author ev) s = Inr (enc, db_draws_update Suc s)"
    and t: "db_sessions t = db_sessions s @ [session_of u merchant h enc (buyer_hash E merchant (ne_author ev)) now]"
    and ok: "sessions_ok t" by blast
  let ?r = "session_of u merchant h enc (buyer_hash E merchant (ne_author ev)) now"
  have "distinct (map bs_token_hash (db_sessions t))" "?r \<in> set (db_sessions t)"
    using ok t by (simp_all add: sessions_ok_def)
  then have found: "List.find (\<lambda>r. bs_token_hash r = h) (db_sessions t) = Some ?r"
    using find_key [of bs_token_hash "db_sessions t" ?r] by simp
  have pub: "session_pubkey E ?r = Inr (Some (ne_author ev))"
    using open_sealed [OF E seal] by (simp add: session_pubkey_def)
  have "session_from_cookie E (Some token) later t = Inr (Some \<lparr>ss_id = u, ss_merchant_id = merchant,
      ss_buyer_pubkey = ne_author ev, ss_buyer_pubkey_hash = buyer_hash E merchant (ne_author ev),
      ss_expires_at = now + NOSTR_SESSION_TTL_S\<rparr>, t)"
    using assms(3,4) later
    by (simp add: session_from_cookie_def truthy_def h tx_bind_Inr found pub)
  then show ?thesis by simp
qed

text \<open>
  C33 (Single use). However challenges are issued and sign-ins race, no challenge is answered twice,
  and none that was used before the run is answered at all.
\<close>

theorem each_challenge_is_answered_once:
  assumes "challenge_ids_ok s" and "labelled_run (signin_step E) s ls t"
  shows "distinct (List.map_filter id ls) \<and> set (List.map_filter id ls) \<inter> used_challenges s = {}"
  using run_uses [OF assms(2,1)] by blast

text \<open>
  C34 (Who is signed in). A sign-in that returns had a verified, fresh sign-in event, written by the
  key it returns, that carries an unused, unexpired challenge of this merchant and this client
  address; and until the session ends, its token opens to that key and no other.
\<close>

theorem signed_in_key_answered_a_live_challenge:
  assumes "crypto_sound E"
    and "verify_signin E K merchant text ip now s = (Inr (token, pubkey, b, ends), t)"
    and "pubkey \<noteq> ''''" and "later < ends"
  shows "(\<exists>ev c r. sdk_event K text = Some ev \<and> ne_verifies ev \<and> ne_kind ev = 22242
      \<and> \<bar>now - ne_created_at ev\<bar> \<le> 300 \<and> ne_author ev = pubkey
      \<and> c \<in> set (candidate_challenges ev) \<and> r \<in> set (db_challenges s)
      \<and> nc_challenge_hash r = sha256_hex E c \<and> nc_merchant_id r = merchant \<and> nc_used_at r = None
      \<and> now < nc_expires_at r \<and> nc_scope_hash r = challenge_scope E merchant ip)
    \<and> (\<exists>ss. session_from_cookie E (Some token) later t = Inr (Some ss, t) \<and> ss_buyer_pubkey ss = pubkey
      \<and> ss_merchant_id ss = merchant \<and> ss_buyer_pubkey_hash ss = buyer_hash E merchant pubkey)"
proof -
  let ?s = "db_draws_update Suc (db_draws_update Suc s)"
  obtain ev where ev: "signin_event K text now = Inr ev"
    using assms(2) by (cases "signin_event K text now") (simp_all add: verify_signin_def pr_lift_def pr_bind_def pr_raise_def)
  have "commit (signin_tx E merchant (challenge_scope E merchant ip) ev token (uuid4 E (Suc (db_draws s))) now) ?s = (Inr (), t)
    \<and> pubkey = ne_author ev \<and> ends = now + NOSTR_SESSION_TTL_S \<and> token = generate_public_token E (db_draws s)"
    using assms(2) by (auto simp: verify_signin_def ev pr_lift_def pr_bind_Inr pr_return_Inr pr_raise_Inr
        commit_Inr Let_def split: if_splits option.splits)
  then have run: "signin_tx E merchant (challenge_scope E merchant ip) ev token (uuid4 E (Suc (db_draws s))) now ?s = Inr ((), t)"
    and out: "pubkey = ne_author ev" "ends = now + NOSTR_SESSION_TTL_S" "token = generate_public_token E (db_draws s)"
    unfolding commit_Inr by blast+
  note checks = signin_event_checks [OF ev]
  obtain r s1 where m: "match_challenge E merchant (challenge_scope E merchant ip) now (candidate_challenges ev) ?s = Some r"
    and mint: "mint_session E merchant ev token (uuid4 E (Suc (db_draws s))) now s1 = Inr ((), t)"
    using signin_mints [OF run] .
  from match_live [OF m] have live: "\<exists>c r. c \<in> set (candidate_challenges ev) \<and> r \<in> set (db_challenges s)
      \<and> nc_challenge_hash r = sha256_hex E c \<and> nc_merchant_id r = merchant \<and> nc_used_at r = None
      \<and> now < nc_expires_at r \<and> nc_scope_hash r = challenge_scope E merchant ip"
    by (auto simp: live_challenge_def)
  have "length (b64url_encode b) = (8 * length b + 5) div 6" for b
    by (simp add: b64url_encode_def length_sextet_groups char_bits_length)
  then have "length token = 43"
    using assms(1) by (simp add: out generate_public_token_def crypto_sound_def TOKEN_BYTES_def)
  then have "token \<noteq> []" by auto
  note session_opens [OF assms(1) mint this]
  with assms(3,4) checks live show ?thesis
    by (auto simp: out SIGNIN_EVENT_KIND_def SIGNIN_EVENT_MAX_AGE_S_def)
qed

section \<open>A run\<close>

definition signin_db :: db where
  "signin_db = empty_db\<lparr>db_merchants := [sample_merchant],
     db_challenges := [\<lparr>nc_id = ''n'', nc_merchant_id = ''m'', nc_challenge_hash = replicate 43 (CHR ''c''),
       nc_scope_hash = challenge_scope sample_env ''m'' ''ip'', nc_expires_at = 1300, nc_used_at = None,
       nc_created_at = 1000\<rparr>]\<rparr>"

definition signin_sdk :: sdk where
  "signin_sdk = \<lparr>sdk_event = (\<lambda>t. Some \<lparr>ne_author = ''bk'', ne_kind = 22242, ne_created_at = 1100, ne_tags = [],
       ne_content = replicate 43 (CHR ''c''), ne_verifies = True\<rparr>),
     sdk_rumor = (\<lambda>t. None), sdk_pubkey = (\<lambda>k. None), sdk_nsec = (\<lambda>t. None), sdk_generate = (\<lambda>n. ''''),
     sdk_nip44 = (\<lambda>k a c. None), py_repr = (\<lambda>j. '''')\<rparr>"

lemma sample_token_lookup: "token_lookup_hash sample_env (b64url_encode (replicate 32 (CHR ''n''))) = Inr (replicate 32 (CHR ''n''))"
  by (simp add: token_lookup_hash_def encode_token_re decode_encode TOKEN_BYTES_def sample_env_def)

lemma chars_43: "chars (replicate 43 (CHR ''c'')) = 43"
  by code_simp

lemma signin_run: "\<exists>token ends t. verify_signin sample_env signin_sdk ''m'' ''event'' ''ip'' 1200 signin_db
    = (Inr (token, ''bk'', ''bk'', ends), t) \<and> ends = 606000 \<and> map nc_used_at (db_challenges t) = [Some 1200]"
  by (simp add: verify_signin_def signin_event_def signin_sdk_def pr_defs pr_lift_def signin_tx_def mint_session_def
      candidate_challenges_def live_challenge_def signin_db_def evals chars_43 SIGNIN_EVENT_MAX_BYTES_def
      SIGNIN_EVENT_KIND_def SIGNIN_EVENT_MAX_AGE_S_def generate_public_token_def TOKEN_BYTES_def
      sample_token_lookup session_of_def NOSTR_SESSION_TTL_S_def)

lemma each_challenge_is_answered_once_witness:
  "\<exists>ls t. labelled_run (signin_step sample_env) signin_db ls t \<and> List.map_filter id ls = [''n'']
     \<and> distinct (List.map_filter id ls) \<and> used_challenges signin_db = {}"
proof -
  let ?ev = "the (sdk_event signin_sdk ''event'')"
  let ?scope = "challenge_scope sample_env ''m'' ''ip''"
  have "\<exists>r. match_challenge sample_env ''m'' ?scope 1200 (candidate_challenges ?ev) signin_db = Some r \<and> nc_id r = ''n''"
    and "\<exists>t. signin_tx sample_env ''m'' ?scope ?ev (b64url_encode (replicate 32 (CHR ''n''))) ''u'' 1200 signin_db = Inr ((), t)"
    by (simp_all add: signin_sdk_def signin_tx_def mint_session_def candidate_challenges_def live_challenge_def
      signin_db_def evals chars_43 sample_token_lookup session_of_def)
  then obtain r t where m: "match_challenge sample_env ''m'' ?scope 1200 (candidate_challenges ?ev) signin_db = Some r"
    and id: "nc_id r = ''n''"
    and run: "signin_tx sample_env ''m'' ?scope ?ev (b64url_encode (replicate 32 (CHR ''n''))) ''u'' 1200 signin_db = Inr ((), t)"
    by blast
  have "labelled_run (signin_step sample_env) signin_db ([] @ [Some ''n'']) t"
    unfolding id [symmetric] by (rule goes, rule stays, rule answers [OF m run])
  moreover have "challenge_ids_ok signin_db" "used_challenges signin_db = {}"
    by (simp_all add: challenge_ids_ok_def used_challenges_def signin_db_def)
  ultimately show ?thesis
    using each_challenge_is_answered_once [of signin_db sample_env "[] @ [Some ''n'']" t]
    by (intro exI [of _ "[Some ''n'']"] exI [of _ t]) (simp add: List.map_filter_def)
qed

lemma signed_in_key_answered_a_live_challenge_witness:
  "\<exists>token ends t ss. verify_signin sample_env signin_sdk ''m'' ''event'' ''ip'' 1200 signin_db = (Inr (token, ''bk'', ''bk'', ends), t)
     \<and> session_from_cookie sample_env (Some token) 5000 t = Inr (Some ss, t) \<and> ss_buyer_pubkey ss = ''bk''"
proof -
  obtain token ends t where run: "verify_signin sample_env signin_sdk ''m'' ''event'' ''ip'' 1200 signin_db
      = (Inr (token, ''bk'', ''bk'', ends), t)" and ends: "5000 < ends"
    using signin_run by auto
  show ?thesis
    using signed_in_key_answered_a_live_challenge [OF crypto_sound_sample run _ ends] run by blast
qed

end
