(* ===== verification/Inbound.thy ===== *)
theory Inbound
  imports Checkout Keystore RateLimit
begin

text \<open>
  What a buyer's verified message does (\<open>services/order_messages.py\<close>): the order rumor read as a
  checkout payload, status and receipt messages, direct messages and the merchant's replies. The
  rumor is the JSON the key store decrypted; its entries are read with the type tests of the code.
\<close>

section \<open>Reading a rumor\<close>

text \<open>
  \<open>str\<close> of a JSON value, and \<open>int\<close> of one. A text is stripped, may have a sign and single
  underscores between its digits; only the ASCII digits are recognised here. A parsed rumor has
  nothing but text in its tags, the other cases are those of the Python built-ins.
\<close>

definition py_str :: "sdk \<Rightarrow> json \<Rightarrow> string" where
  "py_str K v = (case v of JStr x \<Rightarrow> x | JInt i \<Rightarrow> str_int i | JNull \<Rightarrow> ''None''
     | JBool b \<Rightarrow> if b then ''True'' else ''False'' | _ \<Rightarrow> py_repr K v)"

definition digit_value :: "char \<Rightarrow> int option" where
  "digit_value c = (let n = of_char c in if 48 \<le> n \<and> n \<le> (57 :: int) then Some (n - 48) else None)"

fun digits_int :: "int \<Rightarrow> string \<Rightarrow> int option" where
  "digits_int acc [] = Some acc"
| "digits_int acc (c # cs) =
     (case digit_value c of
        Some d \<Rightarrow> digits_int (10 * acc + d) cs
      | None \<Rightarrow>
          if c = CHR ''_'' then (case cs of [] \<Rightarrow> None
            | d # _ \<Rightarrow> if digit_value d = None then None else digits_int acc cs)
          else None)"

fun unsigned_int :: "string \<Rightarrow> int option" where
  "unsigned_int [] = None"
| "unsigned_int (c # cs) = (if digit_value c = None then None else digits_int 0 (c # cs))"

definition py_int :: "env \<Rightarrow> string \<Rightarrow> int option" where
  "py_int E t = (case str_strip E t of
     [] \<Rightarrow> None
   | c # cs \<Rightarrow> if c = CHR ''-'' then map_option uminus (unsigned_int cs)
       else if c = CHR ''+'' then unsigned_int cs else unsigned_int (c # cs))"

definition dec_trunc :: "dec \<Rightarrow> int" where
  "dec_trunc d = (if 0 \<le> dec_exp d then dec_coeff d * 10 ^ nat (dec_exp d)
     else sgn (dec_coeff d) * (\<bar>dec_coeff d\<bar> div 10 ^ nat (- dec_exp d)))"

definition json_to_int :: "env \<Rightarrow> json \<Rightarrow> int option" where
  "json_to_int E v = (case v of JInt i \<Rightarrow> Some i | JBool b \<Rightarrow> Some (if b then 1 else 0)
     | JStr t \<Rightarrow> py_int E t | JReal d \<Rightarrow> Some (dec_trunc d) | _ \<Rightarrow> None)"

text \<open>\<open>_first_tag\<close>: a missing tag and a null value are both \<open>None\<close>.\<close>

definition first_tag :: "json list \<Rightarrow> string \<Rightarrow> json" where
  "first_tag tags name = (case raw_values tags name of [] \<Rightarrow> JNull | v # _ \<Rightarrow> v)"

definition only_value :: "json list \<Rightarrow> string \<Rightarrow> json" where
  "only_value tags name = (case raw_values tags name of [v] \<Rightarrow> v | _ \<Rightarrow> JNull)"

text \<open>\<open>^[A-Za-z0-9_-]{1,64}$\<close> under \<open>re.match\<close>; a value that is not text is a \<open>TypeError\<close>.\<close>

definition external_id_re :: "string \<Rightarrow> bool" where
  "external_id_re t \<longleftrightarrow> (let body = (if t \<noteq> [] \<and> last t = CHR 0x0A then butlast t else t) in
     1 \<le> length body \<and> length body \<le> 64 \<and> list_all (\<lambda>c. c \<in> set b64_alphabet) body)"

definition match_external_id :: "json \<Rightarrow> error + bool" where
  "match_external_id v = (case v of JStr t \<Rightarrow> Inr (external_id_re t) | _ \<Rightarrow> Inl TypeError)"

text \<open>\<open>split(":", 2)\<close>.\<close>

definition split_first :: "string \<Rightarrow> string \<times> string option" where
  "split_first t = (let h = takeWhile (\<lambda>c. c \<noteq> CHR '':'') t in
     (h, if length h < length t then Some (drop (Suc (length h)) t) else None))"

definition split2 :: "string \<Rightarrow> string list" where
  "split2 t = (case split_first t of
     (a, None) \<Rightarrow> [a]
   | (a, Some r) \<Rightarrow> (case split_first r of (b, None) \<Rightarrow> [a, b] | (b, Some c) \<Rightarrow> [a, b, c]))"

section \<open>An order rumor as a checkout payload\<close>

definition invalid_content :: error where "invalid_content = unprocessable ''invalid-content''"

definition item_of_tag :: "env \<Rightarrow> sdk \<Rightarrow> merchant \<Rightarrow> json \<Rightarrow> json \<Rightarrow> error + json" where
  "item_of_tag E K m ref qty =
     (case split2 (py_str K ref) of
        [kind, pubkey, d] \<Rightarrow>
          if kind \<noteq> ''30402'' then Inl invalid_content
          else if pubkey \<noteq> m_pubkey m then Inl invalid_content
          else (case json_to_int E qty of
            None \<Rightarrow> Inl invalid_content
          | Some n \<Rightarrow> Inr (JObj [(''d_tag'', JStr d), (''quantity'', JInt n)]))
      | _ \<Rightarrow> Inl invalid_content)"

fun add_item :: "env \<Rightarrow> sdk \<Rightarrow> merchant \<Rightarrow> json list \<Rightarrow> json \<Rightarrow> error + json list" where
  "add_item E K m items (JArr (n # ref # qty # _)) =
     (if n = JStr ''item'' then try_bind (item_of_tag E K m ref qty) (\<lambda>i. Inr (items @ [i])) else Inr items)"
| "add_item E K m items _ = Inr items"

text \<open>The last well-formed shipping tag of the merchant wins; others are passed over.\<close>

definition shipping_of_tags :: "sdk \<Rightarrow> merchant \<Rightarrow> json list \<Rightarrow> string option" where
  "shipping_of_tags K m tags = foldl (\<lambda>acc v. case split2 (py_str K v) of
      [kind, pubkey, d] \<Rightarrow> if kind = ''30406'' \<and> pubkey = m_pubkey m then Some d else acc
    | _ \<Rightarrow> acc) None (raw_values tags ''shipping'')"

definition object_entries :: "json \<Rightarrow> (string \<times> json) list" where
  "object_entries j = (case j of JObj kvs \<Rightarrow> kvs | _ \<Rightarrow> [])"

text \<open>\<open>{**a, **b}\<close>.\<close>

definition merge_objects :: "(string \<times> json) list \<Rightarrow> (string \<times> json) list \<Rightarrow> (string \<times> json) list" where
  "merge_objects a b = map (\<lambda>(k, v). (k, case map_of b k of None \<Rightarrow> v | Some w \<Rightarrow> w)) a
     @ filter (\<lambda>(k, _). map_of a k = None) b"

definition address_of_tags :: "env \<Rightarrow> json list \<Rightarrow> json" where
  "address_of_tags E tags =
     (let country = first_tag tags ''country''; region = first_tag tags ''region'';
          given = (if json_truthy country then [(''country'', country)] else [])
            @ (if json_truthy region then [(''region'', region)] else []);
          raw = first_tag tags ''address'' in
      if raw = JNull then (if given = [] then JNull else JObj given)
      else case (case raw of JStr t \<Rightarrow> json_loads E t | _ \<Rightarrow> None) of
        Some (JObj parsed) \<Rightarrow> JObj (merge_objects given parsed)
      | _ \<Rightarrow> JObj [(''_opaque'', raw)])"

definition text_of :: "sdk \<Rightarrow> json \<Rightarrow> string option" where
  "text_of K v = (if v = JNull then None else Some (py_str K v))"

definition build_checkout_payload :: "env \<Rightarrow> sdk \<Rightarrow> merchant \<Rightarrow> json \<Rightarrow> error + gamma_payload" where
  "build_checkout_payload E K m rumor =
     try_bind (json_entries (json_member ''tags'' rumor)) (\<lambda>tags.
     if raw_values tags ''type'' \<noteq> [JStr ''1''] then Inl (unprocessable ''invalid-order-message'')
     else case raw_values tags ''order'' of
       [ext] \<Rightarrow>
         try_bind (match_external_id ext) (\<lambda>ok.
         if \<not> ok then Inl (unprocessable ''invalid-external-id'')
         else
           try_bind (try_fold (add_item E K m) [] tags) (\<lambda>items.
           if items = [] then Inl invalid_content
           else
             (let amount = first_tag tags ''amount'' in
              Inr \<lparr>g_items = JArr items, g_shipping_option_d = shipping_of_tags K m tags,
                g_address = address_of_tags E tags, g_external_id = py_str K ext,
                g_buyer_amount_sat = (if amount = JNull then None else map_option (max 0) (json_to_int E amount)),
                g_email = text_of K (first_tag tags ''email''),
                g_phone = text_of K (first_tag tags ''phone'')\<rparr>)))
     | _ \<Rightarrow> Inl (unprocessable ''invalid-external-id''))"

section \<open>Orders and threads\<close>

text \<open>Every miss is the same \<open>None\<close>: an unknown id and another buyer's id are not told apart.\<close>

definition order_for_external_id :: "env \<Rightarrow> id \<Rightarrow> json \<Rightarrow> string \<Rightarrow> (db, order_row option) tx" where
  "order_for_external_id E merchant ext sender_h =
     (if \<not> json_truthy ext then tx_return None
      else
        tx_bind (tx_lift (match_external_id ext)) (\<lambda>ok.
        if \<not> ok then tx_return None
        else
          sql_one db_orders (\<lambda>k. o_merchant_id k = merchant
            \<and> o_external_id_hash k = Some (order_id_hash E merchant (case ext of JStr t \<Rightarrow> t | _ \<Rightarrow> ''''))
            \<and> truthy (o_buyer_pubkey_hash k) \<and> o_buyer_pubkey_hash k = Some sender_h)))"

definition thread_message :: "order_row option \<Rightarrow> string \<Rightarrow> string" where
  "thread_message k sender_h =
     (case k of
        Some r \<Rightarrow> if truthy (o_buyer_pubkey_hash r) \<and> o_buyer_pubkey_hash r = Some sender_h
          then ''order:'' @ o_id r else ''unknown:'' @ sender_h
      | None \<Rightarrow> ''unknown:'' @ sender_h)"

section \<open>Status and receipt\<close>

datatype inbound_outcome = AuditOnly | BuyerCancelled | ReceiptVerified | Threaded | UnknownSender | RateLimited

text \<open>Any exception of the cancellation, not only an illegal transition, is an audit-only message.\<close>

definition handle_inbound_status :: "env \<Rightarrow> merchant \<Rightarrow> string \<Rightarrow> json \<Rightarrow> (db, inbound_outcome) proc" where
  "handle_inbound_status E m sender_h rumor =
     pr_bind (pr_lift (json_entries (json_member ''tags'' rumor))) (\<lambda>tags.
     pr_bind (commit (order_for_external_id E (m_id m) (only_value tags ''order'') sender_h)) (\<lambda>found.
     case found of
       None \<Rightarrow> pr_return AuditOnly
     | Some k \<Rightarrow>
         if only_value tags ''status'' \<noteq> JStr ''cancelled'' then pr_return AuditOnly
         else if \<not> buyer_cancellable (o_state k) then pr_return AuditOnly
         else
           pr_catch (pr_bind (commit (cancel_order E (o_id k) ''buyer'' (Some ''buyer-nip17-cancel'') None))
               (\<lambda>_. pr_return BuyerCancelled))
             (\<lambda>_. pr_return AuditOnly)))"

text \<open>\<open>bytes.fromhex\<close>: pairs of hexadecimal digits, ASCII white space between them skipped.\<close>

definition hex_value :: "char \<Rightarrow> nat option" where
  "hex_value c = (let n = of_char c in
     if 48 \<le> n \<and> n \<le> (57 :: nat) then Some (n - 48)
     else if 97 \<le> n \<and> n \<le> 102 then Some (n - 87)
     else if 65 \<le> n \<and> n \<le> 70 then Some (n - 55) else None)"

definition hex_space :: "char \<Rightarrow> bool" where
  "hex_space c \<longleftrightarrow> (of_char c :: nat) \<in> {32, 9, 10, 11, 12, 13}"

fun from_hex :: "string \<Rightarrow> bytes option" where
  "from_hex [] = Some []"
| "from_hex [c] = (if hex_space c then Some [] else None)"
| "from_hex (c # d # cs) =
     (if hex_space c then from_hex (d # cs)
      else case (hex_value c, hex_value d) of
        (Some a, Some b) \<Rightarrow> map_option ((#) (char_of (16 * a + b))) (from_hex cs)
      | _ \<Rightarrow> None)"

fun payment_parts :: "json \<Rightarrow> (json \<times> json) list" where
  "payment_parts (JArr (a # b # c # rest)) =
     (if a = JStr ''payment'' \<and> b = JStr ''lightning'' then [(c, case rest of [] \<Rightarrow> JNull | p # _ \<Rightarrow> p)] else [])"
| "payment_parts _ = []"

text \<open>The preimage proves the payment of the stored invoice.\<close>

definition preimage_proves :: "env \<Rightarrow> json \<Rightarrow> string \<Rightarrow> bool" where
  "preimage_proves E preimage payment_hash \<longleftrightarrow>
     (case preimage of JStr t \<Rightarrow> (case from_hex t of None \<Rightarrow> False | Some b \<Rightarrow> sha256_hex E b = payment_hash)
      | _ \<Rightarrow> False)"

definition receipt_verified :: "env \<Rightarrow> order_row \<Rightarrow> json list \<Rightarrow> (db, bool) tx" where
  "receipt_verified E k tags =
     (case concat (map payment_parts tags) of
        [] \<Rightarrow> tx_return False
      | (bolt11, preimage) # _ \<Rightarrow>
          tx_bind (sql_one db_payments (\<lambda>p. pay_order_id p = o_id k)) (\<lambda>projection.
          case projection of
            None \<Rightarrow> tx_return False
          | Some p \<Rightarrow>
              (case pay_bolt11_enc p of
                 None \<Rightarrow> tx_return False
               | Some enc \<Rightarrow>
                   tx_bind (tx_lift (open_column E (o_id k) ''payments'' ''bolt11_enc'' enc)) (\<lambda>stored.
                   tx_return (JStr stored = bolt11 \<and> json_truthy preimage \<and> truthy (pay_payment_hash p)
                     \<and> preimage_proves E preimage (the (pay_payment_hash p)))))))"

definition receipt_tx :: "env \<Rightarrow> id \<Rightarrow> bool \<Rightarrow> int option \<Rightarrow> int \<Rightarrow> (db, unit) tx" where
  "receipt_tx E i verified amount now =
     tx_seq (tx_when verified (tx_ignore (sql_update db_orders db_orders_update orders_ok (\<lambda>k. o_id k = i)
         (\<lambda>k. k\<lparr>o_receipt_verified := True, o_updated_at := now\<rparr>))))
       (annotate E i ''buyer'' [(''event'', JStr ''nip17-receipt''), (''verified'', JBool verified),
         (''buyer_claimed_amount_sat'', case amount of None \<Rightarrow> JNull | Some n \<Rightarrow> JInt n)] now)"

definition handle_receipt :: "env \<Rightarrow> merchant \<Rightarrow> string \<Rightarrow> json \<Rightarrow> int \<Rightarrow> (db, inbound_outcome) proc" where
  "handle_receipt E m sender_h rumor now =
     pr_bind (pr_lift (json_entries (json_member ''tags'' rumor))) (\<lambda>tags.
     pr_bind (commit (order_for_external_id E (m_id m) (only_value tags ''order'') sender_h)) (\<lambda>found.
     case found of
       None \<Rightarrow> pr_return AuditOnly
     | Some k \<Rightarrow>
         (let claimed = first_tag tags ''amount'';
              amount = (if claimed = JNull then None else json_to_int E claimed) in
          pr_bind (commit (receipt_verified E k tags)) (\<lambda>verified.
          pr_bind (commit (receipt_tx E (o_id k) verified amount now)) (\<lambda>_.
          pr_return (if verified then ReceiptVerified else AuditOnly))))))"

section \<open>Direct messages\<close>

definition MAX_DMS_PER_HOUR :: int where "MAX_DMS_PER_HOUR = 20"

definition inbound_message :: "id \<Rightarrow> id option \<Rightarrow> string \<Rightarrow> bytes \<Rightarrow> string \<Rightarrow> bytes \<Rightarrow> string \<Rightarrow> int \<Rightarrow> order_message" where
  "inbound_message u i sender_h pk rumor_id content conversation now =
     \<lparr>om_id = u, om_order_id = i, om_direction = ''in'', om_protocol = ''nip17'', om_semantic_kind = Some ''dm'',
      om_sender_hash = Some sender_h, om_recipient_hash = None, om_participant_keys_enc = Some pk,
      om_rumor_id = Some rumor_id, om_event_id = None, om_content_enc = Some content,
      om_conversation_id = Some conversation, om_read_at = None, om_created_at = now\<rparr>"

text \<open>\<open>False\<close> when the sender's hour is full.\<close>

definition dm_tx :: "string \<Rightarrow> order_message \<Rightarrow> int \<Rightarrow> (db, bool) tx" where
  "dm_tx sender_h row now =
     (let window = now - now mod 3600 in
      tx_bind (take_slot sender_h ''dm-inbound'' window (window + 7200) MAX_DMS_PER_HOUR) (\<lambda>ok.
      if ok then tx_seq (sql_insert db_messages_update messages_ok row) (tx_return True)
      else tx_return False))"

definition handle_dm :: "env \<Rightarrow> sdk \<Rightarrow> merchant \<Rightarrow> string \<Rightarrow> string \<Rightarrow> json \<Rightarrow> string \<Rightarrow> int \<Rightarrow> (db, inbound_outcome) proc" where
  "handle_dm E K m sender_h author rumor rumor_id now =
     pr_bind (pr_lift (json_entries (json_member ''tags'' rumor))) (\<lambda>tags.
     pr_bind (commit (order_for_external_id E (m_id m) (only_value tags ''subject'') sender_h)) (\<lambda>found.
     (let v = json_member ''content'' rumor; content = (if json_truthy v then py_str K v else '''') in
      pr_bind (commit (new_uuid E)) (\<lambda>u.
      pr_bind (commit (seal_column E u ''order_messages'' ''content_enc'' content)) (\<lambda>ce.
      pr_bind (commit (seal_column E u ''order_messages'' ''participant_keys_enc'' author)) (\<lambda>pk.
      pr_bind (commit (dm_tx sender_h (inbound_message u (map_option o_id found) sender_h pk rumor_id ce
          (thread_message found sender_h) now) now)) (\<lambda>ok.
      pr_return (if \<not> ok then RateLimited else if found = None then UnknownSender else Threaded))))))))"

end
