(* ===== verification/Conversations.thy ===== *)
theory Conversations
  imports Inbound "HOL-Library.Product_Lexorder"
begin

text \<open>
  The merchant's Messages surface (\<open>services/order_messages.py\<close>): direct messages and replies,
  ownership of a conversation, the folders, a thread, read marks and delivery evidence. A view is a
  function of one database snapshot.
\<close>

section \<open>Outbound direct messages\<close>

definition dm_payload :: "string \<Rightarrow> string \<Rightarrow> string \<Rightarrow> string option \<Rightarrow> msg_payload" where
  "dm_payload author recipient content ext = \<lparr>
     mp_kind = KIND_DM, mp_type = None, mp_subject = ext, mp_order_external_id = ext, mp_status = None,
     mp_amount = None, mp_payment = None, mp_preimage = None, mp_expiration = None, mp_tracking = None,
     mp_carrier = None, mp_eta = None, mp_recipient = recipient, mp_author = Some author,
     mp_content = content, mp_semantic = Some ''dm'', mp_created_at = None\<rparr>"

definition MAX_DM_BYTES :: nat where "MAX_DM_BYTES = 8 * 1024"

definition dm_content_ok :: "string \<Rightarrow> bool" where
  "dm_content_ok content \<longleftrightarrow> content \<noteq> [] \<and> length content \<le> MAX_DM_BYTES"

definition enqueue_dm :: "env \<Rightarrow> id \<Rightarrow> order_row option \<Rightarrow> string \<Rightarrow> string \<Rightarrow> string \<Rightarrow> string option \<Rightarrow>
    string \<Rightarrow> (db, id) tx" where
  "enqueue_dm E merchant order author recipient content ext conversation =
     tx_bind (case order of None \<Rightarrow> tx_return 0 | Some k \<Rightarrow> next_msg_seq (o_id k)) (\<lambda>seq.
     tx_bind (new_uuid E) (\<lambda>u.
     enqueue_order_msg E merchant (map_option o_id order) (dm_payload author recipient content ext) seq
       (Some (''dm:'' @ take 16 u)) (Some conversation)))"

definition find_merchant :: "id \<Rightarrow> db \<Rightarrow> merchant option" where
  "find_merchant merchant s = List.find (\<lambda>m. m_id m = merchant) (db_merchants s)"

text \<open>The result: the intent and the conversation.\<close>

definition compose_dm :: "env \<Rightarrow> id \<Rightarrow> string \<Rightarrow> string \<Rightarrow> order_row option \<Rightarrow> (db, id \<times> string) proc" where
  "compose_dm E merchant recipient content order =
     (case parse_pubkey E recipient of
        None \<Rightarrow> pr_raise invalid_content
      | Some hex \<Rightarrow>
          if \<not> dm_content_ok content then pr_raise invalid_content
          else
            pr_bind (pr_get (find_merchant merchant)) (\<lambda>row.
            case row of
              None \<Rightarrow> pr_raise invalid_content
            | Some m \<Rightarrow>
                (let conversation = (case order of Some k \<Rightarrow> ''order:'' @ o_id k
                   | None \<Rightarrow> ''unknown:'' @ buyer_hash E merchant hex) in
                 pr_bind (commit (tx_bind (case order of
                     None \<Rightarrow> tx_return None
                   | Some k \<Rightarrow> tx_bind (tx_lift (open_required E (o_id k) ''orders'' ''external_id_enc'' (o_external_id_enc k)))
                       (\<lambda>ext. tx_return (Some ext))) (\<lambda>ext.
                   enqueue_dm E merchant order (m_pubkey m) hex content ext conversation))) (\<lambda>intent.
                 pr_return (intent, conversation)))))"

definition starts_with :: "string \<Rightarrow> string \<Rightarrow> bool" where
  "starts_with p t \<longleftrightarrow> take (length p) t = p"

text \<open>
  \<open>reply_dm\<close>: the counterparty of an order conversation is the order's buyer, that of an unknown
  conversation the participant of any of its messages.
\<close>

definition reply_order :: "id \<Rightarrow> string \<Rightarrow> db \<Rightarrow> error + order_row option" where
  "reply_order merchant cid s =
     (if starts_with ''order:'' cid
      then case List.find (\<lambda>k. o_id k = drop 6 cid \<and> o_merchant_id k = merchant) (db_orders s) of
        None \<Rightarrow> Inl invalid_content
      | Some k \<Rightarrow> Inr (Some k)
      else if starts_with ''unknown:'' cid then Inr None
      else Inl invalid_content)"

definition participant_row :: "string \<Rightarrow> db \<Rightarrow> order_message option" where
  "participant_row cid s = List.find (\<lambda>m. om_conversation_id m = Some cid \<and> om_participant_keys_enc m \<noteq> None) (db_messages s)"

definition reply_recipient :: "env \<Rightarrow> order_row option \<Rightarrow> string \<Rightarrow> db \<Rightarrow> error + string option" where
  "reply_recipient E order cid s =
     (case order of
        Some k \<Rightarrow> try_bind (order_message_context E k) (\<lambda>(buyer, _). Inr (Some buyer))
      | None \<Rightarrow> (case participant_row cid s of
          None \<Rightarrow> Inr None
        | Some m \<Rightarrow> try_bind (open_required E (om_id m) ''order_messages'' ''participant_keys_enc''
            (om_participant_keys_enc m)) (\<lambda>p. Inr (Some p))))"

definition reply_dm :: "env \<Rightarrow> id \<Rightarrow> string \<Rightarrow> string \<Rightarrow> (db, id \<times> string) proc" where
  "reply_dm E merchant cid content =
     (if \<not> dm_content_ok content then pr_raise invalid_content
      else
        pr_bind (pr_get (reply_order merchant cid)) (\<lambda>o'.
        pr_bind (pr_lift o') (\<lambda>order.
        pr_bind (pr_get (reply_recipient E order cid)) (\<lambda>r'.
        pr_bind (pr_lift r') (\<lambda>recipient.
        if \<not> truthy recipient then pr_raise invalid_content
        else
          pr_bind (pr_get (find_merchant merchant)) (\<lambda>row.
          case row of
            None \<Rightarrow> pr_raise TypeError
          | Some m \<Rightarrow>
              pr_bind (commit (tx_bind (case order of
                  None \<Rightarrow> tx_return None
                | Some k \<Rightarrow> tx_bind (tx_lift (order_message_context E k)) (\<lambda>(_, ext). tx_return (Some ext))) (\<lambda>ext.
                enqueue_dm E merchant order (m_pubkey m) (the recipient) content ext cid))) (\<lambda>intent.
              pr_return (intent, cid))))))))"

section \<open>Ownership\<close>

definition decrypt_text :: "env \<Rightarrow> id \<Rightarrow> string \<Rightarrow> bytes option \<Rightarrow> string option" where
  "decrypt_text E i column blob =
     (case blob of
        None \<Rightarrow> None
      | Some b \<Rightarrow> (case open_column E i ''order_messages'' column b of Inl _ \<Rightarrow> None | Inr t \<Rightarrow> Some t))"

definition npub_of :: "env \<Rightarrow> string option \<Rightarrow> string option" where
  "npub_of E p = (if truthy p then npub E (the p) else None)"

definition conversation_owned :: "env \<Rightarrow> id \<Rightarrow> string \<Rightarrow> db \<Rightarrow> bool" where
  "conversation_owned E merchant cid s =
     (if starts_with ''order:'' cid
      then List.find (\<lambda>k. o_id k = drop 6 cid \<and> o_merchant_id k = merchant) (db_orders s) \<noteq> None
      else if starts_with ''unknown:'' cid
      then case participant_row cid s of
          None \<Rightarrow> False
        | Some m \<Rightarrow>
            (let pubkey = decrypt_text E (om_id m) ''participant_keys_enc'' (om_participant_keys_enc m) in
             truthy pubkey \<and> buyer_hash E merchant (the pubkey) = drop 8 cid)
      else False)"

section \<open>Folders\<close>

record conversation_group =
  cg_id :: string
  cg_last_at :: int
  cg_count :: nat
  cg_unread :: nat

definition in_folder :: "string \<Rightarrow> order_message \<Rightarrow> bool" where
  "in_folder folder m = (case om_conversation_id m of
     None \<Rightarrow> False
   | Some c \<Rightarrow> starts_with (if folder = ''customer'' then ''order:'' else ''unknown:'') c)"

definition unread_row :: "order_message \<Rightarrow> bool" where
  "unread_row m \<longleftrightarrow> om_direction m = ''in'' \<and> om_read_at m = None"

definition conversation_rows :: "string \<Rightarrow> db \<Rightarrow> order_message list" where
  "conversation_rows cid s = filter (\<lambda>m. om_conversation_id m = Some cid) (db_messages s)"

definition group_of :: "string \<Rightarrow> db \<Rightarrow> conversation_group" where
  "group_of cid s = (let ms = conversation_rows cid s in
     \<lparr>cg_id = cid, cg_last_at = foldr max (map om_created_at ms) (om_created_at (hd ms)),
      cg_count = length ms, cg_unread = length (filter unread_row ms)\<rparr>)"

text \<open>The most recent groups of all merchants, and of these the merchant's own.\<close>

definition CONVERSATION_LIMIT :: nat where "CONVERSATION_LIMIT = 200"

definition recent_groups :: "string \<Rightarrow> db \<Rightarrow> conversation_group list" where
  "recent_groups folder s = take CONVERSATION_LIMIT (sort_key (\<lambda>g. - cg_last_at g)
     (map (\<lambda>c. group_of c s) (remdups (map (\<lambda>m. the (om_conversation_id m)) (filter (in_folder folder) (db_messages s))))))"

definition owned_conversations :: "env \<Rightarrow> id \<Rightarrow> string \<Rightarrow> db \<Rightarrow> conversation_group list" where
  "owned_conversations E merchant folder s =
     (if folder = ''customer''
      then filter (\<lambda>g. \<exists>k \<in> set (db_orders s). o_id k = drop 6 (cg_id g) \<and> o_merchant_id k = merchant)
             (recent_groups folder s)
      else filter (\<lambda>g. conversation_owned E merchant (cg_id g) s) (recent_groups folder s))"

record conversation_view =
  cv_id :: string
  cv_folder :: string
  cv_order_id :: "id option"
  cv_order_ref :: "string option"
  cv_unread :: nat
  cv_count :: nat
  cv_last_at :: int
  cv_preview :: string
  cv_npub :: "string option"

definition PREVIEW_LEN :: nat where "PREVIEW_LEN = 160"

definition thread_order :: "order_message list \<Rightarrow> order_message list" where
  "thread_order ms = sort_key (\<lambda>m. (om_created_at m, om_id m)) ms"

text \<open>\<open>order_ref\<close>: only a \<open>CryptoError\<close> is caught here.\<close>

definition order_ref :: "env \<Rightarrow> id \<Rightarrow> db \<Rightarrow> error + string option" where
  "order_ref E i s =
     (case List.find (\<lambda>k. o_id k = i) (db_orders s) of
        None \<Rightarrow> Inr None
      | Some k \<Rightarrow>
          (case o_external_id_enc k of
             None \<Rightarrow> Inr None
           | Some enc \<Rightarrow>
               (case open_column E i ''orders'' ''external_id_enc'' enc of
                  Inr t \<Rightarrow> Inr (Some t)
                | Inl e \<Rightarrow> if e = CryptoError then Inr None else Inl e)))"

definition view_of_group :: "env \<Rightarrow> string \<Rightarrow> db \<Rightarrow> conversation_group \<Rightarrow> error + conversation_view" where
  "view_of_group E folder s g =
     (let cid = cg_id g; last_row = last (thread_order (conversation_rows cid s));
          is_order = starts_with ''order:'' cid in
      try_bind (if is_order then order_ref E (drop 6 cid) s else Inr None) (\<lambda>ref.
      Inr \<lparr>cv_id = cid, cv_folder = folder, cv_order_id = (if is_order then Some (drop 6 cid) else None),
        cv_order_ref = ref, cv_unread = cg_unread g, cv_count = cg_count g, cv_last_at = cg_last_at g,
        cv_preview = take_chars PREVIEW_LEN (case decrypt_text E (om_id last_row) ''content_enc'' (om_content_enc last_row) of
           None \<Rightarrow> [] | Some t \<Rightarrow> t),
        cv_npub = npub_of E (decrypt_text E (om_id last_row) ''participant_keys_enc'' (om_participant_keys_enc last_row))\<rparr>))"

definition list_conversations :: "env \<Rightarrow> id \<Rightarrow> string \<Rightarrow> db \<Rightarrow> error + conversation_view list" where
  "list_conversations E merchant folder s =
     (if folder \<notin> {''customer'', ''unknown''} then Inl invalid_content
      else try_fold (\<lambda>acc g. try_bind (view_of_group E folder s g) (\<lambda>v. Inr (acc @ [v]))) []
        (owned_conversations E merchant folder s))"

definition unread_count :: "env \<Rightarrow> id \<Rightarrow> db \<Rightarrow> nat \<times> nat \<times> nat" where
  "unread_count E merchant s =
     (let n = (\<lambda>folder. length (filter (\<lambda>g. 0 < cg_unread g) (owned_conversations E merchant folder s))) in
      (n ''customer'', n ''unknown'', n ''customer'' + n ''unknown''))"

section \<open>A thread\<close>

record message_view =
  mv_id :: id
  mv_direction :: string
  mv_semantic_kind :: "string option"
  mv_content :: string
  mv_created_at :: int
  mv_read :: bool

definition message_of_row :: "env \<Rightarrow> order_message \<Rightarrow> message_view" where
  "message_of_row E m = \<lparr>mv_id = om_id m, mv_direction = om_direction m, mv_semantic_kind = om_semantic_kind m,
     mv_content = (case decrypt_text E (om_id m) ''content_enc'' (om_content_enc m) of None \<Rightarrow> [] | Some t \<Rightarrow> t),
     mv_created_at = om_created_at m, mv_read = (om_read_at m \<noteq> None)\<rparr>"

definition get_thread :: "env \<Rightarrow> id \<Rightarrow> string \<Rightarrow> db \<Rightarrow> error + message_view list" where
  "get_thread E merchant cid s =
     (if \<not> conversation_owned E merchant cid s then Inl not_found
      else Inr (map (message_of_row E) (thread_order (conversation_rows cid s))))"

definition order_thread :: "env \<Rightarrow> id \<Rightarrow> id \<Rightarrow> db \<Rightarrow> error + message_view list" where
  "order_thread E merchant i s =
     (if List.find (\<lambda>k. o_id k = i \<and> o_merchant_id k = merchant) (db_orders s) = None then Inl not_found
      else get_thread E merchant (''order:'' @ i) s)"

definition mark_read :: "env \<Rightarrow> id \<Rightarrow> string \<Rightarrow> (db, nat) proc" where
  "mark_read E merchant cid =
     pr_bind (pr_get (conversation_owned E merchant cid)) (\<lambda>owned.
     if \<not> owned then pr_raise not_found
     else commit (tx_bind tx_now (\<lambda>now.
       sql_update db_messages db_messages_update messages_ok
         (\<lambda>m. om_conversation_id m = Some cid \<and> unread_row m) (\<lambda>m. m\<lparr>om_read_at := Some now\<rparr>))))"

section \<open>Delivery evidence\<close>

record evidence_view =
  ev_message :: id
  ev_intent :: "outbox_event option"
  ev_created_at :: int
  ev_recipient :: "relay_publication list"
  ev_sender :: "relay_publication list"

text \<open>
  The rumor id an intent was frozen with. An intent that does not decrypt or parse is skipped; a
  decoded value that is no object has no \<open>get\<close>.
\<close>

definition intent_rumor :: "env \<Rightarrow> outbox_event \<Rightarrow> error + json option" where
  "intent_rumor E x =
     (case x_payload_enc x of
        None \<Rightarrow> Inr None
      | Some enc \<Rightarrow>
          (case open_column E (x_id x) ''outbox_events'' ''payload_enc'' enc of
             Inl _ \<Rightarrow> Inr None
           | Inr text \<Rightarrow> (case json_loads E text of
               None \<Rightarrow> Inr None
             | Some j \<Rightarrow> if is_object j then Inr (Some (json_member ''rumor_id'' j)) else Inl AttributeError)))"

definition message_intents :: "id \<Rightarrow> db \<Rightarrow> outbox_event list" where
  "message_intents merchant s = take 500 (sort_key (\<lambda>x. - x_created_at x)
     (filter (\<lambda>x. x_merchant_id x = merchant \<and> x_aggregate_type x = ''order_msg'') (db_outbox s)))"

definition rumor_intents :: "env \<Rightarrow> id \<Rightarrow> db \<Rightarrow> error + (json \<times> outbox_event) list" where
  "rumor_intents E merchant s = try_fold (\<lambda>acc x. try_bind (intent_rumor E x) (\<lambda>r. case r of
       None \<Rightarrow> Inr acc | Some j \<Rightarrow> Inr (acc @ [(j, x)]))) [] (message_intents merchant s)"

definition evidence_of_row :: "db \<Rightarrow> (json \<times> outbox_event) list \<Rightarrow> order_message \<Rightarrow> evidence_view" where
  "evidence_of_row s intents m =
     (let intent = map_of intents (JStr (the (om_rumor_id m)));
          pubs = (case intent of None \<Rightarrow> [] | Some x \<Rightarrow> sort_key rp_attempted_at
            (filter (\<lambda>p. rp_outbox_event_id p = x_id x) (db_publications s))) in
      \<lparr>ev_message = om_id m, ev_intent = intent, ev_created_at = om_created_at m,
       ev_recipient = filter (\<lambda>p. rp_delivery_copy p = CopyRecipient) pubs,
       ev_sender = filter (\<lambda>p. rp_delivery_copy p = CopySender) pubs\<rparr>)"

definition delivery_evidence :: "env \<Rightarrow> id \<Rightarrow> string \<Rightarrow> db \<Rightarrow> error + evidence_view list" where
  "delivery_evidence E merchant cid s =
     (if \<not> conversation_owned E merchant cid s then Inl not_found
      else try_bind (rumor_intents E merchant s) (\<lambda>intents.
        Inr (map (evidence_of_row s intents) (sort_key om_created_at
          (filter (\<lambda>m. om_direction m = ''out'' \<and> om_rumor_id m \<noteq> None) (conversation_rows cid s))))))"

end
