(* ===== verification/Inbox.thy ===== *)
theory Inbox
  imports Inbound
begin

text \<open>
  The Gamma inbox (\<open>services/inbox.py\<close>): admission of a delivered gift wrap, the pass that
  verifies admitted ones, the pass that dispatches verified ones to the domain, and the cursors of
  the relay sessions. A relay and the network stay outside: an event arrives as its text.
\<close>

section \<open>Admission\<close>

definition KIND_GIFT_WRAP :: int where "KIND_GIFT_WRAP = 1059"
definition RUMOR_CONTENT_MAX_BYTES :: nat where "RUMOR_CONTENT_MAX_BYTES = 8 * 1024"
definition RUMOR_TAGS_MAX :: nat where "RUMOR_TAGS_MAX = 128"
definition RUMOR_TAG_ELEMENT_MAX_BYTES :: nat where "RUMOR_TAG_ELEMENT_MAX_BYTES = 2 * 1024"
definition RATE_WRAP_RELAY_PER_MINUTE :: int where "RATE_WRAP_RELAY_PER_MINUTE = 300"
definition DRAIN_BATCH :: nat where "DRAIN_BATCH = 64"
definition MUTED_BURST_WINDOW_S :: int where "MUTED_BURST_WINDOW_S = 3600"

definition minute_bucket_ok :: "string \<Rightarrow> string \<Rightarrow> int \<Rightarrow> int \<Rightarrow> (db, bool) tx" where
  "minute_bucket_ok scope bucket cap now =
     (let window = now - now mod 60 in take_slot scope bucket window (window + 120) cap)"

datatype admission = AdReceived | AdDuplicate | AdRejected

text \<open>
  The checks before the transaction. The event comes as its text, or parsed with its text; an
  author that is not text and a missing id are errors of their own.
\<close>

definition json_is :: "int \<Rightarrow> json \<Rightarrow> bool" where
  "json_is n v \<longleftrightarrow> (case v of JInt k \<Rightarrow> k = n
     | JReal d \<Rightarrow> if 0 \<le> dec_exp d then dec_coeff d * 10 ^ nat (dec_exp d) = n else dec_coeff d = n * 10 ^ nat (- dec_exp d)
     | _ \<Rightarrow> False)"

definition wrap_checks :: "env \<Rightarrow> sdk \<Rightarrow> string \<Rightarrow> nostr_event option \<Rightarrow> string \<Rightarrow> error + json option" where
  "wrap_checks E K raw delivered pubkey =
     (if inbox_max_event_bytes E < length raw then Inr None
      else case json_loads E raw of
        None \<Rightarrow> Inr None
      | Some j \<Rightarrow>
          if \<not> is_object j then Inl AttributeError
          else if \<not> json_is KIND_GIFT_WRAP (json_member ''kind'' j) then Inr None
          else try_bind (json_entries (json_member ''tags'' j)) (\<lambda>tags.
            if raw_values tags ''p'' \<noteq> [JStr pubkey] then Inr None
            else case (case delivered of Some ev \<Rightarrow> Some ev | None \<Rightarrow> sdk_event K raw) of
              None \<Rightarrow> Inr None
            | Some ev \<Rightarrow> Inr (if ne_verifies ev then Some j else None)))"

definition text_or_empty :: "error \<Rightarrow> json \<Rightarrow> error + string" where
  "text_or_empty e v = (if \<not> json_truthy v then Inr '''' else case v of JStr t \<Rightarrow> Inr t | _ \<Rightarrow> Inl e)"

definition is_blocked :: "id \<Rightarrow> string \<Rightarrow> (db, bool) tx" where
  "is_blocked merchant h = tx_bind (sql_one db_blocklist (\<lambda>b. bl_merchant_id b = merchant \<and> bl_author_hash b = h))
     (\<lambda>b. tx_return (b \<noteq> None))"

definition received_row :: "id \<Rightarrow> string \<Rightarrow> id \<Rightarrow> string \<Rightarrow> int \<Rightarrow> string \<Rightarrow> inbox_event" where
  "received_row u outer merchant relay now raw = \<lparr>in_id = u, in_outer_event_id = outer, in_rumor_id = None,
     in_merchant_id = merchant, in_source_relay_url = relay, in_received_at = now, in_kind = None,
     in_author_hash = None, in_author_enc = None, in_processed_state = InReceived, in_reject_reason = None,
     in_raw_json = Some raw, in_processed_at = None\<rparr>"

definition outer_id :: "json \<Rightarrow> error + string" where
  "outer_id j = (case json_field ''id'' j of None \<Rightarrow> Inl KeyError | Some (JStr t) \<Rightarrow> Inr t
     | Some _ \<Rightarrow> Inl (ForeignError ''DriverError''))"

definition admit_tx :: "env \<Rightarrow> string \<Rightarrow> id \<Rightarrow> string \<Rightarrow> string \<Rightarrow> json \<Rightarrow> int \<Rightarrow> string \<Rightarrow> (db, admission) tx" where
  "admit_tx E relay merchant relay_scope author_h j now raw =
     tx_bind (minute_bucket_ok relay_scope ''wrap-relay'' RATE_WRAP_RELAY_PER_MINUTE now) (\<lambda>ok.
     if \<not> ok then tx_return AdRejected
     else
       tx_bind (is_blocked merchant author_h) (\<lambda>blocked.
       if blocked then tx_return AdRejected
       else
         tx_bind (minute_bucket_ok author_h ''inbox-author'' (inbox_author_cap E) now) (\<lambda>ok.
         if \<not> ok then tx_return AdRejected
         else
           tx_bind (new_uuid E) (\<lambda>u.
           tx_bind (tx_lift (outer_id j)) (\<lambda>outer.
           tx_bind (sql_one db_inbox (\<lambda>r. in_outer_event_id r = outer)) (\<lambda>old.
           if old \<noteq> None then tx_return AdDuplicate
           else tx_seq (sql_insert db_inbox_update inbox_ok (received_row u outer merchant relay now raw))
             (tx_return AdReceived)))))))"

definition admit_event :: "env \<Rightarrow> sdk \<Rightarrow> string \<Rightarrow> string \<Rightarrow> nostr_event option \<Rightarrow> id \<Rightarrow> string \<Rightarrow> (db, admission) proc" where
  "admit_event E K relay raw delivered merchant pubkey =
     pr_bind (pr_get db_clock) (\<lambda>now.
     pr_bind (pr_lift (wrap_checks E K raw delivered pubkey)) (\<lambda>checked.
     case checked of
       None \<Rightarrow> pr_return AdRejected
     | Some j \<Rightarrow>
         pr_bind (pr_lift (text_or_empty TypeError (json_member ''pubkey'' j))) (\<lambda>author.
         commit (admit_tx E relay merchant (hmac_index E ''inbox-wrap'' merchant (nfc_strip_lower E relay))
           (buyer_hash E merchant author) j now raw))))"

section \<open>Verification\<close>

definition update_inbox :: "id \<Rightarrow> (inbox_event \<Rightarrow> inbox_event) \<Rightarrow> (db, nat) tx" where
  "update_inbox i f = sql_update db_inbox db_inbox_update inbox_ok (\<lambda>r. in_id r = i) f"

definition mark_row :: "inbox_row_state \<Rightarrow> string option \<Rightarrow> int \<Rightarrow> inbox_event \<Rightarrow> inbox_event" where
  "mark_row st reason now r = r\<lparr>in_processed_state := st, in_reject_reason := reason, in_processed_at := Some now\<rparr>"

definition mark_inbox :: "id \<Rightarrow> inbox_row_state \<Rightarrow> string option \<Rightarrow> int \<Rightarrow> (db, unit) tx" where
  "mark_inbox i st reason now = tx_ignore (update_inbox i (mark_row st reason now))"

datatype row_outcome = OutValidated | OutRejected | OutDuplicate | OutProcessed | OutQuarantined | OutError

definition error_reason :: "error \<Rightarrow> string" where
  "error_reason e = (case e of WrapRejection r \<Rightarrow> r | _ \<Rightarrow> error_name e)"

definition unwrap_row :: "env \<Rightarrow> sdk \<Rightarrow> inbox_event \<Rightarrow> (db, unwrapped) tx" where
  "unwrap_row E K row = (case in_raw_json row of
     Some raw \<Rightarrow> nip17_unwrap E K (in_merchant_id row) raw None
   | None \<Rightarrow> tx_bind (load_nsec E (in_merchant_id row)) (\<lambda>_. tx_raise AttributeError))"

text \<open>The bounds of the decrypted rumor: \<open>None\<close> when it is within them.\<close>

definition long_tag :: "sdk \<Rightarrow> json \<Rightarrow> bool" where
  "long_tag K t = (case t of
     JArr es \<Rightarrow> list_ex (\<lambda>e. RUMOR_TAG_ELEMENT_MAX_BYTES < length (py_str K e)) es
   | _ \<Rightarrow> True)"

definition rumor_bounds :: "sdk \<Rightarrow> json \<Rightarrow> error + string option" where
  "rumor_bounds K rumor =
     try_bind (text_or_empty AttributeError (json_member ''content'' rumor)) (\<lambda>content.
     Inr (if RUMOR_CONTENT_MAX_BYTES < length content then Some ''rumor-content-bound''
      else case json_member ''tags'' rumor of
        JArr tags \<Rightarrow> if RUMOR_TAGS_MAX < length tags \<or> list_ex (long_tag K) tags
          then Some ''rumor-tags-bound'' else None
      | _ \<Rightarrow> Some ''rumor-tags-bound''))"

definition rumor_json :: "env \<Rightarrow> unwrapped \<Rightarrow> json" where
  "rumor_json E u = (case json_loads E (uw_rumor_json u) of None \<Rightarrow> JNull | Some j \<Rightarrow> j)"

definition with_author :: "string \<Rightarrow> bytes \<Rightarrow> inbox_event \<Rightarrow> inbox_event" where
  "with_author h enc r = r\<lparr>in_author_hash := Some h, in_author_enc := Some enc\<rparr>"

text \<open>A muted author: the first drop of a burst leaves a row, the following ones are deleted.\<close>

definition drop_muted :: "inbox_event \<Rightarrow> string \<Rightarrow> bytes \<Rightarrow> int \<Rightarrow> (db, unit) tx" where
  "drop_muted row h enc now =
     tx_bind (sql_one db_inbox (\<lambda>r. in_merchant_id r = in_merchant_id row \<and> in_author_hash r = Some h
        \<and> in_processed_state r = InRejected \<and> in_reject_reason r = Some ''author-blocked''
        \<and> (case in_processed_at r of None \<Rightarrow> False | Some t \<Rightarrow> now - MUTED_BURST_WINDOW_S \<le> t))) (\<lambda>prior.
     if prior \<noteq> None
     then tx_ignore (sql_delete db_inbox db_inbox_update (\<lambda>r. in_id r = in_id row))
     else tx_ignore (update_inbox (in_id row) (\<lambda>r. with_author h enc (mark_row InRejected (Some ''author-blocked'') now r))))"

definition validate_row :: "unwrapped \<Rightarrow> string \<Rightarrow> bytes \<Rightarrow> int \<Rightarrow> inbox_event \<Rightarrow> inbox_event" where
  "validate_row u h enc now r = with_author h enc r\<lparr>in_rumor_id := Some (uw_rumor_id u), in_kind := Some (uw_kind u),
     in_processed_state := InValidated, in_processed_at := Some now\<rparr>"

definition validate_tx :: "env \<Rightarrow> inbox_event \<Rightarrow> unwrapped \<Rightarrow> string \<Rightarrow> bytes \<Rightarrow> int \<Rightarrow> (db, row_outcome) tx" where
  "validate_tx E row u h enc now =
     tx_bind (minute_bucket_ok h ''inbox-author'' (inbox_author_cap E) now) (\<lambda>ok.
     if \<not> ok
     then tx_seq (update_inbox (in_id row) (\<lambda>r. with_author h enc (mark_row InRejected (Some ''author-rate-limited'') now r)))
       (tx_return OutRejected)
     else
       tx_bind (is_blocked (in_merchant_id row) h) (\<lambda>blocked.
       if blocked then tx_seq (drop_muted row h enc now) (tx_return OutRejected)
       else
         tx_bind (sql_count db_inbox (\<lambda>x. in_merchant_id x = in_merchant_id row \<and> in_rumor_id x = Some (uw_rumor_id u))) (\<lambda>n.
         tx_bind (if n = 0 then update_inbox (in_id row) (validate_row u h enc now) else tx_return 0) (\<lambda>rc.
         if rc = 0
         then tx_seq (mark_inbox (in_id row) InDuplicate (Some ''rumor-duplicate'') now) (tx_return OutDuplicate)
         else tx_return OutValidated))))"

definition process_received :: "env \<Rightarrow> sdk \<Rightarrow> inbox_event \<Rightarrow> (db, row_outcome) proc" where
  "process_received E K row =
     pr_bind (pr_get db_clock) (\<lambda>now.
     pr_bind (pr_get (unwrap_row E K row)) (\<lambda>out.
     case out of
       Inl e \<Rightarrow> pr_bind (commit (mark_inbox (in_id row) InRejected (Some (error_reason e)) now)) (\<lambda>_. pr_return OutRejected)
     | Inr (u, _) \<Rightarrow>
         pr_bind (pr_lift (rumor_bounds K (rumor_json E u))) (\<lambda>bad.
         case bad of
           Some reason \<Rightarrow> pr_bind (commit (mark_inbox (in_id row) InRejected (Some reason) now)) (\<lambda>_. pr_return OutRejected)
         | None \<Rightarrow>
             pr_bind (commit (seal_column E (in_id row) ''inbox_events'' ''author_enc'' (uw_author u))) (\<lambda>enc.
             commit (validate_tx E row u (buyer_hash E (in_merchant_id row) (uw_author u)) enc now)))))"

text \<open>The oldest rows of a state, and a pass over them in which no row stops another.\<close>

definition oldest_rows :: "inbox_row_state \<Rightarrow> nat \<Rightarrow> db \<Rightarrow> inbox_event list" where
  "oldest_rows st n s = take n (sort_key in_received_at (filter (\<lambda>r. in_processed_state r = st) (db_inbox s)))"

definition guarded_row :: "(inbox_event \<Rightarrow> (db, row_outcome) proc) \<Rightarrow> row_outcome list \<Rightarrow> inbox_event \<Rightarrow>
    (db, row_outcome list) proc" where
  "guarded_row f acc row = pr_bind (pr_catch (f row) (\<lambda>_. pr_return OutError)) (\<lambda>out. pr_return (acc @ [out]))"

definition inbox_pass :: "inbox_row_state \<Rightarrow> nat \<Rightarrow> (inbox_event \<Rightarrow> (db, row_outcome) proc) \<Rightarrow> (db, row_outcome list) proc" where
  "inbox_pass st n f = pr_bind (pr_get (oldest_rows st n)) (pr_fold (guarded_row f) [])"

definition drain_received :: "env \<Rightarrow> sdk \<Rightarrow> (db, row_outcome list) proc" where
  "drain_received E K = inbox_pass InReceived DRAIN_BATCH (process_received E K)"

section \<open>Dispatch\<close>

text \<open>What the dispatch of a message may involve besides the database: the network, LNbits, the rates.\<close>

record world =
  w_network :: network
  w_lnbits :: lnbits
  w_rates :: rates

definition send_rejected_reply :: "env \<Rightarrow> merchant \<Rightarrow> string \<Rightarrow> string option \<Rightarrow> id \<Rightarrow> (db, unit) proc" where
  "send_rejected_reply E m author ext i =
     pr_catch (pr_bind (commit (enqueue_rejected_reply E m (Some author) ext i)) (\<lambda>_. pr_return ())) (\<lambda>_. pr_return ())"

definition finish_row :: "id \<Rightarrow> inbox_row_state \<Rightarrow> string option \<Rightarrow> int \<Rightarrow> row_outcome \<Rightarrow> (db, row_outcome) proc" where
  "finish_row i st reason now out = pr_bind (commit (mark_inbox i st reason now)) (\<lambda>_. pr_return out)"

definition recover_copy_tx :: "inbox_event \<Rightarrow> id \<Rightarrow> int \<Rightarrow> (db, unit) tx" where
  "recover_copy_tx row message now =
     tx_seq (tx_ignore (sql_update db_messages db_messages_update messages_ok (\<lambda>m. om_id m = message)
         (\<lambda>m. m\<lparr>om_event_id := Some (in_outer_event_id row)\<rparr>)))
       (mark_inbox (in_id row) InProcessed (Some ''sender-copy-recovered'') now)"

definition dispatch_sender_copy :: "inbox_event \<Rightarrow> unwrapped \<Rightarrow> int \<Rightarrow> (db, row_outcome) proc" where
  "dispatch_sender_copy row u now =
     pr_bind (pr_get (\<lambda>s. List.find (\<lambda>m. om_rumor_id m = Some (uw_rumor_id u) \<and> om_direction m = ''out'') (db_messages s))) (\<lambda>found.
     case found of
       None \<Rightarrow> finish_row (in_id row) InRejected (Some ''merchant-authored-unknown'') now OutRejected
     | Some m \<Rightarrow> pr_bind (commit (recover_copy_tx row (om_id m) now)) (\<lambda>_. pr_return OutProcessed))"

text \<open>An order: a \<open>ProblemError\<close> is final and answered, any other exception leaves the row for the next pass.\<close>

definition refuse_order :: "env \<Rightarrow> merchant \<Rightarrow> string \<Rightarrow> string option \<Rightarrow> inbox_event \<Rightarrow> int \<Rightarrow> error \<Rightarrow> (db, row_outcome) proc" where
  "refuse_order E m author ext row now e =
     (case e of
        ProblemError _ code \<Rightarrow>
          pr_bind (finish_row (in_id row) InRejected (Some code) now OutRejected) (\<lambda>out.
          pr_bind (send_rejected_reply E m author ext (in_id row)) (\<lambda>_. pr_return out))
      | _ \<Rightarrow> pr_raise e)"

definition dispatch_order :: "env \<Rightarrow> sdk \<Rightarrow> world \<Rightarrow> merchant \<Rightarrow> inbox_event \<Rightarrow> unwrapped \<Rightarrow> json list \<Rightarrow> int \<Rightarrow>
    (db, row_outcome) proc" where
  "dispatch_order E K W m row u tags now =
     (case build_checkout_payload E K m (rumor_json E u) of
        Inl e \<Rightarrow> refuse_order E m (uw_author u) (text_of K (only_value tags ''order'')) row now e
      | Inr p \<Rightarrow>
          pr_bind (pr_catch
              (pr_bind (gamma_order_intake E (w_network W) (w_lnbits W) (w_rates W) m p (uw_author u) (uw_rumor_id u) now)
                (\<lambda>_. pr_return None))
              (\<lambda>e. pr_return (Some e))) (\<lambda>failed.
          case failed of
            Some e \<Rightarrow> refuse_order E m (uw_author u) (Some (g_external_id p)) row now e
          | None \<Rightarrow> finish_row (in_id row) InProcessed None now OutProcessed))"

definition dispatch_buyer :: "env \<Rightarrow> sdk \<Rightarrow> world \<Rightarrow> merchant \<Rightarrow> inbox_event \<Rightarrow> unwrapped \<Rightarrow> int \<Rightarrow> (db, row_outcome) proc" where
  "dispatch_buyer E K W m row u now =
     pr_bind (pr_lift (json_entries (json_member ''tags'' (rumor_json E u)))) (\<lambda>tags.
     (let sender_h = (if truthy (in_author_hash row) then the (in_author_hash row) else buyer_hash E (in_merchant_id row) (uw_author u));
          rumor = rumor_json E u; i = in_id row in
      if uw_kind u = 16
      then
        (let mtype = only_value tags ''type'' in
         if mtype = JStr ''1'' then dispatch_order E K W m row u tags now
         else if mtype = JStr ''2'' then finish_row i InRejected (Some ''inbound-type2-unsupported'') now OutRejected
         else if mtype = JStr ''3''
         then pr_bind (handle_inbound_status E m sender_h rumor) (\<lambda>_. finish_row i InProcessed None now OutProcessed)
         else finish_row i InRejected (Some ''unknown-order-type'') now OutRejected)
      else if uw_kind u = 17
      then pr_bind (handle_receipt E m sender_h rumor now) (\<lambda>_. finish_row i InProcessed None now OutProcessed)
      else if uw_kind u = 14
      then pr_bind (handle_dm E K m sender_h (uw_author u) rumor (uw_rumor_id u) now) (\<lambda>out.
        if out = RateLimited then finish_row i InRejected (Some ''dm-rate-limited'') now OutRejected
        else finish_row i InProcessed None now OutProcessed)
      else finish_row i InQuarantined (Some ''rumor-kind-not-allowed'') now OutQuarantined))"

definition dispatch_validated :: "env \<Rightarrow> sdk \<Rightarrow> world \<Rightarrow> inbox_event \<Rightarrow> (db, row_outcome) proc" where
  "dispatch_validated E K W row =
     pr_bind (pr_get db_clock) (\<lambda>now.
     pr_bind (pr_get (unwrap_row E K row)) (\<lambda>out.
     case out of
       Inl e \<Rightarrow> finish_row (in_id row) InQuarantined (Some (error_reason e)) now OutQuarantined
     | Inr (u, _) \<Rightarrow>
         pr_bind (pr_get (\<lambda>s. List.find (\<lambda>m. m_id m = in_merchant_id row) (db_merchants s))) (\<lambda>found.
         case found of
           None \<Rightarrow> finish_row (in_id row) InQuarantined (Some ''merchant-gone'') now OutQuarantined
         | Some m \<Rightarrow>
             if uw_author u = m_pubkey m then dispatch_sender_copy row u now
             else dispatch_buyer E K W m row u now)))"

definition process_pending :: "env \<Rightarrow> sdk \<Rightarrow> world \<Rightarrow> (db, row_outcome list) proc" where
  "process_pending E K W = inbox_pass InValidated DRAIN_BATCH (dispatch_validated E K W)"

text \<open>The worker's entry point; the two lists of outcomes are counted together.\<close>

definition drain_and_process :: "env \<Rightarrow> sdk \<Rightarrow> world \<Rightarrow> (db, row_outcome list) proc" where
  "drain_and_process E K W =
     pr_bind (drain_received E K) (\<lambda>first.
     pr_bind (process_pending E K W) (\<lambda>second.
     pr_return (first @ second)))"

section \<open>Session cursors\<close>

definition INBOX_PROTOCOL :: string where "INBOX_PROTOCOL = ''gamma-inbox''"
definition FIRST_SESSION_BACKTRACK_S :: int where "FIRST_SESSION_BACKTRACK_S = 30 * 86400"
definition RESYNC_OVERLAP_S :: int where "RESYNC_OVERLAP_S = 3 * 86400"

definition cursor_key :: "relay_cursor \<Rightarrow> id \<times> string \<times> string" where
  "cursor_key r = (ru_merchant_id r, ru_relay_url r, ru_protocol r)"

definition cursor_since :: "id \<Rightarrow> string \<Rightarrow> int \<Rightarrow> db \<Rightarrow> int" where
  "cursor_since merchant relay now s =
     (case List.find (\<lambda>r. cursor_key r = (merchant, relay, INBOX_PROTOCOL)) (db_cursors s) of
        None \<Rightarrow> now - FIRST_SESSION_BACKTRACK_S
      | Some r \<Rightarrow> (case ru_last_completed_session_start r of
          None \<Rightarrow> now - FIRST_SESSION_BACKTRACK_S
        | Some start \<Rightarrow> if start = 0 then now - FIRST_SESSION_BACKTRACK_S else start - RESYNC_OVERLAP_S))"

definition advance_cursor_tx :: "env \<Rightarrow> id \<Rightarrow> string \<Rightarrow> int \<Rightarrow> int \<Rightarrow> (db, unit) tx" where
  "advance_cursor_tx E merchant relay start now =
     tx_bind (new_uuid E) (\<lambda>i. tx_bind (new_uuid E) (\<lambda>e.
     tx_bind (sql_one db_cursors (\<lambda>r. cursor_key r = (merchant, relay, INBOX_PROTOCOL))) (\<lambda>old.
     case old of
       Some _ \<Rightarrow> tx_ignore (sql_update db_cursors db_cursors_update cursors_ok
         (\<lambda>r. cursor_key r = (merchant, relay, INBOX_PROTOCOL))
         (\<lambda>r. r\<lparr>ru_last_completed_session_start := Some start, ru_eose_session_id := Some e,
            ru_eose_at := Some now, ru_updated_at := Some now\<rparr>))
     | None \<Rightarrow> sql_insert db_cursors_update cursors_ok
         \<lparr>ru_id = i, ru_merchant_id = merchant, ru_relay_url = relay, ru_protocol = INBOX_PROTOCOL,
          ru_last_completed_session_start = Some start, ru_eose_session_id = Some e, ru_eose_at = Some now,
          ru_updated_at = Some now\<rparr>)))"

definition authenticated_tx :: "id \<Rightarrow> string \<Rightarrow> int \<Rightarrow> (db, unit) tx" where
  "authenticated_tx merchant relay now =
     tx_ignore (sql_update db_relay_configs db_relay_configs_update unconstrained
       (\<lambda>r. rc_merchant_id r = Some merchant \<and> rc_relay_url r = relay \<and> rc_auth_state r = Some ''auth-sent'')
       (\<lambda>r. r\<lparr>rc_auth_state := Some ''authenticated'', rc_auth_updated_at := Some now\<rparr>))"

definition eose_and_advance_cursor :: "env \<Rightarrow> id \<Rightarrow> string \<Rightarrow> int \<Rightarrow> (db, unit) proc" where
  "eose_and_advance_cursor E merchant relay start =
     pr_bind (pr_get db_clock) (\<lambda>now.
     pr_bind (commit (advance_cursor_tx E merchant relay start now)) (\<lambda>_.
     commit (authenticated_tx merchant relay now)))"

end
