(* ===== verification/InboxLaws.thy ===== *)
theory InboxLaws
  imports Inbox KeystoreLaws
begin

text \<open>
  What holds of the inbox under any interleaving of its passes: a row that waits for dispatch holds
  a wrap whose seal was signed by the author the row names. And what does not hold: two passes that
  run under different leases can take a message from each other or handle it twice.
\<close>

section \<open>Sealed messages\<close>

text \<open>
  The chain from the stored text to its author: the seal that the merchant's secret opens is
  verified, and the rumor in it names the same author and has the canonical id.
\<close>

definition sealed_by :: "env \<Rightarrow> sdk \<Rightarrow> string \<Rightarrow> string \<Rightarrow> int \<Rightarrow> string \<Rightarrow> bool" where
  "sealed_by E K raw author kind rumor_id \<longleftrightarrow> (\<exists>secret w seal_json seal text rumor.
     sdk_event K raw = Some w \<and> ne_verifies w \<and> ne_kind w = 1059
     \<and> sdk_nip44 K secret (ne_author w) (ne_content w) = Some seal_json
     \<and> sdk_event K seal_json = Some seal \<and> ne_verifies seal \<and> ne_kind seal = 13 \<and> ne_author seal = author
     \<and> sdk_nip44 K secret author (ne_content seal) = Some text \<and> sdk_rumor K text = Some rumor
     \<and> un_author rumor = author \<and> un_kind rumor = kind \<and> kind \<in> ALLOWED_RUMOR_KINDS
     \<and> un_id rumor = rumor_id \<and> rumor_id = canonical_rumor_id E rumor)"

lemma reject_not_Inr [simp]: "reject e \<noteq> Inr x" by (simp add: reject_def)

lemma unwrapped_is_sealed:
  assumes "unwrap_gift_wrap E K secret me raw expected = Inr u"
  shows "sealed_by E K raw (uw_author u) (uw_kind u) (uw_rumor_id u)"
proof -
  from assms obtain w seal body j r where st: "outer_stage E K me raw = Inr w" "seal_stage K secret w = Inr seal"
    "rumor_stage E K secret seal = Inr (body, j, r)"
    and u: "u = \<lparr>uw_rumor_json = body, uw_rumor_id = un_id r, uw_kind = un_kind r, uw_author = un_author r\<rparr>"
    unfolding unwrap_gift_wrap_def by auto
  from st(1) have w: "sdk_event K raw = Some w" "ne_verifies w" "ne_kind w = 1059"
    by (auto simp: outer_stage_def split: option.splits if_splits)
  from st(2) obtain seal_json where s: "sdk_nip44 K secret (ne_author w) (ne_content w) = Some seal_json"
    "sdk_event K seal_json = Some seal" "ne_verifies seal" "ne_kind seal = 13"
    by (auto simp: seal_stage_def split: option.splits if_splits)
  from st(3) have r: "sdk_nip44 K secret (ne_author seal) (ne_content seal) = Some body" "sdk_rumor K body = Some r"
    "un_author r = ne_author seal" "un_kind r \<in> ALLOWED_RUMOR_KINDS" "un_id r = canonical_rumor_id E r"
    by (auto simp: rumor_stage_def split: option.splits if_splits)
  show ?thesis unfolding sealed_by_def u using w s r by fastforce
qed

text \<open>A row that waits for dispatch, as long as its wrap is not erased.\<close>

definition authentic :: "env \<Rightarrow> sdk \<Rightarrow> inbox_event \<Rightarrow> bool" where
  "authentic E K r \<longleftrightarrow> (\<forall>raw. in_processed_state r = InValidated \<and> in_raw_json r = Some raw \<longrightarrow>
     (\<exists>author kind rumor_id. sealed_by E K raw author kind rumor_id \<and> in_rumor_id r = Some rumor_id
       \<and> in_kind r = Some kind \<and> in_author_hash r = Some (buyer_hash E (in_merchant_id r) author)))"

section \<open>Steps\<close>

text \<open>
  The state of a run: the database, the rows that passes have fetched so far and the messages they
  have unwrapped. A pass may stop between any two of its statements and go on later, with what it
  holds, so every later step takes a held row.
\<close>

type_synonym inbox_run_state = "db \<times> inbox_event set \<times> (inbox_event \<times> unwrapped) set"

inductive inbox_step :: "env \<Rightarrow> sdk \<Rightarrow> inbox_run_state \<Rightarrow> inbox_run_state \<Rightarrow> bool" for E K where
  fetches: "r \<in> set (db_inbox s) \<Longrightarrow> inbox_step E K (s, R, U) (s, insert r R, U)"
| unwraps: "r \<in> R \<Longrightarrow> unwrap_row E K r s = Inr (u, s1) \<Longrightarrow> inbox_step E K (s, R, U) (s, R, insert (r, u) U)"
| validates: "(r, u) \<in> U \<Longrightarrow> validate_tx E r u (buyer_hash E (in_merchant_id r) (uw_author u)) enc now s = Inr (out, t)
    \<Longrightarrow> inbox_step E K (s, R, U) (t, R, U)"
| admits: "admit_tx E relay merchant sc ah j now raw s = Inr (a, t) \<Longrightarrow> inbox_step E K (s, R, U) (t, R, U)"
| marks: "st \<noteq> InValidated \<Longrightarrow> mark_inbox i st reason now s = Inr (v, t) \<Longrightarrow> inbox_step E K (s, R, U) (t, R, U)"
| recovers: "recover_copy_tx r message now s = Inr (v, t) \<Longrightarrow> inbox_step E K (s, R, U) (t, R, U)"
| erases: "erase_inbox P x s = Inr (n, t) \<Longrightarrow> inbox_step E K (s, R, U) (t, R, U)"
| elsewhere: "db_inbox t = db_inbox s \<Longrightarrow> db_draws s \<le> db_draws t \<Longrightarrow> inbox_step E K (s, R, U) (t, R, U)"

section \<open>The invariant\<close>

definition drawn :: "env \<Rightarrow> db \<Rightarrow> id \<Rightarrow> bool" where
  "drawn E s i \<longleftrightarrow> (\<exists>n < db_draws s. i = uuid4 E n)"

text \<open>A held row and the row of its id: the same merchant, and the same wrap unless it was erased.\<close>

definition held_by :: "inbox_event \<Rightarrow> inbox_event \<Rightarrow> bool" where
  "held_by h r \<longleftrightarrow> (in_id r = in_id h \<longrightarrow> in_merchant_id r = in_merchant_id h
     \<and> (in_raw_json r = in_raw_json h \<or> in_raw_json r = None))"

definition unwraps_to :: "env \<Rightarrow> sdk \<Rightarrow> inbox_event \<Rightarrow> unwrapped \<Rightarrow> bool" where
  "unwraps_to E K h u \<longleftrightarrow> (\<exists>secret me raw. in_raw_json h = Some raw \<and> unwrap_gift_wrap E K secret me raw None = Inr u)"

definition inbox_inv :: "env \<Rightarrow> sdk \<Rightarrow> inbox_run_state \<Rightarrow> bool" where
  "inbox_inv E K w = (case w of (s, R, U) \<Rightarrow>
     distinct (map in_id (db_inbox s))
     \<and> (\<forall>r \<in> set (db_inbox s) \<union> R. drawn E s (in_id r) \<and> authentic E K r)
     \<and> (\<forall>h \<in> R. \<forall>r \<in> set (db_inbox s). held_by h r)
     \<and> (\<forall>(h, u) \<in> U. h \<in> R \<and> unwraps_to E K h u))"

lemma drawn_mono: "drawn E s i \<Longrightarrow> db_draws s \<le> db_draws t \<Longrightarrow> drawn E t i"
  unfolding drawn_def using less_le_trans by blast

lemma inbox_invI:
  assumes "distinct (map in_id (db_inbox s))"
    "\<And>r. r \<in> set (db_inbox s) \<or> r \<in> R \<Longrightarrow> drawn E s (in_id r) \<and> authentic E K r"
    "\<And>h r. h \<in> R \<Longrightarrow> r \<in> set (db_inbox s) \<Longrightarrow> held_by h r"
    "\<And>h u. (h, u) \<in> U \<Longrightarrow> h \<in> R \<and> unwraps_to E K h u"
  shows "inbox_inv E K (s, R, U)"
  using assms by (auto simp: inbox_inv_def)

lemma inbox_invD:
  assumes "inbox_inv E K (s, R, U)"
  shows "distinct (map in_id (db_inbox s))"
    "r \<in> set (db_inbox s) \<or> r \<in> R \<Longrightarrow> drawn E s (in_id r)"
    "r \<in> set (db_inbox s) \<or> r \<in> R \<Longrightarrow> authentic E K r"
    "h \<in> R \<Longrightarrow> r \<in> set (db_inbox s) \<Longrightarrow> held_by h r"
    "(h, u) \<in> U \<Longrightarrow> h \<in> R" "(h, u) \<in> U \<Longrightarrow> unwraps_to E K h u"
  using assms by (auto simp: inbox_inv_def)

text \<open>An update of the row with one id, a deletion, and a new row.\<close>

lemma inbox_inv_update:
  assumes inv: "inbox_inv E K (s, R, U)" and rows: "db_inbox t = upd_rows P f (db_inbox s)"
    and draws: "db_draws s \<le> db_draws t"
    and f: "\<And>r. in_id (f r) = in_id r" "\<And>r. in_merchant_id (f r) = in_merchant_id r"
      "\<And>r. in_raw_json (f r) = in_raw_json r \<or> in_raw_json (f r) = None"
    and auth: "\<And>r. r \<in> set (db_inbox s) \<Longrightarrow> P r \<Longrightarrow> authentic E K (f r)"
  shows "inbox_inv E K (t, R, U)"
proof (rule inbox_invI)
  show "distinct (map in_id (db_inbox t))"
    unfolding rows using inbox_invD(1) [OF inv] by (simp add: map_upd_rows f(1))
  show "drawn E t (in_id r) \<and> authentic E K r" if "r \<in> set (db_inbox t) \<or> r \<in> R" for r
    using that inbox_invD(2,3) [OF inv] auth drawn_mono [OF _ draws] f(1) by (auto simp: rows set_upd_rows)
  have held: "held_by h (f r)" if "held_by h r" for h r using that f(1,2) f(3) [of r] by (auto simp: held_by_def)
  show "held_by h r" if "h \<in> R" "r \<in> set (db_inbox t)" for h r
    using that inbox_invD(4) [OF inv] held by (auto simp: rows set_upd_rows)
qed (use inbox_invD(5,6) [OF inv] in auto)

lemma inbox_inv_delete:
  assumes inv: "inbox_inv E K (s, R, U)" and rows: "db_inbox t = filter P (db_inbox s)" and draws: "db_draws s \<le> db_draws t"
  shows "inbox_inv E K (t, R, U)"
proof (rule inbox_invI)
  show "distinct (map in_id (db_inbox t))" using inbox_invD(1) [OF inv] by (simp add: rows distinct_map_filter)
qed (use inbox_invD(2-6) [OF inv] drawn_mono [OF _ draws] in \<open>auto simp: rows\<close>)

lemma inv_append:
  assumes inv: "inbox_inv E K (s, R, U)" and uuids: "inj (uuid4 E)"
    and rows: "db_inbox t = db_inbox s @ [r]" and draws: "db_draws s < db_draws t"
    and r: "in_id r = uuid4 E (db_draws s)" "in_processed_state r \<noteq> InValidated"
  shows "inbox_inv E K (t, R, U)"
proof (rule inbox_invI)
  have new: "x \<noteq> in_id r" if "drawn E s x" for x using that uuids r(1) by (auto simp: drawn_def inj_def)
  have fresh: "in_id x \<noteq> in_id r" if "x \<in> set (db_inbox s) \<or> x \<in> R" for x
    using inbox_invD(2) [OF inv that] new by blast
  show "distinct (map in_id (db_inbox t))" using inbox_invD(1) [OF inv] fresh by (simp add: rows) (metis imageE)
  have "drawn E t (in_id r)" using r(1) draws by (auto simp: drawn_def)
  moreover have "authentic E K r" using r(2) by (simp add: authentic_def)
  ultimately show "drawn E t (in_id x) \<and> authentic E K x" if "x \<in> set (db_inbox t) \<or> x \<in> R" for x
    using that inbox_invD(2,3) [OF inv] drawn_mono [OF _ less_imp_le [OF draws]] by (auto simp: rows)
  show "held_by h x" if "h \<in> R" "x \<in> set (db_inbox t)" for h x
  proof -
    have "held_by h r" using fresh [of h] that(1) by (auto simp: held_by_def)
    then show ?thesis using that inbox_invD(4) [OF inv] by (auto simp: rows)
  qed
qed (use inbox_invD(5,6) [OF inv] in auto)


section \<open>Every step keeps it\<close>

lemma slot_frame:
  "minute_bucket_ok sc b c now s = Inr (ok, t) \<Longrightarrow> db_inbox t = db_inbox s \<and> db_draws t = db_draws s"
proof -
  assume run: "minute_bucket_ok sc b c now s = Inr (ok, t)"
  have "tx_keeps db_inbox (minute_bucket_ok sc b c now)" "tx_keeps db_draws (minute_bucket_ok sc b c now)"
    unfolding minute_bucket_ok_def Let_def by (rule keeps_take_slot, simp)+
  from tx_keepsD [OF this(1) run] tx_keepsD [OF this(2) run] show ?thesis by simp
qed

lemma blocked_frame: "is_blocked m h s = Inr (b, t) \<Longrightarrow> t = s"
  by (auto simp: is_blocked_def tx_Inr sql_Inr)

lemma update_inbox_run:
  "update_inbox i f s = Inr (n, t) \<Longrightarrow>
    db_inbox t = upd_rows (\<lambda>r. in_id r = i) f (db_inbox s) \<and> db_draws t = db_draws s
    \<and> (n = 0 \<longrightarrow> db_inbox t = db_inbox s)"
  by (auto simp: update_inbox_def sql_Inr filter_empty_conv intro!: upd_rows_None)

lemma mark_inbox_run:
  "mark_inbox i st reason now s = Inr (v, t) \<Longrightarrow>
    db_inbox t = upd_rows (\<lambda>r. in_id r = i) (mark_row st reason now) (db_inbox s) \<and> db_draws t = db_draws s"
  unfolding mark_inbox_def by (auto simp: tx_Inr dest!: update_inbox_run)

lemma mark_row_fields [simp]:
  "in_id (mark_row st reason now r) = in_id r" "in_merchant_id (mark_row st reason now r) = in_merchant_id r"
  "in_raw_json (mark_row st reason now r) = in_raw_json r"
  "in_processed_state (mark_row st reason now r) = st" "in_rumor_id (mark_row st reason now r) = in_rumor_id r"
  "in_outer_event_id (mark_row st reason now r) = in_outer_event_id r"
  "in_merchant_id (mark_row st reason now r) = in_merchant_id r"
  by (simp_all add: mark_row_def)

lemma with_author_fields [simp]:
  "in_id (with_author h e r) = in_id r" "in_merchant_id (with_author h e r) = in_merchant_id r"
  "in_raw_json (with_author h e r) = in_raw_json r"
  "in_processed_state (with_author h e r) = in_processed_state r" "in_author_hash (with_author h e r) = Some h"
  "in_rumor_id (with_author h e r) = in_rumor_id r" "in_kind (with_author h e r) = in_kind r"
  by (simp_all add: with_author_def)

lemma validate_row_fields [simp]:
  "in_id (validate_row u h e now r) = in_id r" "in_merchant_id (validate_row u h e now r) = in_merchant_id r"
  "in_raw_json (validate_row u h e now r) = in_raw_json r"
  "in_processed_state (validate_row u h e now r) = InValidated"
  "in_rumor_id (validate_row u h e now r) = Some (uw_rumor_id u)"
  "in_kind (validate_row u h e now r) = Some (uw_kind u)" "in_author_hash (validate_row u h e now r) = Some h"
  by (simp_all add: validate_row_def)

text \<open>What \<open>validate_tx\<close> does to the row it holds.\<close>

lemma validate_effect:
  assumes run: "validate_tx E row u h enc now s = Inr (out, t)"
  shows "db_draws t = db_draws s \<and>
    (db_inbox t = upd_rows (\<lambda>r. in_id r = in_id row) (validate_row u h enc now) (db_inbox s)
     \<or> (\<exists>reason. db_inbox t = upd_rows (\<lambda>r. in_id r = in_id row) (\<lambda>r. with_author h enc (mark_row InRejected reason now r)) (db_inbox s))
     \<or> db_inbox t = filter (\<lambda>r. in_id r \<noteq> in_id row) (db_inbox s)
     \<or> db_inbox t = upd_rows (\<lambda>r. in_id r = in_id row) (mark_row InDuplicate (Some ''rumor-duplicate'') now) (db_inbox s))"
proof -
  have muted: "drop_muted row h enc now s1 = Inr (v, t1) \<Longrightarrow> db_draws t1 = db_draws s1 \<and>
    ((\<exists>reason. db_inbox t1 = upd_rows (\<lambda>r. in_id r = in_id row) (\<lambda>r. with_author h enc (mark_row InRejected reason now r)) (db_inbox s1))
     \<or> db_inbox t1 = filter (\<lambda>r. in_id r \<noteq> in_id row) (db_inbox s1))" for s1 v t1
    unfolding drop_muted_def by (auto simp: tx_Inr sql_Inr split: if_splits dest!: update_inbox_run)
  show ?thesis using run unfolding validate_tx_def
    by (auto simp: tx_Inr sql_Inr split: if_splits dest!: slot_frame blocked_frame muted mark_inbox_run update_inbox_run)
qed


lemma inbox_step_inv:
  assumes step: "inbox_step E K w w'" and uuids: "inj (uuid4 E)" and inv: "inbox_inv E K w"
  shows "inbox_inv E K w'"
  using step inv
proof cases
  case (fetches r s R U)
  have inv: "inbox_inv E K (s, R, U)" using inv fetches by simp
  have "held_by r x" if "x \<in> set (db_inbox s)" for x
    using that fetches(3) inbox_invD(1) [OF inv] by (auto simp: held_by_def distinct_map inj_on_def)
  then show ?thesis unfolding fetches(2)
    by (intro inbox_invI) (use inbox_invD [OF inv] fetches(3) in auto)
next
  case (unwraps r R s u s1 U)
  have inv: "inbox_inv E K (s, R, U)" using inv unwraps by simp
  have "unwraps_to E K r u"
    using unwraps(4) by (auto simp: unwrap_row_def nip17_unwrap_def unwraps_to_def tx_Inr split: option.splits)
  then show ?thesis unfolding unwraps(2)
    by (intro inbox_invI) (use inbox_invD [OF inv] unwraps(3) in auto)
next
  case (validates r u U enc now s out t R)
  have inv: "inbox_inv E K (s, R, U)" using inv validates by simp
  let ?h = "buyer_hash E (in_merchant_id r) (uw_author u)"
  have r: "r \<in> R" "unwraps_to E K r u" using inbox_invD(5,6) [OF inv] validates(3) by auto
  have auth: "authentic E K (validate_row u ?h enc now x)" if "x \<in> set (db_inbox s)" "in_id x = in_id r" for x
  proof -
    have "held_by r x" using inbox_invD(4) [OF inv r(1)] that(1) .
    then show ?thesis using r(2) that(2) unwrapped_is_sealed
      by (fastforce simp: authentic_def unwraps_to_def held_by_def)
  qed
  from validate_effect [OF validates(4)] have draws: "db_draws s \<le> db_draws t" by simp
  from validate_effect [OF validates(4)] consider
      "db_inbox t = upd_rows (\<lambda>x. in_id x = in_id r) (validate_row u ?h enc now) (db_inbox s)"
    | reason where "db_inbox t = upd_rows (\<lambda>x. in_id x = in_id r) (\<lambda>x. with_author ?h enc (mark_row InRejected reason now x)) (db_inbox s)"
    | "db_inbox t = filter (\<lambda>x. in_id x \<noteq> in_id r) (db_inbox s)"
    | "db_inbox t = upd_rows (\<lambda>x. in_id x = in_id r) (mark_row InDuplicate (Some ''rumor-duplicate'') now) (db_inbox s)"
    by blast
  then have "inbox_inv E K (t, R, U)"
  proof cases
    case 3
    then show ?thesis by (rule inbox_inv_delete [OF inv _ draws])
  qed (rule inbox_inv_update [OF inv _ draws], assumption, use auth in \<open>simp_all add: authentic_def\<close>)+
  then show ?thesis unfolding validates(2) .
next
  case (admits relay merchant sc ah j now raw s a t R U)
  have inv: "inbox_inv E K (s, R, U)" using inv admits by simp
  from admits(3) have "db_inbox t = db_inbox s \<and> db_draws s \<le> db_draws t
    \<or> (\<exists>outer. db_inbox t = db_inbox s @ [received_row (uuid4 E (db_draws s)) outer merchant relay now raw] \<and> db_draws s < db_draws t)"
    unfolding admit_tx_def by (auto simp: tx_Inr sql_Inr split: if_splits dest!: slot_frame blocked_frame)
  then show ?thesis unfolding admits(2)
  proof (elim disjE exE conjE)
    assume "db_inbox t = db_inbox s" "db_draws s \<le> db_draws t"
    then show "inbox_inv E K (t, R, U)" by (intro inbox_inv_delete [OF inv, where P = "\<lambda>_. True"]) auto
  qed (rule inv_append [OF inv uuids], assumption+, simp_all add: received_row_def)
next
  case (marks st i reason now s v t R U)
  have inv: "inbox_inv E K (s, R, U)" using inv marks by simp
  show ?thesis unfolding marks(2)
    by (rule inbox_inv_update [OF inv conjunct1 [OF mark_inbox_run [OF marks(4)]]])
      (use mark_inbox_run [OF marks(4)] marks(3) in \<open>auto simp: authentic_def\<close>)
next
  case (recovers r message now s v t R U)
  have inv: "inbox_inv E K (s, R, U)" using inv recovers by simp
  have m: "db_inbox t = upd_rows (\<lambda>x. in_id x = in_id r) (mark_row InProcessed (Some ''sender-copy-recovered'') now) (db_inbox s)
    \<and> db_draws t = db_draws s"
    using recovers(3) unfolding recover_copy_tx_def by (auto simp: tx_Inr sql_Inr dest!: mark_inbox_run)
  show ?thesis unfolding recovers(2)
    by (rule inbox_inv_update [OF inv conjunct1 [OF m]]) (use m in \<open>auto simp: authentic_def\<close>)
next
  case (erases P x s n t R U)
  have inv: "inbox_inv E K (s, R, U)" using inv erases by simp
  have e: "db_inbox t = upd_rows (\<lambda>r. P (in_processed_state r) \<and> older x (in_processed_at r))
      (\<lambda>r. r\<lparr>in_raw_json := None, in_author_enc := None\<rparr>) (db_inbox s) \<and> db_draws t = db_draws s"
    using erases(3) by (auto simp: erase_inbox_def sql_Inr)
  show ?thesis unfolding erases(2)
    by (rule inbox_inv_update [OF inv conjunct1 [OF e]]) (use e in \<open>auto simp: authentic_def\<close>)
next
  case (elsewhere t s R U)
  have inv: "inbox_inv E K (s, R, U)" using inv elsewhere by simp
  show ?thesis unfolding elsewhere(2)
    by (rule inbox_inv_delete [OF inv, where P = "\<lambda>_. True"]) (use elsewhere(3,4) in auto)
qed


section \<open>What a pass can fetch\<close>

text \<open>The start of a run: every row is newly admitted, under an id of the stream.\<close>

definition fresh_inbox :: "env \<Rightarrow> db \<Rightarrow> bool" where
  "fresh_inbox E s \<longleftrightarrow> distinct (map in_id (db_inbox s))
     \<and> (\<forall>r \<in> set (db_inbox s). drawn E s (in_id r) \<and> in_processed_state r = InReceived)"

lemma run_inv:
  assumes run: "(inbox_step E K)\<^sup>*\<^sup>* (s0, {}, {}) w" and start: "fresh_inbox E s0" and uuids: "inj (uuid4 E)"
  shows "inbox_inv E K w"
  using run
proof induction
  case base
  show ?case using start by (auto simp: inbox_inv_def fresh_inbox_def authentic_def)
qed (use inbox_step_inv [OF _ uuids] in blast)

text \<open>
  C38 Whatever the passes of the inbox interleave with, every row a pass fetches for dispatch holds a
  wrap whose seal is verified and was signed by the author the rumor names; the rumor's id is the
  canonical one, its kind is allowed, and the sender hash the dispatch goes by is that author's.
\<close>

theorem fetched_messages_are_sealed:
  assumes "inj (uuid4 E)" "fresh_inbox E s0" "(inbox_step E K)\<^sup>*\<^sup>* (s0, {}, {}) (s, R, U)"
    and "r \<in> R" "in_processed_state r = InValidated" "in_raw_json r = Some raw"
  shows "\<exists>author kind rumor_id. sealed_by E K raw author kind rumor_id \<and> in_rumor_id r = Some rumor_id
    \<and> in_kind r = Some kind \<and> in_author_hash r = Some (buyer_hash E (in_merchant_id r) author)"
  using inbox_invD(3) [OF run_inv [OF assms(3,2,1)], of r] assms(4-6) by (simp add: authentic_def)

definition waiting_row :: inbox_event where
  "waiting_row = received_row ''u'' ''wrap'' ''m'' ''wss://r'' 900 ''wrap''"

definition waiting_db :: db where
  "waiting_db = keyed_db\<lparr>db_draws := 1, db_merchant_keys := [imported_row], db_inbox := [waiting_row]\<rparr>"

definition toy_unwrapped :: unwrapped where
  "toy_unwrapped = \<lparr>uw_rumor_json = ''rumor1'', uw_rumor_id = ''rumor'', uw_kind = 14, uw_author = ''bk''\<rparr>"

definition verified_row :: inbox_event where
  "verified_row = validate_row toy_unwrapped (buyer_hash wrap_env ''m'' ''bk'') ''enc'' 1000 waiting_row"

lemma wrap_env_fields:
  "master_keys wrap_env = master_keys sample_env" "gcm_decrypt wrap_env = toy_open" "uuid4 wrap_env = uuid4 sample_env"
  "inbox_author_cap wrap_env = 30" "hmac_sha256 wrap_env = (\<lambda>k m. m)"
  by (simp_all add: wrap_env_def sample_env_fields)

lemma waiting_row_merchant: "in_merchant_id waiting_row = ''m''" and toy_author: "uw_author toy_unwrapped = ''bk''"
  by (simp_all add: waiting_row_def received_row_def toy_unwrapped_def)

lemma toy_load: "load_nsec wrap_env ''m'' waiting_db = Inr (''secret'', waiting_db)"
proof (rule load_held)
  obtain k where "List.find (\<lambda>k. mk_merchant_id k = ''m'') [imported_row] = Some k" "holds_key sample_env ''m'' ''secret'' k"
    using stored_key [OF crypto_sound_sample sample_store] by auto
  moreover have "open_key wrap_env k = open_key sample_env k" for k by (simp add: open_key_def decrypt_def wrap_env_fields sample_env_fields split: option.split)
  ultimately show "holds_key wrap_env ''m'' ''secret'' imported_row" by (auto simp: holds_key_def split: if_splits)
qed (simp add: waiting_db_def imported_row_def)

lemma toy_unwrap: "unwrap_row wrap_env toy_sdk waiting_row waiting_db = Inr (toy_unwrapped, waiting_db)"
proof -
  have "unwrap_gift_wrap wrap_env toy_sdk ''secret'' ''mk'' ''wrap'' None = Inr toy_unwrapped"
    by (simp add: unwrap_gift_wrap_def outer_stage_def seal_stage_def rumor_stage_def rumor_tag_stage_def toy_defs
      single_tag_values_def raw_values_def canonical_rumor_id_def sample_env_def try_bind_def json_entries_def
      ALLOWED_RUMOR_KINDS_def json_member_def truthy_def Let_def toy_unwrapped_def)
  moreover have "sdk_key toy_sdk ''secret'' = Inr ''mk''" by (simp add: sdk_key_def toy_sdk_def)
  ultimately show ?thesis
    by (simp add: unwrap_row_def waiting_row_def received_row_def nip17_unwrap_def toy_load tx_bind_def tx_lift_def
      tx_return_def)
qed

lemma toy_validate: "\<exists>t. validate_tx wrap_env waiting_row toy_unwrapped (buyer_hash wrap_env ''m'' ''bk'') ''enc'' 1000 waiting_db
    = Inr (OutValidated, t) \<and> db_inbox t = [verified_row]"
  by (simp add: validate_tx_def minute_bucket_ok_def take_slot_def is_blocked_def update_inbox_def tx_defs sql_one_def sql_count_def sql_update_def sql_insert_def
    waiting_db_def keyed_db_def empty_db_def wrap_env_fields waiting_row_def received_row_def verified_row_def
    buckets_ok_def inbox_ok_def validate_row_def with_author_def toy_unwrapped_def upd_rows_def Let_def)

theorem fetched_messages_are_sealed_witness:
  "\<exists>author kind rumor_id. sealed_by wrap_env toy_sdk ''wrap'' author kind rumor_id \<and> in_rumor_id verified_row = Some rumor_id
    \<and> in_kind verified_row = Some kind \<and> in_author_hash verified_row = Some (buyer_hash wrap_env (in_merchant_id verified_row) author)"
proof -
  have inj: "inj (uuid4 wrap_env)" by (rule injI) (simp add: wrap_env_fields sample_env_fields)
  have start: "fresh_inbox wrap_env waiting_db"
    by (simp add: fresh_inbox_def waiting_db_def keyed_db_def waiting_row_def received_row_def drawn_def wrap_env_fields
      sample_env_fields)
  obtain t where t: "validate_tx wrap_env waiting_row toy_unwrapped (buyer_hash wrap_env ''m'' ''bk'') ''enc'' 1000 waiting_db
    = Inr (OutValidated, t)" "db_inbox t = [verified_row]" using toy_validate by blast
  let ?R = "{waiting_row}" and ?U = "{(waiting_row, toy_unwrapped)}"
  have "inbox_step wrap_env toy_sdk (waiting_db, {}, {}) (waiting_db, ?R, {})"
    by (rule fetches) (simp add: waiting_db_def)
  moreover have "inbox_step wrap_env toy_sdk (waiting_db, ?R, {}) (waiting_db, ?R, ?U)"
    by (rule unwraps [OF _ toy_unwrap]) simp
  moreover have "inbox_step wrap_env toy_sdk (waiting_db, ?R, ?U) (t, ?R, ?U)"
    by (rule validates [where r = waiting_row and u = toy_unwrapped and enc = "''enc''" and now = 1000 and out = OutValidated])
      (simp_all add: t(1) waiting_row_merchant toy_author)
  moreover have "inbox_step wrap_env toy_sdk (t, ?R, ?U) (t, insert verified_row ?R, ?U)"
    by (rule fetches) (simp add: t(2))
  ultimately have run: "(inbox_step wrap_env toy_sdk)\<^sup>*\<^sup>* (waiting_db, {}, {}) (t, insert verified_row ?R, ?U)"
    by (meson converse_rtranclp_into_rtranclp rtranclp.rtrancl_refl)
  show ?thesis
    by (rule fetched_messages_are_sealed [OF inj start run])
      (simp_all add: verified_row_def waiting_row_def received_row_def)
qed


section \<open>Two passes over the same rows\<close>

text \<open>
  \<open>drain_and_process\<close> runs under the lease of \<open>inbox_processor\<close> and, as the last part of
  \<open>reconcile\<close>, under the lease of \<open>reconciliation\<close>, so two passes can hold the same rows.
\<close>

lemma validated_run:
  assumes run: "validate_tx E row u h enc now s = Inr (OutValidated, t)"
  shows "db_inbox t = upd_rows (\<lambda>r. in_id r = in_id row) (validate_row u h enc now) (db_inbox s) \<and> inbox_ok t"
  using run unfolding validate_tx_def
  by (auto simp: tx_Inr sql_Inr update_inbox_def split: if_splits dest!: slot_frame blocked_frame)

lemma inbox_ok_cong: "db_inbox t = db_inbox s \<Longrightarrow> inbox_ok t = inbox_ok s"
  by (simp add: inbox_ok_def)

lemma known_rumor_validates_nothing:
  assumes "x \<in> set (db_inbox s)" "in_merchant_id x = in_merchant_id row" "in_rumor_id x = Some (uw_rumor_id u)"
  shows "validate_tx E row u h enc now s \<noteq> Inr (OutValidated, t)"
  using assms unfolding validate_tx_def
  by (fastforce simp: tx_Inr filter_empty_conv split: if_splits dest!: slot_frame blocked_frame)

lemma marked_run:
  assumes "inbox_ok s"
  shows "\<exists>t. mark_inbox i st reason now s = Inr ((), t)
    \<and> db_inbox t = upd_rows (\<lambda>r. in_id r = i) (mark_row st reason now) (db_inbox s)"
proof -
  have "inbox_ok (db_inbox_update (upd_rows (\<lambda>r. in_id r = i) (mark_row st reason now)) s)"
  proof -
    have "filter (\<lambda>r. in_rumor_id r \<noteq> None) (upd_rows (\<lambda>r. in_id r = i) (mark_row st reason now) rows)
      = upd_rows (\<lambda>r. in_id r = i) (mark_row st reason now) (filter (\<lambda>r. in_rumor_id r \<noteq> None) rows)" for rows
      by (induction rows) (auto simp: upd_rows_Cons)
    then show ?thesis using assms by (simp add: inbox_ok_def map_upd_rows)
  qed
  then show ?thesis by (auto simp: mark_inbox_def update_inbox_def sql_update_def tx_defs tx_ignore_def)
qed

text \<open>
  C39 When a second pass that fetched the same received row verifies it again, the guard against
  duplicates finds the row itself: the row ends as a duplicate of itself, no pass will fetch it for
  dispatch, and no later delivery of the rumor can be verified either. The message is lost.
\<close>

theorem raced_verification_loses_the_message:
  assumes first: "validate_tx E row u h enc now s = Inr (OutValidated, t)" and row: "row \<in> set (db_inbox s)"
    and cap: "minute_bucket_ok h ''inbox-author'' (inbox_author_cap E) now' t = Inr (True, t1)"
    and allowed: "is_blocked (in_merchant_id row) h t1 = Inr (False, t1)"
  shows "\<exists>t2. validate_tx E row u h enc' now' t = Inr (OutDuplicate, t2)
    \<and> (\<forall>r \<in> set (db_inbox t2). in_id r = in_id row \<longrightarrow> in_processed_state r = InDuplicate)
    \<and> (\<forall>row' u' h' enc'' now'' t3. in_merchant_id row' = in_merchant_id row \<and> uw_rumor_id u' = uw_rumor_id u
        \<longrightarrow> validate_tx E row' u' h' enc'' now'' t2 \<noteq> Inr (OutValidated, t3))"
proof -
  note v = validated_run [OF first]
  have t1: "db_inbox t1 = db_inbox t" using slot_frame [OF cap] by simp
  let ?v = "validate_row u h enc now row"
  have x: "?v \<in> set (db_inbox t)" using row by (auto simp: v set_upd_rows)
  obtain t2 where t2: "mark_inbox (in_id row) InDuplicate (Some ''rumor-duplicate'') now' t1 = Inr ((), t2)"
    "db_inbox t2 = upd_rows (\<lambda>r. in_id r = in_id row) (mark_row InDuplicate (Some ''rumor-duplicate'') now') (db_inbox t)"
    using marked_run [of t1 "in_id row" InDuplicate "Some ''rumor-duplicate''" now'] inbox_ok_cong [OF t1] v
    unfolding t1 by blast
  have "filter (\<lambda>y. in_merchant_id y = in_merchant_id row \<and> in_rumor_id y = Some (uw_rumor_id u)) (db_inbox t1) \<noteq> []"
    using x t1 by (auto simp: filter_empty_conv intro!: bexI [of _ ?v])
  then have "validate_tx E row u h enc' now' t = Inr (OutDuplicate, t2)"
    unfolding validate_tx_def using cap allowed t2(1) by (simp add: tx_defs sql_count_def tx_seq_def)
  moreover have "\<forall>r \<in> set (db_inbox t2). in_id r = in_id row \<longrightarrow> in_processed_state r = InDuplicate"
    by (auto simp: t2(2) set_upd_rows)
  moreover let ?w = "mark_row InDuplicate (Some ''rumor-duplicate'') now' ?v"
  have w: "?w \<in> set (db_inbox t2)" using x by (force simp: t2(2) set_upd_rows)
  then have "validate_tx E row' u' h' enc'' now'' t2 \<noteq> Inr (OutValidated, t3)"
    if "in_merchant_id row' = in_merchant_id row" "uw_rumor_id u' = uw_rumor_id u" for row' u' h' enc'' now'' t3
    using that known_rumor_validates_nothing [OF w] by simp
  ultimately show ?thesis by blast
qed

lemma toy_second_pass:
  assumes "validate_tx wrap_env waiting_row toy_unwrapped (buyer_hash wrap_env ''m'' ''bk'') ''enc'' 1000 waiting_db
    = Inr (OutValidated, t)"
  shows "\<exists>t1. minute_bucket_ok (buyer_hash wrap_env ''m'' ''bk'') ''inbox-author'' (inbox_author_cap wrap_env) 1000 t = Inr (True, t1)
    \<and> is_blocked (in_merchant_id waiting_row) (buyer_hash wrap_env ''m'' ''bk'') t1 = Inr (False, t1)"
  using assms
  by (auto simp: validate_tx_def minute_bucket_ok_def take_slot_def is_blocked_def update_inbox_def tx_defs sql_one_def sql_count_def sql_update_def sql_insert_def
    waiting_db_def keyed_db_def empty_db_def wrap_env_fields waiting_row_def received_row_def verified_row_def
    buckets_ok_def bucket_key_def inbox_ok_def validate_row_def with_author_def toy_unwrapped_def upd_rows_def Let_def)

theorem raced_verification_loses_the_message_witness:
  "\<exists>t t2. validate_tx wrap_env waiting_row toy_unwrapped (buyer_hash wrap_env ''m'' ''bk'') ''enc'' 1000 waiting_db = Inr (OutValidated, t)
    \<and> validate_tx wrap_env waiting_row toy_unwrapped (buyer_hash wrap_env ''m'' ''bk'') ''enc2'' 1000 t = Inr (OutDuplicate, t2)"
proof -
  obtain t where t: "validate_tx wrap_env waiting_row toy_unwrapped (buyer_hash wrap_env ''m'' ''bk'') ''enc'' 1000 waiting_db
    = Inr (OutValidated, t)" using toy_validate by blast
  have row: "waiting_row \<in> set (db_inbox waiting_db)" by (simp add: waiting_db_def)
  show ?thesis using toy_second_pass [OF t] raced_verification_loses_the_message [OF t row] t by blast
qed

end
