(* ===== verification/Themes.thy ===== *)
theory Themes
  imports Inbound Events
begin

text \<open>
  The theme tokens of the public pages (\<open>services/themes.py\<close>): validation of a theme patch,
  resolution into tokens, the style sheet they become, and the stored form. A theme is a decoded
  JSON object, a list of members. The floating-point contrast formula is the argument
  \<open>readable\<close>: whether two colors have a ratio of at least 4.5 to 1.
\<close>

section \<open>Tables\<close>

definition PRESETS :: "string list" where
  "PRESETS = [''warm-market'', ''clean-minimal'', ''high-contrast'']"

definition LAYOUTS :: "string list" where
  "LAYOUTS = [''editorial'', ''guided'', ''compact'']"

definition FONT_STACKS :: "string list" where
  "FONT_STACKS = [''system'', ''serif'', ''mono'']"

definition CORNERS :: "string list" where
  "CORNERS = [''sharp'', ''rounded'', ''soft'']"

definition PRESET_TOKENS :: "(string \<times> (string \<times> string) list) list" where
  "PRESET_TOKENS = [
   (''warm-market'',
     [(''--color-bg'', ''#f7f1e8''), (''--color-surface'', ''#fffaf3''),
      (''--color-surface-alt'', ''#f1e4d3''), (''--color-border'', ''#dfcfbb''),
      (''--color-text'', ''#2b241f''), (''--color-text-muted'', ''#75685c''),
      (''--color-primary'', ''#a34f2a''), (''--color-on-primary'', ''#ffffff''),
      (''--color-primary-hover'', ''#843d20''), (''--color-accent'', ''#d69a3a''),
      (''--color-focus'', ''#225bdb'')]),
   (''clean-minimal'',
     [(''--color-bg'', ''#f4f7f7''), (''--color-surface'', ''#ffffff''),
      (''--color-surface-alt'', ''#e9efef''), (''--color-border'', ''#d7e0e0''),
      (''--color-text'', ''#172223''), (''--color-text-muted'', ''#647274''),
      (''--color-primary'', ''#266760''), (''--color-on-primary'', ''#ffffff''),
      (''--color-primary-hover'', ''#1c514c''), (''--color-accent'', ''#d69a3a''),
      (''--color-focus'', ''#165dff'')]),
   (''high-contrast'',
     [(''--color-bg'', ''#0b0f14''), (''--color-surface'', ''#141a21''),
      (''--color-surface-alt'', ''#1d2630''), (''--color-border'', ''#415064''),
      (''--color-text'', ''#f7fafc''), (''--color-text-muted'', ''#bac5d1''),
      (''--color-primary'', ''#ffb000''), (''--color-on-primary'', ''#111111''),
      (''--color-primary-hover'', ''#ffd166''), (''--color-accent'', ''#63d2ff''),
      (''--color-focus'', ''#ffffff'')])]"

definition ALLOWED_ADVANCED_TOKENS :: "string list" where
  "ALLOWED_ADVANCED_TOKENS = [''--color-bg'', ''--color-surface'', ''--color-surface-alt'', ''--color-border'',
     ''--color-text'', ''--color-text-muted'', ''--color-primary'', ''--color-on-primary'',
     ''--color-primary-hover'', ''--color-accent'', ''--radius-sm'', ''--radius-md'', ''--radius-lg'',
     ''--space-sm'', ''--space-md'', ''--space-lg'', ''--space-16'']"

definition CORNER_RADIUS :: "(string \<times> (string \<times> string) list) list" where
  "CORNER_RADIUS = [
   (''sharp'', [(''--radius-sm'', ''0px''), (''--radius-md'', ''0px''), (''--radius-lg'', ''0px'')]),
   (''rounded'', [(''--radius-sm'', ''4px''), (''--radius-md'', ''8px''), (''--radius-lg'', ''16px'')]),
   (''soft'', [(''--radius-sm'', ''8px''), (''--radius-md'', ''16px''), (''--radius-lg'', ''24px'')])]"

definition quoted :: "string \<Rightarrow> string" where
  "quoted t = CHR 0x22 # t @ [CHR 0x22]"

definition FONT_VALUE :: "(string \<times> string) list" where
  "FONT_VALUE = [
   (''system'', ''ui-rounded, '' @ quoted ''Avenir Next'' @ '', system-ui, sans-serif''),
   (''serif'', ''Georgia, '' @ quoted ''Times New Roman'' @ '', serif''),
   (''mono'', ''ui-monospace, '' @ quoted ''SF Mono'' @ '', Menlo, monospace'')]"

definition GATED_PAIRS :: "(string \<times> string) list" where
  "GATED_PAIRS = [
   (''--color-text'', ''--color-bg''),
   (''--color-text'', ''--color-surface''),
   (''--color-text'', ''--color-surface-alt''),
   (''--color-text-muted'', ''--color-bg''),
   (''--color-text-muted'', ''--color-surface''),
   (''--color-primary'', ''--color-on-primary''),
   (''--color-primary-hover'', ''--color-on-primary''),
   (''--color-primary'', ''--color-bg''),
   (''--color-primary'', ''--color-surface''),
   (''--color-focus'', ''--color-bg''),
   (''--color-focus'', ''--color-surface'')]"

definition DEFAULT_THEME :: "(string \<times> json) list" where
  "DEFAULT_THEME = [(''preset'', JStr ''warm-market''), (''layout'', JStr ''editorial''),
     (''brand'', JNull), (''advanced'', JNull)]"

section \<open>Patterns\<close>

text \<open>\<open>re.match\<close> with a final \<open>$\<close> also accepts one line end after the pattern.\<close>

definition before_newline :: "string \<Rightarrow> string" where
  "before_newline t = (if t \<noteq> [] \<and> last t = CHR 0x0A then butlast t else t)"

definition hex_color :: "string \<Rightarrow> bool" where
  "hex_color t \<longleftrightarrow> (case before_newline t of
     c # cs \<Rightarrow> c = CHR ''#'' \<and> length cs = 6 \<and> list_all (\<lambda>d. hex_value d \<noteq> None) cs
   | [] \<Rightarrow> False)"

text \<open>One or two digits without a leading zero and \<open>px\<close>, with a greatest value.\<close>

definition px_length :: "nat \<Rightarrow> string \<Rightarrow> bool" where
  "px_length most t \<longleftrightarrow> (let b = before_newline t; n = takeWhile digit b in
     drop (length n) b = ''px'' \<and> (length n = 1 \<or> length n = 2 \<and> hd n \<noteq> CHR ''0'') \<and> parse_nat 0 n \<le> most)"

definition prefixed :: "string \<Rightarrow> string \<Rightarrow> bool" where
  "prefixed p t \<longleftrightarrow> take (length p) t = p"

section \<open>Validation\<close>

definition invalid_theme :: error where "invalid_theme = ProblemError 422 ''invalid-content''"

definition one_of :: "string list \<Rightarrow> json \<Rightarrow> error + unit" where
  "one_of xs v = try_require (case v of JStr t \<Rightarrow> t \<in> set xs | _ \<Rightarrow> False) invalid_theme"

definition brand_text :: "env \<Rightarrow> sdk \<Rightarrow> json \<Rightarrow> string" where
  "brand_text E K v = str_strip E (py_str K v)"

definition add_text :: "string \<Rightarrow> string \<Rightarrow> (string \<times> json) list" where
  "add_text k t = (if t = [] then [] else [(k, JStr t)])"

definition brand_name :: "env \<Rightarrow> sdk \<Rightarrow> json \<Rightarrow> error + (string \<times> json) list" where
  "brand_name E K v = (if v = JNull then Inr [] else Inr (add_text ''name'' (take_chars 200 (brand_text E K v))))"

definition brand_initials :: "env \<Rightarrow> sdk \<Rightarrow> json \<Rightarrow> error + (string \<times> json) list" where
  "brand_initials E K v = (if v = JNull then Inr []
     else if 3 < chars (brand_text E K v) then Inl invalid_theme
     else Inr (add_text ''initials'' (brand_text E K v)))"

definition brand_accent :: "env \<Rightarrow> sdk \<Rightarrow> json \<Rightarrow> error + (string \<times> json) list" where
  "brand_accent E K v = (if v = JNull then Inr []
     else if \<not> hex_color (py_str K v) then Inl invalid_theme
     else Inr [(''accent'', JStr (str_lower E (py_str K v)))])"

definition brand_choice :: "string \<Rightarrow> string list \<Rightarrow> json \<Rightarrow> error + (string \<times> json) list" where
  "brand_choice k xs v = (if v = JNull then Inr [] else try_bind (one_of xs v) (\<lambda>_. Inr [(k, v)]))"

definition validate_brand :: "env \<Rightarrow> sdk \<Rightarrow> json \<Rightarrow> error + (string \<times> json) list" where
  "validate_brand E K brand =
     try_bind (try_require (is_object brand) AttributeError) (\<lambda>_.
     try_bind (brand_name E K (json_member ''name'' brand)) (\<lambda>name.
     try_bind (brand_initials E K (json_member ''initials'' brand)) (\<lambda>initials.
     try_bind (brand_accent E K (json_member ''accent'' brand)) (\<lambda>accent.
     try_bind (brand_choice ''font'' FONT_STACKS (json_member ''font'' brand)) (\<lambda>font.
     try_bind (brand_choice ''corners'' CORNERS (json_member ''corners'' brand)) (\<lambda>corners.
     try_bind (try_require (set (map fst (object_entries brand)) \<subseteq>
         {''name'', ''initials'', ''accent'', ''font'', ''corners''}) invalid_theme) (\<lambda>_.
     Inr (name @ initials @ accent @ font @ corners))))))))"

definition advanced_value :: "env \<Rightarrow> sdk \<Rightarrow> string \<Rightarrow> json \<Rightarrow> error + string" where
  "advanced_value E K k v =
     (let t = str_strip E (py_str K v) in
      if k \<notin> set ALLOWED_ADVANCED_TOKENS then Inl invalid_theme
      else if prefixed ''--color-'' k
      then if hex_color t then Inr (str_lower E t) else Inl invalid_theme
      else if prefixed ''--radius-'' k
      then if px_length 24 t then Inr t else Inl invalid_theme
      else if px_length 99 t then Inr t else Inl invalid_theme)"

definition add_advanced :: "env \<Rightarrow> sdk \<Rightarrow> (string \<times> json) list \<Rightarrow> string \<times> json \<Rightarrow> error + (string \<times> json) list" where
  "add_advanced E K acc kv = try_bind (advanced_value E K (fst kv) (snd kv)) (\<lambda>t. Inr (acc @ [(fst kv, JStr t)]))"

definition validate_advanced :: "env \<Rightarrow> sdk \<Rightarrow> json \<Rightarrow> bool \<Rightarrow> error + (string \<times> json) list" where
  "validate_advanced E K advanced opted_in =
     (if \<not> opted_in then Inl invalid_theme
      else case advanced of
        JObj kvs \<Rightarrow> try_fold (add_advanced E K) [] kvs
      | _ \<Rightarrow> Inl invalid_theme)"

section \<open>Resolution\<close>

text \<open>\<open>theme.get(k) or {}\<close> as an object.\<close>

definition sub_object :: "string \<Rightarrow> (string \<times> json) list \<Rightarrow> error + (string \<times> json) list" where
  "sub_object k theme = (let v = json_member k (JObj theme) in
     if \<not> json_truthy v then Inr [] else case v of JObj kvs \<Rightarrow> Inr kvs | _ \<Rightarrow> Inl AttributeError)"

definition text_key :: "json \<Rightarrow> (string \<times> 'a) list \<Rightarrow> error + 'a" where
  "text_key v table = (case v of
     JStr t \<Rightarrow> (case map_of table t of None \<Rightarrow> Inl KeyError | Some x \<Rightarrow> Inr x)
   | JArr _ \<Rightarrow> Inl TypeError | JObj _ \<Rightarrow> Inl TypeError | _ \<Rightarrow> Inl KeyError)"

definition texts :: "(string \<times> string) list \<Rightarrow> (string \<times> json) list" where
  "texts kvs = map (\<lambda>(k, t). (k, JStr t)) kvs"

definition resolve_brand :: "(string \<times> json) list \<Rightarrow> (string \<times> json) list \<Rightarrow> error + (string \<times> json) list" where
  "resolve_brand tokens brand =
     (let get = (\<lambda>k. json_member k (JObj brand));
          t1 = (if json_truthy (get ''accent'') then put_member tokens (''--color-accent'', get ''accent'') else tokens) in
      try_bind (if json_truthy (get ''corners'') then text_key (get ''corners'') CORNER_RADIUS else Inr []) (\<lambda>radius.
      try_bind (if json_truthy (get ''font'') then try_bind (text_key (get ''font'') FONT_VALUE)
          (\<lambda>f. Inr [(''--font-body'', f)]) else Inr []) (\<lambda>font.
      Inr (foldl put_member t1 (texts (radius @ font))))))"

definition resolve_tokens :: "(string \<times> json) list \<Rightarrow> error + (string \<times> json) list" where
  "resolve_tokens theme0 =
     (let theme = (if theme0 = [] then DEFAULT_THEME else theme0) in
      try_bind (text_key (case map_of theme ''preset'' of None \<Rightarrow> JStr ''warm-market'' | Some p \<Rightarrow> p) PRESET_TOKENS) (\<lambda>base.
      try_bind (sub_object ''brand'' theme) (\<lambda>brand.
      try_bind (resolve_brand (texts base) brand) (\<lambda>tokens.
      let advanced = json_member ''advanced'' (JObj theme) in
      update_members tokens (if json_truthy advanced then advanced else JObj [])))))"

section \<open>The contrast gate and a theme patch\<close>

text \<open>The pairs whose tokens are both present; the token values are colors here.\<close>

definition color_of :: "json \<Rightarrow> string" where
  "color_of v = (case v of JStr t \<Rightarrow> t | _ \<Rightarrow> [])"

definition contrast_ok :: "(string \<Rightarrow> string \<Rightarrow> bool) \<Rightarrow> (string \<times> json) list \<Rightarrow> bool" where
  "contrast_ok readable tokens \<longleftrightarrow> list_all (\<lambda>(fg, bg). case (map_of tokens fg, map_of tokens bg) of
     (Some a, Some b) \<Rightarrow> readable (color_of a) (color_of b) | _ \<Rightarrow> True) GATED_PAIRS"

definition contrast_gate :: error where "contrast_gate = ProblemError 422 ''contrast-gate''"

definition theme_choice :: "string \<Rightarrow> json \<Rightarrow> json" where
  "theme_choice k payload = (case json_field k payload of None \<Rightarrow> json_member k (JObj DEFAULT_THEME) | Some v \<Rightarrow> v)"

definition validate_theme :: "env \<Rightarrow> sdk \<Rightarrow> (string \<Rightarrow> string \<Rightarrow> bool) \<Rightarrow> json \<Rightarrow> error + (string \<times> json) list" where
  "validate_theme E K readable payload =
     try_bind (try_require (is_object payload) invalid_theme) (\<lambda>_.
     try_bind (try_require (set (map fst (object_entries payload)) \<subseteq>
         {''preset'', ''layout'', ''brand'', ''advanced'', ''advanced_opt_in''}) invalid_theme) (\<lambda>_.
     try_bind (one_of PRESETS (theme_choice ''preset'' payload)) (\<lambda>_.
     try_bind (one_of LAYOUTS (theme_choice ''layout'' payload)) (\<lambda>_.
     try_bind (if json_member ''brand'' payload = JNull then Inr JNull
        else try_bind (validate_brand E K (json_member ''brand'' payload)) (\<lambda>b. Inr (JObj b))) (\<lambda>brand.
     try_bind (if json_member ''advanced'' payload = JNull then Inr [(''advanced'', JNull)]
        else try_bind (validate_advanced E K (json_member ''advanced'' payload)
            (json_truthy (json_member ''advanced_opt_in'' payload))) (\<lambda>a.
          Inr [(''advanced'', JObj a), (''advanced_opt_in'', JBool True)])) (\<lambda>advanced.
     let theme = [(''preset'', theme_choice ''preset'' payload), (''layout'', theme_choice ''layout'' payload),
            (''brand'', brand)] @ advanced in
     try_bind (resolve_tokens theme) (\<lambda>tokens.
     try_bind (try_require (contrast_ok readable tokens) contrast_gate) (\<lambda>_.
     Inr theme))))))))"

section \<open>The style sheet and the stored form\<close>

definition token_line :: "sdk \<Rightarrow> string \<times> json \<Rightarrow> string" where
  "token_line K kv = fst kv @ '': '' @ py_str K (snd kv)"

fun join_text :: "string \<Rightarrow> string list \<Rightarrow> string" where
  "join_text sep [] = []"
| "join_text sep [x] = x"
| "join_text sep (x # y # xs) = x @ sep @ join_text sep (y # xs)"

definition css_of :: "sdk \<Rightarrow> (string \<times> json) list \<Rightarrow> string" where
  "css_of K tokens = ''.gm-public {'' @ [CHR 0x0A] @ ''  ''
     @ join_text ('';'' @ [CHR 0x0A] @ ''  '') (map (token_line K) (sort_key fst tokens)) @ '';'' @ [CHR 0x0A] @ ''}''"

definition emit_css :: "sdk \<Rightarrow> (string \<times> json) list \<Rightarrow> error + string" where
  "emit_css K theme = try_bind (resolve_tokens theme) (\<lambda>tokens. Inr (css_of K tokens))"

definition theme_layout :: "(string \<times> json) list \<Rightarrow> json" where
  "theme_layout theme = (case map_of (if theme = [] then DEFAULT_THEME else theme) ''layout'' of
     None \<Rightarrow> JStr ''editorial'' | Some v \<Rightarrow> v)"

definition parse_theme :: "env \<Rightarrow> string option \<Rightarrow> (string \<times> json) list" where
  "parse_theme E raw =
     (if \<not> truthy raw then DEFAULT_THEME
      else case json_loads E (the raw) of
        Some (JObj kvs) \<Rightarrow> (case map_of kvs ''preset'' of
            Some (JStr p) \<Rightarrow> if p \<in> set PRESETS then kvs else DEFAULT_THEME
          | _ \<Rightarrow> DEFAULT_THEME)
      | _ \<Rightarrow> DEFAULT_THEME)"

definition get_theme :: "env \<Rightarrow> id \<Rightarrow> db \<Rightarrow> (string \<times> json) list" where
  "get_theme E merchant s = parse_theme E
     (case List.find (\<lambda>m. m_id m = merchant) (db_merchants s) of None \<Rightarrow> None | Some m \<Rightarrow> m_theme m)"

text \<open>\<open>json.dumps(theme, sort_keys=True)\<close>.\<close>

definition theme_text :: "env \<Rightarrow> (string \<times> json) list \<Rightarrow> string" where
  "theme_text E theme = json_dumps E (sort_keys_json (JObj theme))"

definition save_theme :: "env \<Rightarrow> sdk \<Rightarrow> (string \<Rightarrow> string \<Rightarrow> bool) \<Rightarrow> id \<Rightarrow> json \<Rightarrow> (db, (string \<times> json) list) proc" where
  "save_theme E K readable merchant payload =
     pr_bind (pr_lift (validate_theme E K readable payload)) (\<lambda>theme.
     pr_bind (commit (tx_bind tx_now (\<lambda>now.
       tx_ignore (sql_update db_merchants db_merchants_update merchants_ok (\<lambda>m. m_id m = merchant)
         (\<lambda>m. m\<lparr>m_theme := Some (theme_text E theme), m_updated_at := now\<rparr>))))) (\<lambda>_.
     pr_return theme))"

end
