(* ===== verification/ThemeLaws.thy ===== *)
theory ThemeLaws
  imports Themes
begin

text \<open>
  Theme values reach a style sheet that is written into public pages. What the validator lets
  through cannot leave its declaration: every value consists of characters that neither end a
  declaration nor a block nor a tag, and the resolved colors pass the contrast gate.
\<close>

section \<open>Inert values\<close>

definition css_safe :: "char \<Rightarrow> bool" where
  "css_safe c \<longleftrightarrow> alpha c \<or> digit c \<or> c \<in> set ''#-, .'' \<or> c \<in> {CHR 0x22, CHR 0x0A}"

definition inert :: "string \<times> json \<Rightarrow> bool" where
  "inert kv \<longleftrightarrow> list_all css_safe (fst kv) \<and> (case snd kv of JStr t \<Rightarrow> list_all css_safe t | _ \<Rightarrow> False)"

definition ascii_lowering :: "env \<Rightarrow> bool" where
  "ascii_lowering E \<longleftrightarrow> (\<forall>t. list_all (\<lambda>c. (of_char c :: nat) < 128) t \<longrightarrow> str_lower E t = map ascii_lower t)"

lemma put_member_all: "list_all P kvs \<Longrightarrow> P kv \<Longrightarrow> list_all P (put_member kvs kv)"
  by (auto simp: put_member_def list_all_iff)

lemma put_members_all: "list_all P kvs \<Longrightarrow> list_all P new \<Longrightarrow> list_all P (foldl put_member kvs new)"
  by (induction new arbitrary: kvs) (auto simp: put_member_all)

lemma hex_chars:
  assumes "hex_value c \<noteq> None"
  shows "alpha c \<or> digit c" "(of_char c :: nat) < 128"
  using assms by (auto simp: hex_value_def alpha_def digit_def Let_def split: if_splits)

lemma lowered_safe: "css_safe c \<Longrightarrow> css_safe (ascii_lower c)"
proof (cases "65 \<le> (of_char c :: nat) \<and> (of_char c :: nat) \<le> 90")
  case True
  then have "alpha (ascii_lower c)" by (simp add: ascii_lower_def alpha_def of_char_of)
  then show ?thesis by (simp add: css_safe_def)
qed (auto simp: ascii_lower_def Let_def)

lemma before_newline_chars: "set t \<subseteq> insert (CHR 0x0A) (set (before_newline t))"
proof (cases "t \<noteq> [] \<and> last t = CHR 0x0A")
  case True
  then have "t = butlast t @ [CHR 0x0A]" by (metis append_butlast_last_id)
  then show ?thesis using True by (auto simp: before_newline_def) (metis Un_iff empty_iff insert_iff list.set(1) list.set(2) set_append)
qed (auto simp: before_newline_def)

lemma hex_color_chars:
  assumes "hex_color t" and c: "c \<in> set t"
  shows "css_safe c" "(of_char c :: nat) < 128"
proof -
  from assms obtain cs where cs: "before_newline t = CHR ''#'' # cs" "\<forall>d \<in> set cs. hex_value d \<noteq> None"
    by (auto simp: hex_color_def list_all_iff split: list.splits)
  have "c = CHR 0x0A \<or> c = CHR ''#'' \<or> c \<in> set cs" using before_newline_chars [of t] cs(1) c by auto
  then show "css_safe c" "(of_char c :: nat) < 128"
    using cs(2) hex_chars [of c] by (auto simp: css_safe_def)
qed

lemma px_length_safe:
  assumes "px_length n t" shows "list_all css_safe t"
proof -
  let ?b = "before_newline t"
  have "?b = takeWhile digit ?b @ ''px''" using assms unfolding px_length_def Let_def
    by (metis append_take_drop_id takeWhile_eq_take)
  then have "set ?b \<subseteq> {c. digit c} \<union> set ''px''" by (metis Un_mono order_refl set_append set_takeWhileD subsetI mem_Collect_eq)
  then have "set t \<subseteq> insert (CHR 0x0A) ({c. digit c} \<union> set ''px'')" using before_newline_chars [of t] by auto
  moreover have "css_safe (CHR 0x0A)" "list_all css_safe ''px''" by (simp_all add: css_safe_def alpha_def)
  moreover have "digit c \<Longrightarrow> css_safe c" for c by (simp add: css_safe_def)
  ultimately show ?thesis unfolding list_all_iff by blast
qed

lemma lowered_color_safe:
  assumes "ascii_lowering E" "hex_color t"
  shows "list_all css_safe (str_lower E t)"
proof -
  have "list_all (\<lambda>c. (of_char c :: nat) < 128) t" using assms(2) by (simp add: list_all_iff hex_color_chars)
  then have "str_lower E t = map ascii_lower t" using assms(1) by (simp add: ascii_lowering_def)
  then show ?thesis using assms(2) by (auto simp: list_all_iff intro: lowered_safe hex_color_chars)
qed

section \<open>The tables and what validation lets through\<close>

lemma preset_inert: "p \<in> set PRESETS \<Longrightarrow> \<exists>base. map_of PRESET_TOKENS p = Some base \<and> list_all inert (texts base)"
proof -
  have "list_all (\<lambda>p. case map_of PRESET_TOKENS p of None \<Rightarrow> False | Some b \<Rightarrow> list_all inert (texts b)) PRESETS"
    by code_simp
  then show "p \<in> set PRESETS \<Longrightarrow> ?thesis" by (auto simp: list_all_iff split: option.splits)
qed

lemma corner_inert: "p \<in> set CORNERS \<Longrightarrow> \<exists>r. map_of CORNER_RADIUS p = Some r \<and> list_all inert (texts r)"
proof -
  have "list_all (\<lambda>p. case map_of CORNER_RADIUS p of None \<Rightarrow> False | Some b \<Rightarrow> list_all inert (texts b)) CORNERS"
    by code_simp
  then show "p \<in> set CORNERS \<Longrightarrow> ?thesis" by (auto simp: list_all_iff split: option.splits)
qed

lemma font_inert: "p \<in> set FONT_STACKS \<Longrightarrow> \<exists>f. map_of FONT_VALUE p = Some f \<and> list_all css_safe f"
proof -
  have "list_all (\<lambda>p. case map_of FONT_VALUE p of None \<Rightarrow> False | Some b \<Rightarrow> list_all css_safe b) FONT_STACKS"
    by code_simp
  then show "p \<in> set FONT_STACKS \<Longrightarrow> ?thesis" by (auto simp: list_all_iff split: option.splits)
qed

text \<open>The fields of a validated brand object.\<close>

definition brand_fields_ok :: "(string \<times> json) list \<Rightarrow> bool" where
  "brand_fields_ok b \<longleftrightarrow>
     (json_member ''accent'' (JObj b) = JNull \<or> (\<exists>t. json_member ''accent'' (JObj b) = JStr t \<and> list_all css_safe t))
   \<and> (json_member ''font'' (JObj b) = JNull \<or> (\<exists>t \<in> set FONT_STACKS. json_member ''font'' (JObj b) = JStr t))
   \<and> (json_member ''corners'' (JObj b) = JNull \<or> (\<exists>t \<in> set CORNERS. json_member ''corners'' (JObj b) = JStr t))"

lemma brand_pieces:
  "brand_name E K v = Inr x \<Longrightarrow> x = [] \<or> (\<exists>t. x = [(''name'', JStr t)])"
  "brand_initials E K v = Inr x \<Longrightarrow> x = [] \<or> (\<exists>t. x = [(''initials'', JStr t)])"
  "brand_accent E K v = Inr x \<Longrightarrow> x = [] \<or> (\<exists>t. x = [(''accent'', JStr (str_lower E t))] \<and> hex_color t)"
  "brand_choice k xs v = Inr x \<Longrightarrow> x = [] \<or> (\<exists>t \<in> set xs. x = [(k, JStr t)])"
  by (auto simp: brand_name_def brand_initials_def brand_accent_def brand_choice_def add_text_def one_of_def
    split: if_splits json.splits)

lemma validated_brand:
  assumes "ascii_lowering E" "validate_brand E K v = Inr b"
  shows "brand_fields_ok b"
proof -
  from assms(2) obtain name initials accent font corners where p:
    "brand_name E K (json_member ''name'' v) = Inr name" "brand_initials E K (json_member ''initials'' v) = Inr initials"
    "brand_accent E K (json_member ''accent'' v) = Inr accent"
    "brand_choice ''font'' FONT_STACKS (json_member ''font'' v) = Inr font"
    "brand_choice ''corners'' CORNERS (json_member ''corners'' v) = Inr corners"
    "b = name @ initials @ accent @ font @ corners"
    unfolding validate_brand_def by auto
  show ?thesis
    using brand_pieces(1) [OF p(1)] brand_pieces(2) [OF p(2)] brand_pieces(3) [OF p(3)]
      brand_pieces(4) [OF p(4)] brand_pieces(4) [OF p(5)] lowered_color_safe [OF assms(1)]
    unfolding brand_fields_ok_def p(6) by (elim disjE exE bexE conjE) (auto simp: json_member_def)
qed

lemma resolved_brand:
  assumes "brand_fields_ok b" "list_all inert tokens"
  shows "\<exists>ts. resolve_brand tokens b = Inr ts \<and> list_all inert ts"
proof -
  let ?get = "\<lambda>k. json_member k (JObj b)"
  let ?t1 = "if json_truthy (?get ''accent'') then put_member tokens (''--color-accent'', ?get ''accent'') else tokens"
  have t1: "list_all inert ?t1"
    using assms by (auto simp: brand_fields_ok_def inert_def css_safe_def alpha_def intro!: put_member_all)
  have "\<exists>r. (if json_truthy (?get ''corners'') then text_key (?get ''corners'') CORNER_RADIUS else Inr []) = Inr r
      \<and> list_all inert (texts r)"
    using assms(1) corner_inert by (fastforce simp: brand_fields_ok_def text_key_def texts_def)
  then obtain r where r: "(if json_truthy (?get ''corners'') then text_key (?get ''corners'') CORNER_RADIUS else Inr []) = Inr r"
    "list_all inert (texts r)" by blast
  have "\<exists>f. (if json_truthy (?get ''font'') then try_bind (text_key (?get ''font'') FONT_VALUE)
      (\<lambda>f. Inr [(''--font-body'', f)]) else Inr []) = Inr f \<and> list_all inert (texts f)"
    using assms(1) font_inert
    by (fastforce simp: brand_fields_ok_def text_key_def texts_def inert_def css_safe_def alpha_def)
  then obtain f where f: "(if json_truthy (?get ''font'') then try_bind (text_key (?get ''font'') FONT_VALUE)
      (\<lambda>f. Inr [(''--font-body'', f)]) else Inr []) = Inr f" "list_all inert (texts f)" by blast
  have "resolve_brand tokens b = Inr (foldl put_member ?t1 (texts (r @ f)))"
    unfolding resolve_brand_def Let_def using r(1) f(1) by (simp add: try_bind_def)
  moreover have "list_all inert (texts (r @ f))" using r(2) f(2) by (simp add: texts_def)
  ultimately show ?thesis using put_members_all [OF t1] by blast
qed

lemma advanced_inert:
  assumes "ascii_lowering E" "advanced_value E K k v = Inr t"
  shows "inert (k, JStr t)"
proof -
  have "list_all (list_all css_safe) ALLOWED_ADVANCED_TOKENS" by code_simp
  then show ?thesis using assms lowered_color_safe [OF assms(1)] px_length_safe
    by (auto simp: advanced_value_def inert_def list_all_iff Let_def split: if_splits)
qed

lemma validated_advanced:
  assumes "ascii_lowering E" "validate_advanced E K v b = Inr kvs"
  shows "list_all inert kvs"
proof -
  from assms(2) obtain xs where "try_fold (add_advanced E K) [] xs = Inr kvs"
    by (auto simp: validate_advanced_def split: if_splits json.splits)
  then show ?thesis
    by (rule try_fold_inv) (auto simp: add_advanced_def intro: advanced_inert [OF assms(1)])
qed

lemma no_brand_ok: "brand_fields_ok []"
  by (simp add: brand_fields_ok_def json_member_def)

lemma validated_theme:
  assumes low: "ascii_lowering E" and run: "validate_theme E K readable payload = Inr theme"
  shows "\<exists>tokens. resolve_tokens theme = Inr tokens \<and> contrast_ok readable tokens \<and> list_all inert tokens"
proof -
  from run obtain b a tokens u where b: "(if json_member ''brand'' payload = JNull then Inr JNull
        else try_bind (validate_brand E K (json_member ''brand'' payload)) (\<lambda>b. Inr (JObj b))) = Inr b"
    and a: "(if json_member ''advanced'' payload = JNull then Inr [(''advanced'', JNull)]
        else try_bind (validate_advanced E K (json_member ''advanced'' payload)
            (json_truthy (json_member ''advanced_opt_in'' payload))) (\<lambda>a.
          Inr [(''advanced'', JObj a), (''advanced_opt_in'', JBool True)])) = Inr a"
    and theme': "[(''preset'', theme_choice ''preset'' payload), (''layout'', theme_choice ''layout'' payload), (''brand'', b)] @ a = theme"
    and tokens': "resolve_tokens ([(''preset'', theme_choice ''preset'' payload), (''layout'', theme_choice ''layout'' payload), (''brand'', b)] @ a) = Inr tokens"
    and ok: "contrast_ok readable tokens"
    and p: "one_of PRESETS (theme_choice ''preset'' payload) = Inr u"
    unfolding validate_theme_def Let_def try_bind_Inr try_require_Inr sum.inject by blast
  note theme = theme' [symmetric] and tokens = tokens' [unfolded theme']
  from p obtain pr where pr: "theme_choice ''preset'' payload = JStr pr" "pr \<in> set PRESETS"
    by (auto simp: one_of_def split: json.splits)
  from preset_inert [OF pr(2)] obtain base where base: "map_of PRESET_TOKENS pr = Some base" "list_all inert (texts base)"
    by blast
  have member: "json_member ''brand'' (JObj theme) = b" unfolding theme by (simp add: json_member_def)
  have bcase: "b = JNull \<or> (\<exists>x. b = JObj x \<and> brand_fields_ok x)"
    using b validated_brand [OF low] by (cases "json_member ''brand'' payload = JNull") auto
  have brand: "sub_object ''brand'' theme = Inr bs \<Longrightarrow> brand_fields_ok bs" for bs
    using bcase no_brand_ok unfolding sub_object_def Let_def member by (auto split: if_splits)
  have adv: "json_member ''advanced'' (JObj theme) = JNull
      \<or> (\<exists>kvs. json_member ''advanced'' (JObj theme) = JObj kvs \<and> list_all inert kvs)"
    using a validated_advanced [OF low] unfolding theme by (auto simp: json_member_def split: if_splits)
  have chosen: "theme \<noteq> []" "map_of theme ''preset'' = Some (JStr pr)" unfolding theme by (simp_all add: pr(1))
  have pick: "(if theme = [] then DEFAULT_THEME else theme) = theme" using chosen(1) by simp
  from tokens obtain bs ts where bs: "sub_object ''brand'' theme = Inr bs" "resolve_brand (texts base) bs = Inr ts"
    "update_members ts (if json_truthy (json_member ''advanced'' (JObj theme)) then json_member ''advanced'' (JObj theme)
       else JObj []) = Inr tokens"
    unfolding resolve_tokens_def Let_def pick using chosen base(1) by (auto simp: text_key_def)
  have ts: "list_all inert ts" using resolved_brand [OF brand [OF bs(1)] base(2)] bs(2) by auto
  have "list_all inert tokens" using adv bs(3) put_members_all [OF ts] ts by (auto simp: update_members_def split: if_splits)
  then show ?thesis using tokens ok by blast
qed

definition plain_sdk :: sdk where
  "plain_sdk = \<lparr>sdk_event = \<lambda>_. None, sdk_rumor = \<lambda>_. None, sdk_pubkey = \<lambda>_. None, sdk_nsec = \<lambda>_. None,
     sdk_generate = \<lambda>_. [], sdk_nip44 = \<lambda>_ _ _. None, py_repr = \<lambda>_. []\<rparr>"

definition theme_env :: env where
  "theme_env = sample_env\<lparr>str_lower := map ascii_lower, str_strip := \<lambda>t. t\<rparr>"

definition sample_theme :: json where
  "sample_theme = JObj [(''preset'', JStr ''clean-minimal''),
     (''brand'', JObj [(''name'', JStr ''Shop; }''), (''accent'', JStr ''#0B9aFF'')])]"

definition stored_theme :: "(string \<times> json) list" where
  "stored_theme = [(''preset'', JStr ''clean-minimal''), (''layout'', JStr ''editorial''),
     (''brand'', JObj [(''name'', JStr ''Shop; }''), (''accent'', JStr ''#0b9aff'')]), (''advanced'', JNull)]"

lemma theme_env_fields: "str_lower theme_env = map ascii_lower" "str_strip theme_env = (\<lambda>t. t)"
  by (simp_all add: theme_env_def)

lemma sample_color: "hex_color ''#0B9aFF''" "map ascii_lower ''#0B9aFF'' = ''#0b9aff''"
  by (simp_all add: hex_color_def before_newline_def hex_value_def ascii_lower_def char_of_def bit_0)

lemma sample_brand:
  "validate_brand theme_env plain_sdk (JObj [(''name'', JStr ''Shop; }''), (''accent'', JStr ''#0B9aFF'')])
   = Inr [(''name'', JStr ''Shop; }''), (''accent'', JStr ''#0b9aff'')]"
  by (simp add: validate_brand_def try_bind_def try_require_def json_member_def brand_name_def brand_initials_def
    brand_accent_def brand_choice_def brand_text_def add_text_def py_str_def theme_env_fields sample_color [simplified]
    object_entries_def continuation_def)

lemma sample_theme_accepted: "validate_theme theme_env plain_sdk (\<lambda>_ _. True) sample_theme = Inr stored_theme"
proof -
  have tokens: "\<exists>ts. resolve_tokens stored_theme = Inr ts"
    by (simp add: resolve_tokens_def stored_theme_def text_key_def PRESET_TOKENS_def try_bind_def sub_object_def
      json_member_def resolve_brand_def update_members_def)
  have ok: "contrast_ok (\<lambda>_ _. True) ts" for ts by (simp add: contrast_ok_def list_all_iff split: option.split)
  show ?thesis
    using tokens ok unfolding validate_theme_def sample_theme_def
    by (auto simp: stored_theme_def theme_choice_def json_member_def sample_brand one_of_def PRESETS_def
      LAYOUTS_def object_entries_def DEFAULT_THEME_def try_bind_def try_require_def)
qed

section \<open>The property\<close>

text \<open>The resolved tokens are a table with one row per name.\<close>

definition token_table :: "(string \<times> json) list \<Rightarrow> bool" where
  "token_table kvs \<longleftrightarrow> kvs \<noteq> [] \<and> distinct (map fst kvs)"

lemma put_member_table: "token_table kvs \<Longrightarrow> token_table (put_member kvs kv)"
proof -
  have "map fst (map (\<lambda>x. if fst x = fst kv then kv else x) kvs) = map fst kvs" by (induction kvs) auto
  then show "token_table kvs \<Longrightarrow> token_table (put_member kvs kv)"
    unfolding token_table_def put_member_def by (auto simp del: map_map)
qed

lemma put_members_table: "token_table kvs \<Longrightarrow> token_table (foldl put_member kvs new)"
  by (induction new arbitrary: kvs) (auto intro: put_member_table)

lemma update_members_table:
  assumes "token_table kvs" "update_members kvs j = Inr new"
  shows "token_table new"
proof (cases j)
  case (JArr xs)
  then have "try_fold (\<lambda>acc x. try_bind (update_pair x) (\<lambda>kv. Inr (put_member acc kv))) kvs xs = Inr new"
    using assms(2) by (simp add: update_members_def)
  then show ?thesis by (rule try_fold_inv) (auto intro: put_member_table assms(1))
qed (use assms in \<open>auto simp: update_members_def put_members_table split: list.splits\<close>)

lemma preset_table: "map_of PRESET_TOKENS p = Some base \<Longrightarrow> token_table (texts base)"
proof -
  have "list_all (\<lambda>(_, b). token_table (texts b)) PRESET_TOKENS" by code_simp
  then show "map_of PRESET_TOKENS p = Some base \<Longrightarrow> token_table (texts base)"
    by (auto simp: list_all_iff dest: map_of_SomeD)
qed

lemma resolved_table:
  assumes "resolve_tokens theme = Inr tokens"
  shows "token_table tokens"
proof -
  obtain v base brand ts where base: "text_key v PRESET_TOKENS = Inr base"
    and brand: "resolve_brand (texts base) brand = Inr ts"
    and update: "\<exists>j. update_members ts j = Inr tokens"
    using assms unfolding resolve_tokens_def Let_def try_bind_Inr by blast
  have "token_table (texts base)" using base by (auto simp: text_key_def preset_table split: json.splits option.splits)
  then have "token_table ts" using brand by (auto simp: resolve_brand_def Let_def intro!: put_members_table put_member_table)
  then show ?thesis using update by (blast intro: update_members_table)
qed

text \<open>The declaration of one token, and the sheet as the declarations in the order of their names.\<close>

definition css_declaration :: "string \<times> json \<Rightarrow> string" where
  "css_declaration kv = ''  '' @ fst kv @ '': '' @ color_of (snd kv) @ '';'' @ [CHR 0x0A]"

lemma joined_lines:
  "xs \<noteq> [] \<Longrightarrow> pre @ join_text (post @ pre) xs @ post = concat (map (\<lambda>x. pre @ x @ post) xs)"
  by (induction xs rule: induct_list012) simp_all

lemma inert_text: "inert (n, v) \<Longrightarrow> list_all css_safe n \<and> (\<exists>t. v = JStr t \<and> list_all css_safe t)"
  by (cases v) (simp_all add: inert_def)

lemma inert_line: "inert kv \<Longrightarrow> token_line K kv = fst kv @ '': '' @ color_of (snd kv)"
  by (auto simp: inert_def token_line_def py_str_def color_of_def split: json.splits)

lemma css_lines:
  assumes "tokens \<noteq> []" "list_all inert tokens"
  shows "css_of K tokens = ''.gm-public {'' @ [CHR 0x0A] @ concat (map css_declaration (sort_key fst tokens)) @ ''}''"
proof -
  have "map (\<lambda>x. ''  '' @ x @ '';'' @ [CHR 0x0A]) (map (token_line K) (sort_key fst tokens))
      = map css_declaration (sort_key fst tokens)"
    using assms(2) by (simp add: list_all_iff css_declaration_def inert_line)
  then have "concat (map (\<lambda>x. ''  '' @ x @ '';'' @ [CHR 0x0A]) (map (token_line K) (sort_key fst tokens)))
      = concat (map css_declaration (sort_key fst tokens))" by (rule arg_cong)
  then show ?thesis
    using joined_lines [of "map (token_line K) (sort_key fst tokens)" "''  ''" "'';'' @ [CHR 0x0A]"] assms(1)
    unfolding css_of_def by (simp del: map_map flip: set_empty)
qed

text \<open>
  C40 A theme that the validator accepts resolves to tokens that pass the contrast gate, and its
  style sheet is one block with exactly one declaration, \<open>name: value;\<close>, for
  each token, in the order of the names; names and values consist of letters, digits and a few marks
  (no colon, semicolon, brace, bracket, slash or backslash), whatever the merchant sent.
\<close>

theorem emitted_css_is_inert:
  assumes "ascii_lowering E" "validate_theme E K readable payload = Inr theme"
  shows "\<exists>tokens. resolve_tokens theme = Inr tokens \<and> contrast_ok readable tokens
    \<and> tokens \<noteq> [] \<and> distinct (map fst tokens)
    \<and> (\<forall>(name, value) \<in> set tokens. list_all css_safe name \<and> (\<exists>v. value = JStr v \<and> list_all css_safe v))
    \<and> emit_css K theme = Inr (''.gm-public {'' @ [CHR 0x0A]
        @ concat (map (\<lambda>(name, value). ''  '' @ name @ '': '' @ color_of value @ '';'' @ [CHR 0x0A])
            (sort_key fst tokens)) @ ''}'')"
proof -
  from validated_theme [OF assms] obtain tokens where t: "resolve_tokens theme = Inr tokens"
    "contrast_ok readable tokens" "list_all inert tokens" by blast
  have table: "tokens \<noteq> []" "distinct (map fst tokens)"
    using resolved_table [OF t(1)] by (simp_all add: token_table_def)
  have "\<forall>(name, value) \<in> set tokens. list_all css_safe name \<and> (\<exists>v. value = JStr v \<and> list_all css_safe v)"
    using t(3) inert_text by (auto simp: list_all_iff)
  moreover have "css_declaration = (\<lambda>(name, value). ''  '' @ name @ '': '' @ color_of value @ '';'' @ [CHR 0x0A])"
    by (auto simp: css_declaration_def)
  ultimately show ?thesis
    using t(1,2) table css_lines [OF table(1) t(3), of K] by (simp add: emit_css_def)
qed

lemma theme_env_lowering: "ascii_lowering theme_env"
  by (simp add: ascii_lowering_def theme_env_def)

theorem emitted_css_is_inert_witness:
  "\<exists>tokens. validate_theme theme_env plain_sdk (\<lambda>_ _. True) sample_theme = Inr stored_theme
    \<and> resolve_tokens stored_theme = Inr tokens \<and> tokens \<noteq> []
    \<and> emit_css plain_sdk stored_theme = Inr (''.gm-public {'' @ [CHR 0x0A]
        @ concat (map (\<lambda>(name, value). ''  '' @ name @ '': '' @ color_of value @ '';'' @ [CHR 0x0A])
            (sort_key fst tokens)) @ ''}'')"
  using emitted_css_is_inert [OF theme_env_lowering sample_theme_accepted] sample_theme_accepted by blast

end
