(* ===== verification/Merchant.thy ===== *)
theory Merchant
  imports Publisher Email Themes
begin

text \<open>
  The merchant's own settings: \<open>services/merchant.py\<close>, the relay settings of
  \<open>services/relay.py\<close> and the NIP-42 part of \<open>services/nostr_auth.py\<close>. The host's wallets
  and its e-mail check are the argument \<open>host\<close>; request bodies are the typed ones of
  \<open>views_api.py\<close>.
\<close>

section \<open>Host and projection\<close>

text \<open>A wallet has an owner and may receive payments or not.\<close>

record host =
  host_wallet :: "string \<Rightarrow> (id \<times> bool) option"
  host_email_ok :: "string \<Rightarrow> bool"
  host_readable :: "string \<Rightarrow> string \<Rightarrow> bool"

definition wallet_mismatch :: error where "wallet_mismatch = ProblemError 409 ''wallet-mismatch''"
definition invalid_merchant_transition :: error where "invalid_merchant_transition = ProblemError 409 ''invalid-transition''"
definition unprocessable_transition :: error where "unprocessable_transition = ProblemError 422 ''invalid-transition''"

definition wallet_for_user :: "host \<Rightarrow> string \<Rightarrow> id \<Rightarrow> error + unit" where
  "wallet_for_user H wallet user =
     (case host_wallet H wallet of
        None \<Rightarrow> Inl wallet_mismatch
      | Some (owner, can_receive) \<Rightarrow>
          if owner \<noteq> user then Inl wallet_mismatch
          else if \<not> can_receive then Inl wallet_mismatch
          else Inr ())"

definition NONTERMINAL_ORDER_STATES :: "order_state set" where
  "NONTERMINAL_ORDER_STATES = {Received, InvoicePending, AwaitingPayment, Confirmed, Processing}"

definition blocking_orders :: "id \<Rightarrow> db \<Rightarrow> nat" where
  "blocking_orders merchant s =
     length (filter (\<lambda>k. o_merchant_id k = merchant \<and> o_state k \<in> NONTERMINAL_ORDER_STATES) (db_orders s))"

definition encrypt_wallet_id :: "env \<Rightarrow> id \<Rightarrow> string \<Rightarrow> (db, bytes \<times> string) tx" where
  "encrypt_wallet_id E merchant wallet =
     tx_bind (seal_column E merchant ''merchants'' ''wallet_id_enc'' wallet) (\<lambda>enc.
     tx_return (enc, wallet_hash E merchant wallet))"

record public_merchant =
  pm_id :: id
  pm_user_id :: id
  pm_pubkey :: string
  pm_display_name :: "string option"
  pm_profile_json :: "string option"
  pm_recommended_app_d :: "string option"
  pm_notify_emails :: "string list"
  pm_notify_events :: "(string \<times> bool) list"
  pm_state :: merchant_state
  pm_inbox_state :: inbox_state
  pm_theme :: "json option"
  pm_created_at :: int
  pm_updated_at :: int
  pm_spec_revision :: string

text \<open>The projection never has the wallet or key columns; a stored theme that does not parse is a \<open>ValueError\<close>.\<close>

definition public_merchant_of :: "env \<Rightarrow> merchant \<Rightarrow> error + public_merchant" where
  "public_merchant_of E m =
     try_bind (if truthy (m_theme m) then (case json_loads E (the (m_theme m)) of
         None \<Rightarrow> Inl ValueError | Some j \<Rightarrow> Inr (Some j)) else Inr None) (\<lambda>theme.
     Inr \<lparr>pm_id = m_id m, pm_user_id = m_user_id m, pm_pubkey = m_pubkey m, pm_display_name = m_display_name m,
       pm_profile_json = m_profile_json m, pm_recommended_app_d = m_recommended_app_d m,
       pm_notify_emails = m_notify_emails m, pm_notify_events = m_notify_events m, pm_state = m_state m,
       pm_inbox_state = m_inbox_state m, pm_theme = theme, pm_created_at = m_created_at m,
       pm_updated_at = m_updated_at m, pm_spec_revision = spec_revision E\<rparr>)"

definition merchant_view :: "env \<Rightarrow> id \<Rightarrow> id \<Rightarrow> (db, public_merchant) proc" where
  "merchant_view E merchant user =
     pr_bind (get_merchant_row merchant user) (\<lambda>m. pr_lift (public_merchant_of E m))"

definition editable :: "merchant \<Rightarrow> bool" where
  "editable m \<longleftrightarrow> m_state m \<notin> {MsDeactivating, MsInactive}"

definition update_merchant :: "id \<Rightarrow> (merchant \<Rightarrow> merchant) \<Rightarrow> (db, unit) tx" where
  "update_merchant merchant f =
     tx_bind tx_now (\<lambda>now. tx_ignore (sql_update db_merchants db_merchants_update merchants_ok
       (\<lambda>m. m_id m = merchant) (\<lambda>m. (f m)\<lparr>m_updated_at := now\<rparr>)))"

section \<open>Creation and keys\<close>

text \<open>
  The row is inserted with a placeholder key, twice its own id, and gets the generated public key
  in the same transaction.
\<close>

definition new_merchant :: "id \<Rightarrow> id \<Rightarrow> string option \<Rightarrow> bytes \<Rightarrow> string \<Rightarrow> int \<Rightarrow> merchant" where
  "new_merchant u user display enc h now = \<lparr>m_id = u, m_user_id = user, m_pubkey = u @ u,
     m_key_ref = ''merchant_keys:'' @ u, m_display_name = display, m_profile_json = None,
     m_recommended_app_d = None, m_wallet_id_enc = enc, m_wallet_id_hash = h, m_notify_emails = [],
     m_notify_events = [], m_theme = None, m_state = MsDraft, m_inbox_state = IsOff,
     m_created_at = now, m_updated_at = now\<rparr>"

definition create_merchant_tx :: "env \<Rightarrow> sdk \<Rightarrow> merchant \<Rightarrow> (db, unit) tx" where
  "create_merchant_tx E K row =
     tx_seq (sql_insert db_merchants_update merchants_ok row)
    (tx_bind (generate_key E K (m_id row)) (\<lambda>pubkey.
     tx_ignore (sql_update db_merchants db_merchants_update merchants_ok (\<lambda>m. m_id m = m_id row)
       (\<lambda>m. m\<lparr>m_pubkey := pubkey\<rparr>))))"

definition create_merchant :: "env \<Rightarrow> sdk \<Rightarrow> host \<Rightarrow> id \<Rightarrow> string \<Rightarrow> string option \<Rightarrow> string \<Rightarrow> (db, public_merchant) proc" where
  "create_merchant E K H user wallet display preference =
     (if preference \<noteq> ''manual'' then pr_raise unprocessable_transition
      else
        pr_bind (pr_get (\<lambda>s. List.find (\<lambda>m. m_user_id m = user) (db_merchants s))) (\<lambda>existing.
        if existing \<noteq> None then pr_raise (ProblemError 409 ''duplicate-merchant'')
        else
          pr_bind (pr_lift (wallet_for_user H wallet user)) (\<lambda>_.
          pr_bind (commit (new_uuid E)) (\<lambda>u.
          pr_bind (commit (encrypt_wallet_id E u wallet)) (\<lambda>(enc, h).
          pr_bind (pr_get db_clock) (\<lambda>now.
          pr_bind (commit (create_merchant_tx E K (new_merchant u user display enc h now))) (\<lambda>_.
          merchant_view E u user)))))))"

definition import_nsec_tx :: "env \<Rightarrow> sdk \<Rightarrow> id \<Rightarrow> string \<Rightarrow> (db, unit) tx" where
  "import_nsec_tx E K merchant nsec =
     tx_bind (import_key E K merchant nsec) (\<lambda>pubkey.
     tx_seq (update_merchant merchant (\<lambda>m. m\<lparr>m_pubkey := pubkey\<rparr>))
       (tx_ignore (enqueue_intent E merchant ''merchant_profile'' merchant 0 0 None [])))"

definition import_nsec :: "env \<Rightarrow> sdk \<Rightarrow> id \<Rightarrow> id \<Rightarrow> string \<Rightarrow> (db, public_merchant) proc" where
  "import_nsec E K merchant user nsec =
     pr_bind (get_merchant_row merchant user) (\<lambda>row.
     if \<not> editable row then pr_raise invalid_merchant_transition
     else
       pr_bind (commit (import_nsec_tx E K merchant nsec)) (\<lambda>_.
       merchant_view E merchant user))"

section \<open>Relay settings\<close>

definition relay_row :: "id \<Rightarrow> id \<Rightarrow> string \<Rightarrow> string \<Rightarrow> bool \<Rightarrow> int \<Rightarrow> relay_config" where
  "relay_row u merchant url direction enabled now = \<lparr>rc_id = u, rc_merchant_id = Some merchant, rc_relay_url = url,
     rc_direction = direction, rc_enabled = enabled, rc_created_at = now, rc_updated_at = now,
     rc_auth_state = None, rc_auth_note = None, rc_paid_invoice = None, rc_auth_updated_at = None\<rparr>"

definition relay_configs_ok :: "db \<Rightarrow> bool" where
  "relay_configs_ok s \<longleftrightarrow> distinct (map rc_id (db_relay_configs s))
     \<and> list_all (\<lambda>r. case rc_merchant_id r of None \<Rightarrow> True | Some m \<Rightarrow> \<exists>k \<in> set (db_merchants s). m_id k = m)
         (db_relay_configs s)"

definition insert_relay :: "env \<Rightarrow> id \<Rightarrow> string \<times> string \<times> bool \<Rightarrow> (db, unit) tx" where
  "insert_relay E merchant entry =
     (case entry of (url, direction, enabled) \<Rightarrow>
        tx_bind (new_uuid E) (\<lambda>u. tx_bind tx_now (\<lambda>now.
        sql_insert db_relay_configs_update relay_configs_ok (relay_row u merchant url direction enabled now))))"

text \<open>An inbox relay must also resolve to public addresses.\<close>

definition inbox_egress :: "env \<Rightarrow> network \<Rightarrow> string \<Rightarrow> string \<Rightarrow> error + unit" where
  "inbox_egress E N url direction =
     (if direction \<notin> {''inbox'', ''both''} then Inr ()
      else
        try_bind (urlparse E url) (\<lambda>u.
        try_bind (url_port u) (\<lambda>port.
        try_require (net_public_host N (url_hostname E u)
          (case port of None \<Rightarrow> 443 | Some n \<Rightarrow> if n = 0 then 443 else n)) invalid_relay)))"

definition relay_entry :: "env \<Rightarrow> network \<Rightarrow> (string \<times> json) list \<Rightarrow> error + string \<times> string \<times> bool" where
  "relay_entry E N cfg =
     (case map_of cfg ''relay_url'' of
        None \<Rightarrow> Inl invalid_relay
      | Some raw \<Rightarrow>
          try_bind (case raw of JStr t \<Rightarrow> validate_relay_url E t
             | _ \<Rightarrow> Inl (if \<not> json_truthy raw then invalid_relay else case raw of JArr _ \<Rightarrow> AttributeError
                 | JObj _ \<Rightarrow> AttributeError | _ \<Rightarrow> TypeError)) (\<lambda>url.
          case (case map_of cfg ''direction'' of None \<Rightarrow> JStr ''public'' | Some d \<Rightarrow> d) of
            JStr d \<Rightarrow>
              if d \<notin> {''public'', ''inbox'', ''both''} then Inl invalid_relay
              else try_bind (inbox_egress E N url d) (\<lambda>_.
                Inr (url, d, json_truthy (case map_of cfg ''enabled'' of None \<Rightarrow> JBool True | Some e \<Rightarrow> e)))
          | _ \<Rightarrow> Inl invalid_relay))"

definition add_relay_entry :: "env \<Rightarrow> network \<Rightarrow> (string \<times> string \<times> bool) list \<Rightarrow> (string \<times> json) list \<Rightarrow>
    error + (string \<times> string \<times> bool) list" where
  "add_relay_entry E N acc cfg =
     try_bind (relay_entry E N cfg) (\<lambda>(url, direction, enabled).
     if \<exists>x \<in> set acc. fst x = url \<and> fst (snd x) = direction then Inl invalid_relay
     else Inr (acc @ [(url, direction, enabled)]))"

definition replace_relay_configs :: "env \<Rightarrow> network \<Rightarrow> id \<Rightarrow> (string \<times> json) list list \<Rightarrow> (db, unit) tx" where
  "replace_relay_configs E N merchant configs =
     tx_bind (tx_lift (try_fold (add_relay_entry E N) [] configs)) (\<lambda>entries.
     tx_seq (tx_ignore (sql_delete db_relay_configs db_relay_configs_update (\<lambda>r. rc_merchant_id r = Some merchant)))
       (tx_for entries (insert_relay E merchant)))"

definition DEFAULT_RELAYS :: "string list" where
  "DEFAULT_RELAYS = [''wss://relay.damus.io'', ''wss://nos.lol'', ''wss://relay.nostr.net'']"

definition DEFAULT_INBOX_RELAYS :: "string list" where
  "DEFAULT_INBOX_RELAYS = [''wss://nos.lol'', ''wss://relay.damus.io'']"

text \<open>Seeding, only for a merchant with no relay of its own.\<close>

definition ensure_relays :: "env \<Rightarrow> string \<Rightarrow> string list \<Rightarrow> id \<Rightarrow> (db, unit) proc" where
  "ensure_relays E direction urls merchant =
     pr_bind (pr_get (\<lambda>s. List.find (\<lambda>r. rc_merchant_id r = Some merchant) (db_relay_configs s))) (\<lambda>existing.
     if existing \<noteq> None then pr_return ()
     else commit (tx_for urls (\<lambda>url. insert_relay E merchant (url, direction, True))))"

definition ensure_default_relays :: "env \<Rightarrow> id \<Rightarrow> (db, unit) proc" where
  "ensure_default_relays E = ensure_relays E ''public'' DEFAULT_RELAYS"

definition ensure_default_inbox_relays :: "env \<Rightarrow> id \<Rightarrow> (db, unit) proc" where
  "ensure_default_inbox_relays E = ensure_relays E ''inbox'' DEFAULT_INBOX_RELAYS"

section \<open>Media endpoints\<close>

definition invalid_endpoint :: error where "invalid_endpoint = ProblemError 422 ''invalid-endpoint''"

definition strip_brackets :: "string \<Rightarrow> string" where
  "strip_brackets h = rev (dropWhile (\<lambda>c. c \<in> set ''[]'') (rev (dropWhile (\<lambda>c. c \<in> set ''[]'') h)))"

definition validate_blossom_url :: "env \<Rightarrow> string \<Rightarrow> error + string" where
  "validate_blossom_url E raw =
     (if raw = [] \<or> 512 < chars raw \<or> raw \<noteq> str_strip E raw then Inl invalid_endpoint
      else
        try_bind (urlparse E raw) (\<lambda>u.
        try_bind (try_require (u_scheme u = ''https'') invalid_endpoint) (\<lambda>_.
        try_bind (try_require (\<not> has_userinfo u \<and> u_fragment u = []) invalid_endpoint) (\<lambda>_.
        let host = url_hostname E u in
        try_bind (try_require (\<not> ip_literal E (strip_brackets host)) invalid_endpoint) (\<lambda>_.
        try_bind (try_require (2 \<le> length (host_labels host) \<and> before_newline host \<noteq> []
            \<and> list_all host_char (before_newline host)) invalid_endpoint) (\<lambda>_.
        try_bind (url_port u) (\<lambda>port.
        Inr (''https://'' @ host
          @ (case port of None \<Rightarrow> '''' | Some n \<Rightarrow> if n = 0 then '''' else '':'' @ str_nat n)
          @ (if u_path u \<notin> {'''', ''/''} then u_path u else '''')))))))))"

definition blossom_key :: "id \<Rightarrow> setting \<Rightarrow> bool" where
  "blossom_key merchant r \<longleftrightarrow> st_merchant_id r = merchant \<and> st_key r = ''blossom_servers''"

definition get_blossom_servers :: "env \<Rightarrow> id \<Rightarrow> db \<Rightarrow> error + json" where
  "get_blossom_servers E merchant s =
     (case List.find (blossom_key merchant) (db_settings s) of
        None \<Rightarrow> Inr (JArr [])
      | Some r \<Rightarrow> if \<not> truthy (st_value r) then Inr (JArr [])
          else (case json_loads E (the (st_value r)) of None \<Rightarrow> Inl ValueError | Some j \<Rightarrow> Inr j))"

definition set_blossom_servers :: "env \<Rightarrow> id \<Rightarrow> string list \<Rightarrow> (db, string list) proc" where
  "set_blossom_servers E merchant urls =
     pr_bind (pr_lift (try_fold (\<lambda>acc u. try_bind (validate_blossom_url E u) (\<lambda>v. Inr (acc @ [v]))) [] urls)) (\<lambda>vs.
     (let validated = sorted_strings (remdups vs) in
      pr_bind (commit (tx_seq (tx_ignore (sql_delete db_settings db_settings_update (blossom_key merchant)))
          (sql_insert db_settings_update settings_ok \<lparr>st_merchant_id = merchant, st_key = ''blossom_servers'',
             st_value = Some (json_dumps E (JArr (map JStr validated)))\<rparr>))) (\<lambda>_.
      pr_return validated)))"

section \<open>Editing\<close>

text \<open>The body of a patch: a field is there or not, and may be null.\<close>

record merchant_patch =
  mp_display_name :: "string option option"
  mp_profile_json :: "json option"
  mp_recommended_app_d :: "string option option"
  mp_wallet_id :: "string option"
  mp_notify_emails :: "string list option option"
  mp_notify_events :: "(string \<times> json) list option option"
  mp_theme :: "json option"
  mp_relay_configs :: "(string \<times> json) list list option"
  mp_blossom_servers :: "string list option"

definition MAX_NOTIFY_EMAILS :: nat where "MAX_NOTIFY_EMAILS = 5"

definition or_list :: "'a list option \<Rightarrow> 'a list" where
  "or_list v = (case v of None \<Rightarrow> [] | Some xs \<Rightarrow> xs)"

definition check_patch :: "env \<Rightarrow> sdk \<Rightarrow> host \<Rightarrow> merchant_patch \<Rightarrow> error + (string \<times> json) list option" where
  "check_patch E K H p =
     try_bind (case mp_theme p of None \<Rightarrow> Inr None
        | Some t \<Rightarrow> try_bind (validate_theme E K (host_readable H) t) (\<lambda>v. Inr (Some v))) (\<lambda>theme.
     try_bind (case mp_notify_emails p of None \<Rightarrow> Inr ()
        | Some v \<Rightarrow> try_require (length (or_list v) \<le> MAX_NOTIFY_EMAILS \<and> list_all (host_email_ok H) (or_list v))
            unprocessable_transition) (\<lambda>_.
     Inr theme))"

text \<open>The column updates in the order of the code.\<close>

definition patch_columns :: "env \<Rightarrow> (bytes \<times> string) option \<Rightarrow> (string \<times> json) list option \<Rightarrow> merchant_patch \<Rightarrow>
    (merchant \<Rightarrow> merchant) list" where
  "patch_columns E wallet theme p =
     (case wallet of None \<Rightarrow> [] | Some (enc, h) \<Rightarrow> [\<lambda>m. m\<lparr>m_wallet_id_enc := enc\<rparr>, \<lambda>m. m\<lparr>m_wallet_id_hash := h\<rparr>])
     @ (case mp_display_name p of None \<Rightarrow> [] | Some v \<Rightarrow> [\<lambda>m. m\<lparr>m_display_name := v\<rparr>])
     @ (case mp_profile_json p of None \<Rightarrow> []
        | Some v \<Rightarrow> [\<lambda>m. m\<lparr>m_profile_json := Some (case v of JStr t \<Rightarrow> t | _ \<Rightarrow> json_dumps E v)\<rparr>])
     @ (case mp_recommended_app_d p of None \<Rightarrow> [] | Some v \<Rightarrow> [\<lambda>m. m\<lparr>m_recommended_app_d := v\<rparr>])
     @ (case theme of None \<Rightarrow> [] | Some t \<Rightarrow> [\<lambda>m. m\<lparr>m_theme := Some (theme_text E t)\<rparr>])
     @ (case mp_notify_emails p of None \<Rightarrow> [] | Some v \<Rightarrow> [\<lambda>m. m\<lparr>m_notify_emails := or_list v\<rparr>])
     @ (case mp_notify_events p of None \<Rightarrow> []
        | Some v \<Rightarrow> [\<lambda>m. m\<lparr>m_notify_events := map (\<lambda>(k, b). (k, json_truthy b)) (or_list v)\<rparr>])"

definition profile_changed :: "merchant_patch \<Rightarrow> bool" where
  "profile_changed p \<longleftrightarrow> mp_display_name p \<noteq> None \<or> mp_profile_json p \<noteq> None \<or> mp_recommended_app_d p \<noteq> None
     \<or> mp_theme p \<noteq> None"

definition patch_merchant_tx :: "env \<Rightarrow> network \<Rightarrow> id \<Rightarrow> (merchant \<Rightarrow> merchant) list \<Rightarrow>
    (string \<times> json) list list option \<Rightarrow> bool \<Rightarrow> (db, unit) tx" where
  "patch_merchant_tx E N merchant columns relays profile =
     tx_seq (tx_for columns (update_merchant merchant))
    (tx_seq (case relays of None \<Rightarrow> tx_return () | Some configs \<Rightarrow> replace_relay_configs E N merchant configs)
       (tx_when profile (tx_ignore (enqueue_intent E merchant ''merchant_profile'' merchant 0 0 None []))))"

definition patch_wallet :: "env \<Rightarrow> host \<Rightarrow> id \<Rightarrow> id \<Rightarrow> string option \<Rightarrow> (db, (bytes \<times> string) option) proc" where
  "patch_wallet E H merchant user wallet =
     (case wallet of
        None \<Rightarrow> pr_return None
      | Some w \<Rightarrow>
          pr_bind (pr_get (blocking_orders merchant)) (\<lambda>n.
          if n \<noteq> 0 then pr_raise wallet_mismatch
          else
            pr_bind (pr_lift (wallet_for_user H w user)) (\<lambda>_.
            pr_bind (commit (encrypt_wallet_id E merchant w)) (\<lambda>x. pr_return (Some x)))))"

text \<open>The media endpoints are checked and written after the transaction of the other columns.\<close>

definition patch_merchant :: "env \<Rightarrow> sdk \<Rightarrow> network \<Rightarrow> host \<Rightarrow> id \<Rightarrow> id \<Rightarrow> merchant_patch \<Rightarrow> (db, public_merchant) proc" where
  "patch_merchant E K N H merchant user p =
     pr_bind (get_merchant_row merchant user) (\<lambda>row.
     if \<not> editable row then pr_raise invalid_merchant_transition
     else
       pr_bind (patch_wallet E H merchant user (mp_wallet_id p)) (\<lambda>wallet.
       pr_bind (pr_lift (check_patch E K H p)) (\<lambda>theme.
       pr_bind (commit (patch_merchant_tx E N merchant (patch_columns E wallet theme p) (mp_relay_configs p)
           (profile_changed p))) (\<lambda>_.
       pr_bind (case mp_blossom_servers p of None \<Rightarrow> pr_return []
          | Some urls \<Rightarrow> set_blossom_servers E merchant urls) (\<lambda>_.
       merchant_view E merchant user)))))"

section \<open>Publication\<close>

text \<open>One intent per live aggregate of a table.\<close>

definition live_products :: "id \<Rightarrow> (db, (id \<times> int) list) tx" where
  "live_products merchant = tx_bind (sql_all db_products (\<lambda>p. p_merchant_id p = merchant \<and> p_deleted_at p = None))
     (\<lambda>ps. tx_return (map (\<lambda>p. (p_id p, p_revision p)) ps))"

definition live_collections :: "id \<Rightarrow> (db, (id \<times> int) list) tx" where
  "live_collections merchant = tx_bind (sql_all db_collections (\<lambda>c. c_merchant_id c = merchant \<and> c_deleted_at c = None))
     (\<lambda>cs. tx_return (map (\<lambda>c. (c_id c, c_revision c)) cs))"

definition live_shipping :: "id \<Rightarrow> (db, (id \<times> int) list) tx" where
  "live_shipping merchant = tx_bind (sql_all db_shipping_options (\<lambda>o'. so_merchant_id o' = merchant \<and> so_deleted_at o' = None))
     (\<lambda>os. tx_return (map (\<lambda>o'. (so_id o', so_revision o')) os))"

definition enqueue_each :: "env \<Rightarrow> id \<Rightarrow> string \<Rightarrow> int \<Rightarrow> (db, (id \<times> int) list) tx \<Rightarrow> (db, unit) tx" where
  "enqueue_each E merchant aggregate kind rows =
     tx_bind rows (\<lambda>rs. tx_for rs (\<lambda>(i, revision).
       tx_ignore (enqueue_intent E merchant aggregate i kind revision None [])))"

definition publish_stall :: "env \<Rightarrow> id \<Rightarrow> catalog \<Rightarrow> (db, unit) tx" where
  "publish_stall E merchant cat =
     tx_seq (tx_ignore (enqueue_intent E merchant ''catalogs'' (cat_id cat) 30017 0 None []))
       (enqueue_each E merchant ''products'' 30018
         (tx_bind (sql_all db_products (\<lambda>p. p_catalog_id p = cat_id cat \<and> p_merchant_id p = merchant \<and> p_deleted_at p = None))
           (\<lambda>ps. tx_return (map (\<lambda>p. (p_id p, p_revision p)) ps))))"

definition publish_tx :: "env \<Rightarrow> id \<Rightarrow> bool \<Rightarrow> int \<Rightarrow> (db, unit) tx" where
  "publish_tx E merchant draft now =
     tx_seq (tx_for [0, 31989, 31990] (\<lambda>kind.
         tx_ignore (enqueue_intent E merchant ''merchant_profile'' merchant kind 0 None [])))
    (tx_seq (enqueue_each E merchant ''products'' 30402 (live_products merchant))
    (tx_seq (enqueue_each E merchant ''collections'' 30405 (live_collections merchant))
    (tx_seq (enqueue_each E merchant ''shipping_options'' 30406 (live_shipping merchant))
    (tx_bind (sql_all db_catalogs (\<lambda>c. cat_merchant_id c = merchant \<and> cat_publish_nip15 c \<and> cat_deleted_at c = None)) (\<lambda>cats.
     tx_seq (tx_for cats (publish_stall E merchant))
       (tx_when draft (tx_ignore (sql_update db_merchants db_merchants_update merchants_ok
          (\<lambda>m. m_id m = merchant \<and> m_state m = MsDraft)
          (\<lambda>m. m\<lparr>m_state := MsPublicationPending, m_updated_at := now\<rparr>)))))))))"

definition publish_merchant :: "env \<Rightarrow> id \<Rightarrow> id \<Rightarrow> (db, merchant_state) proc" where
  "publish_merchant E merchant user =
     pr_bind (get_merchant_row merchant user) (\<lambda>row.
     if \<not> editable row then pr_raise invalid_merchant_transition
     else
       pr_bind (pr_get db_clock) (\<lambda>now.
       pr_bind (ensure_default_relays E merchant) (\<lambda>_.
       pr_bind (commit (publish_tx E merchant (m_state row = MsDraft) now)) (\<lambda>_.
       pr_return MsPublicationPending))))"

section \<open>The inbox\<close>

text \<open>The next revision of the inbox profile: it outranks every intent of it so far.\<close>

definition inbox_revision :: "id \<Rightarrow> db \<Rightarrow> int" where
  "inbox_revision merchant s =
     (case map x_aggregate_revision (filter (same_aggregate ''merchant'' merchant) (db_outbox s)) of
        [] \<Rightarrow> 1
      | r # rs \<Rightarrow> foldr max rs r + 1)"

definition switch_inbox_tx :: "env \<Rightarrow> merchant \<Rightarrow> inbox_state \<Rightarrow> int \<Rightarrow> (db, id) tx" where
  "switch_inbox_tx E row st kind =
     tx_bind (tx_get (inbox_revision (m_id row))) (\<lambda>revision.
     tx_seq (update_merchant (m_id row) (\<lambda>m. m\<lparr>m_inbox_state := st\<rparr>))
       (enqueue_intent E (m_id row) ''merchant'' (m_id row) kind revision
         (Some (inbox_profile_address (m_pubkey row))) []))"

definition enable_inbox :: "env \<Rightarrow> id \<Rightarrow> id \<Rightarrow> (db, inbox_state) proc" where
  "enable_inbox E merchant user =
     pr_bind (get_merchant_row merchant user) (\<lambda>row.
     if \<not> editable row then pr_raise invalid_merchant_transition
     else
       pr_bind (ensure_default_inbox_relays E merchant) (\<lambda>_.
       pr_bind (pr_get (relay_targets merchant ''inbox'')) (\<lambda>targets.
       if targets = [] then pr_raise (ProblemError 422 ''no-inbox-relays'')
       else
         pr_bind (commit (switch_inbox_tx E row IsPending 10050)) (\<lambda>_.
         pr_return IsPending))))"

definition disable_inbox :: "env \<Rightarrow> id \<Rightarrow> id \<Rightarrow> (db, inbox_state) proc" where
  "disable_inbox E merchant user =
     pr_bind (get_merchant_row merchant user) (\<lambda>row.
     if m_inbox_state row = IsOff then pr_return IsOff
     else
       pr_bind (commit (switch_inbox_tx E row IsDeactivating 5)) (\<lambda>_.
       pr_return IsDeactivating))"

section \<open>Test messages and deactivation\<close>

definition TEST_SEND_HOURLY_LIMIT :: int where "TEST_SEND_HOURLY_LIMIT = 5"

definition test_slot :: "string \<Rightarrow> int \<Rightarrow> (db, unit) tx" where
  "test_slot scope window =
     tx_bind (sql_one db_buckets (\<lambda>b. bucket_key b = (scope, ''test-send'', window))) (\<lambda>old.
     case old of
       None \<Rightarrow> sql_insert db_buckets_update buckets_ok \<lparr>rb_scope_hash = scope, rb_bucket = ''test-send'',
           rb_window_start = window, rb_count = 1, rb_expires_at = window + 7200\<rparr>
     | Some b \<Rightarrow>
         if TEST_SEND_HOURLY_LIMIT \<le> rb_count b then tx_raise (ProblemError 429 ''rate-limited'')
         else tx_ignore (sql_update db_buckets db_buckets_update buckets_ok
           (\<lambda>b. bucket_key b = (scope, ''test-send'', window)) (\<lambda>b. b\<lparr>rb_count := rb_count b + 1\<rparr>)))"

definition send_test_notification :: "env \<Rightarrow> host \<Rightarrow> id \<Rightarrow> id \<Rightarrow> string \<Rightarrow> (db, id) proc" where
  "send_test_notification E H merchant user recipient =
     pr_bind (get_merchant_row merchant user) (\<lambda>row.
     if \<not> host_email_ok H recipient then pr_raise unprocessable_transition
     else if recipient \<notin> set (m_notify_emails row) then pr_raise unprocessable_transition
     else
       pr_bind (pr_get db_clock) (\<lambda>now.
       pr_bind (commit (test_slot (email_recipient_hash E merchant recipient) (now - now mod 3600))) (\<lambda>_.
       commit (enqueue_test_send E merchant recipient now))))"

definition deactivate_tx :: "env \<Rightarrow> id \<Rightarrow> (db, unit) tx" where
  "deactivate_tx E merchant =
     tx_seq (update_merchant merchant (\<lambda>m. m\<lparr>m_state := MsDeactivating\<rparr>))
    (tx_seq (enqueue_each E merchant ''products'' 5 (live_products merchant))
    (tx_seq (enqueue_each E merchant ''collections'' 5 (live_collections merchant))
       (enqueue_each E merchant ''shipping_options'' 5 (live_shipping merchant))))"

text \<open>The result: the state and the number of open orders that block it.\<close>

definition begin_deactivation :: "env \<Rightarrow> id \<Rightarrow> id \<Rightarrow> (db, merchant_state \<times> nat) proc" where
  "begin_deactivation E merchant user =
     pr_bind (get_merchant_row merchant user) (\<lambda>row.
     if m_state row = MsInactive then pr_return (MsInactive, 0)
     else
       pr_bind (pr_get (blocking_orders merchant)) (\<lambda>n.
       if m_state row = MsDeactivating then pr_return (MsDeactivating, n)
       else if n \<noteq> 0 then pr_raise invalid_merchant_transition
       else pr_bind (commit (deactivate_tx E merchant)) (\<lambda>_. pr_return (MsDeactivating, 0))))"

section \<open>Views\<close>

record inbox_view =
  iv_state :: inbox_state
  iv_relays :: "string list"
  iv_latest :: "outbox_event option"
  iv_evidence :: "(relay_publication \<times> outbox_event) list"

definition inbox_intents :: "id \<Rightarrow> db \<Rightarrow> outbox_event list" where
  "inbox_intents merchant s =
     filter (\<lambda>x. x_merchant_id x = merchant \<and> x_aggregate_type x = ''merchant'') (db_outbox s)"

definition get_inbox_state :: "id \<Rightarrow> id \<Rightarrow> (db, inbox_view) proc" where
  "get_inbox_state merchant user =
     pr_bind (get_merchant_row merchant user) (\<lambda>row.
     pr_get (\<lambda>s. \<lparr>iv_state = m_inbox_state row, iv_relays = relay_targets merchant ''inbox'' s,
       iv_latest = (case sort_key (\<lambda>x. (- x_aggregate_revision x, - x_created_at x)) (inbox_intents merchant s) of
         [] \<Rightarrow> None | x # _ \<Rightarrow> Some x),
       iv_evidence = take 20 (sort_key (\<lambda>(p, _). - rp_attempted_at p)
         (concat (map (\<lambda>p. map (\<lambda>x. (p, x)) (filter (\<lambda>x. x_id x = rp_outbox_event_id p) (inbox_intents merchant s)))
           (db_publications s))))\<rparr>))"

definition get_notifications :: "id \<Rightarrow> id \<Rightarrow> (db, string list \<times> (string \<times> bool) list \<times> email_row list) proc" where
  "get_notifications merchant user =
     pr_bind (get_merchant_row merchant user) (\<lambda>row.
     pr_get (\<lambda>s. (m_notify_emails row, m_notify_events row,
       take 50 (sort_key (\<lambda>e. - em_created_at e) (filter (\<lambda>e. em_merchant_id e = merchant) (db_emails s))))))"

record relay_view =
  rv_config :: relay_config
  rv_connected :: bool
  rv_accepted :: nat
  rv_rejected :: nat
  rv_timeout :: nat
  rv_last_attempt :: "int option"

definition relay_evidence :: "id \<Rightarrow> string \<Rightarrow> db \<Rightarrow> relay_publication list" where
  "relay_evidence merchant url s = filter (\<lambda>p. rp_relay_url p = url
     \<and> (\<exists>x \<in> set (db_outbox s). x_id x = rp_outbox_event_id p \<and> x_merchant_id x = merchant)) (db_publications s)"

definition relay_view_of :: "string set \<Rightarrow> id \<Rightarrow> db \<Rightarrow> relay_config \<Rightarrow> relay_view" where
  "relay_view_of online merchant s c =
     (let ps = relay_evidence merchant (rc_relay_url c) s;
          n = (\<lambda>r. length (filter (\<lambda>p. rp_result p = r) ps)) in
      \<lparr>rv_config = c, rv_connected = (rc_relay_url c \<in> online), rv_accepted = n SrAccepted,
       rv_rejected = n SrRejected, rv_timeout = n SrTimeout,
       rv_last_attempt = (case ps of [] \<Rightarrow> None | _ \<Rightarrow> Some (foldr max (map rp_attempted_at ps) 0))\<rparr>)"

definition relay_health :: "env \<Rightarrow> string set \<Rightarrow> id \<Rightarrow> db \<Rightarrow> error + relay_view list \<times> json" where
  "relay_health E online merchant s =
     try_bind (get_blossom_servers E merchant s) (\<lambda>servers.
     Inr (map (relay_view_of online merchant s)
       (sort_key rc_relay_url (filter (\<lambda>c. rc_merchant_id c = Some merchant) (db_relay_configs s))), servers))"

definition list_outbox :: "id \<Rightarrow> int \<Rightarrow> db \<Rightarrow> (outbox_event \<times> relay_publication list \<times> id list) list" where
  "list_outbox merchant limit s =
     map (\<lambda>x. (x, filter (\<lambda>p. rp_outbox_event_id p = x_id x) (db_publications s),
         map od_depends_on_outbox_event_id (filter (\<lambda>d. od_outbox_event_id d = x_id x) (db_outbox_deps s))))
       (take (nat (min (max 1 limit) 100)) (sort_key (\<lambda>x. - x_created_at x)
         (filter (\<lambda>x. x_merchant_id x = merchant) (db_outbox s))))"

section \<open>Relay authentication\<close>

definition AUTH_CHALLENGE_MAX_BYTES :: nat where "AUTH_CHALLENGE_MAX_BYTES = 1024"

definition AUTH_STATES :: "string list" where
  "AUTH_STATES = [''auth-required'', ''auth-sent'', ''authenticated'', ''auth-failed'', ''payment-required'']"

definition classify_closed :: "env \<Rightarrow> string \<Rightarrow> string option" where
  "classify_closed E message =
     (let reason = str_lower E (str_strip E message) in
      if prefixed ''auth-required'' reason then Some ''auth-required''
      else if prefixed ''payment-required'' reason then Some ''payment-required''
      else None)"

definition set_auth :: "id \<Rightarrow> string \<Rightarrow> string \<Rightarrow> string option \<Rightarrow> string option \<Rightarrow> (db, unit) tx" where
  "set_auth merchant url st note invoice =
     tx_bind tx_now (\<lambda>now. tx_ignore (sql_update db_relay_configs db_relay_configs_update relay_configs_ok
       (\<lambda>r. rc_merchant_id r = Some merchant \<and> rc_relay_url r = url)
       (\<lambda>r. r\<lparr>rc_auth_state := Some st, rc_auth_note := note, rc_paid_invoice := invoice, rc_auth_updated_at := Some now\<rparr>)))"

definition update_relay_auth_state :: "id \<Rightarrow> string \<Rightarrow> string \<Rightarrow> string option \<Rightarrow> string option \<Rightarrow> (db, unit) proc" where
  "update_relay_auth_state merchant url st note invoice =
     (if st \<notin> set AUTH_STATES then pr_raise ValueError else commit (set_auth merchant url st note invoice))"

text \<open>
  \<open>signed\<close> is what signing and sending the kind-22242 event gives; nothing is signed before
  the three guards.
\<close>

definition answer_auth_challenge :: "string set \<Rightarrow> (id \<Rightarrow> string \<Rightarrow> string \<Rightarrow> error + unit) \<Rightarrow> id \<Rightarrow> string \<Rightarrow> string \<Rightarrow>
    (db, bool) proc" where
  "answer_auth_challenge live signed merchant url challenge =
     (if AUTH_CHALLENGE_MAX_BYTES < length challenge then pr_return False
      else if url \<notin> live then pr_return False
      else
        pr_bind (pr_get (\<lambda>s. (List.find (\<lambda>r. rc_merchant_id r = Some merchant \<and> rc_relay_url r = url \<and> rc_enabled r
            \<and> rc_direction r \<in> {''inbox'', ''both''}) (db_relay_configs s),
          List.find (\<lambda>m. m_id m = merchant) (db_merchants s)))) (\<lambda>(row, m).
        if row = None \<or> m = None then pr_return False
        else
          pr_bind (pr_lift (signed merchant url challenge)) (\<lambda>_.
          pr_bind (update_relay_auth_state merchant url ''auth-sent'' None None) (\<lambda>_.
          pr_return True))))"

definition retry_relay_auth :: "id \<Rightarrow> string \<Rightarrow> (db, unit) proc" where
  "retry_relay_auth merchant url =
     pr_bind (pr_get (\<lambda>s. List.find (\<lambda>r. rc_merchant_id r = Some merchant \<and> rc_relay_url r = url) (db_relay_configs s))) (\<lambda>row.
     case row of
       None \<Rightarrow> pr_raise not_found
     | Some r \<Rightarrow>
         if rc_auth_state r \<notin> Some ` {''auth-failed'', ''payment-required'', ''auth-required''}
         then pr_raise invalid_merchant_transition
         else commit (set_auth merchant url ''auth-required'' None None))"

end
