(* ===== verification/CatalogInput.thy ===== *)
theory CatalogInput
  imports Publisher Themes
begin

text \<open>
  What the catalog service checks of a request body and how a value of the body becomes a column
  (\<open>services/catalog.py\<close>: the bounds of its head, the markdown sanitiser, the payload validators).
  A body is a decoded JSON object with distinct keys, as a list of members; its numbers are
  finite. A value of a type the column does not take is refused by the database driver.
\<close>

section \<open>Bounds and errors\<close>

definition TITLE_MAX :: nat where "TITLE_MAX = 200"
definition SUMMARY_MAX :: nat where "SUMMARY_MAX = 500"
definition DESC_MAX :: nat where "DESC_MAX = 64 * 1024"
definition IMAGES_MAX :: nat where "IMAGES_MAX = 16"

definition PRODUCT_TYPES :: "string list" where "PRODUCT_TYPES = [''simple'', ''variable'', ''variation'']"
definition FORMATS :: "string list" where "FORMATS = [''digital'', ''physical'']"
definition VISIBILITIES :: "string list" where "VISIBILITIES = [''hidden'', ''on-sale'', ''pre-order'']"
definition NIP99_STATUSES :: "string list" where "NIP99_STATUSES = [''active'', ''sold'']"
definition SERVICES :: "string list" where "SERVICES = [''standard'', ''express'', ''overnight'', ''pickup'']"
definition DURATION_UNITS :: "string list" where "DURATION_UNITS = [''H'', ''D'', ''W'']"
definition FREQ_UNITS :: "string list" where "FREQ_UNITS = [''D'', ''W'', ''Y'']"

abbreviation "bad_content \<equiv> unprocessable ''invalid-content''"

definition refused_value :: error where "refused_value = ForeignError ''DBAPIError''"

section \<open>Python on decoded JSON\<close>

type_synonym body = "(string \<times> json) list"

text \<open>\<open>p.get(k)\<close>, \<open>k in p\<close>, \<open>len(v)\<close> and the iteration over a value.\<close>

definition arg :: "body \<Rightarrow> string \<Rightarrow> json" where
  "arg p k = json_member k (JObj p)"

definition present :: "body \<Rightarrow> string \<Rightarrow> bool" where
  "present p k \<longleftrightarrow> k \<in> set (map fst p)"

definition json_len :: "json \<Rightarrow> error + nat" where
  "json_len v = (case v of JStr t \<Rightarrow> Inr (chars t) | JArr xs \<Rightarrow> Inr (length xs) | JObj kvs \<Rightarrow> Inr (length kvs)
     | _ \<Rightarrow> Inl TypeError)"

function utf8_chars :: "string \<Rightarrow> string list" where
  "utf8_chars [] = []"
| "utf8_chars (c # cs) = (c # takeWhile continuation cs) # utf8_chars (dropWhile continuation cs)"
  by pat_completeness auto

termination
  by (relation "measure length") (auto simp: le_imp_less_Suc length_dropWhile_le)

definition json_items :: "json \<Rightarrow> error + json list" where
  "json_items v = (case v of JArr xs \<Rightarrow> Inr xs | JObj kvs \<Rightarrow> Inr (map (\<lambda>kv. JStr (fst kv)) kvs)
     | JStr t \<Rightarrow> Inr (map JStr (utf8_chars t)) | _ \<Rightarrow> Inl TypeError)"

text \<open>\<open>v or []\<close>.\<close>

definition items_or_none :: "json \<Rightarrow> error + json list" where
  "items_or_none v = (if json_truthy v then json_items v else Inr [])"

definition choice :: "string list \<Rightarrow> json \<Rightarrow> bool" where
  "choice xs v \<longleftrightarrow> (case v of JStr t \<Rightarrow> t \<in> set xs | _ \<Rightarrow> False)"

definition reject_unknown :: "body \<Rightarrow> string list \<Rightarrow> error + unit" where
  "reject_unknown p allowed = try_require (set (map fst p) \<subseteq> set allowed) bad_content"

section \<open>Text\<close>

text \<open>
  \<open>_BAD_URL_RE\<close>: one of three schemes, any white space, a colon, upper and lower case alike. Under
  \<open>re.IGNORECASE\<close> an \<open>i\<close> also matches U+0130 and U+0131, an \<open>s\<close> also U+017F; \<open>\s\<close> is Unicode white space.
\<close>

definition SPACES :: "string list" where
  "SPACES = map (\<lambda>n. [char_of (n :: nat)]) ([9..<14] @ [28..<33])
     @ map (map (\<lambda>n. char_of (n :: nat))) ([[0xC2, 0x85], [0xC2, 0xA0], [0xE1, 0x9A, 0x80]]
         @ map (\<lambda>n. [0xE2, 0x80, n]) ([0x80..<0x8B] @ [0xA8, 0xA9, 0xAF])
         @ [[0xE2, 0x81, 0x9F], [0xE3, 0x80, 0x80]])"

definition letter_forms :: "char \<Rightarrow> string list" where
  "letter_forms c = [[c], [char_of (of_char c - 32 :: nat)]]
     @ (if c = CHR ''i'' then [[CHR 0xC4, CHR 0xB0], [CHR 0xC4, CHR 0xB1]]
        else if c = CHR ''s'' then [[CHR 0xC5, CHR 0xBF]] else [])"

definition eat :: "string list \<Rightarrow> string \<Rightarrow> string option" where
  "eat forms t = map_option (\<lambda>a. drop (length a) t) (List.find (\<lambda>a. prefixed a t) forms)"

fun eat_word :: "string list list \<Rightarrow> string \<Rightarrow> string option" where
  "eat_word [] t = Some t"
| "eat_word (l # ls) t = (case eat l t of None \<Rightarrow> None | Some r \<Rightarrow> eat_word ls r)"

function skip_spaces :: "string \<Rightarrow> string" where
  "skip_spaces t = (case eat SPACES t of None \<Rightarrow> t
     | Some r \<Rightarrow> if length r < length t then skip_spaces r else t)"
  by pat_completeness auto

termination
  by (relation "measure length") auto

declare skip_spaces.simps [simp del]

definition bad_url_here :: "string \<Rightarrow> bool" where
  "bad_url_here t \<longleftrightarrow> list_ex (\<lambda>w. case eat_word (map letter_forms w) t of None \<Rightarrow> False
     | Some r \<Rightarrow> prefixed '':'' (skip_spaces r)) [''javascript'', ''data'', ''vbscript'']"

definition bad_url :: "string \<Rightarrow> bool" where
  "bad_url t \<longleftrightarrow> list_ex (\<lambda>n. bad_url_here (drop n t)) [0..<length t]"

text \<open>\<open>_HTML_TAG_RE.sub("", text)\<close>: from a \<open><\<close> to the next \<open>></\<close>, when there is one.\<close>

function strip_tags :: "string \<Rightarrow> string" where
  "strip_tags [] = []"
| "strip_tags (c # cs) = (if c = CHR ''<'' \<and> CHR ''>'' \<in> set cs
     then strip_tags (drop 1 (dropWhile (\<lambda>d. d \<noteq> CHR ''>'') cs)) else c # strip_tags cs)"
  by pat_completeness auto

termination
  by (relation "measure length") (auto simp: less_Suc_eq_le intro: diff_le_self le_trans [OF _ length_dropWhile_le])

definition sanitize_markdown :: "string \<Rightarrow> error + string" where
  "sanitize_markdown t = (if bad_url t then Inl bad_content else Inr (strip_tags t))"

definition check_length :: "nat \<Rightarrow> json \<Rightarrow> error + json" where
  "check_length most v = (if v = JNull then Inr v
     else try_bind (json_len v) (\<lambda>n. if most < n then Inl bad_content else Inr v))"

definition check_title :: "json \<Rightarrow> error + json" where
  "check_title = check_length TITLE_MAX"

definition check_summary :: "json \<Rightarrow> error + json" where
  "check_summary = check_length SUMMARY_MAX"

definition check_description :: "json \<Rightarrow> error + json" where
  "check_description v = (case v of
     JNull \<Rightarrow> Inr JNull
   | JStr t \<Rightarrow> if DESC_MAX < length t then Inl bad_content
       else try_bind (sanitize_markdown t) (\<lambda>x. Inr (JStr x))
   | _ \<Rightarrow> Inl AttributeError)"

definition currency_re :: "string \<Rightarrow> bool" where
  "currency_re t \<longleftrightarrow> 3 \<le> length t \<and> length t \<le> 8 \<and> list_all (\<lambda>c. is_upper c \<or> is_digit c) t"

definition check_currency :: "json \<Rightarrow> json \<Rightarrow> error + unit" where
  "check_currency c d =
     try_bind (try_require (case c of JNull \<Rightarrow> True | JStr t \<Rightarrow> currency_re t | _ \<Rightarrow> False) bad_content) (\<lambda>_.
     try_require (case d of JNull \<Rightarrow> True | JInt n \<Rightarrow> 0 \<le> n \<and> n \<le> 18 | _ \<Rightarrow> False) bad_content)"

text \<open>\<open>D_TAG_RE.match\<close>; its second alternative is part of the first.\<close>

definition d_tag_re :: "string \<Rightarrow> bool" where
  "d_tag_re t \<longleftrightarrow> (let b = before_newline t in 8 \<le> length b \<and> length b \<le> 64
     \<and> list_all (\<lambda>c. is_digit c \<or> c = CHR ''-'' \<or> 97 \<le> (of_char c :: nat) \<and> (of_char c :: nat) \<le> 122) b)"

definition check_d_tag :: "json \<Rightarrow> error + string" where
  "check_d_tag v = (case v of JStr t \<Rightarrow> if d_tag_re t then Inr t else Inl bad_content | _ \<Rightarrow> Inl TypeError)"

section \<open>Product payloads\<close>

definition int64_value :: "json \<Rightarrow> bool" where
  "int64_value v \<longleftrightarrow> (case v of JNull \<Rightarrow> True | JInt i \<Rightarrow> 0 \<le> i \<and> i < 2 ^ 63 | _ \<Rightarrow> False)"

definition image_url :: "json \<Rightarrow> json" where
  "image_url img = (case img of JObj _ \<Rightarrow> json_member ''url'' img | _ \<Rightarrow> img)"

definition https :: "json \<Rightarrow> bool" where
  "https v \<longleftrightarrow> (case v of JStr t \<Rightarrow> prefixed ''https://'' t | _ \<Rightarrow> False)"

definition images_value :: "json \<Rightarrow> bool" where
  "images_value v \<longleftrightarrow> (case v of JNull \<Rightarrow> True
     | JArr xs \<Rightarrow> length xs \<le> IMAGES_MAX \<and> list_all (\<lambda>img. https (image_url img)) xs | _ \<Rightarrow> False)"

definition present_choice :: "body \<Rightarrow> string \<Rightarrow> string list \<Rightarrow> error + unit" where
  "present_choice p k xs = try_require (present p k \<longrightarrow> choice xs (arg p k)) bad_content"

definition check_if :: "bool \<Rightarrow> error + 'a \<Rightarrow> error + unit" where
  "check_if b r = (if b then try_bind r (\<lambda>_. Inr ()) else Inr ())"

definition reserved_value :: "bool \<Rightarrow> body \<Rightarrow> bool" where
  "reserved_value partial p \<longleftrightarrow>
     (present p ''stock_reserved'' \<longrightarrow> \<not> partial \<and> arg p ''stock_reserved'' = JInt 0)
     \<and> (case (arg p ''stock_on_hand'', arg p ''stock_reserved'') of (JInt h, JInt r) \<Rightarrow> r \<le> h | _ \<Rightarrow> True)"

definition validate_product :: "bool \<Rightarrow> body \<Rightarrow> error + unit" where
  "validate_product partial p =
     try_bind (check_if (\<not> partial \<or> present p ''title'') (check_title (arg p ''title''))) (\<lambda>_.
     try_bind (check_if (\<not> partial \<or> present p ''summary'') (check_summary (arg p ''summary''))) (\<lambda>_.
     try_bind (check_if (\<not> partial \<or> present p ''description_md'') (check_description (arg p ''description_md''))) (\<lambda>_.
     try_bind (check_if (\<not> partial \<or> present p ''currency'' \<or> present p ''currency_decimals'')
        (check_currency (arg p ''currency'') (arg p ''currency_decimals''))) (\<lambda>_.
     try_bind (present_choice p ''product_type'' PRODUCT_TYPES) (\<lambda>_.
     try_bind (present_choice p ''format'' FORMATS) (\<lambda>_.
     try_bind (present_choice p ''visibility'' VISIBILITIES) (\<lambda>_.
     try_bind (present_choice p ''nip99_status'' NIP99_STATUSES) (\<lambda>_.
     try_bind (try_require (arg p ''recurring_frequency'' \<noteq> JNull \<longrightarrow> choice FREQ_UNITS (arg p ''recurring_frequency''))
        bad_content) (\<lambda>_.
     try_bind (try_require (list_all (\<lambda>k. int64_value (arg p k)) [''amount_minor'', ''stock_on_hand'', ''stock_reserved''])
        bad_content) (\<lambda>_.
     try_bind (try_require (reserved_value partial p) bad_content) (\<lambda>_.
     try_require (images_value (arg p ''images'')) bad_content)))))))))))"

definition PRODUCT_FIELDS :: "string list" where
  "PRODUCT_FIELDS = [''title'', ''summary'', ''description_md'', ''amount_minor'', ''currency'', ''currency_decimals'',
     ''recurring_frequency'', ''visibility'', ''nip99_status'', ''draft'', ''stock_on_hand'', ''stock_reserved'',
     ''location'', ''geohash'', ''weight_value'', ''weight_unit'', ''dim_l'', ''dim_w'', ''dim_h'', ''dim_unit'',
     ''nip15_product_id'']"

definition PRODUCT_PAYLOAD_FIELDS :: "string list" where
  "PRODUCT_PAYLOAD_FIELDS = PRODUCT_FIELDS @ [''catalog_id'', ''d_tag'', ''product_type'', ''format'',
     ''parent_product_id'', ''stock_reserved'', ''images'', ''specs'', ''categories'', ''collection_ids'',
     ''shipping_option_ids'', ''shipping_collection_ids'', ''delivery_content'']"

definition product_field :: "body \<Rightarrow> string \<Rightarrow> error + json" where
  "product_field p f = (let v = arg p f in
     if f = ''description_md'' then check_description v
     else if f = ''title'' then check_title v
     else if f = ''summary'' then check_summary v
     else if f = ''draft'' then Inr (JBool (json_truthy v))
     else Inr v)"

definition add_field :: "(string \<Rightarrow> error + json) \<Rightarrow> body \<Rightarrow> string \<Rightarrow> error + body" where
  "add_field get acc f = try_bind (get f) (\<lambda>v. Inr (acc @ [(f, v)]))"

definition sanitize_product_fields :: "body \<Rightarrow> error + body" where
  "sanitize_product_fields p = try_fold (add_field (product_field p)) [] (filter (present p) PRODUCT_FIELDS)"

section \<open>Columns\<close>

definition text_col :: "json \<Rightarrow> error + string option" where
  "text_col v = (case v of JNull \<Rightarrow> Inr None | JStr t \<Rightarrow> Inr (Some t) | _ \<Rightarrow> Inl refused_value)"

definition int_col :: "json \<Rightarrow> error + int option" where
  "int_col v = (case v of JNull \<Rightarrow> Inr None | JBool b \<Rightarrow> Inr (Some (of_bool b))
     | JInt i \<Rightarrow> if - (2 ^ 63) \<le> i \<and> i < 2 ^ 63 then Inr (Some i) else Inl refused_value | _ \<Rightarrow> Inl refused_value)"

definition number_of :: "json \<Rightarrow> dec option" where
  "number_of v = (case v of JBool b \<Rightarrow> Some (Dec (of_bool b) 0) | JInt i \<Rightarrow> Some (Dec i 0) | JReal d \<Rightarrow> Some d | _ \<Rightarrow> None)"

definition real_col :: "json \<Rightarrow> error + dec option" where
  "real_col v = (if v = JNull then Inr None else case number_of v of Some d \<Rightarrow> Inr (Some d) | None \<Rightarrow> Inl refused_value)"

definition bool_col :: "json \<Rightarrow> error + bool option" where
  "bool_col v = (case v of JNull \<Rightarrow> Inr None | JBool b \<Rightarrow> Inr (Some b) | _ \<Rightarrow> Inl refused_value)"

text \<open>A \<open>NOT NULL\<close> column.\<close>

definition not_null :: "error + 'a option \<Rightarrow> error + 'a" where
  "not_null r = try_bind r (\<lambda>v. case v of None \<Rightarrow> Inl IntegrityError | Some x \<Rightarrow> Inr x)"

definition set_with :: "error + 'a \<Rightarrow> ('a \<Rightarrow> 'r \<Rightarrow> 'r) \<Rightarrow> error + ('r \<Rightarrow> 'r)" where
  "set_with r g = try_bind r (\<lambda>x. Inr (g x))"

definition product_texts :: "(string \<times> (string option \<Rightarrow> product \<Rightarrow> product)) list" where
  "product_texts = [
     (''title'', \<lambda>x p. p\<lparr>p_title := x\<rparr>), (''summary'', \<lambda>x p. p\<lparr>p_summary := x\<rparr>),
     (''description_md'', \<lambda>x p. p\<lparr>p_description_md := x\<rparr>), (''currency'', \<lambda>x p. p\<lparr>p_currency := x\<rparr>),
     (''recurring_frequency'', \<lambda>x p. p\<lparr>p_recurring_frequency := x\<rparr>), (''location'', \<lambda>x p. p\<lparr>p_location := x\<rparr>),
     (''geohash'', \<lambda>x p. p\<lparr>p_geohash := x\<rparr>), (''weight_unit'', \<lambda>x p. p\<lparr>p_weight_unit := x\<rparr>),
     (''dim_unit'', \<lambda>x p. p\<lparr>p_dim_unit := x\<rparr>), (''nip15_product_id'', \<lambda>x p. p\<lparr>p_nip15_product_id := x\<rparr>),
     (''parent_product_id'', \<lambda>x p. p\<lparr>p_parent_product_id := x\<rparr>)]"

definition product_ints :: "(string \<times> (int option \<Rightarrow> product \<Rightarrow> product)) list" where
  "product_ints = [(''amount_minor'', \<lambda>x p. p\<lparr>p_amount_minor := x\<rparr>),
     (''currency_decimals'', \<lambda>x p. p\<lparr>p_currency_decimals := x\<rparr>), (''stock_on_hand'', \<lambda>x p. p\<lparr>p_stock_on_hand := x\<rparr>)]"

definition product_reals :: "(string \<times> (dec option \<Rightarrow> product \<Rightarrow> product)) list" where
  "product_reals = [(''weight_value'', \<lambda>x p. p\<lparr>p_weight_value := x\<rparr>), (''dim_l'', \<lambda>x p. p\<lparr>p_dim_l := x\<rparr>),
     (''dim_w'', \<lambda>x p. p\<lparr>p_dim_w := x\<rparr>), (''dim_h'', \<lambda>x p. p\<lparr>p_dim_h := x\<rparr>)]"

definition product_column :: "string \<Rightarrow> json \<Rightarrow> error + (product \<Rightarrow> product)" where
  "product_column f v =
     (case map_of product_texts f of Some g \<Rightarrow> set_with (text_col v) g
      | None \<Rightarrow> case map_of product_ints f of Some g \<Rightarrow> set_with (int_col v) g
      | None \<Rightarrow> case map_of product_reals f of Some g \<Rightarrow> set_with (real_col v) g
      | None \<Rightarrow>
          if f = ''visibility'' then set_with (not_null (text_col v)) (\<lambda>x p. p\<lparr>p_visibility := x\<rparr>)
          else if f = ''nip99_status'' then set_with (not_null (text_col v)) (\<lambda>x p. p\<lparr>p_nip99_status := x\<rparr>)
          else if f = ''product_type'' then set_with (not_null (text_col v)) (\<lambda>x p. p\<lparr>p_product_type := x\<rparr>)
          else if f = ''draft'' then set_with (not_null (bool_col v)) (\<lambda>x p. p\<lparr>p_draft := x\<rparr>)
          else if f = ''stock_reserved'' then set_with (not_null (int_col v)) (\<lambda>x p. p\<lparr>p_stock_reserved := x\<rparr>)
          else Inl refused_value)"

section \<open>Shipping payloads\<close>

definition measure_value :: "json \<Rightarrow> bool" where
  "measure_value v \<longleftrightarrow> (case v of JNull \<Rightarrow> True | JInt i \<Rightarrow> 0 \<le> i | JReal d \<Rightarrow> 0 \<le> dec_coeff d | _ \<Rightarrow> False)"

text \<open>\<open>lo > hi\<close>; two arrays, which no column takes, are refused here.\<close>

definition json_greater :: "json \<Rightarrow> json \<Rightarrow> error + bool" where
  "json_greater a b = (case (number_of a, number_of b) of
     (Some x, Some y) \<Rightarrow> Inr (dec_less y x)
   | _ \<Rightarrow> (case (a, b) of (JStr s, JStr t) \<Rightarrow> Inr (t < s) | _ \<Rightarrow> Inl TypeError))"

definition check_range :: "body \<Rightarrow> string \<times> string \<Rightarrow> error + unit" where
  "check_range p r = (case r of (lower, upper) \<Rightarrow>
     try_bind (try_require (measure_value (arg p lower) \<and> measure_value (arg p upper)) bad_content) (\<lambda>_.
     if arg p lower = JNull \<or> arg p upper = JNull then Inr ()
     else try_bind (json_greater (arg p lower) (arg p upper)) (\<lambda>g. try_require (\<not> g) bad_content)))"

definition country_item :: "json \<Rightarrow> bool" where
  "country_item v \<longleftrightarrow> (case v of JStr t \<Rightarrow> country_re (before_newline t) | _ \<Rightarrow> False)"

definition region_item :: "json \<Rightarrow> bool" where
  "region_item v \<longleftrightarrow> (case v of JStr t \<Rightarrow> region_re (before_newline t) | _ \<Rightarrow> False)"

definition RANGES :: "(string \<times> string) list" where
  "RANGES = [(''weight_min'', ''weight_max''), (''dim_min_l'', ''dim_max_l''), (''dim_min_w'', ''dim_max_w''),
     (''dim_min_h'', ''dim_max_h'')]"

definition check_duration :: "body \<Rightarrow> error + unit" where
  "check_duration p =
     (if arg p ''duration_min'' = JNull \<or> arg p ''duration_max'' = JNull then Inr ()
      else try_bind (json_greater (arg p ''duration_min'') (arg p ''duration_max'')) (\<lambda>g. try_require (\<not> g) bad_content))"

definition validate_shipping :: "bool \<Rightarrow> body \<Rightarrow> error + unit" where
  "validate_shipping partial p =
     try_bind (try_require (list_all (\<lambda>kv. \<not> prefixed ''price_distance'' (fst kv) \<and> fst kv \<noteq> ''price-distance'') p)
        bad_content) (\<lambda>_.
     try_bind (check_if (present p ''title'' \<or> \<not> partial) (check_title (arg p ''title''))) (\<lambda>_.
     try_bind (check_if (present p ''description'') (check_description (arg p ''description''))) (\<lambda>_.
     try_bind (present_choice p ''service'' SERVICES) (\<lambda>_.
     try_bind (check_currency (arg p ''currency'') (arg p ''currency_decimals'')) (\<lambda>_.
     try_bind (try_require (list_all (\<lambda>k. int64_value (arg p k))
        [''base_price_minor'', ''price_weight_minor'', ''price_volume_minor'']) bad_content) (\<lambda>_.
     try_bind (try_fold (\<lambda>_. check_range p) () RANGES) (\<lambda>_.
     try_bind (try_require (case arg p ''countries'' of JNull \<Rightarrow> True
        | JArr xs \<Rightarrow> xs \<noteq> [] \<and> list_all country_item xs | _ \<Rightarrow> False) bad_content) (\<lambda>_.
     try_bind (if arg p ''regions'' = JNull then Inr [] else json_items (arg p ''regions'')) (\<lambda>regions.
     try_bind (try_require (list_all region_item regions) bad_content) (\<lambda>_.
     try_bind (try_require (arg p ''duration_unit'' \<noteq> JNull \<longrightarrow> choice DURATION_UNITS (arg p ''duration_unit''))
        bad_content) (\<lambda>_.
     check_duration p)))))))))))"

definition pickup_placed :: "body \<Rightarrow> bool" where
  "pickup_placed p \<longleftrightarrow> (arg p ''service'' = JStr ''pickup'' \<longrightarrow>
     json_truthy (arg p ''location'') \<or> json_truthy (arg p ''geohash''))"

definition SHIPPING_FIELDS :: "string list" where
  "SHIPPING_FIELDS = [''title'', ''description'', ''base_price_minor'', ''currency'', ''currency_decimals'', ''service'',
     ''countries'', ''regions'', ''carrier'', ''duration_min'', ''duration_max'', ''duration_unit'',
     ''weight_min'', ''weight_max'', ''weight_unit'', ''dim_min_l'', ''dim_min_w'', ''dim_min_h'',
     ''dim_max_l'', ''dim_max_w'', ''dim_max_h'', ''dim_unit'', ''price_weight_minor'', ''price_weight_unit'',
     ''price_volume_minor'', ''price_volume_unit'', ''location'', ''geohash'', ''active'']"

definition shipping_texts :: "(string \<times> (string option \<Rightarrow> shipping_option \<Rightarrow> shipping_option)) list" where
  "shipping_texts = [
     (''title'', \<lambda>x r. r\<lparr>so_title := x\<rparr>), (''description'', \<lambda>x r. r\<lparr>so_description := x\<rparr>),
     (''currency'', \<lambda>x r. r\<lparr>so_currency := x\<rparr>), (''carrier'', \<lambda>x r. r\<lparr>so_carrier := x\<rparr>),
     (''duration_unit'', \<lambda>x r. r\<lparr>so_duration_unit := x\<rparr>), (''weight_unit'', \<lambda>x r. r\<lparr>so_weight_unit := x\<rparr>),
     (''dim_unit'', \<lambda>x r. r\<lparr>so_dim_unit := x\<rparr>), (''price_weight_unit'', \<lambda>x r. r\<lparr>so_price_weight_unit := x\<rparr>),
     (''price_volume_unit'', \<lambda>x r. r\<lparr>so_price_volume_unit := x\<rparr>), (''location'', \<lambda>x r. r\<lparr>so_location := x\<rparr>),
     (''geohash'', \<lambda>x r. r\<lparr>so_geohash := x\<rparr>)]"

definition shipping_ints :: "(string \<times> (int option \<Rightarrow> shipping_option \<Rightarrow> shipping_option)) list" where
  "shipping_ints = [(''base_price_minor'', \<lambda>x r. r\<lparr>so_base_price_minor := x\<rparr>),
     (''duration_min'', \<lambda>x r. r\<lparr>so_duration_min := x\<rparr>), (''duration_max'', \<lambda>x r. r\<lparr>so_duration_max := x\<rparr>),
     (''price_weight_minor'', \<lambda>x r. r\<lparr>so_price_weight_minor := x\<rparr>),
     (''price_volume_minor'', \<lambda>x r. r\<lparr>so_price_volume_minor := x\<rparr>)]"

definition set_dim :: "nat \<Rightarrow> dec option \<Rightarrow> dec option \<times> dec option \<times> dec option \<Rightarrow> dec option \<times> dec option \<times> dec option" where
  "set_dim n x d = (case d of (l, w, h) \<Rightarrow> if n = 0 then (x, w, h) else if n = 1 then (l, x, h) else (l, w, x))"

definition shipping_reals :: "(string \<times> (dec option \<Rightarrow> shipping_option \<Rightarrow> shipping_option)) list" where
  "shipping_reals = [(''weight_min'', \<lambda>x r. r\<lparr>so_weight_min := x\<rparr>), (''weight_max'', \<lambda>x r. r\<lparr>so_weight_max := x\<rparr>),
     (''dim_min_l'', \<lambda>x r. r\<lparr>so_dim_min := set_dim 0 x (so_dim_min r)\<rparr>),
     (''dim_min_w'', \<lambda>x r. r\<lparr>so_dim_min := set_dim 1 x (so_dim_min r)\<rparr>),
     (''dim_min_h'', \<lambda>x r. r\<lparr>so_dim_min := set_dim 2 x (so_dim_min r)\<rparr>),
     (''dim_max_l'', \<lambda>x r. r\<lparr>so_dim_max := set_dim 0 x (so_dim_max r)\<rparr>),
     (''dim_max_w'', \<lambda>x r. r\<lparr>so_dim_max := set_dim 1 x (so_dim_max r)\<rparr>),
     (''dim_max_h'', \<lambda>x r. r\<lparr>so_dim_max := set_dim 2 x (so_dim_max r)\<rparr>)]"

text \<open>The countries and regions of an option are a JSON text; only their strings are looked at.\<close>

definition strings_col :: "json \<Rightarrow> error + string list" where
  "strings_col v = (if v = JNull then Inr [] else try_bind (json_items v) (\<lambda>xs.
     Inr (concat (map (\<lambda>x. case x of JStr t \<Rightarrow> [t] | _ \<Rightarrow> []) xs))))"

definition shipping_column :: "string \<Rightarrow> json \<Rightarrow> error + (shipping_option \<Rightarrow> shipping_option)" where
  "shipping_column f v =
     (case map_of shipping_texts f of Some g \<Rightarrow> set_with (text_col v) g
      | None \<Rightarrow> case map_of shipping_ints f of Some g \<Rightarrow> set_with (int_col v) g
      | None \<Rightarrow> case map_of shipping_reals f of Some g \<Rightarrow> set_with (real_col v) g
      | None \<Rightarrow>
          if f = ''countries'' then set_with (strings_col v) (\<lambda>x r. r\<lparr>so_countries := x\<rparr>)
          else if f = ''regions'' then set_with (strings_col v) (\<lambda>x r. r\<lparr>so_regions := x\<rparr>)
          else if f = ''service'' then set_with (not_null (text_col v)) (\<lambda>x r. r\<lparr>so_service := x\<rparr>)
          else if f = ''currency_decimals'' then set_with (not_null (int_col v)) (\<lambda>x r. r\<lparr>so_currency_decimals := x\<rparr>)
          else if f = ''active'' then set_with (not_null (bool_col v)) (\<lambda>x r. r\<lparr>so_active := x\<rparr>)
          else Inl refused_value)"

text \<open>A stored row as the members a patch is merged into.\<close>

definition or_null :: "('a \<Rightarrow> json) \<Rightarrow> 'a option \<Rightarrow> json" where
  "or_null f v = (case v of None \<Rightarrow> JNull | Some x \<Rightarrow> f x)"

definition strings_json :: "string list \<Rightarrow> json" where
  "strings_json xs = (if xs = [] then JNull else JArr (map JStr xs))"

definition shipping_members :: "shipping_option \<Rightarrow> body" where
  "shipping_members r = (case (so_dim_min r, so_dim_max r) of ((l, w, h), (l', w', h')) \<Rightarrow>
     [(''title'', or_null JStr (so_title r)), (''description'', or_null JStr (so_description r)),
      (''base_price_minor'', or_null JInt (so_base_price_minor r)), (''currency'', or_null JStr (so_currency r)),
      (''currency_decimals'', JInt (so_currency_decimals r)), (''service'', JStr (so_service r)),
      (''countries'', strings_json (so_countries r)), (''regions'', strings_json (so_regions r)),
      (''carrier'', or_null JStr (so_carrier r)), (''duration_min'', or_null JInt (so_duration_min r)),
      (''duration_max'', or_null JInt (so_duration_max r)), (''duration_unit'', or_null JStr (so_duration_unit r)),
      (''weight_min'', or_null JReal (so_weight_min r)), (''weight_max'', or_null JReal (so_weight_max r)),
      (''weight_unit'', or_null JStr (so_weight_unit r)),
      (''dim_min_l'', or_null JReal l), (''dim_min_w'', or_null JReal w), (''dim_min_h'', or_null JReal h),
      (''dim_max_l'', or_null JReal l'), (''dim_max_w'', or_null JReal w'), (''dim_max_h'', or_null JReal h'),
      (''dim_unit'', or_null JStr (so_dim_unit r)),
      (''price_weight_minor'', or_null JInt (so_price_weight_minor r)),
      (''price_weight_unit'', or_null JStr (so_price_weight_unit r)),
      (''price_volume_minor'', or_null JInt (so_price_volume_minor r)),
      (''price_volume_unit'', or_null JStr (so_price_volume_unit r)),
      (''location'', or_null JStr (so_location r)), (''geohash'', or_null JStr (so_geohash r)),
      (''active'', JBool (so_active r))])"

end
