(* ===== verification/Catalog.thy ===== *)
theory Catalog
  imports CatalogInput OrderAdmin
begin

text \<open>
  The catalog of a merchant (\<open>services/catalog.py\<close>): catalogs, products with their detail rows,
  collections and shipping options; every handler with its checks, its transaction, the revisions
  it raises, and the publication intents it queues in the order their dependencies need. The
  outbox helpers of the same file are in \<open>CatalogOutbox\<close>, the payload checks in \<open>CatalogInput\<close>.
\<close>

section \<open>Scoped reads\<close>

definition duplicate_resource :: error where "duplicate_resource = ProblemError 409 ''duplicate-resource''"
definition referenced :: error where "referenced = ProblemError 409 ''invalid-transition''"

definition fetch_scoped :: "(db \<Rightarrow> 'r list) \<Rightarrow> ('r \<Rightarrow> bool) \<Rightarrow> (db, 'r) proc" where
  "fetch_scoped get P = pr_bind (pr_get (\<lambda>s. List.find P (get s)))
     (\<lambda>row. case row of None \<Rightarrow> pr_raise not_found | Some r \<Rightarrow> pr_return r)"

definition fetch_live :: "(db \<Rightarrow> 'r list) \<Rightarrow> ('r \<Rightarrow> bool) \<Rightarrow> ('r \<Rightarrow> int option) \<Rightarrow> (db, 'r) proc" where
  "fetch_live get P deleted = pr_bind (fetch_scoped get P)
     (\<lambda>r. if deleted r \<noteq> None then pr_raise not_found else pr_return r)"

definition live_catalog :: "id \<Rightarrow> id \<Rightarrow> (db, catalog) proc" where
  "live_catalog m i = fetch_live db_catalogs (\<lambda>c. cat_id c = i \<and> cat_merchant_id c = m) cat_deleted_at"

definition live_product :: "id \<Rightarrow> id \<Rightarrow> (db, product) proc" where
  "live_product m i = fetch_live db_products (\<lambda>p. p_id p = i \<and> p_merchant_id p = m) p_deleted_at"

definition live_collection :: "id \<Rightarrow> id \<Rightarrow> (db, collection) proc" where
  "live_collection m i = fetch_live db_collections (\<lambda>c. c_id c = i \<and> c_merchant_id c = m) c_deleted_at"

definition live_option :: "id \<Rightarrow> id \<Rightarrow> (db, shipping_option) proc" where
  "live_option m i = fetch_live db_shipping_options (\<lambda>r. so_id r = i \<and> so_merchant_id r = m) so_deleted_at"

definition check_free :: "(db \<Rightarrow> 'r list) \<Rightarrow> ('r \<Rightarrow> bool) \<Rightarrow> (db, unit) tx" where
  "check_free get P = tx_bind (sql_one get P) (\<lambda>row. tx_assert (row = None) duplicate_resource)"

definition given_or_new :: "env \<Rightarrow> json \<Rightarrow> (db, json) proc" where
  "given_or_new E v = (if json_truthy v then pr_return v
     else pr_bind (commit (new_uuid E)) (\<lambda>u. pr_return (JStr u)))"

text \<open>One \<open>UPDATE\<close> per member of a patch, in its order.\<close>

definition write_columns :: "(string \<Rightarrow> json \<Rightarrow> error + ('r \<Rightarrow> 'r)) \<Rightarrow> (('r \<Rightarrow> 'r) \<Rightarrow> (db, unit) tx) \<Rightarrow> body \<Rightarrow> (db, unit) tx" where
  "write_columns column write cols = tx_for cols (\<lambda>(f, v). tx_bind (tx_lift (column f v)) write)"

definition fill_columns :: "(string \<Rightarrow> json \<Rightarrow> error + ('r \<Rightarrow> 'r)) \<Rightarrow> body \<Rightarrow> 'r \<Rightarrow> error + 'r" where
  "fill_columns column cols row = try_fold (\<lambda>r (f, v). try_bind (column f v) (\<lambda>g. Inr (g r))) row cols"

section \<open>Catalogs\<close>

definition CATALOG_FIELDS :: "string list" where
  "CATALOG_FIELDS = [''name'', ''description'', ''default_currency'', ''default_location'', ''nip15_stall_d'',
     ''publish_gamma'', ''publish_nip15'']"

definition check_default_currency :: "json \<Rightarrow> error + json" where
  "check_default_currency v = (case v of JNull \<Rightarrow> Inr v
     | JStr t \<Rightarrow> if currency_re (before_newline t) then Inr v else Inl bad_content | _ \<Rightarrow> Inl TypeError)"

definition flag :: "body \<Rightarrow> string \<Rightarrow> bool \<Rightarrow> json" where
  "flag p k dflt = JBool (if present p k then json_truthy (arg p k) else dflt)"

definition catalog_columns :: "string \<Rightarrow> json \<Rightarrow> error + (catalog \<Rightarrow> catalog)" where
  "catalog_columns f v =
     (if f = ''name'' then set_with (text_col v) (\<lambda>x r. r\<lparr>cat_name := x\<rparr>)
      else if f = ''description'' then set_with (text_col v) (\<lambda>x r. r\<lparr>cat_description := x\<rparr>)
      else if f = ''default_currency'' then set_with (text_col v) (\<lambda>x r. r\<lparr>cat_default_currency := x\<rparr>)
      else if f = ''default_location'' then set_with (text_col v) (\<lambda>x r. r\<lparr>cat_default_location := x\<rparr>)
      else if f = ''nip15_stall_d'' then set_with (text_col v) (\<lambda>x r. r\<lparr>cat_nip15_stall_d := x\<rparr>)
      else if f = ''publish_gamma'' then set_with (not_null (bool_col v)) (\<lambda>x r. r\<lparr>cat_publish_gamma := x\<rparr>)
      else if f = ''publish_nip15'' then set_with (not_null (bool_col v)) (\<lambda>x r. r\<lparr>cat_publish_nip15 := x\<rparr>)
      else Inl refused_value)"

definition blank_catalog :: "id \<Rightarrow> id \<Rightarrow> int \<Rightarrow> catalog" where
  "blank_catalog i m now = \<lparr>cat_id = i, cat_merchant_id = m, cat_name = None, cat_description = None,
     cat_default_currency = None, cat_default_location = None, cat_nip15_stall_d = None, cat_publish_gamma = True,
     cat_publish_nip15 = False, cat_deleted_at = None, cat_created_at = now, cat_updated_at = now\<rparr>"

definition get_catalog :: "id \<Rightarrow> id \<Rightarrow> id \<Rightarrow> (db, catalog) proc" where
  "get_catalog m user i = pr_bind (get_merchant_row m user) (\<lambda>_. live_catalog m i)"

definition list_live :: "(db \<Rightarrow> 'r list) \<Rightarrow> ('r \<Rightarrow> bool) \<Rightarrow> ('r \<Rightarrow> int \<times> id) \<Rightarrow> id \<Rightarrow> id \<Rightarrow> (db, 'r list) proc" where
  "list_live get P order m user = pr_bind (get_merchant_row m user) (\<lambda>_.
     pr_get (\<lambda>s. sort_key order (filter P (get s))))"

definition list_catalogs :: "id \<Rightarrow> id \<Rightarrow> (db, catalog list) proc" where
  "list_catalogs m user = list_live db_catalogs (\<lambda>c. cat_merchant_id c = m \<and> cat_deleted_at c = None)
     (\<lambda>c. (cat_created_at c, cat_id c)) m user"

definition create_catalog :: "env \<Rightarrow> id \<Rightarrow> id \<Rightarrow> body \<Rightarrow> (db, catalog) proc" where
  "create_catalog E m user p =
     pr_bind (get_merchant_row m user) (\<lambda>_.
     pr_bind (pr_lift (reject_unknown p CATALOG_FIELDS)) (\<lambda>_.
     pr_bind (pr_lift (check_title (arg p ''name''))) (\<lambda>name.
     pr_bind (pr_lift (check_description (arg p ''description''))) (\<lambda>description.
     pr_bind (pr_lift (check_default_currency (arg p ''default_currency''))) (\<lambda>currency.
     pr_bind (commit (new_uuid E)) (\<lambda>i.
     pr_bind (given_or_new E (arg p ''nip15_stall_d'')) (\<lambda>stall_d.
     pr_bind (pr_get db_clock) (\<lambda>now.
     pr_bind (commit (tx_bind (tx_lift (fill_columns catalog_columns
         [(''name'', name), (''description'', description), (''default_currency'', currency),
          (''default_location'', arg p ''default_location''), (''nip15_stall_d'', stall_d),
          (''publish_gamma'', flag p ''publish_gamma'' True), (''publish_nip15'', flag p ''publish_nip15'' False)]
         (blank_catalog i m now))) (sql_insert db_catalogs_update catalogs_ok))) (\<lambda>_.
     get_catalog m user i)))))))))"

definition catalog_field :: "body \<Rightarrow> string \<Rightarrow> error + json" where
  "catalog_field p f =
     (if f = ''name'' then check_title (arg p f)
      else if f = ''description'' then check_description (arg p f)
      else if f = ''default_currency'' then check_default_currency (arg p f)
      else if f = ''default_location'' then Inr (arg p f)
      else Inr (JBool (json_truthy (arg p f))))"

definition catalog_updates :: "body \<Rightarrow> error + body" where
  "catalog_updates p = try_fold (add_field (catalog_field p)) [] (filter (present p)
     [''name'', ''description'', ''default_currency'', ''default_location'', ''publish_gamma'', ''publish_nip15''])"

definition update_catalog :: "id \<Rightarrow> (catalog \<Rightarrow> catalog) \<Rightarrow> (db, unit) tx" where
  "update_catalog i f = tx_bind tx_now (\<lambda>now. tx_ignore (sql_update db_catalogs db_catalogs_update catalogs_ok
     (\<lambda>c. cat_id c = i) (\<lambda>c. (f c)\<lparr>cat_updated_at := now\<rparr>)))"

definition patch_catalog_tx :: "env \<Rightarrow> merchant \<Rightarrow> id \<Rightarrow> body \<Rightarrow> (db, unit) tx" where
  "patch_catalog_tx E mrow i updates =
     tx_seq (write_columns catalog_columns (update_catalog i) updates)
       (tx_when (updates \<noteq> []) (enqueue_stall_if_enabled E (m_id mrow) i (m_pubkey mrow)))"

definition patch_catalog :: "env \<Rightarrow> id \<Rightarrow> id \<Rightarrow> id \<Rightarrow> body \<Rightarrow> (db, catalog) proc" where
  "patch_catalog E m user i p =
     pr_bind (get_merchant_row m user) (\<lambda>mrow.
     pr_bind (live_catalog m i) (\<lambda>_.
     pr_bind (pr_lift (reject_unknown p [''name'', ''description'', ''default_currency'', ''default_location'',
         ''publish_gamma'', ''publish_nip15''])) (\<lambda>_.
     pr_bind (pr_lift (catalog_updates p)) (\<lambda>updates.
     pr_bind (commit (patch_catalog_tx E mrow i updates)) (\<lambda>_.
     get_catalog m user i)))))"

definition delete_catalog_tx :: "id \<Rightarrow> (db, unit) tx" where
  "delete_catalog_tx i = tx_bind tx_now (\<lambda>now. update_catalog i (\<lambda>c. c\<lparr>cat_deleted_at := Some now\<rparr>))"

definition delete_catalog :: "id \<Rightarrow> id \<Rightarrow> id \<Rightarrow> (db, id) proc" where
  "delete_catalog m user i =
     pr_bind (get_merchant_row m user) (\<lambda>_.
     pr_bind (live_catalog m i) (\<lambda>_.
     pr_bind (commit (delete_catalog_tx i)) (\<lambda>_. pr_return i)))"

section \<open>Products: detail rows\<close>

definition images_ok :: "db \<Rightarrow> bool" where
  "images_ok s \<longleftrightarrow> distinct (map pi_id (db_images s))
     \<and> list_all (\<lambda>r. \<exists>p \<in> set (db_products s). p_id p = pi_product_id r) (db_images s)"

definition specs_ok :: "db \<Rightarrow> bool" where
  "specs_ok s \<longleftrightarrow> distinct (map ps_id (db_specs s))
     \<and> list_all (\<lambda>r. \<exists>p \<in> set (db_products s). p_id p = ps_product_id r) (db_specs s)"

definition categories_ok :: "db \<Rightarrow> bool" where
  "categories_ok s \<longleftrightarrow> distinct (map pg_id (db_categories s))
     \<and> list_all (\<lambda>r. \<exists>p \<in> set (db_products s). p_id p = pg_product_id r) (db_categories s)"

definition subscript :: "string \<Rightarrow> json \<Rightarrow> error + json" where
  "subscript k v = (case v of JObj kvs \<Rightarrow> (case map_of kvs k of None \<Rightarrow> Inl KeyError | Some x \<Rightarrow> Inr x)
     | _ \<Rightarrow> Inl TypeError)"

definition image_row :: "id \<Rightarrow> nat \<times> json \<Rightarrow> id \<Rightarrow> error + product_image" where
  "image_row i entry u = (case entry of (n, img) \<Rightarrow>
     try_bind (not_null (text_col (image_url img))) (\<lambda>url.
     try_bind (text_col (json_member ''dimensions'' img)) (\<lambda>dims.
     try_bind (not_null (int_col (case json_field ''sort_order'' img of None \<Rightarrow> JInt (int n) | Some v \<Rightarrow> v))) (\<lambda>sort.
     Inr \<lparr>pi_id = u, pi_product_id = i, pi_url = url, pi_dimensions = dims, pi_sort_order = sort\<rparr>))))"

definition insert_image :: "env \<Rightarrow> id \<Rightarrow> nat \<times> json \<Rightarrow> (db, unit) tx" where
  "insert_image E i entry = tx_bind (new_uuid E) (\<lambda>u.
     tx_bind (tx_lift (image_row i entry u)) (sql_insert db_images_update images_ok))"

definition replace_images :: "env \<Rightarrow> id \<Rightarrow> json \<Rightarrow> (db, unit) tx" where
  "replace_images E i v =
     tx_seq (tx_ignore (sql_delete db_images db_images_update (\<lambda>r. pi_product_id r = i)))
    (tx_bind (tx_lift (items_or_none v)) (\<lambda>imgs. tx_for (zip [0..<length imgs] imgs) (insert_image E i)))"

definition insert_spec :: "env \<Rightarrow> id \<Rightarrow> json \<Rightarrow> (db, unit) tx" where
  "insert_spec E i spec = tx_bind (new_uuid E) (\<lambda>u.
     tx_bind (tx_lift (subscript ''key'' spec)) (\<lambda>k.
     tx_bind (tx_lift (subscript ''value'' spec)) (\<lambda>v.
     tx_bind (tx_lift (not_null (text_col k))) (\<lambda>key.
     tx_bind (tx_lift (not_null (text_col v))) (\<lambda>val.
     sql_insert db_specs_update specs_ok \<lparr>ps_id = u, ps_product_id = i, ps_key = key, ps_value = val\<rparr>)))))"

definition replace_specs :: "env \<Rightarrow> id \<Rightarrow> json \<Rightarrow> (db, unit) tx" where
  "replace_specs E i v =
     tx_seq (tx_ignore (sql_delete db_specs db_specs_update (\<lambda>r. ps_product_id r = i)))
    (tx_bind (tx_lift (items_or_none v)) (\<lambda>specs. tx_for specs (insert_spec E i)))"

definition insert_category :: "env \<Rightarrow> id \<Rightarrow> json \<Rightarrow> (db, unit) tx" where
  "insert_category E i cat = tx_bind (new_uuid E) (\<lambda>u.
     tx_bind (tx_lift (not_null (text_col cat))) (\<lambda>c.
     sql_insert db_categories_update categories_ok \<lparr>pg_id = u, pg_product_id = i, pg_category = c\<rparr>))"

definition replace_categories :: "env \<Rightarrow> id \<Rightarrow> json \<Rightarrow> (db, unit) tx" where
  "replace_categories E i v =
     tx_seq (tx_ignore (sql_delete db_categories db_categories_update (\<lambda>r. pg_product_id r = i)))
    (tx_bind (tx_lift (items_or_none v)) (\<lambda>cats. tx_for cats (insert_category E i)))"

text \<open>Membership: the keys of a dictionary are hashable, a draft joins nothing, the collections are the merchant's own.\<close>

definition hashable :: "json \<Rightarrow> bool" where
  "hashable v \<longleftrightarrow> (case v of JArr _ \<Rightarrow> False | JObj _ \<Rightarrow> False | _ \<Rightarrow> True)"

definition wanted_ids :: "json \<Rightarrow> error + json list" where
  "wanted_ids v = try_bind (items_or_none v) (\<lambda>xs.
     if list_all hashable xs then Inr (dedup xs) else Inl TypeError)"

definition own_collection :: "id \<Rightarrow> json \<Rightarrow> (db, id) tx" where
  "own_collection m cid =
     tx_bind (tx_lift (text_col cid)) (\<lambda>c.
     tx_bind (sql_one db_collections (\<lambda>r. Some (c_id r) = c \<and> c_merchant_id r = m)) (\<lambda>row.
     case row of
       None \<Rightarrow> tx_raise bad_content
     | Some r \<Rightarrow> tx_seq (tx_assert (c_deleted_at r = None) bad_content) (tx_return (c_id r))))"

definition join_collection :: "env \<Rightarrow> id \<Rightarrow> id \<Rightarrow> (db, unit) tx" where
  "join_collection E i c = tx_bind (new_uuid E) (\<lambda>u.
     sql_insert db_product_collections_update product_collections_ok
       \<lparr>pc_id = u, pc_product_id = i, pc_collection_id = c\<rparr>)"

definition leave_collections :: "id \<Rightarrow> (db, unit) tx" where
  "leave_collections i = tx_ignore (sql_delete db_product_collections db_product_collections_update
     (\<lambda>r. pc_product_id r = i))"

definition replace_memberships :: "env \<Rightarrow> id \<Rightarrow> id \<Rightarrow> json \<Rightarrow> (db, unit) tx" where
  "replace_memberships E m i v =
     tx_bind (sql_one db_products (\<lambda>p. p_id p = i)) (\<lambda>prod.
     tx_bind (tx_lift (wanted_ids v)) (\<lambda>wanted.
     tx_seq (tx_assert (wanted = [] \<or> (case prod of None \<Rightarrow> True | Some p \<Rightarrow> \<not> p_draft p)) bad_content)
    (tx_bind (tx_fold (\<lambda>acc cid. tx_bind (own_collection m cid) (\<lambda>c. tx_return (acc @ [c]))) [] wanted) (\<lambda>cids.
     tx_seq (leave_collections i) (tx_for cids (join_collection E i))))))"

text \<open>Shipping references: an id, or an object with an id and a surcharge. Whose they are is not asked.\<close>

definition ref_entry :: "json \<Rightarrow> error + json \<times> json" where
  "ref_entry entry = (case entry of
     JObj _ \<Rightarrow> try_bind (subscript ''id'' entry) (\<lambda>r. Inr (r, json_member ''extra_cost_minor'' entry))
   | _ \<Rightarrow> Inr (entry, JNull))"

definition ref_row :: "id \<Rightarrow> json \<Rightarrow> id \<Rightarrow> error + product_shipping_ref" where
  "ref_row i entry u =
     try_bind (ref_entry entry) (\<lambda>(r, extra).
     try_bind (not_null (text_col r)) (\<lambda>ref.
     try_bind (int_col extra) (\<lambda>cost.
     Inr \<lparr>psr_id = u, psr_product_id = i, psr_ref_id = ref, psr_extra_cost_minor = cost\<rparr>)))"

definition replace_refs :: "env \<Rightarrow> id \<Rightarrow> (db \<Rightarrow> product_shipping_ref list) \<Rightarrow>
    ((product_shipping_ref list \<Rightarrow> product_shipping_ref list) \<Rightarrow> db \<Rightarrow> db) \<Rightarrow> (db \<Rightarrow> bool) \<Rightarrow> json \<Rightarrow> (db, unit) tx" where
  "replace_refs E i get upd ok v =
     tx_seq (tx_ignore (sql_delete get upd (\<lambda>r. psr_product_id r = i)))
    (tx_bind (tx_lift (items_or_none v)) (\<lambda>entries. tx_for entries (\<lambda>entry.
       tx_bind (new_uuid E) (\<lambda>u. tx_bind (tx_lift (ref_row i entry u)) (sql_insert upd ok)))))"

definition replace_product_details :: "env \<Rightarrow> id \<Rightarrow> id \<Rightarrow> body \<Rightarrow> (db, unit) tx" where
  "replace_product_details E m i p =
     tx_seq (tx_when (present p ''images'') (replace_images E i (arg p ''images'')))
    (tx_seq (tx_when (present p ''specs'') (replace_specs E i (arg p ''specs'')))
    (tx_seq (tx_when (present p ''categories'') (replace_categories E i (arg p ''categories'')))
    (tx_seq (tx_when (present p ''collection_ids'') (replace_memberships E m i (arg p ''collection_ids'')))
    (tx_seq (tx_when (present p ''shipping_option_ids'') (replace_refs E i db_product_shipping_options
        db_product_shipping_options_update product_shipping_options_ok (arg p ''shipping_option_ids'')))
       (tx_when (present p ''shipping_collection_ids'') (replace_refs E i db_product_shipping_collections
        db_product_shipping_collections_update product_shipping_collections_ok (arg p ''shipping_collection_ids'')))))))"

section \<open>Products: create and read\<close>

definition DELIVERY_MAX :: nat where "DELIVERY_MAX = 4000"

definition delivery_enc :: "env \<Rightarrow> id \<Rightarrow> string \<Rightarrow> json \<Rightarrow> (db, bytes option) tx" where
  "delivery_enc E i fmt v = (case v of
     JNull \<Rightarrow> tx_return None
   | JStr t \<Rightarrow>
       if str_strip E t = [] then tx_return None
       else if DELIVERY_MAX < chars t then tx_raise bad_content
       else if fmt \<noteq> ''digital'' then tx_raise bad_content
       else tx_bind (seal_column E i ''products'' ''delivery_enc'' (str_strip E t)) (\<lambda>b. tx_return (Some b))
   | _ \<Rightarrow> tx_raise bad_content)"

definition decrypt_delivery :: "env \<Rightarrow> id \<Rightarrow> bytes option \<Rightarrow> error + string option" where
  "decrypt_delivery E i blob = (case blob of None \<Rightarrow> Inr None
     | Some b \<Rightarrow> try_bind (open_column E i ''products'' ''delivery_enc'' b) (\<lambda>t. Inr (Some t)))"

definition product_out :: "env \<Rightarrow> product \<Rightarrow> error + product \<times> string option" where
  "product_out E p = try_bind (decrypt_delivery E (p_id p) (p_delivery_enc p))
     (\<lambda>t. Inr (p\<lparr>p_delivery_enc := None\<rparr>, t))"

record product_view =
  pv_row :: product
  pv_delivery_content :: "string option"
  pv_images :: "product_image list"
  pv_specs :: "product_spec list"
  pv_categories :: "string list"
  pv_collection_ids :: "id list"
  pv_shipping_options :: "product_shipping_ref list"
  pv_shipping_collections :: "product_shipping_ref list"

definition product_details :: "id \<Rightarrow> product \<times> string option \<Rightarrow> db \<Rightarrow> product_view" where
  "product_details i out s = \<lparr>pv_row = fst out, pv_delivery_content = snd out,
     pv_images = sort_key pi_sort_order (filter (\<lambda>r. pi_product_id r = i) (db_images s)),
     pv_specs = sort_key ps_id (filter (\<lambda>r. ps_product_id r = i) (db_specs s)),
     pv_categories = map pg_category (sort_key pg_id (filter (\<lambda>r. pg_product_id r = i) (db_categories s))),
     pv_collection_ids = map pc_collection_id (sort_key pc_id (filter (\<lambda>r. pc_product_id r = i) (db_product_collections s))),
     pv_shipping_options = sort_key psr_id (filter (\<lambda>r. psr_product_id r = i) (db_product_shipping_options s)),
     pv_shipping_collections = sort_key psr_id (filter (\<lambda>r. psr_product_id r = i) (db_product_shipping_collections s))\<rparr>"

definition get_product :: "env \<Rightarrow> id \<Rightarrow> id \<Rightarrow> id \<Rightarrow> (db, product_view) proc" where
  "get_product E m user i =
     pr_bind (get_merchant_row m user) (\<lambda>_.
     pr_bind (fetch_scoped db_products (\<lambda>p. p_id p = i \<and> p_merchant_id p = m)) (\<lambda>p.
     pr_bind (pr_lift (product_out E p)) (\<lambda>out.
     if p_deleted_at p \<noteq> None then pr_raise not_found
     else pr_get (product_details i out))))"

definition list_products :: "env \<Rightarrow> id \<Rightarrow> id \<Rightarrow> string option \<Rightarrow> (db, (product \<times> string option) list) proc" where
  "list_products E m user cat =
     pr_bind (list_live db_products (\<lambda>p. p_merchant_id p = m \<and> p_deleted_at p = None
         \<and> (truthy cat \<longrightarrow> Some (p_catalog_id p) = cat)) (\<lambda>p. (p_created_at p, p_id p)) m user) (\<lambda>ps.
     pr_lift (try_fold (\<lambda>acc p. try_bind (product_out E p) (\<lambda>x. Inr (acc @ [x]))) [] ps))"

text \<open>A variation has a live parent of the same merchant that is a variable product.\<close>

definition validate_variation :: "id \<Rightarrow> string \<Rightarrow> json \<Rightarrow> (db, id option) tx" where
  "validate_variation m product_type parent =
     (if product_type \<noteq> ''variation'' then tx_return None
      else if \<not> json_truthy parent then tx_raise bad_content
      else
        tx_bind (tx_lift (text_col parent)) (\<lambda>i.
        tx_bind (sql_one db_products (\<lambda>p. Some (p_id p) = i \<and> p_merchant_id p = m)) (\<lambda>row.
        case row of
          None \<Rightarrow> tx_raise bad_content
        | Some p \<Rightarrow>
            tx_seq (tx_assert (p_deleted_at p = None) bad_content)
           (tx_seq (tx_assert (p_product_type p = ''variable'') bad_content) (tx_return i)))))"

definition text_arg :: "body \<Rightarrow> string \<Rightarrow> string \<Rightarrow> string" where
  "text_arg p k dflt = (case arg p k of JStr t \<Rightarrow> t | _ \<Rightarrow> dflt)"

definition with_default_decimals :: "body \<Rightarrow> string option \<Rightarrow> body" where
  "with_default_decimals cols currency =
     put_member cols (''currency_decimals'', JInt (default_currency_decimals currency))"

definition currency_arg :: "body \<Rightarrow> string option" where
  "currency_arg cols = (case arg cols ''currency'' of JStr c \<Rightarrow> Some c | _ \<Rightarrow> None)"

definition blank_product :: "id \<Rightarrow> id \<Rightarrow> id \<Rightarrow> string \<Rightarrow> string \<Rightarrow> string \<Rightarrow> id option \<Rightarrow> int \<Rightarrow> product" where
  "blank_product i m cat d product_type fmt parent now = \<lparr>p_id = i, p_merchant_id = m, p_catalog_id = cat, p_d_tag = d,
     p_parent_product_id = parent, p_product_type = product_type, p_format = fmt, p_title = None, p_summary = None,
     p_description_md = None, p_amount_minor = None, p_currency = None, p_currency_decimals = None,
     p_recurring_frequency = None, p_visibility = ''hidden'', p_nip99_status = ''active'', p_draft = False,
     p_stock_on_hand = None, p_stock_reserved = 0, p_location = None, p_geohash = None, p_weight_value = None,
     p_weight_unit = None, p_dim_l = None, p_dim_w = None, p_dim_h = None, p_dim_unit = None,
     p_nip15_product_id = None, p_published_at = None, p_revision = 0, p_deleted_at = None,
     p_created_at = now, p_updated_at = now, p_delivery_enc = None\<rparr>"

definition product_row :: "body \<Rightarrow> product \<Rightarrow> error + product" where
  "product_row p blank =
     try_bind (sanitize_product_fields p) (\<lambda>cols.
     fill_columns product_column (if arg cols ''currency_decimals'' = JNull
       then with_default_decimals cols (currency_arg cols) else cols) blank)"

text \<open>The collection of a changed member moves to its next revision and is queued, when it has members.\<close>

definition republish_collection :: "env \<Rightarrow> merchant \<Rightarrow> int \<Rightarrow> id \<Rightarrow> (db, id option) tx" where
  "republish_collection E mrow now c =
     tx_bind (sql_one db_collections (\<lambda>r. c_id r = c)) (\<lambda>row.
     case row of
       None \<Rightarrow> tx_raise TypeError
     | Some r \<Rightarrow>
         tx_seq (bump_collection c (c_revision r + 1) now)
           (enqueue_collection E (m_id mrow) c (c_revision r + 1) (m_pubkey mrow)))"

definition set_delivery :: "id \<Rightarrow> bytes option \<Rightarrow> (db, unit) tx" where
  "set_delivery i enc = tx_ignore (update_product i (\<lambda>p. p\<lparr>p_delivery_enc := enc\<rparr>))"

definition insert_product :: "env \<Rightarrow> merchant \<Rightarrow> body \<Rightarrow> (id option \<Rightarrow> product) \<Rightarrow> (db, unit) tx" where
  "insert_product E mrow p blank =
     (let b = blank None in
      tx_seq (check_free db_products (\<lambda>r. p_merchant_id r = m_id mrow \<and> p_d_tag r = p_d_tag b))
     (tx_bind (validate_variation (m_id mrow) (p_product_type b) (arg p ''parent_product_id'')) (\<lambda>parent.
      tx_bind (tx_lift (product_row p (blank parent))) (\<lambda>row.
      tx_seq (sql_insert db_products_update products_ok row)
     (tx_bind (delivery_enc E (p_id b) (p_format b) (arg p ''delivery_content'')) (\<lambda>enc.
      tx_when (enc \<noteq> None) (set_delivery (p_id b) enc)))))))"

definition create_product_tx :: "env \<Rightarrow> merchant \<Rightarrow> body \<Rightarrow> (id option \<Rightarrow> product) \<Rightarrow> int \<Rightarrow> (db, unit) tx" where
  "create_product_tx E mrow p blank now =
     (let i = p_id (blank None) in
      tx_seq (insert_product E mrow p blank)
     (tx_seq (replace_product_details E (m_id mrow) i p)
     (tx_bind (collections_of_product i) (\<lambda>cids.
      tx_seq (tx_for cids (\<lambda>c. tx_ignore (republish_collection E mrow now c)))
     (tx_seq (tx_ignore (enqueue_product E (m_id mrow) i 0 (m_pubkey mrow)))
        (enqueue_stall_if_enabled E (m_id mrow) (p_catalog_id (blank None)) (m_pubkey mrow)))))))"

definition catalog_arg :: "body \<Rightarrow> error + id" where
  "catalog_arg p = (let v = arg p ''catalog_id'' in
     if \<not> json_truthy v then Inl bad_content else not_null (text_col v))"

definition create_product :: "env \<Rightarrow> id \<Rightarrow> id \<Rightarrow> body \<Rightarrow> (db, product_view) proc" where
  "create_product E m user p =
     pr_bind (get_merchant_row m user) (\<lambda>mrow.
     pr_bind (pr_lift (reject_unknown p PRODUCT_PAYLOAD_FIELDS)) (\<lambda>_.
     pr_bind (pr_lift (validate_product False p)) (\<lambda>_.
     pr_bind (pr_lift (catalog_arg p)) (\<lambda>cat.
     pr_bind (live_catalog m cat) (\<lambda>_.
     pr_bind (given_or_new E (arg p ''d_tag'')) (\<lambda>d.
     pr_bind (pr_lift (check_d_tag d)) (\<lambda>d_tag.
     pr_bind (commit (new_uuid E)) (\<lambda>i.
     pr_bind (pr_get db_clock) (\<lambda>now.
     pr_bind (commit (create_product_tx E mrow p (\<lambda>parent. blank_product i m cat d_tag
         (text_arg p ''product_type'' ''simple'') (text_arg p ''format'' ''physical'') parent now) now)) (\<lambda>_.
     get_product E m user i))))))))))"

section \<open>Products: change\<close>

definition patch_decimals :: "product \<Rightarrow> body \<Rightarrow> body" where
  "patch_decimals row cols =
     (if present cols ''currency'' \<and> arg cols ''currency'' \<noteq> or_null JStr (p_currency row)
           \<and> \<not> present cols ''currency_decimals''
         \<or> present cols ''currency_decimals'' \<and> arg cols ''currency_decimals'' = JNull
      then with_default_decimals cols (if present cols ''currency'' then currency_arg cols else p_currency row)
      else cols)"

definition patch_variation :: "id \<Rightarrow> id \<Rightarrow> body \<Rightarrow> string \<Rightarrow> json \<Rightarrow> body \<Rightarrow> (db, body) tx" where
  "patch_variation m i p new_type parent cols =
     (if \<not> present p ''product_type'' \<and> \<not> present p ''parent_product_id'' then tx_return cols
      else
        tx_bind (validate_variation m new_type parent) (\<lambda>pid.
        tx_bind (sql_count db_products (\<lambda>q. p_parent_product_id q = Some i \<and> p_deleted_at q = None)) (\<lambda>children.
        tx_seq (tx_assert (new_type = ''variation'' \<or> children = 0) referenced)
          (tx_return (put_member (put_member cols (''product_type'', JStr new_type))
             (''parent_product_id'', or_null JStr pid))))))"

text \<open>The published status follows the available stock, unless the patch sets it.\<close>

definition stock_status :: "product \<Rightarrow> body \<Rightarrow> error + body" where
  "stock_status row cols =
     (if \<not> present cols ''stock_on_hand'' \<and> \<not> present cols ''stock_reserved'' then Inr cols
      else
        (let on_hand = (if present cols ''stock_on_hand'' then arg cols ''stock_on_hand''
                else or_null JInt (p_stock_on_hand row));
             reserved = (if present cols ''stock_reserved'' then arg cols ''stock_reserved''
                else JInt (p_stock_reserved row))
         in case on_hand of
              JInt h \<Rightarrow> (let r = (case reserved of JInt n \<Rightarrow> n | _ \<Rightarrow> 0) in
                if reserved \<noteq> JNull \<and> h < r then Inl bad_content
                else if present cols ''nip99_status'' then Inr cols
                else Inr (cols @ [(''nip99_status'', JStr (if h - r \<le> 0 then ''sold'' else ''active''))]))
            | _ \<Rightarrow> Inr cols))"

definition write_product :: "id \<Rightarrow> (product \<Rightarrow> product) \<Rightarrow> (db, unit) tx" where
  "write_product i f = tx_ignore (update_product i f)"

definition bump_product :: "id \<Rightarrow> int \<Rightarrow> (db, unit) tx" where
  "bump_product i now = write_product i (\<lambda>p. p\<lparr>p_revision := p_revision p + 1, p_updated_at := now\<rparr>)"

definition patch_tail :: "env \<Rightarrow> merchant \<Rightarrow> product \<Rightarrow> body \<Rightarrow> int \<Rightarrow> (db, unit) tx" where
  "patch_tail E mrow row p now =
     (let i = p_id row in
      tx_seq (tx_when (present p ''delivery_content'')
          (tx_bind (delivery_enc E i (p_format row) (arg p ''delivery_content'')) (set_delivery i)))
     (tx_seq (bump_product i now)
     (tx_seq (replace_product_details E (m_id mrow) i p)
     (tx_bind (collections_of_product i) (\<lambda>cids.
      tx_seq (tx_for cids (\<lambda>c. tx_ignore (republish_collection E mrow now c)))
        (tx_ignore (enqueue_product E (m_id mrow) i (p_revision row + 1) (m_pubkey mrow))))))))"

definition patch_product_tx :: "env \<Rightarrow> merchant \<Rightarrow> product \<Rightarrow> body \<Rightarrow> string \<Rightarrow> json \<Rightarrow> body \<Rightarrow> int \<Rightarrow> (db, unit) tx" where
  "patch_product_tx E mrow row p new_type parent cols0 now =
     tx_bind (patch_variation (m_id mrow) (p_id row) p new_type parent cols0) (\<lambda>cols1.
     tx_bind (tx_lift (stock_status row cols1)) (\<lambda>cols.
     tx_seq (write_columns product_column (write_product (p_id row)) cols)
       (patch_tail E mrow row p now)))"

definition patch_product :: "env \<Rightarrow> id \<Rightarrow> id \<Rightarrow> id \<Rightarrow> body \<Rightarrow> (db, product_view) proc" where
  "patch_product E m user i p =
     pr_bind (get_merchant_row m user) (\<lambda>mrow.
     pr_bind (live_product m i) (\<lambda>row.
     pr_bind (pr_lift (reject_unknown p PRODUCT_PAYLOAD_FIELDS)) (\<lambda>_.
     pr_bind (pr_lift (validate_product True p)) (\<lambda>_.
     pr_bind (pr_lift (sanitize_product_fields p)) (\<lambda>cols.
     let parent = (if present p ''parent_product_id'' then arg p ''parent_product_id''
           else or_null JStr (p_parent_product_id row)) in
     if parent = JStr i then pr_raise bad_content
     else
       pr_bind (pr_get db_clock) (\<lambda>now.
       pr_bind (commit (patch_product_tx E mrow row p (text_arg p ''product_type'' (p_product_type row)) parent
           (patch_decimals row cols) now)) (\<lambda>_.
       get_product E m user i)))))))"

definition add_product_image_tx :: "env \<Rightarrow> merchant \<Rightarrow> product \<Rightarrow> body \<Rightarrow> (db, unit) tx" where
  "add_product_image_tx E mrow row p =
     (let i = p_id row in
      tx_bind (sql_count db_images (\<lambda>r. pi_product_id r = i)) (\<lambda>n.
      tx_seq (tx_assert (n < IMAGES_MAX) bad_content)
     (tx_seq (insert_image E i (n, JObj p))
     (tx_bind tx_now (\<lambda>now.
      tx_seq (bump_product i now)
        (tx_ignore (enqueue_product E (m_id mrow) i (p_revision row + 1) (m_pubkey mrow))))))))"

definition add_product_image :: "env \<Rightarrow> id \<Rightarrow> id \<Rightarrow> id \<Rightarrow> body \<Rightarrow> (db, product_view) proc" where
  "add_product_image E m user i p =
     pr_bind (get_merchant_row m user) (\<lambda>mrow.
     pr_bind (live_product m i) (\<lambda>row.
     if \<not> https (arg p ''url'') then pr_raise bad_content
     else
       pr_bind (commit (add_product_image_tx E mrow row p)) (\<lambda>_.
       get_product E m user i)))"

section \<open>Products: deletion\<close>

text \<open>
  The surviving collections are queued first and the tombstone depends on them; a collection
  whose last member goes is itself taken back.
\<close>

definition tombstone :: "env \<Rightarrow> merchant \<Rightarrow> string \<Rightarrow> id \<Rightarrow> int \<Rightarrow> string \<Rightarrow> string \<Rightarrow> (string \<times> id) list \<Rightarrow> (db, unit) tx" where
  "tombstone E mrow aggregate i revision kind d deps =
     tx_ignore (enqueue_intent E (m_id mrow) aggregate i 5 revision (coord kind (m_pubkey mrow) d) deps)"

definition drop_member :: "env \<Rightarrow> merchant \<Rightarrow> int \<Rightarrow> (string \<times> id) list \<Rightarrow> id \<Rightarrow> (db, (string \<times> id) list) tx" where
  "drop_member E mrow now deps c =
     tx_bind (republish_collection E mrow now c) (\<lambda>intent.
     if intent \<noteq> None then tx_return (deps @ [(''collections'', c)])
     else
       tx_bind (sql_one db_collections (\<lambda>r. c_id r = c)) (\<lambda>row.
       case row of
         None \<Rightarrow> tx_raise TypeError
       | Some r \<Rightarrow> tx_seq (tombstone E mrow ''collections'' c (c_revision r) ''30405'' (c_d_tag r) []) (tx_return deps)))"

definition delete_details :: "id \<Rightarrow> (db, unit) tx" where
  "delete_details i =
     tx_seq (tx_ignore (sql_delete db_images db_images_update (\<lambda>r. pi_product_id r = i)))
    (tx_seq (tx_ignore (sql_delete db_specs db_specs_update (\<lambda>r. ps_product_id r = i)))
    (tx_seq (tx_ignore (sql_delete db_categories db_categories_update (\<lambda>r. pg_product_id r = i)))
    (tx_seq (leave_collections i)
    (tx_seq (tx_ignore (sql_delete db_product_shipping_options db_product_shipping_options_update (\<lambda>r. psr_product_id r = i)))
       (tx_ignore (sql_delete db_product_shipping_collections db_product_shipping_collections_update (\<lambda>r. psr_product_id r = i)))))))"

definition delete_product_locked :: "env \<Rightarrow> merchant \<Rightarrow> id \<Rightarrow> (db, unit) tx" where
  "delete_product_locked E mrow i =
     tx_bind (sql_one db_products (\<lambda>p. p_id p = i)) (\<lambda>row.
     case row of
       None \<Rightarrow> tx_return ()
     | Some p \<Rightarrow>
         if p_deleted_at p \<noteq> None then tx_return ()
         else
           tx_bind tx_now (\<lambda>now.
           tx_bind (collections_of_product i) (\<lambda>cids.
           tx_seq (delete_details i)
          (tx_seq (write_product i (\<lambda>q. q\<lparr>p_deleted_at := Some now, p_updated_at := now, p_revision := p_revision q + 1\<rparr>))
          (tx_bind (tx_fold (drop_member E mrow now) [] cids) (\<lambda>deps.
           tx_bind (sql_one db_products (\<lambda>q. p_id q = i)) (\<lambda>after.
           case after of
             None \<Rightarrow> tx_raise TypeError
           | Some q \<Rightarrow> tombstone E mrow ''products'' i (p_revision q) ''30402'' (p_d_tag p) deps))))))) "

definition delete_product :: "env \<Rightarrow> id \<Rightarrow> id \<Rightarrow> id \<Rightarrow> (db, id) proc" where
  "delete_product E m user i =
     pr_bind (get_merchant_row m user) (\<lambda>mrow.
     pr_bind (live_product m i) (\<lambda>_.
     pr_bind (commit (delete_product_locked E mrow i)) (\<lambda>_. pr_return i)))"

section \<open>Products: many at once\<close>

text \<open>
  \<open>Decimal(str)\<close> of a finite number; the word forms and what is no number give \<open>None\<close>, and only
  the ASCII digits are recognised.
\<close>

definition all_digits :: "string \<Rightarrow> bool" where
  "all_digits t \<longleftrightarrow> list_all is_digit t"

definition dec_mantissa :: "string \<Rightarrow> (nat \<times> int) option" where
  "dec_mantissa t = (let a = takeWhile is_digit t in
     case drop (length a) t of
       [] \<Rightarrow> if a = [] then None else Some (parse_nat 0 a, 0)
     | c # f \<Rightarrow> if c = CHR ''.'' \<and> all_digits f \<and> a @ f \<noteq> [] then Some (parse_nat 0 (a @ f), - int (length f)) else None)"

definition dec_exponent :: "string \<Rightarrow> int option" where
  "dec_exponent t = (case t of
     [] \<Rightarrow> Some 0
   | _ # x \<Rightarrow> (let sign = (if x \<noteq> [] \<and> hd x = CHR ''-'' then -1 else 1);
         d = (if x \<noteq> [] \<and> hd x \<in> {CHR ''-'', CHR ''+''} then tl x else x)
       in if d \<noteq> [] \<and> all_digits d then Some (sign * int (parse_nat 0 d)) else None))"

definition parse_decimal :: "env \<Rightarrow> string \<Rightarrow> dec option" where
  "parse_decimal E t =
     (let x = filter (\<lambda>c. c \<noteq> CHR ''_'') (str_strip E t);
          sign = (if x \<noteq> [] \<and> hd x = CHR ''-'' then -1 else 1);
          u = (if x \<noteq> [] \<and> hd x \<in> {CHR ''-'', CHR ''+''} then tl x else x);
          m = takeWhile (\<lambda>c. c \<notin> {CHR ''e'', CHR ''E''}) u
      in case (dec_mantissa m, dec_exponent (drop (length m) u)) of
           (Some (n, e), Some k) \<Rightarrow> Some (Dec (sign * int n) (e + k)) | _ \<Rightarrow> None)"

definition dec_half_up :: "dec \<Rightarrow> int" where
  "dec_half_up d = (if 0 \<le> dec_exp d then dec_coeff d * 10 ^ nat (dec_exp d)
     else sgn (dec_coeff d) * ((2 * \<bar>dec_coeff d\<bar> + 10 ^ nat (- dec_exp d)) div (2 * 10 ^ nat (- dec_exp d))))"

definition markup_amount :: "int option \<Rightarrow> dec \<Rightarrow> error + int" where
  "markup_amount amount percentage =
     (case dec_div (dec_mult (Dec (case amount of None \<Rightarrow> 0 | Some a \<Rightarrow> a) 0) (dec_add (Dec 100 0) percentage)) (Dec 100 0) of
        None \<Rightarrow> Inl InvalidOperation
      | Some d \<Rightarrow> if 2 ^ 63 \<le> dec_half_up d then Inl bad_content else Inr (dec_half_up d))"

datatype bulk_action = PriceMarkup dec | MoveCollection id | SetVisibility string | ToDraft | ToPublish | DeleteAll

definition bulk_action_of :: "env \<Rightarrow> sdk \<Rightarrow> string \<Rightarrow> json \<Rightarrow> error + bulk_action" where
  "bulk_action_of E K action v =
     (if action = ''price-markup'' then
        (case parse_decimal E (py_str K v) of
           None \<Rightarrow> Inl bad_content
         | Some d \<Rightarrow> if dec_pos d \<and> \<not> dec_less (Dec 10000 0) d then Inr (PriceMarkup d) else Inl bad_content)
      else if action = ''visibility'' then (case v of
           JStr t \<Rightarrow> if t \<in> set VISIBILITIES then Inr (SetVisibility t) else Inl bad_content | _ \<Rightarrow> Inl bad_content)
      else if action = ''move-collection'' then (case v of
           JStr t \<Rightarrow> if hex32 t then Inr (MoveCollection t) else Inl bad_content | _ \<Rightarrow> Inl bad_content)
      else if action = ''draft'' then Inr ToDraft
      else if action = ''publish'' then Inr ToPublish
      else if action = ''delete'' then Inr DeleteAll
      else Inl bad_content)"

definition bulk_change :: "bulk_action \<Rightarrow> product \<Rightarrow> error + (product \<Rightarrow> product)" where
  "bulk_change action row = (case action of
     PriceMarkup d \<Rightarrow> try_bind (markup_amount (p_amount_minor row) d) (\<lambda>a. Inr (\<lambda>p. p\<lparr>p_amount_minor := Some a\<rparr>))
   | SetVisibility v \<Rightarrow> Inr (\<lambda>p. p\<lparr>p_visibility := v\<rparr>)
   | ToDraft \<Rightarrow> Inr (\<lambda>p. p\<lparr>p_draft := True\<rparr>)
   | ToPublish \<Rightarrow> Inr (\<lambda>p. p\<lparr>p_draft := False\<rparr>)
   | _ \<Rightarrow> Inr (\<lambda>p. p))"

definition bulk_update_one :: "env \<Rightarrow> bulk_action \<Rightarrow> int \<Rightarrow> product \<Rightarrow> (db, unit) tx" where
  "bulk_update_one E action now row =
     tx_bind (tx_lift (bulk_change action row)) (\<lambda>f.
     tx_seq (case action of
          MoveCollection c \<Rightarrow> tx_seq (leave_collections (p_id row)) (join_collection E (p_id row) c)
        | ToDraft \<Rightarrow> leave_collections (p_id row)
        | _ \<Rightarrow> tx_return ())
       (write_product (p_id row) (\<lambda>p. (f p)\<lparr>p_revision := p_revision p + 1, p_updated_at := now\<rparr>)))"

definition bulk_publish_one :: "env \<Rightarrow> merchant \<Rightarrow> bulk_action \<Rightarrow> (string \<times> id) list \<Rightarrow> product \<Rightarrow> (db, unit) tx" where
  "bulk_publish_one E mrow action deps row =
     tx_bind (sql_one db_products (\<lambda>p. p_id p = p_id row)) (\<lambda>now_row.
     case now_row of
       None \<Rightarrow> tx_raise TypeError
     | Some p \<Rightarrow>
         if action = ToDraft \<and> \<not> p_draft row \<and> p_published_at p \<noteq> None
         then tombstone E mrow ''products'' (p_id row) (p_revision p) ''30402'' (p_d_tag p) deps
         else tx_ignore (enqueue_product E (m_id mrow) (p_id row) (p_revision p) (m_pubkey mrow)))"

definition check_move_target :: "id \<Rightarrow> bulk_action \<Rightarrow> product list \<Rightarrow> (db, id list) tx" where
  "check_move_target m action rows = (case action of
     MoveCollection c \<Rightarrow>
       tx_bind (sql_one db_collections (\<lambda>r. c_id r = c \<and> c_merchant_id r = m)) (\<lambda>row.
       tx_seq (tx_assert (case row of None \<Rightarrow> False | Some r \<Rightarrow> c_deleted_at r = None) not_found)
      (tx_seq (tx_assert (list_all (\<lambda>p. \<not> p_draft p) rows) bad_content) (tx_return [c])))
   | _ \<Rightarrow> tx_return [])"

definition bulk_rows :: "id \<Rightarrow> id list \<Rightarrow> (db, product list) tx" where
  "bulk_rows m ids =
     tx_bind (sql_all db_products (\<lambda>p. p_merchant_id p = m \<and> p_deleted_at p = None \<and> p_id p \<in> set ids)) (\<lambda>rows.
     tx_seq (tx_assert (length rows = length ids) not_found)
       (tx_return (concat (map (\<lambda>i. filter (\<lambda>p. p_id p = i) rows) ids))))"

definition bulk_tx :: "env \<Rightarrow> merchant \<Rightarrow> bulk_action \<Rightarrow> id list \<Rightarrow> int \<Rightarrow> (db, unit) tx" where
  "bulk_tx E mrow action ids now =
     tx_bind (bulk_rows (m_id mrow) ids) (\<lambda>rows.
     if action = DeleteAll then tx_for ids (delete_product_locked E mrow)
     else
       tx_bind (tx_fold (\<lambda>acc i. tx_bind (collections_of_product i) (\<lambda>cs. tx_return (acc @ cs))) [] ids) (\<lambda>cids.
       tx_bind (check_move_target (m_id mrow) action rows) (\<lambda>target.
       tx_seq (tx_for rows (bulk_update_one E action now))
      (tx_bind (republish_bulk_collections E (m_id mrow) (cids @ target) (m_pubkey mrow) now) (\<lambda>deps.
       tx_for rows (bulk_publish_one E mrow action deps))))))"

definition bulk_products :: "env \<Rightarrow> sdk \<Rightarrow> id \<Rightarrow> id \<Rightarrow> string list \<Rightarrow> string \<Rightarrow> json \<Rightarrow> (db, id list) proc" where
  "bulk_products E K m user product_ids action v =
     pr_bind (get_merchant_row m user) (\<lambda>mrow.
     let ids = dedup product_ids in
     if \<not> (1 \<le> length ids \<and> length ids \<le> 100 \<and> list_all hex32 ids) then pr_raise bad_content
     else
       pr_bind (pr_lift (bulk_action_of E K action v)) (\<lambda>a.
       pr_bind (pr_get db_clock) (\<lambda>now.
       pr_bind (commit (bulk_tx E mrow a ids now)) (\<lambda>_. pr_return ids))))"

end
