(* ===== verification/CatalogShipping.thy ===== *)
theory CatalogShipping
  imports Catalog
begin

text \<open>
  Collections, shipping options and the dry run of a product's events (\<open>services/catalog.py\<close>).
  A change of an option republishes what refers to it; a deletion is refused while it is referred
  to, or strips the references and queues the survivors before the tombstone.
\<close>

section \<open>Collections\<close>

definition COLLECTION_FIELDS :: "string list" where
  "COLLECTION_FIELDS = [''d_tag'', ''title'', ''description'', ''image'', ''location'', ''geohash'', ''shipping_option_ids'']"

definition check_image :: "json \<Rightarrow> error + json" where
  "check_image v = (case v of JNull \<Rightarrow> Inr v
     | JStr t \<Rightarrow> if prefixed ''https://'' t then Inr v else Inl bad_content | _ \<Rightarrow> Inl AttributeError)"

definition collection_column :: "string \<Rightarrow> json \<Rightarrow> error + (collection \<Rightarrow> collection)" where
  "collection_column f v =
     (if f = ''title'' then set_with (text_col v) (\<lambda>x r. r\<lparr>c_title := x\<rparr>)
      else if f = ''description'' then set_with (text_col v) (\<lambda>x r. r\<lparr>c_description := x\<rparr>)
      else if f = ''image'' then set_with (text_col v) (\<lambda>x r. r\<lparr>c_image := x\<rparr>)
      else if f = ''location'' then set_with (text_col v) (\<lambda>x r. r\<lparr>c_location := x\<rparr>)
      else if f = ''geohash'' then set_with (text_col v) (\<lambda>x r. r\<lparr>c_geohash := x\<rparr>)
      else Inl refused_value)"

definition blank_collection :: "id \<Rightarrow> id \<Rightarrow> string \<Rightarrow> int \<Rightarrow> collection" where
  "blank_collection i m d now = \<lparr>c_id = i, c_merchant_id = m, c_d_tag = d, c_title = None, c_description = None,
     c_image = None, c_location = None, c_geohash = None, c_revision = 0, c_deleted_at = None,
     c_created_at = now, c_updated_at = now\<rparr>"

text \<open>A collection's options are live options of the merchant.\<close>

definition link_option :: "env \<Rightarrow> id \<Rightarrow> id \<Rightarrow> json \<Rightarrow> (db, unit) tx" where
  "link_option E m c sid =
     tx_bind (tx_lift (text_col sid)) (\<lambda>i.
     tx_bind (sql_one db_shipping_options (\<lambda>r. Some (so_id r) = i \<and> so_merchant_id r = m)) (\<lambda>row.
     case row of
       None \<Rightarrow> tx_raise bad_content
     | Some r \<Rightarrow>
         tx_seq (tx_assert (so_deleted_at r = None) bad_content)
        (tx_bind (new_uuid E) (\<lambda>u. sql_insert db_collection_shipping_update collection_shipping_ok
           \<lparr>cs_id = u, cs_collection_id = c, cs_shipping_option_id = so_id r\<rparr>))))"

definition link_options :: "env \<Rightarrow> id \<Rightarrow> id \<Rightarrow> json \<Rightarrow> (db, unit) tx" where
  "link_options E m c v = tx_bind (tx_lift (items_or_none v)) (\<lambda>sids. tx_for sids (link_option E m c))"

definition create_collection_tx :: "env \<Rightarrow> collection \<Rightarrow> body \<Rightarrow> json \<Rightarrow> (db, unit) tx" where
  "create_collection_tx E blank cols options =
     tx_seq (check_free db_collections (\<lambda>r. c_merchant_id r = c_merchant_id blank \<and> c_d_tag r = c_d_tag blank))
    (tx_bind (tx_lift (fill_columns collection_column cols blank)) (\<lambda>row.
     tx_seq (sql_insert db_collections_update collections_ok row)
       (link_options E (c_merchant_id blank) (c_id blank) options)))"

record collection_view =
  cv_row :: collection
  cv_members :: "product list"
  cv_shipping_option_ids :: "id list"

definition get_collection :: "id \<Rightarrow> id \<Rightarrow> id \<Rightarrow> (db, collection_view) proc" where
  "get_collection m user i =
     pr_bind (get_merchant_row m user) (\<lambda>_.
     pr_bind (live_collection m i) (\<lambda>row.
     pr_get (\<lambda>s. \<lparr>cv_row = row,
       cv_members = concat (map (\<lambda>r. filter (\<lambda>p. p_id p = pc_product_id r \<and> p_deleted_at p = None) (db_products s))
         (filter (\<lambda>r. pc_collection_id r = i) (db_product_collections s))),
       cv_shipping_option_ids = map cs_shipping_option_id
         (filter (\<lambda>r. cs_collection_id r = i) (db_collection_shipping s))\<rparr>)))"

definition list_collections :: "id \<Rightarrow> id \<Rightarrow> (db, collection list) proc" where
  "list_collections m user = list_live db_collections (\<lambda>c. c_merchant_id c = m \<and> c_deleted_at c = None)
     (\<lambda>c. (c_created_at c, c_id c)) m user"

definition create_collection :: "env \<Rightarrow> id \<Rightarrow> id \<Rightarrow> body \<Rightarrow> (db, collection_view) proc" where
  "create_collection E m user p =
     pr_bind (get_merchant_row m user) (\<lambda>_.
     pr_bind (pr_lift (reject_unknown p COLLECTION_FIELDS)) (\<lambda>_.
     pr_bind (pr_lift (check_title (arg p ''title''))) (\<lambda>title.
     pr_bind (pr_lift (check_description (arg p ''description''))) (\<lambda>description.
     pr_bind (pr_lift (check_image (arg p ''image''))) (\<lambda>image.
     pr_bind (commit (new_uuid E)) (\<lambda>i.
     pr_bind (given_or_new E (arg p ''d_tag'')) (\<lambda>d.
     pr_bind (pr_lift (check_d_tag d)) (\<lambda>d_tag.
     pr_bind (pr_get db_clock) (\<lambda>now.
     pr_bind (commit (create_collection_tx E (blank_collection i m d_tag now)
         [(''title'', title), (''description'', description), (''image'', image),
          (''location'', arg p ''location''), (''geohash'', arg p ''geohash'')] (arg p ''shipping_option_ids''))) (\<lambda>_.
     get_collection m user i))))))))))"

definition update_collection :: "id \<Rightarrow> (collection \<Rightarrow> collection) \<Rightarrow> (db, unit) tx" where
  "update_collection i f = tx_ignore (sql_update db_collections db_collections_update collections_ok (\<lambda>r. c_id r = i) f)"

definition collection_field :: "body \<Rightarrow> string \<Rightarrow> error + json" where
  "collection_field p f = (if f = ''title'' then check_title (arg p f)
     else if f = ''description'' then check_description (arg p f)
     else if f = ''image'' then check_image (arg p f)
     else Inr (arg p f))"

definition patch_collection_column :: "id \<Rightarrow> body \<Rightarrow> string \<Rightarrow> (db, unit) tx" where
  "patch_collection_column i p f =
     tx_bind (tx_lift (collection_field p f)) (\<lambda>v.
     tx_bind (tx_lift (collection_column f v)) (update_collection i))"

definition unlink_options :: "id \<Rightarrow> (db, unit) tx" where
  "unlink_options c = tx_ignore (sql_delete db_collection_shipping db_collection_shipping_update (\<lambda>r. cs_collection_id r = c))"

definition patch_collection_tx :: "env \<Rightarrow> merchant \<Rightarrow> collection \<Rightarrow> body \<Rightarrow> int \<Rightarrow> (db, unit) tx" where
  "patch_collection_tx E mrow row p now =
     (let i = c_id row; revision = c_revision row + 1 in
      tx_seq (tx_for (filter (present p) [''title'', ''description'', ''image'', ''location'', ''geohash''])
         (patch_collection_column i p))
     (tx_seq (tx_when (present p ''shipping_option_ids'') (tx_seq (unlink_options i)
         (link_options E (m_id mrow) i (arg p ''shipping_option_ids''))))
     (tx_seq (update_collection i (\<lambda>r. r\<lparr>c_revision := revision, c_updated_at := now\<rparr>))
        (tx_ignore (enqueue_collection E (m_id mrow) i revision (m_pubkey mrow))))))"

definition patch_collection :: "env \<Rightarrow> id \<Rightarrow> id \<Rightarrow> id \<Rightarrow> body \<Rightarrow> (db, collection_view) proc" where
  "patch_collection E m user i p =
     pr_bind (get_merchant_row m user) (\<lambda>mrow.
     pr_bind (live_collection m i) (\<lambda>row.
     pr_bind (pr_lift (reject_unknown p [''title'', ''description'', ''image'', ''location'', ''geohash'',
         ''shipping_option_ids''])) (\<lambda>_.
     pr_bind (pr_get db_clock) (\<lambda>now.
     pr_bind (commit (patch_collection_tx E mrow row p now)) (\<lambda>_.
     get_collection m user i)))))"

text \<open>Products that outlive what they referred to move to their next revision; those that are published are depended on.\<close>

definition republish_survivor :: "env \<Rightarrow> merchant \<Rightarrow> int \<Rightarrow> (string \<times> id) list \<Rightarrow> id \<Rightarrow> (db, (string \<times> id) list) tx" where
  "republish_survivor E mrow now deps i =
     tx_bind (sql_one db_products (\<lambda>p. p_id p = i)) (\<lambda>row.
     case row of
       None \<Rightarrow> tx_return deps
     | Some p \<Rightarrow>
         if p_deleted_at p \<noteq> None then tx_return deps
         else
           tx_seq (write_product i (\<lambda>q. q\<lparr>p_revision := p_revision p + 1, p_updated_at := now\<rparr>))
          (tx_bind (enqueue_product E (m_id mrow) i (p_revision p + 1) (m_pubkey mrow)) (\<lambda>intent.
           tx_return (if intent = None then deps else deps @ [(''products'', i)]))))"

definition collection_references :: "id \<Rightarrow> (db, id list) tx" where
  "collection_references c =
     tx_bind (sql_all db_product_collections (\<lambda>r. pc_collection_id r = c)) (\<lambda>members.
     tx_bind (sql_all db_product_shipping_collections (\<lambda>r. psr_ref_id r = c)) (\<lambda>refs.
     tx_return (map pc_product_id members @ map psr_product_id refs)))"

definition delete_collection_locked :: "env \<Rightarrow> merchant \<Rightarrow> id \<Rightarrow> bool \<Rightarrow> (db, unit) tx" where
  "delete_collection_locked E mrow c strip =
     tx_bind (sql_one db_collections (\<lambda>r. c_id r = c)) (\<lambda>row.
     case row of
       None \<Rightarrow> tx_return ()
     | Some r \<Rightarrow>
         if c_deleted_at r \<noteq> None then tx_return ()
         else
           tx_bind (collection_references c) (\<lambda>refs.
           tx_seq (tx_assert (refs = [] \<or> strip) referenced)
          (tx_bind tx_now (\<lambda>now.
           tx_seq (tx_ignore (sql_delete db_product_collections db_product_collections_update (\<lambda>x. pc_collection_id x = c)))
          (tx_seq (tx_ignore (sql_delete db_product_shipping_collections db_product_shipping_collections_update (\<lambda>x. psr_ref_id x = c)))
          (tx_seq (unlink_options c)
          (tx_seq (update_collection c (\<lambda>x. x\<lparr>c_deleted_at := Some now, c_revision := c_revision x + 1, c_updated_at := now\<rparr>))
          (tx_bind (sql_one db_collections (\<lambda>x. c_id x = c)) (\<lambda>after.
           case after of
             None \<Rightarrow> tx_raise TypeError
           | Some x \<Rightarrow>
               tx_bind (tx_fold (republish_survivor E mrow now) [] (dedup refs)) (\<lambda>deps.
               tombstone E mrow ''collections'' c (c_revision x) ''30405'' (c_d_tag r) deps)))))))))) "

definition delete_collection :: "env \<Rightarrow> id \<Rightarrow> id \<Rightarrow> id \<Rightarrow> bool \<Rightarrow> (db, id) proc" where
  "delete_collection E m user i strip =
     pr_bind (get_merchant_row m user) (\<lambda>mrow.
     pr_bind (live_collection m i) (\<lambda>_.
     pr_bind (commit (delete_collection_locked E mrow i strip)) (\<lambda>_. pr_return i)))"

section \<open>Shipping options\<close>

definition blank_option :: "id \<Rightarrow> id \<Rightarrow> string \<Rightarrow> string \<Rightarrow> int \<Rightarrow> shipping_option" where
  "blank_option i m d service now = \<lparr>so_id = i, so_merchant_id = m, so_d_tag = d, so_title = None, so_description = None,
     so_base_price_minor = None, so_currency = None, so_currency_decimals = 2, so_service = service, so_carrier = None,
     so_countries = [], so_regions = [], so_duration_min = None, so_duration_max = None, so_duration_unit = None,
     so_weight_min = None, so_weight_max = None, so_weight_unit = None, so_dim_min = (None, None, None),
     so_dim_max = (None, None, None), so_dim_unit = None, so_price_weight_minor = None, so_price_weight_unit = None,
     so_price_volume_minor = None, so_price_volume_unit = None, so_location = None, so_geohash = None,
     so_active = True, so_revision = 0, so_deleted_at = None, so_created_at = now, so_updated_at = now\<rparr>"

definition option_field :: "body \<Rightarrow> string \<Rightarrow> error + json" where
  "option_field p f = (if f = ''description'' then check_description (arg p f) else Inr (arg p f))"

definition option_decimals :: "body \<Rightarrow> body" where
  "option_decimals p = (if arg p ''currency_decimals'' = JNull then with_default_decimals p (currency_arg p) else p)"

definition get_shipping :: "id \<Rightarrow> id \<Rightarrow> id \<Rightarrow> (db, shipping_option) proc" where
  "get_shipping m user i = pr_bind (get_merchant_row m user) (\<lambda>_. live_option m i)"

definition list_shipping :: "id \<Rightarrow> id \<Rightarrow> (db, shipping_option list) proc" where
  "list_shipping m user = list_live db_shipping_options (\<lambda>r. so_merchant_id r = m \<and> so_deleted_at r = None)
     (\<lambda>r. (so_created_at r, so_id r)) m user"

definition create_shipping_tx :: "env \<Rightarrow> merchant \<Rightarrow> shipping_option \<Rightarrow> body \<Rightarrow> (db, unit) tx" where
  "create_shipping_tx E mrow blank cols =
     tx_seq (check_free db_shipping_options (\<lambda>r. so_merchant_id r = m_id mrow \<and> so_d_tag r = so_d_tag blank))
    (tx_bind (tx_lift (fill_columns shipping_column cols blank)) (\<lambda>row.
     tx_seq (sql_insert db_shipping_options_update shipping_options_ok row)
       (tx_ignore (enqueue_shipping_option E (m_id mrow) (so_id blank) 0 (m_pubkey mrow)))))"

definition create_shipping :: "env \<Rightarrow> id \<Rightarrow> id \<Rightarrow> body \<Rightarrow> (db, shipping_option) proc" where
  "create_shipping E m user p0 =
     pr_bind (get_merchant_row m user) (\<lambda>mrow.
     pr_bind (pr_lift (reject_unknown p0 (SHIPPING_FIELDS @ [''d_tag'']))) (\<lambda>_.
     pr_bind (pr_lift (validate_shipping False p0)) (\<lambda>_.
     let p = option_decimals p0 in
     if \<not> pickup_placed p then pr_raise bad_content
     else
       pr_bind (commit (new_uuid E)) (\<lambda>i.
       pr_bind (given_or_new E (arg p ''d_tag'')) (\<lambda>d.
       pr_bind (pr_lift (check_d_tag d)) (\<lambda>d_tag.
       pr_bind (pr_get db_clock) (\<lambda>now.
       pr_bind (pr_lift (try_fold (add_field (option_field p)) []
          (filter (\<lambda>f. present p f \<and> f \<noteq> ''service'') SHIPPING_FIELDS))) (\<lambda>cols.
       pr_bind (commit (create_shipping_tx E mrow (blank_option i m d_tag (text_arg p ''service'' ''standard'') now) cols)) (\<lambda>_.
       get_shipping m user i)))))))))"

text \<open>The patch is merged into the row, and the whole is checked again.\<close>

definition patch_option_decimals :: "shipping_option \<Rightarrow> body \<Rightarrow> body" where
  "patch_option_decimals row p =
     (if present p ''currency'' \<and> arg p ''currency'' \<noteq> or_null JStr (so_currency row) \<and> \<not> present p ''currency_decimals''
         \<or> present p ''currency_decimals'' \<and> arg p ''currency_decimals'' = JNull
      then with_default_decimals p (if present p ''currency'' then currency_arg p else so_currency row)
      else p)"

definition decoded :: "env \<Rightarrow> body \<Rightarrow> string \<Rightarrow> error + body" where
  "decoded E p k = (case arg p k of
     JStr t \<Rightarrow> (case json_loads E t of None \<Rightarrow> Inl ValueError | Some j \<Rightarrow> Inr (put_member p (k, j)))
   | _ \<Rightarrow> Inr p)"

definition check_merged :: "env \<Rightarrow> shipping_option \<Rightarrow> body \<Rightarrow> error + unit" where
  "check_merged E row p =
     try_bind (try_fold (decoded E) (foldl put_member (shipping_members row) p) [''countries'', ''regions'']) (\<lambda>merged.
     try_bind (validate_shipping False merged) (\<lambda>_.
     try_require (pickup_placed merged) bad_content))"

definition update_option :: "id \<Rightarrow> (shipping_option \<Rightarrow> shipping_option) \<Rightarrow> (db, unit) tx" where
  "update_option i f = tx_ignore (sql_update db_shipping_options db_shipping_options_update shipping_options_ok
     (\<lambda>r. so_id r = i) f)"

definition patch_option_value :: "body \<Rightarrow> string \<Rightarrow> error + json" where
  "patch_option_value p f = (if f = ''active'' then Inr (JBool (json_truthy (arg p f))) else option_field p f)"

definition patch_option_column :: "id \<Rightarrow> body \<Rightarrow> string \<Rightarrow> (db, unit) tx" where
  "patch_option_column i p f =
     tx_bind (tx_lift (patch_option_value p f)) (\<lambda>v.
     tx_bind (tx_lift (shipping_column f v)) (update_option i))"

definition option_collections :: "id \<Rightarrow> (db, id list) tx" where
  "option_collections i = tx_bind (sql_all db_collection_shipping (\<lambda>r. cs_shipping_option_id r = i))
     (\<lambda>rs. tx_return (map cs_collection_id rs))"

definition option_products :: "id \<Rightarrow> (db, id list) tx" where
  "option_products i = tx_bind (sql_all db_product_shipping_options (\<lambda>r. psr_ref_id r = i))
     (\<lambda>rs. tx_return (map psr_product_id rs))"

definition republish_referrer :: "env \<Rightarrow> merchant \<Rightarrow> int \<Rightarrow> id \<Rightarrow> (db, unit) tx" where
  "republish_referrer E mrow now i =
     tx_bind (sql_one db_products (\<lambda>p. p_id p = i)) (\<lambda>row.
     case row of
       None \<Rightarrow> tx_raise TypeError
     | Some p \<Rightarrow>
         tx_seq (write_product i (\<lambda>q. q\<lparr>p_revision := p_revision p + 1, p_updated_at := now\<rparr>))
           (tx_ignore (enqueue_product E (m_id mrow) i (p_revision p + 1) (m_pubkey mrow))))"

definition patch_shipping_tx :: "env \<Rightarrow> merchant \<Rightarrow> shipping_option \<Rightarrow> body \<Rightarrow> int \<Rightarrow> (db, unit) tx" where
  "patch_shipping_tx E mrow row p now =
     (let i = so_id row; revision = so_revision row + 1 in
      tx_seq (tx_for (filter (present p) SHIPPING_FIELDS) (patch_option_column i p))
     (tx_seq (update_option i (\<lambda>r. r\<lparr>so_revision := revision, so_updated_at := now\<rparr>))
     (tx_seq (tx_ignore (enqueue_shipping_option E (m_id mrow) i revision (m_pubkey mrow)))
     (tx_bind (option_collections i) (\<lambda>cids.
      tx_seq (tx_for cids (\<lambda>c. tx_ignore (republish_collection E mrow now c)))
     (tx_bind (option_products i) (\<lambda>pids. tx_for pids (republish_referrer E mrow now))))))))"

definition patch_shipping :: "env \<Rightarrow> id \<Rightarrow> id \<Rightarrow> id \<Rightarrow> body \<Rightarrow> (db, shipping_option) proc" where
  "patch_shipping E m user i p0 =
     pr_bind (get_merchant_row m user) (\<lambda>mrow.
     pr_bind (live_option m i) (\<lambda>row.
     pr_bind (pr_lift (reject_unknown p0 (SHIPPING_FIELDS @ [''d_tag'']))) (\<lambda>_.
     pr_bind (pr_lift (validate_shipping True p0)) (\<lambda>_.
     let p = patch_option_decimals row p0 in
     pr_bind (pr_lift (check_merged E row p)) (\<lambda>_.
     pr_bind (pr_get db_clock) (\<lambda>now.
     pr_bind (commit (patch_shipping_tx E mrow row p now)) (\<lambda>_.
     get_shipping m user i)))))))"

definition republish_linked :: "env \<Rightarrow> merchant \<Rightarrow> int \<Rightarrow> (string \<times> id) list \<Rightarrow> id \<Rightarrow> (db, (string \<times> id) list) tx" where
  "republish_linked E mrow now deps c =
     tx_bind (republish_collection E mrow now c) (\<lambda>intent.
     tx_return (if intent = None then deps else deps @ [(''collections'', c)]))"

definition delete_shipping_tx :: "env \<Rightarrow> merchant \<Rightarrow> shipping_option \<Rightarrow> bool \<Rightarrow> int \<Rightarrow> (db, unit) tx" where
  "delete_shipping_tx E mrow row strip now =
     (let i = so_id row in
      tx_bind (option_products i) (\<lambda>pids.
      tx_bind (option_collections i) (\<lambda>cids.
      tx_seq (tx_assert (pids = [] \<and> cids = [] \<or> strip) referenced)
     (tx_seq (tx_ignore (sql_delete db_product_shipping_options db_product_shipping_options_update (\<lambda>r. psr_ref_id r = i)))
     (tx_seq (tx_ignore (sql_delete db_collection_shipping db_collection_shipping_update (\<lambda>r. cs_shipping_option_id r = i)))
     (tx_seq (update_option i (\<lambda>r. r\<lparr>so_deleted_at := Some now, so_revision := so_revision r + 1, so_updated_at := now\<rparr>))
     (tx_bind (sql_one db_shipping_options (\<lambda>r. so_id r = i)) (\<lambda>after.
      case after of
        None \<Rightarrow> tx_raise TypeError
      | Some r \<Rightarrow>
          tx_bind (tx_fold (republish_survivor E mrow now) [] pids) (\<lambda>deps.
          tx_bind (tx_fold (republish_linked E mrow now) deps cids) (\<lambda>deps'.
          tombstone E mrow ''shipping_options'' i (so_revision r) ''30406'' (so_d_tag row) deps')))))))))) "

definition delete_shipping :: "env \<Rightarrow> id \<Rightarrow> id \<Rightarrow> id \<Rightarrow> bool \<Rightarrow> (db, id) proc" where
  "delete_shipping E m user i strip =
     pr_bind (get_merchant_row m user) (\<lambda>mrow.
     pr_bind (live_option m i) (\<lambda>row.
     pr_bind (pr_get db_clock) (\<lambda>now.
     pr_bind (commit (delete_shipping_tx E mrow row strip now)) (\<lambda>_. pr_return i))))"

section \<open>The events of a product, without publishing them\<close>

text \<open>A stall has its d tag since its creation.\<close>

definition dry_run :: "env \<Rightarrow> merchant \<Rightarrow> product \<Rightarrow> string option \<Rightarrow> catalog \<Rightarrow> db \<Rightarrow> error + Events.unsigned_event list" where
  "dry_run E mrow p parent_d cat s =
     (let i = p_id p;
          images = filter (\<lambda>r. pi_product_id r = i) (db_images s);
          specs = filter (\<lambda>r. ps_product_id r = i) (db_specs s);
          ships = shipping_of_product i s in
      try_bind (product_event E p (m_pubkey mrow) images specs
         (map pg_category (filter (\<lambda>r. pg_product_id r = i) (db_categories s))) (collections_with_product i s)
         (map (\<lambda>(d, extra). (30406, d, extra)) ships
           @ map (\<lambda>(d, extra). (30405, d, extra)) (shipping_collections_of_product i s)) (or_empty parent_d)) (\<lambda>gamma.
      if \<not> cat_publish_nip15 cat then Inr [gamma]
      else try_bind (try_map_error (\<lambda>e. if e = CompatibilityError then unprocessable ''currency-mismatch'' else e)
          (nip15_product_event E p (or_empty (cat_nip15_stall_d cat)) (or_empty (cat_default_currency cat)) parent_d
             images specs ships)) (\<lambda>nip15. Inr [gamma, nip15])))"

definition product_events :: "env \<Rightarrow> id \<Rightarrow> id \<Rightarrow> id \<Rightarrow> (db, Events.unsigned_event list) proc" where
  "product_events E m user i =
     pr_bind (get_merchant_row m user) (\<lambda>mrow.
     pr_bind (live_product m i) (\<lambda>p.
     if p_draft p then pr_return []
     else
       pr_bind (if p_product_type p = ''variation''
          then pr_bind (fetch_scoped db_products (\<lambda>q. Some (p_id q) = p_parent_product_id p \<and> p_merchant_id q = m))
                 (\<lambda>q. pr_return (Some (p_d_tag q)))
          else pr_return None) (\<lambda>parent_d.
       pr_bind (fetch_scoped db_catalogs (\<lambda>c. cat_id c = p_catalog_id p \<and> cat_merchant_id c = m)) (\<lambda>cat.
       pr_bind (pr_get (dry_run E mrow p parent_d cat)) pr_lift))))"

end
