(* ===== verification/CatalogLaws.thy ===== *)
theory CatalogLaws
  imports CatalogShipping Commerce
begin

text \<open>
  What holds of the catalog under every interleaving of its handlers with the order services: the
  stock ledger stays balanced when the merchant edits stock, every product row stays well formed,
  and every live variation has a variable parent of its own merchant. The handlers write products
  through few statements; the interface \<open>product_invariant\<close> names what an invariant has to
  survive, and each invariant is one interpretation of it.
\<close>

section \<open>What a handler leaves alone\<close>

definition product_table :: "db \<Rightarrow> product list \<times> reservation list" where
  "product_table s = (db_products s, db_reservations s)"

lemma product_table_other [simp]:
  "product_table (db_outbox_update g1 s) = product_table s"
  "product_table (db_outbox_deps_update g2 s) = product_table s"
  "product_table (db_draws_update g3 s) = product_table s"
  "product_table (db_collections_update g4 s) = product_table s"
  "product_table (db_product_collections_update g5 s) = product_table s"
  "product_table (db_product_shipping_options_update g6 s) = product_table s"
  "product_table (db_product_shipping_collections_update g7 s) = product_table s"
  "product_table (db_collection_shipping_update g8 s) = product_table s"
  "product_table (db_shipping_options_update g9 s) = product_table s"
  "product_table (db_catalogs_update g10 s) = product_table s"
  "product_table (db_images_update g11 s) = product_table s"
  "product_table (db_specs_update g12 s) = product_table s"
  "product_table (db_categories_update g13 s) = product_table s"
  "product_table (db_clock_update g14 s) = product_table s"
  by (simp_all add: product_table_def)

text \<open>The writes every handler may make: revision, time stamps, deletion, delivery content.\<close>

definition housekept :: "(product \<Rightarrow> product) \<Rightarrow> bool" where
  "housekept f \<longleftrightarrow> (\<forall>p. \<exists>rv up del pub enc. f p = p\<lparr>p_revision := rv, p_updated_at := up, p_deleted_at := del,
     p_published_at := pub, p_delivery_enc := enc\<rparr> \<and> (del = p_deleted_at p \<or> del \<noteq> None))"

lemma housekept_writes:
  assumes "\<And>p. f p = p\<lparr>p_revision := r p, p_updated_at := u p, p_deleted_at := d p, p_published_at := b p, p_delivery_enc := e p\<rparr>"
    and "\<And>p. d p = p_deleted_at p \<or> d p \<noteq> None"
  shows "housekept f"
  unfolding housekept_def
proof
  fix p
  show "\<exists>rv up del pub enc. f p = p\<lparr>p_revision := rv, p_updated_at := up, p_deleted_at := del,
     p_published_at := pub, p_delivery_enc := enc\<rparr> \<and> (del = p_deleted_at p \<or> del \<noteq> None)"
    using assms [of p] by blast
qed

lemma housekept_bump: "housekept (\<lambda>p. p\<lparr>p_revision := r p, p_updated_at := u p\<rparr>)"
  by (rule housekept_writes [where r = r and u = u and d = p_deleted_at and b = p_published_at and e = p_delivery_enc]) simp_all

lemma housekept_delete: "housekept (\<lambda>p. p\<lparr>p_deleted_at := Some d, p_updated_at := u p, p_revision := r p\<rparr>)"
  by (rule housekept_writes [where r = r and u = u and d = "\<lambda>_. Some d" and b = p_published_at and e = p_delivery_enc]) simp_all

lemma housekept_publish: "housekept (\<lambda>p. p\<lparr>p_published_at := b\<rparr>)"
  by (rule housekept_writes [where r = p_revision and u = p_updated_at and d = p_deleted_at and b = "\<lambda>_. b" and e = p_delivery_enc]) simp_all

lemma housekept_delivery: "housekept (\<lambda>p. p\<lparr>p_delivery_enc := e\<rparr>)"
  by (rule housekept_writes [where r = p_revision and u = p_updated_at and d = p_deleted_at and b = p_published_at and e = "\<lambda>_. e"]) simp_all

lemma housekeptE:
  assumes "housekept f"
  obtains rv up del pub enc where "f p = p\<lparr>p_revision := rv, p_updated_at := up, p_deleted_at := del,
     p_published_at := pub, p_delivery_enc := enc\<rparr>" "del = p_deleted_at p \<or> del \<noteq> None"
  using assms unfolding housekept_def by blast

lemmas catalog_inv_rules = tx_inv_return tx_inv_bind tx_inv_seq tx_inv_ignore tx_inv_when tx_inv_if
  tx_inv_option tx_inv_for tx_inv_fold

lemma tx_inv_lift: "(\<And>a. r = Inr a \<Longrightarrow> tx_inv I (k a)) \<Longrightarrow> tx_inv I (tx_bind (tx_lift r) k)"
  by (rule tx_invI) (auto simp: tx_bind_Inr dest: tx_invD)

lemma tx_inv_write_columns:
  assumes "\<And>f v g. (f, v) \<in> set cols \<Longrightarrow> column f v = Inr g \<Longrightarrow> tx_inv I (write g)"
  shows "tx_inv I (write_columns column write cols)"
  unfolding write_columns_def
  by (rule tx_inv_for) (auto intro!: tx_inv_lift assms)

section \<open>The interface\<close>

locale product_invariant =
  fixes I :: "db \<Rightarrow> bool"
  assumes frame: "product_table t = product_table s \<Longrightarrow> I s \<Longrightarrow> I t"
    and housekeeping: "housekept f \<Longrightarrow> tx_inv I (write_product i f)"
begin

lemma aside: "tx_keeps product_table m \<Longrightarrow> tx_inv I m"
  by (rule tx_invI) (metis frame tx_keepsD)

lemma enqueue: "tx_inv I (enqueue_product E m i rv pk)" "tx_inv I (enqueue_collection E m c rv pk)"
  "tx_inv I (enqueue_shipping_option E m c rv pk)" "tx_inv I (enqueue_stall_if_enabled E m c pk)"
  "tx_inv I (tombstone E mrow ag i n kind d deps)"
proof -
  have published: "tx_inv I (tx_bind (sql_update db_products db_products_update products_ok (\<lambda>q. p_id q = i)
      (\<lambda>q. q\<lparr>p_published_at := Some t\<rparr>)) (\<lambda>_. tx_return ()))" for t
    using housekeeping [OF housekept_publish, of i "Some t"]
    by (simp add: write_product_def update_product_def tx_ignore_def)
  show "tx_inv I (enqueue_product E m i rv pk)"
    unfolding enqueue_product_def collections_of_product_def product_shipping_refs_def
    by (intro catalog_inv_rules published) (auto intro!: aside keeps keeps_sql)
qed (auto intro!: aside keeps keeps_sql simp: tombstone_def)

lemma republish: "tx_inv I (republish_collection E mrow now c)" "tx_inv I (drop_member E mrow now deps c)"
  "tx_inv I (republish_bulk_collections E m cs pk now)" "tx_inv I (republish_linked E mrow now deps c)"
proof -
  show *: "tx_inv I (republish_collection E mrow now c)"
    unfolding republish_collection_def bump_collection_def
    by (intro catalog_inv_rules enqueue) (auto intro!: aside keeps keeps_sql)
  show "tx_inv I (drop_member E mrow now deps c)" "tx_inv I (republish_linked E mrow now deps c)"
    unfolding drop_member_def republish_linked_def
    by (intro catalog_inv_rules * enqueue; auto intro!: aside keeps keeps_sql)+
  show "tx_inv I (republish_bulk_collections E m cs pk now)" by (auto intro!: aside keeps keeps_sql)
qed

lemma survivors: "tx_inv I (republish_survivor E mrow now deps i)" "tx_inv I (republish_referrer E mrow now i)"
  unfolding republish_survivor_def republish_referrer_def
  by (intro catalog_inv_rules enqueue housekeeping housekept_bump; auto intro!: aside keeps keeps_sql)+

lemma details: "tx_inv I (replace_product_details E m i p)" "tx_inv I (delete_details i)"
  "tx_inv I (validate_variation m ty parent)" "tx_inv I (delivery_enc E i fmt v)"
proof -
  show "tx_inv I (replace_product_details E m i p)"
    unfolding replace_product_details_def replace_images_def insert_image_def replace_specs_def insert_spec_def
      replace_categories_def insert_category_def replace_memberships_def own_collection_def leave_collections_def
      join_collection_def replace_refs_def
    by (intro aside keeps keeps_sql; simp)
  show "tx_inv I (delete_details i)" "tx_inv I (validate_variation m ty parent)"
    unfolding delete_details_def leave_collections_def validate_variation_def
    by (intro aside keeps keeps_sql; simp)+
  have "tx_keeps product_table (delivery_enc E i fmt v)"
    unfolding delivery_enc_def by (cases v) (auto intro!: keeps)
  then show "tx_inv I (delivery_enc E i fmt v)" by (rule aside)
qed

lemma set_delivery: "tx_inv I (set_delivery i enc)"
  using housekeeping [OF housekept_delivery] by (simp add: set_delivery_def write_product_def)

lemma deletion: "tx_inv I (delete_product_locked E mrow i)"
  unfolding delete_product_locked_def collections_of_product_def
  by (intro catalog_inv_rules enqueue republish details housekeeping housekept_delete) (auto intro!: aside keeps keeps_sql)

lemma images: "tx_inv I (add_product_image_tx E mrow row p)"
  unfolding add_product_image_tx_def Let_def insert_image_def bump_product_def
  by (intro catalog_inv_rules enqueue housekeeping housekept_bump) (auto intro!: aside keeps keeps_sql)

lemma catalogs: "tx_inv I (sql_insert db_catalogs_update catalogs_ok row)" "tx_inv I (patch_catalog_tx E mrow i updates)"
  "tx_inv I (delete_catalog_tx i)"
  unfolding patch_catalog_tx_def write_columns_def update_catalog_def delete_catalog_tx_def
  by ((intro catalog_inv_rules enqueue)?; auto intro!: aside keeps keeps_sql)+

lemma collections: "tx_inv I (create_collection_tx E blank cols options)" "tx_inv I (patch_collection_tx E mrow row p now)"
  "tx_inv I (delete_collection_locked E mrow c strip)"
  unfolding create_collection_tx_def check_free_def link_options_def link_option_def patch_collection_tx_def Let_def
    patch_collection_column_def update_collection_def unlink_options_def delete_collection_locked_def
    collection_references_def
  by (intro catalog_inv_rules enqueue survivors; auto intro!: aside keeps keeps_sql)+

lemma options: "tx_inv I (create_shipping_tx E mrow r cols)" "tx_inv I (patch_shipping_tx E mrow r p now)"
  "tx_inv I (delete_shipping_tx E mrow r strip now)"
  unfolding create_shipping_tx_def check_free_def patch_shipping_tx_def delete_shipping_tx_def Let_def patch_option_column_def
    update_option_def option_collections_def option_products_def
  by (intro catalog_inv_rules enqueue republish survivors; auto intro!: aside keeps keeps_sql)+

lemma bulk:
  assumes "\<And>row f i now. bulk_change action row = Inr f \<Longrightarrow>
    tx_inv I (write_product i (\<lambda>p. (f p)\<lparr>p_revision := p_revision p + 1, p_updated_at := now\<rparr>))"
  shows "tx_inv I (bulk_tx E mrow action ids now)"
proof -
  have one: "tx_inv I (bulk_update_one E action now row)" for row
    unfolding bulk_update_one_def leave_collections_def join_collection_def
    by (intro tx_inv_lift tx_inv_seq assms) (auto intro!: aside keeps keeps_sql split: bulk_action.split)
  have publish: "tx_inv I (bulk_publish_one E mrow action deps row)" for deps row
    unfolding bulk_publish_one_def by (intro catalog_inv_rules enqueue) (auto intro!: aside keeps)
  have target: "tx_inv I (check_move_target m action rows)" for m rows
    unfolding check_move_target_def by (cases action) (auto intro!: aside keeps)
  show ?thesis
    unfolding bulk_tx_def bulk_rows_def collections_of_product_def
    by (intro catalog_inv_rules one publish target deletion republish) (auto intro!: aside keeps)
qed

lemma tail: "tx_inv I (patch_tail E mrow row p now)"
  unfolding patch_tail_def Let_def collections_of_product_def bump_product_def
  by (intro catalog_inv_rules enqueue republish details housekeeping housekept_bump set_delivery) (auto intro!: aside keeps)

lemma variation: "tx_inv I (patch_variation m i p ty parent cols)"
  unfolding patch_variation_def by (intro catalog_inv_rules details) (auto intro!: aside keeps)

lemma creation:
  assumes "tx_inv I (insert_product E mrow p blank)"
  shows "tx_inv I (create_product_tx E mrow p blank now)"
  unfolding create_product_tx_def Let_def collections_of_product_def
  by (intro catalog_inv_rules enqueue republish details assms) (auto intro!: aside keeps)

end

section \<open>The columns a body reaches\<close>

lemma column_frame:
  assumes "product_column f v = Inr g"
  shows "p_id (g x) = p_id x" "p_merchant_id (g x) = p_merchant_id x" "p_d_tag (g x) = p_d_tag x"
    "p_format (g x) = p_format x" "p_deleted_at (g x) = p_deleted_at x"
    "f \<noteq> ''stock_reserved'' \<Longrightarrow> p_stock_reserved (g x) = p_stock_reserved x"
    "f \<noteq> ''product_type'' \<Longrightarrow> p_product_type (g x) = p_product_type x"
    "f \<noteq> ''parent_product_id'' \<Longrightarrow> p_parent_product_id (g x) = p_parent_product_id x"
  using assms
  by (auto simp: product_column_def product_texts_def product_ints_def product_reals_def set_with_def split: if_splits)

lemma fill_columns_inv:
  assumes "fill_columns column cols row = Inr r" "P row"
    and "\<And>f v g x. (f, v) \<in> set cols \<Longrightarrow> column f v = Inr g \<Longrightarrow> P x \<Longrightarrow> P (g x)"
  shows "P r"
  using assms(1,2) unfolding fill_columns_def
  by (rule try_fold_inv) (use assms(3) in auto)

lemma put_member_set: "kv \<in> set (put_member kvs new) \<Longrightarrow> kv \<in> set kvs \<or> kv = new"
  by (auto simp: put_member_def split: if_splits)

text \<open>Where a column write of a patch or a creation comes from.\<close>

definition from_body :: "body \<Rightarrow> string \<times> json \<Rightarrow> bool" where
  "from_body p fv \<longleftrightarrow> fst fv \<in> set PRODUCT_FIELDS \<and> present p (fst fv) \<and> product_field p (fst fv) = Inr (snd fv)"

lemma sanitized_from_body:
  assumes "sanitize_product_fields p = Inr cols"
  shows "\<forall>fv \<in> set cols. from_body p fv"
  using assms unfolding sanitize_product_fields_def
  by (rule try_fold_inv) (auto simp: add_field_def from_body_def)

definition defaulted :: "string \<times> json \<Rightarrow> bool" where
  "defaulted fv \<longleftrightarrow> (\<exists>c. fv = (''currency_decimals'', JInt (default_currency_decimals c)))"

lemma product_row_inv:
  assumes "product_row p blank = Inr r" "P blank"
    and "\<And>f v g x. from_body p (f, v) \<or> defaulted (f, v) \<Longrightarrow> product_column f v = Inr g \<Longrightarrow> P x \<Longrightarrow> P (g x)"
  shows "P r"
proof -
  obtain cols where c: "sanitize_product_fields p = Inr cols"
    and r: "fill_columns product_column (if arg cols ''currency_decimals'' = JNull
       then with_default_decimals cols (currency_arg cols) else cols) blank = Inr r"
    using assms(1) by (auto simp: product_row_def)
  have "from_body p fv \<or> defaulted fv" if "fv \<in> set (if arg cols ''currency_decimals'' = JNull
       then with_default_decimals cols (currency_arg cols) else cols)" for fv
    using that sanitized_from_body [OF c]
    by (auto simp: with_default_decimals_def defaulted_def split: if_splits dest!: put_member_set)
  then show ?thesis using fill_columns_inv [where P = P, OF r assms(2)] assms(3) by blast
qed

definition patched :: "body \<Rightarrow> string \<Rightarrow> id option \<Rightarrow> string \<times> json \<Rightarrow> bool" where
  "patched p new_type pid fv \<longleftrightarrow> from_body p fv \<or> defaulted fv \<or> fv = (''product_type'', JStr new_type)
     \<or> fv = (''parent_product_id'', or_null JStr pid) \<or> (\<exists>st \<in> set NIP99_STATUSES. fv = (''nip99_status'', JStr st))"

lemma patch_decimals_from:
  assumes "sanitize_product_fields p = Inr cols" "fv \<in> set (patch_decimals row cols)"
  shows "from_body p fv \<or> defaulted fv"
  using assms(2) sanitized_from_body [OF assms(1)]
  by (auto simp: patch_decimals_def with_default_decimals_def defaulted_def split: if_splits dest!: put_member_set)

lemma stock_status_from:
  assumes "stock_status row cols1 = Inr cols" "fv \<in> set cols"
  shows "fv \<in> set cols1 \<or> (\<exists>st \<in> set NIP99_STATUSES. fv = (''nip99_status'', JStr st))"
  using assms by (auto simp: stock_status_def Let_def NIP99_STATUSES_def split: if_splits json.splits)

lemma validate_variation_run:
  assumes "validate_variation m ty parent s = Inr (pid, t)"
  shows "t = s" "ty \<noteq> ''variation'' \<Longrightarrow> pid = None"
    "ty = ''variation'' \<Longrightarrow> \<exists>q \<in> set (db_products s). pid = Some (p_id q) \<and> parent = JStr (p_id q)
       \<and> p_merchant_id q = m \<and> p_product_type q = ''variable''"
proof -
  show "t = s" "ty \<noteq> ''variation'' \<Longrightarrow> pid = None"
    using assms by (auto simp: validate_variation_def tx_Inr split: if_splits option.splits)
  assume "ty = ''variation''"
  then obtain i q where i: "text_col parent = Inr i" "pid = i"
    and q: "List.find (\<lambda>p. Some (p_id p) = i \<and> p_merchant_id p = m) (db_products s) = Some q" "p_product_type q = ''variable''"
    using assms by (auto simp: validate_variation_def tx_Inr split: if_splits option.splits)
  have "parent = JStr (p_id q)" using i q by (auto simp: text_col_def find_Some_iff split: json.splits)
  with i q show "\<exists>q \<in> set (db_products s). pid = Some (p_id q) \<and> parent = JStr (p_id q)
       \<and> p_merchant_id q = m \<and> p_product_type q = ''variable''"
    by (auto simp: find_Some_iff)
qed

text \<open>A patch that touches the variation settles on a parent; the reads leave the state alone.\<close>

definition settled :: "id \<Rightarrow> id \<Rightarrow> string \<Rightarrow> json \<Rightarrow> id option \<Rightarrow> db \<Rightarrow> bool" where
  "settled m i new_type parent pid s \<longleftrightarrow> validate_variation m new_type parent s = Inr (pid, s)
     \<and> (new_type = ''variation'' \<or> (\<forall>q \<in> set (db_products s). p_parent_product_id q = Some i \<longrightarrow> p_deleted_at q \<noteq> None))"

lemma patch_variation_run:
  assumes "patch_variation m i p new_type parent cols s = Inr (cols1, t)"
  shows "t = s \<and> (cols1 = cols \<or> (\<exists>pid. settled m i new_type parent pid s
    \<and> cols1 = put_member (put_member cols (''product_type'', JStr new_type)) (''parent_product_id'', or_null JStr pid)))"
proof (cases "present p ''product_type'' \<or> present p ''parent_product_id''")
  case True
  then have c: "(\<not> present p ''product_type'' \<and> \<not> present p ''parent_product_id'') = False" by blast
  obtain pid u where v: "validate_variation m new_type parent s = Inr (pid, u)"
    and rest: "new_type = ''variation'' \<or> filter (\<lambda>q. p_parent_product_id q = Some i \<and> p_deleted_at q = None) (db_products u) = []"
      "cols1 = put_member (put_member cols (''product_type'', JStr new_type)) (''parent_product_id'', or_null JStr pid)" "t = u"
    using assms that unfolding patch_variation_def c by (simp add: tx_Inr) blast
  then show ?thesis using validate_variation_run(1) [OF v] by (auto simp: settled_def filter_empty_conv)
qed (use assms in \<open>auto simp: patch_variation_def\<close>)

lemma patch_writes:
  assumes run: "patch_product_tx E mrow row p new_type parent (patch_decimals row cols0) now s = Inr ((), t)"
    and cols0: "sanitize_product_fields p = Inr cols0"
  shows "\<exists>pid cols u. write_columns product_column (write_product (p_id row)) cols s = Inr ((), u)
    \<and> patch_tail E mrow row p now u = Inr ((), t)
    \<and> (\<forall>fv \<in> set cols. patched p new_type pid fv)
    \<and> (settled (m_id mrow) (p_id row) new_type parent pid s
      \<or> (\<forall>fv \<in> set cols. from_body p fv \<or> defaulted fv \<or> (\<exists>st \<in> set NIP99_STATUSES. fv = (''nip99_status'', JStr st))))"
proof -
  obtain cols1 s1 cols u where v: "patch_variation (m_id mrow) (p_id row) p new_type parent (patch_decimals row cols0) s = Inr (cols1, s1)"
    and st: "stock_status row cols1 = Inr cols"
    and w: "write_columns product_column (write_product (p_id row)) cols s1 = Inr ((), u)" "patch_tail E mrow row p now u = Inr ((), t)"
    using run by (auto simp: patch_product_tx_def tx_Inr)
  note from_decimals = patch_decimals_from [OF cols0]
  have s1: "s1 = s" using patch_variation_run [OF v] by blast
  consider "cols1 = patch_decimals row cols0"
    | pid where "settled (m_id mrow) (p_id row) new_type parent pid s"
      "cols1 = put_member (put_member (patch_decimals row cols0) (''product_type'', JStr new_type)) (''parent_product_id'', or_null JStr pid)"
    using patch_variation_run [OF v] by blast
  then show ?thesis
  proof cases
    case 1
    then have "\<forall>fv \<in> set cols. from_body p fv \<or> defaulted fv \<or> (\<exists>st \<in> set NIP99_STATUSES. fv = (''nip99_status'', JStr st))"
      using stock_status_from [OF st] from_decimals by blast
    with w show ?thesis unfolding s1 patched_def by blast
  next
    case 2
    have "patched p new_type pid fv" if "fv \<in> set cols" for fv
      using stock_status_from [OF st that] from_decimals 2(2) unfolding patched_def by (blast dest: put_member_set)
    with w 2(1) show ?thesis unfolding s1 by blast
  qed
qed

section \<open>Steps\<close>

text \<open>
  The transactions of the catalog handlers, with what a handler has checked of the body before
  it opens the transaction. \<open>R\<close> are the product rows handlers have read, however long ago.
\<close>

inductive catalog_tx :: "env \<Rightarrow> product set \<Rightarrow> (db, unit) tx \<Rightarrow> bool" for E R where
  new_catalog: "catalog_tx E R (sql_insert db_catalogs_update catalogs_ok cat_row)"
| edit_catalog: "catalog_tx E R (patch_catalog_tx E mrow i updates)"
| drop_catalog: "catalog_tx E R (delete_catalog_tx i)"
| new_product: "validate_product False p = Inr () \<Longrightarrow> check_d_tag d = Inr d_tag \<Longrightarrow>
    catalog_tx E R (create_product_tx E mrow p (\<lambda>parent. blank_product i (m_id mrow) cat d_tag
      (text_arg p ''product_type'' ''simple'') (text_arg p ''format'' ''physical'') parent now) now)"
| edit_product: "row \<in> R \<Longrightarrow> p_merchant_id row = m_id mrow \<Longrightarrow> validate_product True p = Inr () \<Longrightarrow>
    sanitize_product_fields p = Inr cols \<Longrightarrow> parent \<noteq> JStr (p_id row) \<Longrightarrow>
    catalog_tx E R (patch_product_tx E mrow row p (text_arg p ''product_type'' (p_product_type row)) parent
      (patch_decimals row cols) now)"
| new_image: "row \<in> R \<Longrightarrow> catalog_tx E R (add_product_image_tx E mrow row p)"
| drop_product: "catalog_tx E R (delete_product_locked E mrow i)"
| bulk_edit: "bulk_action_of E K a v = Inr action \<Longrightarrow> catalog_tx E R (bulk_tx E mrow action ids now)"
| new_collection: "catalog_tx E R (create_collection_tx E blank ccols opts)"
| edit_collection: "catalog_tx E R (patch_collection_tx E mrow crow p now)"
| drop_collection: "catalog_tx E R (delete_collection_locked E mrow i strip)"
| new_option: "catalog_tx E R (create_shipping_tx E mrow blank_o ocols)"
| edit_option: "catalog_tx E R (patch_shipping_tx E mrow orow p now)"
| drop_option: "catalog_tx E R (delete_shipping_tx E mrow orow strip now)"

text \<open>
  What the order services leave of a product row: all but its stock, its first publication and
  the revision they raise with the stock.
\<close>

definition merchant_part :: "product \<Rightarrow> product" where
  "merchant_part p = p\<lparr>p_stock_on_hand := None, p_stock_reserved := 0, p_published_at := None, p_revision := 0,
     p_updated_at := 0\<rparr>"

definition merchant_rows :: "db \<Rightarrow> product list" where
  "merchant_rows s = map merchant_part (db_products s)"

lemma merchant_rows_other [simp]:
  "merchant_rows (db_outbox_update g1 s) = merchant_rows s"
  "merchant_rows (db_outbox_deps_update g2 s) = merchant_rows s"
  "merchant_rows (db_draws_update g3 s) = merchant_rows s"
  "merchant_rows (db_messages_update g4 s) = merchant_rows s"
  "merchant_rows (db_orders_update g5 s) = merchant_rows s"
  "merchant_rows (db_events_update g6 s) = merchant_rows s"
  "merchant_rows (db_emails_update g7 s) = merchant_rows s"
  "merchant_rows (db_payments_update g8 s) = merchant_rows s"
  "merchant_rows (db_idempotency_update g9 s) = merchant_rows s"
  "merchant_rows (db_items_update g10 s) = merchant_rows s"
  "merchant_rows (db_fx_quotes_update g11 s) = merchant_rows s"
  "merchant_rows (db_fulfillment_update g12 s) = merchant_rows s"
  "merchant_rows (db_reservations_update g13 s) = merchant_rows s"
  "merchant_rows (db_buckets_update g14 s) = merchant_rows s"
  "merchant_rows (db_inbox_update g15 s) = merchant_rows s"
  "merchant_rows (db_publications_update g16 s) = merchant_rows s"
  "merchant_rows (db_addresses_update g17 s) = merchant_rows s"
  "merchant_rows (db_merchants_update g18 s) = merchant_rows s"
  "merchant_rows (db_settings_update g19 s) = merchant_rows s"
  "merchant_rows (db_peer_relays_update g21 s) = merchant_rows s"
  "merchant_rows (db_clock_update g20 s) = merchant_rows s"
  by (simp_all add: merchant_rows_def)

lemma rows_update:
  "(\<And>p. merchant_part (g p) = merchant_part p) \<Longrightarrow> tx_keeps merchant_rows (sql_update db_products db_products_update ok P g)"
  by (rule tx_keepsI) (auto simp: sql_Inr merchant_rows_def map_upd_rows)

lemma rows_publish: "tx_keeps merchant_rows (enqueue_stock_projection E i)"
  by (rule keeps_enqueue_stock_projection) (auto intro!: rows_update simp: merchant_part_def)

lemma rows_transition: "tx_keeps merchant_rows (transition_order E i t fr actor reason detail now)"
  "tx_keeps merchant_rows (insert_event E i fr2 st a d now)" "tx_keeps merchant_rows (annotate E i a d now)"
  by (intro keeps_transition_order keeps_insert_event; simp)+

lemma rows_other: "tx_keeps merchant_rows (update_order i f)"
    "tx_keeps merchant_rows (notify E k ev now)" "tx_keeps merchant_rows (update_payment i sts g)"
    "tx_keeps merchant_rows (email_for_order E k ev ctx now)"
    "tx_keeps merchant_rows (find_order i)" "tx_keeps merchant_rows (order_row_tx i)"
    "tx_keeps merchant_rows (attach_projection E i core)"
  by (intro keeps keeps_update_order_other; simp)+

lemma rows_reservations: "tx_keeps merchant_rows (release_reservations E i st now)"
  "tx_keeps merchant_rows (consume_held i now)" "tx_keeps merchant_rows (flip_reservation i st now)"
  unfolding release_reservations_def release_one_def consume_held_def consume_one_def flip_reservation_def update_product_def
  by (intro keeps keeps_sql rows_update rows_publish; simp add: merchant_part_def)+

lemma rows_saga: "tx_keeps merchant_rows (claim_tx E i its m w amt now)"
    "tx_keeps merchant_rows (attach_tx E i core ex now)"
    "tx_keeps merchant_rows (mark_rejection E i st now)"
    "tx_keeps merchant_rows (mark_unknown i now r)"
  unfolding claim_tx_def reserve_one_def hold_one_def insert_projection_def attach_tx_def
    extend_held_def mark_rejection_def mark_unknown_def
  by (intro rows_transition rows_reservations rows_other rows_update rows_publish keeps keeps_sql; simp add: merchant_part_def)+

lemma rows_settlement: "tx_keeps merchant_rows (confirm_settlement E i source now)"
    "tx_keeps merchant_rows (flag_exception E i reason source now)"
    "tx_keeps merchant_rows (expire_order E i now)"
    "tx_keeps merchant_rows (expire_projection i)"
    "tx_keeps merchant_rows (resolve_accept E i rs actor now)"
    "tx_keeps merchant_rows (resolve_refund E i actor ref now)"
    "tx_keeps merchant_rows (resolve_confirm_refund E i actor ref now)"
    "tx_keeps merchant_rows (cancel_order E i actor rs ctx)"
  unfolding confirm_settlement_def flag_exception_def expire_order_def expire_projection_def
    resolve_accept_def accept_item_def resolve_refund_def resolve_confirm_refund_def
    cancel_order_def update_product_def Let_def
  by (intro rows_transition rows_reservations rows_other rows_update rows_publish keeps keeps_sql; simp add: merchant_part_def)+

lemma rows_admin: "tx_keeps merchant_rows (set_status_tx E m i v now)"
    "tx_keeps merchant_rows (set_shipping_tx E m i sh tr ca et now)"
    "tx_keeps merchant_rows (bulk_archive_tx m ids)" "tx_keeps merchant_rows (bulk_restore_tx m ids)"
    "tx_keeps merchant_rows (reissue_tx E i token enc now)"
    "tx_keeps merchant_rows (retention_tx now)" "tx_keeps merchant_rows (write_mode m v)"
  unfolding set_status_tx_def set_shipping_tx_def bulk_archive_tx_def bulk_restore_tx_def
    reissue_tx_def retention_defs
  by (intro rows_transition rows_other keeps keeps_sql keeps_write_mode; simp)+

lemma rows_intake: "tx_keeps merchant_rows (insert_order_intake E m k priced n opt scope token now)"
    "tx_keeps merchant_rows (insert_gamma_order_intake E m i g buyer rumor priced n opt now)"
  unfolding insert_order_intake_def insert_gamma_order_intake_def intake_rows_def Let_def
  by (intro rows_transition rows_other keeps keeps_sql; simp)+

lemma rows_queue: "tx_keeps merchant_rows (claim_batch E now w l)"
    "tx_keeps merchant_rows (cas_state row st now na e)"
    "tx_keeps merchant_rows (record_publications E i copy ev n rs now)"
    "tx_keeps merchant_rows (recover_stale_claims E now)" "tx_keeps merchant_rows (retry_intent m i)"
    "tx_keeps merchant_rows (enqueue_payment_request E k b x)"
    "tx_keeps merchant_rows (attributed_request E i res)" "tx_keeps merchant_rows (gamma_request E i res)"
    "tx_keeps merchant_rows (claim_idempotency scope h now)"
    "tx_keeps merchant_rows (complete_idempotency E scope i c body token)"
    "tx_keeps merchant_rows (fail_idempotency scope token)"
    "tx_keeps merchant_rows (notify_context E k)" "tx_keeps merchant_rows draw"
    "tx_keeps merchant_rows (seal_column E r tb cl p)" "tx_keeps merchant_rows (new_uuid E)"
  by (intro keeps; simp)+

text \<open>A transaction of the services keeps these rows; of what is elsewhere that is asked.\<close>

lemma rows_service:
  "service_tx E m \<Longrightarrow> (tx_keeps ledgers m \<Longrightarrow> tx_keeps merchant_rows m) \<Longrightarrow> tx_keeps merchant_rows m"
  by (induction rule: service_tx.induct)
    ((rule tx_keeps_ignore, rule rows_saga rows_settlement rows_admin rows_intake rows_queue rows_reservations)
     | blast)+

inductive shop_step :: "env \<Rightarrow> db \<times> product set \<Rightarrow> db \<times> product set \<Rightarrow> bool" for E where
  waits: "db_clock s \<le> t \<Longrightarrow> shop_step E (s, R) (s\<lparr>db_clock := t\<rparr>, R)"
| reads: "p \<in> set (db_products s) \<Longrightarrow> shop_step E (s, R) (s, insert p R)"
| edits: "catalog_tx E R m \<Longrightarrow> m s = Inr ((), t) \<Longrightarrow> shop_step E (s, R) (t, R)"
| orders: "service_tx E m \<Longrightarrow> (tx_keeps ledgers m \<Longrightarrow> tx_keeps merchant_rows m) \<Longrightarrow> m s = Inr ((), t) \<Longrightarrow>
    shop_step E (s, R) (t, R)"

definition empty_shop :: "db \<Rightarrow> bool" where
  "empty_shop s \<longleftrightarrow> new_shop s \<and> db_products s = []"

section \<open>Validated bodies\<close>

lemma validated_product:
  assumes "validate_product part p = Inr ()"
  shows "present p ''product_type'' \<Longrightarrow> choice PRODUCT_TYPES (arg p ''product_type'')"
    "present p ''format'' \<Longrightarrow> choice FORMATS (arg p ''format'')"
    "present p ''visibility'' \<Longrightarrow> choice VISIBILITIES (arg p ''visibility'')"
    "present p ''nip99_status'' \<Longrightarrow> choice NIP99_STATUSES (arg p ''nip99_status'')"
    "arg p ''recurring_frequency'' \<noteq> JNull \<Longrightarrow> choice FREQ_UNITS (arg p ''recurring_frequency'')"
    "int64_value (arg p ''amount_minor'')" "reserved_value part p"
    "present p ''currency'' \<Longrightarrow> check_currency (arg p ''currency'') (arg p ''currency_decimals'') = Inr ()"
  using assms by (auto simp: validate_product_def check_if_def present_choice_def list_all_iff)

lemma absent_arg: "\<not> present p k \<Longrightarrow> arg p k = JNull"
  by (auto simp: present_def arg_def json_member_def split: option.split dest!: map_of_SomeD intro: rev_image_eqI)

lemma patched_reserved:
  assumes "validate_product True p = Inr ()" "patched p ty pid (f, v)"
  shows "f \<noteq> ''stock_reserved''"
  using assms(2) validated_product(7) [OF assms(1)]
  by (auto simp: patched_def from_body_def defaulted_def reserved_value_def)

section \<open>The stock ledger\<close>

interpretation stock: product_invariant stock_ok
proof unfold_locales
  fix s t
  assume "product_table t = product_table s" "stock_ok s"
  then show "stock_ok t" by (simp add: product_table_def stock_ok_def stock_view_def)
next
  fix f :: "product \<Rightarrow> product" and i
  assume f: "housekept f"
  have "p_id (f p) = p_id p \<and> p_stock_reserved (f p) = p_stock_reserved p" for p
    by (rule housekeptE [OF f, of p]) simp
  then show "tx_inv stock_ok (write_product i f)"
    unfolding write_product_def by (intro tx_inv_ignore stock_update_on_hand) simp_all
qed

lemma stock_write:
  assumes "product_column f v = Inr g" "f \<noteq> ''stock_reserved''"
  shows "tx_inv stock_ok (write_product i g)"
  unfolding write_product_def using column_frame [OF assms(1)] assms(2)
  by (intro tx_inv_ignore stock_update_on_hand) simp_all

lemma held_qty_none: "(\<And>r. r \<in> set rs \<Longrightarrow> r_product_id r \<noteq> i) \<Longrightarrow> held_qty rs i = 0"
  by (induction rs) (auto simp: held_qty_Cons)

lemma stock_new_row:
  assumes "p_stock_reserved row = 0"
  shows "tx_inv stock_ok (sql_insert db_products_update products_ok row)"
proof (rule tx_invI)
  fix s u t
  assume ok: "stock_ok s" and run: "sql_insert db_products_update products_ok row s = Inr (u, t)"
  have t: "t = db_products_update (\<lambda>ps. ps @ [row]) s" and new: "products_ok t" using run by (auto simp: sql_Inr)
  have bal: "off_by (\<lambda>_. 0) (stock_view s)" using ok by (simp add: stock_ok_def balanced_def)
  have "p_id row \<notin> p_id ` set (db_products s)" and fits: "fits (p_stock_on_hand row) (p_stock_reserved row)"
    using new by (auto simp: t products_ok_def intro: checked_within)
  moreover then have "held_qty (db_reservations s) (p_id row) = 0"
    using bal unfolding off_by_tables by (intro held_qty_none) metis
  ultimately show "stock_ok t"
    using bal assms by (auto simp: stock_ok_def balanced_def t off_by_tables)
qed

lemma row_unreserved:
  assumes "validate_product False p = Inr ()" "product_row p blank = Inr row" "p_stock_reserved blank = 0"
  shows "p_stock_reserved row = 0"
  using assms(2,3)
proof (rule product_row_inv [where P = "\<lambda>x :: product. p_stock_reserved x = 0"])
  fix f v and g :: "product \<Rightarrow> product" and x :: product
  assume from_p: "from_body p (f, v) \<or> defaulted (f, v)" and col: "product_column f v = Inr g" and x: "p_stock_reserved x = 0"
  show "p_stock_reserved (g x) = 0"
  proof (cases "f = ''stock_reserved''")
    case True
    then have "v = JInt 0" using from_p validated_product(7) [OF assms(1)]
      by (auto simp: from_body_def defaulted_def reserved_value_def product_field_def)
    with col True show ?thesis
      by (auto simp: product_column_def product_texts_def product_ints_def product_reals_def set_with_def not_null_def int_col_def)
  qed (use column_frame(6) [OF col] x in simp)
qed

lemma stock_insert:
  assumes "validate_product False p = Inr ()" "\<And>parent. p_stock_reserved (blank parent) = 0"
  shows "tx_inv stock_ok (insert_product E mrow p blank)"
proof -
  have free: "tx_inv stock_ok (tx_bind (sql_one db_products P) (\<lambda>row. tx_assert (row = None) duplicate_resource))" for P
    by (auto intro!: stock.aside keeps)
  have rest: "tx_inv stock_ok (tx_bind (delivery_enc E a b v) (\<lambda>enc. tx_when (enc \<noteq> None) (set_delivery c enc)))" for a b v c
    by (intro tx_inv_bind tx_inv_when stock.details stock.set_delivery)
  have row: "tx_inv stock_ok (sql_insert db_products_update products_ok r)" if "product_row p (blank parent) = Inr r" for r parent
    by (rule stock_new_row [OF row_unreserved [OF assms(1) that assms(2)]])
  show ?thesis
    unfolding insert_product_def Let_def check_free_def
    by (intro free rest tx_inv_lift tx_inv_seq tx_inv_bind stock.details row)
qed

lemma stock_catalog: "catalog_tx E R m \<Longrightarrow> tx_inv stock_ok m"
proof (induction rule: catalog_tx.induct)
  case (new_product p d d_tag mrow i cat now)
  show ?case by (rule stock.creation [OF stock_insert [OF new_product(1)]]) (simp add: blank_product_def)
next
  case (edit_product row mrow p cols parent now)
  show ?case
  proof (rule tx_invI)
    fix s t and u :: unit
    assume ok: "stock_ok s"
      and run: "patch_product_tx E mrow row p (text_arg p ''product_type'' (p_product_type row)) parent (patch_decimals row cols) now s = Inr (u, t)"
    obtain pid cs v where w: "write_columns product_column (write_product (p_id row)) cs s = Inr ((), v)"
      "patch_tail E mrow row p now v = Inr ((), t)"
      "\<forall>fv \<in> set cs. patched p (text_arg p ''product_type'' (p_product_type row)) pid fv"
      using patch_writes [OF _ edit_product(4)] run by (metis (full_types) old.unit.exhaust)
    have "tx_inv stock_ok (write_columns product_column (write_product (p_id row)) cs)"
      by (rule tx_inv_write_columns) (use w(3) patched_reserved [OF edit_product(3)] stock_write in blast)
    then show "stock_ok t" using ok w(1,2) stock.tail by (blast dest: tx_invD)
  qed
next
  case (bulk_edit K a v action mrow ids now)
  show ?case
  proof (rule stock.bulk)
    fix row f i now
    assume "bulk_change action row = Inr f"
    then have "p_id (f p) = p_id p \<and> p_stock_reserved (f p) = p_stock_reserved p" for p
      by (auto simp: bulk_change_def split: bulk_action.splits)
    then show "tx_inv stock_ok (write_product i (\<lambda>p. (f p)\<lparr>p_revision := p_revision p + 1, p_updated_at := now\<rparr>))"
      unfolding write_product_def by (intro tx_inv_ignore stock_update_on_hand) simp_all
  qed
qed (rule stock.catalogs stock.deletion stock.images stock.collections stock.options)+

end
