(* ===== verification/CatalogSafety.thy ===== *)
theory CatalogSafety
  imports CatalogLaws
begin

text \<open>
  The invariants of the catalog under every interleaving of its handlers with the order services:
  the stock ledger survives the merchant's edits, product rows stay well formed, and the
  variations hang below variable products of their own merchant. Each is an interpretation of
  \<open>product_invariant\<close> with the writes that are particular to it.
\<close>

section \<open>Sanitised text\<close>

definition tag_free :: "string \<Rightarrow> bool" where
  "tag_free t \<longleftrightarrow> CHR ''>'' \<notin> set (dropWhile (\<lambda>c. c \<noteq> CHR ''<'') t)"

lemma strip_tags_set: "set (strip_tags t) \<subseteq> set t"
  by (induction t rule: strip_tags.induct) (auto dest!: in_set_dropD set_dropWhileD)

lemma strip_tags_length: "length (strip_tags t) \<le> length t"
proof (induction t rule: strip_tags.induct)
  case (2 c cs)
  have "length (drop 1 (dropWhile (\<lambda>d. d \<noteq> CHR ''>'') cs)) \<le> length cs"
    by (metis diff_le_self le_trans length_drop length_dropWhile_le)
  with 2 show ?case by auto
qed simp

lemma strip_tags_free: "tag_free (strip_tags t)"
proof (induction t rule: strip_tags.induct)
  case (2 c cs)
  then show ?case using strip_tags_set [of cs] by (auto simp: tag_free_def)
qed (simp add: tag_free_def)

section \<open>Well-formed product rows\<close>

text \<open>What the validators promise of a column, and what the table's constraints do.\<close>

definition most_chars :: "nat \<Rightarrow> string option \<Rightarrow> bool" where
  "most_chars n t \<longleftrightarrow> (case t of None \<Rightarrow> True | Some x \<Rightarrow> chars x \<le> n)"

definition validated_row :: "product \<Rightarrow> bool" where
  "validated_row p \<longleftrightarrow> most_chars TITLE_MAX (p_title p) \<and> most_chars SUMMARY_MAX (p_summary p)
     \<and> (case p_description_md p of None \<Rightarrow> True | Some t \<Rightarrow> tag_free t \<and> length t \<le> DESC_MAX)
     \<and> p_product_type p \<in> set PRODUCT_TYPES \<and> p_format p \<in> set FORMATS
     \<and> p_visibility p \<in> set VISIBILITIES \<and> p_nip99_status p \<in> set NIP99_STATUSES
     \<and> (case p_recurring_frequency p of None \<Rightarrow> True | Some f \<Rightarrow> f \<in> set FREQ_UNITS)
     \<and> (case p_currency p of None \<Rightarrow> True | Some c \<Rightarrow> currency_re c)
     \<and> (case p_amount_minor p of None \<Rightarrow> True | Some a \<Rightarrow> a < 2 ^ 63)
     \<and> d_tag_re (p_d_tag p)"

definition constrained_row :: "product \<Rightarrow> bool" where
  "constrained_row p \<longleftrightarrow> (case p_amount_minor p of None \<Rightarrow> True | Some a \<Rightarrow> 0 \<le> a)
     \<and> (case p_currency_decimals p of None \<Rightarrow> True | Some d \<Rightarrow> 0 \<le> d \<and> d \<le> 18)
     \<and> (p_product_type p = ''variation'' \<longleftrightarrow> p_parent_product_id p \<noteq> None)"

definition typed_products :: "db \<Rightarrow> bool" where
  "typed_products s \<longleftrightarrow> (\<forall>p \<in> set (db_products s). validated_row p \<and> constrained_row p)"

lemma constrained_rows: "products_ok s \<Longrightarrow> p \<in> set (db_products s) \<Longrightarrow> constrained_row p"
  unfolding products_ok_def list_all_iff product_check_def constrained_row_def by blast

lemma write_product_Inr:
  "write_product i g s = Inr (u, t) \<longleftrightarrow> t = db_products_update (upd_rows (\<lambda>p. p_id p = i) g) s \<and> products_ok t"
  by (auto simp: write_product_def update_product_def tx_ignore_Inr sql_Inr)

lemma insert_product_row_Inr:
  "sql_insert db_products_update products_ok row s = Inr (u, t) \<longleftrightarrow> t = db_products_update (\<lambda>ps. ps @ [row]) s \<and> products_ok t"
  by (auto simp: sql_Inr)

lemma typed_write:
  assumes "\<And>p. validated_row p \<Longrightarrow> constrained_row p \<Longrightarrow> validated_row (g p)"
  shows "tx_inv typed_products (write_product i g)"
  by (rule tx_invI)
    (auto simp: write_product_Inr typed_products_def set_upd_rows assms intro!: constrained_rows)

interpretation typed: product_invariant typed_products
proof unfold_locales
  fix s t
  assume "product_table t = product_table s" "typed_products s"
  then show "typed_products t" by (simp add: product_table_def typed_products_def)
next
  fix f :: "product \<Rightarrow> product" and i
  assume f: "housekept f"
  have "validated_row (f p) = validated_row p" for p
    by (rule housekeptE [OF f, of p]) (simp add: validated_row_def)
  then show "tx_inv typed_products (write_product i f)" by (intro typed_write) simp
qed

section \<open>Validated columns\<close>

lemma bounded_text: "check_length n w = Inr v \<Longrightarrow> text_col v = Inr t \<Longrightarrow> most_chars n t"
  by (auto simp: check_length_def most_chars_def text_col_def json_len_def split: if_splits json.splits)

lemma bounded_description:
  "check_description w = Inr v \<Longrightarrow> text_col v = Inr t \<Longrightarrow>
    (case t of None \<Rightarrow> True | Some x \<Rightarrow> tag_free x \<and> length x \<le> DESC_MAX)"
  by (auto simp: check_description_def sanitize_markdown_def text_col_def strip_tags_free not_less
      elim: le_trans [OF strip_tags_length] split: if_splits json.splits)

lemma chosen_text: "choice xs v \<Longrightarrow> not_null (text_col v) = Inr t \<Longrightarrow> t \<in> set xs"
  by (auto simp: choice_def text_col_def not_null_def split: json.splits)

lemma chosen_or_null: "(v \<noteq> JNull \<Longrightarrow> choice xs v) \<Longrightarrow> text_col v = Inr t \<Longrightarrow>
    (case t of None \<Rightarrow> True | Some x \<Rightarrow> x \<in> set xs)"
  by (cases v) (auto simp: choice_def text_col_def)

lemma checked_currency: "check_currency v d = Inr () \<Longrightarrow> text_col v = Inr t \<Longrightarrow> (case t of None \<Rightarrow> True | Some c \<Rightarrow> currency_re c)"
  by (auto simp: check_currency_def text_col_def split: json.splits)

lemma checked_amount: "int64_value v \<Longrightarrow> int_col v = Inr a \<Longrightarrow> (case a of None \<Rightarrow> True | Some x \<Rightarrow> x < 2 ^ 63)"
  by (auto simp: int64_value_def int_col_def split: json.splits if_splits)

lemmas column_defs = product_column_def product_texts_def product_ints_def product_reals_def set_with_def

lemma one_of_eight:
  obtains "f = a" | "f = b" | "f = c" | "f = d" | "f = e" | "f = h" | "f = i" | "f = j" | "f \<notin> {a, b, c, d, e, h, i, j}"
  by blast

lemma validated_from_body:
  assumes ok: "validate_product part p = Inr ()" and v: "from_body p (f, v)"
    and col: "product_column f v = Inr g" and x: "validated_row x"
  shows "validated_row (g x)"
proof -
  note facts = validated_product [OF ok]
  have f: "f \<in> set PRODUCT_FIELDS" "present p f" "product_field p f = Inr v" using v by (auto simp: from_body_def)
  have raw: "v = arg p f" if "f \<notin> {''title'', ''summary'', ''description_md'', ''draft''}"
    using f(3) that by (auto simp: product_field_def Let_def)
  show ?thesis
  proof (cases rule: one_of_eight [where f = f and a = "''title''" and b = "''summary''" and c = "''description_md''"
      and d = "''currency''" and e = "''amount_minor''" and h = "''visibility''" and i = "''nip99_status''"
      and j = "''recurring_frequency''"])
    case 1
    then have "check_length TITLE_MAX (arg p f) = Inr v" using f(3) by (simp add: product_field_def check_title_def)
    then show ?thesis using x col 1 by (auto simp: column_defs validated_row_def dest!: bounded_text)
  next
    case 2
    then have "check_length SUMMARY_MAX (arg p f) = Inr v" using f(3) by (simp add: product_field_def check_summary_def)
    then show ?thesis using x col 2 by (auto simp: column_defs validated_row_def dest!: bounded_text)
  next
    case 3
    then have "check_description (arg p f) = Inr v" using f(3) by (simp add: product_field_def)
    then show ?thesis using x col 3 by (auto simp: column_defs validated_row_def dest: bounded_description)
  next
    case 4
    then show ?thesis using x col raw facts(8) f(2) by (auto simp: column_defs validated_row_def dest: checked_currency)
  next
    case 5
    then show ?thesis using x col raw facts(6) by (auto simp: column_defs validated_row_def dest: checked_amount)
  next
    case 6
    then show ?thesis using x col raw facts(3) f(2) by (auto simp: column_defs validated_row_def dest: chosen_text)
  next
    case 7
    then show ?thesis using x col raw facts(4) f(2) by (auto simp: column_defs validated_row_def dest: chosen_text)
  next
    case 8
    then show ?thesis using x col raw chosen_or_null [OF facts(5)] by (auto simp: column_defs validated_row_def)
  next
    case 9
    then show ?thesis using x col f(1)
      by (auto simp: column_defs PRODUCT_FIELDS_def validated_row_def split: if_splits)
  qed
qed

lemma validated_patched:
  assumes ok: "validate_product part p = Inr ()" and v: "patched p new_type pid (f, v)"
    and ty: "new_type \<in> set PRODUCT_TYPES" and col: "product_column f v = Inr g" and x: "validated_row x"
  shows "validated_row (g x)"
proof -
  from v show ?thesis unfolding patched_def
  proof (elim disjE bexE)
    assume "from_body p (f, v)"
    then show ?thesis by (rule validated_from_body [OF ok _ col x])
  qed (use x col ty in \<open>auto simp: defaulted_def column_defs validated_row_def text_col_def not_null_def\<close>)
qed

lemma text_arg_choice:
  assumes "present p k \<Longrightarrow> choice xs (arg p k)" "dflt \<in> set xs"
  shows "text_arg p k dflt \<in> set xs"
  using assms absent_arg [of p k] by (cases "present p k") (auto simp: text_arg_def choice_def split: json.splits)

lemma typed_insert:
  assumes ok: "validate_product False p = Inr ()" and blank: "\<And>parent. validated_row (blank parent)"
  shows "tx_inv typed_products (insert_product E mrow p blank)"
proof -
  have free: "tx_inv typed_products (tx_bind (sql_one db_products P) (\<lambda>row. tx_assert (row = None) duplicate_resource))" for P
    by (auto intro!: typed.aside keeps)
  have rest: "tx_inv typed_products (tx_bind (delivery_enc E a b v) (\<lambda>enc. tx_when (enc \<noteq> None) (set_delivery c enc)))" for a b v c
    by (intro tx_inv_bind tx_inv_when typed.details typed.set_delivery)
  have row: "tx_inv typed_products (sql_insert db_products_update products_ok r)" if "product_row p (blank parent) = Inr r" for r parent
  proof -
    have "validated_row r"
      by (rule product_row_inv [where P = validated_row, OF that blank])
        (use ok validated_patched [of False p "''simple''" None] in \<open>auto simp: patched_def PRODUCT_TYPES_def\<close>)
    then show ?thesis
      by (intro tx_invI) (auto simp: insert_product_row_Inr typed_products_def intro!: constrained_rows)
  qed
  show ?thesis
    unfolding insert_product_def Let_def check_free_def
    by (intro free rest tx_inv_lift tx_inv_seq tx_inv_bind typed.details row)
qed

lemma markup_bound: "markup_amount a d = Inr n \<Longrightarrow> n < 2 ^ 63"
  by (auto simp: markup_amount_def split: option.splits if_splits)

lemma bulk_visibility: "bulk_action_of E K a v = Inr (SetVisibility w) \<Longrightarrow> w \<in> set VISIBILITIES"
  by (auto simp: bulk_action_of_def split: if_splits option.splits json.splits)

lemma typed_catalog:
  assumes rows: "\<forall>p \<in> R. validated_row p"
  shows "catalog_tx E R m \<Longrightarrow> tx_inv typed_products m"
proof (induction rule: catalog_tx.induct)
  case (new_product p d d_tag mrow i cat now)
  note facts = validated_product [OF new_product(1)]
  have "validated_row (blank_product i (m_id mrow) cat d_tag (text_arg p ''product_type'' ''simple'')
      (text_arg p ''format'' ''physical'') parent now)" for parent
    using new_product(2) text_arg_choice [OF facts(1), of "''simple''"] text_arg_choice [OF facts(2), of "''physical''"]
    by (auto simp: validated_row_def blank_product_def most_chars_def PRODUCT_TYPES_def FORMATS_def VISIBILITIES_def
        NIP99_STATUSES_def check_d_tag_def split: json.splits if_splits)
  then show ?case by (intro typed.creation typed_insert [OF new_product(1)])
next
  case (edit_product row mrow p cols parent now)
  have ty: "text_arg p ''product_type'' (p_product_type row) \<in> set PRODUCT_TYPES"
    using rows edit_product(1) validated_product(1) [OF edit_product(3)] by (intro text_arg_choice) (auto simp: validated_row_def)
  show ?case
  proof (rule tx_invI)
    fix s t and u :: unit
    assume ok: "typed_products s"
      and run: "patch_product_tx E mrow row p (text_arg p ''product_type'' (p_product_type row)) parent (patch_decimals row cols) now s = Inr (u, t)"
    obtain pid cs v where w: "write_columns product_column (write_product (p_id row)) cs s = Inr ((), v)"
      "patch_tail E mrow row p now v = Inr ((), t)"
      "\<forall>fv \<in> set cs. patched p (text_arg p ''product_type'' (p_product_type row)) pid fv"
      using patch_writes [OF _ edit_product(4)] run by (metis (full_types) old.unit.exhaust)
    have "tx_inv typed_products (write_columns product_column (write_product (p_id row)) cs)"
      by (rule tx_inv_write_columns) (use w(3) validated_patched [OF edit_product(3) _ ty] typed_write in blast)
    then show "typed_products t" using ok w(1,2) typed.tail by (blast dest: tx_invD)
  qed
next
  case (bulk_edit K a v action mrow ids now)
  show ?case
  proof (rule typed.bulk)
    fix row f i now
    assume "bulk_change action row = Inr f"
    then have "validated_row (f p)" if "validated_row p" for p
      using that bulk_edit markup_bound bulk_visibility
      by (auto simp: bulk_change_def validated_row_def split: bulk_action.splits)
    moreover have "validated_row (p\<lparr>p_revision := r, p_updated_at := u\<rparr>) = validated_row p" for p r u
      by (simp add: validated_row_def)
    ultimately show "tx_inv typed_products (write_product i (\<lambda>p. (f p)\<lparr>p_revision := p_revision p + 1, p_updated_at := now\<rparr>))"
      by (intro typed_write) simp
  qed
qed (rule typed.catalogs typed.deletion typed.images typed.collections typed.options)+

section \<open>Variations\<close>

text \<open>
  The tree of products: ids are distinct, exactly the variations have a parent, and the parent of
  a live variation is a variable product of the same merchant. \<open>K\<close> are rows that have been read:
  they are still there.
\<close>

definition row_key :: "product \<Rightarrow> id \<times> id" where
  "row_key p = (p_id p, p_merchant_id p)"

definition has_parent :: "db \<Rightarrow> product \<Rightarrow> bool" where
  "has_parent s p \<longleftrightarrow> (\<exists>q \<in> set (db_products s). p_parent_product_id p = Some (p_id q)
     \<and> p_merchant_id q = p_merchant_id p \<and> p_product_type q = ''variable'')"

definition product_tree :: "(id \<times> id) set \<Rightarrow> db \<Rightarrow> bool" where
  "product_tree K s \<longleftrightarrow> distinct (map p_id (db_products s)) \<and> K \<subseteq> row_key ` set (db_products s)
     \<and> (\<forall>p \<in> set (db_products s). (p_product_type p = ''variation'' \<longleftrightarrow> p_parent_product_id p \<noteq> None)
        \<and> (p_deleted_at p = None \<longrightarrow> p_parent_product_id p \<noteq> None \<longrightarrow> has_parent s p))"

lemma products_okD:
  assumes "products_ok s"
  shows "distinct (map p_id (db_products s))"
    "p \<in> set (db_products s) \<Longrightarrow> (p_product_type p = ''variation'') = (p_parent_product_id p \<noteq> None)"
  using assms by (auto simp: products_ok_def list_all_iff product_check_def)

text \<open>A write that keeps the place of a row in the tree, or deletes it.\<close>

definition in_place :: "(product \<Rightarrow> product) \<Rightarrow> bool" where
  "in_place g \<longleftrightarrow> (\<forall>p. p_id (g p) = p_id p \<and> p_merchant_id (g p) = p_merchant_id p
     \<and> p_product_type (g p) = p_product_type p \<and> p_parent_product_id (g p) = p_parent_product_id p
     \<and> (p_deleted_at (g p) = p_deleted_at p \<or> p_deleted_at (g p) \<noteq> None))"

lemma tree_rows:
  assumes tree: "product_tree K s" and run: "write_product i g s = Inr (u, t)"
    and key: "\<And>p. row_key (g p) = row_key p"
  obtains h where "h = (\<lambda>p. if p_id p = i then g p else p)" "set (db_products t) = h ` set (db_products s)" "products_ok t"
    "\<And>p. p_id (h p) = p_id p" "\<And>p. p_merchant_id (h p) = p_merchant_id p"
    "(\<And>p. p \<in> set (db_products s) \<Longrightarrow> p_deleted_at (h p) = None \<Longrightarrow> p_parent_product_id (h p) \<noteq> None \<Longrightarrow> has_parent t (h p))
      \<Longrightarrow> product_tree K t"
proof -
  define h where "h = (\<lambda>p. if p_id p = i then g p else p)"
  have rows: "set (db_products t) = h ` set (db_products s)" and ok: "products_ok t"
    using run by (auto simp: write_product_Inr set_upd_rows h_def)
  have key_h: "row_key (h p) = row_key p" for p using key by (simp add: h_def)
  then have h: "p_id (h p) = p_id p" "p_merchant_id (h p) = p_merchant_id p" for p by (simp_all add: row_key_def)
  have "product_tree K t"
    if parents: "\<And>p. p \<in> set (db_products s) \<Longrightarrow> p_deleted_at (h p) = None \<Longrightarrow> p_parent_product_id (h p) \<noteq> None \<Longrightarrow> has_parent t (h p)"
    unfolding product_tree_def rows
  proof (intro conjI ballI)
    show "K \<subseteq> row_key ` h ` set (db_products s)" using tree by (simp add: product_tree_def image_image key_h)
    fix p assume p: "p \<in> h ` set (db_products s)"
    show "(p_product_type p = ''variation'') = (p_parent_product_id p \<noteq> None)"
      using products_okD(2) [OF ok] p rows by simp
    show "p_deleted_at p = None \<longrightarrow> p_parent_product_id p \<noteq> None \<longrightarrow> has_parent t p"
      using p parents by blast
  qed (rule products_okD(1) [OF ok])
  with h_def rows ok h show ?thesis by (rule that)
qed

lemma has_parentE:
  assumes "product_tree K s" "p \<in> set (db_products s)" "p_deleted_at p = None" "p_parent_product_id p \<noteq> None"
  obtains q where "q \<in> set (db_products s)" "p_parent_product_id p = Some (p_id q)"
    "p_merchant_id q = p_merchant_id p" "p_product_type q = ''variable''"
  using assms unfolding product_tree_def has_parent_def by blast

lemma tree_write:
  assumes g: "in_place g"
  shows "tx_inv (product_tree K) (write_product i g)"
proof (rule tx_invI)
  fix s u t
  assume tree: "product_tree K s" and run: "write_product i g s = Inr (u, t)"
  note gp = g [unfolded in_place_def, THEN spec]
  obtain h where def: "h = (\<lambda>p. if p_id p = i then g p else p)" and rows: "set (db_products t) = h ` set (db_products s)"
    and h: "\<And>p. p_id (h p) = p_id p" "\<And>p. p_merchant_id (h p) = p_merchant_id p"
    and goal: "(\<And>p. p \<in> set (db_products s) \<Longrightarrow> p_deleted_at (h p) = None \<Longrightarrow> p_parent_product_id (h p) \<noteq> None \<Longrightarrow>
      has_parent t (h p)) \<Longrightarrow> product_tree K t"
    by (rule tree_rows [OF tree run]) (use gp in \<open>auto simp: row_key_def\<close>)
  have same: "p_product_type (h p) = p_product_type p" "p_parent_product_id (h p) = p_parent_product_id p"
    "p_deleted_at (h p) = None \<Longrightarrow> p_deleted_at p = None" for p
    using gp [of p] by (simp_all add: def split: if_splits)
  show "product_tree K t"
  proof (rule goal)
    fix p assume p: "p \<in> set (db_products s)" "p_deleted_at (h p) = None" "p_parent_product_id (h p) \<noteq> None"
    obtain q where "q \<in> set (db_products s)" "p_parent_product_id p = Some (p_id q)"
      "p_merchant_id q = p_merchant_id p" "p_product_type q = ''variable''"
      using has_parentE [OF tree p(1)] same p by metis
    then show "has_parent t (h p)" unfolding has_parent_def rows using h same by (intro bexI [of _ "h q"]) simp_all
  qed
qed

lemma in_place_housekept: "housekept f \<Longrightarrow> in_place f"
  unfolding in_place_def
proof
  fix p assume f: "housekept f"
  show "p_id (f p) = p_id p \<and> p_merchant_id (f p) = p_merchant_id p
     \<and> p_product_type (f p) = p_product_type p \<and> p_parent_product_id (f p) = p_parent_product_id p
     \<and> (p_deleted_at (f p) = p_deleted_at p \<or> p_deleted_at (f p) \<noteq> None)"
    by (rule housekeptE [OF f, of p]) auto
qed

interpretation tree: product_invariant "product_tree K" for K
proof unfold_locales
  fix s t
  assume "product_table t = product_table s" "product_tree K s"
  then show "product_tree K t" by (simp add: product_table_def product_tree_def has_parent_def)
next
  fix f :: "product \<Rightarrow> product" and i
  assume "housekept f"
  then show "tx_inv (product_tree K) (write_product i f)" by (intro tree_write in_place_housekept)
qed

text \<open>What a patch has settled before its first write: no live child of a type that has none, a parent that fits.\<close>

definition placed :: "id \<Rightarrow> id \<Rightarrow> string \<Rightarrow> id option \<Rightarrow> db \<Rightarrow> bool" where
  "placed m i new_type pid s \<longleftrightarrow>
     (new_type = ''variation'' \<or> (\<forall>q \<in> set (db_products s). p_parent_product_id q = Some i \<longrightarrow> p_deleted_at q \<noteq> None))
     \<and> (\<forall>j. pid = Some j \<longrightarrow> j \<noteq> i \<and> (\<exists>q \<in> set (db_products s). p_id q = j \<and> p_merchant_id q = m \<and> p_product_type q = ''variable''))"

lemma settled_placed:
  assumes "settled m i new_type parent pid s" "parent \<noteq> JStr i"
  shows "placed m i new_type pid s"
proof -
  have run: "validate_variation m new_type parent s = Inr (pid, s)" using assms(1) by (simp add: settled_def)
  show ?thesis
    using assms validate_variation_run(2,3) [OF run]
    by (cases "new_type = ''variation''") (auto simp: settled_def placed_def)
qed

lemma row_merchant:
  assumes "product_tree K s" "(i, m) \<in> K" "p \<in> set (db_products s)" "p_id p = i"
  shows "p_merchant_id p = m"
proof -
  obtain q where "q \<in> set (db_products s)" "row_key q = (i, m)" using assms(1,2) by (auto simp: product_tree_def)
  moreover then have "q = p" using assms inj_onD [of p_id "set (db_products s)" q p]
    by (simp add: product_tree_def row_key_def distinct_map)
  ultimately show ?thesis by (simp add: row_key_def)
qed

lemma tree_set_type:
  "tx_inv (\<lambda>s. product_tree K s \<and> placed m i ty pid s) (write_product i (\<lambda>p. p\<lparr>p_product_type := ty\<rparr>))"
proof (rule tx_invI)
  fix s u t
  assume inv: "product_tree K s \<and> placed m i ty pid s" and run: "write_product i (\<lambda>p. p\<lparr>p_product_type := ty\<rparr>) s = Inr (u, t)"
  then have tree: "product_tree K s" and place: "placed m i ty pid s" by blast+
  obtain h where def: "h = (\<lambda>p. if p_id p = i then p\<lparr>p_product_type := ty\<rparr> else p)"
    and rows: "set (db_products t) = h ` set (db_products s)" and ok: "products_ok t"
    and h: "\<And>p. p_id (h p) = p_id p" "\<And>p. p_merchant_id (h p) = p_merchant_id p"
    and goal: "(\<And>p. p \<in> set (db_products s) \<Longrightarrow> p_deleted_at (h p) = None \<Longrightarrow> p_parent_product_id (h p) \<noteq> None \<Longrightarrow>
      has_parent t (h p)) \<Longrightarrow> product_tree K t"
    by (rule tree_rows [OF tree run]) (auto simp: row_key_def)
  have same: "p_parent_product_id (h p) = p_parent_product_id p" "p_deleted_at (h p) = p_deleted_at p"
    "p_id p \<noteq> i \<Longrightarrow> h p = p" "p_id p = i \<Longrightarrow> p_product_type (h p) = ty" for p
    by (simp_all add: def)
  have "has_parent t (h p)" if p: "p \<in> set (db_products s)" "p_deleted_at (h p) = None" "p_parent_product_id (h p) \<noteq> None" for p
  proof -
    obtain q where q: "q \<in> set (db_products s)" "p_parent_product_id p = Some (p_id q)"
      "p_merchant_id q = p_merchant_id p" "p_product_type q = ''variable''"
      using has_parentE [OF tree p(1)] same p by metis
    have "p_id q \<noteq> i"
    proof
      assume i: "p_id q = i"
      have "ty = ''variation''" using place p q(2) i same by (auto simp: placed_def)
      moreover have "h q \<in> set (db_products t)" using q(1) rows by simp
      ultimately have "p_parent_product_id q \<noteq> None" using products_okD(2) [OF ok, of "h q"] i same by simp
      then show False using tree q by (auto simp: product_tree_def)
    qed
    then show ?thesis unfolding has_parent_def rows using q h same by (intro bexI [of _ "h q"] imageI) simp_all
  qed
  then have "product_tree K t" by (rule goal)
  moreover have "placed m i ty pid t"
    using place h same unfolding placed_def rows by (auto 0 3)
  ultimately show "product_tree K t \<and> placed m i ty pid t" ..
qed

lemma tree_set_parent:
  assumes K: "(i, m) \<in> K"
  shows "tx_inv (\<lambda>s. product_tree K s \<and> placed m i ty pid s) (write_product i (\<lambda>p. p\<lparr>p_parent_product_id := pid\<rparr>))"
proof (rule tx_invI)
  fix s u t
  assume inv: "product_tree K s \<and> placed m i ty pid s"
    and run: "write_product i (\<lambda>p. p\<lparr>p_parent_product_id := pid\<rparr>) s = Inr (u, t)"
  then have tree: "product_tree K s" and place: "placed m i ty pid s" by blast+
  obtain h where def: "h = (\<lambda>p. if p_id p = i then p\<lparr>p_parent_product_id := pid\<rparr> else p)"
    and rows: "set (db_products t) = h ` set (db_products s)"
    and h: "\<And>p. p_id (h p) = p_id p" "\<And>p. p_merchant_id (h p) = p_merchant_id p"
    and goal: "(\<And>p. p \<in> set (db_products s) \<Longrightarrow> p_deleted_at (h p) = None \<Longrightarrow> p_parent_product_id (h p) \<noteq> None \<Longrightarrow>
      has_parent t (h p)) \<Longrightarrow> product_tree K t"
    by (rule tree_rows [OF tree run]) (auto simp: row_key_def)
  have same: "p_product_type (h p) = p_product_type p" "p_deleted_at (h p) = p_deleted_at p"
    "p_id p \<noteq> i \<Longrightarrow> h p = p" "p_id p = i \<Longrightarrow> p_parent_product_id (h p) = pid" for p
    by (simp_all add: def)
  have "has_parent t (h p)" if p: "p \<in> set (db_products s)" "p_deleted_at (h p) = None" "p_parent_product_id (h p) \<noteq> None" for p
  proof -
    obtain q where q: "q \<in> set (db_products s)" "p_parent_product_id (h p) = Some (p_id q)"
      "p_merchant_id q = p_merchant_id p" "p_product_type q = ''variable''"
    proof (cases "p_id p = i")
      case True
      then show ?thesis using that place p(3) same row_merchant [OF tree K p(1)] by (auto simp: placed_def)
    next
      case False
      then show ?thesis using that has_parentE [OF tree p(1)] p same by metis
    qed
    then show ?thesis unfolding has_parent_def rows using h same by (intro bexI [of _ "h q"]) simp_all
  qed
  then have "product_tree K t" by (rule goal)
  moreover have "placed m i ty pid t"
    unfolding placed_def rows
  proof (intro conjI)
    have "p_deleted_at (h p) \<noteq> None" if "ty \<noteq> ''variation''" "p \<in> set (db_products s)" "p_parent_product_id (h p) = Some i" for p
      using place that same [of p] by (cases "p_id p = i") (auto simp: placed_def)
    then show "ty = ''variation'' \<or> (\<forall>q \<in> h ` set (db_products s). p_parent_product_id q = Some i \<longrightarrow> p_deleted_at q \<noteq> None)" by blast
    show "\<forall>j. pid = Some j \<longrightarrow> j \<noteq> i \<and> (\<exists>q \<in> h ` set (db_products s). p_id q = j \<and> p_merchant_id q = m \<and> p_product_type q = ''variable'')"
      using place h same(1) by (simp add: placed_def bex_simps)
  qed
  ultimately show "product_tree K t \<and> placed m i ty pid t" ..
qed

lemma tree_in_place:
  assumes g: "in_place g"
  shows "tx_inv (\<lambda>s. product_tree K s \<and> placed m i ty pid s) (write_product j g)"
proof (rule tx_invI)
  fix s u t
  assume inv: "product_tree K s \<and> placed m i ty pid s" and run: "write_product j g s = Inr (u, t)"
  then have tree: "product_tree K s" and place: "placed m i ty pid s" by blast+
  note gp = g [unfolded in_place_def, THEN spec]
  have t: "set (db_products t) = (\<lambda>p. if p_id p = j then g p else p) ` set (db_products s)"
    using run by (auto simp: write_product_Inr set_upd_rows)
  define h where "h = (\<lambda>p. if p_id p = j then g p else p)"
  have same: "p_id (h p) = p_id p" "p_merchant_id (h p) = p_merchant_id p" "p_product_type (h p) = p_product_type p"
    "p_parent_product_id (h p) = p_parent_product_id p" "p_deleted_at p \<noteq> None \<Longrightarrow> p_deleted_at (h p) \<noteq> None" for p
    using gp [of p] by (auto simp: h_def)
  have "placed m i ty pid t"
    using place same(5) unfolding placed_def t [folded h_def] by (simp add: bex_simps same(1-4)) blast
  with tx_invD [OF tree_write [OF g] tree run] show "product_tree K t \<and> placed m i ty pid t" ..
qed

lemma column_in_place:
  assumes "product_column f v = Inr g" "f \<noteq> ''product_type''" "f \<noteq> ''parent_product_id''"
  shows "in_place g"
  unfolding in_place_def using column_frame [OF assms(1)] assms(2,3) by simp

lemma not_tree_field:
  assumes "from_body p (f, v) \<or> defaulted (f, v) \<or> (\<exists>st \<in> set NIP99_STATUSES. (f, v) = (''nip99_status'', JStr st))"
  shows "f \<noteq> ''product_type''" "f \<noteq> ''parent_product_id''"
  using assms by (auto simp: from_body_def defaulted_def PRODUCT_FIELDS_def)

lemma tree_patched_write:
  assumes K: "(i, m) \<in> K" and v: "patched p ty pid (f, v)" and col: "product_column f v = Inr g"
  shows "tx_inv (\<lambda>s. product_tree K s \<and> placed m i ty pid s) (write_product i g)"
proof -
  consider (ty) "(f, v) = (''product_type'', JStr ty)" | (parent) "(f, v) = (''parent_product_id'', or_null JStr pid)"
    | (other) "from_body p (f, v) \<or> defaulted (f, v) \<or> (\<exists>st \<in> set NIP99_STATUSES. (f, v) = (''nip99_status'', JStr st))"
    using v unfolding patched_def by (elim disjE) simp_all
  then show ?thesis
  proof cases
    case ty
    then have "g = (\<lambda>p. p\<lparr>p_product_type := ty\<rparr>)"
      using col by (auto simp: column_defs text_col_def not_null_def)
    then show ?thesis using tree_set_type by simp
  next
    case parent
    then have "g = (\<lambda>p. p\<lparr>p_parent_product_id := pid\<rparr>)"
      using col by (auto simp: column_defs text_col_def or_null_def split: option.splits)
    then show ?thesis using tree_set_parent [OF K] by simp
  next
    case other
    then show ?thesis using column_in_place [OF col] not_tree_field [OF other] by (intro tree_in_place) simp
  qed
qed

lemma tree_patch:
  assumes K: "row_key row \<in> K" "p_merchant_id row = m_id mrow" and cols: "sanitize_product_fields p = Inr cols"
    and parent: "parent \<noteq> JStr (p_id row)"
  shows "tx_inv (product_tree K) (patch_product_tx E mrow row p ty parent (patch_decimals row cols) now)"
proof (rule tx_invI)
  fix s t and u :: unit
  let ?updates = "write_columns product_column (write_product (p_id row))"
  assume ok: "product_tree K s" and run: "patch_product_tx E mrow row p ty parent (patch_decimals row cols) now s = Inr (u, t)"
  obtain pid cs v where w: "?updates cs s = Inr ((), v)" "patch_tail E mrow row p now v = Inr ((), t)"
    "\<forall>fv \<in> set cs. patched p ty pid fv"
    "settled (m_id mrow) (p_id row) ty parent pid s
      \<or> (\<forall>fv \<in> set cs. from_body p fv \<or> defaulted fv \<or> (\<exists>st \<in> set NIP99_STATUSES. fv = (''nip99_status'', JStr st)))"
    using patch_writes [OF _ cols] run by (metis (full_types) old.unit.exhaust)
  have key: "(p_id row, m_id mrow) \<in> K" using K by (simp add: row_key_def)
  from w(4) have "product_tree K v"
  proof
    assume "settled (m_id mrow) (p_id row) ty parent pid s"
    then have "placed (m_id mrow) (p_id row) ty pid s" using parent by (rule settled_placed)
    moreover have "tx_inv (\<lambda>s. product_tree K s \<and> placed (m_id mrow) (p_id row) ty pid s) (?updates cs)"
      by (rule tx_inv_write_columns) (use w(3) tree_patched_write [OF key] in blast)
    ultimately show ?thesis using ok w(1) by (blast dest: tx_invD)
  next
    assume other: "\<forall>fv \<in> set cs. from_body p fv \<or> defaulted fv \<or> (\<exists>st \<in> set NIP99_STATUSES. fv = (''nip99_status'', JStr st))"
    have "tx_inv (product_tree K) (?updates cs)"
    proof (rule tx_inv_write_columns)
      fix f v g
      assume fv: "(f, v) \<in> set cs" and col: "product_column f v = Inr g"
      show "tx_inv (product_tree K) (write_product (p_id row) g)" by (intro tree_write column_in_place [OF col] not_tree_field [OF bspec [OF other fv]])
    qed
    then show ?thesis using ok w(1) by (blast dest: tx_invD)
  qed
  then show "product_tree K t" using w(2) tree.tail by (blast dest: tx_invD)
qed

lemma tree_insert:
  assumes blank: "\<And>parent. row_key (blank parent) = (i, m_id mrow) \<and> p_product_type (blank parent) = ty
      \<and> p_parent_product_id (blank parent) = parent \<and> p_deleted_at (blank parent) = None"
  shows "tx_inv (product_tree K) (insert_product E mrow p blank)"
proof -
  have row: "row_key r = (i, m_id mrow) \<and> p_product_type r = ty \<and> p_parent_product_id r = parent"
    if "product_row p (blank parent) = Inr r" for r parent
  proof (rule product_row_inv [where P = "\<lambda>r. row_key r = (i, m_id mrow) \<and> p_product_type r = ty \<and> p_parent_product_id r = parent", OF that])
    show "row_key (blank parent) = (i, m_id mrow) \<and> p_product_type (blank parent) = ty \<and> p_parent_product_id (blank parent) = parent"
      using blank by blast
    fix f v and g :: "product \<Rightarrow> product" and x :: product
    assume from_p: "from_body p (f, v) \<or> defaulted (f, v)" and col: "product_column f v = Inr g"
      and x: "row_key x = (i, m_id mrow) \<and> p_product_type x = ty \<and> p_parent_product_id x = parent"
    show "row_key (g x) = (i, m_id mrow) \<and> p_product_type (g x) = ty \<and> p_parent_product_id (g x) = parent"
      using x column_frame [OF col] not_tree_field [OF from_p [THEN disjE, OF disjI1 disjI2 [OF disjI1]]]
      by (simp add: row_key_def)
  qed
  have new: "product_tree K t"
    if tree: "product_tree K s" and v: "validate_variation (m_id mrow) ty parent_arg s = Inr (parent, s)"
      and r: "product_row p (blank parent) = Inr r" and run: "sql_insert db_products_update products_ok r s = Inr (u, t)"
    for s parent parent_arg r u t
  proof -
    have t: "t = db_products_update (\<lambda>ps. ps @ [r]) s" and ok: "products_ok t" using run by (auto simp: insert_product_row_Inr)
    have "has_parent t r" if "p_parent_product_id r \<noteq> None"
      using row [OF r] that validate_variation_run(2,3) [OF v] by (cases "ty = ''variation''") (auto simp: has_parent_def t row_key_def)
    moreover have "has_parent t q" if "has_parent s q" for q using that by (auto simp: has_parent_def t)
    ultimately show ?thesis
      using tree products_okD [OF ok] by (auto simp: product_tree_def t)
  qed
  show ?thesis
  proof (rule tx_invI)
    fix s t and u :: unit
    assume tree: "product_tree K s" and run: "insert_product E mrow p blank s = Inr (u, t)"
    have ty: "p_product_type (blank None) = ty" using blank by blast
    obtain parent s1 r s2 where v: "validate_variation (m_id mrow) ty (arg p ''parent_product_id'') s = Inr (parent, s1)"
      and r: "product_row p (blank parent) = Inr r" "sql_insert db_products_update products_ok r s1 = Inr ((), s2)"
      and d: "tx_bind (delivery_enc E (p_id (blank None)) (p_format (blank None)) (arg p ''delivery_content''))
        (\<lambda>enc. tx_when (enc \<noteq> None) (set_delivery (p_id (blank None)) enc)) s2 = Inr (u, t)"
      using run unfolding insert_product_def Let_def check_free_def ty by (auto simp: tx_Inr sql_Inr)
    have s1: "s1 = s" using validate_variation_run(1) [OF v] .
    have "product_tree K s2" using new [OF tree v [unfolded s1] r [unfolded s1]] .
    moreover have "tx_inv (product_tree K) (tx_bind (delivery_enc E (p_id (blank None)) (p_format (blank None)) (arg p ''delivery_content''))
        (\<lambda>enc. tx_when (enc \<noteq> None) (set_delivery (p_id (blank None)) enc)))"
      by (intro tx_inv_bind tx_inv_when tree.details tree.set_delivery)
    ultimately show "product_tree K t" using d by (blast dest: tx_invD)
  qed
qed

lemma tree_catalog:
  assumes rows: "row_key ` R \<subseteq> K"
  shows "catalog_tx E R m \<Longrightarrow> tx_inv (product_tree K) m"
proof (induction rule: catalog_tx.induct)
  case (new_product p d d_tag mrow i cat now)
  show ?case by (rule tree.creation, rule tree_insert) (auto simp: blank_product_def row_key_def)
next
  case (edit_product row mrow p cols parent now)
  show ?case by (rule tree_patch) (use edit_product rows in auto)
next
  case (bulk_edit N a v action mrow ids now)
  show ?case
  proof (rule tree.bulk)
    fix row f i now
    assume "bulk_change action row = Inr f"
    then have "in_place (\<lambda>p. (f p)\<lparr>p_revision := p_revision p + 1, p_updated_at := now\<rparr>)"
      by (auto simp: bulk_change_def in_place_def split: bulk_action.splits)
    then show "tx_inv (product_tree K) (write_product i (\<lambda>p. (f p)\<lparr>p_revision := p_revision p + 1, p_updated_at := now\<rparr>))"
      by (rule tree_write)
  qed
qed (rule tree.catalogs tree.deletion tree.images tree.collections tree.options)+

section \<open>Every state of a shop\<close>

text \<open>These predicates read no more of a row than what the order services leave of it.\<close>

lemma merchant_part_fields [simp]:
  "p_id (merchant_part p) = p_id p" "p_merchant_id (merchant_part p) = p_merchant_id p"
  "p_product_type (merchant_part p) = p_product_type p" "p_parent_product_id (merchant_part p) = p_parent_product_id p"
  "p_deleted_at (merchant_part p) = p_deleted_at p" "row_key (merchant_part p) = row_key p"
  "validated_row (merchant_part p) = validated_row p" "constrained_row (merchant_part p) = constrained_row p"
  by (simp_all add: merchant_part_def row_key_def validated_row_def constrained_row_def)

lemma typed_rows: "typed_products s \<longleftrightarrow> (\<forall>p \<in> set (merchant_rows s). validated_row p \<and> constrained_row p)"
  by (simp add: typed_products_def merchant_rows_def)

lemma tree_merchant_rows: "product_tree K s \<longleftrightarrow> distinct (map p_id (merchant_rows s)) \<and> K \<subseteq> row_key ` set (merchant_rows s)
     \<and> (\<forall>p \<in> set (merchant_rows s). (p_product_type p = ''variation'' \<longleftrightarrow> p_parent_product_id p \<noteq> None)
        \<and> (p_deleted_at p = None \<longrightarrow> p_parent_product_id p \<noteq> None \<longrightarrow> (\<exists>q \<in> set (merchant_rows s).
            p_parent_product_id p = Some (p_id q) \<and> p_merchant_id q = p_merchant_id p \<and> p_product_type q = ''variable'')))"
  by (simp add: product_tree_def has_parent_def merchant_rows_def image_image o_def)

text \<open>The ledger needs no empty shop to start from.\<close>

lemma shop_stock: "(shop_step E)\<^sup>*\<^sup>* x y \<Longrightarrow> stock_ok (fst x) \<Longrightarrow> stock_ok (fst y)"
proof (induction rule: rtranclp_induct)
  case (step y z)
  from step(2) step(3) [OF step(4)] show ?case
    by cases (auto intro: stock_tick dest: tx_invD [OF stock_catalog] tx_invD [OF stock_service])
qed simp

definition shop_ok :: "db \<times> product set \<Rightarrow> bool" where
  "shop_ok x \<longleftrightarrow> (case x of (s, R) \<Rightarrow> stock_ok s \<and> typed_products s \<and> (\<forall>p \<in> R. validated_row p) \<and> product_tree (row_key ` R) s)"

lemma shop_step_ok: "shop_step E x y \<Longrightarrow> shop_ok x \<Longrightarrow> shop_ok y"
proof (induction rule: shop_step.induct)
  case (reads p s R)
  then show ?case by (auto simp: shop_ok_def typed_products_def product_tree_def)
next
  case (edits R m s t)
  then show ?case
    using tx_invD [OF stock_catalog] tx_invD [OF typed_catalog] tx_invD [OF tree_catalog] unfolding shop_ok_def prod.case
    by (metis order_refl)
next
  case (orders m s t R)
  have rows: "merchant_rows t = merchant_rows s"
    by (rule tx_keepsD [OF rows_service [OF orders(1,2)] orders(3)])
  have "stock_ok t" using orders(4) tx_invD [OF stock_service [OF orders(1)] _ orders(3)] by (simp add: shop_ok_def)
  then show ?case using orders(4) by (simp add: shop_ok_def typed_rows tree_merchant_rows rows)
next
  case (waits s t R)
  then show ?case using stock_tick by (auto simp: shop_ok_def typed_rows tree_merchant_rows)
qed

lemma shop_reachable_ok:
  assumes "(shop_step E)\<^sup>*\<^sup>* (s0, {}) (s, R)" "empty_shop s0"
  shows "shop_ok (s, R)"
  using assms(1)
proof (induction rule: rtranclp_induct)
  case base
  show ?case using assms(2) new_shop_stock
    by (auto simp: shop_ok_def empty_shop_def typed_products_def product_tree_def)
qed (rule shop_step_ok)

section \<open>A product stays what it is\<close>

text \<open>One statement writes the type or the parent, never both, and the constraint ties the two.\<close>

definition kind_fixed :: "id \<Rightarrow> bool \<Rightarrow> db \<Rightarrow> bool" where
  "kind_fixed i b s \<longleftrightarrow> (\<forall>p \<in> set (db_products s). constrained_row p) \<and> i \<in> p_id ` set (db_products s)
     \<and> (\<forall>p \<in> set (db_products s). p_id p = i \<longrightarrow> (p_parent_product_id p \<noteq> None) = b)"

definition half_write :: "(product \<Rightarrow> product) \<Rightarrow> bool" where
  "half_write g \<longleftrightarrow> (\<forall>p. p_id (g p) = p_id p)
     \<and> ((\<forall>p. p_product_type (g p) = p_product_type p) \<or> (\<forall>p. p_parent_product_id (g p) = p_parent_product_id p))"

lemma kind_write:
  assumes g: "half_write g"
  shows "tx_inv (kind_fixed i b) (write_product j g)"
proof (rule tx_invI)
  fix s u t
  assume kind: "kind_fixed i b s" and run: "write_product j g s = Inr (u, t)"
  define h where "h = (\<lambda>p. if p_id p = j then g p else p)"
  have rows: "set (db_products t) = h ` set (db_products s)" and ok: "products_ok t"
    using run by (auto simp: write_product_Inr set_upd_rows h_def)
  have ids: "p_id (h p) = p_id p" for p using g by (simp add: h_def half_write_def)
  have "(p_parent_product_id (h p) \<noteq> None) = (p_parent_product_id p \<noteq> None)" if p: "p \<in> set (db_products s)" for p
  proof -
    have "constrained_row p" "constrained_row (h p)" using kind p constrained_rows [OF ok] rows by (auto simp: kind_fixed_def)
    moreover have "p_product_type (h p) = p_product_type p \<or> p_parent_product_id (h p) = p_parent_product_id p"
      using g by (auto simp: h_def half_write_def)
    ultimately show ?thesis by (auto simp: constrained_row_def)
  qed
  then show "kind_fixed i b t"
    using kind constrained_rows [OF ok] ids by (auto simp: kind_fixed_def rows image_image)
qed

lemma column_half_write: "product_column f v = Inr g \<Longrightarrow> half_write g"
  using column_frame(1,7,8) [of f v g] unfolding half_write_def by (cases "f = ''product_type''") simp_all

interpretation kind: product_invariant "kind_fixed i b" for i b
proof unfold_locales
  fix s t
  assume "product_table t = product_table s" "kind_fixed i b s"
  then show "kind_fixed i b t" by (simp add: product_table_def kind_fixed_def)
next
  fix f :: "product \<Rightarrow> product" and j
  assume f: "housekept f"
  have "in_place f" using f by (rule in_place_housekept)
  then show "tx_inv (kind_fixed i b) (write_product j f)"
    by (intro kind_write) (simp add: in_place_def half_write_def)
qed

lemma kind_insert: "tx_inv (kind_fixed i b) (insert_product E mrow p blank)"
proof -
  have free: "tx_inv (kind_fixed i b) (tx_bind (sql_one db_products P) (\<lambda>row. tx_assert (row = None) duplicate_resource))" for P
    by (auto intro!: kind.aside keeps)
  have rest: "tx_inv (kind_fixed i b) (tx_bind (delivery_enc E a c v) (\<lambda>enc. tx_when (enc \<noteq> None) (set_delivery d enc)))" for a c v d
    by (intro tx_inv_bind tx_inv_when kind.details kind.set_delivery)
  have row: "tx_inv (kind_fixed i b) (sql_insert db_products_update products_ok r)" for r
  proof (rule tx_invI)
    fix s u t
    assume kind: "kind_fixed i b s" and run: "sql_insert db_products_update products_ok r s = Inr (u, t)"
    have t: "t = db_products_update (\<lambda>ps. ps @ [r]) s" and ok: "products_ok t" using run by (auto simp: insert_product_row_Inr)
    have "p_id r \<noteq> i" using products_okD(1) [OF ok] kind by (auto simp: t kind_fixed_def)
    then show "kind_fixed i b t" using kind constrained_rows [OF ok] by (auto simp: t kind_fixed_def)
  qed
  show ?thesis
    unfolding insert_product_def Let_def check_free_def
    by (intro free rest tx_inv_lift tx_inv_seq tx_inv_bind kind.details row)
qed

lemma kind_catalog: "catalog_tx E R m \<Longrightarrow> tx_inv (kind_fixed i b) m"
proof (induction rule: catalog_tx.induct)
  case (new_product p d d_tag mrow j cat now)
  show ?case by (rule kind.creation [OF kind_insert])
next
  case (edit_product row mrow p cols parent now)
  show ?case
    unfolding patch_product_tx_def
    by (intro tx_inv_bind [OF kind.variation] tx_inv_lift tx_inv_seq kind.tail tx_inv_write_columns kind_write column_half_write)
next
  case (bulk_edit N a v action mrow ids now)
  show ?case
    by (rule kind.bulk, rule kind_write) (auto simp: bulk_change_def half_write_def split: bulk_action.splits)
qed (rule kind.catalogs kind.deletion kind.images kind.collections kind.options)+

lemma kind_rows: "kind_fixed i b s \<longleftrightarrow> (\<forall>p \<in> set (merchant_rows s). constrained_row p) \<and> i \<in> p_id ` set (merchant_rows s)
     \<and> (\<forall>p \<in> set (merchant_rows s). p_id p = i \<longrightarrow> (p_parent_product_id p \<noteq> None) = b)"
  by (simp add: kind_fixed_def merchant_rows_def image_image)

lemma kind_step: "shop_step E x y \<Longrightarrow> kind_fixed i b (fst x) \<Longrightarrow> kind_fixed i b (fst y)"
proof (induction rule: shop_step.induct)
  case (edits R m s t)
  then show ?case using tx_invD [OF kind_catalog [OF edits(1)]] by simp
next
  case (orders m s t R)
  have "merchant_rows t = merchant_rows s"
    by (rule tx_keepsD [OF rows_service [OF orders(1,2)] orders(3)])
  then show ?case using orders(4) by (simp add: kind_rows)
qed (simp_all add: kind_rows)

lemma kind_steps: "(shop_step E)\<^sup>*\<^sup>* x y \<Longrightarrow> kind_fixed i b (fst x) \<Longrightarrow> kind_fixed i b (fst y)"
  by (induction rule: rtranclp_induct) (auto dest: kind_step)

end
