(* ===== verification/CatalogRuns.thy ===== *)
theory CatalogRuns
  imports CatalogSafety
begin

text \<open>
  What holds in every state of a shop whose catalog is edited while its orders run, with a run of
  the handlers to show it: a variable product is created, a variation below it, and the stock of
  the first is set to nothing.
\<close>

section \<open>A run\<close>

definition shirt_body :: body where
  "shirt_body = [(''title'', JStr ''Shirt''), (''description_md'', JStr ''a <b> c''), (''product_type'', JStr ''variable''),
     (''stock_on_hand'', JInt 5)]"

definition size_body :: body where
  "size_body = [(''title'', JStr ''L''), (''product_type'', JStr ''variation''), (''parent_product_id'', JStr ''v''),
     (''currency'', JStr ''EUR'')]"

definition sold_out_body :: body where
  "sold_out_body = [(''stock_on_hand'', JInt 0)]"

definition shirt_blank :: product where
  "shirt_blank = blank_product ''v'' ''m'' ''c'' ''shirt-0001'' ''variable'' ''physical'' None 0"

definition size_blank :: product where
  "size_blank = blank_product ''w'' ''m'' ''c'' ''shirt-0002'' ''variation'' ''physical'' (Some ''v'') 0"

definition shirt_row :: product where
  "shirt_row = shirt_blank\<lparr>p_title := Some ''Shirt'', p_description_md := Some ''a  c'', p_stock_on_hand := Some 5,
     p_currency_decimals := Some 0, p_published_at := Some 1000\<rparr>"

definition new_item :: "body \<Rightarrow> id \<Rightarrow> string \<Rightarrow> (db, unit) tx" where
  "new_item p i d = create_product_tx sample_env sample_merchant p (\<lambda>parent. blank_product i (m_id sample_merchant) ''c'' d
     (text_arg p ''product_type'' ''simple'') (text_arg p ''format'' ''physical'') parent 0) 0"

definition sold_out :: "(db, unit) tx" where
  "sold_out = patch_product_tx sample_env sample_merchant shirt_row sold_out_body
     (text_arg sold_out_body ''product_type'' (p_product_type shirt_row)) JNull (patch_decimals shirt_row sold_out_body) 0"

lemma demo_bodies: "validate_product False shirt_body = Inr () \<and> validate_product False size_body = Inr ()"
  by code_simp

lemma demo_patch: "validate_product True sold_out_body = Inr () \<and> sanitize_product_fields sold_out_body = Inr sold_out_body
    \<and> text_arg sold_out_body ''product_type'' (p_product_type shirt_row) = ''variable''"
  by code_simp

lemma demo_shirt: "product_row shirt_body shirt_blank = Inr (shirt_blank\<lparr>p_title := Some ''Shirt'', p_description_md := Some ''a  c'',
    p_stock_on_hand := Some 5, p_currency_decimals := Some 0\<rparr>)"
  by code_simp

lemma demo_size: "product_row size_body size_blank
    = Inr (size_blank\<lparr>p_title := Some ''L'', p_currency := Some ''EUR'', p_currency_decimals := Some 2\<rparr>)"
  by code_simp

lemma demo_args:
  "text_arg shirt_body ''product_type'' ''simple'' = ''variable''" "text_arg shirt_body ''format'' ''physical'' = ''physical''"
  "text_arg size_body ''product_type'' ''simple'' = ''variation''" "text_arg size_body ''format'' ''physical'' = ''physical''"
  "arg size_body ''parent_product_id'' = JStr ''v''"
  "arg shirt_body ''delivery_content'' = JNull" "arg size_body ''delivery_content'' = JNull"
  by (simp_all add: text_arg_def arg_def json_member_def shirt_body_def size_body_def evals)

lemma demo_columns:
  "product_column ''stock_on_hand'' (JInt 0) = Inr (\<lambda>p. p\<lparr>p_stock_on_hand := Some 0\<rparr>)"
  "product_column ''nip99_status'' (JStr ''sold'') = Inr (\<lambda>p. p\<lparr>p_nip99_status := ''sold''\<rparr>)"
  by (simp_all add: column_defs int_col_def text_col_def not_null_def)

lemmas demo_literals = shirt_body_def size_body_def sold_out_body_def shirt_blank_def size_blank_def shirt_row_def blank_product_def

lemma demo_items:
  "case tx_seq (new_item shirt_body ''v'' ''shirt-0001'') (new_item size_body ''w'' ''shirt-0002'') empty_db of
     Inl e \<Rightarrow> False
   | Inr (_, s) \<Rightarrow> (case db_products s of [p, q] \<Rightarrow> p = shirt_row \<and> p_id q = ''w'' \<and> p_product_type q = ''variation''
       \<and> p_deleted_at q = None \<and> p_parent_product_id q = Some ''v'' | _ \<Rightarrow> False)
     \<and> (case sold_out s of Inl e \<Rightarrow> False | Inr (_, t) \<Rightarrow>
         map (\<lambda>p. (p_id p, p_description_md p, p_stock_on_hand p, p_nip99_status p)) (db_products t)
           = [(''v'', Some ''a  c'', Some 0, ''sold''), (''w'', None, None, ''active'')])"
  by (simp add: new_item_def demo_args demo_args [unfolded demo_literals] demo_shirt [unfolded demo_literals] demo_size [unfolded demo_literals]
      create_product_tx_def insert_product_def check_free_def validate_variation_def delivery_enc_def
      replace_product_details_def present_def enqueue_stall_if_enabled_def text_col_def demo_literals evals
      sold_out_def patch_product_tx_def demo_patch [unfolded demo_literals] patch_decimals_def patch_variation_def stock_status_def arg_def json_member_def
      or_null_def write_columns_def patch_tail_def demo_columns write_product_def update_product_def bump_product_def)

lemma some_run: "(case r of Inl e \<Rightarrow> False | Inr (_, s) \<Rightarrow> P s) \<longleftrightarrow> (\<exists>s. r = Inr ((), s) \<and> P s)"
  by (cases r) auto

lemma two_rows: "(case ps of [p, q] \<Rightarrow> P p q | _ \<Rightarrow> False) \<longleftrightarrow> (\<exists>p q. ps = [p, q] \<and> P p q)"
  by (auto split: list.splits)

lemma demo_catalog:
  "\<exists>s t. (shop_step sample_env)\<^sup>*\<^sup>* (empty_db, {}) (s, {}) \<and> (shop_step sample_env)\<^sup>*\<^sup>* (s, {}) (t, {shirt_row})
     \<and> (\<exists>q. db_products s = [shirt_row, q] \<and> p_product_type q = ''variation'' \<and> p_deleted_at q = None)
     \<and> (\<exists>p q. db_products t = [p, q] \<and> p_id p = ''v'' \<and> p_description_md p = Some ''a  c'' \<and> p_stock_on_hand p = Some 0)"
proof -
  let ?new = "tx_seq (new_item shirt_body ''v'' ''shirt-0001'') (new_item size_body ''w'' ''shirt-0002'')"
  obtain s t p q where run: "?new empty_db = Inr ((), s)" "sold_out s = Inr ((), t)"
    and rows: "db_products s = [p, q]" "p = shirt_row" and q: "p_product_type q = ''variation''" "p_deleted_at q = None"
    and t: "map (\<lambda>p. (p_id p, p_description_md p, p_stock_on_hand p, p_nip99_status p)) (db_products t)
           = [(''v'', Some ''a  c'', Some 0, ''sold''), (''w'', None, None, ''active'')]"
    using demo_items unfolding some_run two_rows by (elim exE conjE) (rule that)
  have s: "db_products s = [shirt_row, q]" "p_product_type q = ''variation''" "p_deleted_at q = None"
    using rows q by simp_all
  obtain r where r: "new_item shirt_body ''v'' ''shirt-0001'' empty_db = Inr ((), r)"
    "new_item size_body ''w'' ''shirt-0002'' r = Inr ((), s)"
    using run(1) unfolding tx_seq_Inr by auto
  have new: "catalog_tx sample_env R (new_item p i d)" if "validate_product False p = Inr ()" "check_d_tag (JStr d) = Inr d" for R p i d
    unfolding new_item_def using that by (rule catalog_tx.new_product)
  have tags: "check_d_tag (JStr ''shirt-0001'') = Inr ''shirt-0001'' \<and> check_d_tag (JStr ''shirt-0002'') = Inr ''shirt-0002''"
    by code_simp
  have patch: "catalog_tx sample_env {shirt_row} sold_out"
    unfolding sold_out_def using demo_patch
    by (intro edit_product) (simp_all add: demo_literals evals)
  have "(shop_step sample_env)\<^sup>*\<^sup>* (empty_db, {}) (s, {})"
    using shop_step.edits [OF new r(1), of "{}"] shop_step.edits [OF new r(2), of "{}"] tags demo_bodies
    by (meson converse_rtranclp_into_rtranclp r_into_rtranclp)
  moreover have "(shop_step sample_env)\<^sup>*\<^sup>* (s, {}) (t, {shirt_row})"
    using shop_step.reads [of shirt_row s sample_env "{}"] shop_step.edits [OF patch run(2)] s(1)
    by (simp add: converse_rtranclp_into_rtranclp)
  ultimately show ?thesis using s t by (intro exI [of _ s] exI [of _ t]) auto
qed

text \<open>
  A second run: the merchant reads a product with five units, a checkout claims three of them, and
  the merchant then sets the stock to three.
\<close>

definition restock_body :: body where
  "restock_body = [(''stock_on_hand'', JInt 3)]"

definition restock :: "(db, unit) tx" where
  "restock = patch_product_tx sample_env sample_merchant (sample_product ''p'' (Some 5) 0) restock_body
     (text_arg restock_body ''product_type'' (p_product_type (sample_product ''p'' (Some 5) 0))) JNull
     (patch_decimals (sample_product ''p'' (Some 5) 0) restock_body) 0"

lemma demo_restock: "validate_product True restock_body = Inr () \<and> sanitize_product_fields restock_body = Inr restock_body"
  by code_simp

lemma demo_restock_columns: "product_column ''stock_on_hand'' (JInt 3) = Inr (\<lambda>p. p\<lparr>p_stock_on_hand := Some 3\<rparr>)"
  "product_column ''nip99_status'' (JStr ''active'') = Inr (\<lambda>p. p\<lparr>p_nip99_status := ''active''\<rparr>)"
  by (simp_all add: column_defs int_col_def text_col_def not_null_def)

lemma demo_restocked: "case tx_seq demo_steps restock demo_db of Inl e \<Rightarrow> False
   | Inr (_, s) \<Rightarrow> (case db_products s of [p] \<Rightarrow> p_stock_on_hand p = Some 3 \<and> p_stock_reserved p = 3 | _ \<Rightarrow> False)"
  by (simp add: demo_steps_def demo_token restock_def restock_body_def patch_product_tx_def patch_decimals_def patch_variation_def
      stock_status_def present_def arg_def json_member_def text_arg_def or_null_def write_columns_def patch_tail_def
      replace_product_details_def demo_restock_columns write_product_def update_product_def bump_product_def evals)

lemma demo_edited_shop:
  "\<exists>t p. (shop_step sample_env)\<^sup>*\<^sup>* (demo_db, {}) (t, {sample_product ''p'' (Some 5) 0}) \<and> db_products t = [p]
     \<and> p_stock_on_hand p = Some 3 \<and> p_stock_reserved p = 3"
proof -
  let ?p = "sample_product ''p'' (Some 5) 0" and ?reach = "(shop_step sample_env)\<^sup>*\<^sup>* (demo_db, {})"
  obtain t where run: "tx_seq demo_steps restock demo_db = Inr ((), t)"
    and "case db_products t of [p] \<Rightarrow> p_stock_on_hand p = Some 3 \<and> p_stock_reserved p = 3 | _ \<Rightarrow> False"
    using demo_restocked unfolding some_run by blast
  then obtain p where p: "db_products t = [p]" "p_stock_on_hand p = Some 3" "p_stock_reserved p = 3"
    by (auto split: list.splits)
  obtain s1 s2 s3 where steps:
    "tx_ignore (claim_idempotency ''scope'' ''h'' 1000) demo_db = Inr ((), s1)"
    "tx_ignore (insert_order_intake sample_env sample_merchant demo_intake demo_pricing 30 None
        ''scope'' 1 1000) s1 = Inr ((), s2)"
    "tx_ignore (claim_tx sample_env ''k'' [sample_item ''i'' ''k'' ''p'' 3] sample_merchant ''w'' 30 1000) s2 = Inr ((), s3)"
    "restock s3 = Inr ((), t)"
    using run unfolding demo_steps_def tx_seq_Inr by auto
  have order: "?reach (u, {?p}) \<Longrightarrow> service_tx sample_env m \<Longrightarrow> tx_keeps merchant_rows m \<Longrightarrow> m u = Inr ((), v) \<Longrightarrow> ?reach (v, {?p})" for u m v
    using shop_step.orders [of sample_env m u v "{?p}"] by (simp add: rtranclp.rtrancl_into_rtrancl)
  have "shop_step sample_env (demo_db, {}) (demo_db, {?p})"
    by (rule shop_step.reads) (simp add: demo_db_def)
  then have "?reach (demo_db, {?p})" by blast
  then have "?reach (s1, {?p})" by (rule order) (rule idem_claim, rule tx_keeps_ignore, rule rows_queue, rule steps(1))
  then have "?reach (s2, {?p})" by (rule order) (rule web_intake, rule tx_keeps_ignore, rule rows_intake, rule steps(2))
  then have "?reach (s3, {?p})" by (rule order) (rule claim, rule tx_keeps_ignore, rule rows_saga, rule steps(3))
  moreover have restock: "catalog_tx sample_env {?p} restock"
    unfolding restock_def using demo_restock by (intro edit_product) (simp_all add: evals)
  ultimately have "?reach (t, {?p})"
    using shop_step.edits [OF restock steps(4)] by (meson rtranclp.rtrancl_into_rtrancl)
  with p show ?thesis by blast
qed

lemma empty_db_shop: "empty_shop empty_db"
  by (simp add: empty_shop_def new_shop_def evals)

text \<open>The scheme is looked for before the tags are stripped, and stripping can put one together.\<close>

lemma stripping_tags_restores_a_scheme:
  "sanitize_markdown ''java<b>script:x'' = Inr ''javascript:x'' \<and> bad_url ''javascript:x''"
  by code_simp

section \<open>What holds in every state\<close>

text \<open>
  C1 (Stock ledger under edits). From a shop without orders on, whatever interleaving of catalog
  handlers (with product rows read arbitrarily long before) and order services runs: the reserved
  stock of a product is exactly what its held reservations hold, and never more than a finite
  stock on hand. A merchant who sets the stock while a checkout holds it cannot oversell.
\<close>

theorem reserved_stock_survives_edits:
  assumes "(shop_step E)\<^sup>*\<^sup>* (s0, {}) (s, R)" and "new_shop s0" and "p \<in> set (db_products s)"
  shows "p_stock_reserved p = sum_list (map r_quantity (filter (\<lambda>r. r_product_id r = p_id p
      \<and> r_state r = ReHeld) (db_reservations s)))
    \<and> 0 \<le> p_stock_reserved p
    \<and> (case p_stock_on_hand p of None \<Rightarrow> True | Some h \<Rightarrow> p_stock_reserved p \<le> h)"
proof -
  have ok: "off_by (\<lambda>_. 0) (stock_view s)"
    using shop_stock [OF assms(1)] new_shop_stock [OF assms(2)] by (simp add: stock_ok_def balanced_def)
  then have "p_stock_reserved p = held_qty (db_reservations s) (p_id p)"
    "fits (p_stock_on_hand p) (p_stock_reserved p)" "0 \<le> held_qty (db_reservations s) (p_id p)"
    using assms(3) by (auto simp: off_by_tables intro: held_qty_nonneg)
  then show ?thesis by (auto simp: held_qty_def fits_def split: option.splits)
qed

lemma reserved_stock_survives_edits_witness:
  "\<exists>t p. (shop_step sample_env)\<^sup>*\<^sup>* (demo_db, {}) (t, {sample_product ''p'' (Some 5) 0}) \<and> p \<in> set (db_products t)
     \<and> p_stock_on_hand p = Some 3 \<and> p_stock_reserved p = 3
     \<and> sum_list (map r_quantity (filter (\<lambda>r. r_product_id r = p_id p \<and> r_state r = ReHeld) (db_reservations t))) = 3"
proof -
  obtain t p where t: "(shop_step sample_env)\<^sup>*\<^sup>* (demo_db, {}) (t, {sample_product ''p'' (Some 5) 0})"
    "db_products t = [p]" "p_stock_on_hand p = Some 3" "p_stock_reserved p = 3"
    using demo_edited_shop by blast
  have "p \<in> set (db_products t)" using t(2) by simp
  with reserved_stock_survives_edits [OF t(1) demo_new_shop this] t
  show ?thesis by (intro exI [of _ t] exI [of _ p]) simp
qed

text \<open>
  C8 (Product rows are well formed). In every state of such a shop each product row has a title
  and a summary within their bounds (they may hold markup: the code sanitises descriptions only), a
  description within its bound and without a complete tag, a type, format,
  visibility, status and frequency from their lists, a currency code, decimals from 0 to 18, an
  amount from 0 to 2^63 - 1, and a d-tag of the pattern: the checks of the request bodies cover
  every way a column is written, the bulk actions included.
\<close>

theorem product_rows_stay_well_formed:
  assumes "(shop_step E)\<^sup>*\<^sup>* (s0, {}) (s, R)" and "empty_shop s0" and "p \<in> set (db_products s)"
  shows "validated_row p \<and> constrained_row p"
  using shop_reachable_ok [OF assms(1,2)] assms(3) by (simp add: shop_ok_def typed_products_def)

lemma product_rows_stay_well_formed_witness:
  "\<exists>t p. (shop_step sample_env)\<^sup>*\<^sup>* (empty_db, {}) (t, {shirt_row}) \<and> p \<in> set (db_products t)
     \<and> p_description_md p = Some ''a  c'' \<and> validated_row p \<and> constrained_row p"
proof -
  obtain s t p q where run: "(shop_step sample_env)\<^sup>*\<^sup>* (empty_db, {}) (s, {})" "(shop_step sample_env)\<^sup>*\<^sup>* (s, {}) (t, {shirt_row})"
    and p: "db_products t = [p, q]" "p_description_md p = Some ''a  c''"
    using demo_catalog by blast
  have "p \<in> set (db_products t)" using p(1) by simp
  with product_rows_stay_well_formed [OF rtranclp_trans [OF run] empty_db_shop this] p(2) rtranclp_trans [OF run]
  show ?thesis by blast
qed

text \<open>
  C7 (Variations hang below variable products). In every state of such a shop a live variation
  has a parent row, of the same merchant, that is a variable product: no order of creations,
  patches of the type or the parent (with rows read before), bulk actions and deletions leaves a
  variation below a product of another merchant or of another type.
\<close>

theorem live_variations_have_variable_parents:
  assumes "(shop_step E)\<^sup>*\<^sup>* (s0, {}) (s, R)" and "empty_shop s0" and "p \<in> set (db_products s)"
    and "p_product_type p = ''variation''" and "p_deleted_at p = None"
  shows "\<exists>q \<in> set (db_products s). p_parent_product_id p = Some (p_id q)
     \<and> p_merchant_id q = p_merchant_id p \<and> p_product_type q = ''variable''"
  using shop_reachable_ok [OF assms(1,2)] assms(3-5) by (simp add: shop_ok_def product_tree_def has_parent_def)

lemma live_variations_have_variable_parents_witness:
  "\<exists>s p. (shop_step sample_env)\<^sup>*\<^sup>* (empty_db, {}) (s, {}) \<and> p \<in> set (db_products s) \<and> p_product_type p = ''variation''
     \<and> (\<exists>q \<in> set (db_products s). p_parent_product_id p = Some (p_id q) \<and> p_product_type q = ''variable'')"
proof -
  obtain s q where run: "(shop_step sample_env)\<^sup>*\<^sup>* (empty_db, {}) (s, {})"
    and q: "db_products s = [shirt_row, q]" "p_product_type q = ''variation''" "p_deleted_at q = None"
    using demo_catalog by blast
  have "q \<in> set (db_products s)" using q(1) by simp
  with live_variations_have_variable_parents [OF run empty_db_shop this q(2,3)] run q(2)
  show ?thesis by blast
qed

text \<open>
  C9 (A product stays what it is). Whatever runs between two states of such a shop, a product
  that is a variation in one is a variation in the other: a patch that asks for the change, which
  the service validates and means to apply, never commits, because its single-column updates pass
  through a row the table refuses.
\<close>

theorem no_edit_turns_a_product_into_a_variation:
  assumes "(shop_step E)\<^sup>*\<^sup>* (s0, {}) (s, R)" and "empty_shop s0" and "(shop_step E)\<^sup>*\<^sup>* (s, R) (t, R')"
    and "p \<in> set (db_products s)" and "q \<in> set (db_products t)" and "p_id q = p_id p"
  shows "p_product_type q = ''variation'' \<longleftrightarrow> p_product_type p = ''variation''"
proof -
  have ok: "shop_ok (s, R)" by (rule shop_reachable_ok [OF assms(1,2)])
  then have typed: "constrained_row r" if "r \<in> set (db_products s)" for r
    using that by (simp add: shop_ok_def typed_products_def)
  have "kind_fixed (p_id p) (p_parent_product_id p \<noteq> None) s"
    using ok assms(4) typed inj_onD [of p_id "set (db_products s)" _ p]
    by (auto simp: kind_fixed_def shop_ok_def product_tree_def distinct_map)
  then have "kind_fixed (p_id p) (p_parent_product_id p \<noteq> None) t"
    using kind_steps [OF assms(3)] by simp
  then have "(p_parent_product_id q \<noteq> None) = (p_parent_product_id p \<noteq> None)" "constrained_row q"
    using assms(5,6) by (auto simp: kind_fixed_def)
  with typed [OF assms(4)] show ?thesis by (simp add: constrained_row_def)
qed

lemma no_edit_turns_a_product_into_a_variation_witness:
  "\<exists>s t p. (shop_step sample_env)\<^sup>*\<^sup>* (empty_db, {}) (s, {}) \<and> (shop_step sample_env)\<^sup>*\<^sup>* (s, {}) (t, {shirt_row})
     \<and> p \<in> set (db_products t) \<and> p_id p = ''v'' \<and> p_product_type p \<noteq> ''variation''"
proof -
  obtain s t q p q' where run: "(shop_step sample_env)\<^sup>*\<^sup>* (empty_db, {}) (s, {})" "(shop_step sample_env)\<^sup>*\<^sup>* (s, {}) (t, {shirt_row})"
    and s: "db_products s = [shirt_row, q]" and t: "db_products t = [p, q']" "p_id p = ''v''"
    using demo_catalog by blast
  have "shirt_row \<in> set (db_products s)" "p \<in> set (db_products t)" using s t(1) by simp_all
  moreover have "p_id p = p_id shirt_row" "p_product_type shirt_row = ''variable''"
    using t(2) by (simp_all add: demo_literals)
  ultimately show ?thesis
    using no_edit_turns_a_product_into_a_variation [OF run(1) empty_db_shop run(2), of shirt_row p] run t(2)
    by (intro exI [of _ s] exI [of _ t] exI [of _ p]) simp
qed

end
