(* ===== verification/CatalogHandlers.thy ===== *)
theory CatalogHandlers
  imports CatalogRuns
begin

text \<open>
  The handlers of the catalog are sequences of shop steps: whatever a handler raises on the way,
  the state it leaves is one the interleaving model reaches, so the invariants of \<open>CatalogRuns\<close>
  hold after every request.
\<close>

section \<open>What a handler has read\<close>

definition visits :: "env \<Rightarrow> db \<times> product set \<Rightarrow> product set \<Rightarrow> db \<Rightarrow> bool" where
  "visits E x Q s \<longleftrightarrow> (\<exists>R. (shop_step E)\<^sup>*\<^sup>* x (s, R) \<and> Q \<subseteq> R)"

lemma visits_less: "visits E x Q s \<Longrightarrow> P \<subseteq> Q \<Longrightarrow> visits E x P s"
  unfolding visits_def by blast

lemma catalog_tx_mono: "catalog_tx E Q m \<Longrightarrow> Q \<subseteq> R \<Longrightarrow> catalog_tx E R m"
  by (induction rule: catalog_tx.induct) (blast intro: catalog_tx.intros)+

lemma visits_tx: "catalog_tx E Q m \<Longrightarrow> tx_inv (visits E x Q) m"
proof (rule tx_invI)
  fix s t and u :: unit
  assume m: "catalog_tx E Q m" and s: "visits E x Q s" and run: "m s = Inr (u, t)"
  obtain R where R: "(shop_step E)\<^sup>*\<^sup>* x (s, R)" "Q \<subseteq> R" using s unfolding visits_def by blast
  have "shop_step E (s, R) (t, R)"
    using edits [OF catalog_tx_mono [OF m R(2)]] run by simp
  with R show "visits E x Q t" unfolding visits_def by (blast intro: rtranclp.rtrancl_into_rtrancl)
qed

lemma visits_uuid: "tx_inv (visits E x Q) (new_uuid E)"
proof (rule tx_invI)
  fix s t i
  assume s: "visits E x Q s" and run: "new_uuid E s = Inr (i, t)"
  obtain R where R: "(shop_step E)\<^sup>*\<^sup>* x (s, R)" "Q \<subseteq> R" using s unfolding visits_def by blast
  have "shop_step E (s, R) (t, R)"
    by (rule orders [OF uuid]) (simp_all add: tx_keeps_ignore rows_queue tx_ignore_Inr run)
  with R show "visits E x Q t" unfolding visits_def by (blast intro: rtranclp.rtrancl_into_rtrancl)
qed

section \<open>Reads\<close>

lemma inv_lifted: "(\<And>a. r = Inr a \<Longrightarrow> pr_inv I (k a)) \<Longrightarrow> pr_inv I (pr_bind (pr_lift r) k)"
  by (cases r) (auto simp: pr_inv_def pr_bind_def pr_lift_def pr_raise_def pr_return_def)

lemma inv_lift_end: "pr_inv I (pr_lift r)"
  by (cases r) (auto simp: pr_inv_def pr_lift_def pr_raise_def pr_return_def)

lemma fetch_scoped_run: "fetch_scoped get P s = (case List.find P (get s) of None \<Rightarrow> (Inl not_found, s) | Some r \<Rightarrow> (Inr r, s))"
  by (simp add: fetch_scoped_def pr_bind_def pr_get_def pr_raise_def pr_return_def split: option.splits)

lemma fetch_live_run: "fetch_live get P deleted s = (case List.find P (get s) of None \<Rightarrow> (Inl not_found, s)
    | Some r \<Rightarrow> if deleted r \<noteq> None then (Inl not_found, s) else (Inr r, s))"
  by (simp add: fetch_live_def fetch_scoped_run pr_bind_def pr_raise_def pr_return_def split: option.splits)

lemma inv_fetch: "pr_inv I (fetch_scoped get P)" "pr_inv I (fetch_live get P deleted)"
  by (auto simp: pr_inv_def fetch_scoped_run fetch_live_run split: option.splits)

lemma pr_inv_guard: "(\<not> b \<Longrightarrow> pr_inv I k) \<Longrightarrow> pr_inv I (if b then pr_raise e else k)"
  by (simp add: pr_inv_raise)

lemma inv_merchant:
  assumes "\<And>mrow. m_id mrow = m \<Longrightarrow> pr_inv I (k mrow)"
  shows "pr_inv I (pr_bind (get_merchant_row m user) k)"
  using assms
  by (auto simp: pr_inv_def get_merchant_row_def pr_bind_def pr_get_def pr_raise_def pr_return_def find_Some_iff split: option.splits)

lemma inv_product:
  assumes "\<And>p. p_id p = i \<Longrightarrow> p_merchant_id p = m \<Longrightarrow> pr_inv (visits E x (insert p Q)) (k p)"
  shows "pr_inv (visits E x Q) (pr_bind (live_product m i) k)"
proof (rule pr_invI)
  fix s
  assume s: "visits E x Q s"
  show "visits E x Q (snd (pr_bind (live_product m i) k s))"
  proof (cases "\<exists>p. live_product m i s = (Inr p, s)")
    case False
    then have "snd (pr_bind (live_product m i) k s) = s"
      by (auto simp: live_product_def fetch_live_run pr_bind_def split: option.splits if_splits)
    with s show ?thesis by simp
  next
    case True
    then obtain p where run: "live_product m i s = (Inr p, s)" by blast
    then have p: "p \<in> set (db_products s)" "p_id p = i" "p_merchant_id p = m"
      by (auto simp: live_product_def fetch_live_run find_Some_iff split: option.splits if_splits)
    obtain R where R: "(shop_step E)\<^sup>*\<^sup>* x (s, R)" "Q \<subseteq> R" using s unfolding visits_def by blast
    have "visits E x (insert p Q) s"
      unfolding visits_def using R shop_step.reads [OF p(1), of E R]
      by (intro exI [of _ "insert p R"]) (auto intro: rtranclp.rtrancl_into_rtrancl)
    then have "visits E x (insert p Q) (snd (k p s))" by (rule pr_invD [OF assms [OF p(2,3)]])
    then show ?thesis using run visits_less by (fastforce simp: pr_bind_def)
  qed
qed

lemma inv_views: "pr_inv I (get_product E m user i)" "pr_inv I (get_catalog m user i)" "pr_inv I (get_collection m user i)"
  "pr_inv I (get_shipping m user i)" "pr_inv I (list_live get P order m user)"
  unfolding get_product_def get_catalog_def get_collection_def get_shipping_def list_live_def live_catalog_def
    live_collection_def live_option_def
  by (intro inv_merchant pr_inv_bind inv_lifted pr_inv_if pr_inv_raise pr_inv_get inv_fetch)+

lemma inv_given_or_new: "pr_inv (visits E x Q) (given_or_new E v)"
  unfolding given_or_new_def by (intro pr_inv_if pr_inv_return pr_inv_bind pr_inv_commit visits_uuid)

lemmas handler_rules = inv_merchant inv_product inv_views inv_given_or_new inv_fetch inv_lifted inv_lift_end
  pr_inv_bind pr_inv_if pr_inv_raise pr_inv_return pr_inv_get pr_inv_commit visits_uuid

section \<open>Handlers\<close>

lemma visits_insert_catalog:
  "tx_inv (visits E x Q) (tx_bind (tx_lift r) (sql_insert db_catalogs_update catalogs_ok))"
  by (intro tx_inv_lift visits_tx new_catalog)

lemma steps_catalogs: "pr_inv (visits E x Q) (create_catalog E m user p)"
  "pr_inv (visits E x Q) (patch_catalog E m user i p)" "pr_inv (visits E x Q) (delete_catalog m user i)"
  unfolding create_catalog_def patch_catalog_def delete_catalog_def live_catalog_def
  by (intro handler_rules visits_insert_catalog visits_tx edit_catalog drop_catalog)+

lemma steps_collections: "pr_inv (visits E x Q) (create_collection E m user p)"
  "pr_inv (visits E x Q) (patch_collection E m user i p)" "pr_inv (visits E x Q) (delete_collection E m user i strip)"
  unfolding create_collection_def patch_collection_def delete_collection_def live_collection_def
  by (intro handler_rules visits_tx new_collection edit_collection drop_collection)+

lemma steps_options: "pr_inv (visits E x Q) (create_shipping E m user p)"
  "pr_inv (visits E x Q) (patch_shipping E m user i p)" "pr_inv (visits E x Q) (delete_shipping E m user i strip)"
  unfolding create_shipping_def patch_shipping_def delete_shipping_def live_option_def Let_def
  by (intro handler_rules visits_tx new_option edit_option drop_option)+

lemma steps_new_product: "pr_inv (visits E x Q) (create_product E m user p)"
  unfolding create_product_def live_catalog_def
proof (rule inv_merchant, rule inv_lifted, rule inv_lifted, rule inv_lifted, rule pr_inv_bind, rule inv_fetch,
    rule pr_inv_bind, rule inv_given_or_new)
  fix mrow :: merchant and u v cat and catrow :: Schema.catalog and d
  assume m: "m_id mrow = m" and p: "validate_product False p = Inr v"
  show "pr_inv (visits E x Q) (pr_bind (pr_lift (check_d_tag d)) (\<lambda>d_tag. pr_bind (commit (new_uuid E)) (\<lambda>i.
       pr_bind (pr_get db_clock) (\<lambda>now. pr_bind (commit (create_product_tx E mrow p (\<lambda>parent. blank_product i m cat d_tag
         (text_arg p ''product_type'' ''simple'') (text_arg p ''format'' ''physical'') parent now) now)) (\<lambda>_.
       get_product E m user i)))))"
    using new_product [of p d _ E Q mrow] p m by (intro handler_rules visits_tx) simp
qed

lemma steps_products: "pr_inv (visits E x Q) (bulk_products E K m user ids a v)"
  "pr_inv (visits E x Q) (add_product_image E m user i p)" "pr_inv (visits E x Q) (delete_product E m user i)"
  unfolding bulk_products_def add_product_image_def delete_product_def Let_def
  by (intro handler_rules visits_tx bulk_edit new_image drop_product; simp)+

lemma steps_patch: "pr_inv (visits E x Q) (patch_product E m user i p)"
  unfolding patch_product_def Let_def
proof (rule inv_merchant, rule inv_product, rule inv_lifted, rule inv_lifted, rule inv_lifted, rule pr_inv_guard)
  fix mrow :: merchant and row :: product and u v cols
  let ?parent = "if present p ''parent_product_id'' then arg p ''parent_product_id'' else or_null JStr (p_parent_product_id row)"
  assume m: "m_id mrow = m" and row: "p_id row = i" "p_merchant_id row = m"
    and p: "validate_product True p = Inr v" "sanitize_product_fields p = Inr cols" and parent: "?parent \<noteq> JStr i"
  show "pr_inv (visits E x (insert row Q)) (pr_bind (pr_get db_clock) (\<lambda>now. pr_bind (commit (patch_product_tx E mrow row p
         (text_arg p ''product_type'' (p_product_type row)) ?parent (patch_decimals row cols) now)) (\<lambda>_. get_product E m user i)))"
    using edit_product [of row "insert row Q" mrow p cols ?parent] m row p parent by (intro handler_rules visits_tx) simp
qed

definition leads_to :: "env \<Rightarrow> db \<Rightarrow> db \<Rightarrow> bool" where
  "leads_to E s t \<longleftrightarrow> (\<exists>R. (shop_step E)\<^sup>*\<^sup>* (s, {}) (t, R))"

lemma leads_toI: "pr_inv (visits E (s, {}) {}) h \<Longrightarrow> leads_to E s (snd (h s))"
  using pr_invD [of "visits E (s, {}) {}" h s] by (auto simp: visits_def leads_to_def)

text \<open>
  C10 (Catalog handlers are shop steps). Every handler of the catalog, whatever it raises on the
  way, leaves a state that the steps of the shop reach: the invariants of the interleaved catalog
  hold after every request, refused ones included.
\<close>

theorem catalog_handlers_are_shop_steps:
  "leads_to E s (snd (create_catalog E m user p s))
   \<and> leads_to E s (snd (patch_catalog E m user i p s))
   \<and> leads_to E s (snd (delete_catalog m user i s))
   \<and> leads_to E s (snd (create_product E m user p s))
   \<and> leads_to E s (snd (patch_product E m user i p s))
   \<and> leads_to E s (snd (bulk_products E K m user ids action v s))
   \<and> leads_to E s (snd (add_product_image E m user i p s))
   \<and> leads_to E s (snd (delete_product E m user i s))
   \<and> leads_to E s (snd (create_collection E m user p s))
   \<and> leads_to E s (snd (patch_collection E m user i p s))
   \<and> leads_to E s (snd (delete_collection E m user i strip s))
   \<and> leads_to E s (snd (create_shipping E m user p s))
   \<and> leads_to E s (snd (patch_shipping E m user i p s))
   \<and> leads_to E s (snd (delete_shipping E m user i strip s))"
  by (intro conjI leads_toI steps_catalogs steps_new_product steps_patch steps_products steps_collections steps_options)

end
