(* ===== verification/Spec2Isabelle.thy ===== *)
theory Spec2Isabelle
  imports Lifecycle Transitions Verified Expiry Replay OutboxLaws Leases
    PublisherRuns EmailLaws KeystoreLaws SignInLaws Conversations InboxLaws ThemeLaws Merchant CatalogHandlers
begin

text \<open>
  A model of the order and payment core of the Infinitemarkets extension of LNbits
  (\<open>src/infinitemarkets/\<close>): a shop in which a buyer's cart becomes an order, an LNbits
  invoice, reserved stock, a settlement and a stream of signed Nostr messages.

  \<^bold>\<open>The program.\<close> Handlers and background passes are coroutines of one Python process over one
  SQLite or PostgreSQL database. Every change of state happens in a
  \<open>DomainTransaction\<close> (\<open>db.py\<close>), which commits as a whole or rolls back, and transactions
  are serialised. What a handler keeps between two of its transactions may be stale when the next
  one runs; the code answers with compare-and-set updates, claim tokens and unique keys, and the
  theorems below are about what those achieve.

  \<^bold>\<open>Two monads.\<close> \<open>Prelude\<close> has the transaction \<open>('s, 'a) tx\<close>, a function from a state to an
  error or a result and a new state (an error keeps no state: that is the rollback), and the
  process \<open>('s, 'a) proc\<close>, which keeps the state it has committed when it fails. Loops of the
  source run over finite lists of rows and are \<open>tx_fold\<close>, \<open>tx_for\<close> and \<open>pr_fold\<close>; no
  fuel is used anywhere, every definition is total and executable. A raise is a value of
  \<open>error\<close>, with the status and code of a \<open>ProblemError\<close>, and the other exception classes as
  constructors of their own.

  \<^bold>\<open>Theories and code.\<close>
  \<^item> \<open>Prelude\<close>: the monads, their invariant and keeps rules (the collections \<open>pr_invs\<close>,
    \<open>keeps\<close>, \<open>nevers\<close>, \<open>evals\<close>, \<open>moves\<close>), lemmas on lists, options, folds and numbers.
  \<^item> \<open>Schema\<close>: one record per table of \<open>migrations.py\<close> that the modelled code touches, the
    enumerations of its CHECK constraints, and the database state \<open>db\<close>; tables are lists of rows
    in insertion order.
  \<^item> \<open>Crypto\<close>, \<open>Tokens\<close>: \<open>crypto.py\<close>, \<open>settings.py\<close> and the token format of
    \<open>orders.py\<close>. The environment \<open>env\<close> holds what is outside the repository: AES-GCM, HMAC,
    SHA-256, JSON text, UUID and nonce streams, key parsing. \<open>crypto_sound\<close> states what AES-GCM
    promises.
  \<^item> \<open>Samples\<close>: a concrete environment and concrete rows, on which the witnesses compute.
  \<^item> \<open>Outbox\<close>, \<open>CatalogOutbox\<close>, \<open>OrderMessages\<close>: the tables and transactions of
    \<open>services/outbox.py\<close>, the publication helpers of \<open>services/catalog.py\<close>, the rumor
    descriptors and the transactional enqueue of \<open>services/order_messages.py\<close>.
  \<^item> \<open>Fx\<close>, \<open>Cart\<close>: \<open>services/fx.py\<close> with the Decimal arithmetic digit for digit, and the
    part of \<open>services/checkout.py\<close> that resolves a cart, its destination, its surcharges and
    its prices.
  \<^item> \<open>Orders\<close>, \<open>Inventory\<close>, \<open>AuditTrail\<close>, \<open>OrderAdmin\<close>: \<open>services/orders.py\<close>: the
    transition tables, \<open>transition_order\<close> as the only writer of an order's state, the release of
    reservations; the stock invariant and its interface; the audit invariant; the merchant's
    actions and views.
  \<^item> \<open>Saga\<close>, \<open>Idempotency\<close>, \<open>Checkout\<close>: the invoice saga, the idempotency records and the
    two intake pipelines (web and Gamma) of \<open>services/checkout.py\<close>. What LNbits answers is the
    argument \<open>lnbits\<close>.
  \<^item> \<open>Settlement\<close>, \<open>Recovery\<close>: \<open>services/settlement.py\<close>: verification, confirmation,
    expiry, resolution of exceptions, reconciliation of orders, retention.
  \<^item> \<open>StorefrontMode\<close>: \<open>services/storefront_mode.py\<close> and \<open>services/readiness.py\<close>.
  \<^item> \<open>Commerce\<close>, \<open>Lifecycle\<close>: the step relation of the whole (one rule per transaction, any
    interleaving, any arguments), its reachable states, and what holds of every run.
  \<^item> \<open>StockEffects\<close>, \<open>SettlementEffects\<close>, \<open>Verified\<close>, \<open>Expiry\<close>, \<open>Transitions\<close>,
    \<open>Replay\<close>, \<open>OutboxLaws\<close>: what single operations do, on every branch.
  \<^item> \<open>Fencing\<close>, \<open>Leases\<close>: the contract of rows that are owned by token and lease, and the task
    leases of \<open>services/tasks.py\<close> with the fence of \<open>db.py\<close> as its instance.
  \<^item> \<open>RelayUrl\<close>, \<open>PeerRelays\<close>, \<open>Events\<close>: the address validation of \<open>security.py\<close>, the relay
    targets of \<open>services/relay.py\<close> and the discovery of a buyer's inbox relays
    (\<open>services/peer_relays.py\<close>); the event builders of \<open>services/events.py\<close>. What a relay
    answers, signatures and gift wraps are fields of the argument \<open>network\<close>.
  \<^item> \<open>Publisher\<close>, \<open>OutboxSteps\<close>, \<open>PublisherLaws\<close>, \<open>PublisherRuns\<close>: the publisher of \<open>services/outbox.py\<close>; a
    step relation of everything that moves an outbox row, whatever the mover remembers, and a finer
    one in which rows, plans and sends are remembered from earlier states; what holds of their runs;
    and that every \<open>worker_tick\<close> is a run of the finer one.
  \<^item> \<open>RateLimit\<close>, \<open>Email\<close>, \<open>EmailLaws\<close>: the counters of \<open>rate_limit_buckets\<close> with the contract
    of a limiter, the worker of \<open>services/email.py\<close>, its steps, and the queue as an instance of both
    contracts.
  \<^item> \<open>Keystore\<close>, \<open>KeystoreLaws\<close>: \<open>keystore.py\<close>: storage, rotation and backup of merchant keys,
    the verification of a gift wrap, and its agreement with the chain of \<open>harness/sdk.py\<close>.
  \<^item> \<open>SignIn\<close>, \<open>SignInLaws\<close>: challenges, sessions and order claims of
    \<open>services/nostr_auth.py\<close>.
  \<^item> \<open>Inbound\<close>, \<open>Conversations\<close>, \<open>Inbox\<close>, \<open>InboxLaws\<close>: what a buyer's message does, the
    merchant's conversations (\<open>services/order_messages.py\<close>), the admission, verification and
    dispatch of gift wraps (\<open>services/inbox.py\<close>), and what holds of interleaved passes over them.
  \<^item> \<open>Themes\<close>, \<open>ThemeLaws\<close>: \<open>services/themes.py\<close>, from a theme patch to the style sheet, and
    why the style sheet cannot be broken out of.
  \<^item> \<open>Merchant\<close>: \<open>services/merchant.py\<close>, the settings half of \<open>services/relay.py\<close> and the
    relay authentication of \<open>services/nostr_auth.py\<close>.

  \<^item> \<open>CatalogInput\<close>, \<open>Catalog\<close>, \<open>CatalogShipping\<close>: \<open>services/catalog.py\<close>: the checks of the
    request bodies and the way a value becomes a column; catalogs, products with their details and
    bulk actions; collections, shipping options, deletions with their survivors and tombstones.
  \<^item> \<open>CatalogLaws\<close>, \<open>CatalogSafety\<close>, \<open>CatalogRuns\<close>, \<open>CatalogHandlers\<close>: the contract of an
    invariant of the product table, the steps of a shop that is edited while it sells, four
    invariants as instances of the contract, two runs, and that every handler is a sequence of
    those steps.

  \<^bold>\<open>Modelling decisions.\<close> Integers of the code are unbounded Python ints and are \<open>int\<close>; the
  64-bit bound is a check of the code (\<open>checked_total_sat\<close>) and of the columns. A row's encrypted
  columns hold the bytes that \<open>encrypt\<close> gives. UUIDs and nonces come from the streams of
  \<open>env\<close>, indexed by a counter in the state; an insertion checks the primary key and fails with
  \<open>IntegrityError\<close> as the database does. The clock is a field of the state. The reads a handler
  makes before its transaction are one snapshot. Request bodies have the types their pydantic
  models give them; the bodies of the catalog are decoded JSON objects, and a value of a type the
  column does not take is refused by the driver. Foreign keys are not among the table constraints
  (SQLite enforces them only when a connection asks for it): the model also commits writes that a
  database enforcing them would refuse.

  \<^bold>\<open>Not modelled.\<close> The routing and rendering of \<open>views_api.py\<close>, \<open>views_public_api.py\<close> and
  \<open>views.py\<close>, which pass a request to one service call each; the relay sessions of
  \<open>services/transport.py\<close> and the loops of \<open>services/tasks.py\<close>, which schedule the modelled passes;
  the counters of \<open>services/metrics.py\<close>; the pages of \<open>services/nip89.py\<close>; the parsing of
  environment variables; the test harness beside the chain of \<open>harness/sdk.py\<close>. AES-GCM, HMAC,
  SHA-256, Schnorr signatures, NIP-44, LNbits, SMTP, the relays and the floating-point contrast
  formula of the themes are arguments.
\<close>

end
